(* ===== verification/Civil.thy ===== *)
theory Civil
  imports Prelude "HOL-Library.Signed_Division"
begin

text \<open>
  The two calendar computations of the program: \<open>civil_from_days\<close> and its inverse in
  \<open>src/src/spill.rs\<close> (which date the spill directories), and \<open>epoch_days_to_ymd\<close> in
  \<open>src/src/server/task.rs\<close> (which dates the tasks). \<open>i64\<close> values are integers: the callers pass
  \<open>secs / 86400\<close>, far from the ends of the type. \<open>u32\<close> subtraction wraps, as it does in a
  release build; the lemmas show that no wrap occurs.
\<close>

section \<open>Definitions\<close>

definition as_u32 :: "int \<Rightarrow> nat" where
  "as_u32 x = nat (x mod 2 ^ 32)"

definition u32_sub :: "nat \<Rightarrow> nat \<Rightarrow> nat" where
  "u32_sub a b = (a + 2 ^ 32 - b) mod 2 ^ 32"

definition civil_from_days :: "int \<Rightarrow> int \<times> nat \<times> nat" where
  "civil_from_days days =
     (let z = days + 719468;
          era = (if 0 \<le> z then z else z - 146096) sdiv 146097;
          doe = as_u32 (z - era * 146097);
          yoe = u32_sub (u32_sub doe (doe div 1460) + doe div 36524) (doe div 146096) div 365;
          y = int yoe + era * 400;
          doy = u32_sub doe (u32_sub (365 * yoe + yoe div 4) (yoe div 100));
          mp = (5 * doy + 2) div 153;
          d = u32_sub doy ((153 * mp + 2) div 5) + 1;
          m = (if mp < 10 then mp + 3 else u32_sub mp 9);
          y' = (if m \<le> 2 then y + 1 else y)
      in (y', m, d))"

definition days_from_civil :: "int \<Rightarrow> nat \<Rightarrow> nat \<Rightarrow> int" where
  "days_from_civil y0 m d =
     (let y = (if m \<le> 2 then y0 - 1 else y0);
          era = (if 0 \<le> y then y else y - 399) sdiv 400;
          yoe = as_u32 (y - era * 400);
          doy = u32_sub ((153 * (if 2 < m then u32_sub m 3 else m + 9) + 2) div 5 + d) 1;
          doe = (u32_sub (yoe * 365 + yoe div 4) (yoe div 100) + doy) mod 2 ^ 32
      in era * 146097 + int doe - 719468)"

definition epoch_days_to_ymd :: "nat \<Rightarrow> nat \<times> nat \<times> nat" where
  "epoch_days_to_ymd days =
     (let z = days + 719468;
          era = z div 146097;
          doe = z - era * 146097;
          yoe = (doe - doe div 1460 + doe div 36524 - doe div 146096) div 365;
          y = yoe + era * 400;
          doy = doe - (365 * yoe + yoe div 4 - yoe div 100);
          mp = (5 * doy + 2) div 153;
          d = doy - (153 * mp + 2) div 5 + 1;
          m = (if mp < 10 then mp + 3 else mp - 9);
          year = (if m \<le> 2 then y + 1 else y)
      in (year, m, d))"

section \<open>The year of an era\<close>

text \<open>The first day of year \<open>y\<close> of an era of 400 years, and the estimate of the year the code
  divides by 365.\<close>

definition year_start :: "int \<Rightarrow> int" where
  "year_start y = 365 * y + y div 4 - y div 100 + y div 400"

definition year_scale :: "int \<Rightarrow> int" where
  "year_scale doe = doe - doe div 1460 + doe div 36524 - doe div 146096"

lemma u32_sub_exact:
  assumes "b \<le> a" "a < 2 ^ 32"
  shows "u32_sub a b = a - b"
proof -
  have "a + 2 ^ 32 - b = (a - b) + 2 ^ 32" "a - b < 2 ^ 32" using assms by simp_all
  then show ?thesis by (simp only: u32_sub_def mod_add_self2 mod_less)
qed

lemma u32_sub_small: "b \<le> a \<Longrightarrow> a < 4294967296 \<Longrightarrow> u32_sub a b = a - b"
  by (simp add: u32_sub_exact)

lemma as_u32_exact: "0 \<le> x \<Longrightarrow> x < 2 ^ 32 \<Longrightarrow> as_u32 x = nat x"
  by (simp add: as_u32_def)

text \<open>Truncating division of the shifted dividend is flooring division: what the era
  computations of both functions do.\<close>

lemma neg_ceiling_div:
  assumes "0 < (b :: int)"
  shows "(b - 1 - a) div b = - (a div b)"
proof -
  have "b - 1 - a = (b - 1 - a mod b) + (- (a div b)) * b"
    by (simp add: algebra_simps)
  moreover have "(b - 1 - a mod b) div b = 0"
    using assms pos_mod_bound [of b a] pos_mod_sign [of b a]
    by (intro div_pos_pos_trivial) linarith+
  ultimately show ?thesis
    using assms by (simp only: div_mult_self1)
qed

lemma floor_sdiv:
  assumes "0 < (b :: int)"
  shows "(if 0 \<le> a then a else a - (b - 1)) sdiv b = a div b"
  using assms neg_ceiling_div [OF assms, of a]
  by (auto simp: signed_divide_int_def sgn_if algebra_simps)

lemma mono_le_interval:
  fixes f :: "nat \<Rightarrow> int"
  assumes "f 0 \<le> x" "x < f n"
  shows "\<exists>k < n. f k \<le> x \<and> x < f (Suc k)"
  using assms
proof (induction n)
  case (Suc n)
  then show ?case by (cases "x < f n") (auto simp: less_Suc_eq)
qed simp

lemma div_plus_one:
  assumes "0 < (b :: int)"
  shows "(a + 1) div b = a div b + (if b dvd a + 1 then 1 else 0)"
proof -
  define q r where "q = a div b" and "r = a mod b"
  have a: "a + 1 = q * b + (r + 1)" and r: "0 \<le> r" "r < b"
    using assms by (simp_all add: q_def r_def)
  show ?thesis
  proof (cases "r + 1 = b")
    case True
    then have "a + 1 = (q + 1) * b" using a by (simp add: algebra_simps)
    then show ?thesis using assms by (simp add: q_def)
  next
    case False
    then have "(a + 1) div b = q" "(a + 1) mod b = r + 1"
      using a r by (auto intro: int_div_pos_eq [where r = "r + 1"] int_mod_pos_eq [where q = q])
    then show ?thesis using r by (auto simp: q_def dvd_eq_mod_eq_0)
  qed
qed

lemma year_scale_mono_step: "0 \<le> n \<Longrightarrow> n + 1 < 146096 \<Longrightarrow> year_scale n \<le> year_scale (n + 1)"
  using div_plus_one [of 1460 n] div_plus_one [of 36524 n]
  by (simp add: year_scale_def)

lemma year_scale_mono:
  assumes "m \<le> n" "0 \<le> m" "n \<le> 146096"
  shows "year_scale m \<le> year_scale n"
proof -
  have "year_scale m \<le> year_scale (m + int k)" if "m + int k < 146096" for k
    using that
  proof (induction k)
    case (Suc k)
    then show ?case
      using year_scale_mono_step [of "m + int k"] assms(2) by (simp add: algebra_simps)
  qed simp
  from this [of "nat (n - m)"] this [of "nat (n - 1 - m)"] show ?thesis
    using assms by (cases "n = 146096"; cases "n = m") (auto simp: year_scale_def)
qed

text \<open>At the two ends of each of the 400 years the estimate is already exact.\<close>

lemma year_scale_ends:
  "list_all (\<lambda>y. 365 * y \<le> year_scale (year_start y) \<and>
     year_scale (year_start (y + 1) - 1) < 365 * (y + 1) \<and>
     year_start (y + 1) \<le> year_start y + 366) [0..399]"
  by code_simp

lemma year_of_era:
  assumes "0 \<le> doe" "doe < 146097"
  shows "0 \<le> year_scale doe div 365" "year_scale doe div 365 < 400"
    and "year_start (year_scale doe div 365) \<le> doe"
    and "doe \<le> year_start (year_scale doe div 365) + 365"
    and "doe < year_start (year_scale doe div 365 + 1)"
proof -
  have "year_start (int 0) \<le> doe" "doe < year_start (int 400)"
    using assms by (simp_all add: year_start_def)
  then obtain k where k: "k < 400" "year_start (int k) \<le> doe" "doe < year_start (int (Suc k))"
    using mono_le_interval [of "\<lambda>k. year_start (int k)"] by blast
  define y where "y = int k"
  have y: "0 \<le> y" "y < 400" "year_start y \<le> doe" "doe < year_start (y + 1)"
    using k by (simp_all add: y_def algebra_simps)
  then have ends: "365 * y \<le> year_scale (year_start y)"
    "year_scale (year_start (y + 1) - 1) < 365 * (y + 1)"
    "year_start (y + 1) \<le> year_start y + 366"
    using bspec [OF year_scale_ends [unfolded list_all_iff set_upto], of y] by simp_all
  have "year_start (y + 1) \<le> 146097" "0 \<le> year_start y"
    using y(1,2) by (simp_all add: year_start_def)
  then have "365 * y \<le> year_scale doe" "year_scale doe < 365 * (y + 1)"
    using ends y assms year_scale_mono [of "year_start y" doe]
      year_scale_mono [of doe "year_start (y + 1) - 1"] by linarith+
  then have "year_scale doe div 365 = y"
    by (intro int_div_pos_eq [where r = "year_scale doe - 365 * y"]) simp_all
  with y ends show "0 \<le> year_scale doe div 365" "year_scale doe div 365 < 400"
    and "year_start (year_scale doe div 365) \<le> doe"
    and "doe \<le> year_start (year_scale doe div 365) + 365"
    and "doe < year_start (year_scale doe div 365 + 1)" by simp_all
qed

section \<open>The month of a year\<close>

definition month_start :: "nat \<Rightarrow> nat" where
  "month_start mp = (153 * mp + 2) div 5"

lemma month_of_year:
  assumes "doy \<le> 365" "mp = (5 * doy + 2) div 153"
  shows "mp < 12" "month_start mp \<le> doy" "doy < month_start mp + 31"
proof -
  have "153 * mp \<le> 5 * doy + 2" "5 * doy + 2 < 153 * mp + 153"
    using assms(2) by linarith+
  moreover have "5 * month_start mp \<le> 153 * mp + 2" "153 * mp + 2 < 5 * month_start mp + 5"
    unfolding month_start_def by linarith+
  ultimately show "mp < 12" "month_start mp \<le> doy" "doy < month_start mp + 31"
    using assms(1) by linarith+
qed

section \<open>The parts of a day\<close>

text \<open>Every computation below, the two of the source and the reference, goes through the same
  parts of a day number: era, year of the era, day of the year, month.\<close>

definition doe_year :: "nat \<Rightarrow> nat" where
  "doe_year doe = nat (year_scale (int doe) div 365)"

definition doe_doy :: "nat \<Rightarrow> nat" where
  "doe_doy doe = nat (int doe - year_start (int (doe_year doe)))"

definition month_number :: "nat \<Rightarrow> nat" where
  "month_number mp = (if mp < 10 then mp + 3 else mp - 9)"

lemma doe_parts:
  assumes "doe < 146097"
  shows "doe_year doe < 400" "doe_doy doe \<le> 365"
    and "int doe = year_start (int (doe_year doe)) + int (doe_doy doe)"
    and "int doe < year_start (int (doe_year doe) + 1)"
  using year_of_era [of "int doe"] assms by (simp_all add: doe_year_def doe_doy_def)

lemma int_year_scale:
  "int (doe - doe div 1460 + doe div 36524 - doe div 146096) = year_scale (int doe)"
proof -
  have "doe div 146096 \<le> doe div 36524" by (simp add: div_le_mono2)
  moreover have "doe div 1460 \<le> doe" by simp
  ultimately show ?thesis
    by (simp add: year_scale_def of_nat_diff zdiv_int)
qed

lemma int_year_start:
  "y < 400 \<Longrightarrow> int (365 * y + y div 4 - y div 100) = year_start (int y)"
proof -
  assume "y < 400"
  moreover have "y div 100 \<le> y div 4" by (simp add: div_le_mono2)
  ultimately show ?thesis
    by (simp add: year_start_def of_nat_diff zdiv_int)
qed

lemma yoe_nat:
  assumes "doe < 146097"
  shows "(doe - doe div 1460 + doe div 36524 - doe div 146096) div 365 = doe_year doe"
proof -
  have "int ((doe - doe div 1460 + doe div 36524 - doe div 146096) div 365) =
      year_scale (int doe) div 365"
    using int_year_scale [of doe] by (simp only: zdiv_int of_nat_numeral)
  then show ?thesis by (simp only: doe_year_def) (metis nat_int)
qed

lemma yoe_u32:
  assumes "doe < 146097"
  shows "u32_sub (u32_sub doe (doe div 1460) + doe div 36524) (doe div 146096) div 365 = doe_year doe"
proof -
  have "doe div 146096 \<le> doe div 36524" by (simp add: div_le_mono2)
  moreover have "doe div 36524 \<le> doe" "doe div 1460 \<le> doe" by simp_all
  ultimately have "u32_sub doe (doe div 1460) = doe - doe div 1460"
    "u32_sub (doe - doe div 1460 + doe div 36524) (doe div 146096) =
       doe - doe div 1460 + doe div 36524 - doe div 146096"
    using assms by - (rule u32_sub_small, linarith, linarith)+
  then show ?thesis by (simp only: yoe_nat [OF assms])
qed

lemma doy_nat:
  assumes "doe < 146097" "yoe = doe_year doe"
  shows "365 * yoe + yoe div 4 - yoe div 100 \<le> doe"
    and "doe - (365 * yoe + yoe div 4 - yoe div 100) = doe_doy doe"
proof -
  have "int (365 * yoe + yoe div 4 - yoe div 100) = year_start (int yoe)"
    using assms doe_parts(1) by (intro int_year_start) simp
  then have "int doe = int (365 * yoe + yoe div 4 - yoe div 100) + int (doe_doy doe)"
    using doe_parts(3) [OF assms(1)] assms(2) by simp
  then show "365 * yoe + yoe div 4 - yoe div 100 \<le> doe"
    and "doe - (365 * yoe + yoe div 4 - yoe div 100) = doe_doy doe"
    by (simp_all only: of_nat_add [symmetric] of_nat_eq_iff)
qed

lemma doy_u32:
  assumes "doe < 146097" "yoe = doe_year doe"
  shows "u32_sub doe (u32_sub (365 * yoe + yoe div 4) (yoe div 100)) = doe_doy doe"
proof -
  have "yoe < 400" using assms doe_parts(1) by simp
  moreover have "yoe div 100 \<le> yoe div 4" by (simp add: div_le_mono2)
  ultimately have "u32_sub (365 * yoe + yoe div 4) (yoe div 100) = 365 * yoe + yoe div 4 - yoe div 100"
    by (intro u32_sub_exact) simp_all
  with assms doy_nat [OF assms] show ?thesis by (simp add: u32_sub_exact)
qed

lemma era_day:
  fixes z :: int
  defines "doe \<equiv> nat (z - z div 146097 * 146097)"
  shows "as_u32 (z - z div 146097 * 146097) = doe" "doe < 146097" "z = z div 146097 * 146097 + int doe"
proof -
  have r: "z - z div 146097 * 146097 = z mod 146097" by (simp add: minus_div_mult_eq_mod)
  show "as_u32 (z - z div 146097 * 146097) = doe"
    unfolding doe_def r by (intro as_u32_exact) (simp_all add: order_less_trans [OF pos_mod_bound])
  show "doe < 146097" "z = z div 146097 * 146097 + int doe"
    unfolding doe_def r by (simp_all add: nat_less_iff)
qed

section \<open>Closed forms\<close>

definition civil_of_parts :: "int \<Rightarrow> nat \<Rightarrow> int \<times> nat \<times> nat" where
  "civil_of_parts era doe =
     (let doy = doe_doy doe; mp = (5 * doy + 2) div 153; m = month_number mp;
          y = int (doe_year doe) + era * 400
      in (if m \<le> 2 then y + 1 else y, m, doy - month_start mp + 1))"

lemma civil_from_days_parts:
  assumes "z = days + 719468"
  shows "civil_from_days days = civil_of_parts (z div 146097) (nat (z - z div 146097 * 146097))"
proof -
  define doe where "doe = nat (z - z div 146097 * 146097)"
  define doy where "doy = doe_doy doe"
  define mp where "mp = (5 * doy + 2) div 153"
  have era: "(if 0 \<le> z then z else z - 146096) sdiv 146097 = z div 146097"
    using floor_sdiv [of 146097 z] by (simp split: if_splits)
  have doe: "as_u32 (z - z div 146097 * 146097) = doe" "doe < 146097"
    using era_day [of z] by (simp_all add: doe_def)
  note month = month_of_year [OF doe_parts(2) [OF doe(2)] mp_def [unfolded doy_def]]
  have "u32_sub doy ((153 * mp + 2) div 5) = doy - month_start mp"
    using month(2) doe_parts(2) [OF doe(2)]
    by (simp add: u32_sub_exact doy_def month_start_def)
  moreover have "(if mp < 10 then mp + 3 else u32_sub mp 9) = month_number mp"
    using month(1) by (simp add: month_number_def u32_sub_exact)
  ultimately show ?thesis
    unfolding civil_from_days_def civil_of_parts_def Let_def assms [symmetric] era doe(1)
      yoe_u32 [OF doe(2)] doy_u32 [OF doe(2) refl] doe_def [symmetric]
      doy_def [symmetric] mp_def [symmetric]
    by simp
qed

lemma epoch_days_to_ymd_parts:
  assumes "z = days + 719468"
  shows "map_prod int id (epoch_days_to_ymd days) = civil_of_parts (int (z div 146097)) (z - z div 146097 * 146097)"
proof -
  define doe where "doe = z - z div 146097 * 146097"
  have doe: "doe < 146097"
    by (simp add: doe_def minus_div_mult_eq_mod)
  show ?thesis
    unfolding epoch_days_to_ymd_def civil_of_parts_def Let_def assms [symmetric]
      doe_def [symmetric] yoe_nat [OF doe] doy_nat(2) [OF doe refl]
    by (simp add: month_number_def month_start_def)
qed

lemma civil_of_parts_valid:
  assumes "doe < 146097" "civil_of_parts era doe = (y, m, d)"
  shows "1 \<le> m \<and> m \<le> 12 \<and> 1 \<le> d \<and> d \<le> 31"
proof -
  define mp where "mp = (5 * doe_doy doe + 2) div 153"
  note month = month_of_year [OF doe_parts(2) [OF assms(1)] mp_def]
  have "m = month_number mp" "d = doe_doy doe - month_start mp + 1"
    using assms(2) by (auto simp: civil_of_parts_def Let_def mp_def)
  with month show ?thesis by (auto simp: month_number_def)
qed

text \<open>The inverse recovers the parts.\<close>

lemma month_inverse:
  "mp < 12 \<Longrightarrow> (if 2 < month_number mp then u32_sub (month_number mp) 3 else month_number mp + 9) = mp"
  by (auto simp: month_number_def u32_sub_exact)

lemma days_from_civil_of_parts:
  assumes "doe < 146097" "civil_of_parts era doe = (y, m, d)"
  shows "days_from_civil y m d = era * 146097 + int doe - 719468"
proof -
  define doy where "doy = doe_doy doe"
  define mp where "mp = (5 * doy + 2) div 153"
  define yoe where "yoe = doe_year doe"
  note month = month_of_year [OF doe_parts(2) [OF assms(1)] mp_def [unfolded doy_def]]
  have m: "m = month_number mp" and d: "d = doy - month_start mp + 1"
    and y: "(if m \<le> 2 then y - 1 else y) = int yoe + era * 400"
    using assms(2) by (auto simp: civil_of_parts_def Let_def doy_def mp_def yoe_def)
  have yoe: "yoe < 400" using doe_parts(1) [OF assms(1)] by (simp add: yoe_def)
  have era: "(int yoe + era * 400) div 400 = era" using yoe by simp
  have "month_start mp + d = Suc doy"
    using d month(2) by (simp add: doy_def)
  then have doy: "u32_sub ((153 * mp + 2) div 5 + d) 1 = doy"
    using doe_parts(2) [OF assms(1)]
    by (simp only: month_start_def [symmetric]) (simp add: u32_sub_exact doy_def)
  have "yoe div 100 \<le> yoe div 4" by (simp add: div_le_mono2)
  then have ys: "u32_sub (yoe * 365 + yoe div 4) (yoe div 100) = 365 * yoe + yoe div 4 - yoe div 100"
    using yoe by (simp add: u32_sub_exact mult.commute)
  have "365 * yoe + yoe div 4 - yoe div 100 + doy = doe"
    using doy_nat [OF assms(1) yoe_def] by (simp add: doy_def)
  moreover have "doe mod 2 ^ 32 = doe" using assms(1) by simp
  ultimately have "(u32_sub (yoe * 365 + yoe div 4) (yoe div 100) + doy) mod 2 ^ 32 = doe"
    by (simp only: ys)
  moreover have "(if 0 \<le> int yoe + era * 400 then int yoe + era * 400
      else int yoe + era * 400 - 399) sdiv 400 = era"
    using floor_sdiv [of 400 "int yoe + era * 400"] era by (simp split: if_splits)
  moreover have "as_u32 (int yoe + era * 400 - era * 400) = yoe"
    using yoe by (simp add: as_u32_exact)
  ultimately show ?thesis
    by (simp only: days_from_civil_def Let_def y month_inverse [OF month(1), folded m] doy)
qed

lemma civil_from_days_cases:
  obtains era doe where "doe < 146097" "days = era * 146097 + int doe - 719468"
    "civil_from_days days = civil_of_parts era doe"
proof -
  define z where "z = days + 719468"
  define doe where "doe = nat (z - z div 146097 * 146097)"
  have "doe < 146097" "z = z div 146097 * 146097 + int doe"
    using era_day [of z] by (simp_all add: doe_def)
  moreover have "civil_from_days days = civil_of_parts (z div 146097) doe"
    using civil_from_days_parts [OF z_def] by (simp add: doe_def)
  ultimately show thesis
    using that [of doe "z div 146097"] by (simp add: z_def)
qed

section \<open>The calendar\<close>

text \<open>The reference: the Gregorian calendar by its rules, one day at a time.\<close>

definition leap_year :: "int \<Rightarrow> bool" where
  "leap_year y \<longleftrightarrow> 4 dvd y \<and> (\<not> 100 dvd y \<or> 400 dvd y)"

definition days_in_month :: "int \<Rightarrow> nat \<Rightarrow> nat" where
  "days_in_month y m =
     (if m = 2 then (if leap_year y then 29 else 28) else if m \<in> {4, 6, 9, 11} then 30 else 31)"

definition valid_date :: "int \<times> nat \<times> nat \<Rightarrow> bool" where
  "valid_date = (\<lambda>(y, m, d). 1 \<le> m \<and> m \<le> 12 \<and> 1 \<le> d \<and> d \<le> days_in_month y m)"

definition next_date :: "int \<times> nat \<times> nat \<Rightarrow> int \<times> nat \<times> nat" where
  "next_date = (\<lambda>(y, m, d).
     if d < days_in_month y m then (y, m, d + 1)
     else if m < 12 then (y, m + 1, 1)
     else (y + 1, 1, 1))"

text \<open>The length of a year that starts in March, which is leap when the next January's year is.\<close>

lemma year_length:
  "year_start (y + 1) - year_start y = (if leap_year (y + 1) then 366 else 365)"
proof -
  define p q r where "p \<longleftrightarrow> 4 dvd y + 1" and "q \<longleftrightarrow> 100 dvd y + 1" and "r \<longleftrightarrow> 400 dvd y + 1"
  have "r \<Longrightarrow> q" unfolding q_def r_def by (rule dvd_trans [of 100 400]) simp_all
  moreover have "q \<Longrightarrow> p" unfolding p_def q_def by (rule dvd_trans [of 4 100]) simp_all
  moreover have "leap_year (y + 1) \<longleftrightarrow> p \<and> (\<not> q \<or> r)"
    by (simp only: leap_year_def p_def q_def r_def)
  moreover have "(y + 1) div 4 = y div 4 + (if p then 1 else 0)"
    "(y + 1) div 100 = y div 100 + (if q then 1 else 0)"
    "(y + 1) div 400 = y div 400 + (if r then 1 else 0)"
    unfolding p_def q_def r_def by (rule div_plus_one, simp)+
  ultimately show ?thesis
    by (cases p; cases q; cases r) (simp_all only: year_start_def, simp_all)
qed

lemma leap_year_period: "leap_year (y + era * 400) \<longleftrightarrow> leap_year y"
proof -
  have "4 dvd era * 400" "100 dvd era * 400" "400 dvd era * 400" by simp_all
  then show ?thesis by (simp add: leap_year_def dvd_add_left_iff)
qed

lemma year_start_period: "year_start (y + era * 400) = year_start y + era * 146097"
proof -
  have "y + era * 400 = y + (era * 100) * 4" "y + era * 400 = y + (era * 4) * 100" by simp_all
  then have "(y + era * 400) div 4 = era * 100 + y div 4" "(y + era * 400) div 100 = era * 4 + y div 100"
    by (simp_all only: div_mult_self1 zero_neq_numeral not_False_eq_True)
  then show ?thesis by (simp add: year_start_def algebra_simps)
qed

lemma year_start_less: "y < y' \<Longrightarrow> year_start (y + 1) \<le> year_start y'"
proof -
  have step: "year_start y \<le> year_start (y + int k)" for y k
  proof (induction k)
    case (Suc k)
    then show ?case using year_length [of "y + int k"] by (simp add: algebra_simps split: if_splits)
  qed simp
  assume "y < y'"
  with step [of "y + 1" "nat (y' - y - 1)"] show ?thesis by simp
qed

text \<open>The day number of a date, from the start of its March year and of its month.\<close>

definition march_year :: "int \<Rightarrow> nat \<Rightarrow> int" where
  "march_year y m = (if m \<le> 2 then y - 1 else y)"

definition march_month :: "nat \<Rightarrow> nat" where
  "march_month m = (if 2 < m then m - 3 else m + 9)"

definition day_of_year :: "nat \<Rightarrow> nat \<Rightarrow> nat" where
  "day_of_year m d = month_start (march_month m) + d - 1"

definition day_number :: "int \<times> nat \<times> nat \<Rightarrow> int" where
  "day_number = (\<lambda>(y, m, d). year_start (march_year y m) + int (day_of_year m d) - 719468)"

lemma month_range:
  assumes "1 \<le> m" "m \<le> 12"
  obtains "m = 1" | "m = 2" | "m = 3" | "m = 4" | "m = 5" | "m = 6" | "m = 7" | "m = 8"
    | "m = 9" | "m = 10" | "m = 11" | "m = (12 :: nat)"
proof -
  have "m = 1 \<or> m = 2 \<or> m = 3 \<or> m = 4 \<or> m = 5 \<or> m = 6 \<or> m = 7 \<or> m = 8 \<or> m = 9 \<or> m = 10 \<or>
      m = 11 \<or> m = 12"
    using assms by presburger
  with that show thesis by blast
qed

lemmas month_defs = march_month_def month_start_def days_in_month_def march_year_def

lemma february_end:
  "month_start 11 + days_in_month y 2 = nat (year_start (march_year y 2 + 1) - year_start (march_year y 2))"
  using year_length [of "march_year y 2"]
  by (simp add: march_year_def days_in_month_def month_start_def)

lemma month_end:
  assumes "1 \<le> m" "m \<le> 12" "m \<noteq> 2"
  shows "month_start (march_month m) + days_in_month y m = month_start (march_month m + 1)"
  using assms(1,2) by (rule month_range) (use assms(3) in \<open>simp_all add: month_defs\<close>)

lemma valid_day_of_year:
  assumes "valid_date (y, m, d)"
  shows "day_of_year m d < nat (year_start (march_year y m + 1) - year_start (march_year y m))"
    and "(5 * day_of_year m d + 2) div 153 = march_month m"
proof -
  have m: "1 \<le> m" "m \<le> 12" and d: "1 \<le> d" "d \<le> days_in_month y m"
    using assms by (simp_all add: valid_date_def)
  have len: "365 \<le> nat (year_start (march_year y m + 1) - year_start (march_year y m))"
    using year_length [of "march_year y m"] by simp
  have "month_start (march_month m) + days_in_month y m \<le>
      (if m = 2 then nat (year_start (march_year y m + 1) - year_start (march_year y m)) else 337)"
    using february_end [of y] m
    by (cases rule: month_range [OF m]) (simp_all add: month_defs)
  with len d show "day_of_year m d < nat (year_start (march_year y m + 1) - year_start (march_year y m))"
    by (auto simp: day_of_year_def split: if_splits)
  show "(5 * day_of_year m d + 2) div 153 = march_month m"
    using d by (cases rule: month_range [OF m])
      (auto simp: month_defs day_of_year_def intro!: div_nat_eqI split: if_splits)
qed

lemma march_month_inverse:
  "1 \<le> m \<Longrightarrow> m \<le> 12 \<Longrightarrow> march_month m < 12 \<and> month_number (march_month m) = m"
  by (auto simp: march_month_def month_number_def)

lemma march_month_month_number: "mp < 12 \<Longrightarrow> march_month (month_number mp) = mp"
  by (auto simp: march_month_def month_number_def)

text \<open>Day numbers tell valid dates apart.\<close>

lemma day_number_inj:
  assumes "valid_date (y, m, d)" "valid_date (y', m', d')" "day_number (y, m, d) = day_number (y', m', d')"
  shows "(y, m, d) = (y', m', d')"
proof -
  have lt: "year_start (march_year y m) \<le> day_number (y, m, d) + 719468"
    "day_number (y, m, d) + 719468 < year_start (march_year y m + 1)" if "valid_date (y, m, d)" for y m d
    using valid_day_of_year(1) [OF that] by (simp_all add: day_number_def)
  have my: "march_year y m = march_year y' m'"
    using lt [OF assms(1)] lt [OF assms(2)] assms(3)
      year_start_less [of "march_year y m" "march_year y' m'"]
      year_start_less [of "march_year y' m'" "march_year y m"] by linarith
  then have doy: "day_of_year m d = day_of_year m' d'"
    using assms(3) by (simp add: day_number_def)
  then have "march_month m = march_month m'"
    using valid_day_of_year(2) [OF assms(1)] valid_day_of_year(2) [OF assms(2)] by simp
  then have "m = m'"
    using assms(1,2) march_month_inverse by (metis (no_types, lifting) case_prodD valid_date_def)
  moreover have "d = d'"
    using doy calculation assms(1,2) by (simp add: day_of_year_def valid_date_def) linarith
  ultimately show ?thesis using my by (simp add: march_year_def split: if_splits)
qed

lemma civil_of_parts_number:
  assumes "doe < 146097" "civil_of_parts era doe = (y, m, d)"
  shows "valid_date (y, m, d) \<and> day_number (y, m, d) = era * 146097 + int doe - 719468"
proof -
  define doy where "doy = doe_doy doe"
  define mp where "mp = (5 * doy + 2) div 153"
  note parts = doe_parts [OF assms(1)]
  note month = month_of_year [OF parts(2) mp_def [unfolded doy_def]]
  have m: "m = month_number mp" "march_month m = mp" and d: "d = doy - month_start mp + 1"
    and y: "march_year y m = int (doe_year doe) + era * 400"
    using assms(2) month(1)
    by (auto simp: civil_of_parts_def Let_def doy_def mp_def march_year_def march_month_month_number)
  have doy: "day_of_year m d = doy" and range: "1 \<le> m" "m \<le> 12"
    using d m month(1,2) by (auto simp: day_of_year_def doy_def month_number_def)
  have start: "year_start (march_year y m) = year_start (int (doe_year doe)) + era * 146097"
    "year_start (march_year y m + 1) = year_start (int (doe_year doe) + 1) + era * 146097"
    using year_start_period [of "int (doe_year doe)" era]
      year_start_period [of "int (doe_year doe) + 1" era] y by (simp_all add: algebra_simps)
  have "d \<le> days_in_month y m"
  proof (cases "m = 2")
    case True
    then have "mp = 11" using m(2) by (simp add: march_month_def)
    moreover have "int doy < year_start (march_year y m + 1) - year_start (march_year y m)"
      using parts(3,4) start by (simp add: doy_def)
    ultimately show ?thesis
      using february_end [of y] True d month(2) by (simp add: doy_def)
  next
    case False
    have "5 * doy + 2 < 153 * mp + 153" using mp_def by linarith
    moreover define k where "k = month_start (mp + 1)"
    moreover have "153 * mp + 155 < 5 * k + 5"
      unfolding k_def month_start_def by simp
    ultimately have "doy < month_start (mp + 1)" by linarith
    then show ?thesis
      using month_end [OF range False, of y] m(2) d month(2) by (simp add: doy_def)
  qed
  with range d start parts(3) doy show ?thesis
    by (simp add: valid_date_def day_number_def doy_def)
qed

lemma next_date_number:
  assumes "valid_date (y, m, d)"
  shows "valid_date (next_date (y, m, d)) \<and> day_number (next_date (y, m, d)) = day_number (y, m, d) + 1"
proof -
  have m: "1 \<le> m" "m \<le> 12" and d: "1 \<le> d" "d \<le> days_in_month y m"
    using assms by (simp_all add: valid_date_def)
  consider (inner) "d < days_in_month y m" | (feb) "d = days_in_month y m" "m = 2"
    | (dec) "d = days_in_month y m" "m = 12" | (month) "d = days_in_month y m" "m \<noteq> 2" "m < 12"
    using m d by linarith
  then show ?thesis
  proof cases
    case inner
    with m d show ?thesis
      by (simp add: next_date_def valid_date_def day_number_def day_of_year_def)
  next
    case feb
    then show ?thesis
      using february_end [of y] year_length [of "march_year y 2"]
      by (simp add: next_date_def valid_date_def day_number_def day_of_year_def month_defs split: if_splits)
  next
    case dec
    then show ?thesis
      by (simp add: next_date_def valid_date_def day_number_def day_of_year_def month_defs)
  next
    case month
    have "march_year y (m + 1) = march_year y m" "march_month (m + 1) = march_month m + 1"
      using month(2,3) m(1) by (auto simp: march_year_def march_month_def)
    then show ?thesis
      using month month_end [OF m month(2), of y] d m
      by (simp add: next_date_def valid_date_def day_number_def day_of_year_def)
        (simp add: days_in_month_def)
  qed
qed

section \<open>Properties\<close>

lemma civil_inverse:
  assumes "civil_from_days days = (y, m, d)"
  shows "valid_date (y, m, d)" "day_number (y, m, d) = days" "days_from_civil y m d = days"
proof -
  obtain era doe where parts: "doe < 146097" "days = era * 146097 + int doe - 719468"
    "civil_from_days days = civil_of_parts era doe"
    by (rule civil_from_days_cases)
  with assms have ymd: "civil_of_parts era doe = (y, m, d)" by simp
  show "valid_date (y, m, d)" "day_number (y, m, d) = days" "days_from_civil y m d = days"
    using civil_of_parts_number [OF parts(1) ymd] days_from_civil_of_parts [OF parts(1) ymd] parts(2) by simp_all
qed

lemma civil_from_daysI:
  assumes "valid_date (y, m, d)" "day_number (y, m, d) = days"
  shows "civil_from_days days = (y, m, d)"
proof -
  obtain y' m' d' where ymd: "civil_from_days days = (y', m', d')"
    by (cases "civil_from_days days")
  with assms civil_inverse [OF ymd] show ?thesis by (metis day_number_inj)
qed

text \<open>For every day number, positive or negative, \<open>days_from_civil\<close> inverts
  \<open>civil_from_days\<close>, in spite of the wrapping 32-bit arithmetic of both; the date is a real one.\<close>

theorem civil_roundtrip:
  "case civil_from_days days of (y, m, d) \<Rightarrow> valid_date (y, m, d) \<and> days_from_civil y m d = days"
  using civil_inverse [of days] by (simp split: prod.split)

text \<open>\<open>civil_from_days\<close> is the Gregorian calendar: day 0 is 1 January 1970 and each next day
  has the next date by the leap-year rules.\<close>

theorem civil_from_days_calendar:
  "civil_from_days 0 = (1970, 1, 1) \<and> civil_from_days (days + 1) = next_date (civil_from_days days)"
proof
  show "civil_from_days 0 = (1970, 1, 1)"
    by (rule civil_from_daysI)
      (simp_all add: valid_date_def day_number_def day_of_year_def month_defs year_start_def)
next
  obtain y m d where ymd: "civil_from_days days = (y, m, d)"
    by (cases "civil_from_days days")
  obtain y' m' d' where ymd': "next_date (y, m, d) = (y', m', d')"
    by (cases "next_date (y, m, d)")
  have "valid_date (y', m', d')" "day_number (y', m', d') = days + 1"
    using civil_inverse [OF ymd] next_date_number [of y m d] ymd' by simp_all
  from civil_from_daysI [OF this] show "civil_from_days (days + 1) = next_date (civil_from_days days)"
    by (simp only: ymd ymd')
qed

text \<open>The task registry's unsigned date computation agrees with the spill module's signed one
  on every day since the epoch.\<close>

theorem epoch_days_to_ymd_agrees:
  "map_prod int id (epoch_days_to_ymd days) = civil_from_days (int days)"
proof -
  define z where "z = days + 719468"
  have z: "int z = int days + 719468" by (simp add: z_def)
  have "int z div 146097 = int (z div 146097)" by (simp add: zdiv_int)
  moreover have "nat (int z - int (z div 146097) * 146097) = z - z div 146097 * 146097" by linarith
  ultimately have "civil_from_days (int days) =
      civil_of_parts (int (z div 146097)) (z - z div 146097 * 146097)"
    using civil_from_days_parts [OF z] by argo
  with epoch_days_to_ymd_parts [OF z_def] show ?thesis by argo
qed

end
