(* ===== verification/Rust_Str.thy ===== *)
theory Rust_Str
  imports Prelude
begin

text \<open>
  The operations of Rust's \<open>str\<close> and integer parsing and formatting that the program uses.
  A \<open>string\<close> is the UTF-8 byte sequence of the Rust string, so \<open>length\<close> is \<open>len()\<close>, and a
  \<open>char\<close> of the model is one byte. Substring search, prefixes and splitting at an ASCII byte are
  the same on bytes as on characters.
\<close>

section \<open>Substrings\<close>

fun contains_str :: "string \<Rightarrow> string \<Rightarrow> bool" where
  "contains_str [] needle \<longleftrightarrow> needle = []"
| "contains_str (c # cs) needle \<longleftrightarrow> prefix needle (c # cs) \<or> contains_str cs needle"

lemma contains_str_sublist: "contains_str hay needle \<longleftrightarrow> sublist needle hay"
  by (induction hay) (auto simp: sublist_Cons_right)

definition strip_prefix_str :: "string \<Rightarrow> string \<Rightarrow> string option" where
  "strip_prefix_str p s = (if prefix p s then Some (drop (length p) s) else None)"

lemma strip_prefix_str_Some: "strip_prefix_str p s = Some r \<longleftrightarrow> s = p @ r"
  by (auto simp: strip_prefix_str_def prefix_def)

section \<open>ASCII case\<close>

definition ascii_lower :: "char \<Rightarrow> char" where
  "ascii_lower c =
     (let n = (of_char c :: nat) in if 65 \<le> n \<and> n \<le> 90 then char_of (n + 32) else c)"

definition to_ascii_lowercase :: "string \<Rightarrow> string" where
  "to_ascii_lowercase = map ascii_lower"

section \<open>White space\<close>

text \<open>The UTF-8 encodings of the characters with the Unicode property \<open>White_Space\<close>, which is
  what \<open>char::is_whitespace\<close> and \<open>str::trim\<close> test.\<close>

definition ws_seqs :: "string list" where
  "ws_seqs =
     [[CHR 0x09], [CHR 0x0A], [CHR 0x0B], [CHR 0x0C], [CHR 0x0D], [CHR 0x20],
      [CHR 0xC2, CHR 0x85], [CHR 0xC2, CHR 0xA0], [CHR 0xE1, CHR 0x9A, CHR 0x80],
      [CHR 0xE2, CHR 0x80, CHR 0x80], [CHR 0xE2, CHR 0x80, CHR 0x81],
      [CHR 0xE2, CHR 0x80, CHR 0x82], [CHR 0xE2, CHR 0x80, CHR 0x83],
      [CHR 0xE2, CHR 0x80, CHR 0x84], [CHR 0xE2, CHR 0x80, CHR 0x85],
      [CHR 0xE2, CHR 0x80, CHR 0x86], [CHR 0xE2, CHR 0x80, CHR 0x87],
      [CHR 0xE2, CHR 0x80, CHR 0x88], [CHR 0xE2, CHR 0x80, CHR 0x89],
      [CHR 0xE2, CHR 0x80, CHR 0x8A], [CHR 0xE2, CHR 0x80, CHR 0xA8],
      [CHR 0xE2, CHR 0x80, CHR 0xA9], [CHR 0xE2, CHR 0x80, CHR 0xAF],
      [CHR 0xE2, CHR 0x81, CHR 0x9F], [CHR 0xE3, CHR 0x80, CHR 0x80]]"

text \<open>Drop leading occurrences of any of the given sequences; each drops at least one byte, so
  the length of the string bounds the number of rounds.\<close>

fun drop_seqs :: "nat \<Rightarrow> string list \<Rightarrow> string \<Rightarrow> string" where
  "drop_seqs 0 ws s = s"
| "drop_seqs (Suc n) ws s =
     (case find (\<lambda>w. prefix w s) ws of
        None \<Rightarrow> s
      | Some w \<Rightarrow> drop_seqs n ws (drop (length w) s))"

definition trim_start :: "string \<Rightarrow> string" where
  "trim_start s = drop_seqs (length s) ws_seqs s"

definition trim_end :: "string \<Rightarrow> string" where
  "trim_end s = rev (drop_seqs (length s) (map rev ws_seqs) (rev s))"

definition trim :: "string \<Rightarrow> string" where
  "trim s = trim_end (trim_start s)"

text \<open>\<open>chars().filter(|c| !c.is_whitespace())\<close>: drop white-space characters wherever they
  stand. A byte that starts no white-space sequence is kept; no encoding of another character
  contains one of these sequences at a character boundary.\<close>

fun remove_ws_fuel :: "nat \<Rightarrow> string \<Rightarrow> string" where
  "remove_ws_fuel 0 s = []"
| "remove_ws_fuel (Suc n) s =
     (case s of
        [] \<Rightarrow> []
      | c # cs \<Rightarrow>
          (case find (\<lambda>w. prefix w s) ws_seqs of
             None \<Rightarrow> c # remove_ws_fuel n cs
           | Some w \<Rightarrow> remove_ws_fuel n (drop (length w) s)))"

definition remove_ws :: "string \<Rightarrow> string" where
  "remove_ws s = remove_ws_fuel (length s) s"

text \<open>Bytes that neither start nor end a white-space sequence: the ASCII range from \<open>!\<close> on.\<close>

definition plain_char :: "char \<Rightarrow> bool" where
  "plain_char c \<longleftrightarrow> (of_char c :: nat) \<in> {33..127}"

lemma ws_seqs_ends: "list_all (\<lambda>w. w \<noteq> [] \<and> \<not> plain_char (hd w) \<and> \<not> plain_char (last w)) ws_seqs"
  by (simp add: ws_seqs_def plain_char_def)

lemma prefix_not_plain:
  "w \<noteq> [] \<Longrightarrow> \<not> plain_char (hd w) \<Longrightarrow> s = [] \<or> plain_char (hd s) \<Longrightarrow> \<not> prefix w s"
  by (cases w; cases s) auto

lemma find_seqs_plain:
  assumes "list_all (\<lambda>w. w \<noteq> [] \<and> \<not> plain_char (hd w)) ws" and "s = [] \<or> plain_char (hd s)"
  shows "find (\<lambda>w. prefix w s) ws = None"
  using assms prefix_not_plain by (auto simp: find_None_iff list_all_iff simp del: prefix_Nil)

lemma find_ws_plain: "s = [] \<or> plain_char (hd s) \<Longrightarrow> find (\<lambda>w. prefix w s) ws_seqs = None"
  using ws_seqs_ends by (intro find_seqs_plain) (simp_all add: list_all_iff)

lemma find_rev_ws_plain:
  "s = [] \<or> plain_char (hd s) \<Longrightarrow> find (\<lambda>w. prefix w s) (map rev ws_seqs) = None"
  using ws_seqs_ends by (intro find_seqs_plain) (simp_all add: list_all_iff hd_rev)

lemma trim_plain:
  assumes "s \<noteq> []" "plain_char (hd s)" "plain_char (last s)"
  shows "trim s = s"
proof -
  have "trim_start s = s"
    using assms by (cases "length s") (auto simp: trim_start_def find_ws_plain)
  moreover have "trim_end s = s"
    using assms by (cases "length s") (auto simp: trim_end_def find_rev_ws_plain hd_rev)
  ultimately show ?thesis by (simp add: trim_def)
qed

lemma remove_ws_fuel_plain:
  "list_all plain_char s \<Longrightarrow> length s \<le> n \<Longrightarrow> remove_ws_fuel n s = s"
  by (induction n s rule: remove_ws_fuel.induct) (auto simp: find_ws_plain split: list.splits)

lemma remove_ws_plain: "list_all plain_char s \<Longrightarrow> remove_ws s = s"
  by (simp add: remove_ws_def remove_ws_fuel_plain)

section \<open>Lines\<close>

abbreviation NL :: char where "NL \<equiv> CHR 0x0A"
abbreviation CR :: char where "CR \<equiv> CHR 0x0D"

definition strip_cr :: "string \<Rightarrow> string" where
  "strip_cr l = (if l \<noteq> [] \<and> last l = CR then butlast l else l)"

text \<open>\<open>str::lines\<close>: pieces ended by a line feed, without it and without a carriage return
  before it; a last piece without a line feed is kept as it is unless it is empty.\<close>

function rust_lines :: "string \<Rightarrow> string list" where
  "rust_lines s =
     (if s = [] then []
      else case dropWhile (\<lambda>c. c \<noteq> NL) s of
             [] \<Rightarrow> [s]
           | _ # rest \<Rightarrow> strip_cr (takeWhile (\<lambda>c. c \<noteq> NL) s) # rust_lines rest)"
  by pat_completeness auto
termination
proof (relation "measure length", simp)
  fix s x rest
  assume "dropWhile (\<lambda>c. c \<noteq> NL) s = x # rest"
  then have "length (x # rest) \<le> length s"
    by (metis length_dropWhile_le)
  then show "(rest, s) \<in> measure length" by simp
qed

declare rust_lines.simps [simp del]

fun join :: "string \<Rightarrow> string list \<Rightarrow> string" where
  "join sep [] = []"
| "join sep [l] = l"
| "join sep (l # l' # ls) = l @ sep @ join sep (l' # ls)"

lemma rust_lines_Nil [simp]: "rust_lines [] = []"
  by (simp add: rust_lines.simps)

lemma rust_lines_single:
  assumes "l \<noteq> []" "NL \<notin> set l"
  shows "rust_lines l = [l]"
proof -
  have "dropWhile (\<lambda>c. c \<noteq> NL) l = []"
    using assms(2) by (auto simp: dropWhile_eq_Nil_conv)
  then show ?thesis
    by (simp only: rust_lines.simps [of l] assms(1) list.case if_False)
qed

lemma rust_lines_append:
  "NL \<notin> set l \<Longrightarrow> rust_lines (l @ NL # rest) = strip_cr l # rust_lines rest"
  by (subst rust_lines.simps) (simp add: dropWhile_append3 takeWhile_append2 rev_swap
        takeWhile_eq_all_conv dropWhile_append)

text \<open>Lines that survive being joined by line feeds and split again.\<close>

definition clean_line :: "string \<Rightarrow> bool" where
  "clean_line l \<longleftrightarrow> NL \<notin> set l \<and> (l = [] \<or> last l \<noteq> CR)"

lemma strip_cr_clean: "clean_line l \<Longrightarrow> strip_cr l = l"
  by (auto simp: clean_line_def strip_cr_def)

lemma rust_lines_join:
  "list_all clean_line ls \<Longrightarrow> ls = [] \<or> last ls \<noteq> [] \<Longrightarrow> rust_lines (join [NL] ls) = ls"
proof (induction "[NL]" ls rule: join.induct)
  case (2 l)
  then show ?case by (simp add: rust_lines_single clean_line_def)
next
  case (3 l l' ls)
  then show ?case
    by (simp add: rust_lines_append strip_cr_clean) (simp add: clean_line_def rust_lines_append
          strip_cr_clean)
qed simp

section \<open>Integers\<close>

definition to_digit :: "nat \<Rightarrow> char \<Rightarrow> nat option" where
  "to_digit radix c =
     (let n = (of_char c :: nat);
          d = (if 48 \<le> n \<and> n \<le> 57 then n - 48
               else if 97 \<le> n \<and> n \<le> 122 then n - 87
               else if 65 \<le> n \<and> n \<le> 90 then n - 55
               else radix)
      in if d < radix then Some d else None)"

text \<open>The digit loop of \<open>from_str_radix\<close>: an invalid digit and a value past the maximum of the
  type are errors.\<close>

fun parse_digits :: "nat \<Rightarrow> nat \<Rightarrow> nat \<Rightarrow> string \<Rightarrow> nat option" where
  "parse_digits radix mx acc [] = Some acc"
| "parse_digits radix mx acc (c # cs) =
     (case to_digit radix c of
        None \<Rightarrow> None
      | Some d \<Rightarrow>
          (let v = acc * radix + d in
           if v \<le> mx then parse_digits radix mx v cs else None))"

text \<open>\<open>from_str_radix\<close> of an unsigned type: the empty string is an error, one leading \<open>+\<close> is
  accepted before at least one digit, a \<open>-\<close> is an invalid digit.\<close>

definition parse_uint :: "nat \<Rightarrow> nat \<Rightarrow> string \<Rightarrow> nat option" where
  "parse_uint radix mx s =
     (if s = [] then None
      else if hd s = CHR ''+'' then (if tl s = [] then None else parse_digits radix mx 0 (tl s))
      else parse_digits radix mx 0 s)"

definition digit_char :: "nat \<Rightarrow> char" where
  "digit_char d = (if d < 10 then char_of (48 + d) else char_of (87 + d))"

function radix_digits :: "nat \<Rightarrow> nat \<Rightarrow> string" where
  "radix_digits r n =
     (if r < 2 \<or> n < r then [digit_char n] else radix_digits r (n div r) @ [digit_char (n mod r)])"
  by pat_completeness auto
termination
  by (relation "measure snd") auto

declare radix_digits.simps [simp del]

definition fmt_dec :: "nat \<Rightarrow> string" where
  "fmt_dec n = radix_digits 10 n"

definition fmt_int :: "int \<Rightarrow> string" where
  "fmt_int i = (if i < 0 then ''-'' @ fmt_dec (nat (- i)) else fmt_dec (nat i))"

text \<open>The alternate forms \<open>{:#x}\<close>, \<open>{:#o}\<close> and \<open>{:#b}\<close>.\<close>

definition fmt_hex :: "nat \<Rightarrow> string" where
  "fmt_hex n = ''0x'' @ radix_digits 16 n"

definition fmt_oct :: "nat \<Rightarrow> string" where
  "fmt_oct n = ''0o'' @ radix_digits 8 n"

definition fmt_bin :: "nat \<Rightarrow> string" where
  "fmt_bin n = ''0b'' @ radix_digits 2 n"

text \<open>Zero-padded decimal, \<open>{:0w}\<close>.\<close>

definition fmt_pad :: "nat \<Rightarrow> nat \<Rightarrow> string" where
  "fmt_pad w n = replicate (w - length (fmt_dec n)) (CHR ''0'') @ fmt_dec n"

lemma of_char_digit_char: "d < 36 \<Longrightarrow> of_char (digit_char d) = (if d < 10 then 48 + d else 87 + d)"
  by (auto simp: digit_char_def)

lemma digit_char_simps [simp]:
  "digit_char 0 = CHR ''0''"
  "digit_char (Suc 0) = CHR ''1''"
  "digit_char 2 = CHR ''2''"
  "digit_char 3 = CHR ''3''"
  "digit_char 4 = CHR ''4''"
  "digit_char 5 = CHR ''5''"
  "digit_char 6 = CHR ''6''"
  "digit_char 7 = CHR ''7''"
  "digit_char 8 = CHR ''8''"
  "digit_char 9 = CHR ''9''"
  "digit_char 10 = CHR ''a''"
  "digit_char 11 = CHR ''b''"
  "digit_char 12 = CHR ''c''"
  "digit_char 13 = CHR ''d''"
  "digit_char 14 = CHR ''e''"
  "digit_char 15 = CHR ''f''"
  "digit_char 1 = CHR ''1''"
  by (simp_all add: digit_char_def char_of_eq_iff)

lemma to_digit_digit_char [simp]: "d < r \<Longrightarrow> r \<le> 36 \<Longrightarrow> to_digit r (digit_char d) = Some d"
  by (auto simp: to_digit_def of_char_digit_char)

lemma plain_digit_char [simp]: "d < 36 \<Longrightarrow> plain_char (digit_char d)"
  by (auto simp: plain_char_def of_char_digit_char)

lemma digit_char_not_plus [simp]: "d < 36 \<Longrightarrow> digit_char d \<noteq> CHR ''+''"
proof
  assume "d < 36" "digit_char d = CHR ''+''"
  then have "of_char (digit_char d) = (43 :: nat)" by simp
  with \<open>d < 36\<close> show False by (auto simp: of_char_digit_char split: if_splits)
qed

lemma parse_digits_append:
  "parse_digits r mx acc (xs @ ys) =
     Option.bind (parse_digits r mx acc xs) (\<lambda>a. parse_digits r mx a ys)"
  by (induction r mx acc xs rule: parse_digits.induct) (auto simp: Let_def split: option.splits)

lemma parse_digits_le: "parse_digits r mx acc s = Some v \<Longrightarrow> acc \<le> mx \<Longrightarrow> v \<le> mx"
  by (induction r mx acc s rule: parse_digits.induct)
     (auto simp: Let_def split: option.splits if_splits)

lemma parse_uint_le: "parse_uint r mx s = Some v \<Longrightarrow> v \<le> mx"
  by (auto simp: parse_uint_def split: if_splits dest: parse_digits_le)

lemma radix_digits_nonempty [simp]: "radix_digits r n \<noteq> []"
  by (subst radix_digits.simps) simp

lemma radix_digits_plain: "2 \<le> r \<Longrightarrow> r \<le> 36 \<Longrightarrow> list_all plain_char (radix_digits r n)"
proof (induction r n rule: radix_digits.induct)
  case (1 r n)
  then have "n mod r < 36" using mod_less_divisor [of r n] by linarith
  with 1 show ?case
    by (subst radix_digits.simps) (auto)
qed

lemma radix_digits_not_plus: "2 \<le> r \<Longrightarrow> r \<le> 36 \<Longrightarrow> CHR ''+'' \<notin> set (radix_digits r n)"
proof (induction r n rule: radix_digits.induct)
  case (1 r n)
  then have "n mod r < 36" using mod_less_divisor [of r n] by linarith
  with 1 show ?case
    by (subst radix_digits.simps) (auto dest: digit_char_not_plus)
qed

lemma parse_digits_radix_digits:
  "2 \<le> r \<Longrightarrow> r \<le> 36 \<Longrightarrow> n \<le> mx \<Longrightarrow> parse_digits r mx 0 (radix_digits r n) = Some n"
proof (induction r n rule: radix_digits.induct)
  case (1 r n)
  show ?case
  proof (cases "n < r")
    case True
    with 1 show ?thesis by (subst radix_digits.simps) simp
  next
    case False
    have "n div r \<le> mx" using "1.prems"(3) div_le_dividend le_trans by blast
    with False 1 have "parse_digits r mx 0 (radix_digits r (n div r)) = Some (n div r)" by simp
    moreover have "n mod r < r" using "1.prems"(1) by simp
    ultimately show ?thesis using False 1
      by (subst radix_digits.simps) (simp add: parse_digits_append)
  qed
qed

lemma parse_uint_radix_digits:
  assumes "2 \<le> r" "r \<le> 36" "n \<le> mx"
  shows "parse_uint r mx (radix_digits r n) = Some n"
proof -
  have "hd (radix_digits r n) \<noteq> CHR ''+''"
    using radix_digits_not_plus [OF assms(1,2), of n] hd_in_set [OF radix_digits_nonempty]
    by metis
  with assms show ?thesis by (simp add: parse_uint_def parse_digits_radix_digits)
qed

lemma radix_digits_inj: "2 \<le> r \<Longrightarrow> r \<le> 36 \<Longrightarrow> radix_digits r m = radix_digits r n \<Longrightarrow> m = n"
  by (metis max.cobounded1 max.cobounded2 option.inject parse_digits_radix_digits)

lemma fmt_dec_inj: "fmt_dec m = fmt_dec n \<longleftrightarrow> m = n"
  using radix_digits_inj [of 10] by (auto simp: fmt_dec_def)

lemma parse_digits_valid: "parse_digits r mx acc s = Some v \<Longrightarrow> c \<in> set s \<Longrightarrow> to_digit r c \<noteq> None"
  by (induction r mx acc s rule: parse_digits.induct) (auto simp: Let_def split: option.splits if_splits)

lemma parse_digits_zeros:
  "0 < r \<Longrightarrow> parse_digits r mx 0 (replicate k (CHR ''0'') @ s) = parse_digits r mx 0 s"
  by (induction k) (auto simp: to_digit_def Let_def)

end
