(* ===== verification/Hash_Map.thy ===== *)
theory Hash_Map
  imports Rust_Str
begin

text \<open>
  \<open>HashMap\<close> as the program uses it. A map is the list of its entries in iteration order, with
  distinct keys. Rust leaves the iteration order open: a statement about any such list is a
  statement about any order. The interface the components rely on is the locale \<open>hash_map\<close>; the
  entry lists are its interpretation.
\<close>

section \<open>The interface\<close>

locale hash_map =
  fixes get :: "'m \<Rightarrow> 'k \<Rightarrow> 'v option"
    and insert_entry :: "'k \<Rightarrow> 'v \<Rightarrow> 'm \<Rightarrow> 'm"
    and remove_entry :: "'k \<Rightarrow> 'm \<Rightarrow> 'm"
    and retain :: "('k \<Rightarrow> 'v \<Rightarrow> bool) \<Rightarrow> 'm \<Rightarrow> 'm"
    and len :: "'m \<Rightarrow> nat"
    and invar :: "'m \<Rightarrow> bool"
  assumes get_insert: "invar m \<Longrightarrow> get (insert_entry k v m) = (get m)(k \<mapsto> v)"
    and get_remove: "invar m \<Longrightarrow> get (remove_entry k m) = (get m)(k := None)"
    and get_retain: "invar m \<Longrightarrow> get (retain P m) k =
          (case get m k of Some v \<Rightarrow> if P k v then Some v else None | None \<Rightarrow> None)"
    and invar_insert: "invar m \<Longrightarrow> invar (insert_entry k v m)"
    and invar_remove: "invar m \<Longrightarrow> invar (remove_entry k m)"
    and invar_retain: "invar m \<Longrightarrow> invar (retain P m)"
    and finite_dom: "invar m \<Longrightarrow> finite (dom (get m))"
    and len_card: "invar m \<Longrightarrow> len m = card (dom (get m))"
begin

lemma dom_insert: "invar m \<Longrightarrow> dom (get (insert_entry k v m)) = insert k (dom (get m))"
  by (simp add: get_insert)

lemma dom_remove: "invar m \<Longrightarrow> dom (get (remove_entry k m)) = dom (get m) - {k}"
  by (simp add: get_remove)

lemma dom_retain_subset: "invar m \<Longrightarrow> dom (get (retain P m)) \<subseteq> dom (get m)"
  by (auto simp: get_retain split: option.splits if_splits)

lemma len_insert_fresh:
  "invar m \<Longrightarrow> get m k = None \<Longrightarrow> len (insert_entry k v m) = Suc (len m)"
  by (simp add: len_card invar_insert dom_insert finite_dom domIff card_insert_if)

lemma len_insert_present:
  "invar m \<Longrightarrow> get m k = Some w \<Longrightarrow> len (insert_entry k v m) = len m"
  by (simp add: len_card invar_insert dom_insert finite_dom insert_absorb domI)

lemma len_insert_le: "invar m \<Longrightarrow> len (insert_entry k v m) \<le> Suc (len m)"
  by (cases "get m k") (simp_all add: len_insert_fresh len_insert_present)

lemma len_remove_present:
  "invar m \<Longrightarrow> get m k = Some w \<Longrightarrow> Suc (len (remove_entry k m)) = len m"
  by (metis card_Suc_Diff1 dom_remove domI finite_dom invar_remove len_card)

lemma len_retain_le: "invar m \<Longrightarrow> len (retain P m) \<le> len m"
  by (simp add: len_card invar_retain card_mono finite_dom dom_retain_subset)

text \<open>Entries that satisfy the predicate keep their value; removing what is absent from
  everyone's sight changes nothing.\<close>

lemma retain_keeps: "invar m \<Longrightarrow> get m k = Some v \<Longrightarrow> P k v \<Longrightarrow> get (retain P m) k = Some v"
  by (simp add: get_retain)

lemma retain_twice: "invar m \<Longrightarrow> get (retain P (retain P m)) = get (retain P m)"
  by (rule ext) (simp add: get_retain invar_retain split: option.splits)

end

section \<open>Entry lists\<close>

type_synonym ('k, 'v) hmap = "('k \<times> 'v) list"

definition hm_get :: "('k, 'v) hmap \<Rightarrow> 'k \<Rightarrow> 'v option" where
  "hm_get m k = map_of m k"

definition hm_insert :: "'k \<Rightarrow> 'v \<Rightarrow> ('k, 'v) hmap \<Rightarrow> ('k, 'v) hmap" where
  "hm_insert k v m = AList.update k v m"

definition hm_remove :: "'k \<Rightarrow> ('k, 'v) hmap \<Rightarrow> ('k, 'v) hmap" where
  "hm_remove k m = AList.delete k m"

definition hm_retain :: "('k \<Rightarrow> 'v \<Rightarrow> bool) \<Rightarrow> ('k, 'v) hmap \<Rightarrow> ('k, 'v) hmap" where
  "hm_retain P m = filter (\<lambda>(k, v). P k v) m"

definition hm_inv :: "('k, 'v) hmap \<Rightarrow> bool" where
  "hm_inv m \<longleftrightarrow> distinct (map fst m)"

text \<open>\<open>get_mut\<close> followed by an update in place.\<close>

definition hm_modify :: "'k \<Rightarrow> ('v \<Rightarrow> 'v) \<Rightarrow> ('k, 'v) hmap \<Rightarrow> ('k, 'v) hmap" where
  "hm_modify k f m = map (\<lambda>(k', v). (k', if k' = k then f v else v)) m"

lemma map_of_filter_distinct:
  "distinct (map fst m) \<Longrightarrow> map_of (filter (\<lambda>(k, v). P k v) m) k =
     (case map_of m k of Some v \<Rightarrow> if P k v then Some v else None | None \<Rightarrow> None)"
proof (induction m)
  case (Cons e m)
  obtain k' v' where e: "e = (k', v')" by (cases e)
  have "k' = k \<Longrightarrow> map_of (filter (\<lambda>(k, v). P k v) m) k = None"
    using Cons.prems e by (auto simp: map_of_eq_None_iff)
  with Cons e show ?case by auto
qed simp

lemma distinct_filter_fst: "distinct (map fst m) \<Longrightarrow> distinct (map fst (filter Q m))"
  by (induction m) auto

interpretation hm: hash_map hm_get hm_insert hm_remove hm_retain length hm_inv
proof unfold_locales
  fix m :: "('a, 'b) hmap" and k v P
  assume m: "hm_inv m"
  show "hm_get (hm_insert k v m) = (hm_get m)(k \<mapsto> v)"
    by (rule ext) (simp add: hm_get_def hm_insert_def update_conv')
  show "hm_get (hm_remove k m) = (hm_get m)(k := None)"
    by (rule ext) (simp add: hm_get_def hm_remove_def delete_conv')
  show "hm_get (hm_retain P m) k =
          (case hm_get m k of Some v \<Rightarrow> if P k v then Some v else None | None \<Rightarrow> None)"
    using m by (simp add: hm_get_def hm_retain_def hm_inv_def map_of_filter_distinct)
  show "hm_inv (hm_insert k v m)"
    using m by (simp add: hm_inv_def hm_insert_def distinct_update)
  show "hm_inv (hm_remove k m)"
    using m by (simp add: hm_inv_def hm_remove_def distinct_delete)
  show "hm_inv (hm_retain P m)"
    using m by (simp add: hm_inv_def hm_retain_def distinct_filter_fst)
  show "finite (dom (hm_get m))"
    by (simp add: hm_get_def [abs_def] finite_dom_map_of)
  have "card (dom (map_of m)) = length (map fst m)"
    using m by (simp add: hm_inv_def dom_map_of_conv_image_fst distinct_card flip: set_map)
  then show "length m = card (dom (hm_get m))"
    by (simp add: hm_get_def [abs_def])
qed

lemma hm_get_Nil [simp]: "hm_get [] k = None"
  by (simp add: hm_get_def)

lemma hm_inv_Nil [simp]: "hm_inv []"
  by (simp add: hm_inv_def)

lemma hm_get_mem: "hm_inv m \<Longrightarrow> hm_get m k = Some v \<longleftrightarrow> (k, v) \<in> set m"
  by (simp add: hm_get_def hm_inv_def)

lemma hm_get_None: "hm_get m k = None \<longleftrightarrow> k \<notin> fst ` set m"
  by (simp add: hm_get_def map_of_eq_None_iff)

lemma hm_keys_dom: "fst ` set m = dom (hm_get m)"
  by (simp add: hm_get_def [abs_def] dom_map_of_conv_image_fst)

lemma hm_get_modify: "hm_get (hm_modify k f m) = (hm_get m)(k := map_option f (hm_get m k))"
proof (rule ext)
  fix x
  show "hm_get (hm_modify k f m) x = ((hm_get m)(k := map_option f (hm_get m k))) x"
    by (induction m) (auto simp: hm_get_def hm_modify_def)
qed

lemma hm_keys_modify [simp]: "map fst (hm_modify k f m) = map fst m"
  by (induction m) (auto simp: hm_modify_def)

lemma hm_inv_modify [simp]: "hm_inv (hm_modify k f m) \<longleftrightarrow> hm_inv m"
  by (simp add: hm_inv_def)

lemma hm_len_modify [simp]: "length (hm_modify k f m) = length m"
  by (simp add: hm_modify_def)

lemma hm_insert_fresh: "hm_get m k = None \<Longrightarrow> hm_insert k v m = m @ [(k, v)]"
  unfolding hm_get_def hm_insert_def by (induction m) (auto split: if_splits)

lemma hm_set_remove: "hm_inv m \<Longrightarrow> set (hm_remove k m) = {e \<in> set m. fst e \<noteq> k}"
  by (auto simp: hm_remove_def AList.delete_eq)

lemma hm_set_retain: "set (hm_retain P m) = {(k, v) \<in> set m. P k v}"
  by (auto simp: hm_retain_def)

lemmas hm_laws = hm.get_insert hm.get_remove hm.get_retain hm_get_modify

lemmas hm_invs [inv_intros] = hm.invar_insert hm.invar_remove hm.invar_retain

section \<open>Identifier supply\<close>

text \<open>
  Routers, target managers and pools hand out identifiers from a counter. The contract: while the
  counter has room, an identifier was never handed out before, and it is the only new one.
\<close>

locale id_supply =
  fixes alloc :: "'s \<Rightarrow> 'id \<times> 's"
    and issued :: "'s \<Rightarrow> 'id set"
    and room :: "'s \<Rightarrow> nat"
  assumes alloc_fresh: "0 < room s \<Longrightarrow> alloc s = (i, s') \<Longrightarrow> i \<notin> issued s"
    and alloc_issued: "0 < room s \<Longrightarrow> alloc s = (i, s') \<Longrightarrow> issued s' = insert i (issued s)"
    and alloc_room: "0 < room s \<Longrightarrow> alloc s = (i, s') \<Longrightarrow> Suc (room s') = room s"
begin

primrec alloc_many :: "nat \<Rightarrow> 's \<Rightarrow> 'id list \<times> 's" where
  "alloc_many 0 s = ([], s)"
| "alloc_many (Suc n) s =
     (let (i, s') = alloc s; (is, s'') = alloc_many n s' in (i # is, s''))"

lemma alloc_many_distinct:
  "n \<le> room s \<Longrightarrow> alloc_many n s = (is, s') \<Longrightarrow>
     length is = n \<and> distinct is \<and> set is \<inter> issued s = {} \<and> issued s' = set is \<union> issued s"
proof (induction n arbitrary: s "is" s')
  case (Suc n)
  obtain i t where a: "alloc s = (i, t)" by (cases "alloc s")
  obtain js u where b: "alloc_many n t = (js, u)" by (cases "alloc_many n t")
  have room: "0 < room s" "n \<le> room t"
    using Suc.prems(1) alloc_room [OF _ a] by auto
  have "length js = n \<and> distinct js \<and> set js \<inter> issued t = {} \<and> issued u = set js \<union> issued t"
    using Suc.IH [OF room(2) b] .
  moreover have "is = i # js" "s' = u"
    using Suc.prems(2) a b by auto
  ultimately show ?case
    using alloc_fresh [OF room(1) a] alloc_issued [OF room(1) a] by auto
qed simp

end

end
