(* ===== verification/Json.thy ===== *)
theory Json
  imports Rust_Str
begin

text \<open>
  JSON values as the program sees them. The six constructors are those of
  \<open>value_type_name\<close> in \<open>src/src/spill.rs\<close>. A number is known by what its accessors return
  (\<open>as_u64\<close>, \<open>as_i64\<close>); a floating-point number answers neither. An object is the list of its
  members; where the program runs through them the list is in its order, sorted by key, and nothing
  else depends on the order. Parsing and printing belong to a library and are parameters of the
  definitions that use them.
\<close>

datatype jnum = JNum (num_u64: "nat option") (num_i64: "int option")

datatype json =
    JNull
  | JBool bool
  | JNumber jnum
  | JString string
  | JArray "json list"
  | JObject "(string \<times> json) list"

definition json_of_nat :: "nat \<Rightarrow> json" where
  "json_of_nat n = JNumber (JNum (Some n) (if n < 2 ^ 63 then Some (int n) else None))"

definition json_of_int :: "int \<Rightarrow> json" where
  "json_of_int i = JNumber (JNum (if 0 \<le> i then Some (nat i) else None) (Some i))"

definition json_of_opt :: "('a \<Rightarrow> json) \<Rightarrow> 'a option \<Rightarrow> json" where
  "json_of_opt f x = (case x of None \<Rightarrow> JNull | Some y \<Rightarrow> f y)"

fun json_get :: "json \<Rightarrow> string \<Rightarrow> json option" where
  "json_get (JObject kvs) k = map_of kvs k"
| "json_get _ k = None"

fun as_str :: "json \<Rightarrow> string option" where
  "as_str (JString s) = Some s"
| "as_str _ = None"

fun as_bool :: "json \<Rightarrow> bool option" where
  "as_bool (JBool b) = Some b"
| "as_bool _ = None"

fun as_u64 :: "json \<Rightarrow> nat option" where
  "as_u64 (JNumber n) = num_u64 n"
| "as_u64 _ = None"

fun as_i64 :: "json \<Rightarrow> int option" where
  "as_i64 (JNumber n) = num_i64 n"
| "as_i64 _ = None"

fun as_array :: "json \<Rightarrow> json list option" where
  "as_array (JArray xs) = Some xs"
| "as_array _ = None"

definition get_str :: "json \<Rightarrow> string \<Rightarrow> string option" where
  "get_str p k = Option.bind (json_get p k) as_str"

definition get_u64 :: "json \<Rightarrow> string \<Rightarrow> nat option" where
  "get_u64 p k = Option.bind (json_get p k) as_u64"

definition get_i64 :: "json \<Rightarrow> string \<Rightarrow> int option" where
  "get_i64 p k = Option.bind (json_get p k) as_i64"

definition get_bool :: "json \<Rightarrow> string \<Rightarrow> bool option" where
  "get_bool p k = Option.bind (json_get p k) as_bool"

lemmas json_gets = get_str_def get_u64_def get_i64_def get_bool_def

text \<open>\<open>Map::insert\<close>; the order of the members does not matter.\<close>

definition map_insert :: "string \<Rightarrow> json \<Rightarrow> (string \<times> json) list \<Rightarrow> (string \<times> json) list" where
  "map_insert k v m = (if k \<in> fst ` set m then map (\<lambda>(k', v'). (k', if k' = k then v else v')) m else m @ [(k, v)])"

text \<open>The integers a JSON number can carry are those of its accessors' types.\<close>

definition wf_num :: "jnum \<Rightarrow> bool" where
  "wf_num n \<longleftrightarrow>
     (case num_u64 n of None \<Rightarrow> True | Some u \<Rightarrow> u \<le> u64_max) \<and>
     (case num_i64 n of None \<Rightarrow> True | Some i \<Rightarrow> - (2 ^ 63) \<le> i \<and> i < 2 ^ 63)"

fun wf_json :: "json \<Rightarrow> bool" where
  "wf_json (JNumber n) \<longleftrightarrow> wf_num n"
| "wf_json (JArray xs) \<longleftrightarrow> list_all wf_json xs"
| "wf_json (JObject kvs) \<longleftrightarrow> list_all (\<lambda>(k, v). wf_json v) kvs"
| "wf_json _ \<longleftrightarrow> True"

lemma wf_json_get: "wf_json p \<Longrightarrow> json_get p k = Some v \<Longrightarrow> wf_json v"
  by (cases p) (auto simp: list_all_iff dest: map_of_SomeD)

lemma as_u64_le: "wf_json v \<Longrightarrow> as_u64 v = Some n \<Longrightarrow> n \<le> u64_max"
  by (cases v) (simp_all add: wf_num_def)

lemma get_u64_le: "wf_json p \<Longrightarrow> get_u64 p k = Some n \<Longrightarrow> n \<le> u64_max"
  by (metis Option.bind_eq_Some_conv as_u64_le get_u64_def wf_json_get)

end
