(* ===== verification/Tasks.thy ===== *)
theory Tasks
  imports Hash_Map Json Civil "HOL-Library.List_Lexorder" "HOL-Library.Char_ord"
    "HOL-Library.Product_Lexorder"
begin

text \<open>
  The background-task registry of \<open>src/src/server/task.rs\<close>. Instants are milliseconds of the
  monotonic clock. A cancellation token is a shared object: an entry holds its identity, and the
  registry state carries the set of tokens that were cancelled. The random part of a task
  identifier is an argument of \<open>create_keyed\<close>. An operation that both stamps an entry and prunes
  reads the clock twice, so it takes the two readings.
\<close>

section \<open>State\<close>

definition TASK_RETENTION_TTL_MS :: nat where
  "TASK_RETENTION_TTL_MS = 24 * 60 * 60 * 1000"

definition MAX_TASK_REGISTRY_ENTRIES :: nat where
  "MAX_TASK_REGISTRY_ENTRIES = 256"

datatype task_owner = is_Session: Session string | Runtime

datatype task_create_error =
    AlreadyRunning string
  | ExistingTaskIdIsPrivate
  | CapacityExceeded nat

datatype task_status = TRunning | TCompleted | TFailed | TCancelled

datatype task_settlement = SCompleted | SFailed | SCancelled | SUnchanged

datatype task_decision = DCompleted | DCancellationPending | DUnchanged

type_synonym token = nat

record task_clock =
  clk_now :: nat
  clk_iso :: string

record task_state =
  ts_id :: string
  ts_status :: task_status
  ts_message :: string
  ts_result :: "json option"
  ts_created_at :: nat
  ts_updated_at :: nat
  ts_created_at_iso :: string
  ts_updated_at_iso :: string
  ts_key :: "string option"

record task_entry =
  te_owner :: task_owner
  te_state :: task_state
  te_cancel_token :: "token option"
  te_cancel_requested :: "string option"

type_synonym task_entries = "(string, task_entry) hmap"

record task_registry =
  tr_entries :: task_entries
  tr_cancelled :: "token set"

definition task_registry_new :: task_registry where
  "task_registry_new = \<lparr>tr_entries = [], tr_cancelled = {}\<rparr>"

section \<open>Time stamps\<close>

definition iso_of_secs :: "nat \<Rightarrow> string" where
  "iso_of_secs secs =
     (let days = secs div 86400; time_secs = secs mod 86400;
          hours = time_secs div 3600; minutes = (time_secs mod 3600) div 60;
          seconds = time_secs mod 60;
          (year, month, day) = epoch_days_to_ymd days
      in fmt_pad 4 year @ ''-'' @ fmt_pad 2 month @ ''-'' @ fmt_pad 2 day @ ''T'' @
         fmt_pad 2 hours @ '':'' @ fmt_pad 2 minutes @ '':'' @ fmt_pad 2 seconds @ ''Z'')"

definition refresh_updated :: "task_clock \<Rightarrow> task_state \<Rightarrow> task_state" where
  "refresh_updated clk st = st\<lparr>ts_updated_at := clk_now clk, ts_updated_at_iso := clk_iso clk\<rparr>"

section \<open>Entries\<close>

definition task_entry_new :: "task_owner \<Rightarrow> task_state \<Rightarrow> task_entry" where
  "task_entry_new owner st =
     \<lparr>te_owner = owner, te_state = st, te_cancel_token = None, te_cancel_requested = None\<rparr>"

text \<open>The tokens cancelled by storing a token, and the entry after it.\<close>

definition entry_set_cancel_token ::
  "token option \<Rightarrow> task_entry \<Rightarrow> token set \<Rightarrow> task_entry \<times> token set" where
  "entry_set_cancel_token tok e C =
     (e\<lparr>te_cancel_token := tok\<rparr>,
      if te_cancel_requested e \<noteq> None then C \<union> set_option tok else C)"

definition clear_runtime :: "task_entry \<Rightarrow> task_entry" where
  "clear_runtime e = e\<lparr>te_cancel_token := None\<rparr>"

definition transition_cancelled :: "task_clock \<Rightarrow> string \<Rightarrow> task_entry \<Rightarrow> task_entry" where
  "transition_cancelled clk msg e =
     (clear_runtime e)\<lparr>te_cancel_requested := None,
       te_state := refresh_updated clk ((te_state e)\<lparr>ts_status := TCancelled, ts_message := msg\<rparr>)\<rparr>"

definition entry_complete :: "task_clock \<Rightarrow> json \<Rightarrow> task_entry \<Rightarrow> task_entry \<times> task_settlement" where
  "entry_complete clk r e =
     (if ts_status (te_state e) \<noteq> TRunning then (e, SUnchanged)
      else case te_cancel_requested e of
             Some msg \<Rightarrow> (transition_cancelled clk msg (e\<lparr>te_cancel_requested := None\<rparr>), SCancelled)
           | None \<Rightarrow>
               (clear_runtime (e\<lparr>te_state := refresh_updated clk
                  ((te_state e)\<lparr>ts_status := TCompleted, ts_message := ''Completed'',
                                 ts_result := Some r\<rparr>)\<rparr>), SCompleted))"

definition entry_fail :: "task_clock \<Rightarrow> string \<Rightarrow> task_entry \<Rightarrow> task_entry \<times> task_settlement" where
  "entry_fail clk err e =
     (if ts_status (te_state e) \<noteq> TRunning then (e, SUnchanged)
      else case te_cancel_requested e of
             Some msg \<Rightarrow> (transition_cancelled clk msg (e\<lparr>te_cancel_requested := None\<rparr>), SCancelled)
           | None \<Rightarrow>
               (clear_runtime (e\<lparr>te_state := refresh_updated clk
                  ((te_state e)\<lparr>ts_status := TFailed, ts_message := err\<rparr>)\<rparr>), SFailed))"

definition entry_fail_after_cleanup_error ::
  "task_clock \<Rightarrow> string \<Rightarrow> task_entry \<Rightarrow> task_entry \<times> task_settlement" where
  "entry_fail_after_cleanup_error clk err e =
     (if ts_status (te_state e) \<noteq> TRunning then (e, SUnchanged)
      else (clear_runtime (e\<lparr>te_cancel_requested := None,
              te_state := refresh_updated clk
                ((te_state e)\<lparr>ts_status := TFailed, ts_message := err\<rparr>)\<rparr>), SFailed))"

definition entry_request_cancel ::
  "task_clock \<Rightarrow> string \<Rightarrow> task_entry \<Rightarrow> token set \<Rightarrow> (task_entry \<times> token set) \<times> bool" where
  "entry_request_cancel clk msg e C =
     (if ts_status (te_state e) \<noteq> TRunning \<or> te_cancel_requested e \<noteq> None then ((e, C), False)
      else ((e\<lparr>te_cancel_requested := Some msg,
               te_state := refresh_updated clk
                 ((te_state e)\<lparr>ts_message := msg @ ''; waiting for the operation to settle''\<rparr>)\<rparr>,
             C \<union> set_option (te_cancel_token e)), True))"

definition entry_finish_cancelled :: "task_clock \<Rightarrow> string \<Rightarrow> task_entry \<Rightarrow> task_entry \<times> bool" where
  "entry_finish_cancelled clk msg e =
     (if ts_status (te_state e) \<noteq> TRunning then (e, False)
      else (transition_cancelled clk msg e, True))"

definition entry_update_message :: "task_clock \<Rightarrow> string \<Rightarrow> task_entry \<Rightarrow> task_entry" where
  "entry_update_message clk msg e =
     (if ts_status (te_state e) = TRunning \<and> te_cancel_requested e = None
      then e\<lparr>te_state := refresh_updated clk ((te_state e)\<lparr>ts_message := msg\<rparr>)\<rparr>
      else e)"

section \<open>Retention and admission\<close>

definition prune_terminal_tasks :: "nat \<Rightarrow> task_entries \<Rightarrow> task_entries" where
  "prune_terminal_tasks now es =
     hm_retain (\<lambda>_ e. ts_status (te_state e) = TRunning \<or>
       now - ts_updated_at (te_state e) < TASK_RETENTION_TTL_MS) es"

definition terminal_ids :: "task_entries \<Rightarrow> (nat \<times> string) list" where
  "terminal_ids es =
     map (\<lambda>(tid, e). (ts_updated_at (te_state e), tid))
       (filter (\<lambda>(tid, e). ts_status (te_state e) \<noteq> TRunning) es)"

definition reclaim_capacity_for_admission :: "task_entries \<Rightarrow> task_entries" where
  "reclaim_capacity_for_admission es =
     (if length es < MAX_TASK_REGISTRY_ENTRIES then es
      else let excess = length es - MAX_TASK_REGISTRY_ENTRIES + 1
           in fold (\<lambda>(_, tid) es. hm_remove tid es) (take excess (sort (terminal_ids es))) es)"

section \<open>Registry operations\<close>

definition create_keyed ::
  "nat \<Rightarrow> task_clock \<Rightarrow> string \<Rightarrow> task_owner \<Rightarrow> string \<Rightarrow> string \<Rightarrow> string \<Rightarrow> task_registry \<Rightarrow>
   task_registry \<times> (string, task_create_error) result" where
  "create_keyed now clk uuid owner pfx key msg reg =
     (let es = prune_terminal_tasks now (tr_entries reg) in
      case find (\<lambda>(_, e). ts_status (te_state e) = TRunning \<and> ts_key (te_state e) = Some key) es of
        Some (_, e) \<Rightarrow>
          (reg\<lparr>tr_entries := es\<rparr>,
           Err (if is_Session owner \<and> te_owner e = owner
                then AlreadyRunning (ts_id (te_state e)) else ExistingTaskIdIsPrivate))
      | None \<Rightarrow>
          (let es = reclaim_capacity_for_admission es in
           if MAX_TASK_REGISTRY_ENTRIES \<le> length es
           then (reg\<lparr>tr_entries := es\<rparr>, Err (CapacityExceeded MAX_TASK_REGISTRY_ENTRIES))
           else let tid = pfx @ ''-'' @ uuid;
                    st = \<lparr>ts_id = tid, ts_status = TRunning, ts_message = msg, ts_result = None,
                          ts_created_at = clk_now clk, ts_updated_at = clk_now clk,
                          ts_created_at_iso = clk_iso clk, ts_updated_at_iso = clk_iso clk,
                          ts_key = Some key\<rparr>
                in (reg\<lparr>tr_entries := hm_insert tid (task_entry_new owner st) es\<rparr>, Ok tid)))"

definition set_cancel_token :: "string \<Rightarrow> token \<Rightarrow> task_registry \<Rightarrow> task_registry" where
  "set_cancel_token tid tok reg =
     (case hm_get (tr_entries reg) tid of
        None \<Rightarrow> reg
      | Some e \<Rightarrow>
          let (e', C) = entry_set_cancel_token (Some tok) e (tr_cancelled reg)
          in reg\<lparr>tr_entries := hm_modify tid (\<lambda>_. e') (tr_entries reg), tr_cancelled := C\<rparr>)"

definition task_get :: "nat \<Rightarrow> string \<Rightarrow> task_registry \<Rightarrow> task_registry \<times> task_state option" where
  "task_get now tid reg =
     (let es = prune_terminal_tasks now (tr_entries reg)
      in (reg\<lparr>tr_entries := es\<rparr>, map_option te_state (hm_get es tid)))"

definition get_for_owner ::
  "nat \<Rightarrow> task_owner \<Rightarrow> string \<Rightarrow> task_registry \<Rightarrow> task_registry \<times> task_state option" where
  "get_for_owner now owner tid reg =
     (let es = prune_terminal_tasks now (tr_entries reg)
      in (reg\<lparr>tr_entries := es\<rparr>,
          Option.bind (hm_get es tid) (\<lambda>e. if te_owner e = owner then Some (te_state e) else None)))"

definition update_message :: "task_clock \<Rightarrow> string \<Rightarrow> string \<Rightarrow> task_registry \<Rightarrow> task_registry" where
  "update_message clk tid msg reg =
     reg\<lparr>tr_entries := hm_modify tid (entry_update_message clk msg) (tr_entries reg)\<rparr>"

text \<open>The shape four settling operations share: apply the entry's operation if the entry exists,
  then prune unless nothing changed.\<close>

definition settle ::
  "nat \<Rightarrow> string \<Rightarrow> (task_entry \<Rightarrow> task_entry \<times> task_settlement) \<Rightarrow> task_registry \<Rightarrow>
   task_registry \<times> task_settlement" where
  "settle now tid f reg =
     (case hm_get (tr_entries reg) tid of
        None \<Rightarrow> (reg, SUnchanged)
      | Some e \<Rightarrow>
          let (e', s) = f e; es = hm_modify tid (\<lambda>_. e') (tr_entries reg)
          in (reg\<lparr>tr_entries := (if s \<noteq> SUnchanged then prune_terminal_tasks now es else es)\<rparr>, s))"

definition task_complete ::
  "nat \<Rightarrow> task_clock \<Rightarrow> string \<Rightarrow> json \<Rightarrow> task_registry \<Rightarrow> task_registry \<times> task_settlement" where
  "task_complete now clk tid r = settle now tid (entry_complete clk r)"

definition complete_with_cancel_token ::
  "nat \<Rightarrow> task_clock \<Rightarrow> string \<Rightarrow> json \<Rightarrow> token \<Rightarrow> string \<Rightarrow> task_registry \<Rightarrow>
   task_registry \<times> task_settlement" where
  "complete_with_cancel_token now clk tid r tok cancel_msg reg =
     settle now tid
       (\<lambda>e. if tok \<in> tr_cancelled reg
            then (let (e', fin) = entry_finish_cancelled clk cancel_msg e
                  in (e', if fin then SCancelled else SUnchanged))
            else entry_complete clk r e) reg"

definition complete_or_defer_cancellation ::
  "nat \<Rightarrow> task_clock \<Rightarrow> string \<Rightarrow> json \<Rightarrow> token \<Rightarrow> task_registry \<Rightarrow> task_registry \<times> task_decision" where
  "complete_or_defer_cancellation now clk tid r tok reg =
     (case hm_get (tr_entries reg) tid of
        None \<Rightarrow> (reg, DUnchanged)
      | Some e \<Rightarrow>
          if ts_status (te_state e) \<noteq> TRunning then (reg, DUnchanged)
          else if tok \<in> tr_cancelled reg \<or> te_cancel_requested e \<noteq> None
          then (reg, DCancellationPending)
          else let (e', s) = entry_complete clk r e;
                   es = hm_modify tid (\<lambda>_. e') (tr_entries reg)
               in if s = SCompleted
                  then (reg\<lparr>tr_entries := prune_terminal_tasks now es\<rparr>, DCompleted)
                  else (reg\<lparr>tr_entries := es\<rparr>, DUnchanged))"

definition task_fail ::
  "nat \<Rightarrow> task_clock \<Rightarrow> string \<Rightarrow> string \<Rightarrow> task_registry \<Rightarrow> task_registry \<times> task_settlement" where
  "task_fail now clk tid err = settle now tid (entry_fail clk err)"

definition fail_after_cleanup_error ::
  "nat \<Rightarrow> task_clock \<Rightarrow> string \<Rightarrow> string \<Rightarrow> task_registry \<Rightarrow> task_registry \<times> task_settlement" where
  "fail_after_cleanup_error now clk tid err =
     settle now tid (entry_fail_after_cleanup_error clk err)"

definition cancel_for_owner ::
  "nat \<Rightarrow> task_clock \<Rightarrow> task_owner \<Rightarrow> string \<Rightarrow> task_registry \<Rightarrow> task_registry \<times> bool" where
  "cancel_for_owner now clk owner tid reg =
     (case hm_get (tr_entries reg) tid of
        None \<Rightarrow> (reg, False)
      | Some e \<Rightarrow>
          if te_owner e \<noteq> owner then (reg, False)
          else let ((e', C), cancelled) =
                     entry_request_cancel clk ''Cancelled by client'' e (tr_cancelled reg);
                   es = hm_modify tid (\<lambda>_. e') (tr_entries reg)
               in (reg\<lparr>tr_entries := (if cancelled then prune_terminal_tasks now es else es),
                       tr_cancelled := C\<rparr>, cancelled))"

definition finish_cancelled ::
  "nat \<Rightarrow> task_clock \<Rightarrow> string \<Rightarrow> string \<Rightarrow> task_registry \<Rightarrow> task_registry \<times> bool" where
  "finish_cancelled now clk tid msg reg =
     (case hm_get (tr_entries reg) tid of
        None \<Rightarrow> (reg, False)
      | Some e \<Rightarrow>
          let (e', cancelled) = entry_finish_cancelled clk msg e;
              es = hm_modify tid (\<lambda>_. e') (tr_entries reg)
          in (reg\<lparr>tr_entries := (if cancelled then prune_terminal_tasks now es else es)\<rparr>, cancelled))"

text \<open>The fold over \<open>values_mut()\<close>.\<close>

fun request_cancel_all ::
  "task_clock \<Rightarrow> string \<Rightarrow> task_entries \<Rightarrow> token set \<Rightarrow> task_entries \<times> token set \<times> nat" where
  "request_cancel_all clk msg [] C = ([], C, 0)"
| "request_cancel_all clk msg ((tid, e) # es) C =
     (let ((e', C'), b) = entry_request_cancel clk msg e C;
          (es', C'', n) = request_cancel_all clk msg es C'
      in ((tid, e') # es', C'', (if b then Suc n else n)))"

definition cancel_all_running ::
  "nat \<Rightarrow> task_clock \<Rightarrow> string \<Rightarrow> task_registry \<Rightarrow> task_registry \<times> nat" where
  "cancel_all_running now clk msg reg =
     (let (es, C, n) = request_cancel_all clk msg (tr_entries reg) (tr_cancelled reg)
      in (reg\<lparr>tr_entries := (if 0 < n then prune_terminal_tasks now es else es), tr_cancelled := C\<rparr>,
          n))"

end
