(* ===== verification/Lifecycle.thy ===== *)
theory Lifecycle
  imports Hash_Map
begin

text \<open>
  What a component with state promises over a whole run: an invariant kept by every operation, and
  records that, once settled, never change again. Each registry of the program is an
  interpretation.
\<close>

locale lifecycle =
  fixes step :: "'op \<Rightarrow> 's \<Rightarrow> 's"
    and inv :: "'s \<Rightarrow> bool"
  assumes step_inv: "inv s \<Longrightarrow> inv (step op s)"
begin

lemma run_inv: "inv s \<Longrightarrow> inv (fold step ops s)"
  by (induction ops arbitrary: s) (auto intro: step_inv)

end

text \<open>Settled records: an operation that does not create the key anew either leaves a settled
  record as it is or drops it, and cannot bring a dropped key back.\<close>

locale settling = lifecycle step inv
  for step :: "'op \<Rightarrow> 's \<Rightarrow> 's" and inv :: "'s \<Rightarrow> bool" +
  fixes view :: "'s \<Rightarrow> 'k \<Rightarrow> 'v option"
    and settled :: "'v \<Rightarrow> bool"
    and creates :: "'op \<Rightarrow> 'k \<Rightarrow> bool"
  assumes settled_step: "inv s \<Longrightarrow> view s k = Some v \<Longrightarrow> settled v \<Longrightarrow> \<not> creates op k \<Longrightarrow>
            view (step op s) k = Some v \<or> view (step op s) k = None"
    and absent_step: "inv s \<Longrightarrow> view s k = None \<Longrightarrow> \<not> creates op k \<Longrightarrow> view (step op s) k = None"
begin

lemma absent_run:
  "inv s \<Longrightarrow> view s k = None \<Longrightarrow> \<forall>op \<in> set ops. \<not> creates op k \<Longrightarrow> view (fold step ops s) k = None"
  by (induction ops arbitrary: s) (auto simp: absent_step step_inv)

lemma settled_run:
  "inv s \<Longrightarrow> view s k = Some v \<Longrightarrow> settled v \<Longrightarrow> \<forall>op \<in> set ops. \<not> creates op k \<Longrightarrow>
     view (fold step ops s) k = Some v \<or> view (fold step ops s) k = None"
proof (induction ops arbitrary: s)
  case (Cons op ops)
  have "view (step op s) k = Some v \<or> view (step op s) k = None"
    using Cons.prems by (intro settled_step) auto
  then show ?case
    using Cons.prems Cons.IH [of "step op s"] absent_run [of "step op s" k ops]
    by (auto simp: step_inv)
qed simp

end

end
