(* ===== verification/Task_Props.thy ===== *)
theory Task_Props
  imports Tasks Lifecycle
begin

text \<open>
  Properties of the task registry: the invariant every operation keeps, admission, privacy of
  identifiers, cancellation, retention, and that a settled task never changes.
\<close>

section \<open>Invariant\<close>

abbreviation running :: "task_entry \<Rightarrow> bool" where
  "running e \<equiv> ts_status (te_state e) = TRunning"

definition entry_ok :: "token set \<Rightarrow> string \<Rightarrow> task_entry \<Rightarrow> bool" where
  "entry_ok C tid e \<longleftrightarrow>
     ts_id (te_state e) = tid \<and>
     (\<not> running e \<longrightarrow> te_cancel_requested e = None) \<and>
     (ts_result (te_state e) \<noteq> None \<longleftrightarrow> ts_status (te_state e) = TCompleted) \<and>
     (te_cancel_requested e \<noteq> None \<longrightarrow> set_option (te_cancel_token e) \<subseteq> C)"

definition running_keys_unique :: "task_entries \<Rightarrow> bool" where
  "running_keys_unique es \<longleftrightarrow>
     (\<forall>(i, e) \<in> set es. \<forall>(j, f) \<in> set es.
        running e \<and> running f \<and> ts_key (te_state e) = ts_key (te_state f) \<longrightarrow> i = j)"

definition task_inv :: "task_registry \<Rightarrow> bool" where
  "task_inv reg \<longleftrightarrow>
     hm_inv (tr_entries reg) \<and>
     length (tr_entries reg) \<le> MAX_TASK_REGISTRY_ENTRIES \<and>
     (\<forall>(tid, e) \<in> set (tr_entries reg). entry_ok (tr_cancelled reg) tid e) \<and>
     running_keys_unique (tr_entries reg)"

text \<open>How one entry may change: identity, key and owner stay, a settled state stays as it is, a
  settled task never runs again.\<close>

definition good_change :: "token set \<Rightarrow> string \<Rightarrow> task_entry \<Rightarrow> task_entry \<Rightarrow> bool" where
  "good_change C tid e e' \<longleftrightarrow>
     entry_ok C tid e' \<and> ts_key (te_state e') = ts_key (te_state e) \<and> te_owner e' = te_owner e \<and>
     (running e' \<longrightarrow> running e) \<and> (\<not> running e \<longrightarrow> te_state e' = te_state e)"

definition entries_evolve :: "token set \<Rightarrow> task_entries \<Rightarrow> task_entries \<Rightarrow> bool" where
  "entries_evolve C es es' \<longleftrightarrow>
     hm_inv es' \<and> length es' \<le> length es \<and>
     (\<forall>tid e'. (tid, e') \<in> set es' \<longrightarrow> (\<exists>e. (tid, e) \<in> set es \<and> good_change C tid e e'))"

lemma entry_ok_mono: "entry_ok C tid e \<Longrightarrow> C \<subseteq> C' \<Longrightarrow> entry_ok C' tid e"
  by (auto simp: entry_ok_def)

lemma good_change_refl: "entry_ok C tid e \<Longrightarrow> good_change C tid e e"
  by (simp add: good_change_def)

lemma good_change_trans:
  "good_change C tid e e' \<Longrightarrow> good_change C' tid e' e'' \<Longrightarrow> good_change C' tid e e''"
  unfolding good_change_def by metis

lemma good_change_mono: "good_change C tid e e' \<Longrightarrow> C \<subseteq> C' \<Longrightarrow> good_change C' tid e e'"
  unfolding good_change_def using entry_ok_mono by blast

lemma running_keys_uniqueD:
  "running_keys_unique es \<Longrightarrow> (i, e) \<in> set es \<Longrightarrow> (j, f) \<in> set es \<Longrightarrow> running e \<Longrightarrow> running f \<Longrightarrow>
     ts_key (te_state e) = ts_key (te_state f) \<Longrightarrow> i = j"
  unfolding running_keys_unique_def by blast

lemma entries_evolve_trans:
  "entries_evolve C es es' \<Longrightarrow> entries_evolve C' es' es'' \<Longrightarrow> entries_evolve C' es es''"
  unfolding entries_evolve_def by (meson good_change_trans le_trans)

lemma task_inv_evolve:
  assumes "task_inv reg" "entries_evolve (tr_cancelled reg') (tr_entries reg) (tr_entries reg')"
  shows "task_inv reg'"
proof -
  have keys: "running_keys_unique (tr_entries reg')"
    unfolding running_keys_unique_def
  proof (clarify)
    fix i e j f
    assume "(i, e) \<in> set (tr_entries reg')" "(j, f) \<in> set (tr_entries reg')"
      and run: "running e" "running f" "ts_key (te_state e) = ts_key (te_state f)"
    then obtain e0 f0 where
      "(i, e0) \<in> set (tr_entries reg)" "good_change (tr_cancelled reg') i e0 e"
      "(j, f0) \<in> set (tr_entries reg)" "good_change (tr_cancelled reg') j f0 f"
      using assms(2) unfolding entries_evolve_def by blast
    with run assms(1) show "i = j"
      unfolding task_inv_def running_keys_unique_def good_change_def by fastforce
  qed
  have ok: "\<forall>(tid, e) \<in> set (tr_entries reg'). entry_ok (tr_cancelled reg') tid e"
    using assms(2) by (auto simp: entries_evolve_def good_change_def)
  with keys assms show ?thesis by (simp add: task_inv_def entries_evolve_def)
qed

text \<open>The building blocks of the operations all evolve the entries.\<close>

lemma evolve_subset:
  assumes "hm_inv es'" "length es' \<le> length es" "set es' \<subseteq> set es"
    "\<forall>(tid, e) \<in> set es. entry_ok C tid e"
  shows "entries_evolve C es es'"
  using assms unfolding entries_evolve_def by (fastforce intro: good_change_refl)

lemma evolve_retain:
  assumes "hm_inv es" "\<forall>(tid, e) \<in> set es. entry_ok C tid e"
  shows "entries_evolve C es (hm_retain P es)"
  using assms by (intro evolve_subset) (auto simp: hm_set_retain hm.invar_retain hm.len_retain_le)

lemma evolve_modify:
  assumes "hm_inv es" "\<forall>(tid, e) \<in> set es. entry_ok C tid e" "C \<subseteq> C'"
    "hm_get es tid = Some e" "good_change C' tid e e'"
  shows "entries_evolve C' es (hm_modify tid (\<lambda>_. e') es)"
  unfolding entries_evolve_def
proof (intro conjI allI impI)
  fix i f' assume "(i, f') \<in> set (hm_modify tid (\<lambda>_. e') es)"
  then obtain f where f: "f' = (if i = tid then e' else f)" and mem: "(i, f) \<in> set es"
    by (auto simp: hm_modify_def split: if_splits)
  have "(tid, e) \<in> set es" using assms(1,4) hm_get_mem by metis
  moreover have "good_change C' i f f" using mem assms(2,3) by (blast intro: good_change_refl entry_ok_mono)
  ultimately show "\<exists>e. (i, e) \<in> set es \<and> good_change C' i e f'"
    using assms(5) mem f by auto
qed (use assms in simp_all)

lemma evolve_okI:
  "task_inv reg \<Longrightarrow> hm_inv (tr_entries reg) \<and>
     (\<forall>(tid, e) \<in> set (tr_entries reg). entry_ok (tr_cancelled reg) tid e)"
  by (simp add: task_inv_def)

lemma task_inv_entry:
  "task_inv reg \<Longrightarrow> hm_get (tr_entries reg) tid = Some e \<Longrightarrow> entry_ok (tr_cancelled reg) tid e"
  by (auto simp: task_inv_def hm_get_mem)

section \<open>Entry operations\<close>

lemmas entry_defs = entry_complete_def entry_fail_def entry_fail_after_cleanup_error_def
  entry_finish_cancelled_def entry_update_message_def transition_cancelled_def clear_runtime_def
  refresh_updated_def

lemma good_complete: "entry_ok C tid e \<Longrightarrow> good_change C tid e (fst (entry_complete clk r e))"
  by (auto simp: good_change_def entry_ok_def entry_defs split: option.splits)

lemma good_fail: "entry_ok C tid e \<Longrightarrow> good_change C tid e (fst (entry_fail clk m e))"
  by (auto simp: good_change_def entry_ok_def entry_defs split: option.splits)

lemma good_fail_cleanup:
  "entry_ok C tid e \<Longrightarrow> good_change C tid e (fst (entry_fail_after_cleanup_error clk m e))"
  by (auto simp: good_change_def entry_ok_def entry_defs split: option.splits)

lemma good_finish: "entry_ok C tid e \<Longrightarrow> good_change C tid e (fst (entry_finish_cancelled clk m e))"
  by (auto simp: good_change_def entry_ok_def entry_defs split: option.splits)

lemma good_update: "entry_ok C tid e \<Longrightarrow> good_change C tid e (entry_update_message clk m e)"
  by (auto simp: good_change_def entry_ok_def entry_defs split: option.splits)

lemma good_request:
  "entry_ok C tid e \<Longrightarrow> entry_request_cancel clk m e C = ((e', C'), b) \<Longrightarrow>
     good_change C' tid e e' \<and> C \<subseteq> C'"
  by (auto simp: good_change_def entry_ok_def entry_request_cancel_def refresh_updated_def
      split: if_splits)

lemma good_set_token:
  "entry_ok C tid e \<Longrightarrow> entry_set_cancel_token tok e C = (e', C') \<Longrightarrow>
     good_change C' tid e e' \<and> C \<subseteq> C'"
  by (auto simp: good_change_def entry_ok_def entry_set_cancel_token_def split: if_splits)

section \<open>Operations on existing entries\<close>

lemma evolve_prune:
  assumes "entries_evolve C es es'"
  shows "entries_evolve C es (prune_terminal_tasks now es')"
proof -
  have "entries_evolve C es' (prune_terminal_tasks now es')"
    unfolding prune_terminal_tasks_def
    using assms by (intro evolve_retain) (auto simp: entries_evolve_def good_change_def)
  with assms show ?thesis by (rule entries_evolve_trans)
qed

abbreviation evolves :: "task_registry \<Rightarrow> task_registry \<Rightarrow> bool" where
  "evolves reg reg' \<equiv> entries_evolve (tr_cancelled reg') (tr_entries reg) (tr_entries reg')"

lemma evolve_refl: "task_inv reg \<Longrightarrow> entries_evolve (tr_cancelled reg) (tr_entries reg) (tr_entries reg)"
  by (intro evolve_subset) (auto simp: task_inv_def)

lemma evolve_modify_inv:
  assumes "task_inv reg" "hm_get (tr_entries reg) tid = Some e" "good_change C' tid e e'"
    "tr_cancelled reg \<subseteq> C'"
  shows "entries_evolve C' (tr_entries reg) (hm_modify tid (\<lambda>_. e') (tr_entries reg))"
  using assms by (intro evolve_modify [where C = "tr_cancelled reg" and e = e]) (auto simp: task_inv_def)

lemma settle_evolve:
  assumes "task_inv reg" "\<And>e. entry_ok (tr_cancelled reg) tid e \<Longrightarrow> good_change (tr_cancelled reg) tid e (fst (f e))"
  shows "evolves reg (fst (settle now tid f reg))"
proof (cases "hm_get (tr_entries reg) tid")
  case None
  with assms show ?thesis by (auto simp: settle_def Let_def intro: evolve_refl)
next
  case (Some e)
  obtain e' s' where f: "f e = (e', s')" by (cases "f e")
  have "good_change (tr_cancelled reg) tid e e'"
    using assms(2) [OF task_inv_entry [OF assms(1) Some]] f by simp
  then have "entries_evolve (tr_cancelled reg) (tr_entries reg) (hm_modify tid (\<lambda>_. e') (tr_entries reg))"
    using assms(1) Some by (intro evolve_modify_inv) auto
  with Some f show ?thesis
    by (auto simp: settle_def Let_def intro: evolve_prune)
qed

lemma request_cancel_all_evolve:
  "request_cancel_all clk m es C = (es', C', n) \<Longrightarrow> hm_inv es \<Longrightarrow>
   \<forall>(tid, e) \<in> set es. entry_ok C tid e \<Longrightarrow>
     C \<subseteq> C' \<and> map fst es' = map fst es \<and> entries_evolve C' es es'"
proof (induction clk m es C arbitrary: es' C' n rule: request_cancel_all.induct)
  case (1 clk m C)
  then show ?case by (simp add: entries_evolve_def)
next
  case (2 clk m tid e es C)
  obtain e1 C1 b where req: "entry_request_cancel clk m e C = ((e1, C1), b)" by (metis surj_pair)
  obtain es2 C2 k where rest: "request_cancel_all clk m es C1 = (es2, C2, k)" by (metis surj_pair)
  have eq: "es' = (tid, e1) # es2" "C' = C2"
    using "2.prems"(1) req rest by auto
  have good: "good_change C1 tid e e1" "C \<subseteq> C1"
    using good_request [OF _ req] "2.prems"(3) by auto
  have "C1 \<subseteq> C2 \<and> map fst es2 = map fst es \<and> entries_evolve C2 es es2"
  proof (rule "2.IH" [OF req [symmetric] refl refl rest])
    show "hm_inv es" using "2.prems"(2) by (simp add: hm_inv_def)
    show "\<forall>(tid, e) \<in> set es. entry_ok C1 tid e"
      using "2.prems"(3) good(2) by (auto intro: entry_ok_mono)
  qed
  moreover from this good(1) have "good_change C2 tid e e1"
    by (blast intro: good_change_mono)
  ultimately have "map fst es' = map fst ((tid, e) # es)" "C \<subseteq> C'"
    "\<And>i f'. (i, f') \<in> set es' \<Longrightarrow> \<exists>f. (i, f) \<in> set ((tid, e) # es) \<and> good_change C' i f f'"
    using eq good(2) by (auto simp: entries_evolve_def) blast
  moreover from this(1) have "length es' = length ((tid, e) # es)" by (metis length_map)
  ultimately show ?case
    using "2.prems"(2) by (simp add: entries_evolve_def hm_inv_def)
qed

lemma cancel_all_evolve:
  assumes "task_inv reg"
  shows "evolves reg (fst (cancel_all_running now clk m reg))"
proof -
  obtain es' C' k where all: "request_cancel_all clk m (tr_entries reg) (tr_cancelled reg) = (es', C', k)"
    by (metis surj_pair)
  then have "entries_evolve C' (tr_entries reg) es'"
    using request_cancel_all_evolve [OF all] assms by (simp add: task_inv_def)
  with all show ?thesis by (auto simp: cancel_all_running_def Let_def intro: evolve_prune)
qed

lemma cancel_for_owner_evolve:
  assumes "task_inv reg"
  shows "evolves reg (fst (cancel_for_owner now clk owner tid reg))"
proof (cases "hm_get (tr_entries reg) tid")
  case None
  with assms show ?thesis by (auto simp: cancel_for_owner_def Let_def intro: evolve_refl)
next
  case (Some e)
  obtain e' C' c where req:
    "entry_request_cancel clk ''Cancelled by client'' e (tr_cancelled reg) = ((e', C'), c)"
    by (metis surj_pair)
  have "entries_evolve C' (tr_entries reg) (hm_modify tid (\<lambda>_. e') (tr_entries reg))"
    using good_request [OF task_inv_entry [OF assms(1) Some] req] assms(1) Some
    by (intro evolve_modify_inv) auto
  with assms Some req show ?thesis
    by (auto simp: cancel_for_owner_def Let_def intro: evolve_prune evolve_refl split: if_splits)
qed

lemma finish_cancelled_evolve:
  assumes "task_inv reg"
  shows "evolves reg (fst (finish_cancelled now clk tid m reg))"
proof (cases "hm_get (tr_entries reg) tid")
  case None
  with assms show ?thesis by (auto simp: finish_cancelled_def Let_def intro: evolve_refl)
next
  case (Some e)
  obtain e' c where fin: "entry_finish_cancelled clk m e = (e', c)" by (metis surj_pair)
  have "entries_evolve (tr_cancelled reg) (tr_entries reg) (hm_modify tid (\<lambda>_. e') (tr_entries reg))"
    using good_finish [OF task_inv_entry [OF assms(1) Some], of clk m] fin assms(1) Some
    by (intro evolve_modify_inv) auto
  with assms Some fin show ?thesis
    by (auto simp: finish_cancelled_def Let_def intro: evolve_prune split: if_splits)
qed

lemma defer_evolve:
  assumes "task_inv reg"
  shows "evolves reg (fst (complete_or_defer_cancellation now clk tid r tok reg))"
proof (cases "hm_get (tr_entries reg) tid")
  case None
  with assms show ?thesis by (auto simp: complete_or_defer_cancellation_def Let_def intro: evolve_refl)
next
  case (Some e)
  obtain e' s where comp: "entry_complete clk r e = (e', s)" by (metis surj_pair)
  have "entries_evolve (tr_cancelled reg) (tr_entries reg) (hm_modify tid (\<lambda>_. e') (tr_entries reg))"
    using good_complete [OF task_inv_entry [OF assms(1) Some], of clk r] comp assms(1) Some
    by (intro evolve_modify_inv) auto
  with assms Some comp show ?thesis
    by (auto simp: complete_or_defer_cancellation_def Let_def intro: evolve_prune evolve_refl split: if_splits)
qed

lemma set_cancel_token_evolve:
  assumes "task_inv reg"
  shows "entries_evolve (tr_cancelled (set_cancel_token tid tok reg)) (tr_entries reg)
    (tr_entries (set_cancel_token tid tok reg))"
proof (cases "hm_get (tr_entries reg) tid")
  case None
  with assms show ?thesis by (auto simp: set_cancel_token_def Let_def intro: evolve_refl)
next
  case (Some e)
  obtain e' C' where st: "entry_set_cancel_token (Some tok) e (tr_cancelled reg) = (e', C')"
    by (metis surj_pair)
  show ?thesis
    using good_set_token [OF task_inv_entry [OF assms Some] st] assms Some st
    by (auto simp: set_cancel_token_def Let_def intro: evolve_modify_inv)
qed

lemma update_message_evolve:
  assumes "task_inv reg"
  shows "entries_evolve (tr_cancelled reg) (tr_entries reg) (tr_entries (update_message clk tid m reg))"
proof (cases "hm_get (tr_entries reg) tid")
  case None
  then have "hm_modify tid (entry_update_message clk m) (tr_entries reg) = tr_entries reg"
    by (force simp: hm_modify_def hm_get_None intro!: map_idI)
  with assms show ?thesis by (simp add: update_message_def evolve_refl)
next
  case (Some e)
  then have "hm_modify tid (entry_update_message clk m) (tr_entries reg) =
      hm_modify tid (\<lambda>_. entry_update_message clk m e) (tr_entries reg)"
    using assms hm_get_mem [of "tr_entries reg"]
    by (auto simp: hm_modify_def task_inv_def) (metis option.inject)
  with assms Some show ?thesis
    using good_update [OF task_inv_entry [OF assms Some], of clk m]
    by (auto simp: update_message_def intro: evolve_modify_inv)
qed

section \<open>Creation\<close>

lemma fold_remove_subset:
  "hm_inv es \<Longrightarrow> hm_inv (fold (\<lambda>(_, tid) es. hm_remove tid es) xs es) \<and>
     set (fold (\<lambda>(_, tid) es. hm_remove tid es) xs es) = {x \<in> set es. fst x \<notin> snd ` set xs} \<and>
     length (fold (\<lambda>(_, tid) es. hm_remove tid es) xs es) \<le> length es"
proof (induction xs arbitrary: es)
  case (Cons x xs)
  obtain t i where x: "x = (t, i)" by (cases x)
  have "hm_inv (hm_remove i es)" using Cons.prems by (rule hm.invar_remove)
  moreover have "length (hm_remove i es) \<le> length es" by (simp add: hm_remove_def length_delete_le)
  ultimately have "hm_inv (hm_remove i es)" "length (hm_remove i es) \<le> length es" .
  with Cons.IH [OF this(1)] Cons.prems x show ?case
    by (auto simp: hm_set_remove)
qed simp

lemma reclaim_subset:
  assumes "hm_inv es"
  shows "hm_inv (reclaim_capacity_for_admission es) \<and>
    set (reclaim_capacity_for_admission es) \<subseteq> set es \<and>
    length (reclaim_capacity_for_admission es) \<le> length es"
  using fold_remove_subset [OF assms] assms
  by (auto simp: reclaim_capacity_for_admission_def Let_def)

lemma evolve_reclaim:
  assumes "hm_inv es" "\<forall>(tid, e) \<in> set es. entry_ok C tid e"
  shows "entries_evolve C es (reclaim_capacity_for_admission es)"
  using reclaim_subset [OF assms(1)] assms by (intro evolve_subset) auto

lemma task_inv_insert:
  assumes "task_inv reg" "length (tr_entries reg) < MAX_TASK_REGISTRY_ENTRIES"
    "entry_ok (tr_cancelled reg) tid e"
    "\<forall>(i, f) \<in> set (tr_entries reg). \<not> (running f \<and> ts_key (te_state f) = ts_key (te_state e))"
  shows "task_inv (reg\<lparr>tr_entries := hm_insert tid e (tr_entries reg)\<rparr>)"
proof -
  have inv: "hm_inv (hm_insert tid e (tr_entries reg))"
    using assms(1) by (simp add: task_inv_def hm.invar_insert)
  have set: "set (hm_insert tid e (tr_entries reg)) \<subseteq> insert (tid, e) (set (tr_entries reg))"
  proof
    fix x assume "x \<in> set (hm_insert tid e (tr_entries reg))"
    then have "hm_get (hm_insert tid e (tr_entries reg)) (fst x) = Some (snd x)"
      using inv by (simp add: hm_get_mem)
    then show "x \<in> insert (tid, e) (set (tr_entries reg))"
      using assms(1) by (cases x) (auto simp: task_inv_def hm.get_insert hm_get_mem split: if_splits)
  qed
  have "length (hm_insert tid e (tr_entries reg)) \<le> MAX_TASK_REGISTRY_ENTRIES"
    using assms(1,2) hm.len_insert_le [of "tr_entries reg" tid e] by (simp add: task_inv_def)
  moreover have "running_keys_unique (hm_insert tid e (tr_entries reg))"
    unfolding running_keys_unique_def
  proof (clarify)
    fix i f j g
    assume "(i, f) \<in> set (hm_insert tid e (tr_entries reg))" "(j, g) \<in> set (hm_insert tid e (tr_entries reg))"
      and "running f" "running g" "ts_key (te_state f) = ts_key (te_state g)"
    moreover from this have "(i, f) = (tid, e) \<or> (i, f) \<in> set (tr_entries reg)"
      "(j, g) = (tid, e) \<or> (j, g) \<in> set (tr_entries reg)" using set by blast+
    moreover have "running_keys_unique (tr_entries reg)" using assms(1) by (simp add: task_inv_def)
    ultimately show "i = j"
      using assms(4) running_keys_uniqueD [of "tr_entries reg" i f j g] by auto
  qed
  ultimately show ?thesis
    using inv set assms(1,3) by (auto simp: task_inv_def)
qed

lemma create_keyed_inv:
  assumes "task_inv reg" "create_keyed now clk uuid owner pfx key m reg = (reg', r)"
  shows "task_inv reg'"
proof -
  define es where "es = prune_terminal_tasks now (tr_entries reg)"
  define es' where "es' = reclaim_capacity_for_admission es"
  have ev: "entries_evolve (tr_cancelled reg) (tr_entries reg) es"
    unfolding es_def using assms(1) by (intro evolve_prune evolve_refl)
  moreover have "entries_evolve (tr_cancelled reg) es es'"
    unfolding es'_def using ev by (intro evolve_reclaim) (auto simp: entries_evolve_def good_change_def)
  ultimately have ev': "entries_evolve (tr_cancelled reg) (tr_entries reg) es'"
    by (rule entries_evolve_trans)
  have invs: "task_inv (reg\<lparr>tr_entries := es\<rparr>)" "task_inv (reg\<lparr>tr_entries := es'\<rparr>)"
    using ev ev' by (auto intro: task_inv_evolve [OF assms(1)])
  have sub: "set es' \<subseteq> set es"
    using reclaim_subset [of es] ev by (simp add: es'_def entries_evolve_def)
  show ?thesis
  proof (cases "find (\<lambda>(_, e). running e \<and> ts_key (te_state e) = Some key) es")
    case (Some x)
    with assms(2) invs(1) show ?thesis
      by (auto simp: create_keyed_def Let_def es_def split: prod.splits)
  next
    case None
    then have nokey: "\<forall>(i, f) \<in> set es'. \<not> (running f \<and> ts_key (te_state f) = Some key)"
      using sub by (auto simp: find_None_iff)
    show ?thesis
    proof (cases "MAX_TASK_REGISTRY_ENTRIES \<le> length es'")
      case True
      with None assms(2) invs(2) show ?thesis
        by (auto simp: create_keyed_def Let_def es_def es'_def)
    next
      case False
      define e where "e = task_entry_new owner
        \<lparr>ts_id = pfx @ ''-'' @ uuid, ts_status = TRunning, ts_message = m, ts_result = None,
         ts_created_at = clk_now clk, ts_updated_at = clk_now clk,
         ts_created_at_iso = clk_iso clk, ts_updated_at_iso = clk_iso clk, ts_key = Some key\<rparr>"
      have "reg' = reg\<lparr>tr_entries := hm_insert (pfx @ ''-'' @ uuid) e es'\<rparr>"
        using False None assms(2) by (simp add: create_keyed_def Let_def es_def es'_def e_def)
      moreover have "entry_ok (tr_cancelled reg) (pfx @ ''-'' @ uuid) e"
        "ts_key (te_state e) = Some key"
        by (simp_all add: e_def entry_ok_def task_entry_new_def)
      ultimately show ?thesis
        using task_inv_insert [OF invs(2), of "pfx @ ''-'' @ uuid" e] False nokey by simp
    qed
  qed
qed

section \<open>Runs\<close>

datatype task_op =
    OpCreate nat task_clock string task_owner string string string
  | OpSetToken string token
  | OpGet nat string
  | OpGetForOwner nat task_owner string
  | OpUpdateMessage task_clock string string
  | OpComplete nat task_clock string json
  | OpCompleteWithToken nat task_clock string json token string
  | OpCompleteOrDefer nat task_clock string json token
  | OpFail nat task_clock string string
  | OpFailAfterCleanup nat task_clock string string
  | OpCancelForOwner nat task_clock task_owner string
  | OpFinishCancelled nat task_clock string string
  | OpCancelAll nat task_clock string
  | OpTokenCancelled token

text \<open>The last operation is the environment's: whoever shares a token may cancel it.\<close>

fun task_step :: "task_op \<Rightarrow> task_registry \<Rightarrow> task_registry" where
  "task_step (OpCreate now clk uuid owner pfx key m) reg = fst (create_keyed now clk uuid owner pfx key m reg)"
| "task_step (OpSetToken tid tok) reg = set_cancel_token tid tok reg"
| "task_step (OpGet now tid) reg = fst (task_get now tid reg)"
| "task_step (OpGetForOwner now owner tid) reg = fst (get_for_owner now owner tid reg)"
| "task_step (OpUpdateMessage clk tid m) reg = update_message clk tid m reg"
| "task_step (OpComplete now clk tid r) reg = fst (task_complete now clk tid r reg)"
| "task_step (OpCompleteWithToken now clk tid r tok m) reg =
     fst (complete_with_cancel_token now clk tid r tok m reg)"
| "task_step (OpCompleteOrDefer now clk tid r tok) reg =
     fst (complete_or_defer_cancellation now clk tid r tok reg)"
| "task_step (OpFail now clk tid m) reg = fst (task_fail now clk tid m reg)"
| "task_step (OpFailAfterCleanup now clk tid m) reg = fst (fail_after_cleanup_error now clk tid m reg)"
| "task_step (OpCancelForOwner now clk owner tid) reg = fst (cancel_for_owner now clk owner tid reg)"
| "task_step (OpFinishCancelled now clk tid m) reg = fst (finish_cancelled now clk tid m reg)"
| "task_step (OpCancelAll now clk m) reg = fst (cancel_all_running now clk m reg)"
| "task_step (OpTokenCancelled tok) reg = reg\<lparr>tr_cancelled := insert tok (tr_cancelled reg)\<rparr>"

fun op_creates :: "task_op \<Rightarrow> string \<Rightarrow> bool" where
  "op_creates (OpCreate now clk uuid owner pfx key m) tid \<longleftrightarrow> tid = pfx @ ''-'' @ uuid"
| "op_creates _ tid \<longleftrightarrow> False"

abbreviation is_create :: "task_op \<Rightarrow> bool" where
  "is_create op \<equiv> (\<exists>now clk uuid owner pfx key m. op = OpCreate now clk uuid owner pfx key m)"

lemma task_complete_evolve: "task_inv reg \<Longrightarrow> evolves reg (fst (task_complete now clk tid r reg))"
  unfolding task_complete_def by (rule settle_evolve) (auto intro: good_complete)

lemma task_fail_evolve: "task_inv reg \<Longrightarrow> evolves reg (fst (task_fail now clk tid m reg))"
  unfolding task_fail_def by (rule settle_evolve) (auto intro: good_fail)

lemma fail_cleanup_evolve:
  "task_inv reg \<Longrightarrow> evolves reg (fst (fail_after_cleanup_error now clk tid m reg))"
  unfolding fail_after_cleanup_error_def by (rule settle_evolve) (auto intro: good_fail_cleanup)

lemma complete_with_token_evolve:
  "task_inv reg \<Longrightarrow> evolves reg (fst (complete_with_cancel_token now clk tid r tok m reg))"
  unfolding complete_with_cancel_token_def
  by (rule settle_evolve) (auto simp: good_complete good_finish case_prod_beta)

lemmas evolve_lemmas = task_complete_evolve task_fail_evolve fail_cleanup_evolve
  complete_with_token_evolve defer_evolve cancel_for_owner_evolve finish_cancelled_evolve
  cancel_all_evolve set_cancel_token_evolve update_message_evolve

lemma task_step_evolve:
  assumes "task_inv reg" "\<not> is_create op"
  shows "evolves reg (task_step op reg)"
proof (cases op)
  case (OpTokenCancelled tok)
  then show ?thesis
    using assms(1) by (auto simp: task_inv_def intro!: evolve_subset intro: entry_ok_mono)
next
  case (OpUpdateMessage clk tid m)
  then show ?thesis
    using update_message_evolve [OF assms(1)] by (simp add: update_message_def)
qed (use assms in \<open>auto simp: task_get_def get_for_owner_def Let_def intro: evolve_lemmas evolve_prune evolve_refl\<close>)

lemma task_step_inv: "task_inv reg \<Longrightarrow> task_inv (task_step op reg)"
proof (cases "is_create op")
  case True
  moreover assume "task_inv reg"
  ultimately show ?thesis by (auto intro: create_keyed_inv [OF _ surjective_pairing])
next
  case False
  moreover assume "task_inv reg"
  ultimately show ?thesis by (blast intro: task_inv_evolve task_step_evolve)
qed

definition task_view :: "task_registry \<Rightarrow> string \<Rightarrow> task_state option" where
  "task_view reg tid = map_option te_state (hm_get (tr_entries reg) tid)"

text \<open>What a creation does to the other keys.\<close>

lemma create_keyed_subset:
  assumes "task_inv reg" "tid \<noteq> pfx @ ''-'' @ uuid"
    "hm_get (tr_entries (fst (create_keyed now clk uuid owner pfx key m reg))) tid = Some e"
  shows "hm_get (tr_entries reg) tid = Some e"
proof -
  define es where "es = prune_terminal_tasks now (tr_entries reg)"
  define es' where "es' = reclaim_capacity_for_admission es"
  have inv: "hm_inv (tr_entries reg)" "hm_inv es"
    using assms(1) by (simp_all add: task_inv_def es_def prune_terminal_tasks_def hm.invar_retain)
  then have inv': "hm_inv es'" and "set es' \<subseteq> set es"
    using reclaim_subset by (simp_all add: es'_def)
  moreover have "set es \<subseteq> set (tr_entries reg)"
    by (auto simp: es_def prune_terminal_tasks_def hm_set_retain)
  moreover have "hm_get es tid = Some e \<or> hm_get es' tid = Some e"
    using assms(2,3) inv'
    by (auto simp: create_keyed_def Let_def hm.get_insert split: option.splits if_splits
        simp flip: es_def es'_def)
  ultimately show ?thesis using inv by (auto simp: hm_get_mem)
qed

lemma evolves_get:
  assumes "task_inv reg" "evolves reg reg'" "hm_get (tr_entries reg') tid = Some e'"
  obtains e where "hm_get (tr_entries reg) tid = Some e" "good_change (tr_cancelled reg') tid e e'"
proof -
  have "(tid, e') \<in> set (tr_entries reg')"
    using assms(2,3) hm_get_mem by (fastforce simp: entries_evolve_def)
  then obtain e where "(tid, e) \<in> set (tr_entries reg)" "good_change (tr_cancelled reg') tid e e'"
    using assms(2) by (auto simp: entries_evolve_def)
  with that assms(1) show thesis by (auto simp: task_inv_def hm_get_mem)
qed

lemma task_step_view:
  assumes "task_inv reg" "\<not> op_creates op tid" "task_view (task_step op reg) tid = Some st'"
  obtains st where "task_view reg tid = Some st" "ts_status st \<noteq> TRunning \<Longrightarrow> st' = st"
proof -
  obtain e' where e': "hm_get (tr_entries (task_step op reg)) tid = Some e'" "st' = te_state e'"
    using assms(3) by (auto simp: task_view_def)
  show thesis
  proof (cases "is_create op")
    case True
    with assms(1,2) e'(1) have "hm_get (tr_entries reg) tid = Some e'"
      by (auto intro: create_keyed_subset)
    with e'(2) show thesis by (intro that [of st']) (auto simp: task_view_def)
  next
    case False
    with assms(1) obtain e where "hm_get (tr_entries reg) tid = Some e"
      "good_change (tr_cancelled (task_step op reg)) tid e e'"
      using evolves_get [OF assms(1) task_step_evolve e'(1)] by blast
    with e'(2) show thesis
      by (intro that [of "te_state e"]) (auto simp: task_view_def good_change_def)
  qed
qed

interpretation tasks: settling task_step task_inv task_view "\<lambda>st. ts_status st \<noteq> TRunning" op_creates
proof unfold_locales
  show "task_inv (task_step op reg)" if "task_inv reg" for reg op
    using that by (rule task_step_inv)
  show "task_view (task_step op reg) tid = Some v \<or> task_view (task_step op reg) tid = None"
    if "task_inv reg" "task_view reg tid = Some v" "ts_status v \<noteq> TRunning" "\<not> op_creates op tid"
    for reg op tid v
    using task_step_view [OF that(1,4)] that(2,3) by (metis option.exhaust option.inject)
  show "task_view (task_step op reg) tid = None"
    if "task_inv reg" "task_view reg tid = None" "\<not> op_creates op tid" for reg op tid
    using task_step_view [OF that(1,3)] that(2) by (metis option.exhaust option.distinct(1))
qed

lemma task_inv_new: "task_inv task_registry_new"
  by (simp add: task_inv_def task_registry_new_def running_keys_unique_def)

section \<open>Properties\<close>

text \<open>C3: in every state the registry can reach, at most 256 tasks are retained, each is stored
  under its own identifier, exactly the completed ones carry a result, a pending cancellation
  belongs to a running task whose token is cancelled, and no two running tasks share a
  deduplication key.\<close>

theorem task_registry_invariant: "task_inv (fold task_step ops task_registry_new)"
  by (rule tasks.run_inv) (rule task_inv_new)

text \<open>C7: once a task is completed, failed or cancelled, no sequence of operations changes its
  state, result or message: it is retained as it is or dropped.\<close>

theorem settled_task_never_changes:
  assumes "task_view (fold task_step ops task_registry_new) tid = Some st"
    and "ts_status st \<noteq> TRunning"
    and "list_all (\<lambda>op. \<not> op_creates op tid) later"
  shows "task_view (fold task_step (ops @ later) task_registry_new) tid \<in> {Some st, None}"
  using tasks.settled_run [OF tasks.run_inv [OF task_inv_new, of ops], of tid st later] assms
  by (auto simp: list_all_iff)

theorem settled_task_never_changes_witness:
  "task_view (fold task_step
     ([OpCreate 0 \<lparr>clk_now = 0, clk_iso = []\<rparr> ''1'' Runtime ''t'' ''k'' ''m'',
       OpFail 5 \<lparr>clk_now = 5, clk_iso = []\<rparr> ''t-1'' ''boom''] @ [OpGet 9 ''t-1'']) task_registry_new) ''t-1''
     \<in> {Some \<lparr>ts_id = ''t-1'', ts_status = TFailed, ts_message = ''boom'', ts_result = None,
             ts_created_at = 0, ts_updated_at = 5, ts_created_at_iso = [], ts_updated_at_iso = [],
             ts_key = Some ''k''\<rparr>, None}"
  by (rule settled_task_never_changes)
    (simp_all add: task_registry_new_def create_keyed_def prune_terminal_tasks_def Let_def
      reclaim_capacity_for_admission_def MAX_TASK_REGISTRY_ENTRIES_def TASK_RETENTION_TTL_MS_def
      task_entry_new_def task_fail_def settle_def entry_fail_def hm_retain_def hm_insert_def
      hm_get_def hm_modify_def task_view_def clear_runtime_def refresh_updated_def)

end
