(* ===== verification/Task_Contract.thy ===== *)
theory Task_Contract
  imports Task_Props
begin

text \<open>
  What the registry promises its callers: when a task is admitted, who may learn of it, that a
  cancellation request is never lost, and that a running task is kept until it settles.
\<close>

section \<open>Pruning and reclaiming keep running tasks\<close>

lemma prune_mem:
  "(tid, e) \<in> set (prune_terminal_tasks now es) \<longleftrightarrow>
     (tid, e) \<in> set es \<and> (running e \<or> now - ts_updated_at (te_state e) < TASK_RETENTION_TTL_MS)"
  by (auto simp: prune_terminal_tasks_def hm_set_retain)

lemma prune_get:
  "hm_inv es \<Longrightarrow> hm_get (prune_terminal_tasks now es) tid =
     (case hm_get es tid of
        Some e \<Rightarrow> if running e \<or> now - ts_updated_at (te_state e) < TASK_RETENTION_TTL_MS then Some e else None
      | None \<Rightarrow> None)"
  by (simp add: prune_terminal_tasks_def hm.get_retain split: option.splits)

lemma prune_inv [simp]: "hm_inv es \<Longrightarrow> hm_inv (prune_terminal_tasks now es)"
  by (simp add: prune_terminal_tasks_def hm.invar_retain)

lemma prune_length: "length (prune_terminal_tasks now es) \<le> length es"
  by (simp add: prune_terminal_tasks_def hm_retain_def)

lemma terminal_ids_mem: "(t, tid) \<in> set (terminal_ids es) \<longleftrightarrow>
    (\<exists>e. (tid, e) \<in> set es \<and> \<not> running e \<and> t = ts_updated_at (te_state e))"
  by (force simp: terminal_ids_def)

lemma reclaim_keeps_running:
  assumes "hm_inv es" "(tid, e) \<in> set es" "running e"
  shows "(tid, e) \<in> set (reclaim_capacity_for_admission es)"
proof -
  have "tid \<notin> snd ` set (take k (sort (terminal_ids es)))" for k
  proof
    assume "tid \<in> snd ` set (take k (sort (terminal_ids es)))"
    then obtain t where "(t, tid) \<in> set (terminal_ids es)" by (force dest: in_set_takeD)
    then obtain f where "(tid, f) \<in> set es" "\<not> running f" by (auto simp: terminal_ids_mem)
    with assms show False using hm_get_mem by (metis option.inject)
  qed
  with assms(2) fold_remove_subset [OF assms(1), of "take _ (sort (terminal_ids es))"] show ?thesis
    by (simp add: reclaim_capacity_for_admission_def Let_def)
qed

text \<open>At the limit, reclaiming removes exactly one task, the least recently updated settled one.\<close>

lemma reclaim_full:
  assumes "hm_inv es" "length es = MAX_TASK_REGISTRY_ENTRIES" "terminal_ids es \<noteq> []"
  shows "reclaim_capacity_for_admission es = hm_remove (snd (Min (set (terminal_ids es)))) es"
proof -
  have "sort (terminal_ids es) \<noteq> []" using assms(3) by (metis sort_key_const length_0_conv length_sort)
  then obtain x xs where s: "sort (terminal_ids es) = x # xs" by (cases "sort (terminal_ids es)") auto
  then have "set (terminal_ids es) = insert x (set xs)" "\<forall>y \<in> set xs. x \<le> y"
    using sorted_sort [of "terminal_ids es"] by (metis set_sort list.set(2)) (metis s sorted_sort sorted_simps(2))
  then have "Min (set (terminal_ids es)) = x" by (auto intro!: Min_eqI)
  with s assms(2) show ?thesis by (simp add: reclaim_capacity_for_admission_def case_prod_beta)
qed

lemma all_running_iff: "terminal_ids es = [] \<longleftrightarrow> (\<forall>(tid, e) \<in> set es. running e)"
  by (auto simp: terminal_ids_def filter_empty_conv)

lemma reclaim_room:
  assumes "hm_inv es" "length es \<le> MAX_TASK_REGISTRY_ENTRIES"
  shows "length (reclaim_capacity_for_admission es) < MAX_TASK_REGISTRY_ENTRIES \<longleftrightarrow>
    \<not> (length es = MAX_TASK_REGISTRY_ENTRIES \<and> (\<forall>(tid, e) \<in> set es. running e))"
proof (cases "length es < MAX_TASK_REGISTRY_ENTRIES")
  case True
  then show ?thesis by (simp add: reclaim_capacity_for_admission_def)
next
  case False
  with assms(2) have full: "length es = MAX_TASK_REGISTRY_ENTRIES" by simp
  show ?thesis
  proof (cases "terminal_ids es = []")
    case True
    with full show ?thesis by (simp add: reclaim_capacity_for_admission_def flip: all_running_iff)
  next
    case False
    then have "Min (set (terminal_ids es)) \<in> set (terminal_ids es)" by simp
    then obtain e where "(snd (Min (set (terminal_ids es))), e) \<in> set es"
      by (metis prod.collapse terminal_ids_mem)
    then have "hm_get es (snd (Min (set (terminal_ids es)))) = Some e" using assms(1) by (simp add: hm_get_mem)
    then have "length (hm_remove (snd (Min (set (terminal_ids es)))) es) < length es"
      using hm.len_remove_present [OF assms(1)] by (metis lessI)
    with full False reclaim_full [OF assms(1) full False] show ?thesis
      by (simp flip: all_running_iff)
  qed
qed

section \<open>Admission\<close>

definition new_task_state :: "task_clock \<Rightarrow> string \<Rightarrow> string \<Rightarrow> string \<Rightarrow> task_state" where
  "new_task_state clk tid key msg =
     \<lparr>ts_id = tid, ts_status = TRunning, ts_message = msg, ts_result = None,
      ts_created_at = clk_now clk, ts_updated_at = clk_now clk,
      ts_created_at_iso = clk_iso clk, ts_updated_at_iso = clk_iso clk, ts_key = Some key\<rparr>"

lemma create_keyed_no_duplicate:
  assumes "\<forall>(i, e) \<in> set (tr_entries reg). \<not> (running e \<and> ts_key (te_state e) = Some key)"
  shows "create_keyed now clk uuid owner pfx key msg reg =
    (let es = reclaim_capacity_for_admission (prune_terminal_tasks now (tr_entries reg)) in
     if MAX_TASK_REGISTRY_ENTRIES \<le> length es
     then (reg\<lparr>tr_entries := es\<rparr>, Err (CapacityExceeded MAX_TASK_REGISTRY_ENTRIES))
     else (reg\<lparr>tr_entries := hm_insert (pfx @ ''-'' @ uuid)
             (task_entry_new owner (new_task_state clk (pfx @ ''-'' @ uuid) key msg)) es\<rparr>,
           Ok (pfx @ ''-'' @ uuid)))"
proof -
  have "find (\<lambda>(_, e). running e \<and> ts_key (te_state e) = Some key) (prune_terminal_tasks now (tr_entries reg)) = None"
    using assms by (auto simp: find_None_iff prune_mem)
  then show ?thesis by (simp add: create_keyed_def new_task_state_def Let_def)
qed

lemma create_keyed_duplicate:
  assumes "task_inv reg" "(i, e) \<in> set (tr_entries reg)" "running e" "ts_key (te_state e) = Some key"
  shows "create_keyed now clk uuid owner pfx key msg reg =
    (reg\<lparr>tr_entries := prune_terminal_tasks now (tr_entries reg)\<rparr>,
     Err (if is_Session owner \<and> te_owner e = owner then AlreadyRunning i else ExistingTaskIdIsPrivate))"
proof -
  let ?P = "\<lambda>(_, e). running e \<and> ts_key (te_state e) = Some key"
  have "(i, e) \<in> set (prune_terminal_tasks now (tr_entries reg))" using assms by (simp add: prune_mem)
  then obtain x where x: "find ?P (prune_terminal_tasks now (tr_entries reg)) = Some x"
    using assms(3,4) by (cases "find ?P (prune_terminal_tasks now (tr_entries reg))") (auto simp: find_None_iff)
  then have "x \<in> set (tr_entries reg)" "?P x"
    using find_Some_in [OF x] by (auto simp: prune_mem)
  moreover have inv: "hm_inv (tr_entries reg)" "running_keys_unique (tr_entries reg)"
    using assms(1) by (simp_all add: task_inv_def)
  ultimately have "fst x = i"
    using assms(2-4) running_keys_uniqueD [of "tr_entries reg" i e "fst x" "snd x"]
    by (simp add: case_prod_beta)
  then have "hm_get (tr_entries reg) i = Some (snd x)" "hm_get (tr_entries reg) i = Some e"
    using \<open>x \<in> set _\<close> assms(2) inv(1) by (metis hm_get_mem prod.collapse, simp add: hm_get_mem)
  with \<open>fst x = i\<close> have "x = (i, e)" by (metis option.inject prod.collapse)
  moreover have "ts_id (te_state e) = i"
    using assms(1,2) by (auto simp: task_inv_def entry_ok_def)
  ultimately show ?thesis using x by (simp add: create_keyed_def Let_def)
qed

lemma create_entries:
  fixes now :: nat
  assumes "task_inv reg"
  defines "es \<equiv> prune_terminal_tasks now (tr_entries reg)"
  defines "es' \<equiv> reclaim_capacity_for_admission es"
  shows "hm_inv es" "hm_inv es'" "length es \<le> MAX_TASK_REGISTRY_ENTRIES" "set es' \<subseteq> set es"
    "\<And>i e. (i, e) \<in> set (tr_entries reg) \<Longrightarrow> running e \<Longrightarrow> (i, e) \<in> set es'"
proof -
  show "hm_inv es" using assms(1) by (simp add: es_def task_inv_def)
  then show "hm_inv es'" "set es' \<subseteq> set es" using reclaim_subset [of es] by (simp_all add: es'_def)
  show "length es \<le> MAX_TASK_REGISTRY_ENTRIES"
    using assms(1) prune_length [of now "tr_entries reg"] by (simp add: es_def task_inv_def)
  show "(i, e) \<in> set es'" if "(i, e) \<in> set (tr_entries reg)" "running e" for i e
    using that reclaim_keeps_running [OF \<open>hm_inv es\<close>] by (simp add: es_def es'_def prune_mem)
qed

text \<open>The registry is full of work exactly when 256 tasks are running.\<close>

lemma full_of_running:
  fixes now :: nat
  assumes "task_inv reg"
  defines "es \<equiv> prune_terminal_tasks now (tr_entries reg)"
  shows "length es = MAX_TASK_REGISTRY_ENTRIES \<and> (\<forall>(i, e) \<in> set es. running e) \<longleftrightarrow>
    length (filter (\<lambda>(i, e). running e) (tr_entries reg)) = MAX_TASK_REGISTRY_ENTRIES"
proof -
  let ?run = "filter (\<lambda>(i, e). running e)"
  have "?run es = ?run (tr_entries reg)"
    by (auto simp: es_def prune_terminal_tasks_def hm_retain_def intro!: filter_cong)
  moreover have "length es \<le> MAX_TASK_REGISTRY_ENTRIES" using create_entries(3) [OF assms(1)] by (simp add: es_def)
  moreover have "length (?run es) = length es \<longleftrightarrow> (\<forall>(i, e) \<in> set es. running e)"
    by (metis (mono_tags, lifting) filter_True filter_id_conv length_filter_less nat_neq_iff)
  ultimately show ?thesis
    by (metis (no_types, lifting) le_antisym length_filter_le)
qed

text \<open>C16: a task whose key no running task has is refused exactly when 256 tasks are running;
  otherwise it is stored as running under its identifier. Either way every running task stays.\<close>

theorem create_keyed_admission:
  assumes "task_inv reg"
    and "\<forall>(i, e) \<in> set (tr_entries reg). \<not> (running e \<and> ts_key (te_state e) = Some key)"
    and "create_keyed now clk uuid owner pfx key msg reg = (reg', r)"
  shows "r = (if length (filter (\<lambda>(i, e). running e) (tr_entries reg)) = MAX_TASK_REGISTRY_ENTRIES
              then Err (CapacityExceeded MAX_TASK_REGISTRY_ENTRIES) else Ok (pfx @ ''-'' @ uuid))
    \<and> (\<forall>tid. r = Ok tid \<longrightarrow> task_view reg' tid = Some (new_task_state clk tid key msg))
    \<and> (\<forall>i st. r \<noteq> Ok i \<and> task_view reg i = Some st \<and> ts_status st = TRunning \<longrightarrow>
                task_view reg' i = Some st)"
proof -
  define es where "es = reclaim_capacity_for_admission (prune_terminal_tasks now (tr_entries reg))"
  note es = create_entries [OF assms(1), where now = now, folded es_def]
  have room: "length es < MAX_TASK_REGISTRY_ENTRIES \<longleftrightarrow>
      length (filter (\<lambda>(i, e). running e) (tr_entries reg)) \<noteq> MAX_TASK_REGISTRY_ENTRIES"
    using reclaim_room [OF es(1,3), folded es_def] full_of_running [OF assms(1), where now = now] by simp
  have keep: "hm_get es i = Some e" if "hm_get (tr_entries reg) i = Some e" "running e" for i e
    using that assms(1) es(2,5) by (simp add: task_inv_def hm_get_mem)
  show ?thesis
    using room keep es(2) assms(3)
    unfolding create_keyed_no_duplicate [OF assms(2)] es_def [symmetric] Let_def
    by (auto simp: task_view_def hm.get_insert task_entry_new_def not_less split: if_splits)
qed

lemmas task_eval = create_keyed_def prune_terminal_tasks_def Let_def
  reclaim_capacity_for_admission_def MAX_TASK_REGISTRY_ENTRIES_def TASK_RETENTION_TTL_MS_def
  task_entry_new_def settle_def entry_defs hm_retain_def hm_insert_def hm_get_def hm_modify_def
  task_view_def clear_runtime_def refresh_updated_def task_registry_new_def

theorem create_keyed_admission_witness:
  "snd (create_keyed 0 \<lparr>clk_now = 0, clk_iso = []\<rparr> ''1'' Runtime ''t'' ''k'' ''m'' task_registry_new) = Ok ''t-1''"
  using create_keyed_admission [of task_registry_new "''k''" 0 "\<lparr>clk_now = 0, clk_iso = []\<rparr>" "''1''"
      Runtime "''t''" "''m''"
      "fst (create_keyed 0 \<lparr>clk_now = 0, clk_iso = []\<rparr> ''1'' Runtime ''t'' ''k'' ''m'' task_registry_new)"
      "snd (create_keyed 0 \<lparr>clk_now = 0, clk_iso = []\<rparr> ''1'' Runtime ''t'' ''k'' ''m'' task_registry_new)"]
  by (simp add: task_inv_new) (simp add: task_registry_new_def MAX_TASK_REGISTRY_ENTRIES_def)

section \<open>Privacy\<close>

text \<open>C17: a second task with the key of a running one is refused, and the answer names the running
  task only to the session that owns it; a caller that does not own a task can neither read its
  state nor cancel it.\<close>

theorem task_ids_are_private:
  assumes "task_inv reg" and "hm_get (tr_entries reg) i = Some e" and "running e"
    and "ts_key (te_state e) = Some key"
  shows "snd (create_keyed now clk uuid owner pfx key msg reg) =
           Err (if owner = te_owner e \<and> is_Session owner then AlreadyRunning i else ExistingTaskIdIsPrivate)
    \<and> snd (get_for_owner now owner i reg) = (if owner = te_owner e then Some (te_state e) else None)
    \<and> (owner \<noteq> te_owner e \<longrightarrow> cancel_for_owner now clk owner i reg = (reg, False))"
proof (intro conjI)
  have inv: "hm_inv (tr_entries reg)" using assms(1) by (simp add: task_inv_def)
  then have mem: "(i, e) \<in> set (tr_entries reg)" using assms(2) by (simp add: hm_get_mem)
  show "snd (create_keyed now clk uuid owner pfx key msg reg) =
      Err (if owner = te_owner e \<and> is_Session owner then AlreadyRunning i else ExistingTaskIdIsPrivate)"
    using create_keyed_duplicate [OF assms(1) mem assms(3,4)] by auto
  show "snd (get_for_owner now owner i reg) = (if owner = te_owner e then Some (te_state e) else None)"
    using assms(2,3) inv by (auto simp: get_for_owner_def Let_def prune_get)
  show "owner \<noteq> te_owner e \<longrightarrow> cancel_for_owner now clk owner i reg = (reg, False)"
    using assms(2) by (auto simp: cancel_for_owner_def)
qed

abbreviation clk0 :: task_clock where "clk0 \<equiv> \<lparr>clk_now = 0, clk_iso = []\<rparr>"

definition one_task :: task_registry where
  "one_task = fst (create_keyed 0 clk0 ''1'' (Session ''s'') ''t'' ''k'' ''m'' task_registry_new)"

definition one_entry :: task_entry where
  "one_entry = task_entry_new (Session ''s'') (new_task_state clk0 ''t-1'' ''k'' ''m'')"

lemma one_task: "task_inv one_task" "hm_get (tr_entries one_task) ''t-1'' = Some one_entry"
proof -
  show "task_inv one_task"
    unfolding one_task_def by (rule create_keyed_inv [OF task_inv_new surjective_pairing])
  show "hm_get (tr_entries one_task) ''t-1'' = Some one_entry"
    by (simp add: one_task_def one_entry_def task_eval new_task_state_def)
qed

theorem task_ids_are_private_witness:
  "snd (create_keyed 1 clk0 ''2'' Runtime ''t'' ''k'' ''m'' one_task) = Err ExistingTaskIdIsPrivate"
  using task_ids_are_private [OF one_task, of "''k''" 1 clk0 "''2''" Runtime "''t''" "''m''"]
  by (simp add: one_entry_def task_entry_new_def new_task_state_def)

section \<open>Cancellation\<close>

text \<open>An entry after an accepted request.\<close>

lemma request_accepted:
  assumes "entry_request_cancel clk m e C = ((e', C'), True)"
  shows "running e" "te_cancel_requested e' = Some m" "running e'" "ts_result (te_state e') = ts_result (te_state e)"
    "set_option (te_cancel_token e) \<subseteq> C'" "te_cancel_token e' = te_cancel_token e"
  using assms by (auto simp: entry_request_cancel_def refresh_updated_def split: if_splits)

lemma cancel_for_owner_accepted:
  assumes "task_inv reg" "cancel_for_owner now clk owner tid reg = (reg', True)"
  obtains e where "hm_get (tr_entries reg') tid = Some e" "running e"
    "te_cancel_requested e = Some ''Cancelled by client''" "ts_result (te_state e) = None"
    "set_option (te_cancel_token e) \<subseteq> tr_cancelled reg'"
proof -
  obtain e where e: "hm_get (tr_entries reg) tid = Some e" "te_owner e = owner"
    using assms(2) by (auto simp: cancel_for_owner_def split: option.splits if_splits)
  obtain e' C' b where req:
    "entry_request_cancel clk ''Cancelled by client'' e (tr_cancelled reg) = ((e', C'), b)"
    by (metis surj_pair)
  have inv: "hm_inv (tr_entries reg)" using assms(1) by (simp add: task_inv_def)
  have b: "b = True" and reg': "reg' = reg\<lparr>tr_entries := prune_terminal_tasks now
      (hm_modify tid (\<lambda>_. e') (tr_entries reg)), tr_cancelled := C'\<rparr>"
    using assms(2) e req by (auto simp: cancel_for_owner_def Let_def split: if_splits)
  note acc = request_accepted [OF req [unfolded b]]
  have "entry_ok (tr_cancelled reg) tid e" using assms(1) e(1) by (rule task_inv_entry)
  with acc(1,4) have "ts_result (te_state e') = None" by (auto simp: entry_ok_def)
  moreover have "hm_get (tr_entries reg') tid = Some e'"
    using reg' inv e(1) acc(3) by (simp add: prune_get hm_get_modify)
  ultimately show thesis using that [of e'] acc reg' by auto
qed

definition settled_cancelled :: "string \<Rightarrow> task_registry \<times> task_settlement \<Rightarrow> bool" where
  "settled_cancelled tid res \<longleftrightarrow> snd res = SCancelled \<and>
     (case task_view (fst res) tid of
        Some st \<Rightarrow> ts_status st = TCancelled \<and> ts_message st = ''Cancelled by client'' \<and> ts_result st = None
      | None \<Rightarrow> False)"

text \<open>C18: once the owner's request to cancel is accepted, no outcome of the operation replaces it:
  completing and failing settle the task as cancelled without a result, the deferred completion
  waits, progress messages are dropped, and the operation's token is cancelled.\<close>

theorem cancellation_request_wins:
  assumes "task_inv reg" and "cancel_for_owner now clk owner tid reg = (reg', True)"
    and "now' - clk_now clk' < TASK_RETENTION_TTL_MS"
  shows "settled_cancelled tid (task_complete now' clk' tid r reg')
    \<and> settled_cancelled tid (task_fail now' clk' tid err reg')
    \<and> complete_or_defer_cancellation now' clk' tid r tok reg' = (reg', DCancellationPending)
    \<and> task_view (update_message clk' tid m reg') tid = task_view reg' tid
    \<and> (\<exists>e. hm_get (tr_entries reg') tid = Some e \<and> running e \<and>
           set_option (te_cancel_token e) \<subseteq> tr_cancelled reg')"
proof -
  obtain e where e: "hm_get (tr_entries reg') tid = Some e" "running e"
    "te_cancel_requested e = Some ''Cancelled by client''" "ts_result (te_state e) = None"
    "set_option (te_cancel_token e) \<subseteq> tr_cancelled reg'"
    using cancel_for_owner_accepted [OF assms(1,2)] by metis
  have "task_inv reg'"
    using task_inv_evolve [OF assms(1) cancel_for_owner_evolve [OF assms(1)]] assms(2) by (metis fst_conv)
  then have inv: "hm_inv (tr_entries reg')" by (simp add: task_inv_def)
  note simps = settled_cancelled_def settle_def entry_defs transition_cancelled_def
    clear_runtime_def refresh_updated_def task_view_def prune_get hm_get_modify
  have "settled_cancelled tid (task_complete now' clk' tid r reg')"
    using e inv assms(3) by (simp add: task_complete_def simps)
  moreover have "settled_cancelled tid (task_fail now' clk' tid err reg')"
    using e inv assms(3) by (simp add: task_fail_def simps)
  moreover have "complete_or_defer_cancellation now' clk' tid r tok reg' = (reg', DCancellationPending)"
    using e by (simp add: complete_or_defer_cancellation_def)
  moreover have "task_view (update_message clk' tid m reg') tid = task_view reg' tid"
    using e by (simp add: update_message_def task_view_def hm_get_modify entry_update_message_def)
  ultimately show ?thesis using e by blast
qed

theorem cancellation_request_wins_witness:
  "settled_cancelled ''t-1'' (task_complete 9 \<lparr>clk_now = 9, clk_iso = []\<rparr> ''t-1'' JNull
     (fst (cancel_for_owner 5 clk0 (Session ''s'') ''t-1'' one_task)))"
proof -
  have "snd (cancel_for_owner 5 clk0 (Session ''s'') ''t-1'' one_task) = True"
    using one_task(2) by (simp add: cancel_for_owner_def one_entry_def task_entry_new_def
        new_task_state_def entry_request_cancel_def)
  then have "cancel_for_owner 5 clk0 (Session ''s'') ''t-1'' one_task =
    (fst (cancel_for_owner 5 clk0 (Session ''s'') ''t-1'' one_task), True)"
    by (metis prod.collapse)
  from cancellation_request_wins [OF one_task(1) this, of 9 "\<lparr>clk_now = 9, clk_iso = []\<rparr>" JNull]
  show ?thesis by (simp add: TASK_RETENTION_TTL_MS_def)
qed

section \<open>Running tasks stay\<close>

fun op_settles :: "task_op \<Rightarrow> string \<Rightarrow> bool" where
  "op_settles (OpComplete now clk i r) tid \<longleftrightarrow> i = tid"
| "op_settles (OpCompleteWithToken now clk i r tok m) tid \<longleftrightarrow> i = tid"
| "op_settles (OpCompleteOrDefer now clk i r tok) tid \<longleftrightarrow> i = tid"
| "op_settles (OpFail now clk i m) tid \<longleftrightarrow> i = tid"
| "op_settles (OpFailAfterCleanup now clk i m) tid \<longleftrightarrow> i = tid"
| "op_settles (OpFinishCancelled now clk i m) tid \<longleftrightarrow> i = tid"
| "op_settles _ tid \<longleftrightarrow> False"

definition is_running :: "task_registry \<Rightarrow> string \<Rightarrow> bool" where
  "is_running reg tid \<longleftrightarrow> (case hm_get (tr_entries reg) tid of Some e \<Rightarrow> running e | None \<Rightarrow> False)"

lemma is_running_prune:
  "hm_inv es \<Longrightarrow> is_running (reg\<lparr>tr_entries := es\<rparr>) tid \<Longrightarrow>
     is_running (reg\<lparr>tr_entries := prune_terminal_tasks now es\<rparr>) tid"
  by (auto simp: is_running_def prune_get split: option.splits)

lemma is_running_tokens [simp]:
  "is_running (reg\<lparr>tr_entries := es, tr_cancelled := C\<rparr>) tid = is_running (reg\<lparr>tr_entries := es\<rparr>) tid"
  "is_running (reg\<lparr>tr_cancelled := C\<rparr>) tid = is_running reg tid"
  "is_running (reg\<lparr>tr_entries := tr_entries reg\<rparr>) tid = is_running reg tid"
  by (simp_all add: is_running_def)

lemma is_running_modify:
  assumes "is_running reg tid" "i = tid \<Longrightarrow> running (f (the (hm_get (tr_entries reg) tid)))"
  shows "is_running (reg\<lparr>tr_entries := hm_modify i f (tr_entries reg)\<rparr>) tid"
  using assms by (auto simp: is_running_def hm_get_modify split: option.splits)

lemma settle_other_running:
  assumes "task_inv reg" "is_running reg tid" "i \<noteq> tid"
  shows "is_running (fst (settle now i f reg)) tid"
  using assms by (auto simp: settle_def task_inv_def case_prod_beta Let_def split: option.splits
      intro!: is_running_prune is_running_modify)

lemma request_keeps_running:
  "entry_request_cancel clk m e C = ((e', C'), b) \<Longrightarrow> running e \<Longrightarrow> running e'"
  by (auto simp: entry_request_cancel_def refresh_updated_def split: if_splits)

lemma request_cancel_all_running:
  "request_cancel_all clk m es C = (es', C', n) \<Longrightarrow>
     hm_get es tid = Some e \<Longrightarrow> running e \<Longrightarrow> \<exists>e'. hm_get es' tid = Some e' \<and> running e'"
  by (induction clk m es C arbitrary: es' C' n rule: request_cancel_all.induct)
    (auto simp: hm_get_def split: prod.splits if_splits dest: request_keeps_running)

lemma create_keeps_running:
  assumes "task_inv reg" "is_running reg tid" "tid \<noteq> pfx @ ''-'' @ uuid"
  shows "is_running (fst (create_keyed now clk uuid owner pfx key m reg)) tid"
proof -
  note es = create_entries [OF assms(1), where now = now]
  obtain e where e: "(tid, e) \<in> set (tr_entries reg)" "running e"
    using assms(1,2) by (auto simp: is_running_def task_inv_def hm_get_mem split: option.splits)
  then have "hm_get (prune_terminal_tasks now (tr_entries reg)) tid = Some e"
    "hm_get (reclaim_capacity_for_admission (prune_terminal_tasks now (tr_entries reg))) tid = Some e"
    using es(1,2) es(5) [OF e] by (simp_all add: hm_get_mem prune_mem)
  with e(2) assms(3) es(2) show ?thesis
    by (auto simp: create_keyed_def Let_def is_running_def hm.get_insert split: option.splits)
qed

lemma task_step_keeps_running:
  assumes "task_inv reg" "is_running reg tid" "\<not> op_creates op tid" "\<not> op_settles op tid"
  shows "is_running (task_step op reg) tid"
proof -
  have inv: "hm_inv (tr_entries reg)" using assms(1) by (simp add: task_inv_def)
  have run: "running e" if "hm_get (tr_entries reg) tid = Some e" for e
    using assms(2) that by (simp add: is_running_def)
  show ?thesis
  proof (cases op)
    case (OpCancelAll now clk m)
    obtain es C k where all: "request_cancel_all clk m (tr_entries reg) (tr_cancelled reg) = (es, C, k)"
      by (metis surj_pair)
    have "is_running (reg\<lparr>tr_entries := es\<rparr>) tid"
      using request_cancel_all_running [OF all, of tid] assms(2)
      by (fastforce simp: is_running_def split: option.splits)
    moreover have "hm_inv es"
      using request_cancel_all_evolve [OF all inv] assms(1) by (simp add: task_inv_def entries_evolve_def)
    ultimately show ?thesis
      using all OpCancelAll by (auto simp: cancel_all_running_def intro: is_running_prune)
  next
    case (OpCancelForOwner now clk owner i)
    show ?thesis
    proof (cases "hm_get (tr_entries reg) i")
      case (Some e)
      obtain e' C' b where "entry_request_cancel clk ''Cancelled by client'' e (tr_cancelled reg) = ((e', C'), b)"
        by (metis surj_pair)
      moreover from this have "is_running (reg\<lparr>tr_entries := hm_modify i (\<lambda>_. e') (tr_entries reg)\<rparr>) tid"
        using Some run request_keeps_running by (intro is_running_modify [OF assms(2)]) blast
      ultimately show ?thesis
        using OpCancelForOwner Some assms(2) inv
        by (auto simp: cancel_for_owner_def Let_def intro: is_running_prune)
    qed (use OpCancelForOwner assms(2) in \<open>simp add: cancel_for_owner_def\<close>)
  next
    case (OpSetToken i tok)
    show ?thesis
    proof (cases "hm_get (tr_entries reg) i")
      case (Some e)
      with OpSetToken run show ?thesis
        by (auto simp: set_cancel_token_def entry_set_cancel_token_def
            intro!: is_running_modify [OF assms(2)])
    qed (use OpSetToken assms(2) in \<open>simp add: set_cancel_token_def\<close>)
  next
    case (OpUpdateMessage clk i m)
    have "running (entry_update_message clk m (the (hm_get (tr_entries reg) tid)))"
      using assms(2) by (auto simp: is_running_def entry_update_message_def refresh_updated_def split: option.splits)
    then show ?thesis
      using OpUpdateMessage by (auto simp: update_message_def intro: is_running_modify [OF assms(2)])
  next
    case (OpCompleteOrDefer now clk i r tok)
    then have "i \<noteq> tid" using assms(4) by simp
    with OpCompleteOrDefer assms(2) inv show ?thesis
      by (auto simp: complete_or_defer_cancellation_def Let_def case_prod_beta split: option.splits
          intro!: is_running_prune is_running_modify)
  next
    case (OpFinishCancelled now clk i m)
    then have "i \<noteq> tid" using assms(4) by simp
    with OpFinishCancelled assms(2) inv show ?thesis
      by (auto simp: finish_cancelled_def Let_def case_prod_beta split: option.splits
          intro!: is_running_prune is_running_modify)
  qed (use assms inv in \<open>auto simp: create_keeps_running settle_other_running task_get_def get_for_owner_def
      Let_def task_complete_def complete_with_cancel_token_def task_fail_def fail_after_cleanup_error_def
      intro!: is_running_prune\<close>)
qed

text \<open>A running task is never dropped: whatever else the registry does, including retention,
  capacity reclaim and cancellation requests, the task stays running until an operation settles it.\<close>

theorem running_task_retained:
  assumes "task_inv reg" and "is_running reg tid"
    and "list_all (\<lambda>op. \<not> op_creates op tid \<and> \<not> op_settles op tid) ops"
  shows "is_running (fold task_step ops reg) tid"
  using assms
  by (induction ops arbitrary: reg) (auto intro: task_step_keeps_running task_step_inv)

theorem running_task_retained_witness:
  "is_running (fold task_step [OpCancelAll 3 clk0 ''stop'', OpGet (10 ^ 9) ''t-1''] one_task) ''t-1''"
  by (rule running_task_retained)
    (use one_task in \<open>simp_all add: is_running_def one_entry_def task_entry_new_def new_task_state_def\<close>)

end
