(* ===== verification/Params.thy ===== *)
theory Params
  imports Json
begin

text \<open>
  The parameter readers of \<open>src/src/daemon/worker.rs\<close>: typed access to the JSON parameters of a
  request, addresses, hexadecimal byte strings, and the line windows applied to disassembly and
  pseudocode.
\<close>

section \<open>Typed parameters\<close>

definition param_str :: "json \<Rightarrow> string \<Rightarrow> (string, string) result" where
  "param_str p key = ok_or (get_str p key) (''Missing parameter: '' @ key)"

definition param_usize :: "json \<Rightarrow> string \<Rightarrow> usize \<Rightarrow> usize" where
  "param_usize p key dflt =
     (case map_option word_of_nat (get_u64 p key) of Some v \<Rightarrow> v | None \<Rightarrow> dflt)"

definition param_bool :: "json \<Rightarrow> string \<Rightarrow> bool \<Rightarrow> bool" where
  "param_bool p key dflt = (case get_bool p key of Some b \<Rightarrow> b | None \<Rightarrow> dflt)"

text \<open>\<open>parse_addr\<close>: trimmed; hexadecimal after \<open>0x\<close> or \<open>0X\<close>, decimal otherwise.\<close>

definition parse_u64 :: "nat \<Rightarrow> string \<Rightarrow> u64 option" where
  "parse_u64 radix s = map_option word_of_nat (parse_uint radix u64_max s)"

definition parse_addr :: "string \<Rightarrow> (u64, string) result" where
  "parse_addr s0 =
     (let s = trim s0 in
      if prefix ''0x'' s \<or> prefix ''0X'' s
      then ok_or (parse_u64 16 (drop 2 s)) (''Invalid address: '' @ s)
      else ok_or (parse_u64 10 s) (''Invalid address: '' @ s))"

definition param_addr :: "json \<Rightarrow> string \<Rightarrow> (u64, string) result" where
  "param_addr p key = and_then (param_str p key) parse_addr"

definition param_str_vec :: "json \<Rightarrow> string \<Rightarrow> string list" where
  "param_str_vec p key =
     (case Option.bind (json_get p key) as_array of
        Some arr \<Rightarrow> List.map_filter as_str arr
      | None \<Rightarrow> [])"

definition param_addr_vec :: "json \<Rightarrow> string \<Rightarrow> (u64 list, string) result" where
  "param_addr_vec p key = collect_results (map parse_addr (param_str_vec p key))"

section \<open>Byte strings\<close>

text \<open>A byte offset is a character boundary unless a continuation byte (\<open>10xxxxxx\<close>) stands
  there. Slicing a string elsewhere panics.\<close>

definition is_continuation :: "char \<Rightarrow> bool" where
  "is_continuation c \<longleftrightarrow> 128 \<le> (of_char c :: nat) \<and> (of_char c :: nat) < 192"

definition char_boundary :: "string \<Rightarrow> nat \<Rightarrow> bool" where
  "char_boundary s i \<longleftrightarrow> i = length s \<or> (i < length s \<and> \<not> is_continuation (s ! i))"

text \<open>A computation that may panic: \<open>None\<close> is the panic.\<close>

fun hex_pairs :: "string \<Rightarrow> nat \<Rightarrow> string \<Rightarrow> (u8 list, string) result option" where
  "hex_pairs whole i (a # b # rest) =
     (if \<not> (char_boundary whole i \<and> char_boundary whole (i + 2)) then None
      else case parse_uint 16 255 [a, b] of
             None \<Rightarrow> Some (Err (''Invalid hex byte at position '' @ fmt_dec i))
           | Some v \<Rightarrow> map_option (map_ok ((#) (word_of_nat v))) (hex_pairs whole (i + 2) rest))"
| "hex_pairs whole i _ = Some (Ok [])"

definition parse_hex_bytes :: "string \<Rightarrow> (u8 list, string) result option" where
  "parse_hex_bytes s =
     (let cleaned = remove_ws s in
      if length cleaned mod 2 \<noteq> 0 then Some (Err ''Hex bytes string has odd length'')
      else hex_pairs cleaned 0 cleaned)"

definition hex_byte :: "u8 \<Rightarrow> string" where
  "hex_byte b = [digit_char (unat b div 16), digit_char (unat b mod 16)]"

section \<open>Line windows\<close>

definition apply_line_offset :: "string \<Rightarrow> usize \<Rightarrow> string" where
  "apply_line_offset s offset =
     (if offset = 0 then s else join [NL] (drop (unat offset) (rust_lines s)))"

definition apply_max_lines :: "string \<Rightarrow> usize \<Rightarrow> string" where
  "apply_max_lines s max_lines =
     (if max_lines = 0 then s
      else let lines = take (unat max_lines) (rust_lines s);
               total_lines = length (rust_lines s);
               result = join [NL] lines
           in if length lines < total_lines
              then result @ [NL] @ ''// ... ('' @ fmt_dec (total_lines - length lines) @
                   '' lines truncated, use --max-lines 0 for full output)''
              else result)"

section \<open>Lemmas\<close>

lemma unat_word_of_nat_u64: "n \<le> u64_max \<Longrightarrow> unat (word_of_nat n :: u64) = n"
  by (simp add: unat_of_nat)

lemma unat_le_u64_max: "unat (w :: u64) \<le> u64_max"
  using unsigned_less [of w, where ?'a = nat] by simp

lemma parse_u64_radix_digits:
  "2 \<le> r \<Longrightarrow> r \<le> 36 \<Longrightarrow> parse_u64 r (radix_digits r (unat w)) = Some w"
  by (simp add: parse_u64_def parse_uint_radix_digits unat_le_u64_max)

lemma hd_radix_digits: "2 \<le> r \<Longrightarrow> r \<le> 36 \<Longrightarrow> plain_char (hd (radix_digits r n))"
  using radix_digits_plain [of r n] by (simp add: list_all_iff)

lemma last_radix_digits: "2 \<le> r \<Longrightarrow> r \<le> 36 \<Longrightarrow> plain_char (last (radix_digits r n))"
  using radix_digits_plain [of r n] by (simp add: list_all_iff)

lemma radix_digits_no_x: "r \<le> 16 \<Longrightarrow> 2 \<le> r \<Longrightarrow> x \<in> set (radix_digits r n) \<Longrightarrow> x \<noteq> CHR ''x'' \<and> x \<noteq> CHR ''X''"
proof (induction r n rule: radix_digits.induct)
  case (1 r n)
  have d: "digit_char k \<noteq> CHR ''x'' \<and> digit_char k \<noteq> CHR ''X''" if "k < r" for k
  proof -
    have "of_char (digit_char k) \<noteq> (120 :: nat) \<and> of_char (digit_char k) \<noteq> (88 :: nat)"
      using that "1.prems"(1) by (simp add: of_char_digit_char)
    then show ?thesis by auto
  qed
  from 1 d show ?case
    by (subst (asm) radix_digits.simps) (auto split: if_splits)
qed

lemma hex_byte_parse: "parse_uint 16 255 (hex_byte b) = Some (unat b)"
proof -
  have "unat b < 256" using unsigned_less [of b, where ?'a = nat] by simp
  then have "unat b div 16 < 16" "unat b mod 16 < 16" by simp_all
  then show ?thesis
    using \<open>unat b < 256\<close> digit_char_not_plus [of "unat b div 16"]
    by (simp add: hex_byte_def parse_uint_def)
qed

lemma digit_char_not_continuation: "d < 36 \<Longrightarrow> \<not> is_continuation (digit_char d)"
  by (simp add: is_continuation_def of_char_digit_char)

lemma hex_byte_plain: "list_all plain_char (hex_byte b)"
proof -
  have "unat b < 256" using unsigned_less [of b, where ?'a = nat] by simp
  then show ?thesis by (simp add: hex_byte_def)
qed

lemma hex_bytes_plain: "list_all plain_char (concat (map hex_byte bs))"
  by (induction bs) (simp_all add: hex_byte_plain)

lemma plain_boundary:
  assumes "list_all plain_char s" "i \<le> length s"
  shows "char_boundary s i"
proof (cases "i = length s")
  case False
  with assms(2) have "i < length s" by simp
  with assms(1) have "plain_char (s ! i)" by (simp add: list_all_length)
  with \<open>i < length s\<close> show ?thesis by (simp add: char_boundary_def is_continuation_def plain_char_def)
qed (simp add: char_boundary_def)

lemma length_hex_bytes: "length (concat (map hex_byte bs)) = 2 * length bs"
  by (induction bs) (simp_all add: hex_byte_def)

lemma hex_pairs_hex_bytes:
  "list_all plain_char whole \<Longrightarrow> i + 2 * length bs \<le> length whole \<Longrightarrow>
     hex_pairs whole i (concat (map hex_byte bs)) = Some (Ok bs)"
proof (induction bs arbitrary: i)
  case (Cons b bs)
  then have "char_boundary whole i" "char_boundary whole (i + 2)"
    by (auto intro: plain_boundary)
  then show ?case
    using Cons hex_byte_parse [of b] by (simp add: hex_byte_def)
qed simp

lemma unat_u64_offset: "offset \<noteq> (0 :: usize) \<Longrightarrow> 0 < unat offset"
  by (simp add: unat_gt_0)

section \<open>Properties\<close>

text \<open>An address printed in hexadecimal with prefix, or in decimal, is read back by
  \<open>parse_addr\<close> as the same 64-bit value, whatever the value.\<close>

theorem parse_addr_roundtrip:
  "parse_addr (fmt_hex (unat a)) = Ok a \<and> parse_addr (fmt_dec (unat a)) = Ok a"
proof
  have "trim (fmt_hex (unat a)) = fmt_hex (unat a)"
    using last_radix_digits [of 16 "unat a"]
    by (intro trim_plain) (simp_all add: fmt_hex_def plain_char_def)
  then show "parse_addr (fmt_hex (unat a)) = Ok a"
    by (simp add: parse_addr_def Let_def fmt_hex_def parse_u64_radix_digits)
next
  have "trim (fmt_dec (unat a)) = fmt_dec (unat a)"
    using hd_radix_digits [of 10 "unat a"] last_radix_digits [of 10 "unat a"]
    by (intro trim_plain) (simp_all add: fmt_dec_def)
  moreover have "\<not> prefix ''0x'' (fmt_dec (unat a))" "\<not> prefix ''0X'' (fmt_dec (unat a))"
    using radix_digits_no_x [of 10 "CHR ''x''" "unat a"] radix_digits_no_x [of 10 "CHR ''X''" "unat a"]
    by (auto simp: fmt_dec_def prefix_def)
  ultimately show "parse_addr (fmt_dec (unat a)) = Ok a"
    by (simp add: parse_addr_def Let_def fmt_dec_def parse_u64_radix_digits)
qed

text \<open>Bytes written as two hexadecimal digits each are read back by \<open>parse_hex_bytes\<close>
  without an error and without a panic.\<close>

theorem parse_hex_bytes_roundtrip: "parse_hex_bytes (concat (map hex_byte bs)) = Some (Ok bs)"
  by (simp add: parse_hex_bytes_def Let_def remove_ws_plain hex_bytes_plain length_hex_bytes
      hex_pairs_hex_bytes)

text \<open>The guard on odd length does not make the byte parser total or strict. A sign passes for
  a digit, and a string with a character of several bytes at an odd offset makes the slice
  panic.\<close>

theorem parse_hex_bytes_gaps:
  "parse_hex_bytes ''+5'' = Some (Ok [5]) \<and>
   parse_hex_bytes [CHR ''a'', CHR 0xC3, CHR 0xA9, CHR ''b''] = None"
  by (simp add: parse_hex_bytes_def Let_def remove_ws_def ws_seqs_def char_boundary_def
      is_continuation_def parse_uint_def to_digit_def)

text \<open>On a text of clean lines, paging by \<open>apply_line_offset\<close> and \<open>apply_max_lines\<close> returns
  exactly the requested lines, and the note that the second appends counts the rest.\<close>

theorem line_windows:
  assumes "list_all clean_line ls" and "ls = [] \<or> last ls \<noteq> []"
  shows "rust_lines (apply_line_offset (join [NL] ls) k) = drop (unat k) ls \<and>
    apply_max_lines (join [NL] ls) k =
      (if k = 0 then join [NL] ls
       else join [NL] (take (unat k) ls) @
         (if unat k < length ls
          then [NL] @ ''// ... ('' @ fmt_dec (length ls - unat k) @
               '' lines truncated, use --max-lines 0 for full output)''
          else []))"
proof
  have ls: "rust_lines (join [NL] ls) = ls"
    using assms by (rule rust_lines_join)
  have "drop (unat k) ls = [] \<or> last (drop (unat k) ls) \<noteq> []"
    using assms(2) by (cases "unat k < length ls") auto
  moreover have "list_all clean_line (drop (unat k) ls)"
    using assms(1) by (auto simp: list_all_iff dest: in_set_dropD)
  ultimately show "rust_lines (apply_line_offset (join [NL] ls) k) = drop (unat k) ls"
    using ls by (auto simp: apply_line_offset_def rust_lines_join)
  show "apply_max_lines (join [NL] ls) k =
      (if k = 0 then join [NL] ls
       else join [NL] (take (unat k) ls) @
         (if unat k < length ls
          then [NL] @ ''// ... ('' @ fmt_dec (length ls - unat k) @
               '' lines truncated, use --max-lines 0 for full output)''
          else []))"
    using ls by (simp add: apply_max_lines_def Let_def)
qed

theorem line_windows_witness:
  "rust_lines (apply_line_offset (join [NL] [''a'', ''b'', ''c'']) 2) = [''c''] \<and>
   apply_max_lines (join [NL] [''a'', ''b'', ''c'']) 2 =
     ''a'' @ [NL] @ ''b'' @ [NL] @ ''// ... (1 lines truncated, use --max-lines 0 for full output)''"
  using line_windows [of "[''a'', ''b'', ''c'']" 2]
  by (simp add: clean_line_def fmt_dec_def radix_digits.simps)

end
