(* ===== verification/Selectors.thy ===== *)
theory Selectors
  imports Hash_Map Params
begin

text \<open>
  How a target is named. The router and the target manager resolve a selector in code of their own
  with, as the router's comment says, shared semantics: the locale states that contract, and both
  components interpret it. The numbering of targets is here too.
\<close>

section \<open>The contract\<close>

type_synonym target_row = "string \<times> string \<times> string"

definition no_targets_msg :: string where
  "no_targets_msg = ''No targets loaded. Use 'target load -f <path>' first.''"

definition selects_active :: "string option \<Rightarrow> bool" where
  "selects_active sel \<longleftrightarrow> sel = None \<or> sel = Some ''active'' \<or> sel = Some ''''"

definition row_matches :: "string \<Rightarrow> target_row \<Rightarrow> bool" where
  "row_matches sel row \<longleftrightarrow> (case row of (_, filename, path) \<Rightarrow> contains_str filename sel \<or> contains_str path sel)"

abbreviation quoted :: "string \<Rightarrow> string" where
  "quoted s \<equiv> CHR 0x27 # s @ [CHR 0x27]"

definition no_match_msg :: "string \<Rightarrow> string" where
  "no_match_msg sel = ''No target matching '' @ quoted sel"

definition ambiguous_msg :: "string \<Rightarrow> nat \<Rightarrow> string" where
  "ambiguous_msg sel n = ''Ambiguous selector '' @ quoted sel @ '': matches '' @ fmt_dec n @ '' targets''"

definition pick_match :: "string \<Rightarrow> target_row list \<Rightarrow> (string, string) result" where
  "pick_match sel rows =
     (let ms = map fst (filter (row_matches sel) rows) in
      if length ms = 0 then Err (no_match_msg sel)
      else if length ms = 1 then Ok (ms ! 0)
      else Err (ambiguous_msg sel (length ms)))"

lemma pick_match_mset: "mset rows = mset rows' \<Longrightarrow> pick_match sel rows = pick_match sel rows'"
proof -
  assume "mset rows = mset rows'"
  then have m: "mset (map fst (filter (row_matches sel) rows)) = mset (map fst (filter (row_matches sel) rows'))"
    by simp
  define ms ms' where "ms = map fst (filter (row_matches sel) rows)"
    and "ms' = map fst (filter (row_matches sel) rows')"
  have eq: "mset ms = mset ms'" using m by (simp add: ms_def ms'_def)
  then have len: "length ms = length ms'" by (rule mset_eq_length)
  have "ms ! 0 = ms' ! 0" if one: "length ms = 1"
  proof -
    obtain x y where "ms = [x]" "ms' = [y]" using one len by (auto simp: length_Suc_conv)
    with eq show ?thesis by simp
  qed
  with len show ?thesis unfolding pick_match_def Let_def ms_def [symmetric] ms'_def [symmetric] by simp
qed

lemma pick_match_Ok: "pick_match sel rows = Ok i \<Longrightarrow> i \<in> fst ` set rows"
proof -
  assume "pick_match sel rows = Ok i"
  then obtain r where "map fst (filter (row_matches sel) rows) = [r]" "i = r"
    by (auto simp: pick_match_def Let_def length_Suc_conv split: if_splits)
  then have "i \<in> set (map fst (filter (row_matches sel) rows))" by simp
  then show ?thesis by auto
qed

locale selector_resolution =
  fixes resolve :: "'s \<Rightarrow> string option \<Rightarrow> (string, string) result"
    and rows :: "'s \<Rightarrow> target_row list"
    and active :: "'s \<Rightarrow> string option"
    and wf :: "'s \<Rightarrow> bool"
  assumes resolve_empty: "rows s = [] \<Longrightarrow> resolve s sel = Err no_targets_msg"
    and resolve_active: "rows s \<noteq> [] \<Longrightarrow> selects_active sel \<Longrightarrow>
          resolve s sel = ok_or (active s) ''No active target''"
    and resolve_exact: "\<not> selects_active (Some x) \<Longrightarrow> x \<in> fst ` set (rows s) \<Longrightarrow> resolve s (Some x) = Ok x"
    and resolve_match: "rows s \<noteq> [] \<Longrightarrow> \<not> selects_active (Some x) \<Longrightarrow> x \<notin> fst ` set (rows s) \<Longrightarrow>
          resolve s (Some x) = pick_match x (rows s)"
    and active_loaded: "wf s \<Longrightarrow> active s = Some i \<Longrightarrow> i \<in> fst ` set (rows s)"
begin

lemma resolve_cases:
  "resolve s sel =
     (if rows s = [] then Err no_targets_msg
      else if selects_active sel then ok_or (active s) ''No active target''
      else if the sel \<in> fst ` set (rows s) then Ok (the sel)
      else pick_match (the sel) (rows s))"
  using resolve_empty resolve_active resolve_exact resolve_match
  by (cases sel) (auto simp: selects_active_def)

text \<open>The answer names a loaded target.\<close>

lemma resolve_loaded:
  assumes "wf s" "resolve s sel = Ok i"
  shows "i \<in> fst ` set (rows s)"
  using assms active_loaded
  by (auto simp: resolve_cases split: if_splits dest: pick_match_Ok elim!: ok_or.elims)

text \<open>The answer does not depend on the order in which the map yields its entries.\<close>

lemma resolve_mset:
  assumes "mset (rows s) = mset (rows s')" "active s = active s'"
  shows "resolve s sel = resolve s' sel"
proof -
  have sets: "set (rows s) = set (rows s')" "rows s = [] \<longleftrightarrow> rows s' = []"
    using assms(1) by (metis set_mset_mset, metis mset_zero_iff_right)
  with assms(2) pick_match_mset [OF assms(1)] show ?thesis by (simp add: resolve_cases)
qed

end

end
