(* ===== verification/Paths.thy ===== *)
theory Paths
  imports Rust_Str
begin

text \<open>
  Paths as \<open>std::path\<close> reads them on Unix, and the path helpers of \<open>src/src/daemon/target.rs\<close>,
  \<open>router.rs\<close> and \<open>mod.rs\<close>. A path is its text; two paths are equal when their components are.
  The file system is a record of questions to the environment: the home directory, whether a path
  exists, and the canonical form of a path, which depends on its components only.
\<close>

section \<open>Components\<close>

datatype component = RootDir | CurDir | ParentDir | Normal string

fun split_slash :: "string \<Rightarrow> string list" where
  "split_slash [] = [[]]"
| "split_slash (c # cs) =
     (if c = CHR ''/'' then [] # split_slash cs
      else case split_slash cs of [] \<Rightarrow> [[c]] | p # ps \<Rightarrow> (c # p) # ps)"

definition component_of :: "string \<Rightarrow> component" where
  "component_of s = (if s = ''..'' then ParentDir else Normal s)"

definition is_absolute :: "string \<Rightarrow> bool" where
  "is_absolute p \<longleftrightarrow> prefix ''/'' p"

definition components :: "string \<Rightarrow> component list" where
  "components p =
     (if is_absolute p then [RootDir] else if hd (split_slash p) = ''.'' then [CurDir] else []) @
     map component_of (filter (\<lambda>s. s \<noteq> [] \<and> s \<noteq> ''.'') (split_slash p))"

definition path_eq :: "string \<Rightarrow> string \<Rightarrow> bool" where
  "path_eq p q \<longleftrightarrow> components p = components q"

definition file_name :: "string \<Rightarrow> string option" where
  "file_name p =
     (case rev (components p) of Normal s # _ \<Rightarrow> Some s | _ \<Rightarrow> None)"

definition parent_of :: "string \<Rightarrow> component list option" where
  "parent_of p =
     (case rev (components p) of [] \<Rightarrow> None | RootDir # _ \<Rightarrow> None | _ # cs \<Rightarrow> Some (rev cs))"

text \<open>What follows the last dot, unless the only dot starts the name.\<close>

definition extension :: "string \<Rightarrow> string option" where
  "extension p =
     Option.bind (file_name p) (\<lambda>name.
       if CHR ''.'' \<notin> set (tl name) then None
       else Some (rev (takeWhile (\<lambda>c. c \<noteq> CHR ''.'') (rev name))))"

definition path_join :: "string \<Rightarrow> string \<Rightarrow> string" where
  "path_join p q =
     (if is_absolute q then q
      else if p = [] \<or> last p = CHR ''/'' then p @ q
      else p @ ''/'' @ q)"

section \<open>The environment\<close>

record fs_env =
  fe_home :: "string option"
  fe_exists :: "string \<Rightarrow> bool"
  fe_canonicalize :: "component list \<Rightarrow> string option"

section \<open>Helpers\<close>

definition expand_path :: "fs_env \<Rightarrow> string \<Rightarrow> string" where
  "expand_path env path =
     (case Option.bind (strip_prefix_str ''~/'' path)
             (\<lambda>stripped. map_option (\<lambda>h. path_join h stripped) (fe_home env)) of
        Some p \<Rightarrow> p
      | None \<Rightarrow> path)"

definition idb_path_for_raw_binary :: "string \<Rightarrow> string" where
  "idb_path_for_raw_binary path = path @ ''.i64''"

definition is_idb_path :: "string \<Rightarrow> bool" where
  "is_idb_path path \<longleftrightarrow>
     (let ext = to_ascii_lowercase (case extension path of Some e \<Rightarrow> e | None \<Rightarrow> [])
      in ext = ''i64'' \<or> ext = ''idb'' \<or> ext = ''id0'')"

definition effective_idb_out :: "fs_env \<Rightarrow> string \<Rightarrow> string option \<Rightarrow> string option" where
  "effective_idb_out env path idb_out =
     (if is_idb_path path then None
      else Some (case idb_out of
                   Some out \<Rightarrow> expand_path env out
                 | None \<Rightarrow> idb_path_for_raw_binary path))"

definition canonicalize_lenient :: "fs_env \<Rightarrow> string \<Rightarrow> string" where
  "canonicalize_lenient env path =
     (case fe_canonicalize env (components path) of
        Some c \<Rightarrow> c
      | None \<Rightarrow>
          (case (parent_of path, file_name path) of
             (Some par, Some name) \<Rightarrow>
               (case fe_canonicalize env par of
                  Some canon_parent \<Rightarrow> path_join canon_parent name
                | None \<Rightarrow> path)
           | _ \<Rightarrow> path))"

section \<open>Properties of paths\<close>

lemma split_slash_not_Nil [simp]: "split_slash s \<noteq> []"
  by (induction s) (auto split: list.splits)

lemma split_slash_no_slash: "CHR ''/'' \<notin> set s \<Longrightarrow> split_slash s = [s]"
  by (induction s) auto

lemma split_slash_append:
  "split_slash (p @ CHR ''/'' # q) = split_slash p @ split_slash q"
  by (induction p) (auto split: list.splits)

lemma split_slash_suffix:
  "CHR ''/'' \<notin> set q \<Longrightarrow> split_slash (p @ q) = butlast (split_slash p) @ [last (split_slash p) @ q]"
  by (induction p) (auto simp: split_slash_no_slash split: list.splits)

lemma last_split_slash: "CHR ''/'' \<notin> set (last (split_slash p))"
proof (induction p)
  case (Cons c p)
  then show ?case by (cases "split_slash p") (auto split: list.splits if_splits)
qed simp

text \<open>A path that ends in a proper name.\<close>

definition ends_in_name :: "string \<Rightarrow> bool" where
  "ends_in_name p \<longleftrightarrow> last (split_slash p) \<notin> {[], ''.'', ''..''}"

lemma components_last:
  assumes "last (split_slash p) \<notin> {[], ''.''}"
  obtains X where "rev (components p) = component_of (last (split_slash p)) # X"
proof -
  obtain b where b: "split_slash p = b @ [last (split_slash p)]"
    by (metis append_butlast_last_id split_slash_not_Nil)
  have "filter (\<lambda>s. s \<noteq> [] \<and> s \<noteq> ''.'') (split_slash p) =
      filter (\<lambda>s. s \<noteq> [] \<and> s \<noteq> ''.'') b @ [last (split_slash p)]"
    by (subst b) (use assms in simp)
  then show thesis using that by (simp add: components_def)
qed

lemma file_name_last:
  assumes "ends_in_name p"
  shows "file_name p = Some (last (split_slash p))"
proof -
  obtain X where "rev (components p) = component_of (last (split_slash p)) # X"
    using assms components_last [of p] by (auto simp: ends_in_name_def)
  with assms show ?thesis by (simp add: file_name_def component_of_def ends_in_name_def)
qed

lemma last_split_suffix:
  "CHR ''/'' \<notin> set q \<Longrightarrow> last (split_slash (p @ q)) = last (split_slash p) @ q"
  by (simp add: split_slash_suffix)

text \<open>The database of a raw binary is a database path: loading \<open>x\<close> and loading \<open>x.i64\<close> meet at the same
  identity.\<close>

lemma raw_database_is_idb:
  assumes "ends_in_name p"
  shows "ends_in_name (idb_path_for_raw_binary p) \<and> is_idb_path (idb_path_for_raw_binary p)"
proof -
  have last: "last (split_slash (p @ ''.i64'')) = last (split_slash p) @ ''.i64''"
    by (rule last_split_suffix) simp
  then have ends: "ends_in_name (p @ ''.i64'')" by (simp add: ends_in_name_def)
  obtain c cs where "last (split_slash p) = c # cs"
    using assms by (cases "last (split_slash p)") (auto simp: ends_in_name_def)
  then have "extension (p @ ''.i64'') = Some ''i64''"
    using file_name_last [OF ends] last by (simp add: extension_def)
  with ends show ?thesis
    by (simp add: idb_path_for_raw_binary_def is_idb_path_def to_ascii_lowercase_def ascii_lower_def)
qed

end
