(* ===== verification/Targets.thy ===== *)
theory Targets
  imports Selectors Paths Lifecycle
begin

text \<open>
  The target manager of \<open>src/src/daemon/target.rs\<close>: the databases a worker process holds. The IDA
  library is a parameter, the record \<open>idalib\<close>: opening a database and reading its metadata. The
  identifier counter is a 64-bit word that wraps.
\<close>

section \<open>The IDA library\<close>

record open_options =
  oo_auto_analyse :: bool
  oo_save :: bool
  oo_args :: "string list"
  oo_idb :: "string option"

record 'idb idalib =
  il_open :: "open_options \<Rightarrow> string \<Rightarrow> ('idb, string) result"
  il_filetype :: "'idb \<Rightarrow> string"
  il_processor :: "'idb \<Rightarrow> string"
  il_is_64bit :: "'idb \<Rightarrow> bool"
  il_is_32bit_exactly :: "'idb \<Rightarrow> bool"
  il_function_count :: "'idb \<Rightarrow> nat"

section \<open>State\<close>

record target_info =
  ti_id :: string
  ti_path :: string
  ti_filename :: string
  ti_file_type :: string
  ti_processor :: string
  ti_bits :: nat
  ti_function_count :: nat

record 'idb target_record =
  tr_idb :: "'idb option"
  tr_info :: target_info

record 'idb target_manager =
  tm_targets :: "(string, 'idb target_record) hmap"
  tm_active_id :: "string option"
  tm_next_id :: u64

definition target_manager_new :: "'idb target_manager" where
  "target_manager_new = \<lparr>tm_targets = [], tm_active_id = None, tm_next_id = 1\<rparr>"

section \<open>Identifiers\<close>

definition target_name :: "u64 \<Rightarrow> string" where
  "target_name n = ''t'' @ fmt_dec (unat n)"

text \<open>\<open>strip_prefix('t').and_then(|s| s.parse::<u64>().ok())\<close>\<close>

definition target_number :: "string \<Rightarrow> u64 option" where
  "target_number tid = Option.bind (strip_prefix_str ''t'' tid) (parse_u64 10)"

lemma target_number_name [simp]: "target_number (target_name n) = Some n"
proof -
  have "strip_prefix_str ''t'' (target_name n) = Some (fmt_dec (unat n))"
    by (simp add: strip_prefix_str_def target_name_def)
  then show ?thesis by (simp add: target_number_def fmt_dec_def parse_u64_radix_digits)
qed

lemma target_name_inj [simp]: "target_name m = target_name n \<longleftrightarrow> m = n"
  by (metis target_number_name option.inject)

section \<open>Operations\<close>

definition open_idb ::
  "fs_env \<Rightarrow> 'idb idalib \<Rightarrow> string \<Rightarrow> bool \<Rightarrow> string option \<Rightarrow> ('idb, string) result" where
  "open_idb env ida path auto_analyse idb_out =
     (if is_idb_path path
      then map_err (\<lambda>e. ''Failed to open IDB: '' @ path @ '': '' @ e)
             (il_open ida \<lparr>oo_auto_analyse = auto_analyse, oo_save = True, oo_args = [''-A''],
                           oo_idb = None\<rparr> path)
      else and_then (ok_or (effective_idb_out env path idb_out)
                       ''internal: raw binary without idb out path'')
             (\<lambda>out_path. map_err (\<lambda>e. ''Failed to open binary: '' @ path @ '': '' @ e)
                (il_open ida \<lparr>oo_auto_analyse = auto_analyse, oo_save = True, oo_args = [''-A''],
                              oo_idb = Some out_path\<rparr> path)))"

definition idb_bits :: "'idb idalib \<Rightarrow> 'idb \<Rightarrow> nat" where
  "idb_bits ida db = (if il_is_64bit ida db then 64 else if il_is_32bit_exactly ida db then 32 else 16)"

definition tm_load ::
  "fs_env \<Rightarrow> 'idb idalib \<Rightarrow> string \<Rightarrow> bool \<Rightarrow> string option \<Rightarrow> 'idb target_manager \<Rightarrow>
   (target_info, string) result \<times> 'idb target_manager" where
  "tm_load env ida path auto_analyse idb_out mgr =
     (let expanded = expand_path env path in
      case open_idb env ida expanded auto_analyse idb_out of
        Err e \<Rightarrow> (Err e, mgr)
      | Ok db \<Rightarrow>
          let tid = target_name (tm_next_id mgr);
              info = \<lparr>ti_id = tid, ti_path = expanded,
                      ti_filename = (case file_name expanded of Some f \<Rightarrow> f | None \<Rightarrow> path),
                      ti_file_type = il_filetype ida db, ti_processor = il_processor ida db,
                      ti_bits = idb_bits ida db, ti_function_count = il_function_count ida db\<rparr>
          in (Ok info,
              mgr\<lparr>tm_next_id := tm_next_id mgr + 1,
                  tm_targets := hm_insert tid \<lparr>tr_idb = Some db, tr_info = info\<rparr> (tm_targets mgr),
                  tm_active_id := (case tm_active_id mgr of None \<Rightarrow> Some tid | Some a \<Rightarrow> Some a)\<rparr>))"

definition seed_next_id :: "string \<Rightarrow> 'idb target_manager \<Rightarrow> 'idb target_manager" where
  "seed_next_id tid mgr =
     (case target_number tid of Some n \<Rightarrow> mgr\<lparr>tm_next_id := n\<rparr> | None \<Rightarrow> mgr)"

definition target_not_found :: "string \<Rightarrow> string" where
  "target_not_found tid = ''Target not found: '' @ tid"

definition tm_close :: "string \<Rightarrow> 'idb target_manager \<Rightarrow> (unit, string) result \<times> 'idb target_manager" where
  "tm_close tid mgr =
     (if hm_get (tm_targets mgr) tid = None then (Err (target_not_found tid), mgr)
      else let targets = hm_remove tid (tm_targets mgr)
           in (Ok (), mgr\<lparr>tm_targets := targets,
                 tm_active_id := (if tm_active_id mgr = Some tid
                                  then (case targets of [] \<Rightarrow> None | (k, _) # _ \<Rightarrow> Some k)
                                  else tm_active_id mgr)\<rparr>))"

definition tm_list :: "'idb target_manager \<Rightarrow> target_info list" where
  "tm_list mgr = map (\<lambda>(_, r). tr_info r) (tm_targets mgr)"

definition set_active :: "string \<Rightarrow> 'idb target_manager \<Rightarrow> (unit, string) result \<times> 'idb target_manager" where
  "set_active tid mgr =
     (if hm_get (tm_targets mgr) tid = None then (Err (target_not_found tid), mgr)
      else (Ok (), mgr\<lparr>tm_active_id := Some tid\<rparr>))"

definition tm_resolve :: "'idb target_manager \<Rightarrow> string option \<Rightarrow> (string, string) result" where
  "tm_resolve mgr selector =
     (if tm_targets mgr = [] then Err no_targets_msg
      else if selects_active selector then ok_or (tm_active_id mgr) ''No active target''
      else let sel = the selector in
           if hm_get (tm_targets mgr) sel \<noteq> None then Ok sel
           else let matches = filter (\<lambda>(_, r). contains_str (ti_filename (tr_info r)) sel \<or>
                                              contains_str (ti_path (tr_info r)) sel) (tm_targets mgr)
                in if length matches = 0 then Err (no_match_msg sel)
                   else if length matches = 1 then Ok (fst (matches ! 0))
                   else Err (ambiguous_msg sel (length matches)))"

definition get_idb :: "'idb target_manager \<Rightarrow> string \<Rightarrow> ('idb option, string) result" where
  "get_idb mgr tid = map_ok tr_idb (ok_or (hm_get (tm_targets mgr) tid) (target_not_found tid))"

section \<open>Invariant\<close>

definition tm_rows :: "'idb target_manager \<Rightarrow> target_row list" where
  "tm_rows mgr = map (\<lambda>(i, r). (i, ti_filename (tr_info r), ti_path (tr_info r))) (tm_targets mgr)"

definition tm_inv :: "'idb target_manager \<Rightarrow> bool" where
  "tm_inv mgr \<longleftrightarrow>
     hm_inv (tm_targets mgr) \<and>
     (\<forall>(i, r) \<in> set (tm_targets mgr). ti_id (tr_info r) = i \<and> tr_idb r \<noteq> None) \<and>
     (case tm_active_id mgr of
        None \<Rightarrow> tm_targets mgr = []
      | Some a \<Rightarrow> a \<in> fst ` set (tm_targets mgr))"

lemma tm_rows_ids [simp]: "fst ` set (tm_rows mgr) = fst ` set (tm_targets mgr)"
  by (force simp: tm_rows_def)

lemma tm_rows_Nil [simp]: "tm_rows mgr = [] \<longleftrightarrow> tm_targets mgr = []"
  by (simp add: tm_rows_def)

interpretation tm: selector_resolution tm_resolve tm_rows tm_active_id tm_inv
proof unfold_locales
  fix mgr :: "'a target_manager" and x
  assume "tm_rows mgr \<noteq> []" "\<not> selects_active (Some x)" "x \<notin> fst ` set (tm_rows mgr)"
  moreover from this have "hm_get (tm_targets mgr) x = None" by (simp add: hm_get_None)
  moreover have "map fst (filter (row_matches x) (tm_rows mgr)) =
      map fst (filter (\<lambda>(_, r). contains_str (ti_filename (tr_info r)) x \<or> contains_str (ti_path (tr_info r)) x)
        (tm_targets mgr))"
    by (auto simp: tm_rows_def filter_map row_matches_def comp_def case_prod_unfold)
  ultimately show "tm_resolve mgr (Some x) = pick_match x (tm_rows mgr)"
    by (simp add: tm_resolve_def pick_match_def Let_def)
qed (auto simp: tm_resolve_def hm_get_None tm_inv_def split: option.splits)

lemma hm_insert_set: "hm_inv m \<Longrightarrow> set (hm_insert k v m) = insert (k, v) {e \<in> set m. fst e \<noteq> k}"
proof -
  assume "hm_inv m"
  then have inv: "hm_inv m" "hm_inv (hm_insert k v m)" by (simp_all add: hm.invar_insert)
  have "(i, w) \<in> set (hm_insert k v m) \<longleftrightarrow> (i, w) \<in> insert (k, v) {e \<in> set m. fst e \<noteq> k}" for i w
    using inv by (auto simp flip: hm_get_mem simp: hm.get_insert split: if_splits)
  then show ?thesis by auto
qed

lemma tm_load_inv [inv_intros]: "tm_inv mgr \<Longrightarrow> tm_inv (snd (tm_load env ida path an out mgr))"
  by (auto simp: tm_load_def Let_def tm_inv_def hm_insert_set hm.invar_insert
      split: result.splits option.splits)

lemma seed_inv [inv_intros]: "tm_inv mgr \<Longrightarrow> tm_inv (seed_next_id tid mgr)"
  by (auto simp: seed_next_id_def tm_inv_def split: option.splits)

lemma set_active_inv [inv_intros]: "tm_inv mgr \<Longrightarrow> tm_inv (snd (set_active tid mgr))"
  by (auto simp: set_active_def tm_inv_def hm_get_None split: option.splits)

lemma tm_close_inv [inv_intros]:
  assumes "tm_inv mgr"
  shows "tm_inv (snd (tm_close tid mgr))"
proof (cases "hm_get (tm_targets mgr) tid = None")
  case False
  define ts where "ts = hm_remove tid (tm_targets mgr)"
  have inv: "hm_inv (tm_targets mgr)" using assms by (simp add: tm_inv_def)
  have "hm_inv ts" "set ts = {e \<in> set (tm_targets mgr). fst e \<noteq> tid}"
    using inv by (simp_all add: ts_def hm.invar_remove hm_set_remove)
  moreover define act where "act = (if tm_active_id mgr = Some tid
      then (case ts of [] \<Rightarrow> None | (k, _) # _ \<Rightarrow> Some k) else tm_active_id mgr)"
  have "case act of None \<Rightarrow> ts = [] | Some a \<Rightarrow> a \<in> fst ` set ts"
  proof (cases "tm_active_id mgr = Some tid")
    case True
    then show ?thesis by (cases ts) (auto simp: act_def)
  next
    case other: False
    obtain a where a: "tm_active_id mgr = Some a" "a \<in> fst ` set (tm_targets mgr)"
      using assms False by (auto simp: tm_inv_def split: option.splits)
    with other have "a \<in> fst ` set ts" using \<open>set ts = _\<close> by force
    with a other show ?thesis by (simp add: act_def)
  qed
  moreover have "snd (tm_close tid mgr) = mgr\<lparr>tm_targets := ts, tm_active_id := act\<rparr>"
    using False by (auto simp: tm_close_def ts_def act_def Let_def)
  ultimately show ?thesis using assms by (cases act) (simp_all add: tm_inv_def)
qed (use assms in \<open>simp add: tm_close_def\<close>)

section \<open>Runs\<close>

datatype 'idb tm_op =
    TmLoad fs_env "'idb idalib" string bool "string option"
  | TmSeed string
  | TmClose string
  | TmSetActive string

fun tm_step :: "'idb tm_op \<Rightarrow> 'idb target_manager \<Rightarrow> 'idb target_manager" where
  "tm_step (TmLoad env ida path an out) mgr = snd (tm_load env ida path an out mgr)"
| "tm_step (TmSeed tid) mgr = seed_next_id tid mgr"
| "tm_step (TmClose tid) mgr = snd (tm_close tid mgr)"
| "tm_step (TmSetActive tid) mgr = snd (set_active tid mgr)"

interpretation tms: lifecycle tm_step tm_inv
proof unfold_locales
  fix mgr :: "'a target_manager" and op
  assume "tm_inv mgr"
  then show "tm_inv (tm_step op mgr)" by (cases op) (simp_all add: inv_intros)
qed

lemma tm_inv_new: "tm_inv target_manager_new"
  by (simp add: tm_inv_def target_manager_new_def)

text \<open>In every state of the target manager a selector resolves to a loaded target whose database
  is open; without a selector that fails only when nothing is loaded.\<close>

theorem resolved_target_is_open:
  assumes "mgr = fold tm_step ops target_manager_new"
  shows "(\<forall>sel tid. tm_resolve mgr sel = Ok tid \<longrightarrow> (\<exists>db. get_idb mgr tid = Ok (Some db)))
    \<and> (tm_resolve mgr None = Err no_targets_msg \<longleftrightarrow> tm_list mgr = [])
    \<and> (tm_list mgr \<noteq> [] \<longrightarrow> is_ok (tm_resolve mgr None))"
proof (intro conjI allI impI)
  have inv: "tm_inv mgr" unfolding assms by (rule tms.run_inv) (rule tm_inv_new)
  show "\<exists>db. get_idb mgr tid = Ok (Some db)" if "tm_resolve mgr sel = Ok tid" for sel tid
  proof -
    have "tid \<in> fst ` set (tm_targets mgr)" using tm.resolve_loaded [OF inv that] by simp
    then obtain r where "(tid, r) \<in> set (tm_targets mgr)" by auto
    moreover from this inv have "hm_get (tm_targets mgr) tid = Some r" by (simp add: tm_inv_def hm_get_mem)
    ultimately show ?thesis using inv by (auto simp: get_idb_def tm_inv_def)
  qed
  have list: "tm_list mgr = [] \<longleftrightarrow> tm_targets mgr = []" by (simp add: tm_list_def)
  with inv show "tm_resolve mgr None = Err no_targets_msg \<longleftrightarrow> tm_list mgr = []"
    by (auto simp: tm_resolve_def tm_inv_def selects_active_def split: option.splits)
  show "is_ok (tm_resolve mgr None)" if "tm_list mgr \<noteq> []"
    using that inv list by (auto simp: tm_resolve_def tm_inv_def selects_active_def split: option.splits)
qed

definition env0 :: fs_env where
  "env0 = \<lparr>fe_home = None, fe_exists = (\<lambda>_. True), fe_canonicalize = (\<lambda>_. None)\<rparr>"

definition ida0 :: "unit idalib" where
  "ida0 = \<lparr>il_open = (\<lambda>_ _. Ok ()), il_filetype = (\<lambda>_. ''ELF''), il_processor = (\<lambda>_. ''ARM''),
           il_is_64bit = (\<lambda>_. True), il_is_32bit_exactly = (\<lambda>_. False), il_function_count = (\<lambda>_. 3)\<rparr>"

theorem resolved_target_is_open_witness:
  "\<exists>db. get_idb (fold tm_step [TmLoad env0 ida0 ''a.so'' True None] target_manager_new) ''t1'' = Ok (Some db)"
proof -
  have "tm_resolve (fold tm_step [TmLoad env0 ida0 ''a.so'' True None] target_manager_new) None = Ok ''t1''"
    by (simp add: tm_load_def open_idb_def effective_idb_out_def ida0_def Let_def target_manager_new_def
        tm_resolve_def hm_insert_def selects_active_def target_name_def fmt_dec_def radix_digits.simps)
  then show ?thesis
    using resolved_target_is_open [OF refl, of "[TmLoad env0 ida0 ''a.so'' True None]"] by blast
qed

end
