(* ===== verification/Protocol.thy ===== *)
theory Protocol
  imports Json
begin

text \<open>
  The line protocol of the daemon: requests and responses (\<open>src/src/daemon/protocol.rs\<close>), the
  capped line reader and the constants of \<open>src/src/daemon/mod.rs\<close>, and the loop that serves one
  connection, which \<open>router.rs\<close> and \<open>worker.rs\<close> share. A buffered reader is the list of the
  non-empty buffers its successive fills will return, and how it then ends: end of stream
  (\<open>None\<close>) or an error; the rest of a buffer that was consumed in
  part stands in front. The JSON parser is a parameter.
\<close>

section \<open>Messages\<close>

record request =
  rq_id :: string
  rq_op :: string
  rq_params :: json
  rq_target :: "string option"

record response =
  rs_id :: string
  rs_ok :: bool
  rs_result :: "json option"
  rs_error :: "string option"

definition response_success :: "string \<Rightarrow> json \<Rightarrow> response" where
  "response_success i r = \<lparr>rs_id = i, rs_ok = True, rs_result = Some r, rs_error = None\<rparr>"

definition response_error :: "string \<Rightarrow> string \<Rightarrow> response" where
  "response_error i msg = \<lparr>rs_id = i, rs_ok = False, rs_result = None, rs_error = Some msg\<rparr>"

definition MAX_LINE_BYTES :: nat where
  "MAX_LINE_BYTES = 16 * 1024 * 1024"

section \<open>Decoding\<close>

text \<open>\<open>String::from_utf8_lossy\<close>: each maximal ill-formed piece becomes U+FFFD. \<open>utf8_tail\<close> counts
  the continuation bytes that fit the ranges the first byte demands.\<close>

fun utf8_tail :: "(nat \<times> nat) list \<Rightarrow> string \<Rightarrow> nat \<Rightarrow> bool \<times> nat" where
  "utf8_tail [] bs k = (True, k)"
| "utf8_tail (_ # _) [] k = (False, k)"
| "utf8_tail ((lo, hi) # rs) (b # bs) k =
     (if lo \<le> of_char b \<and> of_char b \<le> hi then utf8_tail rs bs (Suc k) else (False, k))"

definition utf8_ranges :: "nat \<Rightarrow> (nat \<times> nat) list option" where
  "utf8_ranges b =
     (if b < 128 then Some []
      else if 194 \<le> b \<and> b \<le> 223 then Some [(128, 191)]
      else if b = 224 then Some [(160, 191), (128, 191)]
      else if b = 237 then Some [(128, 159), (128, 191)]
      else if 225 \<le> b \<and> b \<le> 239 then Some [(128, 191), (128, 191)]
      else if b = 240 then Some [(144, 191), (128, 191), (128, 191)]
      else if 241 \<le> b \<and> b \<le> 243 then Some [(128, 191), (128, 191), (128, 191)]
      else if b = 244 then Some [(128, 143), (128, 191), (128, 191)]
      else None)"

definition utf8_next :: "string \<Rightarrow> bool \<times> nat" where
  "utf8_next bs =
     (case utf8_ranges (of_char (hd bs)) of
        None \<Rightarrow> (False, 1)
      | Some rs \<Rightarrow> utf8_tail rs (tl bs) 1)"

lemma utf8_tail_le: "utf8_tail rs bs k = (v, n) \<Longrightarrow> k \<le> n"
  by (induction rs bs k rule: utf8_tail.induct) (auto split: if_splits)

lemma utf8_next_pos: "utf8_next bs = (v, n) \<Longrightarrow> 1 \<le> n"
  by (auto simp: utf8_next_def dest: utf8_tail_le split: option.splits)

function from_utf8_lossy :: "string \<Rightarrow> string" where
  "from_utf8_lossy bs =
     (if bs = [] then []
      else let (valid, n) = utf8_next bs
           in (if valid then take n bs else [CHR 0xEF, CHR 0xBF, CHR 0xBD]) @ from_utf8_lossy (drop n bs))"
  by pat_completeness auto
termination
proof (relation "measure length")
  fix bs :: string and x valid n
  assume "bs \<noteq> []" "x = utf8_next bs" "(valid, n) = x"
  then have "1 \<le> n" "bs \<noteq> []" using utf8_next_pos by metis+
  then show "(drop n bs, bs) \<in> measure length" by (cases bs) auto
qed simp

declare from_utf8_lossy.simps [simp del]

definition is_ascii :: "string \<Rightarrow> bool" where
  "is_ascii s \<longleftrightarrow> list_all (\<lambda>c. (of_char c :: nat) < 128) s"

lemma from_utf8_lossy_ascii: "is_ascii s \<Longrightarrow> from_utf8_lossy s = s"
proof (induction s)
  case Nil
  show ?case by (simp add: from_utf8_lossy.simps)
next
  case (Cons c s)
  then have "utf8_next (c # s) = (True, 1)"
    by (simp add: utf8_next_def utf8_ranges_def is_ascii_def)
  with Cons show ?case by (simp add: from_utf8_lossy.simps [of "c # s"] is_ascii_def)
qed

section \<open>The capped line reader\<close>

type_synonym reader = "string list"

definition reader_ok :: "reader \<Rightarrow> bool" where
  "reader_ok cs \<longleftrightarrow> [] \<notin> set cs"

text \<open>\<open>consume(n)\<close> on a reader whose first buffer has at least \<open>n\<close> bytes.\<close>

definition consume :: "nat \<Rightarrow> string \<Rightarrow> reader \<Rightarrow> reader" where
  "consume n c cs = (if n < length c then drop n c # cs else cs)"

fun position :: "char \<Rightarrow> string \<Rightarrow> nat option" where
  "position b [] = None"
| "position b (c # cs) = (if c = b then Some 0 else map_option Suc (position b cs))"

definition overlong_msg :: "nat \<Rightarrow> string" where
  "overlong_msg cap = ''protocol line exceeds '' @ fmt_dec cap @ '' bytes''"

fun read_line_loop :: "string option \<Rightarrow> nat \<Rightarrow> string \<Rightarrow> reader \<Rightarrow> (nat, string) result \<times> reader \<times> string" where
  "read_line_loop fin cap out [] = ((case fin of None \<Rightarrow> Ok (length out) | Some e \<Rightarrow> Err e), [], out)"
| "read_line_loop fin cap out (c # cs) =
     (case position NL c of
        Some pos \<Rightarrow>
          let out = out @ take pos c; rest = consume (pos + 1) c cs
          in if cap < length out then (Err (overlong_msg cap), rest, out)
             else (Ok (length out), rest, out)
      | None \<Rightarrow>
          let out = out @ c
          in if cap < length out then (Err (overlong_msg cap), cs, out)
             else read_line_loop fin cap out cs)"

definition read_line_capped :: "string option \<Rightarrow> nat \<Rightarrow> reader \<Rightarrow> (nat, string) result \<times> reader \<times> string" where
  "read_line_capped fin cap cs = read_line_loop fin cap [] cs"

text \<open>Reference: the first line of the byte stream and what follows it.\<close>

definition first_line :: "string \<Rightarrow> string" where
  "first_line s = takeWhile (\<lambda>c. c \<noteq> NL) s"

definition after_line :: "string \<Rightarrow> string" where
  "after_line s = tl (dropWhile (\<lambda>c. c \<noteq> NL) s)"

lemma position_Some:
  "position b c = Some p \<Longrightarrow> p < length c \<and> take p c = takeWhile (\<lambda>x. x \<noteq> b) c \<and>
     drop (Suc p) c = tl (dropWhile (\<lambda>x. x \<noteq> b) c) \<and> b \<in> set c"
  by (induction c arbitrary: p) (auto split: if_splits)

lemma position_None: "position b c = None \<longleftrightarrow> b \<notin> set c"
  by (induction c) auto

lemma consume_concat: "concat (consume n c cs) = drop n c @ concat cs"
  by (auto simp: consume_def)

lemma consume_ok: "reader_ok cs \<Longrightarrow> reader_ok (consume n c cs)"
  by (auto simp: reader_ok_def consume_def)

lemma reader_ok_Cons [simp]: "reader_ok (c # cs) \<longleftrightarrow> c \<noteq> [] \<and> reader_ok cs"
  by (auto simp: reader_ok_def)

lemma line_append_found:
  "NL \<in> set c \<Longrightarrow> first_line (c @ s) = first_line c \<and> after_line (c @ s) = after_line c @ s"
  by (auto simp: first_line_def after_line_def dropWhile_append takeWhile_append)

lemma line_append_missing:
  "NL \<notin> set c \<Longrightarrow> first_line (c @ s) = c @ first_line s \<and> after_line (c @ s) = after_line s"
  by (simp add: first_line_def after_line_def dropWhile_append takeWhile_append)

lemma read_line_loop_ok:
  "length (out @ first_line (concat cs)) \<le> cap \<Longrightarrow> reader_ok cs \<Longrightarrow>
   \<exists>cs'. read_line_loop None cap out cs =
           (Ok (length (out @ first_line (concat cs))), cs', out @ first_line (concat cs)) \<and>
         concat cs' = after_line (concat cs) \<and> reader_ok cs'"
proof (induction "None :: string option" cap out cs rule: read_line_loop.induct)
  case (1 cap out)
  then show ?case by (simp add: first_line_def after_line_def)
next
  case (2 cap out c cs)
  show ?case
  proof (cases "position NL c")
    case (Some p)
    then have "first_line (concat (c # cs)) = take p c" "after_line (concat (c # cs)) = drop (Suc p) c @ concat cs"
      using position_Some [OF Some] line_append_found [of c "concat cs"]
      by (simp_all add: first_line_def after_line_def)
    with 2 Some show ?thesis by (simp add: Let_def consume_concat consume_ok)
  next
    case None
    then have eq: "first_line (concat (c # cs)) = c @ first_line (concat cs)"
      "after_line (concat (c # cs)) = after_line (concat cs)"
      using line_append_missing [of c "concat cs"] by (simp_all add: position_None)
    have fits: "\<not> cap < length (out @ c)" using "2.prems"(1) eq(1) by simp
    show ?thesis
      using "2.hyps" [OF None refl fits] "2.prems" None eq fits by (simp add: Let_def)
  qed
qed

lemma read_line_loop_err:
  "cap < length (out @ first_line (concat cs)) \<Longrightarrow> length out \<le> cap \<Longrightarrow>
   \<exists>cs' out'. read_line_loop None cap out cs = (Err (overlong_msg cap), cs', out')"
proof (induction "None :: string option" cap out cs rule: read_line_loop.induct)
  case (2 cap out c cs)
  show ?case
  proof (cases "position NL c")
    case (Some p)
    with 2 show ?thesis
      using position_Some [OF Some] line_append_found [of c "concat cs"]
      by (simp add: Let_def first_line_def)
  next
    case None
    then have "first_line (concat (c # cs)) = c @ first_line (concat cs)"
      using line_append_missing [of c "concat cs"] by (simp add: position_None)
    with 2 None show ?thesis by (cases "cap < length (out @ c)") (simp_all add: Let_def)
  qed
qed (simp add: first_line_def)

text \<open>However the bytes arrive, the reader returns the first line of the stream and leaves the
  stream right after its newline; a line above the limit is an error, also when no newline ever
  comes.\<close>

theorem read_line_capped_first_line:
  assumes "reader_ok cs"
  shows "case read_line_capped None cap cs of
      (Ok n, cs', out) \<Rightarrow>
         out = first_line (concat cs) \<and> n = length out \<and> n \<le> cap \<and>
         concat cs' = after_line (concat cs) \<and> reader_ok cs'
    | (Err e, cs', out) \<Rightarrow> cap < length (first_line (concat cs)) \<and> e = overlong_msg cap"
proof (cases "length (first_line (concat cs)) \<le> cap")
  case True
  with read_line_loop_ok [of "[]" cs cap] assms show ?thesis
    by (auto simp: read_line_capped_def)
next
  case False
  with read_line_loop_err [of cap "[]" cs] show ?thesis
    by (auto simp: read_line_capped_def)
qed

theorem read_line_capped_first_line_witness:
  "fst (read_line_capped None 8 [''ab'', ''c'' @ [NL] @ ''d'']) = Ok 3"
  using read_line_capped_first_line [of "[''ab'', ''c'' @ [NL] @ ''d'']" 8]
  by (cases "read_line_capped None 8 [''ab'', ''c'' @ [NL] @ ''d'']")
    (auto simp: reader_ok_def first_line_def split: result.splits)

section \<open>Serving a connection\<close>

text \<open>How a connection ends: end of stream, a read error, a failed write, or after an acknowledged
  shutdown.\<close>

datatype conn_end = ConnEof | ConnReadError | ConnWriteFailed | ConnShutdown

text \<open>The loop of both \<open>handle_connection\<close>s. The handler says with its response whether the request
  was served: the worker answers that it is busy without serving, and then neither a failed write
  nor a shutdown request ends the connection. \<open>write_ok i\<close> is the outcome of the \<open>i\<close>-th write. One response is attempted in front of what follows.\<close>

definition emit :: "response \<Rightarrow> response list \<times> conn_end \<times> 's \<Rightarrow> response list \<times> conn_end \<times> 's" where
  "emit r res = (r # fst res, snd res)"

lemma read_line_progress:
  assumes "read_line_loop fin cap out cs = (Ok n, cs', out')" "length out < n"
  shows "size_list length cs' < size_list length cs"
  using assms
proof (induction fin cap out cs rule: read_line_loop.induct)
  case (2 fin cap out c cs)
  show ?case
  proof (cases "position NL c")
    case (Some p)
    with 2(2) have "cs' = consume (Suc p) c cs" by (auto simp: Let_def split: if_splits)
    then show ?thesis by (auto simp: consume_def)
  next
    case None
    with 2(2) have rest: "read_line_loop fin cap (out @ c) cs = (Ok n, cs', out')" and fits: "\<not> cap < length (out @ c)"
      by (auto simp: Let_def split: if_splits)
    show ?thesis
    proof (cases "length (out @ c) < n")
      case True
      with 2(1) [OF None refl fits rest] show ?thesis by simp
    next
      case False
      have "size_list length cs' \<le> size_list length cs"
        using rest
      proof (induction fin cap "out @ c" cs arbitrary: out c rule: read_line_loop.induct)
        case (2 fin cap d cs)
        then show ?case
          by (fastforce simp: Let_def consume_def split: option.splits if_splits)
      qed auto
      then show ?thesis by simp
    qed
  qed
qed (simp split: option.splits)

function conn_loop ::
  "string option \<Rightarrow> (string \<Rightarrow> (request, string) result) \<Rightarrow> (request \<Rightarrow> 's \<Rightarrow> response \<times> bool \<times> 's) \<Rightarrow> (nat \<Rightarrow> bool) \<Rightarrow>
   nat \<Rightarrow> reader \<Rightarrow> 's \<Rightarrow> response list \<times> conn_end \<times> 's" where
  "conn_loop fin parse handle write_ok i cs s =
     (case read_line_capped fin MAX_LINE_BYTES cs of
        (Err e, _, _) \<Rightarrow> ([response_error ''?'' (''Read error: '' @ e)], ConnReadError, s)
      | (Ok n, cs', buf) \<Rightarrow>
          if n = 0 then ([], ConnEof, s)
          else let line = trim (from_utf8_lossy buf) in
               if line = [] then conn_loop fin parse handle write_ok i cs' s
               else case parse line of
                      Err e \<Rightarrow> emit (response_error ''?'' (''Invalid JSON: '' @ e))
                                 (conn_loop fin parse handle write_ok (Suc i) cs' s)
                    | Ok req \<Rightarrow>
                        let (resp, served, s') = handle req s in
                        if \<not> served then emit resp (conn_loop fin parse handle write_ok (Suc i) cs' s')
                        else if \<not> write_ok i then ([resp], ConnWriteFailed, s')
                        else if rq_op req = ''shutdown'' then ([resp], ConnShutdown, s')
                        else emit resp (conn_loop fin parse handle write_ok (Suc i) cs' s'))"
  by pat_completeness auto
termination
  by (relation "measure (\<lambda>(fin, parse, handle, write_ok, i, cs, s). size_list length cs)")
    (auto simp: read_line_capped_def dest!: sym [of "(Ok _, _, _)"] intro: read_line_progress [of _ _ "[]"])

declare conn_loop.simps [simp del]

text \<open>Reference: the stream cut at its newlines, a last line without newline included, and the
  lines served one by one.\<close>

function split_stream :: "string \<Rightarrow> string list" where
  "split_stream s = (if s = [] then [] else first_line s # split_stream (after_line s))"
  by pat_completeness auto
termination
proof (relation "measure length")
  fix s :: string assume "s \<noteq> []"
  then have "length (tl (dropWhile (\<lambda>c. c \<noteq> NL) s)) < length s"
    using length_dropWhile_le [of "\<lambda>c. c \<noteq> NL" s] by (cases s) auto
  then show "(after_line s, s) \<in> measure length" by (simp add: after_line_def)
qed simp

declare split_stream.simps [simp del]

fun serve_lines ::
  "(string \<Rightarrow> (request, string) result) \<Rightarrow> (request \<Rightarrow> 's \<Rightarrow> response \<times> bool \<times> 's) \<Rightarrow> (nat \<Rightarrow> bool) \<Rightarrow>
   nat \<Rightarrow> string list \<Rightarrow> 's \<Rightarrow> response list \<times> conn_end \<times> 's" where
  "serve_lines parse handle write_ok i [] s = ([], ConnEof, s)"
| "serve_lines parse handle write_ok i (l # ls) s =
     (if MAX_LINE_BYTES < length l
      then ([response_error ''?'' (''Read error: '' @ overlong_msg MAX_LINE_BYTES)], ConnReadError, s)
      else if l = [] then ([], ConnEof, s)
      else if trim (from_utf8_lossy l) = [] then serve_lines parse handle write_ok i ls s
      else case parse (trim (from_utf8_lossy l)) of
             Err e \<Rightarrow> emit (response_error ''?'' (''Invalid JSON: '' @ e))
                        (serve_lines parse handle write_ok (Suc i) ls s)
           | Ok req \<Rightarrow>
               (case handle req s of (resp, served, s') \<Rightarrow>
                  if \<not> served then emit resp (serve_lines parse handle write_ok (Suc i) ls s')
                  else if \<not> write_ok i then ([resp], ConnWriteFailed, s')
                  else if rq_op req = ''shutdown'' then ([resp], ConnShutdown, s')
                  else emit resp (serve_lines parse handle write_ok (Suc i) ls s')))"

lemma split_stream_Nil [simp]: "split_stream [] = []"
  by (simp add: split_stream.simps)

lemma reader_ok_concat_Nil: "reader_ok cs \<Longrightarrow> concat cs = [] \<longleftrightarrow> cs = []"
  by (cases cs) (auto simp: reader_ok_def)

lemma conn_loop_serves:
  "reader_ok cs \<Longrightarrow>
     conn_loop None parse handle write_ok i cs s = serve_lines parse handle write_ok i (split_stream (concat cs)) s"
proof (induction "None :: string option" parse handle write_ok i cs s rule: conn_loop.induct)
  case (1 parse handle write_ok i cs s)
  show ?case
  proof (cases "cs = []")
    case True
    then show ?thesis by (simp add: conn_loop.simps read_line_capped_def)
  next
    case False
    with "1.prems" have split: "split_stream (concat cs) = first_line (concat cs) # split_stream (after_line (concat cs))"
      by (subst split_stream.simps) (simp add: reader_ok_concat_Nil del: concat_eq_Nil_conv)
    show ?thesis
    proof (cases "MAX_LINE_BYTES < length (first_line (concat cs))")
      case True
      then show ?thesis
        using read_line_loop_err [of MAX_LINE_BYTES "[]" cs]
        by (subst conn_loop.simps) (auto simp: read_line_capped_def split)
    next
      case False
      then obtain cs' where r: "read_line_capped None MAX_LINE_BYTES cs =
          (Ok (length (first_line (concat cs))), cs', first_line (concat cs))"
        and rest: "concat cs' = after_line (concat cs)" "reader_ok cs'"
        using read_line_loop_ok [of "[]" cs MAX_LINE_BYTES] "1.prems" by (auto simp: read_line_capped_def)
      show ?thesis
        using "1.hyps" [OF r [symmetric] refl refl] r rest False
        by (subst conn_loop.simps)
          (auto simp: split Let_def split: result.splits prod.splits)
    qed
  qed
qed

text \<open>C8: a connection is served by the lines of the byte stream alone: how the peer's writes are
  cut into reads never changes the responses, the final state or how the connection ends.\<close>

theorem connection_serves_lines:
  assumes "reader_ok cs"
  shows "conn_loop None parse handle write_ok i cs s =
    serve_lines parse handle write_ok i (split_stream (concat cs)) s"
  using assms by (rule conn_loop_serves)

theorem connection_serves_lines_witness:
  "conn_loop None (\<lambda>_. Err ''bad'') (\<lambda>r s. (response_success [] JNull, True, s)) (\<lambda>_. True) 0 [''a'', ''b'' @ [NL]] () =
   serve_lines (\<lambda>_. Err ''bad'') (\<lambda>r s. (response_success [] JNull, True, s)) (\<lambda>_. True) 0
     (split_stream (''ab'' @ [NL])) ()"
  by (subst connection_serves_lines) (simp_all add: reader_ok_def)

text \<open>An empty line is taken for the end of the stream: what follows it is never read, although a
  line of white space is skipped.\<close>

theorem blank_line_ends_connection:
  "conn_loop None parse handle write_ok i [NL # rest] s = ([], ConnEof, s) \<and>
   conn_loop None parse handle write_ok i [CHR '' '' # NL # rest] s =
     serve_lines parse handle write_ok i (split_stream rest) s"
proof -
  have "from_utf8_lossy [CHR '' ''] = [CHR '' '']" by (simp add: from_utf8_lossy_ascii is_ascii_def)
  moreover have "trim [CHR '' ''] = []" by (simp add: trim_def trim_start_def trim_end_def ws_seqs_def)
  ultimately show ?thesis
    by (simp add: conn_loop_serves reader_ok_def split_stream.simps [of "NL # rest"] MAX_LINE_BYTES_def
        split_stream.simps [of "CHR '' '' # NL # rest"] first_line_def after_line_def)
qed

text \<open>The stream of a client that ends each of its lines.\<close>

definition framed :: "string list \<Rightarrow> string" where
  "framed ls = concat (map (\<lambda>l. l @ [NL]) ls)"

lemma split_framed: "\<forall>l \<in> set ls. NL \<notin> set l \<Longrightarrow> split_stream (framed ls) = ls"
proof (induction ls)
  case (Cons l ls)
  then have "first_line (framed (l # ls)) = l" "after_line (framed (l # ls)) = framed ls"
    using line_append_missing [of l "NL # framed ls"]
    by (simp_all add: framed_def first_line_def after_line_def)
  with Cons show ?case by (subst split_stream.simps) (simp add: framed_def)
qed (simp add: framed_def)

fun handle_all ::
  "(request \<Rightarrow> 's \<Rightarrow> response \<times> bool \<times> 's) \<Rightarrow> request list \<Rightarrow> 's \<Rightarrow> response list \<times> 's" where
  "handle_all handle [] s = ([], s)"
| "handle_all handle (r # rs) s =
     (case handle r s of (resp, _, s') \<Rightarrow>
        case handle_all handle rs s' of (resps, s'') \<Rightarrow> (resp # resps, s''))"

text \<open>A client that sends its requests as lines of bounded length gets one response for each,
  in order, computed from the states the earlier ones left, whatever the reads look like.\<close>

theorem every_request_answered_in_order:
  assumes "reader_ok cs" and "concat cs = framed (map print reqs)"
    and "\<forall>r \<in> set reqs. NL \<notin> set (print r) \<and> length (print r) \<le> MAX_LINE_BYTES \<and>
           trim (from_utf8_lossy (print r)) \<noteq> [] \<and>
           parse (trim (from_utf8_lossy (print r))) = Ok r \<and> rq_op r \<noteq> ''shutdown''"
    and "\<forall>i. write_ok i"
  shows "conn_loop None parse handle write_ok i cs s =
    (fst (handle_all handle reqs s), ConnEof, snd (handle_all handle reqs s))"
proof -
  have "split_stream (concat cs) = map print reqs"
    using assms(2,3) split_framed [of "map print reqs"] by simp
  moreover have "serve_lines parse handle write_ok i (map print reqs) s =
      (fst (handle_all handle reqs s), ConnEof, snd (handle_all handle reqs s))"
    using assms(3)
  proof (induction reqs arbitrary: i s)
    case (Cons r reqs)
    have "print r \<noteq> []" using Cons.prems by (force simp: from_utf8_lossy.simps trim_def trim_start_def trim_end_def)
    with Cons show ?case
      by (auto simp: assms(4) emit_def not_less split: prod.splits)
  qed simp
  ultimately show ?thesis by (simp add: conn_loop_serves [OF assms(1)])
qed

theorem every_request_answered_in_order_witness:
  "conn_loop None (\<lambda>l. Ok \<lparr>rq_id = l, rq_op = ''ping'', rq_params = JNull, rq_target = None\<rparr>)
     (\<lambda>r n. (response_success (rq_id r) (json_of_nat n), True, Suc n)) (\<lambda>_. True) 0
     [''a'' @ [NL] @ ''b'', [NL]] (0 :: nat) =
   ([response_success ''a'' (json_of_nat 0), response_success ''b'' (json_of_nat 1)], ConnEof, 2)"
proof -
  let ?rq = "\<lambda>l. \<lparr>rq_id = l, rq_op = ''ping'', rq_params = JNull, rq_target = None\<rparr>"
  have "trim (from_utf8_lossy ''a'') = ''a''" "trim (from_utf8_lossy ''b'') = ''b''"
    by (simp_all add: from_utf8_lossy_ascii is_ascii_def trim_plain plain_char_def)
  then show ?thesis
    by (subst every_request_answered_in_order [where print = rq_id and reqs = "[?rq ''a'', ?rq ''b'']"])
      (auto simp: reader_ok_def framed_def MAX_LINE_BYTES_def)
qed

end
