(* ===== verification/Router.thy ===== *)
theory Router
  imports Targets Protocol
begin

text \<open>
  The router of \<open>src/src/daemon/router.rs\<close>: its state, selector resolution, the conflict check, the
  request handlers and the worker life cycle. The outside world is made of parameters: the file
  system, the JSON codec, and what the operating system answers when a worker is spawned or spoken
  to. \<open>sy_children\<close> is the set of worker processes whose handle the router holds: started, and not yet
  reaped or dropped.
\<close>

section \<open>State\<close>

record worker_entry =
  we_info :: target_info
  we_sock :: string
  we_canon_path :: string
  we_db_identity :: string
  we_child :: nat

record router_state =
  rt_targets :: "(string, worker_entry) hmap"
  rt_active :: "string option"
  rt_next_id :: u64

definition router_state_new :: router_state where
  "router_state_new = \<lparr>rt_targets = [], rt_active = None, rt_next_id = 1\<rparr>"

record router_sys =
  sy_state :: router_state
  sy_children :: "nat set"

definition alloc_id :: "router_state \<Rightarrow> string \<times> router_state" where
  "alloc_id st = (target_name (rt_next_id st), st\<lparr>rt_next_id := rt_next_id st + 1\<rparr>)"

definition resolve_selector ::
  "string option \<Rightarrow> string option \<Rightarrow> target_row list \<Rightarrow> (string, string) result" where
  "resolve_selector selector active entries =
     (if entries = [] then Err no_targets_msg
      else if selects_active selector then ok_or active ''No active target''
      else let sel = the selector in
           if list_ex (\<lambda>(tid, _, _). tid = sel) entries then Ok sel
           else let matches = map fst (filter (\<lambda>(_, filename, path).
                      contains_str filename sel \<or> contains_str path sel) entries)
                in if length matches = 0 then Err (no_match_msg sel)
                   else if length matches = 1 then Ok (matches ! 0)
                   else Err (ambiguous_msg sel (length matches)))"

definition rt_rows :: "router_state \<Rightarrow> target_row list" where
  "rt_rows st = map (\<lambda>(tid, e). (tid, ti_filename (we_info e), ti_path (we_info e))) (rt_targets st)"

definition rt_resolve :: "router_state \<Rightarrow> string option \<Rightarrow> (string, string) result" where
  "rt_resolve st selector = resolve_selector selector (rt_active st) (rt_rows st)"

text \<open>\<open>Iterator::min_by_key\<close> keeps the first of equal minima.\<close>

fun min_by_key :: "('a \<Rightarrow> nat) \<Rightarrow> 'a list \<Rightarrow> 'a option" where
  "min_by_key f [] = None"
| "min_by_key f (x # xs) =
     (case min_by_key f xs of None \<Rightarrow> Some x | Some y \<Rightarrow> if f x \<le> f y then Some x else Some y)"

definition target_order :: "string \<Rightarrow> nat" where
  "target_order tid = (case target_number tid of Some n \<Rightarrow> unat n | None \<Rightarrow> u64_max)"

definition lowest_target_id :: "string list \<Rightarrow> string option" where
  "lowest_target_id ids = min_by_key target_order ids"

fun find_load_conflict :: "string \<Rightarrow> string \<Rightarrow> (string \<times> string \<times> string) list \<Rightarrow> string option" where
  "find_load_conflict canon_path db_identity [] = None"
| "find_load_conflict canon_path db_identity ((tid, other_path, other_identity) # rest) =
     (if path_eq other_path canon_path then Some (''input already loaded as '' @ tid)
      else if path_eq other_identity db_identity
      then Some (''database '' @ db_identity @ '' is already in use by '' @ tid)
      else find_load_conflict canon_path db_identity rest)"

section \<open>Talking to a worker\<close>

definition WORKER_OP_TIMEOUT_SECS :: nat where "WORKER_OP_TIMEOUT_SECS = 600"
definition WORKER_CONNECT_TIMEOUT_SECS :: nat where "WORKER_CONNECT_TIMEOUT_SECS = 5"
definition WORKER_BOOT_TIMEOUT_SECS :: nat where "WORKER_BOOT_TIMEOUT_SECS = 30"
definition WORKER_STOP_TIMEOUT_SECS :: nat where "WORKER_STOP_TIMEOUT_SECS = 5"

record codec =
  cd_print_request :: "request \<Rightarrow> (string, string) result"
  cd_parse_response :: "string \<Rightarrow> (response, string) result"
  cd_parse_info :: "json \<Rightarrow> (target_info, string) result"
  cd_print_info :: "target_info \<Rightarrow> json"

datatype connect_outcome = Connected | ConnectTimedOut | ConnectFailed string

record forward_env =
  fw_timed_out :: bool
  fw_connect :: connect_outcome
  fw_write_err :: "string option"
  fw_newline_err :: "string option"
  fw_flush_err :: "string option"
  fw_chunks :: reader
  fw_fin :: "string option"

fun fail_if :: "string option \<Rightarrow> string \<Rightarrow> (unit, string) result" where
  "fail_if None pfx = Ok ()"
| "fail_if (Some e) pfx = Err (pfx @ e)"

definition forward_to_worker ::
  "codec \<Rightarrow> forward_env \<Rightarrow> request \<Rightarrow> nat \<Rightarrow> (response, string) result" where
  "forward_to_worker cd fw req timeout =
     (if fw_timed_out fw then Err (''operation timed out after '' @ fmt_dec timeout @ ''s'')
      else case fw_connect fw of
        ConnectTimedOut \<Rightarrow>
          Err (''connect timed out ('' @ fmt_dec WORKER_CONNECT_TIMEOUT_SECS @ ''s)'')
      | ConnectFailed e \<Rightarrow> Err (''connect failed: '' @ e)
      | Connected \<Rightarrow>
          and_then (cd_print_request cd req) (\<lambda>_.
          and_then (fail_if (fw_write_err fw) ''write failed: '') (\<lambda>_.
          and_then (fail_if (fw_newline_err fw) ''write failed: '') (\<lambda>_.
          and_then (fail_if (fw_flush_err fw) []) (\<lambda>_.
            case read_line_capped (fw_fin fw) MAX_LINE_BYTES (fw_chunks fw) of
              (Err e, _, _) \<Rightarrow> Err (''read failed: '' @ e)
            | (Ok _, _, buf) \<Rightarrow>
                if buf = [] then Err ''worker closed connection without responding''
                else map_err (\<lambda>e. ''invalid worker response: '' @ e) (cd_parse_response cd buf))))))"

definition op_timeout :: "string option \<Rightarrow> nat" where
  "op_timeout var =
     (case Option.bind var (parse_u64 10) of Some n \<Rightarrow> unat n | None \<Rightarrow> WORKER_OP_TIMEOUT_SECS)"

text \<open>The attempts to reach a fresh worker, one every 50 ms up to the first one after which the
  deadline has passed: whether the connection was accepted, and what \<open>try_wait\<close> said.\<close>

record boot_obs =
  bo_connected :: bool
  bo_wait :: "(string option, string) result"

fun boot_loop :: "boot_obs list \<Rightarrow> (unit, string) result" where
  "boot_loop [] =
     Err (''worker did not come up within '' @ fmt_dec WORKER_BOOT_TIMEOUT_SECS @ ''s'')"
| "boot_loop (ob # obs) =
     (if bo_connected ob then Ok ()
      else case bo_wait ob of
             Ok (Some status) \<Rightarrow> Err (''worker exited during boot: '' @ status)
           | Ok None \<Rightarrow> boot_loop obs
           | Err e \<Rightarrow> Err (''worker wait error: '' @ e))"

record spawn_env =
  sp_exe :: "(unit, string) result"
  sp_spawn :: "(nat, string) result"
  sp_obs :: "boot_obs list"

definition worker_socket_path :: "string \<Rightarrow> nat \<Rightarrow> string \<Rightarrow> string" where
  "worker_socket_path cache_dir pid tid =
     path_join (path_join cache_dir ''workers'') (''r'' @ fmt_dec pid @ ''-'' @ tid @ ''.sock'')"

record world =
  wd_fs :: fs_env
  wd_codec :: codec
  wd_cache_dir :: string
  wd_pid :: nat
  wd_timeout_var :: "string option"
  wd_spawn :: "string \<Rightarrow> spawn_env"
  wd_forward :: "string \<Rightarrow> request \<Rightarrow> forward_env"

text \<open>\<open>spawn_worker\<close> starts the process and then awaits its socket; other connections are served
  between the two, so each is a definition of its own.\<close>

definition launch_worker :: "world \<Rightarrow> string \<Rightarrow> router_sys \<Rightarrow> (nat, string) result \<times> router_sys" where
  "launch_worker w tid sys =
     (let env = wd_spawn w tid in
      case sp_exe env of
        Err e \<Rightarrow> (Err (''cannot locate own exe: '' @ e), sys)
      | Ok _ \<Rightarrow>
          (case sp_spawn env of
             Err e \<Rightarrow> (Err (''failed to spawn worker: '' @ e), sys)
           | Ok child \<Rightarrow> (Ok child, sys\<lparr>sy_children := insert child (sy_children sys)\<rparr>)))"

definition await_worker ::
  "world \<Rightarrow> string \<Rightarrow> nat \<Rightarrow> router_sys \<Rightarrow> (nat \<times> string, string) result \<times> router_sys" where
  "await_worker w tid child sys =
     (case boot_loop (sp_obs (wd_spawn w tid)) of
        Ok _ \<Rightarrow> (Ok (child, worker_socket_path (wd_cache_dir w) (wd_pid w) tid), sys)
      | Err e \<Rightarrow> (Err e, sys\<lparr>sy_children := sy_children sys - {child}\<rparr>))"

definition spawn_worker ::
  "world \<Rightarrow> string \<Rightarrow> router_sys \<Rightarrow> (nat \<times> string, string) result \<times> router_sys" where
  "spawn_worker w tid sys =
     (case launch_worker w tid sys of
        (Err e, sys) \<Rightarrow> (Err e, sys)
      | (Ok child, sys) \<Rightarrow> await_worker w tid child sys)"

definition stop_worker_child :: "nat \<Rightarrow> router_sys \<Rightarrow> router_sys" where
  "stop_worker_child child sys = sys\<lparr>sy_children := sy_children sys - {child}\<rparr>"

definition load_reply :: "world \<Rightarrow> string \<Rightarrow> request \<Rightarrow> nat \<Rightarrow> (target_info, string) result" where
  "load_reply w sock load_req timeout =
     and_then (forward_to_worker (wd_codec w) (wd_forward w sock load_req) load_req timeout) (\<lambda>resp.
       if \<not> rs_ok resp
       then Err (case rs_error resp of Some e \<Rightarrow> e | None \<Rightarrow> ''worker load failed'')
       else and_then (ok_or (rs_result resp) ''worker load returned no result'') (\<lambda>v.
              map_err (\<lambda>e. ''invalid worker load result: '' @ e) (cd_parse_info (wd_codec w) v)))"

definition worker_load_handshake ::
  "world \<Rightarrow> nat \<Rightarrow> string \<Rightarrow> request \<Rightarrow> nat \<Rightarrow> router_sys \<Rightarrow>
   (nat \<times> target_info, string) result \<times> router_sys" where
  "worker_load_handshake w child sock load_req timeout sys =
     (case load_reply w sock load_req timeout of
        Ok info \<Rightarrow> (Ok (child, info), sys)
      | Err e \<Rightarrow> (Err e, stop_worker_child child sys))"

text \<open>\<open>stop_worker\<close> asks the worker to shut down, waits, kills it after the grace period and reaps
  it, whatever the request's outcome; \<open>shutdown_all_workers\<close> does so for every target.\<close>

definition shutdown_request :: request where
  "shutdown_request = \<lparr>rq_id = ''router-shutdown'', rq_op = ''shutdown'', rq_params = JObject [],
                       rq_target = None\<rparr>"

definition stop_worker :: "worker_entry \<Rightarrow> router_sys \<Rightarrow> router_sys" where
  "stop_worker e sys = stop_worker_child (we_child e) sys"

definition drain_targets :: "router_sys \<Rightarrow> worker_entry list \<times> router_sys" where
  "drain_targets sys =
     (map snd (rt_targets (sy_state sys)), sys\<lparr>sy_state := (sy_state sys)\<lparr>rt_targets := []\<rparr>\<rparr>)"

definition shutdown_all_workers :: "router_sys \<Rightarrow> router_sys" where
  "shutdown_all_workers sys = (let (entries, sys) = drain_targets sys in fold stop_worker entries sys)"

section \<open>Requests\<close>

definition int_convert :: "json \<Rightarrow> (json, string) result" where
  "int_convert p =
     and_then (ok_or (get_str p ''value'') ''Missing parameter: value'') (\<lambda>v.
     map_ok (\<lambda>n. JObject [(''decimal'', json_of_nat (unat n)), (''hex'', JString (fmt_hex (unat n))),
               (''octal'', JString (fmt_oct (unat n))), (''binary'', JString (fmt_bin (unat n))),
               (''signed'', json_of_int (sint n))]) (parse_addr v))"

record load_plan =
  lp_expanded :: string
  lp_canon_path :: string
  lp_db_identity :: string
  lp_auto_analyse :: bool
  lp_idb_out :: "string option"

definition plan_load :: "fs_env \<Rightarrow> json \<Rightarrow> (load_plan, string) result" where
  "plan_load env p =
     and_then (ok_or (get_str p ''path'') ''Missing parameter: path'') (\<lambda>path.
       let auto_analyse = (case get_bool p ''auto_analyse'' of Some b \<Rightarrow> b | None \<Rightarrow> True);
           idb_out = get_str p ''idb_out'';
           expanded = expand_path env path
       in if \<not> fe_exists env expanded then Err (''File not found: '' @ expanded)
          else let canon_path = canonicalize_lenient env expanded
               in Ok \<lparr>lp_expanded = expanded, lp_canon_path = canon_path,
                      lp_db_identity = (case effective_idb_out env expanded idb_out of
                                          Some out \<Rightarrow> canonicalize_lenient env out
                                        | None \<Rightarrow> canon_path),
                      lp_auto_analyse = auto_analyse, lp_idb_out = idb_out\<rparr>)"

definition load_conflict :: "load_plan \<Rightarrow> router_state \<Rightarrow> string option" where
  "load_conflict plan st =
     map_option (\<lambda>c. lp_expanded plan @ '': '' @ c)
       (find_load_conflict (lp_canon_path plan) (lp_db_identity plan)
          (map (\<lambda>(tid, e). (tid, we_canon_path e, we_db_identity e)) (rt_targets st)))"

definition load_request :: "request \<Rightarrow> load_plan \<Rightarrow> request" where
  "load_request req plan =
     \<lparr>rq_id = rq_id req, rq_op = ''target.load'',
      rq_params = JObject [(''path'', JString (lp_expanded plan)),
                           (''auto_analyse'', JBool (lp_auto_analyse plan)),
                           (''idb_out'', json_of_opt JString (lp_idb_out plan))],
      rq_target = None\<rparr>"

definition commit_load :: "string \<Rightarrow> worker_entry \<Rightarrow> router_state \<Rightarrow> router_state" where
  "commit_load tid e st =
     st\<lparr>rt_active := (case rt_active st of None \<Rightarrow> Some tid | Some a \<Rightarrow> Some a),
        rt_targets := hm_insert tid e (rt_targets st)\<rparr>"

definition handle_target_load :: "world \<Rightarrow> request \<Rightarrow> router_sys \<Rightarrow> (json, string) result \<times> router_sys" where
  "handle_target_load w req sys =
     (case plan_load (wd_fs w) (rq_params req) of
        Err e \<Rightarrow> (Err e, sys)
      | Ok plan \<Rightarrow>
          (case load_conflict plan (sy_state sys) of
             Some conflict \<Rightarrow> (Err conflict, sys)
           | None \<Rightarrow>
               (let (tid, st) = alloc_id (sy_state sys);
                    (spawned, sys) = spawn_worker w tid (sys\<lparr>sy_state := st\<rparr>)
                in case spawned of
                     Err e \<Rightarrow> (Err e, sys)
                   | Ok (child, sock) \<Rightarrow>
                       (let (loaded, sys) = worker_load_handshake w child sock (load_request req plan)
                                              (op_timeout (wd_timeout_var w)) sys
                        in case loaded of
                             Err e \<Rightarrow> (Err (''load failed: '' @ e), sys)
                           | Ok (child, info) \<Rightarrow>
                               (let info = info\<lparr>ti_id := tid\<rparr>;
                                    entry = \<lparr>we_info = info, we_sock = sock,
                                             we_canon_path = lp_canon_path plan,
                                             we_db_identity = lp_db_identity plan, we_child = child\<rparr>
                                in (Ok (cd_print_info (wd_codec w) info),
                                    sys\<lparr>sy_state := commit_load tid entry (sy_state sys)\<rparr>))))))"

definition switch_target :: "json \<Rightarrow> router_state \<Rightarrow> (json, string) result \<times> router_state" where
  "switch_target p st =
     (case and_then (param_str p ''id'') (\<lambda>sel. rt_resolve st (Some sel)) of
        Err e \<Rightarrow> (Err e, st)
      | Ok tid \<Rightarrow> (Ok (JObject [(''active'', JString tid)]), st\<lparr>rt_active := Some tid\<rparr>))"

definition remove_target :: "json \<Rightarrow> router_state \<Rightarrow> (string \<times> worker_entry, string) result \<times> router_state" where
  "remove_target p st =
     (case and_then (param_str p ''id'') (\<lambda>sel. rt_resolve st (Some sel)) of
        Err e \<Rightarrow> (Err e, st)
      | Ok tid \<Rightarrow>
          (case hm_get (rt_targets st) tid of
             None \<Rightarrow> (Err (target_not_found tid), st)
           | Some e \<Rightarrow>
               (let targets = hm_remove tid (rt_targets st)
                in (Ok (tid, e),
                    st\<lparr>rt_targets := targets,
                       rt_active := (if rt_active st = Some tid then lowest_target_id (map fst targets)
                                     else rt_active st)\<rparr>))))"

definition forward_analysis :: "world \<Rightarrow> request \<Rightarrow> router_state \<Rightarrow> (json, string) result" where
  "forward_analysis w req st =
     and_then (rt_resolve st (rq_target req)) (\<lambda>tid.
     and_then (ok_or (hm_get (rt_targets st) tid) (target_not_found tid)) (\<lambda>e.
       let forwarded = req\<lparr>rq_target := None\<rparr> in
       case forward_to_worker (wd_codec w) (wd_forward w (we_sock e) forwarded) forwarded
              (op_timeout (wd_timeout_var w)) of
         Ok resp \<Rightarrow>
           if rs_ok resp then Ok (case rs_result resp of Some v \<Rightarrow> v | None \<Rightarrow> JNull)
           else Err (case rs_error resp of Some m \<Rightarrow> m | None \<Rightarrow> ''worker error'')
       | Err m \<Rightarrow> Err (''worker for target '' @ tid @ '': '' @ m)))"

definition target_list_json :: "codec \<Rightarrow> router_state \<Rightarrow> json" where
  "target_list_json cd st =
     (let infos = sort_key (\<lambda>t. target_order (ti_id t)) (map (\<lambda>(_, e). we_info e) (rt_targets st))
      in JObject [(''targets'', JArray (map (cd_print_info cd) infos)),
                  (''active'', json_of_opt JString (rt_active st))])"

definition route_inner :: "world \<Rightarrow> request \<Rightarrow> router_sys \<Rightarrow> (json, string) result \<times> router_sys" where
  "route_inner w req sys =
     (let p = rq_params req; st = sy_state sys; op = rq_op req in
      if op = ''ping''
      then (Ok (JObject [(''pong'', JBool True), (''targets'', json_of_nat (length (rt_targets st)))]), sys)
      else if op = ''shutdown'' then (Ok (JObject [(''status'', JString ''shutting_down'')]), sys)
      else if op = ''int_convert'' then (int_convert p, sys)
      else if op = ''target.load'' then handle_target_load w req sys
      else if op = ''target.list'' then (Ok (target_list_json (wd_codec w) st), sys)
      else if op = ''target.switch''
      then (let (r, st) = switch_target p st in (r, sys\<lparr>sy_state := st\<rparr>))
      else if op = ''target.close''
      then (case remove_target p st of
              (Err e, st) \<Rightarrow> (Err e, sys\<lparr>sy_state := st\<rparr>)
            | (Ok (tid, e), st) \<Rightarrow>
                (Ok (JObject [(''closed'', JString tid)]), stop_worker e (sys\<lparr>sy_state := st\<rparr>)))
      else (forward_analysis w req st, sys))"

definition route_request :: "world \<Rightarrow> request \<Rightarrow> router_sys \<Rightarrow> response \<times> bool \<times> router_sys" where
  "route_request w req sys =
     (case route_inner w req sys of
        (Ok result, sys) \<Rightarrow> (response_success (rq_id req) result, True, sys)
      | (Err e, sys) \<Rightarrow> (response_error (rq_id req) e, True, sys))"

text \<open>One client connection; an acknowledged shutdown stops the workers.\<close>

definition router_handle_connection ::
  "world \<Rightarrow> (string \<Rightarrow> (request, string) result) \<Rightarrow> (nat \<Rightarrow> bool) \<Rightarrow> reader \<Rightarrow> string option \<Rightarrow>
   router_sys \<Rightarrow> response list \<times> conn_end \<times> router_sys" where
  "router_handle_connection w parse write_ok cs fin sys =
     (case conn_loop fin parse (route_request w) write_ok 0 cs sys of
        (resps, e, sys) \<Rightarrow>
          (resps, e, if e = ConnShutdown then shutdown_all_workers sys else sys))"

end
