(* ===== verification/Router_Props.thy ===== *)
theory Router_Props
  imports Router
begin

text \<open>
  Properties of the router. Connections run concurrently and meet only at the state lock and the
  load lock, so the router is also given as a sequence of atomic events: what happens between two
  releases of the state lock or awaits of a worker. The load lock keeps loads apart; every other
  event may come between two events of a load, and between the removal of a target and the end of
  its worker.
\<close>

section \<open>Selectors and identifiers\<close>

definition rt_active_ok :: "router_state \<Rightarrow> bool" where
  "rt_active_ok st \<longleftrightarrow>
     (case rt_active st of None \<Rightarrow> rt_targets st = [] | Some a \<Rightarrow> a \<in> fst ` set (rt_targets st))"

lemma rt_rows_ids [simp]: "fst ` set (rt_rows st) = fst ` set (rt_targets st)"
  by (force simp: rt_rows_def)

lemma rt_rows_Nil [simp]: "rt_rows st = [] \<longleftrightarrow> rt_targets st = []"
  by (simp add: rt_rows_def)

lemma list_ex_ids: "list_ex (\<lambda>(tid, _, _). tid = sel) rows \<longleftrightarrow> sel \<in> fst ` set rows"
  by (force simp: list_ex_iff)

lemma row_matches_fun:
  "(\<lambda>(_, filename, path). contains_str filename sel \<or> contains_str path sel) = row_matches sel"
  by (simp add: row_matches_def fun_eq_iff)

interpretation rt: selector_resolution rt_resolve rt_rows rt_active rt_active_ok
  by unfold_locales
    (auto simp: rt_resolve_def resolve_selector_def list_ex_ids pick_match_def row_matches_fun Let_def
      rt_active_ok_def split: option.splits)

text \<open>The router's and the target manager's selector resolution agree: on the same rows, in
  whatever order each map yields them, and the same active target they give the same answer.\<close>

theorem selector_resolution_agrees:
  assumes "mset (rt_rows st) = mset (tm_rows mgr)" and "rt_active st = tm_active_id mgr"
  shows "rt_resolve st sel = tm_resolve mgr sel"
proof -
  have "set (rt_rows st) = set (tm_rows mgr)" "rt_rows st = [] \<longleftrightarrow> tm_rows mgr = []"
    using assms(1) by (metis set_mset_mset, metis mset_zero_iff_right)
  then show ?thesis
    using assms(2) pick_match_mset [OF assms(1)] by (simp only: rt.resolve_cases tm.resolve_cases)
qed

theorem selector_resolution_agrees_witness:
  "rt_resolve router_state_new None = tm_resolve (target_manager_new :: unit target_manager) None"
  by (rule selector_resolution_agrees)
    (simp_all add: router_state_new_def target_manager_new_def rt_rows_def tm_rows_def)

interpretation ids: id_supply alloc_id "\<lambda>st. {target_name n |n. n < rt_next_id st}"
  "\<lambda>st. u64_max - unat (rt_next_id st)"
proof unfold_locales
  fix st st' :: router_state and i
  assume room: "0 < u64_max - unat (rt_next_id st)" and alloc: "alloc_id st = (i, st')"
  then have eq: "i = target_name (rt_next_id st)" "rt_next_id st' = rt_next_id st + 1"
    by (auto simp: alloc_id_def)
  have no_wrap: "unat (rt_next_id st + 1) = unat (rt_next_id st) + 1"
    using room by (intro unat_Suc_u64) simp
  have less: "n < rt_next_id st + 1 \<longleftrightarrow> n < rt_next_id st \<or> n = rt_next_id st" for n
    using no_wrap by (auto simp: word_less_nat_alt word_unat_eq_iff)
  show "i \<notin> {target_name n |n. n < rt_next_id st}" using eq(1) by auto
  show "{target_name n |n. n < rt_next_id st'} = insert i {target_name n |n. n < rt_next_id st}"
    using eq less by auto
  show "Suc (u64_max - unat (rt_next_id st')) = u64_max - unat (rt_next_id st)"
    using room eq(2) no_wrap by simp
qed

lemma min_by_key_None [simp]: "min_by_key f xs = None \<longleftrightarrow> xs = []"
  by (induction xs) (auto split: option.splits)

lemma min_by_key_mem: "min_by_key f xs = Some x \<Longrightarrow> x \<in> set xs \<and> (\<forall>y \<in> set xs. f x \<le> f y)"
proof (induction xs arbitrary: x)
  case (Cons a xs)
  then show ?case by (cases "min_by_key f xs") (force split: if_splits)+
qed simp

section \<open>The conflict check\<close>

lemma find_load_conflict_None:
  "find_load_conflict cp di rows = None \<longleftrightarrow>
     (\<forall>(tid, p, d) \<in> set rows. \<not> path_eq p cp \<and> \<not> path_eq d di)"
  by (induction cp di rows rule: find_load_conflict.induct) auto

definition plan_clear :: "load_plan \<Rightarrow> router_state \<Rightarrow> bool" where
  "plan_clear plan st \<longleftrightarrow>
     (\<forall>(tid, e) \<in> set (rt_targets st). \<not> path_eq (we_canon_path e) (lp_canon_path plan) \<and>
        \<not> path_eq (we_db_identity e) (lp_db_identity plan))"

lemma load_conflict_None: "load_conflict plan st = None \<longleftrightarrow> plan_clear plan st"
  by (auto simp: load_conflict_def plan_clear_def find_load_conflict_None)

lemma same_database_conflict:
  "(tid, e) \<in> set (rt_targets st) \<Longrightarrow> path_eq (we_db_identity e) (lp_db_identity plan) \<Longrightarrow>
     load_conflict plan st \<noteq> None"
  by (auto simp: load_conflict_None plan_clear_def)

text \<open>Once a raw binary is loaded with its default database, loading that database file itself is
  refused, and so is loading the binary again: both orders meet at the same file.\<close>

theorem binary_and_its_database_conflict:
  assumes "ends_in_name x"
    and "plan_load env (JObject [(''path'', JString x)]) = Ok plan" and "\<not> is_idb_path (expand_path env x)"
    and "expand_path env x = x" and "expand_path env (x @ ''.i64'') = x @ ''.i64''"
    and "plan_load env (JObject [(''path'', JString (x @ ''.i64''))]) = Ok plan'"
  shows "path_eq (lp_db_identity plan) (lp_db_identity plan')
    \<and> (\<forall>st e tid. (tid, e) \<in> set (rt_targets st) \<and> we_db_identity e = lp_db_identity plan \<longrightarrow>
         load_conflict plan' st \<noteq> None)
    \<and> (\<forall>st e tid. (tid, e) \<in> set (rt_targets st) \<and> we_db_identity e = lp_db_identity plan' \<longrightarrow>
         load_conflict plan st \<noteq> None)"
proof -
  have "is_idb_path (x @ ''.i64'')"
    using raw_database_is_idb [OF assms(1)] by (simp add: idb_path_for_raw_binary_def)
  then have "lp_db_identity plan' = canonicalize_lenient env (x @ ''.i64'')"
    using assms(5,6) by (auto simp: plan_load_def Let_def json_gets effective_idb_out_def split: if_splits)
  moreover have "lp_db_identity plan = canonicalize_lenient env (x @ ''.i64'')"
    using assms(2-4) by (auto simp: plan_load_def Let_def json_gets effective_idb_out_def
        idb_path_for_raw_binary_def split: if_splits)
  ultimately show ?thesis using same_database_conflict by (simp add: path_eq_def) metis
qed

theorem binary_and_its_database_conflict_witness:
  "\<exists>plan plan'. plan_load env0 (JObject [(''path'', JString ''a'')]) = Ok plan \<and>
     plan_load env0 (JObject [(''path'', JString ''a.i64'')]) = Ok plan' \<and>
     path_eq (lp_db_identity plan) (lp_db_identity plan')"
proof -
  have exp: "expand_path env0 ''a'' = ''a''" "expand_path env0 (''a'' @ ''.i64'') = ''a'' @ ''.i64''"
    by (simp_all add: expand_path_def strip_prefix_str_def)
  obtain plan where plan: "plan_load env0 (JObject [(''path'', JString ''a'')]) = Ok plan"
    by (simp add: plan_load_def json_gets Let_def exp env0_def)
  obtain plan' where plan': "plan_load env0 (JObject [(''path'', JString (''a'' @ ''.i64''))]) = Ok plan'"
    by (simp add: plan_load_def json_gets Let_def exp env0_def)
  have "ends_in_name ''a''" "\<not> is_idb_path (expand_path env0 ''a'')"
    by (simp_all add: ends_in_name_def exp is_idb_path_def extension_def file_name_def components_def
        is_absolute_def component_of_def to_ascii_lowercase_def)
  from binary_and_its_database_conflict [OF this(1) plan this(2) exp plan'] plan plan' show ?thesis by auto
qed

section \<open>The router as a sequence of atomic events\<close>

text \<open>A load runs in phases: between any two of them, and while a closed worker is being stopped, the
  state lock is free and other connections are served. \<open>rc_stopping\<close> holds the workers whose target
  has been removed and whose \<open>stop_worker\<close> has not returned yet.\<close>

datatype load_phase =
    Idle
  | Checked load_plan
  | Allocated load_plan string
  | Booting load_plan string nat
  | Booted load_plan string nat string
  | Loaded load_plan string nat string target_info
  | Aborting nat

record router_conc =
  rc_sys :: router_sys
  rc_phase :: load_phase
  rc_stopping :: "nat set"
  rc_allocs :: nat
  rc_down :: bool

datatype router_event =
    EvCheck load_plan
  | EvAlloc
  | EvSpawn world
  | EvBoot world
  | EvLoad world request
  | EvCommit
  | EvAbort
  | EvSwitch json
  | EvClose json
  | EvShutdown
  | EvStopped nat

abbreviation rc_state :: "router_conc \<Rightarrow> router_state" where
  "rc_state c \<equiv> sy_state (rc_sys c)"

text \<open>The operating system gives a new process a number no live child has.\<close>

definition fresh_child :: "world \<Rightarrow> string \<Rightarrow> router_sys \<Rightarrow> bool" where
  "fresh_child w tid sys \<longleftrightarrow> (case sp_spawn (wd_spawn w tid) of Ok c \<Rightarrow> c \<notin> sy_children sys | Err _ \<Rightarrow> True)"

definition new_entry :: "load_plan \<Rightarrow> string \<Rightarrow> target_info \<Rightarrow> nat \<Rightarrow> worker_entry" where
  "new_entry plan sock info child =
     \<lparr>we_info = info, we_sock = sock, we_canon_path = lp_canon_path plan,
      we_db_identity = lp_db_identity plan, we_child = child\<rparr>"

fun router_step :: "router_event \<Rightarrow> router_conc \<Rightarrow> router_conc" where
  "router_step (EvCheck plan) c =
     (if rc_phase c = Idle \<and> load_conflict plan (rc_state c) = None then c\<lparr>rc_phase := Checked plan\<rparr> else c)"
| "router_step EvAlloc c =
     (case rc_phase c of
        Checked plan \<Rightarrow>
          (let (tid, st) = alloc_id (rc_state c)
           in c\<lparr>rc_sys := (rc_sys c)\<lparr>sy_state := st\<rparr>, rc_phase := Allocated plan tid,
                rc_allocs := Suc (rc_allocs c)\<rparr>)
      | _ \<Rightarrow> c)"
| "router_step (EvSpawn w) c =
     (case rc_phase c of
        Allocated plan tid \<Rightarrow>
          if \<not> fresh_child w tid (rc_sys c) then c
          else (case launch_worker w tid (rc_sys c) of
                  (Err e, sys) \<Rightarrow> c\<lparr>rc_sys := sys, rc_phase := Idle\<rparr>
                | (Ok child, sys) \<Rightarrow> c\<lparr>rc_sys := sys, rc_phase := Booting plan tid child\<rparr>)
      | _ \<Rightarrow> c)"
| "router_step (EvBoot w) c =
     (case rc_phase c of
        Booting plan tid child \<Rightarrow>
          (case await_worker w tid child (rc_sys c) of
             (Err e, sys) \<Rightarrow> c\<lparr>rc_sys := sys, rc_phase := Idle\<rparr>
           | (Ok (child, sock), sys) \<Rightarrow> c\<lparr>rc_sys := sys, rc_phase := Booted plan tid child sock\<rparr>)
      | _ \<Rightarrow> c)"
| "router_step (EvLoad w req) c =
     (case rc_phase c of
        Booted plan tid child sock \<Rightarrow>
          (case load_reply w sock (load_request req plan) (op_timeout (wd_timeout_var w)) of
             Ok info \<Rightarrow> c\<lparr>rc_phase := Loaded plan tid child sock info\<rparr>
           | Err e \<Rightarrow> c\<lparr>rc_phase := Aborting child\<rparr>)
      | _ \<Rightarrow> c)"
| "router_step EvCommit c =
     (case rc_phase c of
        Loaded plan tid child sock info \<Rightarrow>
          c\<lparr>rc_sys := (rc_sys c)\<lparr>sy_state := commit_load tid
               (new_entry plan sock (info\<lparr>ti_id := tid\<rparr>) child) (rc_state c)\<rparr>, rc_phase := Idle\<rparr>
      | _ \<Rightarrow> c)"
| "router_step EvAbort c =
     (case rc_phase c of
        Aborting child \<Rightarrow> c\<lparr>rc_sys := stop_worker_child child (rc_sys c), rc_phase := Idle\<rparr>
      | _ \<Rightarrow> c)"
| "router_step (EvSwitch p) c =
     c\<lparr>rc_sys := (rc_sys c)\<lparr>sy_state := snd (switch_target p (rc_state c))\<rparr>\<rparr>"
| "router_step (EvClose p) c =
     (case remove_target p (rc_state c) of
        (Err e, st) \<Rightarrow> c\<lparr>rc_sys := (rc_sys c)\<lparr>sy_state := st\<rparr>\<rparr>
      | (Ok (tid, e), st) \<Rightarrow>
          c\<lparr>rc_sys := (rc_sys c)\<lparr>sy_state := st\<rparr>, rc_stopping := insert (we_child e) (rc_stopping c)\<rparr>)"
| "router_step EvShutdown c =
     (let (entries, sys) = drain_targets (rc_sys c)
      in c\<lparr>rc_sys := sys, rc_stopping := we_child ` set entries \<union> rc_stopping c, rc_down := True\<rparr>)"
| "router_step (EvStopped child) c =
     (if child \<in> rc_stopping c
      then c\<lparr>rc_sys := stop_worker_child child (rc_sys c), rc_stopping := rc_stopping c - {child}\<rparr>
      else c)"

definition router_start :: router_conc where
  "router_start = \<lparr>rc_sys = \<lparr>sy_state = router_state_new, sy_children = {}\<rparr>, rc_phase = Idle,
                   rc_stopping = {}, rc_allocs = 0, rc_down = False\<rparr>"

abbreviation load_events :: "load_plan \<Rightarrow> world \<Rightarrow> request \<Rightarrow> router_event list" where
  "load_events plan w req \<equiv>
     [EvCheck plan, EvAlloc, EvSpawn w, EvBoot w, EvLoad w req, EvCommit, EvAbort]"

text \<open>The handlers run without interruption are sequences of these events.\<close>

lemma fresh_child_state: "fresh_child w tid (sys\<lparr>sy_state := st\<rparr>) = fresh_child w tid sys"
  by (simp add: fresh_child_def split: result.splits)

lemma load_handler_events:
  assumes "plan_load (wd_fs w) (rq_params req) = Ok plan" and "rc_phase c = Idle"
    and "\<forall>tid. fresh_child w tid (rc_sys c)"
  shows "rc_sys (fold router_step (load_events plan w req) c) = snd (handle_target_load w req (rc_sys c))
    \<and> rc_phase (fold router_step (load_events plan w req) c) = Idle"
proof (cases "load_conflict plan (rc_state c)")
  case None
  obtain tid st where alloc: "alloc_id (rc_state c) = (tid, st)" by (cases "alloc_id (rc_state c)")
  obtain r sys where launch: "launch_worker w tid ((rc_sys c)\<lparr>sy_state := st\<rparr>) = (r, sys)"
    by (cases "launch_worker w tid ((rc_sys c)\<lparr>sy_state := st\<rparr>)")
  note start = assms None alloc launch fresh_child_state handle_target_load_def spawn_worker_def
  show ?thesis
  proof (cases r)
    case (Ok child)
    obtain r' sys' where boot: "await_worker w tid child sys = (r', sys')"
      by (cases "await_worker w tid child sys")
    show ?thesis
    proof (cases r')
      case booted: (Ok x)
      obtain child' sock where x: "x = (child', sock)" by (cases x)
      show ?thesis
        by (cases "load_reply w sock (load_request req plan) (op_timeout (wd_timeout_var w))")
          (simp_all add: start Ok boot booted x worker_load_handshake_def new_entry_def Let_def)
    qed (simp add: start Ok boot)
  qed (simp add: start)
qed (simp add: assms handle_target_load_def)

lemma close_handler_events:
  assumes "remove_target p (rc_state c) = (Ok (tid, e), st)"
  shows "rc_sys (fold router_step [EvClose p, EvStopped (we_child e)] c) =
    stop_worker e ((rc_sys c)\<lparr>sy_state := st\<rparr>)"
  using assms by (simp add: stop_worker_def)

text \<open>A world in which every spawn and every load succeeds, for evaluation.\<close>

definition info0 :: target_info where
  "info0 = \<lparr>ti_id = [], ti_path = ''a'', ti_filename = ''a'', ti_file_type = [], ti_processor = [],
            ti_bits = 64, ti_function_count = 0\<rparr>"

definition world0 :: world where
  "world0 = \<lparr>wd_fs = env0,
     wd_codec = \<lparr>cd_print_request = (\<lambda>_. Ok []),
       cd_parse_response = (\<lambda>_. Ok (response_success [] JNull)), cd_parse_info = (\<lambda>_. Ok info0),
       cd_print_info = (\<lambda>_. JNull)\<rparr>,
     wd_cache_dir = [], wd_pid = 7, wd_timeout_var = None,
     wd_spawn = (\<lambda>_. \<lparr>sp_exe = Ok (), sp_spawn = Ok 42, sp_obs = [\<lparr>bo_connected = True, bo_wait = Ok None\<rparr>]\<rparr>),
     wd_forward = (\<lambda>_ _. \<lparr>fw_timed_out = False, fw_connect = Connected, fw_write_err = None,
       fw_newline_err = None, fw_flush_err = None, fw_chunks = [''x'' @ [NL]], fw_fin = None\<rparr>)\<rparr>"

definition request0 :: request where
  "request0 = \<lparr>rq_id = ''1'', rq_op = ''target.load'', rq_params = JObject [(''path'', JString ''a'')],
               rq_target = None\<rparr>"

definition plan0 :: load_plan where
  "plan0 = \<lparr>lp_expanded = ''a'', lp_canon_path = ''a'', lp_db_identity = ''a.i64'',
            lp_auto_analyse = True, lp_idb_out = None\<rparr>"

lemma plan0: "plan_load (wd_fs world0) (rq_params request0) = Ok plan0"
  by (simp add: plan_load_def json_gets Let_def world0_def env0_def request0_def plan0_def expand_path_def
      strip_prefix_str_def canonicalize_lenient_def effective_idb_out_def is_idb_path_def extension_def
      file_name_def components_def is_absolute_def component_of_def to_ascii_lowercase_def
      idb_path_for_raw_binary_def parent_of_def)

lemma world0_launch:
  "launch_worker world0 tid sys = (Ok 42, sys\<lparr>sy_children := insert 42 (sy_children sys)\<rparr>)"
  "await_worker world0 tid 42 sys = (Ok (42, worker_socket_path [] 7 tid), sys)"
  "fresh_child world0 tid sys \<longleftrightarrow> 42 \<notin> sy_children sys"
  by (simp_all add: launch_worker_def await_worker_def fresh_child_def world0_def Let_def)

lemma world0_load: "load_reply world0 sock req t = Ok info0"
  by (simp add: load_reply_def forward_to_worker_def world0_def read_line_capped_def
      MAX_LINE_BYTES_def response_success_def Let_def)

abbreviation entry0 :: worker_entry where
  "entry0 \<equiv> new_entry plan0 (worker_socket_path [] 7 ''t1'') (info0\<lparr>ti_id := ''t1''\<rparr>) 42"

lemma one_load:
  "fold router_step (load_events plan0 world0 request0) router_start =
   \<lparr>rc_sys = \<lparr>sy_state = \<lparr>rt_targets = [(''t1'', entry0)], rt_active = Some ''t1'', rt_next_id = 2\<rparr>,
      sy_children = {42}\<rparr>,
    rc_phase = Idle, rc_stopping = {}, rc_allocs = 1, rc_down = False\<rparr>"
  by (simp add: router_start_def router_state_new_def load_conflict_def alloc_id_def world0_launch
      world0_load commit_load_def hm_insert_def Let_def target_name_def fmt_dec_def radix_digits.simps)

section \<open>Invariant\<close>

definition issued_id :: "router_state \<Rightarrow> string \<Rightarrow> bool" where
  "issued_id st tid \<longleftrightarrow> (\<exists>n < rt_next_id st. tid = target_name n)"

definition databases_distinct :: "router_state \<Rightarrow> bool" where
  "databases_distinct st \<longleftrightarrow>
     (\<forall>(i, e) \<in> set (rt_targets st). \<forall>(j, f) \<in> set (rt_targets st). i \<noteq> j \<longrightarrow>
        \<not> path_eq (we_canon_path e) (we_canon_path f) \<and> \<not> path_eq (we_db_identity e) (we_db_identity f))"

definition targets_ok :: "router_state \<Rightarrow> bool" where
  "targets_ok st \<longleftrightarrow>
     hm_inv (rt_targets st) \<and>
     (\<forall>(i, e) \<in> set (rt_targets st). ti_id (we_info e) = i \<and> issued_id st i) \<and>
     databases_distinct st"

definition target_children :: "router_state \<Rightarrow> nat set" where
  "target_children st = (\<lambda>(i, e). we_child e) ` set (rt_targets st)"

definition children_distinct :: "router_state \<Rightarrow> bool" where
  "children_distinct st \<longleftrightarrow> inj_on (\<lambda>(i, e). we_child e) (set (rt_targets st))"

text \<open>The process a load owns, and what it knows of the targets while it runs.\<close>

fun load_child :: "load_phase \<Rightarrow> nat set" where
  "load_child (Booting plan tid child) = {child}"
| "load_child (Booted plan tid child sock) = {child}"
| "load_child (Loaded plan tid child sock info) = {child}"
| "load_child (Aborting child) = {child}"
| "load_child _ = {}"

definition slot_clear :: "load_plan \<Rightarrow> string \<Rightarrow> router_state \<Rightarrow> bool" where
  "slot_clear plan tid st \<longleftrightarrow> plan_clear plan st \<and> tid \<notin> fst ` set (rt_targets st) \<and> issued_id st tid"

fun load_ok :: "load_phase \<Rightarrow> router_state \<Rightarrow> bool" where
  "load_ok Idle st \<longleftrightarrow> True"
| "load_ok (Checked plan) st \<longleftrightarrow> plan_clear plan st"
| "load_ok (Allocated plan tid) st \<longleftrightarrow> slot_clear plan tid st"
| "load_ok (Booting plan tid child) st \<longleftrightarrow> slot_clear plan tid st"
| "load_ok (Booted plan tid child sock) st \<longleftrightarrow> slot_clear plan tid st"
| "load_ok (Loaded plan tid child sock info) st \<longleftrightarrow> slot_clear plan tid st"
| "load_ok (Aborting child) st \<longleftrightarrow> True"

text \<open>Every process has one owner: a target, a stop in progress or the load in progress.\<close>

definition children_owned :: "nat set \<Rightarrow> nat set \<Rightarrow> nat set \<Rightarrow> nat set \<Rightarrow> bool" where
  "children_owned C T S L \<longleftrightarrow> C = T \<union> S \<union> L \<and> T \<inter> S = {} \<and> T \<inter> L = {} \<and> S \<inter> L = {}"

abbreviation rc_owned :: "router_conc \<Rightarrow> bool" where
  "rc_owned c \<equiv> children_owned (sy_children (rc_sys c)) (target_children (rc_state c)) (rc_stopping c)
     (load_child (rc_phase c))"

definition router_ok :: "router_conc \<Rightarrow> bool" where
  "router_ok c \<longleftrightarrow>
     targets_ok (rc_state c) \<and> children_distinct (rc_state c) \<and> load_ok (rc_phase c) (rc_state c) \<and>
     rc_owned c \<and> (\<not> rc_down c \<longrightarrow> rt_active_ok (rc_state c))"

text \<open>The counter wraps after \<open>2 ^ 64 - 1\<close> loads; until then it counts them.\<close>

definition router_inv :: "router_conc \<Rightarrow> bool" where
  "router_inv c \<longleftrightarrow>
     (rc_allocs c < u64_max \<longrightarrow> unat (rt_next_id (rc_state c)) = Suc (rc_allocs c) \<and> router_ok c)"

text \<open>Dropping targets keeps everything but the active target.\<close>

lemma targets_ok_subset:
  assumes "targets_ok st" "hm_inv ts" "set ts \<subseteq> set (rt_targets st)"
  shows "targets_ok (st\<lparr>rt_targets := ts, rt_active := a\<rparr>)"
proof -
  let ?st = "st\<lparr>rt_targets := ts, rt_active := a\<rparr>"
  have "databases_distinct ?st"
    using assms(1,3) unfolding targets_ok_def databases_distinct_def by simp blast
  moreover have "\<forall>(i, e) \<in> set ts. ti_id (we_info e) = i \<and> issued_id ?st i"
    using assms(1,3) unfolding targets_ok_def issued_id_def by auto
  ultimately show ?thesis using assms(2) by (simp add: targets_ok_def)
qed

lemma targets_ok_active: "targets_ok (st\<lparr>rt_active := a\<rparr>) = targets_ok st"
  by (simp add: targets_ok_def databases_distinct_def issued_id_def)

lemma plan_clear_subset:
  "plan_clear plan st \<Longrightarrow> set ts \<subseteq> set (rt_targets st) \<Longrightarrow> plan_clear plan (st\<lparr>rt_targets := ts, rt_active := a\<rparr>)"
  by (auto simp: plan_clear_def)

lemma targets_ok_insert:
  assumes "targets_ok st" "plan_clear plan st" "tid \<notin> fst ` set (rt_targets st)" "issued_id st tid"
    "e = new_entry plan sock info child" "ti_id info = tid"
  shows "targets_ok (commit_load tid e st)"
proof -
  have inv: "hm_inv (rt_targets st)" using assms(1) by (simp add: targets_ok_def)
  have set: "set (hm_insert tid e (rt_targets st)) = insert (tid, e) (set (rt_targets st))"
    using hm_insert_set [OF inv] assms(3) by force
  have "databases_distinct (commit_load tid e st)"
    unfolding databases_distinct_def
  proof (clarify)
    fix i f j g
    assume "(i, f) \<in> set (rt_targets (commit_load tid e st))" "(j, g) \<in> set (rt_targets (commit_load tid e st))"
      and ne: "i \<noteq> j"
    then have "(i, f) = (tid, e) \<or> (i, f) \<in> set (rt_targets st)" "(j, g) = (tid, e) \<or> (j, g) \<in> set (rt_targets st)"
      using set by (auto simp: commit_load_def)
    with ne show "\<not> path_eq (we_canon_path f) (we_canon_path g) \<and> \<not> path_eq (we_db_identity f) (we_db_identity g)"
      using assms(1,2,5) unfolding targets_ok_def databases_distinct_def plan_clear_def
      by (auto simp: new_entry_def path_eq_def)
  qed
  then show ?thesis
    using assms set hm.invar_insert [OF inv]
    by (auto simp: targets_ok_def commit_load_def issued_id_def new_entry_def)
qed

lemma children_insert:
  assumes "hm_inv (rt_targets st)" "tid \<notin> fst ` set (rt_targets st)" "we_child e \<notin> target_children st" "children_distinct st"
  shows "target_children (commit_load tid e st) = insert (we_child e) (target_children st)"
    "children_distinct (commit_load tid e st)"
proof -
  have set: "set (hm_insert tid e (rt_targets st)) = insert (tid, e) (set (rt_targets st))"
    using hm_insert_set [OF assms(1)] assms(2) by force
  show "target_children (commit_load tid e st) = insert (we_child e) (target_children st)"
    by (simp add: target_children_def commit_load_def set)
  have "(tid, e) \<notin> set (rt_targets st)" using assms(2) by force
  with assms(3,4) show "children_distinct (commit_load tid e st)"
    by (simp add: children_distinct_def commit_load_def set target_children_def)
qed

lemma children_remove:
  assumes "hm_inv (rt_targets st)" "hm_get (rt_targets st) tid = Some e" "children_distinct st"
  shows "target_children (st\<lparr>rt_targets := hm_remove tid (rt_targets st), rt_active := a\<rparr>) =
           target_children st - {we_child e}"
    "children_distinct (st\<lparr>rt_targets := hm_remove tid (rt_targets st), rt_active := a\<rparr>)"
proof -
  have mem: "(tid, e) \<in> set (rt_targets st)" using assms(1,2) by (simp add: hm_get_mem)
  have "set (hm_remove tid (rt_targets st)) = set (rt_targets st) - {(tid, e)}"
    using hm_set_remove [OF assms(1)] assms(1,2) by (auto simp: hm_get_mem [symmetric])
  then show "target_children (st\<lparr>rt_targets := hm_remove tid (rt_targets st), rt_active := a\<rparr>) =
      target_children st - {we_child e}"
    using mem assms(3) unfolding target_children_def children_distinct_def
    by (simp add: inj_on_image_set_diff [where C = "set (rt_targets st)"] insert_absorb)
  show "children_distinct (st\<lparr>rt_targets := hm_remove tid (rt_targets st), rt_active := a\<rparr>)"
    using assms(3) \<open>set (hm_remove tid (rt_targets st)) = _\<close> unfolding children_distinct_def
    by (simp add: inj_on_diff)
qed

lemma load_ok_subset:
  "load_ok ph st \<Longrightarrow> set ts \<subseteq> set (rt_targets st) \<Longrightarrow> load_ok ph (st\<lparr>rt_targets := ts, rt_active := a\<rparr>)"
  by (cases ph) (auto simp: slot_clear_def plan_clear_subset issued_id_def)

lemma load_ok_active: "load_ok ph (st\<lparr>rt_active := a\<rparr>) = load_ok ph st"
  by (cases ph) (simp_all add: slot_clear_def plan_clear_def issued_id_def)

lemma active_after_remove:
  assumes "hm_inv (rt_targets st)" "rt_active_ok st" "hm_get (rt_targets st) tid = Some e"
  shows "rt_active_ok (st\<lparr>rt_targets := hm_remove tid (rt_targets st),
    rt_active := (if rt_active st = Some tid then lowest_target_id (map fst (hm_remove tid (rt_targets st)))
                  else rt_active st)\<rparr>)"
proof (cases "rt_active st = Some tid")
  case True
  then show ?thesis
    using min_by_key_mem [of target_order "map fst (hm_remove tid (rt_targets st))"]
    by (auto simp: rt_active_ok_def lowest_target_id_def split: option.splits)
next
  case False
  moreover obtain a where a: "rt_active st = Some a" "a \<in> fst ` set (rt_targets st)"
    using assms(2,3) by (auto simp: rt_active_ok_def split: option.splits)
  moreover from a False have "a \<in> fst ` set (hm_remove tid (rt_targets st))"
    using hm_set_remove [OF assms(1)] by force
  ultimately show ?thesis by (simp add: rt_active_ok_def)
qed

lemmas state_parts = targets_ok_def children_distinct_def target_children_def issued_id_def
  databases_distinct_def plan_clear_def rt_active_ok_def

lemma switch_ok:
  assumes "router_ok c"
  shows "router_ok (router_step (EvSwitch p) c)"
proof (cases "and_then (param_str p ''id'') (\<lambda>sel. rt_resolve (rc_state c) (Some sel))")
  case (Ok tid)
  then obtain sel where "rt_resolve (rc_state c) (Some sel) = Ok tid"
    by (cases "param_str p ''id''") auto
  then have "rt_active_ok (rc_state c) \<Longrightarrow> tid \<in> fst ` set (rt_targets (rc_state c))"
    using rt.resolve_loaded by fastforce
  then show ?thesis
    using assms Ok by (simp add: router_ok_def switch_target_def targets_ok_active load_ok_active
        children_distinct_def target_children_def rt_active_ok_def)
next
  case (Err e)
  with assms show ?thesis by (simp add: switch_target_def)
qed

lemma close_ok:
  assumes "router_ok c"
  shows "router_ok (router_step (EvClose p) c)"
proof (cases "remove_target p (rc_state c)")
  case (Pair r st)
  have inv: "hm_inv (rt_targets (rc_state c))" "targets_ok (rc_state c)" "children_distinct (rc_state c)"
    and own: "rc_owned c" and load: "load_ok (rc_phase c) (rc_state c)"
    using assms by (simp_all add: router_ok_def targets_ok_def)
  show ?thesis
  proof (cases r)
    case (Err e)
    with Pair have "st = rc_state c"
      by (auto simp: remove_target_def Let_def split: result.splits option.splits)
    with Pair Err assms show ?thesis by (simp add: router_ok_def)
  next
    case (Ok x)
    obtain tid e where x: "x = (tid, e)" by (cases x)
    define a where "a = (if rt_active (rc_state c) = Some tid
      then lowest_target_id (map fst (hm_remove tid (rt_targets (rc_state c)))) else rt_active (rc_state c))"
    have get: "hm_get (rt_targets (rc_state c)) tid = Some e"
      and st: "st = (rc_state c)\<lparr>rt_targets := hm_remove tid (rt_targets (rc_state c)), rt_active := a\<rparr>"
      using Pair Ok x by (auto simp: remove_target_def Let_def a_def split: result.splits option.splits)
    have sub: "set (hm_remove tid (rt_targets (rc_state c))) \<subseteq> set (rt_targets (rc_state c))"
      using hm_set_remove [OF inv(1)] by auto
    then have "targets_ok st" "children_distinct st" "load_ok (rc_phase c) st"
      using targets_ok_subset [OF inv(2) hm.invar_remove [OF inv(1)]]
        children_remove(2) [OF inv(1) get inv(3)] load_ok_subset [OF load sub] st
      by simp_all
    moreover have "we_child e \<in> target_children (rc_state c)"
      using inv(1) get by (force simp: target_children_def hm_get_mem)
    then have "children_owned (sy_children (rc_sys c)) (target_children st)
        (insert (we_child e) (rc_stopping c)) (load_child (rc_phase c))"
      using own unfolding st children_remove(1) [OF inv(1) get inv(3)] children_owned_def by blast
    moreover have "rt_active_ok (rc_state c) \<Longrightarrow> rt_active_ok st"
      unfolding st a_def using active_after_remove [OF inv(1) _ get] by blast
    ultimately show ?thesis using Pair Ok x assms by (simp add: router_ok_def)
  qed
qed

lemma fold_stop: "fold stop_worker es sys = sys\<lparr>sy_children := sy_children sys - we_child ` set es\<rparr>"
  by (induction es arbitrary: sys) (simp_all add: stop_worker_def stop_worker_child_def flip: Diff_insert2)

lemma shutdown_ok:
  assumes "router_ok c"
  shows "router_ok (router_step EvShutdown c)"
proof -
  have "we_child ` set (map snd (rt_targets (rc_state c))) = target_children (rc_state c)"
    by (force simp: target_children_def)
  moreover have "load_ok (rc_phase c) ((rc_state c)\<lparr>rt_targets := []\<rparr>)"
    using assms load_ok_subset [of "rc_phase c" "rc_state c" "[]" "rt_active (rc_state c)"]
    by (simp add: router_ok_def)
  moreover have "target_children ((rc_state c)\<lparr>rt_targets := []\<rparr>) = {}"
    "targets_ok ((rc_state c)\<lparr>rt_targets := []\<rparr>)" "children_distinct ((rc_state c)\<lparr>rt_targets := []\<rparr>)"
    by (simp_all add: state_parts)
  ultimately show ?thesis
    using assms by (auto simp: router_ok_def drain_targets_def children_owned_def)
qed

lemma stopped_ok: "router_ok c \<Longrightarrow> router_ok (router_step (EvStopped child) c)"
  by (auto simp: router_ok_def stop_worker_child_def children_owned_def)

lemma spawn_ok:
  assumes "router_ok c"
  shows "router_ok (router_step (EvSpawn w) c)"
proof (cases "rc_phase c")
  case (Allocated plan tid)
  with assms show ?thesis
    by (auto simp: router_ok_def launch_worker_def fresh_child_def children_owned_def Let_def
        split: result.splits)
qed (use assms in simp_all)

lemma boot_ok:
  assumes "router_ok c"
  shows "router_ok (router_step (EvBoot w) c)"
proof (cases "rc_phase c")
  case (Booting plan tid child)
  with assms show ?thesis
    by (auto simp: router_ok_def await_worker_def children_owned_def split: result.splits)
qed (use assms in simp_all)

lemma load_step_ok:
  assumes "router_ok c"
  shows "router_ok (router_step (EvLoad w req) c)"
proof (cases "rc_phase c")
  case (Booted plan tid child sock)
  with assms show ?thesis by (auto simp: router_ok_def split: result.splits)
qed (use assms in simp_all)

lemma abort_ok:
  assumes "router_ok c"
  shows "router_ok (router_step EvAbort c)"
proof (cases "rc_phase c")
  case (Aborting child)
  with assms show ?thesis by (auto simp: router_ok_def stop_worker_child_def children_owned_def)
qed (use assms in simp_all)

lemma commit_ok:
  assumes "router_ok c"
  shows "router_ok (router_step EvCommit c)"
proof (cases "rc_phase c")
  case (Loaded plan tid child sock info)
  define e where "e = new_entry plan sock (info\<lparr>ti_id := tid\<rparr>) child"
  have child: "we_child e = child" by (simp add: e_def new_entry_def)
  have ok: "targets_ok (rc_state c)" "hm_inv (rt_targets (rc_state c))" "children_distinct (rc_state c)"
    and own: "children_owned (sy_children (rc_sys c)) (target_children (rc_state c)) (rc_stopping c) {child}"
    and clear: "plan_clear plan (rc_state c)" "tid \<notin> fst ` set (rt_targets (rc_state c))" "issued_id (rc_state c) tid"
    using assms Loaded by (simp_all add: router_ok_def targets_ok_def slot_clear_def)
  have "targets_ok (commit_load tid e (rc_state c))"
    by (rule targets_ok_insert [OF ok(1) clear e_def]) simp
  moreover have new: "child \<notin> target_children (rc_state c)"
    using own by (simp add: children_owned_def)
  then have "target_children (commit_load tid e (rc_state c)) = insert child (target_children (rc_state c))"
    "children_distinct (commit_load tid e (rc_state c))"
    using children_insert [OF ok(2) clear(2) _ ok(3), of e] child by simp_all
  moreover have "children_owned (sy_children (rc_sys c)) (insert child (target_children (rc_state c)))
      (rc_stopping c) {}"
    using own by (auto simp: children_owned_def)
  moreover have "rt_active_ok (rc_state c) \<Longrightarrow> rt_active_ok (commit_load tid e (rc_state c))"
    using hm_insert_set [OF ok(2), of tid e] clear(2)
    by (force simp: rt_active_ok_def commit_load_def split: option.splits)
  ultimately show ?thesis
    using assms Loaded by (simp add: router_ok_def flip: e_def)
qed (use assms in simp_all)

lemma check_ok: "router_ok c \<Longrightarrow> router_ok (router_step (EvCheck plan) c)"
  by (cases "rc_phase c") (simp_all add: router_ok_def load_conflict_None)

lemma alloc_ok:
  assumes "router_ok c" "unat (rt_next_id (rc_state c)) < u64_max"
  shows "router_ok (router_step EvAlloc c)"
proof (cases "rc_phase c")
  case (Checked plan)
  define st where "st = snd (alloc_id (rc_state c))"
  have room: "0 < u64_max - unat (rt_next_id (rc_state c))" using assms(2) by simp
  have alloc: "alloc_id (rc_state c) = (target_name (rt_next_id (rc_state c)), st)"
    by (simp add: st_def alloc_id_def)
  have same: "rt_targets st = rt_targets (rc_state c)" "rt_active st = rt_active (rc_state c)"
    by (simp_all add: st_def alloc_id_def)
  have issued: "issued_id st i \<longleftrightarrow> issued_id (rc_state c) i \<or> i = target_name (rt_next_id (rc_state c))" for i
    using ids.alloc_issued [OF room alloc] by (auto simp: issued_id_def)
  have "\<not> issued_id (rc_state c) (target_name (rt_next_id (rc_state c)))"
    using ids.alloc_fresh [OF room alloc] by (auto simp: issued_id_def)
  then have fresh: "target_name (rt_next_id (rc_state c)) \<notin> fst ` set (rt_targets (rc_state c))"
    using assms(1) by (auto simp: router_ok_def targets_ok_def)
  have "targets_ok st"
    using assms(1) issued by (auto simp: router_ok_def targets_ok_def databases_distinct_def same)
  moreover have "children_distinct st = children_distinct (rc_state c)"
    "target_children st = target_children (rc_state c)"
    "plan_clear plan st = plan_clear plan (rc_state c)" "rt_active_ok st = rt_active_ok (rc_state c)"
    by (simp_all add: same children_distinct_def target_children_def plan_clear_def rt_active_ok_def
        cong: option.case_cong)
  ultimately have "targets_ok st" "children_distinct st = children_distinct (rc_state c)"
    "target_children st = target_children (rc_state c)"
    "plan_clear plan st = plan_clear plan (rc_state c)" "rt_active_ok st = rt_active_ok (rc_state c)"
    by blast+
  with assms(1) Checked fresh issued alloc same show ?thesis
    by (simp add: router_ok_def slot_clear_def)
qed (use assms in simp_all)

lemma next_id_kept:
  "rt_next_id (snd (switch_target p st)) = rt_next_id st"
  "rt_next_id (snd (remove_target p st)) = rt_next_id st"
  "sy_state (snd (launch_worker w tid sys)) = sy_state sys"
  "sy_state (snd (await_worker w tid child sys)) = sy_state sys"
  "sy_state (stop_worker_child child sys) = sy_state sys"
  "rt_next_id (commit_load tid e st) = rt_next_id st"
  by (simp_all add: switch_target_def remove_target_def launch_worker_def await_worker_def
      stop_worker_child_def commit_load_def Let_def split: result.splits option.splits unit.splits)

lemma worker_state_kept:
  "launch_worker w tid sys = (r, sys') \<Longrightarrow> sy_state sys' = sy_state sys"
  "await_worker w tid child sys = (r', sys') \<Longrightarrow> sy_state sys' = sy_state sys"
  using next_id_kept(3,4) by (metis snd_conv)+

lemma router_step_counter:
  assumes "ev \<noteq> EvAlloc"
  shows "rc_allocs (router_step ev c) = rc_allocs c \<and>
    rt_next_id (rc_state (router_step ev c)) = rt_next_id (rc_state c)"
proof (cases ev)
  case (EvClose p)
  with next_id_kept(2) [of p "rc_state c"] show ?thesis by (auto split: prod.splits result.splits)
qed (cases "rc_phase c"; use assms in \<open>auto simp: next_id_kept drain_targets_def dest!: worker_state_kept
  split: prod.splits result.splits\<close>)+

interpretation routers: lifecycle router_step router_inv
proof unfold_locales
  fix c ev assume inv: "router_inv c"
  show "router_inv (router_step ev c)"
  proof (cases "ev = EvAlloc")
    case True
    then show ?thesis
      using inv alloc_ok [of c] unat_Suc_u64 [of "rt_next_id (rc_state c)"]
      by (cases "rc_phase c") (auto simp: router_inv_def alloc_id_def Let_def)
  next
    case False
    then have "router_ok c \<Longrightarrow> router_ok (router_step ev c)"
      by (cases ev) (simp_all only: simp_thms check_ok spawn_ok boot_ok load_step_ok commit_ok abort_ok
          switch_ok close_ok shutdown_ok stopped_ok)
    with inv router_step_counter [OF False] show ?thesis by (simp add: router_inv_def)
  qed
qed

lemma router_start_inv: "router_inv router_start"
  by (simp add: router_inv_def router_ok_def router_start_def router_state_new_def state_parts
      children_owned_def rt_active_ok_def)

lemma router_run_ok:
  assumes "rc_allocs (fold router_step evs router_start) < u64_max"
  shows "router_ok (fold router_step evs router_start)"
  using routers.run_inv [OF router_start_inv, of evs] assms by (simp add: router_inv_def)

text \<open>C1: however loads, switches, closes, stops and a shutdown interleave, each cut where the code
  releases its lock or awaits a worker, no two targets share an input or a database, every target is
  stored once under an identifier the counter has handed out, and every worker process the router still
  holds has exactly one owner: a target, a stop that has not finished or the load in progress.\<close>

theorem router_targets_distinct:
  assumes "rc_allocs (fold router_step evs router_start) < u64_max"
    and "c = fold router_step evs router_start"
  shows "databases_distinct (rc_state c) \<and> hm_inv (rt_targets (rc_state c))
    \<and> (\<forall>(i, e) \<in> set (rt_targets (rc_state c)). ti_id (we_info e) = i \<and> issued_id (rc_state c) i)
    \<and> children_distinct (rc_state c)
    \<and> sy_children (rc_sys c) = target_children (rc_state c) \<union> rc_stopping c \<union> load_child (rc_phase c)
    \<and> target_children (rc_state c) \<inter> rc_stopping c = {}
    \<and> (target_children (rc_state c) \<union> rc_stopping c) \<inter> load_child (rc_phase c) = {}"
proof -
  have "targets_ok (rc_state c)" "children_distinct (rc_state c)" "rc_owned c"
    using router_run_ok [OF assms(1)] assms(2) by (simp_all add: router_ok_def)
  then show ?thesis unfolding targets_ok_def children_owned_def by blast
qed

theorem router_targets_distinct_witness:
  "sy_children (rc_sys (fold router_step (load_events plan0 world0 request0) router_start)) = {42}"
  using router_targets_distinct [of "load_events plan0 world0 request0", OF _ refl]
  unfolding one_load by (simp add: target_children_def new_entry_def)

text \<open>C10: when a target is closed, its database may be loaded again at once: right after the
  removal the conflict check of a load of the same input and database succeeds, although the worker
  that has the database open still runs and is only being stopped. Before the removal the same load
  was refused.\<close>

theorem closed_database_reloaded_while_open:
  assumes "rc_allocs (fold router_step evs router_start) < u64_max"
    and "c = fold router_step evs router_start" and "rc_phase c = Idle"
    and "remove_target p (rc_state c) = (Ok (tid, e), st)"
    and "lp_canon_path plan = we_canon_path e" and "lp_db_identity plan = we_db_identity e"
  shows "rc_phase (router_step (EvCheck plan) c) = Idle
    \<and> rc_phase (fold router_step [EvClose p, EvCheck plan] c) = Checked plan
    \<and> we_child e \<in> sy_children (rc_sys (fold router_step [EvClose p, EvCheck plan] c))
    \<and> we_child e \<in> rc_stopping (fold router_step [EvClose p, EvCheck plan] c)"
proof -
  have ok: "targets_ok (rc_state c)" "hm_inv (rt_targets (rc_state c))" "rc_owned c"
    using router_run_ok [OF assms(1)] assms(2) by (simp_all add: router_ok_def targets_ok_def)
  have get: "hm_get (rt_targets (rc_state c)) tid = Some e"
    and st: "rt_targets st = hm_remove tid (rt_targets (rc_state c))"
    using assms(4) by (auto simp: remove_target_def Let_def split: result.splits option.splits)
  have mem: "(tid, e) \<in> set (rt_targets (rc_state c))" using get ok(2) by (simp add: hm_get_mem)
  have "plan_clear plan st"
    using ok(1) mem hm_set_remove [OF ok(2), of tid] unfolding targets_ok_def databases_distinct_def
    by (fastforce simp: plan_clear_def st assms(5,6) path_eq_def)
  moreover have "load_conflict plan (rc_state c) \<noteq> None"
    using same_database_conflict [OF mem] assms(6) by (simp add: path_eq_def)
  moreover have "we_child e \<in> sy_children (rc_sys c)"
    using ok(3) mem by (force simp: children_owned_def target_children_def)
  ultimately show ?thesis using assms(3,4) by (simp add: load_conflict_None)
qed

theorem closed_database_reloaded_while_open_witness:
  "42 \<in> sy_children (rc_sys (fold router_step [EvClose (JObject [(''id'', JString ''t1'')]), EvCheck plan0]
     (fold router_step (load_events plan0 world0 request0) router_start)))"
proof -
  let ?c = "fold router_step (load_events plan0 world0 request0) router_start"
  have "remove_target (JObject [(''id'', JString ''t1'')]) (rc_state ?c) =
      (Ok (''t1'', entry0), \<lparr>rt_targets = [], rt_active = None, rt_next_id = 2\<rparr>)"
    unfolding one_load
    by (simp add: remove_target_def param_str_def json_gets rt_resolve_def resolve_selector_def
        selects_active_def rt_rows_def hm_get_def hm_remove_def lowest_target_id_def)
  note remove = this
  have run: "rc_allocs ?c < u64_max" "rc_phase ?c = Idle" unfolding one_load by simp_all
  have e: "lp_canon_path plan0 = we_canon_path entry0" "lp_db_identity plan0 = we_db_identity entry0"
    "we_child entry0 = 42"
    by (simp_all add: new_entry_def)
  show ?thesis
    using closed_database_reloaded_while_open [OF run(1) refl run(2) remove e(1,2)] unfolding e(3) by blast
qed

text \<open>C19: until the daemon shuts down, a request without a selector fails only when nothing is loaded,
  and every selector that resolves names a loaded target: an analysis request never ends in
  \<open>Target not found\<close>.\<close>

theorem router_resolve_finds_target:
  assumes "rc_allocs (fold router_step evs router_start) < u64_max"
    and "\<not> rc_down (fold router_step evs router_start)"
    and "st = rc_state (fold router_step evs router_start)"
  shows "(\<forall>sel tid. rt_resolve st sel = Ok tid \<longrightarrow> (\<exists>e. hm_get (rt_targets st) tid = Some e \<and> ti_id (we_info e) = tid))
    \<and> (rt_targets st \<noteq> [] \<longrightarrow> is_ok (rt_resolve st None))"
proof -
  have ok: "targets_ok st" "rt_active_ok st"
    using router_run_ok [OF assms(1)] assms(2,3) by (simp_all add: router_ok_def)
  have "\<exists>e. hm_get (rt_targets st) tid = Some e \<and> ti_id (we_info e) = tid"
    if res: "rt_resolve st sel = Ok tid" for sel tid
  proof -
    obtain e where "(tid, e) \<in> set (rt_targets st)"
      using rt.resolve_loaded [OF ok(2) res] by auto
    with ok(1) show ?thesis by (auto simp: targets_ok_def hm_get_mem)
  qed
  moreover have "is_ok (rt_resolve st None)" if "rt_targets st \<noteq> []"
    using ok(2) that
    by (auto simp: rt.resolve_cases selects_active_def rt_active_ok_def split: option.splits)
  ultimately show ?thesis by blast
qed

theorem router_resolve_finds_target_witness:
  "is_ok (rt_resolve (rc_state (fold router_step
     (load_events plan0 world0 request0) router_start)) None)"
  using router_resolve_finds_target [of "load_events plan0 world0 request0", OF _ _ refl]
  unfolding one_load by simp

text \<open>A shutdown empties the targets but leaves the active identifier: if a load commits
  afterwards, requests without a selector are sent to a target that is gone.\<close>

theorem shutdown_leaves_stale_active:
  assumes "rt_active st = Some a" and "tid \<noteq> a"
  shows "forward_analysis w \<lparr>rq_id = i, rq_op = ''info'', rq_params = JNull, rq_target = None\<rparr>
      (commit_load tid e (sy_state (shutdown_all_workers \<lparr>sy_state = st, sy_children = C\<rparr>))) =
    Err (target_not_found a)"
  using assms
  by (simp add: shutdown_all_workers_def drain_targets_def fold_stop commit_load_def forward_analysis_def rt_resolve_def
      resolve_selector_def selects_active_def rt_rows_def hm_insert_def hm_get_def)

theorem shutdown_leaves_stale_active_witness:
  "forward_analysis world0 \<lparr>rq_id = [], rq_op = ''info'', rq_params = JNull, rq_target = None\<rparr>
     (commit_load ''t2'' (new_entry plan0 [] info0 1)
        (sy_state (shutdown_all_workers \<lparr>sy_state = \<lparr>rt_targets = [], rt_active = Some ''t1'', rt_next_id = 3\<rparr>,
           sy_children = {}\<rparr>))) = Err (target_not_found ''t1'')"
  by (rule shutdown_leaves_stale_active) simp_all

lemma spawn_worker_result:
  assumes "fresh_child w tid sys"
  shows "case spawn_worker w tid sys of
      (Err e, sys') \<Rightarrow> sys' = sys
    | (Ok (child, sock), sys') \<Rightarrow> child \<notin> sy_children sys \<and> sys' = sys\<lparr>sy_children := insert child (sy_children sys)\<rparr>"
proof (cases "sp_exe (wd_spawn w tid)"; cases "sp_spawn (wd_spawn w tid)"; cases "boot_loop (sp_obs (wd_spawn w tid))")
qed (use assms in \<open>simp_all add: spawn_worker_def launch_worker_def await_worker_def fresh_child_def Let_def split: unit.splits\<close>)

lemma handshake_Err:
  "worker_load_handshake w child sock req t sys = (Err e, sys') \<Longrightarrow>
     sys' = sys\<lparr>sy_children := sy_children sys - {child}\<rparr>"
  by (auto simp: worker_load_handshake_def stop_worker_child_def split: result.splits)

text \<open>C20: a load that fails, at whatever point, leaves the targets, the active target and the worker
  processes as they were.\<close>

theorem failed_load_leaves_no_trace:
  assumes "handle_target_load w req sys = (Err e, sys')"
    and "fresh_child w (target_name (rt_next_id (sy_state sys))) sys"
  shows "rt_targets (sy_state sys') = rt_targets (sy_state sys)
    \<and> rt_active (sy_state sys') = rt_active (sy_state sys) \<and> sy_children sys' = sy_children sys"
proof -
  define tid where "tid = target_name (rt_next_id (sy_state sys))"
  define sys1 where "sys1 = sys\<lparr>sy_state := (sy_state sys)\<lparr>rt_next_id := rt_next_id (sy_state sys) + 1\<rparr>\<rparr>"
  have same: "rt_targets (sy_state sys1) = rt_targets (sy_state sys)"
    "rt_active (sy_state sys1) = rt_active (sy_state sys)" "sy_children sys1 = sy_children sys"
    by (simp_all add: sys1_def)
  have "fresh_child w tid sys1" using assms(2) by (simp add: fresh_child_def tid_def same split: result.splits)
  note spawn = spawn_worker_result [OF this]
  show ?thesis
  proof (cases "plan_load (wd_fs w) (rq_params req)")
    case (Ok plan)
    show ?thesis
    proof (cases "load_conflict plan (sy_state sys)")
      case None
      obtain r sys2 where sp: "spawn_worker w tid sys1 = (r, sys2)" by (cases "spawn_worker w tid sys1")
      show ?thesis
      proof (cases r)
        case (Err m)
        with assms(1) Ok None sp have "sys' = sys2"
          by (simp add: handle_target_load_def alloc_id_def flip: tid_def sys1_def)
        with spawn sp Err same show ?thesis by simp
      next
        case r: (Ok x)
        obtain child sock where x: "x = (child, sock)" by (cases x)
        obtain r3 sys3 where hs: "worker_load_handshake w child sock (load_request req plan)
            (op_timeout (wd_timeout_var w)) sys2 = (r3, sys3)"
          by (metis surj_pair)
        have sys2: "child \<notin> sy_children sys1" "sys2 = sys1\<lparr>sy_children := insert child (sy_children sys1)\<rparr>"
          using spawn sp r x by simp_all
        have "\<exists>m. r3 = Err m \<and> sys' = sys3"
          using assms(1) Ok None sp r x hs
          by (cases r3) (simp_all add: handle_target_load_def alloc_id_def Let_def case_prod_beta flip: tid_def sys1_def)
        then obtain m where "r3 = Err m" "sys' = sys3" by blast
        with hs have "sys' = sys2\<lparr>sy_children := sy_children sys2 - {child}\<rparr>"
          using handshake_Err by blast
        with sys2 same show ?thesis by simp
      qed
    qed (use assms(1) Ok in \<open>simp add: handle_target_load_def\<close>)
  qed (use assms(1) in \<open>simp add: handle_target_load_def\<close>)
qed

theorem failed_load_leaves_no_trace_witness:
  "sy_children (snd (handle_target_load (world0\<lparr>wd_spawn := (\<lambda>_. \<lparr>sp_exe = Ok (), sp_spawn = Ok 42, sp_obs = []\<rparr>)\<rparr>)
     request0 (rc_sys router_start))) = {}"
proof -
  let ?w = "world0\<lparr>wd_spawn := (\<lambda>_. \<lparr>sp_exe = Ok (), sp_spawn = Ok 42, sp_obs = []\<rparr>)\<rparr>"
  have "\<exists>e. fst (handle_target_load ?w request0 (rc_sys router_start)) = Err e"
    by (simp add: handle_target_load_def plan0 router_start_def router_state_new_def load_conflict_def
        alloc_id_def spawn_worker_def launch_worker_def await_worker_def Let_def)
  then obtain e where "handle_target_load ?w request0 (rc_sys router_start) =
      (Err e, snd (handle_target_load ?w request0 (rc_sys router_start)))"
    by (metis prod.collapse)
  from failed_load_leaves_no_trace [OF this] show ?thesis
    by (simp add: fresh_child_def router_start_def)
qed

end
