(* ===== verification/Dispatch.thy ===== *)
theory Dispatch
  imports Targets Protocol
begin

text \<open>
  The request dispatch of the worker process, \<open>src/src/daemon/worker.rs\<close>. What each operation reads
  from the parameters and which handler it calls with them is here; the handlers, which wrap the
  IDA library, are a parameter. A handler call is the handler's name with the arguments the
  dispatcher passes. A handler may panic, which is its value \<open>None\<close>; \<open>Panics\<close> is the panic of the
  byte parser. Arithmetic on \<open>usize\<close> wraps, as in a release build.
\<close>

section \<open>Handler calls\<close>

datatype harg =
    AUsize usize | AAddr u64 | AU32 u32 | AI64 int | AI32 "32 word" | ABool bool
  | AStr string | AStrs "string list" | AAddrs "u64 list" | ABytes "u8 list"
  | ANone | ASome harg

fun a_opt :: "('a \<Rightarrow> harg) \<Rightarrow> 'a option \<Rightarrow> harg" where
  "a_opt f None = ANone"
| "a_opt f (Some x) = ASome (f x)"

text \<open>A call is the handler's name with its arguments after the database.\<close>

datatype handler_call = Call (hc_name: string) (hc_args: "harg list")

abbreviation H_idb_meta :: "handler_call" where
  "H_idb_meta \<equiv> Call ''handle_idb_meta'' []"

abbreviation H_analysis_status :: "handler_call" where
  "H_analysis_status \<equiv> Call ''handle_analysis_status'' []"

abbreviation H_list_functions :: "usize \<Rightarrow> usize \<Rightarrow> (string option) \<Rightarrow> handler_call" where
  "H_list_functions a b c \<equiv> Call ''handle_list_functions'' [AUsize a, AUsize b, a_opt AStr c]"

abbreviation H_resolve_function :: "string \<Rightarrow> handler_call" where
  "H_resolve_function a \<equiv> Call ''handle_resolve_function'' [AStr a]"

abbreviation H_function_at :: "u64 \<Rightarrow> handler_call" where
  "H_function_at a \<equiv> Call ''handle_function_at'' [AAddr a]"

abbreviation H_lookup_funcs :: "(string list) \<Rightarrow> handler_call" where
  "H_lookup_funcs a \<equiv> Call ''handle_lookup_funcs'' [AStrs a]"

abbreviation H_analyze_funcs :: "handler_call" where
  "H_analyze_funcs \<equiv> Call ''handle_analyze_funcs'' []"

abbreviation H_pseudocode_at :: "u64 \<Rightarrow> (u64 option) \<Rightarrow> handler_call" where
  "H_pseudocode_at a b \<equiv> Call ''handle_pseudocode_at'' [AAddr a, a_opt AAddr b]"

abbreviation H_strings :: "usize \<Rightarrow> usize \<Rightarrow> (string option) \<Rightarrow> handler_call" where
  "H_strings a b c \<equiv> Call ''handle_strings'' [AUsize a, AUsize b, a_opt AStr c]"

abbreviation H_find_string :: "string \<Rightarrow> bool \<Rightarrow> bool \<Rightarrow> usize \<Rightarrow> usize \<Rightarrow> handler_call" where
  "H_find_string a b c d e \<equiv> Call ''handle_find_string'' [AStr a, ABool b, ABool c, AUsize d, AUsize e]"

abbreviation H_get_string :: "u64 \<Rightarrow> usize \<Rightarrow> handler_call" where
  "H_get_string a b \<equiv> Call ''handle_get_string'' [AAddr a, AUsize b]"

abbreviation H_analyze_strings :: "(string option) \<Rightarrow> usize \<Rightarrow> usize \<Rightarrow> handler_call" where
  "H_analyze_strings a b c \<equiv> Call ''handle_analyze_strings'' [a_opt AStr a, AUsize b, AUsize c]"

abbreviation H_xrefs_to_string :: "string \<Rightarrow> bool \<Rightarrow> bool \<Rightarrow> usize \<Rightarrow> usize \<Rightarrow> usize \<Rightarrow> handler_call" where
  "H_xrefs_to_string a b c d e f \<equiv> Call ''handle_xrefs_to_string'' [AStr a, ABool b, ABool c, AUsize d, AUsize e, AUsize f]"

abbreviation H_segments :: "handler_call" where
  "H_segments \<equiv> Call ''handle_segments'' []"

abbreviation H_imports :: "usize \<Rightarrow> usize \<Rightarrow> handler_call" where
  "H_imports a b \<equiv> Call ''handle_imports'' [AUsize a, AUsize b]"

abbreviation H_exports :: "usize \<Rightarrow> usize \<Rightarrow> handler_call" where
  "H_exports a b \<equiv> Call ''handle_exports'' [AUsize a, AUsize b]"

abbreviation H_entrypoints :: "handler_call" where
  "H_entrypoints \<equiv> Call ''handle_entrypoints'' []"

abbreviation H_list_globals :: "(string option) \<Rightarrow> usize \<Rightarrow> usize \<Rightarrow> handler_call" where
  "H_list_globals a b c \<equiv> Call ''handle_list_globals'' [a_opt AStr a, AUsize b, AUsize c]"

abbreviation H_get_global_value :: "string \<Rightarrow> handler_call" where
  "H_get_global_value a \<equiv> Call ''handle_get_global_value'' [AStr a]"

abbreviation H_xrefs_to :: "u64 \<Rightarrow> usize \<Rightarrow> usize \<Rightarrow> handler_call" where
  "H_xrefs_to a b c \<equiv> Call ''handle_xrefs_to'' [AAddr a, AUsize b, AUsize c]"

abbreviation H_xrefs_from :: "u64 \<Rightarrow> usize \<Rightarrow> usize \<Rightarrow> handler_call" where
  "H_xrefs_from a b c \<equiv> Call ''handle_xrefs_from'' [AAddr a, AUsize b, AUsize c]"

abbreviation H_xref_matrix :: "(u64 list) \<Rightarrow> handler_call" where
  "H_xref_matrix a \<equiv> Call ''handle_xref_matrix'' [AAddrs a]"

abbreviation H_basic_blocks :: "u64 \<Rightarrow> handler_call" where
  "H_basic_blocks a \<equiv> Call ''handle_basic_blocks'' [AAddr a]"

abbreviation H_callers :: "u64 \<Rightarrow> handler_call" where
  "H_callers a \<equiv> Call ''handle_callers'' [AAddr a]"

abbreviation H_callees :: "u64 \<Rightarrow> handler_call" where
  "H_callees a \<equiv> Call ''handle_callees'' [AAddr a]"

abbreviation H_callgraph :: "u64 \<Rightarrow> usize \<Rightarrow> usize \<Rightarrow> handler_call" where
  "H_callgraph a b c \<equiv> Call ''handle_callgraph'' [AAddr a, AUsize b, AUsize c]"

abbreviation H_find_paths :: "u64 \<Rightarrow> u64 \<Rightarrow> usize \<Rightarrow> usize \<Rightarrow> handler_call" where
  "H_find_paths a b c d \<equiv> Call ''handle_find_paths'' [AAddr a, AAddr b, AUsize c, AUsize d]"

abbreviation H_get_bytes :: "u64 \<Rightarrow> usize \<Rightarrow> handler_call" where
  "H_get_bytes a b \<equiv> Call ''handle_get_bytes'' [AAddr a, AUsize b]"

abbreviation H_read_int :: "u64 \<Rightarrow> usize \<Rightarrow> handler_call" where
  "H_read_int a b \<equiv> Call ''handle_read_int'' [AAddr a, AUsize b]"

abbreviation H_find_bytes :: "string \<Rightarrow> usize \<Rightarrow> handler_call" where
  "H_find_bytes a b \<equiv> Call ''handle_find_bytes'' [AStr a, AUsize b]"

abbreviation H_search_text :: "string \<Rightarrow> usize \<Rightarrow> handler_call" where
  "H_search_text a b \<equiv> Call ''handle_search_text'' [AStr a, AUsize b]"

abbreviation H_search_imm :: "u64 \<Rightarrow> usize \<Rightarrow> handler_call" where
  "H_search_imm a b \<equiv> Call ''handle_search_imm'' [AAddr a, AUsize b]"

abbreviation H_find_insns :: "(string list) \<Rightarrow> usize \<Rightarrow> bool \<Rightarrow> handler_call" where
  "H_find_insns a b c \<equiv> Call ''handle_find_insns'' [AStrs a, AUsize b, ABool c]"

abbreviation H_find_insn_operands :: "(string list) \<Rightarrow> usize \<Rightarrow> bool \<Rightarrow> handler_call" where
  "H_find_insn_operands a b c \<equiv> Call ''handle_find_insn_operands'' [AStrs a, AUsize b, ABool c]"

abbreviation H_addr_info :: "u64 \<Rightarrow> handler_call" where
  "H_addr_info a \<equiv> Call ''handle_addr_info'' [AAddr a]"

abbreviation H_local_types :: "usize \<Rightarrow> usize \<Rightarrow> (string option) \<Rightarrow> handler_call" where
  "H_local_types a b c \<equiv> Call ''handle_local_types'' [AUsize a, AUsize b, a_opt AStr c]"

abbreviation H_declare_type :: "string \<Rightarrow> bool \<Rightarrow> bool \<Rightarrow> bool \<Rightarrow> handler_call" where
  "H_declare_type a b c d \<equiv> Call ''handle_declare_type'' [AStr a, ABool b, ABool c, ABool d]"

abbreviation H_apply_types :: "(u64 option) \<Rightarrow> (string option) \<Rightarrow> int \<Rightarrow> (int option) \<Rightarrow> (string option) \<Rightarrow> (string option) \<Rightarrow> (string option) \<Rightarrow> bool \<Rightarrow> bool \<Rightarrow> bool \<Rightarrow> handler_call" where
  "H_apply_types a b c d e f g h i j \<equiv> Call ''handle_apply_types'' [a_opt AAddr a, a_opt AStr b, AI64 c, a_opt AI64 d, a_opt AStr e, a_opt AStr f, a_opt AStr g, ABool h, ABool i, ABool j]"

abbreviation H_infer_types :: "(u64 option) \<Rightarrow> (string option) \<Rightarrow> int \<Rightarrow> handler_call" where
  "H_infer_types a b c \<equiv> Call ''handle_infer_types'' [a_opt AAddr a, a_opt AStr b, AI64 c]"

abbreviation H_stack_frame :: "u64 \<Rightarrow> handler_call" where
  "H_stack_frame a \<equiv> Call ''handle_stack_frame'' [AAddr a]"

abbreviation H_declare_stack :: "(u64 option) \<Rightarrow> (string option) \<Rightarrow> int \<Rightarrow> (string option) \<Rightarrow> string \<Rightarrow> bool \<Rightarrow> handler_call" where
  "H_declare_stack a b c d e f \<equiv> Call ''handle_declare_stack'' [a_opt AAddr a, a_opt AStr b, AI64 c, a_opt AStr d, AStr e, ABool f]"

abbreviation H_delete_stack :: "(u64 option) \<Rightarrow> (string option) \<Rightarrow> (int option) \<Rightarrow> (string option) \<Rightarrow> handler_call" where
  "H_delete_stack a b c d \<equiv> Call ''handle_delete_stack'' [a_opt AAddr a, a_opt AStr b, a_opt AI64 c, a_opt AStr d]"

abbreviation H_structs :: "usize \<Rightarrow> usize \<Rightarrow> (string option) \<Rightarrow> handler_call" where
  "H_structs a b c \<equiv> Call ''handle_structs'' [AUsize a, AUsize b, a_opt AStr c]"

abbreviation H_struct_info :: "(u32 option) \<Rightarrow> (string option) \<Rightarrow> handler_call" where
  "H_struct_info a b \<equiv> Call ''handle_struct_info'' [a_opt AU32 a, a_opt AStr b]"

abbreviation H_read_struct :: "u64 \<Rightarrow> (u32 option) \<Rightarrow> (string option) \<Rightarrow> handler_call" where
  "H_read_struct a b c \<equiv> Call ''handle_read_struct'' [AAddr a, a_opt AU32 b, a_opt AStr c]"

abbreviation H_xrefs_to_field :: "(u32 option) \<Rightarrow> (string option) \<Rightarrow> (u32 option) \<Rightarrow> (string option) \<Rightarrow> usize \<Rightarrow> handler_call" where
  "H_xrefs_to_field a b c d e \<equiv> Call ''handle_xrefs_to_field'' [a_opt AU32 a, a_opt AStr b, a_opt AU32 c, a_opt AStr d, AUsize e]"

abbreviation H_set_comments :: "(u64 option) \<Rightarrow> (string option) \<Rightarrow> int \<Rightarrow> string \<Rightarrow> bool \<Rightarrow> handler_call" where
  "H_set_comments a b c d e \<equiv> Call ''handle_set_comments'' [a_opt AAddr a, a_opt AStr b, AI64 c, AStr d, ABool e]"

abbreviation H_rename :: "(u64 option) \<Rightarrow> (string option) \<Rightarrow> string \<Rightarrow> (32 word) \<Rightarrow> handler_call" where
  "H_rename a b c d \<equiv> Call ''handle_rename'' [a_opt AAddr a, a_opt AStr b, AStr c, AI32 d]"

abbreviation H_patch_bytes :: "(u64 option) \<Rightarrow> (string option) \<Rightarrow> int \<Rightarrow> (u8 list) \<Rightarrow> handler_call" where
  "H_patch_bytes a b c d \<equiv> Call ''handle_patch_bytes'' [a_opt AAddr a, a_opt AStr b, AI64 c, ABytes d]"

abbreviation H_patch_asm :: "(u64 option) \<Rightarrow> (string option) \<Rightarrow> int \<Rightarrow> string \<Rightarrow> handler_call" where
  "H_patch_asm a b c d \<equiv> Call ''handle_patch_asm'' [a_opt AAddr a, a_opt AStr b, AI64 c, AStr d]"

abbreviation H_run_script :: "string \<Rightarrow> handler_call" where
  "H_run_script a \<equiv> Call ''handle_run_script'' [AStr a]"

abbreviation H_load_debug_info :: "(string option) \<Rightarrow> bool \<Rightarrow> handler_call" where
  "H_load_debug_info a b \<equiv> Call ''handle_load_debug_info'' [a_opt AStr a, ABool b]"

text \<open>Calls that return text.\<close>

datatype text_call =
    T_disasm_by_name string usize
  | T_disasm u64 usize
  | T_disasm_function_at u64 usize
  | T_decompile u64

text \<open>A handler may change the database it is given, and it may panic.\<close>

type_synonym 'idb outcome = "((json, string) result \<times> 'idb option) option"

record 'idb handlers =
  h_call :: "handler_call \<Rightarrow> 'idb option \<Rightarrow> ((json, string) result \<times> 'idb option) option"
  h_text :: "text_call \<Rightarrow> 'idb option \<Rightarrow> ((string, string) result \<times> 'idb option) option"
  h_resolve_address :: "string \<Rightarrow> 'idb option \<Rightarrow> (string, string) result option"
  h_analysis_status :: "'idb \<Rightarrow> json"

section \<open>Arguments\<close>

definition opt_addr :: "json \<Rightarrow> string \<Rightarrow> (u64 option, string) result" where
  "opt_addr p key = transpose_opt (map_option parse_addr (get_str p key))"

definition opt_u32 :: "json \<Rightarrow> string \<Rightarrow> u32 option" where
  "opt_u32 p key = map_option word_of_nat (get_u64 p key)"

definition i64_or :: "json \<Rightarrow> string \<Rightarrow> int \<Rightarrow> int" where
  "i64_or p key dflt = (case get_i64 p key of Some i \<Rightarrow> i | None \<Rightarrow> dflt)"

definition clamp_usize :: "usize \<Rightarrow> usize \<Rightarrow> usize \<Rightarrow> usize" where
  "clamp_usize v lo hi = (if v < lo then lo else if hi < v then hi else v)"

datatype call_plan = NoSuchOp | Plan "(handler_call, string) result" | Panics

abbreviation plan_ok :: "handler_call \<Rightarrow> call_plan" where
  "plan_ok c \<equiv> Plan (Ok c)"

abbreviation plan_addr :: "json \<Rightarrow> (u64 \<Rightarrow> handler_call) \<Rightarrow> call_plan" where
  "plan_addr p f \<equiv> Plan (map_ok f (param_addr p ''address''))"

abbreviation plan_str :: "json \<Rightarrow> string \<Rightarrow> (string \<Rightarrow> handler_call) \<Rightarrow> call_plan" where
  "plan_str p key f \<equiv> Plan (map_ok f (param_str p key))"

abbreviation plan_opt_addr :: "json \<Rightarrow> (u64 option \<Rightarrow> (handler_call, string) result) \<Rightarrow> call_plan" where
  "plan_opt_addr p f \<equiv> Plan (and_then (opt_addr p ''address'') f)"

definition call_functions :: "string \<Rightarrow> json \<Rightarrow> call_plan" where
  "call_functions op p =
     (if op = ''meta'' then plan_ok H_idb_meta
      else if op = ''analysis_status'' then plan_ok H_analysis_status
      else if op = ''functions'' \<or> op = ''list_functions''
      then plan_ok (H_list_functions (param_usize p ''offset'' 0) (param_usize p ''limit'' 100) (get_str p ''filter''))
      else if op = ''resolve_function'' then plan_str p ''name'' H_resolve_function
      else if op = ''function_at'' then plan_addr p H_function_at
      else if op = ''lookup_funcs'' then plan_ok (H_lookup_funcs (param_str_vec p ''queries''))
      else if op = ''analyze_funcs'' then plan_ok H_analyze_funcs
      else NoSuchOp)"

definition call_pseudocode :: "string \<Rightarrow> json \<Rightarrow> call_plan" where
  "call_pseudocode op p =
     (if op = ''pseudocode_at''
      then Plan (and_then (param_addr p ''address'') (\<lambda>addr.
             map_ok (H_pseudocode_at addr) (opt_addr p ''end_address'')))
      else NoSuchOp)"

definition call_strings :: "string \<Rightarrow> json \<Rightarrow> call_plan" where
  "call_strings op p =
     (let offset = param_usize p ''offset'' 0; limit = param_usize p ''limit'' 100;
          exact = param_bool p ''exact'' False; ci = param_bool p ''case_insensitive'' False in
      if op = ''strings'' then plan_ok (H_strings offset limit (get_str p ''filter''))
      else if op = ''find_string'' then plan_str p ''query'' (\<lambda>q. H_find_string q exact ci offset limit)
      else if op = ''get_string'' then plan_addr p (\<lambda>a. H_get_string a (param_usize p ''max_len'' 1024))
      else if op = ''analyze_strings'' then plan_ok (H_analyze_strings (get_str p ''query'') offset limit)
      else if op = ''xrefs_to_string''
      then plan_str p ''query'' (\<lambda>q. H_xrefs_to_string q exact ci offset limit (param_usize p ''max_xrefs'' 10))
      else if op = ''segments'' then plan_ok H_segments
      else if op = ''imports'' then plan_ok (H_imports offset limit)
      else if op = ''exports'' \<or> op = ''export_funcs'' then plan_ok (H_exports offset limit)
      else if op = ''entrypoints'' then plan_ok H_entrypoints
      else if op = ''globals'' \<or> op = ''list_globals''
      then plan_ok (H_list_globals (get_str p ''filter'') offset limit)
      else if op = ''get_global_value'' then plan_str p ''query'' H_get_global_value
      else NoSuchOp)"

definition call_graph :: "string \<Rightarrow> json \<Rightarrow> call_plan" where
  "call_graph op p =
     (let offset = param_usize p ''offset'' 0;
          xlimit = clamp_usize (param_usize p ''limit'' 1000) 1 10000 in
      if op = ''xrefs_to'' then plan_addr p (\<lambda>a. H_xrefs_to a offset xlimit)
      else if op = ''xrefs_from'' then plan_addr p (\<lambda>a. H_xrefs_from a offset xlimit)
      else if op = ''xref_matrix'' then Plan (map_ok H_xref_matrix (param_addr_vec p ''addresses''))
      else if op = ''basic_blocks'' then plan_addr p H_basic_blocks
      else if op = ''callers'' then plan_addr p H_callers
      else if op = ''callees'' then plan_addr p H_callees
      else if op = ''callgraph''
      then plan_addr p (\<lambda>a. H_callgraph a (param_usize p ''max_depth'' 3) (param_usize p ''max_nodes'' 100))
      else if op = ''find_paths''
      then Plan (and_then (param_addr p ''start'') (\<lambda>s. map_ok (\<lambda>e.
             H_find_paths s e (param_usize p ''max_paths'' 5) (param_usize p ''max_depth'' 10))
             (param_addr p ''end'')))
      else NoSuchOp)"

definition call_search :: "string \<Rightarrow> json \<Rightarrow> call_plan" where
  "call_search op p =
     (let mx = param_usize p ''max_results'' 100; ci = param_bool p ''case_insensitive'' False in
      if op = ''get_bytes'' then plan_addr p (\<lambda>a. H_get_bytes a (param_usize p ''size'' 64))
      else if op = ''read_int'' then plan_addr p (\<lambda>a. H_read_int a (param_usize p ''size'' 4))
      else if op = ''find_bytes'' then plan_str p ''pattern'' (\<lambda>s. H_find_bytes s (param_usize p ''limit'' 100))
      else if op = ''search_text'' then plan_str p ''text'' (\<lambda>s. H_search_text s mx)
      else if op = ''search_imm''
      then Plan (map_ok (\<lambda>imm. H_search_imm imm mx) (and_then (param_str p ''value'') parse_addr))
      else if op = ''find_insns'' then plan_ok (H_find_insns (param_str_vec p ''patterns'') mx ci)
      else if op = ''find_insn_operands'' then plan_ok (H_find_insn_operands (param_str_vec p ''patterns'') mx ci)
      else if op = ''addr_info'' then plan_addr p H_addr_info
      else NoSuchOp)"

definition call_types :: "string \<Rightarrow> json \<Rightarrow> call_plan" where
  "call_types op p =
     (let name = get_str p ''name''; offset = i64_or p ''offset'' 0;
          relaxed = param_bool p ''relaxed'' False in
      if op = ''local_types''
      then plan_ok (H_local_types (param_usize p ''offset'' 0) (param_usize p ''limit'' 100) (get_str p ''filter''))
      else if op = ''declare_type''
      then plan_str p ''decl'' (\<lambda>d. H_declare_type d relaxed (param_bool p ''replace'' False) (param_bool p ''multi'' False))
      else if op = ''apply_types''
      then plan_opt_addr p (\<lambda>a. Ok (H_apply_types a name offset (get_i64 p ''stack_offset'')
             (get_str p ''stack_name'') (get_str p ''decl'') (get_str p ''type_name'') relaxed
             (param_bool p ''delay'' False) (param_bool p ''strict'' False)))
      else if op = ''infer_types'' then plan_opt_addr p (\<lambda>a. Ok (H_infer_types a name offset))
      else if op = ''stack_frame'' then plan_addr p H_stack_frame
      else if op = ''declare_stack''
      then plan_opt_addr p (\<lambda>a. map_ok (\<lambda>d. H_declare_stack a name offset (get_str p ''var_name'') d relaxed)
             (param_str p ''decl''))
      else if op = ''delete_stack''
      then plan_opt_addr p (\<lambda>a. Ok (H_delete_stack a name (get_i64 p ''offset'') (get_str p ''var_name'')))
      else NoSuchOp)"

definition call_structs :: "string \<Rightarrow> json \<Rightarrow> call_plan" where
  "call_structs op p =
     (let name = get_str p ''name''; ordinal = opt_u32 p ''ordinal'' in
      if op = ''structs''
      then plan_ok (H_structs (param_usize p ''offset'' 0) (param_usize p ''limit'' 100) (get_str p ''filter''))
      else if op = ''struct_info'' then plan_ok (H_struct_info ordinal name)
      else if op = ''read_struct'' then plan_addr p (\<lambda>a. H_read_struct a ordinal name)
      else if op = ''xrefs_to_field''
      then plan_ok (H_xrefs_to_field ordinal name (opt_u32 p ''member_index'') (get_str p ''member_name'')
             (param_usize p ''limit'' 100))
      else NoSuchOp)"

definition call_edits :: "string \<Rightarrow> json \<Rightarrow> call_plan" where
  "call_edits op p =
     (let name = get_str p ''name''; offset = i64_or p ''offset'' 0 in
      if op = ''set_comment''
      then plan_opt_addr p (\<lambda>a. map_ok (\<lambda>c. H_set_comments a name offset c (param_bool p ''repeatable'' False))
             (param_str p ''comment''))
      else if op = ''rename''
      then plan_opt_addr p (\<lambda>a. map_ok (\<lambda>n. H_rename a (get_str p ''current_name'') n
             (word_of_int (i64_or p ''flags'' 0))) (param_str p ''name''))
      else if op = ''patch_bytes''
      then (case and_then (opt_addr p ''address'') (\<lambda>a. map_ok (\<lambda>h. (a, h)) (param_str p ''bytes'')) of
              Err e \<Rightarrow> Plan (Err e)
            | Ok (a, hex) \<Rightarrow>
                (case parse_hex_bytes hex of
                   None \<Rightarrow> Panics
                 | Some bytes \<Rightarrow> Plan (map_ok (H_patch_bytes a name offset) bytes)))
      else if op = ''patch_asm''
      then plan_opt_addr p (\<lambda>a. map_ok (H_patch_asm a name offset) (param_str p ''line''))
      else if op = ''run_script'' then plan_str p ''code'' H_run_script
      else if op = ''load_debug_info''
      then plan_ok (H_load_debug_info (get_str p ''path'') (param_bool p ''verbose'' False))
      else NoSuchOp)"

fun or_plan :: "call_plan \<Rightarrow> call_plan \<Rightarrow> call_plan" where
  "or_plan NoSuchOp q = q"
| "or_plan p q = p"

definition analysis_call :: "string \<Rightarrow> json \<Rightarrow> call_plan" where
  "analysis_call op p =
     or_plan (call_functions op p) (or_plan (call_pseudocode op p) (or_plan (call_strings op p)
       (or_plan (call_graph op p) (or_plan (call_search op p) (or_plan (call_types op p)
         (or_plan (call_structs op p) (call_edits op p)))))))"

section \<open>Operations on text\<close>

text \<open>\<open>count + offset\<close> is computed in \<open>usize\<close>, which wraps in a release build.\<close>

definition dispatch_disasm ::
  "'idb handlers \<Rightarrow> json \<Rightarrow> 'idb option \<Rightarrow> 'idb outcome" where
  "dispatch_disasm h p idb =
     (let offset = param_usize p ''offset'' 0; count = param_usize p ''count'' 20; total = count + offset;
          out = (\<lambda>s. JObject [(''disasm'', JString (apply_line_offset s offset))])
      in case get_str p ''name'' of
           Some name \<Rightarrow> map_option (apfst (map_ok out)) (h_text h (T_disasm_by_name name total) idb)
         | None \<Rightarrow>
             (case param_addr p ''address'' of
                Err e \<Rightarrow> Some (Err e, idb)
              | Ok addr \<Rightarrow> map_option (apfst (map_ok out)) (h_text h (T_disasm addr total) idb)))"

definition dispatch_disasm_function_at ::
  "'idb handlers \<Rightarrow> json \<Rightarrow> 'idb option \<Rightarrow> 'idb outcome" where
  "dispatch_disasm_function_at h p idb =
     (case param_addr p ''address'' of
        Err e \<Rightarrow> Some (Err e, idb)
      | Ok addr \<Rightarrow>
          (let offset = param_usize p ''offset'' 0; count = param_usize p ''count'' 200; total = count + offset
           in map_option (apfst (map_ok (\<lambda>s. JObject [(''disasm'', JString (apply_line_offset s offset)),
                                           (''has_more'', JBool False)])))
                (h_text h (T_disasm_function_at addr total) idb)))"

definition dispatch_decompile ::
  "'idb handlers \<Rightarrow> json \<Rightarrow> 'idb option \<Rightarrow> 'idb outcome" where
  "dispatch_decompile h p idb =
     (let max_lines = param_usize p ''max_lines'' 0;
          addr = (case get_str p ''name'' of
                    Some name \<Rightarrow> map_option (\<lambda>r. and_then r parse_addr) (h_resolve_address h name idb)
                  | None \<Rightarrow> Some (param_addr p ''address''))
      in case addr of
           None \<Rightarrow> None
         | Some (Err e) \<Rightarrow> Some (Err e, idb)
         | Some (Ok a) \<Rightarrow>
             map_option (apfst (map_ok (\<lambda>s. JObject [(''pseudocode'', JString (apply_max_lines s max_lines))])))
               (h_text h (T_decompile a) idb))"

definition dispatch_info ::
  "'idb handlers \<Rightarrow> 'idb idalib \<Rightarrow> string \<Rightarrow> 'idb option \<Rightarrow> (json, string) result" where
  "dispatch_info h ida tid idb =
     map_ok (\<lambda>db. JObject [(''target'', JString tid), (''file_type'', JString (il_filetype ida db)),
         (''processor'', JString (il_processor ida db)), (''bits'', json_of_nat (idb_bits ida db)),
         (''function_count'', json_of_nat (il_function_count ida db)),
         (''analysis_status'', h_analysis_status h db)])
       (ok_or idb ''IDB is None'')"

section \<open>Dispatch\<close>

text \<open>The outcome of a handler run; \<open>None\<close> is a panic.\<close>

definition run_op ::
  "'idb handlers \<Rightarrow> 'idb idalib \<Rightarrow> string \<Rightarrow> string \<Rightarrow> json \<Rightarrow> 'idb option \<Rightarrow> 'idb outcome" where
  "run_op h ida tid op p idb =
     (if op = ''info'' then Some (dispatch_info h ida tid idb, idb)
      else if op = ''disasm'' then dispatch_disasm h p idb
      else if op = ''disasm_function_at'' then dispatch_disasm_function_at h p idb
      else if op = ''decompile'' then dispatch_decompile h p idb
      else case analysis_call op p of
             NoSuchOp \<Rightarrow> Some (Err (''Unknown operation: '' @ op), idb)
           | Plan (Err e) \<Rightarrow> Some (Err e, idb)
           | Plan (Ok c) \<Rightarrow> h_call h c idb
           | Panics \<Rightarrow> None)"

definition known_op :: "string \<Rightarrow> json \<Rightarrow> bool" where
  "known_op op p \<longleftrightarrow>
     op \<in> {''info'', ''disasm'', ''disasm_function_at'', ''decompile''} \<or> analysis_call op p \<noteq> NoSuchOp"

definition set_idb :: "string \<Rightarrow> 'idb option \<Rightarrow> 'idb target_manager \<Rightarrow> 'idb target_manager" where
  "set_idb tid idb mgr = mgr\<lparr>tm_targets := hm_modify tid (\<lambda>r. r\<lparr>tr_idb := idb\<rparr>) (tm_targets mgr)\<rparr>"

definition dispatch_analysis ::
  "'idb handlers \<Rightarrow> 'idb idalib \<Rightarrow> request \<Rightarrow> 'idb target_manager \<Rightarrow>
   (json, string) result option \<times> 'idb target_manager" where
  "dispatch_analysis h ida req mgr =
     (case tm_resolve mgr (rq_target req) of
        Err e \<Rightarrow> (Some (Err e), mgr)
      | Ok tid \<Rightarrow>
          if \<not> known_op (rq_op req) (rq_params req)
          then (Some (Err (''Unknown operation: '' @ rq_op req)), mgr)
          else (case get_idb mgr tid of
                  Err e \<Rightarrow> (Some (Err e), mgr)
                | Ok idb \<Rightarrow>
                    (case run_op h ida tid (rq_op req) (rq_params req) idb of
                       None \<Rightarrow> (None, mgr)
                     | Some (r, idb') \<Rightarrow> (Some r, set_idb tid idb' mgr))))"

definition worker_int_convert :: "json \<Rightarrow> (json, string) result" where
  "worker_int_convert p =
     and_then (param_str p ''value'') (\<lambda>v.
     map_ok (\<lambda>n. JObject [(''decimal'', json_of_nat (unat n)), (''hex'', JString (fmt_hex (unat n))),
               (''octal'', JString (fmt_oct (unat n))), (''binary'', JString (fmt_bin (unat n))),
               (''signed'', json_of_int (sint n))]) (parse_addr v))"

definition dispatch_inner ::
  "fs_env \<Rightarrow> (target_info \<Rightarrow> json) \<Rightarrow> 'idb handlers \<Rightarrow> 'idb idalib \<Rightarrow> request \<Rightarrow> 'idb target_manager \<Rightarrow>
   (json, string) result option \<times> 'idb target_manager" where
  "dispatch_inner env info_json h ida req mgr =
     (let p = rq_params req; op = rq_op req in
      if op = ''target.load''
      then (if tm_list mgr \<noteq> [] then (Some (Err ''Worker already has a target loaded''), mgr)
            else case param_str p ''path'' of
                   Err e \<Rightarrow> (Some (Err e), mgr)
                 | Ok path \<Rightarrow>
                     (let (r, mgr) = tm_load env ida path (param_bool p ''auto_analyse'' True)
                                       (get_str p ''idb_out'') mgr
                      in (Some (map_ok info_json r), mgr)))
      else if op = ''target.close''
      then (case param_str p ''id'' of
              Err e \<Rightarrow> (Some (Err e), mgr)
            | Ok tid \<Rightarrow> (let (r, mgr) = tm_close tid mgr
                         in (Some (map_ok (\<lambda>_. JObject [(''closed'', JString tid)]) r), mgr)))
      else if op = ''target.list''
      then (Some (Ok (JObject [(''targets'', JArray (map info_json (tm_list mgr))),
                               (''active'', json_of_opt JString (tm_active_id mgr))])), mgr)
      else if op = ''target.switch''
      then (case param_str p ''id'' of
              Err e \<Rightarrow> (Some (Err e), mgr)
            | Ok tid \<Rightarrow> (let (r, mgr) = set_active tid mgr
                         in (Some (map_ok (\<lambda>_. JObject [(''active'', JString tid)]) r), mgr)))
      else if op = ''ping''
      then (Some (Ok (JObject [(''pong'', JBool True), (''targets'', json_of_nat (length (tm_list mgr)))])), mgr)
      else if op = ''shutdown'' then (Some (Ok (JObject [(''status'', JString ''shutting_down'')])), mgr)
      else if op = ''int_convert'' then (Some (worker_int_convert p), mgr)
      else dispatch_analysis h ida req mgr)"

definition dispatch_request ::
  "fs_env \<Rightarrow> (target_info \<Rightarrow> json) \<Rightarrow> 'idb handlers \<Rightarrow> 'idb idalib \<Rightarrow> request \<Rightarrow> 'idb target_manager \<Rightarrow>
   response option \<times> 'idb target_manager" where
  "dispatch_request env info_json h ida req mgr =
     (case dispatch_inner env info_json h ida req mgr of
        (None, mgr) \<Rightarrow> (None, mgr)
      | (Some (Ok r), mgr) \<Rightarrow> (Some (response_success (rq_id req) r), mgr)
      | (Some (Err e), mgr) \<Rightarrow> (Some (response_error (rq_id req) e), mgr))"

section \<open>The main loop and its queue\<close>

text \<open>The socket threads submit work through a bounded channel; the main thread takes it out one
  item at a time. \<open>wk_accepted\<close> and \<open>wk_replied\<close> record, for the proofs, which submissions were
  accepted and which were answered, in order.\<close>

datatype work_item = WRequest request nat | WExit

record 'idb worker_sys =
  wk_mgr :: "'idb target_manager"
  wk_queue :: "work_item list"
  wk_running :: bool
  wk_accepted :: "nat list"
  wk_replied :: "(nat \<times> response) list"

definition QUEUE_BOUND :: nat where "QUEUE_BOUND = 64"

definition worker_start :: "string \<Rightarrow> 'idb worker_sys" where
  "worker_start tid = \<lparr>wk_mgr = seed_next_id tid target_manager_new, wk_queue = [], wk_running = True,
                       wk_accepted = [], wk_replied = []\<rparr>"

text \<open>\<open>try_send\<close>: refused when the queue is full or the main loop is gone.\<close>

definition submit_request :: "request \<Rightarrow> nat \<Rightarrow> 'idb worker_sys \<Rightarrow> (unit, response) result \<times> 'idb worker_sys" where
  "submit_request req ticket wk =
     (if \<not> wk_running wk \<or> QUEUE_BOUND \<le> length (wk_queue wk)
      then (Err (response_error (rq_id req) ''Worker busy or shutting down''), wk)
      else (Ok (), wk\<lparr>wk_queue := wk_queue wk @ [WRequest req ticket],
                      wk_accepted := wk_accepted wk @ [ticket]\<rparr>))"

text \<open>\<open>send(WorkItem::Exit)\<close> blocks while the queue is full.\<close>

definition submit_exit :: "'idb worker_sys \<Rightarrow> 'idb worker_sys" where
  "submit_exit wk =
     (if wk_running wk \<and> length (wk_queue wk) < QUEUE_BOUND
      then wk\<lparr>wk_queue := wk_queue wk @ [WExit]\<rparr> else wk)"

definition main_loop_step ::
  "fs_env \<Rightarrow> (target_info \<Rightarrow> json) \<Rightarrow> 'idb handlers \<Rightarrow> 'idb idalib \<Rightarrow> 'idb worker_sys \<Rightarrow> 'idb worker_sys" where
  "main_loop_step env info_json h ida wk =
     (if \<not> wk_running wk then wk
      else case wk_queue wk of
             [] \<Rightarrow> wk
           | WExit # q \<Rightarrow> wk\<lparr>wk_queue := q, wk_running := False\<rparr>
           | WRequest req ticket # q \<Rightarrow>
               (case dispatch_request env info_json h ida req (wk_mgr wk) of
                  (None, mgr) \<Rightarrow> wk\<lparr>wk_queue := q, wk_mgr := mgr, wk_running := False\<rparr>
                | (Some resp, mgr) \<Rightarrow>
                    wk\<lparr>wk_queue := q, wk_mgr := mgr, wk_replied := wk_replied wk @ [(ticket, resp)]\<rparr>))"

end
