(* ===== verification/Dispatch_Props.thy ===== *)
theory Dispatch_Props
  imports Dispatch
begin

text \<open>
  Properties of the worker: it holds at most one database, its queue is bounded and served in
  order, its target carries the identifier the router chose, and what its text and cross-reference
  operations ask of the handlers.
\<close>

section \<open>One database per worker\<close>

abbreviation n_targets :: "'idb target_manager \<Rightarrow> nat" where
  "n_targets mgr \<equiv> length (tm_targets mgr)"

lemma length_hm_insert: "length (hm_insert k v m) \<le> Suc (length m)"
  unfolding hm_insert_def by (induction m) auto

lemma n_targets_load: "n_targets (snd (tm_load env ida path an out mgr)) \<le> Suc (n_targets mgr)"
  by (auto simp: tm_load_def Let_def length_hm_insert split: result.splits)

lemma n_targets_close: "n_targets (snd (tm_close tid mgr)) \<le> n_targets mgr"
  by (simp add: tm_close_def Let_def hm_remove_def length_delete_le)

lemma n_targets_active: "n_targets (snd (set_active tid mgr)) = n_targets mgr"
  by (simp add: set_active_def)

lemma n_targets_analysis: "n_targets (snd (dispatch_analysis h ida req mgr)) = n_targets mgr"
  by (simp add: dispatch_analysis_def set_idb_def split: result.splits option.splits prod.splits)

lemma tm_list_Nil: "tm_list mgr = [] \<longleftrightarrow> n_targets mgr = 0"
  by (simp add: tm_list_def)

lemma n_targets_load_op:
  "n_targets mgr \<le> 1 \<Longrightarrow> rq_op req = ''target.load'' \<Longrightarrow>
     n_targets (snd (dispatch_inner env info_json h ida req mgr)) \<le> 1"
  by (auto simp: dispatch_inner_def tm_list_Nil case_prod_beta Let_def split: result.splits
      intro: order_trans [OF n_targets_load])

lemma n_targets_other_op:
  "rq_op req \<noteq> ''target.load'' \<Longrightarrow>
     n_targets (snd (dispatch_inner env info_json h ida req mgr)) \<le> n_targets mgr"
  by (simp add: dispatch_inner_def case_prod_beta Let_def n_targets_close n_targets_active
      n_targets_analysis split: result.splits)

lemma n_targets_request:
  "n_targets mgr \<le> 1 \<Longrightarrow> n_targets (snd (dispatch_request env info_json h ida req mgr)) \<le> 1"
  using n_targets_load_op [of mgr req env info_json h ida] n_targets_other_op [of req env info_json h ida mgr]
  by (cases "rq_op req = ''target.load''")
    (auto simp: dispatch_request_def split: prod.splits option.splits result.splits)

section \<open>The queue\<close>

datatype 'idb worker_event =
    WkSubmit request nat
  | WkSendExit
  | WkMain fs_env "target_info \<Rightarrow> json" "'idb handlers" "'idb idalib"

fun worker_step :: "'idb worker_event \<Rightarrow> 'idb worker_sys \<Rightarrow> 'idb worker_sys" where
  "worker_step (WkSubmit req ticket) wk = snd (submit_request req ticket wk)"
| "worker_step WkSendExit wk = submit_exit wk"
| "worker_step (WkMain env info_json h ida) wk = main_loop_step env info_json h ida wk"

fun queued_tickets :: "work_item list \<Rightarrow> nat list" where
  "queued_tickets [] = []"
| "queued_tickets (WRequest req ticket # q) = ticket # queued_tickets q"
| "queued_tickets (WExit # q) = queued_tickets q"

lemma queued_tickets_append [simp]: "queued_tickets (q @ q') = queued_tickets q @ queued_tickets q'"
  by (induction q rule: queued_tickets.induct) auto

definition worker_inv :: "'idb worker_sys \<Rightarrow> bool" where
  "worker_inv wk \<longleftrightarrow>
     n_targets (wk_mgr wk) \<le> 1 \<and> length (wk_queue wk) \<le> QUEUE_BOUND \<and>
     prefix (map fst (wk_replied wk)) (wk_accepted wk) \<and>
     (wk_running wk \<longrightarrow> wk_accepted wk = map fst (wk_replied wk) @ queued_tickets (wk_queue wk))"

lemma main_loop_inv:
  assumes "worker_inv wk"
  shows "worker_inv (main_loop_step env info_json h ida wk)"
proof (cases "wk_running wk")
  case True
  show ?thesis
  proof (cases "wk_queue wk")
    case (Cons item q)
    show ?thesis
    proof (cases item)
      case (WRequest req ticket)
      obtain r mgr where d: "dispatch_request env info_json h ida req (wk_mgr wk) = (r, mgr)"
        by (metis surj_pair)
      have "n_targets mgr \<le> 1"
        using n_targets_request [of "wk_mgr wk" env info_json h ida req] assms d by (simp add: worker_inv_def)
      with assms True Cons WRequest d show ?thesis
        by (cases r) (auto simp: worker_inv_def main_loop_step_def)
    next
      case WExit
      with assms True Cons show ?thesis by (simp add: worker_inv_def main_loop_step_def)
    qed
  qed (use assms True in \<open>simp add: main_loop_step_def\<close>)
qed (use assms in \<open>simp add: main_loop_step_def\<close>)

interpretation workers: lifecycle worker_step worker_inv
proof unfold_locales
  fix wk :: "'a worker_sys" and ev
  assume inv: "worker_inv wk"
  show "worker_inv (worker_step ev wk)"
  proof (cases ev)
    case (WkSubmit req ticket)
    with inv show ?thesis
      by (auto simp: submit_request_def worker_inv_def prefix_def)
  next
    case WkSendExit
    with inv show ?thesis by (auto simp: submit_exit_def worker_inv_def)
  next
    case (WkMain env info_json h ida)
    with inv show ?thesis by (simp add: main_loop_inv)
  qed
qed

lemma worker_start_inv: "worker_inv (worker_start tid)"
  by (simp add: worker_inv_def worker_start_def seed_next_id_def target_manager_new_def split: option.splits)

text \<open>Whatever the connections submit and the main thread does, a worker never has two databases
  open, its queue never exceeds 64 items, and requests are answered in the order in which they were
  accepted, each at most once; while the main loop runs none is lost.\<close>

theorem worker_serves_in_order:
  assumes "wk = fold worker_step evs (worker_start tid)"
  shows "length (tm_list (wk_mgr wk)) \<le> 1 \<and> length (wk_queue wk) \<le> 64
    \<and> prefix (map fst (wk_replied wk)) (wk_accepted wk)
    \<and> (wk_running wk \<longrightarrow> wk_accepted wk = map fst (wk_replied wk) @ queued_tickets (wk_queue wk))"
  using workers.run_inv [OF worker_start_inv, of evs tid] assms
  by (simp add: worker_inv_def tm_list_def QUEUE_BOUND_def)

theorem worker_serves_in_order_witness:
  "length (wk_queue (fold worker_step [WkSubmit \<lparr>rq_id = [], rq_op = ''ping'', rq_params = JNull, rq_target = None\<rparr> 0,
     WkSendExit] (worker_start ''t1'' :: unit worker_sys))) \<le> 64"
  using worker_serves_in_order [OF refl] by blast

text \<open>The first database a worker loads is known under the identifier the router gave the worker
  on its command line.\<close>

theorem worker_uses_router_id:
  assumes "tm_load env ida path an out (seed_next_id (target_name n) target_manager_new) = (Ok info, mgr)"
  shows "ti_id info = target_name n \<and> tm_active_id mgr = Some (target_name n)
    \<and> tm_resolve mgr None = Ok (target_name n)"
  using assms
  by (auto simp: tm_load_def seed_next_id_def target_manager_new_def Let_def tm_resolve_def
      selects_active_def hm_insert_def split: result.splits)

theorem worker_uses_router_id_witness:
  "ti_id (case fst (tm_load env0 ida0 ''a.so'' True None (seed_next_id (target_name 3) target_manager_new)) of
            Ok info \<Rightarrow> info) = target_name 3"
proof -
  obtain info mgr where load:
    "tm_load env0 ida0 ''a.so'' True None (seed_next_id (target_name 3) target_manager_new) = (Ok info, mgr)"
    by (simp add: tm_load_def open_idb_def effective_idb_out_def ida0_def Let_def)
  from worker_uses_router_id [OF load] load show ?thesis by simp
qed

section \<open>Panics\<close>

lemma no_panic [simp]:
  "call_functions op p \<noteq> Panics" "call_pseudocode op p \<noteq> Panics" "call_strings op p \<noteq> Panics"
  "call_graph op p \<noteq> Panics" "call_search op p \<noteq> Panics" "call_types op p \<noteq> Panics"
  "call_structs op p \<noteq> Panics"
  by (simp_all add: call_functions_def call_pseudocode_def call_strings_def call_graph_def
      call_search_def call_types_def call_structs_def Let_def)

lemma patch_bytes_no_other [simp]:
  "call_functions ''patch_bytes'' p = NoSuchOp" "call_pseudocode ''patch_bytes'' p = NoSuchOp"
  "call_strings ''patch_bytes'' p = NoSuchOp" "call_graph ''patch_bytes'' p = NoSuchOp"
  "call_search ''patch_bytes'' p = NoSuchOp" "call_types ''patch_bytes'' p = NoSuchOp"
  "call_structs ''patch_bytes'' p = NoSuchOp"
  by (simp_all add: call_functions_def call_pseudocode_def call_strings_def call_graph_def
      call_search_def call_types_def call_structs_def Let_def)

lemma call_edits_panics:
  "call_edits op p = Panics \<longleftrightarrow> op = ''patch_bytes'' \<and> is_ok (opt_addr p ''address'') \<and>
     (\<exists>hex. get_str p ''bytes'' = Some hex \<and> parse_hex_bytes hex = None)"
proof (cases "op = ''patch_bytes''")
  case True
  then show ?thesis
    by (cases "opt_addr p ''address''"; cases "get_str p ''bytes''")
      (auto simp: call_edits_def param_str_def Let_def split: option.splits)
qed (simp add: call_edits_def Let_def)

lemma or_plan_panics: "or_plan a b = Panics \<longleftrightarrow> a = Panics \<or> a = NoSuchOp \<and> b = Panics"
  by (cases a) auto

lemma analysis_call_panics:
  "analysis_call op p = Panics \<longleftrightarrow> op = ''patch_bytes'' \<and> is_ok (opt_addr p ''address'') \<and>
     (\<exists>hex. get_str p ''bytes'' = Some hex \<and> parse_hex_bytes hex = None)"
  by (cases "op = ''patch_bytes''") (simp_all add: analysis_call_def or_plan_panics call_edits_panics)

definition handlers0 :: "unit handlers" where
  "handlers0 = \<lparr>h_call = (\<lambda>_ idb. Some (Ok JNull, idb)),
     h_text = (\<lambda>c idb. Some (case c of T_disasm a n \<Rightarrow> Ok (join [NL] (take (unat n) [''a'', ''b'', ''c''])) | _ \<Rightarrow> Err [], idb)),
     h_resolve_address = (\<lambda>_ _. Some (Err [])), h_analysis_status = (\<lambda>_. JNull)\<rparr>"

definition handlers_return :: "'idb handlers \<Rightarrow> bool" where
  "handlers_return h \<longleftrightarrow> (\<forall>c idb. h_call h c idb \<noteq> None) \<and> (\<forall>c idb. h_text h c idb \<noteq> None) \<and>
     (\<forall>s idb. h_resolve_address h s idb \<noteq> None)"

lemma text_ops_return:
  assumes "handlers_return h"
  shows "dispatch_disasm h p idb \<noteq> None" "dispatch_disasm_function_at h p idb \<noteq> None"
    "dispatch_decompile h p idb \<noteq> None"
proof -
  have ret: "h_text h c idb \<noteq> None" "h_resolve_address h s idb \<noteq> None" for c s
    using assms by (simp_all add: handlers_return_def)
  show "dispatch_disasm h p idb \<noteq> None" "dispatch_disasm_function_at h p idb \<noteq> None"
    unfolding dispatch_disasm_def dispatch_disasm_function_at_def Let_def
    by (simp_all add: ret del: not_None_eq split: option.splits result.splits)
  show "dispatch_decompile h p idb \<noteq> None"
    unfolding dispatch_decompile_def Let_def
    by (simp add: ret del: not_None_eq split: option.splits result.splits)
qed

text \<open>C23: a worker's dispatch itself, its routing of operations and its reading of parameters, stops the
  worker in one case only: when the handlers return, dispatch answers every request, except that a
  patch whose byte string is cut inside a multi-byte character panics, and it does so exactly when the
  request names a loaded target and a readable address.\<close>

theorem dispatch_answers_or_bad_patch_bytes:
  assumes "handlers_return h"
  shows "fst (dispatch_inner env info_json h ida req mgr) = None \<longleftrightarrow>
     rq_op req = ''patch_bytes'' \<and> is_ok (tm_resolve mgr (rq_target req)) \<and>
     is_ok (and_then (tm_resolve mgr (rq_target req)) (get_idb mgr)) \<and>
     is_ok (opt_addr (rq_params req) ''address'') \<and>
     (\<exists>hex. get_str (rq_params req) ''bytes'' = Some hex \<and> parse_hex_bytes hex = None)"
proof -
  have run: "run_op h ida tid op p idb = None \<longleftrightarrow> analysis_call op p = Panics" for tid op p idb
  proof (cases "analysis_call op p")
    case Panics
    then have "op = ''patch_bytes''" by (simp add: analysis_call_panics)
    with Panics show ?thesis by (simp add: run_op_def)
  qed (use assms text_ops_return [OF assms] in \<open>simp_all add: run_op_def handlers_return_def split: result.splits\<close>)
  have known: "analysis_call op p = Panics \<Longrightarrow> known_op op p" for op p by (simp add: known_op_def)
  have ana: "fst (dispatch_analysis h ida req mgr) = None \<longleftrightarrow>
      is_ok (and_then (tm_resolve mgr (rq_target req)) (get_idb mgr)) \<and>
      analysis_call (rq_op req) (rq_params req) = Panics"
    using known [of "rq_op req" "rq_params req"]
    by (cases "tm_resolve mgr (rq_target req)"; cases "analysis_call (rq_op req) (rq_params req) = Panics")
      (simp_all add: dispatch_analysis_def run split: result.splits option.splits prod.splits,
        metis run option.distinct(1))
  have mono: "is_ok (and_then r f) \<Longrightarrow> is_ok r" for r :: "(string, string) result" and f
    by (cases r) simp_all
  show ?thesis
  proof (cases "rq_op req = ''patch_bytes''")
    case True
    then have "dispatch_inner env info_json h ida req mgr = dispatch_analysis h ida req mgr"
      by (simp add: dispatch_inner_def)
    with True ana mono show ?thesis by (auto simp: analysis_call_panics)
  next
    case False
    then have "fst (dispatch_analysis h ida req mgr) \<noteq> None" using ana by (simp add: analysis_call_panics)
    with False show ?thesis
      by (simp add: dispatch_inner_def case_prod_beta Let_def split: result.splits)
  qed
qed

theorem dispatch_answers_or_bad_patch_bytes_witness:
  "fst (dispatch_inner env0 (\<lambda>_. JNull) handlers0 ida0
     \<lparr>rq_id = [], rq_op = ''functions'', rq_params = JNull, rq_target = None\<rparr> target_manager_new) \<noteq> None"
proof -
  have "handlers_return handlers0" by (simp add: handlers_return_def handlers0_def)
  from dispatch_answers_or_bad_patch_bytes [OF this, of env0 "\<lambda>_. JNull" ida0
      "\<lparr>rq_id = [], rq_op = ''functions'', rq_params = JNull, rq_target = None\<rparr>" target_manager_new]
  show ?thesis by simp
qed

section \<open>Line windows and limits\<close>

text \<open>The listing a handler cuts: its first lines, as many as it is asked for.\<close>

definition lists_function :: "'idb handlers \<Rightarrow> 'idb option \<Rightarrow> u64 \<Rightarrow> string list \<Rightarrow> bool" where
  "lists_function h idb a ls \<longleftrightarrow>
     (\<forall>n. h_text h (T_disasm a n) idb = Some (Ok (join [NL] (take (unat n) ls)), idb))"

text \<open>A disassembly request returns exactly the lines of its window, as long as offset and count
  do not overflow together.\<close>

theorem disasm_returns_window:
  assumes "lists_function h idb a ls" and "list_all (\<lambda>l. l \<noteq> [] \<and> clean_line l) ls"
    and "param_addr p ''address'' = Ok a" and "get_str p ''name'' = None"
    and "unat (param_usize p ''offset'' 0) + unat (param_usize p ''count'' 20) \<le> u64_max"
  shows "\<exists>s. dispatch_disasm h p idb = Some (Ok (JObject [(''disasm'', JString s)]), idb) \<and>
    rust_lines s = take (unat (param_usize p ''count'' 20)) (drop (unat (param_usize p ''offset'' 0)) ls)"
proof -
  let ?o = "param_usize p ''offset'' 0" and ?c = "param_usize p ''count'' 20"
  have total: "unat (?c + ?o) = unat ?c + unat ?o"
    using assms(5) unat_add_u64 [of ?c ?o] by (simp only: add.commute)
  define w where "w = take (unat (?c + ?o)) ls"
  have "\<forall>l \<in> set ls. l \<noteq> [] \<and> clean_line l" using assms(2) by (simp add: list_all_iff)
  then have good: "\<forall>l \<in> set w. l \<noteq> [] \<and> clean_line l" using w_def in_set_takeD by metis
  then have clean: "list_all clean_line w" "w = [] \<or> last w \<noteq> []"
    using last_in_set by (auto simp: list_all_iff)
  have "\<forall>l \<in> set (drop (unat ?o) w). l \<noteq> [] \<and> clean_line l" using good in_set_dropD by metis
  then have "list_all clean_line (drop (unat ?o) w)" "drop (unat ?o) w = [] \<or> last (drop (unat ?o) w) \<noteq> []"
    using last_in_set by (simp add: list_all_iff, metis)
  then have "rust_lines (apply_line_offset (join [NL] w) ?o) = drop (unat ?o) w"
    using rust_lines_join [OF clean] by (auto simp: apply_line_offset_def rust_lines_join)
  also have "\<dots> = take (unat ?c) (drop (unat ?o) ls)"
    by (simp add: w_def total drop_take add.commute)
  finally show ?thesis
    using assms(1,3,4) by (simp add: dispatch_disasm_def lists_function_def w_def Let_def)
qed

definition window0 :: json where
  "window0 = JObject [(''address'', JString ''0x0''), (''offset'', json_of_nat 1), (''count'', json_of_nat 1)]"

lemma window0:
  "param_usize window0 ''offset'' 0 = 1" "param_usize window0 ''count'' 20 = 1"
  "get_str window0 ''name'' = None" "param_addr window0 ''address'' = Ok 0"
  by (simp_all add: window0_def param_usize_def get_u64_def json_of_nat_def param_addr_def param_str_def
      get_str_def parse_addr_def trim_plain plain_char_def parse_u64_def parse_uint_def to_digit_def)

theorem disasm_returns_window_witness:
  "\<exists>s. dispatch_disasm handlers0 window0 None = Some (Ok (JObject [(''disasm'', JString s)]), None) \<and>
     rust_lines s = [''b'']"
proof -
  have "lists_function handlers0 None 0 [''a'', ''b'', ''c'']"
    by (simp add: lists_function_def handlers0_def)
  from disasm_returns_window [OF this, of window0] show ?thesis
    by (simp add: window0 clean_line_def)
qed

text \<open>When offset and count overflow together, the handler is asked for too few lines: with the
  largest count and offset 1, for none at all, and the answer is empty.\<close>

theorem disasm_window_overflow:
  assumes "lists_function h idb a ls" and "param_addr p ''address'' = Ok a" and "get_str p ''name'' = None"
    and "param_usize p ''offset'' 0 = 1" and "param_usize p ''count'' 20 = - 1"
  shows "dispatch_disasm h p idb = Some (Ok (JObject [(''disasm'', JString [])]), idb)"
  using assms by (simp add: dispatch_disasm_def lists_function_def Let_def apply_line_offset_def)

theorem disasm_window_overflow_witness:
  "dispatch_disasm handlers0 (JObject [(''address'', JString ''0x0''), (''offset'', json_of_nat 1),
       (''count'', json_of_nat u64_max)]) None = Some (Ok (JObject [(''disasm'', JString [])]), None)"
  by (rule disasm_window_overflow [where a = 0 and ls = "[''a'', ''b'', ''c'']"])
    (simp_all add: lists_function_def handlers0_def param_addr_def param_str_def get_str_def parse_addr_def
      trim_plain plain_char_def parse_u64_def parse_uint_def to_digit_def param_usize_def get_u64_def
      json_of_nat_def)

lemma clamp_usize_nat: "clamp_usize v 1 10000 = word_of_nat (max 1 (min 10000 (unat v)))"
proof -
  consider "unat v < 1" | "1 \<le> unat v" "unat v \<le> 10000" | "10000 < unat v" by linarith
  then show ?thesis
  proof cases
    case 2
    then have "\<not> v < 1" "\<not> 10000 < v" by (simp_all add: word_less_nat_alt)
    with 2 show ?thesis by (simp add: clamp_usize_def max_def min_def)
  next
    case 3
    then have "\<not> v < 1" "10000 < v" by (simp_all add: word_less_nat_alt)
    with 3 show ?thesis by (simp add: clamp_usize_def)
  qed (simp add: clamp_usize_def word_less_nat_alt)
qed

text \<open>Whatever limit a request names, the cross-reference handlers are asked for at least one and
  at most 10000 results.\<close>

theorem xref_limits_bounded:
  "analysis_call ''xrefs_to'' p = Plan (map_ok (\<lambda>a. H_xrefs_to a (param_usize p ''offset'' 0)
      (word_of_nat (max 1 (min 10000 (unat (param_usize p ''limit'' 1000)))))) (param_addr p ''address''))
   \<and> analysis_call ''xrefs_from'' p = Plan (map_ok (\<lambda>a. H_xrefs_from a (param_usize p ''offset'' 0)
      (word_of_nat (max 1 (min 10000 (unat (param_usize p ''limit'' 1000)))))) (param_addr p ''address''))"
  by (simp add: analysis_call_def call_functions_def call_pseudocode_def call_strings_def call_graph_def
      clamp_usize_nat)

end
