(* ===== verification/Errors.thy ===== *)
theory Errors
  imports Params
begin

text \<open>
  Tool errors (\<open>src/src/error.rs\<close>) and how the answers of a child worker are read
  (\<open>src/src/ida/remote.rs\<close>). A child's error reaches the parent as text only: \<open>classify_child_error\<close>
  turns it back into an error value.
\<close>

text \<open>The longest time the server and the pool wait for an answer, in seconds.\<close>

definition MAX_TIMEOUT_SECS :: nat where "MAX_TIMEOUT_SECS = 600"

section \<open>Tool errors\<close>

datatype tool_error =
    NoDatabaseOpen
  | DatabaseAlreadyOpen string
  | OpenFailed string
  | DatabaseLocked string
  | InvalidAddress string
  | InvalidPath string
  | InvalidParams string
  | InvalidToolCategory string
  | InvalidToolName string
  | AddressOutOfRange u64
  | FunctionNotFound u64
  | FunctionNameNotFound string
  | DecompilerUnavailable
  | Timeout nat
  | TimeoutDetailed string
  | Cancelled string
  | Busy
  | DatabaseReplaced
  | BackgroundTaskHandlePrivate
  | BackgroundTaskRegistryFull nat
  | PoolExhausted nat nat
  | WorkerCrashed nat string
  | RemoteProtocol string
  | IdaError string
  | NotSupported string
  | WorkerClosed
  | SdkVersionMismatch string

definition tool_error_message :: "tool_error \<Rightarrow> string" where
  "tool_error_message e =
     (case e of
        NoDatabaseOpen \<Rightarrow> ''No database is currently open. If you had one open previously, the server may have restarted '' @
          [CHR 0xE2, CHR 0x80, CHR 0x94] @ '' call open_idb again.''
      | DatabaseAlreadyOpen s \<Rightarrow> ''A database is already open: '' @ s @ ''. Use close_idb first.''
      | OpenFailed s \<Rightarrow> ''Failed to open database: '' @ s
      | DatabaseLocked s \<Rightarrow> ''Database appears to be open in another instance: '' @ s
      | InvalidAddress s \<Rightarrow> ''Invalid address format: '' @ s
      | InvalidPath s \<Rightarrow> ''Invalid database path: '' @ s
      | InvalidParams s \<Rightarrow> ''Invalid parameters: '' @ s
      | InvalidToolCategory s \<Rightarrow> ''Invalid tool category: '' @ s
      | InvalidToolName s \<Rightarrow> ''Invalid tool name: '' @ s
      | AddressOutOfRange a \<Rightarrow> ''Address '' @ fmt_hex (unat a) @ '' is outside valid range''
      | FunctionNotFound a \<Rightarrow> ''Function not found at address '' @ fmt_hex (unat a)
      | FunctionNameNotFound s \<Rightarrow> ''Function not found: '' @ s
      | DecompilerUnavailable \<Rightarrow> ''Decompiler not available''
      | Timeout n \<Rightarrow> ''Operation timed out after '' @ fmt_dec n @ '' seconds''
      | TimeoutDetailed s \<Rightarrow> s
      | Cancelled s \<Rightarrow> s
      | Busy \<Rightarrow> ''Server is busy (request queue full). Please retry.''
      | DatabaseReplaced \<Rightarrow> ''The database this background operation opened was closed and replaced. Its remaining work was abandoned so it cannot touch the current database.''
      | BackgroundTaskHandlePrivate \<Rightarrow> ''Matching background work is already running; its task handle stays with the response that started it. Retry after it finishes.''
      | BackgroundTaskRegistryFull n \<Rightarrow> ''Background task registry is full ('' @ fmt_dec n @ '' retained tasks). Retry after older results expire.''
      | PoolExhausted active m \<Rightarrow> ''Worker pool exhausted: '' @ fmt_dec active @ ''/'' @ fmt_dec m @ '' workers are leased. Close an IDB or retry later.''
      | WorkerCrashed w s \<Rightarrow> ''Worker '' @ fmt_dec w @ '' crashed or disconnected during '' @ s
      | RemoteProtocol s \<Rightarrow> ''Remote worker protocol error: '' @ s
      | IdaError s \<Rightarrow> ''IDA error: '' @ s
      | NotSupported s \<Rightarrow> ''Not supported: '' @ s
      | WorkerClosed \<Rightarrow> ''Worker channel closed''
      | SdkVersionMismatch s \<Rightarrow> ''SDK version mismatch: '' @ s)"

section \<open>Results of a child's tools\<close>

text \<open>A tool result: its content items, \<open>Some\<close> for text, whether it is an error, and its structured
  content.\<close>

record call_tool_result =
  ct_content :: "string option list"
  ct_is_error :: "bool option"
  ct_structured :: "json option"

definition to_tool_result :: "tool_error \<Rightarrow> call_tool_result" where
  "to_tool_result e =
     \<lparr>ct_content = [Some (tool_error_message e)], ct_is_error = Some True, ct_structured = None\<rparr>"

definition hex_addr :: "u64 \<Rightarrow> json" where
  "hex_addr a = JString (fmt_hex (unat a))"

definition opt_hex_addr :: "u64 option \<Rightarrow> json" where
  "opt_hex_addr a = (case a of Some x \<Rightarrow> hex_addr x | None \<Rightarrow> JNull)"

text \<open>The text of the refused value is a parameter.\<close>

definition json_object :: "(json \<Rightarrow> string) \<Rightarrow> json \<Rightarrow> ((string \<times> json) list, tool_error) result" where
  "json_object debug v =
     (case v of
        JObject kvs \<Rightarrow> Ok kvs
      | other \<Rightarrow> Err (RemoteProtocol (''tool arguments must be a JSON object, got '' @ debug other)))"

definition worker_metadata_keys :: "string list" where
  "worker_metadata_keys =
     [''session_id'', ''close_hint'', ''close_owner_session_id'', ''close_token'',
      ''close_token_reused'', ''close_recovery_hint'']"

definition strip_worker_metadata :: "json \<Rightarrow> json" where
  "strip_worker_metadata v =
     (case v of
        JObject kvs \<Rightarrow> JObject (fold AList.delete worker_metadata_keys kvs)
      | other \<Rightarrow> other)"

definition first_text :: "call_tool_result \<Rightarrow> string option" where
  "first_text r = (case ct_content r of [] \<Rightarrow> None | c # _ \<Rightarrow> c)"

definition result_error_message :: "call_tool_result \<Rightarrow> string \<Rightarrow> string" where
  "result_error_message r tool =
     (case first_text r of Some t \<Rightarrow> t | None \<Rightarrow> ''child tool '' @ tool @ '' returned an error'')"

definition result_text :: "call_tool_result \<Rightarrow> string \<Rightarrow> (string, tool_error) result" where
  "result_text r tool =
     (if ct_is_error r = Some True then Err (IdaError (result_error_message r tool))
      else case first_text r of
             None \<Rightarrow> Err (RemoteProtocol (''child tool '' @ tool @ '' returned no text content''))
           | Some t \<Rightarrow>
               if length (ct_content r) \<noteq> 1
               then Err (RemoteProtocol (''child tool '' @ tool @ '' returned '' @
                      fmt_dec (length (ct_content r)) @ '' content items; expected 1''))
               else Ok t)"

definition classify_child_error :: "string \<Rightarrow> tool_error" where
  "classify_child_error message =
     (let lowered = to_ascii_lowercase message in
      if contains_str lowered ''worker channel closed'' then WorkerClosed
      else if contains_str lowered ''timed out after'' \<or> contains_str lowered ''operation timed out'' \<or>
              contains_str lowered ''exceeded worker operation timeout''
      then TimeoutDetailed message
      else if contains_str lowered ''cancelled'' \<or> contains_str lowered ''canceled''
      then Cancelled message
      else IdaError message)"

definition result_error :: "call_tool_result \<Rightarrow> string \<Rightarrow> tool_error option" where
  "result_error r tool =
     (if ct_is_error r \<noteq> Some True then None
      else Some (classify_child_error (result_error_message r tool)))"

text \<open>\<open>from_json\<close> and \<open>of_text\<close> are the library's typed and untyped readers.\<close>

definition parse_value ::
  "(string \<Rightarrow> (json, string) result) \<Rightarrow> call_tool_result \<Rightarrow> string \<Rightarrow> (json, tool_error) result" where
  "parse_value of_text r tool =
     (case result_error r tool of
        Some e \<Rightarrow> Err e
      | None \<Rightarrow>
          (case ct_structured r of
             Some v \<Rightarrow> Ok (strip_worker_metadata v)
           | None \<Rightarrow>
               and_then (result_text r tool) (\<lambda>t.
                 map_ok strip_worker_metadata
                   (map_err (\<lambda>e. RemoteProtocol (''failed to parse '' @ tool @ '' JSON response: '' @ e))
                      (of_text t)))))"

definition parse_json ::
  "(string \<Rightarrow> (json, string) result) \<Rightarrow> (json \<Rightarrow> ('a, string) result) \<Rightarrow> call_tool_result \<Rightarrow> string \<Rightarrow>
   ('a, tool_error) result" where
  "parse_json of_text from_json r tool =
     (case result_error r tool of
        Some e \<Rightarrow> Err e
      | None \<Rightarrow>
          (case ct_structured r of
             Some v \<Rightarrow>
               map_err (\<lambda>e. RemoteProtocol (''failed to parse '' @ tool @ '' structured response: '' @ e))
                 (from_json (strip_worker_metadata v))
           | None \<Rightarrow>
               and_then (result_text r tool) (\<lambda>t.
               and_then (map_err (\<lambda>e. RemoteProtocol (''failed to parse '' @ tool @ '' JSON response: '' @ e))
                           (of_text t)) (\<lambda>v.
                 map_err (\<lambda>e. RemoteProtocol (''invalid '' @ tool @ '' response: '' @ e))
                   (from_json (strip_worker_metadata v))))))"

section \<open>Which errors retire a worker\<close>

definition release_error_retires_worker :: "tool_error \<Rightarrow> bool" where
  "release_error_retires_worker e =
     (case e of Timeout _ \<Rightarrow> True | TimeoutDetailed _ \<Rightarrow> True | Cancelled _ \<Rightarrow> True
      | WorkerCrashed _ _ \<Rightarrow> True | RemoteProtocol _ \<Rightarrow> True | WorkerClosed \<Rightarrow> True | _ \<Rightarrow> False)"

definition child_tool_error_retires_worker :: "tool_error \<Rightarrow> bool" where
  "child_tool_error_retires_worker e =
     (case e of WorkerClosed \<Rightarrow> True | WorkerCrashed _ _ \<Rightarrow> True | RemoteProtocol _ \<Rightarrow> True | _ \<Rightarrow> False)"

definition open_error_releases_lease :: "bool \<Rightarrow> tool_error \<Rightarrow> bool" where
  "open_error_releases_lease fresh_lease e \<longleftrightarrow>
     fresh_lease \<or>
     (case e of Timeout _ \<Rightarrow> True | TimeoutDetailed _ \<Rightarrow> True | Cancelled _ \<Rightarrow> True
      | WorkerCrashed _ _ \<Rightarrow> True | WorkerClosed \<Rightarrow> True | _ \<Rightarrow> False)"

section \<open>Properties\<close>

lemma delete_keys_map_of: "map_of (fold AList.delete ks kvs) k = (if k \<in> set ks then None else map_of kvs k)"
  by (induction ks arbitrary: kvs) (auto simp: delete_conv)

text \<open>A value read from a child never carries the child's session or close credentials, and every
  other member is kept.\<close>

theorem child_credentials_never_leak:
  "parse_value of_text r tool = Ok v \<Longrightarrow>
     (\<forall>k \<in> set worker_metadata_keys. json_get v k = None) \<and>
     (\<forall>w k. ct_structured r = Some w \<and> k \<notin> set worker_metadata_keys \<longrightarrow> json_get v k = json_get w k)"
proof -
  have strip: "(\<forall>k \<in> set worker_metadata_keys. json_get (strip_worker_metadata w) k = None) \<and>
      (\<forall>k. k \<notin> set worker_metadata_keys \<longrightarrow> json_get (strip_worker_metadata w) k = json_get w k)" for w
    by (cases w) (simp_all add: strip_worker_metadata_def delete_keys_map_of)
  assume "parse_value of_text r tool = Ok v"
  then obtain w where "v = strip_worker_metadata w" "ct_structured r \<noteq> None \<Longrightarrow> ct_structured r = Some w"
    by (auto simp: parse_value_def result_iffs split: option.splits)
  with strip show ?thesis by (cases "ct_structured r") auto
qed

theorem child_credentials_never_leak_witness:
  "json_get (case parse_value (\<lambda>_. Err []) \<lparr>ct_content = [], ct_is_error = None,
     ct_structured = Some (JObject [(''close_token'', JString ''s3cret''), (''path'', JString ''/a'')])\<rparr> ''open_idb'' of
       Ok v \<Rightarrow> v) ''close_token'' = None"
proof -
  let ?r = "\<lparr>ct_content = [], ct_is_error = None,
     ct_structured = Some (JObject [(''close_token'', JString ''s3cret''), (''path'', JString ''/a'')])\<rparr>"
  have "parse_value (\<lambda>_. Err []) ?r ''open_idb'' = Ok (JObject [(''path'', JString ''/a'')])"
    by (simp add: parse_value_def result_error_def strip_worker_metadata_def worker_metadata_keys_def)
  with child_credentials_never_leak [OF this] show ?thesis
    by (simp add: worker_metadata_keys_def)
qed

text \<open>An error a child reports retires its worker exactly when the child's own channel closed:
  timeouts, cancellations and IDA errors of a tool leave the worker in use.\<close>

theorem child_error_retires_only_closed_worker:
  "child_tool_error_retires_worker (classify_child_error m) \<longleftrightarrow>
     contains_str (to_ascii_lowercase m) ''worker channel closed''"
  by (simp add: classify_child_error_def child_tool_error_retires_worker_def Let_def)

end
