(* ===== verification/Pool.thy ===== *)
theory Pool
  imports Errors Lifecycle
begin

text \<open>
  The worker pool of the HTTP server, \<open>src/src/ida/pool.rs\<close>. A slot is a shared object that handles
  keep referring to after the pool has forgotten it, so the slots are a store indexed by worker
  identifier, and \<open>pl_children\<close> is the pool's own list. Times are milliseconds. Each definition up to
  the section on whole operations is the code between taking and releasing one lock; what a worker
  process and the operating system answer are arguments. \<open>pl_reserved\<close>, \<open>pl_closed\<close> and
  \<open>pl_unlocked\<close> record how many identifiers were reserved, which services were closed and which
  lock files were removed. \<open>pl_dying\<close> holds what was taken out of a retired slot (the \<open>DeadWorker\<close> of
  the code) until the operation that took it has closed it, and \<open>pl_dropped\<close> the workers whose
  retirement never finished because its future was dropped.
\<close>

section \<open>State\<close>

datatype child_state = CIdle | CLeased string | CClosing | CDead

record pooled_child =
  pc_service :: bool
  pc_pid :: "nat option"
  pc_state :: child_state
  pc_spawned_at :: nat
  pc_last_used :: nat
  pc_idb_path :: "string option"

record pool_config =
  cf_max_workers :: nat
  cf_min_workers :: nat
  cf_idle_timeout :: nat
  cf_op_timeout :: nat

record pool =
  pl_slots :: "usize \<rightharpoonup> pooled_child"
  pl_children :: "usize list"
  pl_spawning :: "usize set"
  pl_next_id :: usize
  pl_reserved :: nat
  pl_closed :: "usize list"
  pl_unlocked :: "(string \<times> nat option) list"
  pl_dying :: "usize \<rightharpoonup> pooled_child"
  pl_dropped :: "usize set"

definition pool_new :: pool where
  "pool_new = \<lparr>pl_slots = Map.empty, pl_children = [], pl_spawning = {}, pl_next_id = 0,
               pl_reserved = 0, pl_closed = [], pl_unlocked = [], pl_dying = Map.empty, pl_dropped = {}\<rparr>"

definition CHILD_CLOSE_TIMEOUT_SECS :: nat where "CHILD_CLOSE_TIMEOUT_SECS = 5"
definition CHILD_TIMEOUT_GRACE_SECS :: nat where "CHILD_TIMEOUT_GRACE_SECS = 10"

definition slot_state :: "pool \<Rightarrow> usize \<Rightarrow> child_state option" where
  "slot_state pl i = map_option pc_state (pl_slots pl i)"

definition update_slot :: "usize \<Rightarrow> (pooled_child \<Rightarrow> pooled_child) \<Rightarrow> pool \<Rightarrow> pool" where
  "update_slot i f pl = pl\<lparr>pl_slots := (pl_slots pl)(i := map_option f (pl_slots pl i))\<rparr>"

definition is_live :: "pool \<Rightarrow> usize \<Rightarrow> bool" where
  "is_live pl i \<longleftrightarrow> slot_state pl i \<noteq> Some CDead"

definition live_count :: "pool \<Rightarrow> nat" where
  "live_count pl = card (pl_spawning pl) + length (filter (is_live pl) (pl_children pl))"

section \<open>Reservations\<close>

definition reserve_spawn_slot :: "pool \<Rightarrow> usize \<times> pool" where
  "reserve_spawn_slot pl =
     (pl_next_id pl,
      pl\<lparr>pl_next_id := pl_next_id pl + 1, pl_spawning := insert (pl_next_id pl) (pl_spawning pl),
         pl_reserved := Suc (pl_reserved pl)\<rparr>)"

definition finish_spawn_reservation :: "usize \<Rightarrow> pooled_child option \<Rightarrow> pool \<Rightarrow> pool" where
  "finish_spawn_reservation i slot pl =
     (let pl = pl\<lparr>pl_spawning := pl_spawning pl - {i}\<rparr>
      in case slot of
           None \<Rightarrow> pl
         | Some c \<Rightarrow> pl\<lparr>pl_slots := (pl_slots pl)(i \<mapsto> c), pl_children := pl_children pl @ [i]\<rparr>)"

definition spawn_slot ::
  "usize \<Rightarrow> child_state \<Rightarrow> (nat option, string) result \<Rightarrow> (unit, string) result \<Rightarrow> nat \<Rightarrow>
   (pooled_child, tool_error) result" where
  "spawn_slot i initial_state spawned served now =
     and_then (map_err (\<lambda>e. RemoteProtocol (''failed to spawn worker '' @ fmt_dec (unat i) @ '': '' @ e)) spawned) (\<lambda>pid.
     and_then (map_err (\<lambda>e. RemoteProtocol (''failed to initialize worker '' @ fmt_dec (unat i) @ '': '' @ e)) served) (\<lambda>_.
       Ok \<lparr>pc_service = True, pc_pid = pid, pc_state = initial_state, pc_spawned_at = now,
           pc_last_used = now, pc_idb_path = None\<rparr>))"

section \<open>Leasing\<close>

datatype lease_outcome = LeasedIdle usize | Exhausted nat nat | Reserved usize

text \<open>The scan over the children: the first idle one, or how many are active and which are dead.\<close>

fun lease_scan :: "pool \<Rightarrow> usize list \<Rightarrow> nat \<Rightarrow> usize list \<Rightarrow> usize + nat \<times> usize list" where
  "lease_scan pl [] active dead = Inr (active, dead)"
| "lease_scan pl (i # is) active dead =
     (case slot_state pl i of
        Some CDead \<Rightarrow> lease_scan pl is active (dead @ [i])
      | Some CIdle \<Rightarrow> Inl i
      | _ \<Rightarrow> lease_scan pl is (Suc active) dead)"

definition lease_locked :: "pool_config \<Rightarrow> string \<Rightarrow> nat \<Rightarrow> pool \<Rightarrow> lease_outcome \<times> pool" where
  "lease_locked cfg session now pl =
     (case lease_scan pl (pl_children pl) (card (pl_spawning pl)) [] of
        Inl i \<Rightarrow>
          (LeasedIdle i, update_slot i (\<lambda>c. c\<lparr>pc_state := CLeased session, pc_last_used := now\<rparr>) pl)
      | Inr (active, dead) \<Rightarrow>
          (let pl = pl\<lparr>pl_children := filter (\<lambda>i. i \<notin> set dead) (pl_children pl)\<rparr>
           in if cf_max_workers cfg \<le> active then (Exhausted active (cf_max_workers cfg), pl)
              else let (i, pl) = reserve_spawn_slot pl in (Reserved i, pl)))"

section \<open>Retiring\<close>

definition take_dead_worker_locked :: "pooled_child \<Rightarrow> pooled_child" where
  "take_dead_worker_locked c = c\<lparr>pc_state := CDead, pc_idb_path := None, pc_service := False\<rparr>"

text \<open>What \<open>finish_dead_worker\<close> does with the parts that were taken out of the slot.\<close>

definition finish_dead_worker :: "usize \<Rightarrow> pooled_child \<Rightarrow> pool \<Rightarrow> pool" where
  "finish_dead_worker i c pl =
     pl\<lparr>pl_closed := (if pc_service c then pl_closed pl @ [i] else pl_closed pl),
        pl_unlocked := (case pc_idb_path c of
                          Some p \<Rightarrow> pl_unlocked pl @ [(p, pc_pid c)]
                        | None \<Rightarrow> pl_unlocked pl),
        pl_dying := (pl_dying pl)(i := None)\<rparr>"

text \<open>A retired worker leaves its slot, and what was taken is in the hands of the caller.\<close>

definition retire_slot :: "usize \<Rightarrow> pooled_child \<Rightarrow> pool \<Rightarrow> pool" where
  "retire_slot i c pl = (update_slot i take_dead_worker_locked pl)\<lparr>pl_dying := (pl_dying pl)(i \<mapsto> c)\<rparr>"

definition take_dead_worker :: "usize \<Rightarrow> pool \<Rightarrow> pooled_child option \<times> pool" where
  "take_dead_worker i pl =
     (case pl_slots pl i of
        None \<Rightarrow> (None, pl)
      | Some c \<Rightarrow>
          if pc_state c = CDead then (None, pl)
          else (Some c, retire_slot i c pl))"

definition forget_slot :: "usize \<Rightarrow> pool \<Rightarrow> pool" where
  "forget_slot i pl = pl\<lparr>pl_children := filter (\<lambda>j. j \<noteq> i) (pl_children pl)\<rparr>"

definition take_stale_idle_worker_if_above_min ::
  "pool_config \<Rightarrow> usize \<Rightarrow> nat \<Rightarrow> pool \<Rightarrow> pooled_child option \<times> pool" where
  "take_stale_idle_worker_if_above_min cfg i sleep_started pl =
     (if live_count pl \<le> cf_min_workers cfg then (None, pl)
      else case pl_slots pl i of
             None \<Rightarrow> (None, pl)
           | Some c \<Rightarrow>
               if pc_state c \<noteq> CIdle \<or> sleep_started < pc_last_used c then (None, pl)
               else (Some c, retire_slot i c pl))"

text \<open>The locked part of \<open>ensure_min_workers\<close>'s loop.\<close>

definition ensure_min_reserve :: "pool_config \<Rightarrow> pool \<Rightarrow> usize option \<times> pool" where
  "ensure_min_reserve cfg pl =
     (let min_workers = min (cf_min_workers cfg) (cf_max_workers cfg);
          live_or_reserved = card (pl_spawning pl) + length (pl_children pl)
      in if min_workers = 0 \<or> min_workers \<le> live_or_reserved \<or> cf_max_workers cfg \<le> live_or_reserved
         then (None, pl)
         else let (i, pl) = reserve_spawn_slot pl in (Some i, pl))"

section \<open>Releasing\<close>

definition release_begin :: "usize \<Rightarrow> pool \<Rightarrow> bool \<times> pool" where
  "release_begin i pl =
     (if slot_state pl i = Some CDead then (False, pl)
      else (True, update_slot i (\<lambda>c. c\<lparr>pc_state := CClosing\<rparr>) pl))"

datatype close_outcome = CloseResult call_tool_result | CloseFailed tool_error | CloseTimedOut

definition close_error :: "close_outcome \<Rightarrow> tool_error option" where
  "close_error oc =
     (case oc of
        CloseResult r \<Rightarrow> if ct_is_error r \<noteq> Some True then None else result_error r ''close_idb''
      | CloseFailed e \<Rightarrow> Some e
      | CloseTimedOut \<Rightarrow> Some (Timeout CHILD_CLOSE_TIMEOUT_SECS))"

definition release_resets :: "close_outcome \<Rightarrow> bool" where
  "release_resets oc \<longleftrightarrow> (case close_error oc of Some e \<Rightarrow> \<not> release_error_retires_worker e | None \<Rightarrow> True)"

definition release_end :: "usize \<Rightarrow> close_outcome \<Rightarrow> nat \<Rightarrow> pool \<Rightarrow> (unit, tool_error) result \<times> pool" where
  "release_end i oc now pl =
     (if slot_state pl i = Some CDead
      then (case close_error oc of Some e \<Rightarrow> Err e | None \<Rightarrow> Ok (), pl)
      else (Ok (), update_slot i (\<lambda>c. c\<lparr>pc_state := CIdle, pc_last_used := now, pc_idb_path := None\<rparr>) pl))"

section \<open>Whole operations\<close>

text \<open>\<open>spawns\<close> are the outcomes of the next attempts to start a worker; \<open>ensure_min_workers\<close> stops
  at the first failure. Each round adds a child, so \<open>cf_min_workers\<close> rounds are enough.\<close>

type_synonym spawn_outcome = "((nat option, string) result \<times> (unit, string) result) \<times> nat"

definition spawn_reserved_slot ::
  "usize \<Rightarrow> child_state \<Rightarrow> spawn_outcome \<Rightarrow> pool \<Rightarrow> (usize, tool_error) result \<times> pool" where
  "spawn_reserved_slot i initial_state out pl =
     (case spawn_slot i initial_state (fst (fst out)) (snd (fst out)) (snd out) of
        Ok c \<Rightarrow> (Ok i, finish_spawn_reservation i (Some c) pl)
      | Err e \<Rightarrow> (Err e, finish_spawn_reservation i None pl))"

fun ensure_min_workers :: "nat \<Rightarrow> pool_config \<Rightarrow> (usize \<Rightarrow> spawn_outcome) \<Rightarrow> pool \<Rightarrow> pool" where
  "ensure_min_workers 0 cfg spawns pl = pl"
| "ensure_min_workers (Suc n) cfg spawns pl =
     (case ensure_min_reserve cfg pl of
        (None, pl) \<Rightarrow> pl
      | (Some i, pl) \<Rightarrow>
          (case spawn_reserved_slot i CIdle (spawns i) pl of
             (Err _, pl) \<Rightarrow> pl
           | (Ok _, pl) \<Rightarrow> ensure_min_workers n cfg spawns pl))"

definition mark_dead_inner :: "pool_config \<Rightarrow> (usize \<Rightarrow> spawn_outcome) \<Rightarrow> usize \<Rightarrow> bool \<Rightarrow> pool \<Rightarrow> pool" where
  "mark_dead_inner cfg spawns i replenish pl =
     (let (dead, pl) = take_dead_worker i pl;
          pl = forget_slot i pl;
          pl = (case dead of Some c \<Rightarrow> finish_dead_worker i c pl | None \<Rightarrow> pl)
      in if replenish then ensure_min_workers (cf_min_workers cfg) cfg spawns pl else pl)"

definition mark_stale_idle_dead :: "pool_config \<Rightarrow> usize \<Rightarrow> nat \<Rightarrow> pool \<Rightarrow> pool" where
  "mark_stale_idle_dead cfg i sleep_started pl =
     (case take_stale_idle_worker_if_above_min cfg i sleep_started pl of
        (None, pl) \<Rightarrow> pl
      | (Some c, pl) \<Rightarrow> finish_dead_worker i c (forget_slot i pl))"

definition pool_lease ::
  "pool_config \<Rightarrow> string \<Rightarrow> nat \<Rightarrow> (usize \<Rightarrow> spawn_outcome) \<Rightarrow> pool \<Rightarrow> (usize, tool_error) result \<times> pool" where
  "pool_lease cfg session now spawns pl =
     (case lease_locked cfg session now pl of
        (LeasedIdle i, pl) \<Rightarrow> (Ok i, pl)
      | (Exhausted active m, pl) \<Rightarrow> (Err (PoolExhausted active m), pl)
      | (Reserved i, pl) \<Rightarrow> spawn_reserved_slot i (CLeased session) (spawns i) pl)"

fun warm_min :: "nat \<Rightarrow> (usize \<Rightarrow> spawn_outcome) \<Rightarrow> pool \<Rightarrow> (unit, tool_error) result \<times> pool" where
  "warm_min 0 spawns pl = (Ok (), pl)"
| "warm_min (Suc n) spawns pl =
     (let (i, pl) = reserve_spawn_slot pl
      in case spawn_reserved_slot i CIdle (spawns i) pl of
           (Err e, pl) \<Rightarrow> (Err e, pl)
         | (Ok _, pl) \<Rightarrow> warm_min n spawns pl)"

definition pool_start :: "pool_config \<Rightarrow> (usize \<Rightarrow> spawn_outcome) \<Rightarrow> (unit, tool_error) result \<times> pool" where
  "pool_start cfg spawns = warm_min (min (cf_min_workers cfg) (cf_max_workers cfg)) spawns pool_new"

definition pool_release ::
  "pool_config \<Rightarrow> (usize \<Rightarrow> spawn_outcome) \<Rightarrow> usize \<Rightarrow> close_outcome \<Rightarrow> nat \<Rightarrow> pool \<Rightarrow>
   (unit, tool_error) result \<times> pool" where
  "pool_release cfg spawns i oc now pl =
     (case release_begin i pl of
        (False, pl) \<Rightarrow> (Ok (), pl)
      | (True, pl) \<Rightarrow>
          if release_resets oc then release_end i oc now pl
          else (Err (the (close_error oc)), mark_dead_inner cfg spawns i True pl))"

definition shutdown_all :: "pool_config \<Rightarrow> pool \<Rightarrow> pool" where
  "shutdown_all cfg pl =
     fold (\<lambda>i. mark_dead_inner cfg (\<lambda>_. ((Err [], Err []), 0)) i False) (pl_children pl) pl"

definition worker_op_timeout :: "pool_config \<Rightarrow> nat option \<Rightarrow> nat" where
  "worker_op_timeout cfg requested =
     (case requested of
        Some secs \<Rightarrow> min ((min secs MAX_TIMEOUT_SECS + CHILD_TIMEOUT_GRACE_SECS) * 1000) (cf_op_timeout cfg)
      | None \<Rightarrow> cf_op_timeout cfg)"

section \<open>Calls\<close>

text \<open>A handle names a slot and the session that leased it.\<close>

record worker_handle =
  wh_slot :: usize
  wh_session :: string

fun fmt_child_state :: "child_state \<Rightarrow> string" where
  "fmt_child_state CIdle = ''Idle''"
| "fmt_child_state (CLeased s) = ''Leased { session_id: '' @ [CHR 0x22] @ s @ [CHR 0x22] @ '' }''"
| "fmt_child_state CClosing = ''Closing''"
| "fmt_child_state CDead = ''Dead''"

definition call_admission :: "worker_handle \<Rightarrow> string \<Rightarrow> pool \<Rightarrow> (unit, tool_error) result" where
  "call_admission h tool pl =
     (case slot_state pl (wh_slot h) of
        Some (CLeased s) \<Rightarrow>
          if s = wh_session h then Ok ()
          else Err (RemoteProtocol (''worker '' @ fmt_dec (unat (wh_slot h)) @ '' is not leased to session '' @
                 wh_session h @ '' (state: '' @ fmt_child_state (CLeased s) @ '')''))
      | Some CDead \<Rightarrow> Err (WorkerCrashed (unat (wh_slot h)) tool)
      | Some other \<Rightarrow>
          Err (RemoteProtocol (''worker '' @ fmt_dec (unat (wh_slot h)) @ '' is not leased to session '' @
                 wh_session h @ '' (state: '' @ fmt_child_state other @ '')''))
      | None \<Rightarrow> Err (WorkerCrashed (unat (wh_slot h)) tool))"

datatype call_outcome = CallReturned call_tool_result | CallFailed tool_error | CallTimedOut | CallCancelled

definition call_tool ::
  "pool_config \<Rightarrow> (usize \<Rightarrow> spawn_outcome) \<Rightarrow> worker_handle \<Rightarrow> string \<Rightarrow> nat \<Rightarrow> call_outcome \<Rightarrow> pool \<Rightarrow>
   (call_tool_result, tool_error) result \<times> pool" where
  "call_tool cfg spawns h tool timeout oc pl =
     (case call_admission h tool pl of
        Err e \<Rightarrow> (Err e, pl)
      | Ok _ \<Rightarrow>
          (case oc of
             CallReturned r \<Rightarrow> (Ok r, pl)
           | CallFailed e \<Rightarrow>
               (Err (WorkerCrashed (unat (wh_slot h)) (tool @ '': '' @ tool_error_message e)),
                mark_dead_inner cfg spawns (wh_slot h) True pl)
           | CallTimedOut \<Rightarrow>
               (Err (TimeoutDetailed (tool @ '' exceeded worker operation timeout of '' @
                  fmt_dec (timeout div 1000) @ '' seconds; killed worker '' @ fmt_dec (unat (wh_slot h)))),
                mark_dead_inner cfg spawns (wh_slot h) True pl)
           | CallCancelled \<Rightarrow>
               (Err (Cancelled (''cancelled '' @ tool @ ''; killed worker '' @ fmt_dec (unat (wh_slot h)))),
                mark_dead_inner cfg spawns (wh_slot h) True pl)))"

end
