(* ===== verification/Pool_Session.thy ===== *)
theory Pool_Session
  imports Pool
begin

text \<open>
  One HTTP session's use of the pool (\<open>PooledSessionState\<close> in \<open>src/src/ida/pool.rs\<close>): at most one
  leased worker, and a generation number for each database the session opens, so that background
  work can be bound to the database it started with. The generation counter is a 64-bit word whose
  exhaustion is an error.
\<close>

type_synonym generation = u64

record pooled_session =
  ps_id :: string
  ps_lease :: "(worker_handle \<times> generation) option"
  ps_next_generation :: u64

definition pooled_session_new :: "string \<Rightarrow> pooled_session" where
  "pooled_session_new s = \<lparr>ps_id = s, ps_lease = None, ps_next_generation = 0\<rparr>"

definition generation_exhausted :: tool_error where
  "generation_exhausted = IdaError ''database generation counter exhausted''"

definition checked_add_u64 :: "u64 \<Rightarrow> u64 \<Rightarrow> u64 option" where
  "checked_add_u64 a b = (if unat a + unat b \<le> u64_max then Some (a + b) else None)"

definition next_database_generation ::
  "pooled_session \<Rightarrow> (generation, tool_error) result \<times> pooled_session" where
  "next_database_generation ss =
     (case checked_add_u64 (ps_next_generation ss) 1 of
        None \<Rightarrow> (Err generation_exhausted, ss)
      | Some n \<Rightarrow>
          (ok_or (checked_add_u64 (ps_next_generation ss) 1) generation_exhausted,
           ss\<lparr>ps_next_generation := n\<rparr>))"

definition lease_for_open ::
  "pool_config \<Rightarrow> nat \<Rightarrow> (usize \<Rightarrow> spawn_outcome) \<Rightarrow> pooled_session \<Rightarrow> pool \<Rightarrow>
   (worker_handle \<times> generation \<times> bool, tool_error) result \<times> pooled_session \<times> pool" where
  "lease_for_open cfg now spawns ss pl =
     (case ps_lease ss of
        Some (h, g) \<Rightarrow> (Ok (h, g, False), ss, pl)
      | None \<Rightarrow>
          (case next_database_generation ss of
             (Err e, ss) \<Rightarrow> (Err e, ss, pl)
           | (Ok g, ss) \<Rightarrow>
               (case pool_lease cfg (ps_id ss) now spawns pl of
                  (Err e, pl) \<Rightarrow> (Err e, ss, pl)
                | (Ok i, pl) \<Rightarrow>
                    (let h = \<lparr>wh_slot = i, wh_session = ps_id ss\<rparr>
                     in (Ok (h, g, True), ss\<lparr>ps_lease := Some (h, g)\<rparr>, pl)))))"

definition require_lease_generation :: "generation \<Rightarrow> generation option \<Rightarrow> (unit, tool_error) result" where
  "require_lease_generation current expected =
     (case expected of
        None \<Rightarrow> Ok ()
      | Some g \<Rightarrow> if current = g then Ok () else Err DatabaseReplaced)"

definition required_handle_for_generation ::
  "pooled_session \<Rightarrow> generation option \<Rightarrow> (worker_handle, tool_error) result" where
  "required_handle_for_generation ss expected =
     and_then (ok_or (ps_lease ss) NoDatabaseOpen) (\<lambda>(h, g).
       map_ok (\<lambda>_. h) (require_lease_generation g expected))"

definition clear_handle_if_worker :: "usize \<Rightarrow> pooled_session \<Rightarrow> pooled_session" where
  "clear_handle_if_worker i ss =
     (case ps_lease ss of
        Some (h, g) \<Rightarrow> if wh_slot h = i then ss\<lparr>ps_lease := None\<rparr> else ss
      | None \<Rightarrow> ss)"

text \<open>The part of a call after the handle was obtained.\<close>

definition finish_call ::
  "pool_config \<Rightarrow> (usize \<Rightarrow> spawn_outcome) \<Rightarrow> worker_handle \<Rightarrow> string \<Rightarrow> nat option \<Rightarrow> call_outcome \<Rightarrow>
   pooled_session \<Rightarrow> pool \<Rightarrow> (call_tool_result, tool_error) result \<times> pooled_session \<times> pool" where
  "finish_call cfg spawns h tool timeout_secs oc ss pl =
     (case call_tool cfg spawns h tool (worker_op_timeout cfg timeout_secs) oc pl of
        (Ok r, pl) \<Rightarrow>
          (case result_error r tool of
             Some e \<Rightarrow>
               if child_tool_error_retires_worker e
               then (Err e, clear_handle_if_worker (wh_slot h) ss, mark_dead_inner cfg spawns (wh_slot h) True pl)
               else (Err e, ss, pl)
           | None \<Rightarrow> (Ok r, ss, pl))
      | (Err e, pl) \<Rightarrow> (Err e, clear_handle_if_worker (wh_slot h) ss, pl))"

definition call_result_for_generation ::
  "pool_config \<Rightarrow> (usize \<Rightarrow> spawn_outcome) \<Rightarrow> string \<Rightarrow> nat option \<Rightarrow> call_outcome \<Rightarrow> generation option \<Rightarrow>
   pooled_session \<Rightarrow> pool \<Rightarrow> (call_tool_result, tool_error) result \<times> pooled_session \<times> pool" where
  "call_result_for_generation cfg spawns tool timeout_secs oc expected ss pl =
     (case required_handle_for_generation ss expected of
        Err e \<Rightarrow> (Err e, ss, pl)
      | Ok h \<Rightarrow> finish_call cfg spawns h tool timeout_secs oc ss pl)"

definition call_value_for_generation where
  "call_value_for_generation of_text cfg spawns tool timeout_secs oc expected ss pl =
     apfst (\<lambda>r. and_then r (\<lambda>x. parse_value of_text x tool))
       (call_result_for_generation cfg spawns tool timeout_secs oc expected ss pl)"

definition call_json_for_generation where
  "call_json_for_generation of_text from_json cfg spawns tool timeout_secs oc expected ss pl =
     apfst (\<lambda>r. and_then r (\<lambda>x. parse_json of_text from_json x tool))
       (call_result_for_generation cfg spawns tool timeout_secs oc expected ss pl)"

definition field_of :: "(json \<Rightarrow> ('a, string) result) \<Rightarrow> string \<Rightarrow> string \<Rightarrow> json \<Rightarrow> ('a, tool_error) result" where
  "field_of from_json tool field value =
     (case json_get value field of
        None \<Rightarrow> Err (RemoteProtocol (''child tool '' @ tool @ '' response did not contain `'' @ field @ ''`''))
      | Some v \<Rightarrow> map_err (\<lambda>e. RemoteProtocol (''invalid '' @ tool @ ''.'' @ field @ '' response: '' @ e)) (from_json v))"

definition call_json_field_for_generation where
  "call_json_field_for_generation of_text from_json cfg spawns tool field timeout_secs oc expected ss pl =
     apfst (\<lambda>r. and_then r (field_of from_json tool field))
       (call_value_for_generation of_text cfg spawns tool timeout_secs oc expected ss pl)"

definition call_text where
  "call_text cfg spawns tool timeout_secs oc ss pl =
     apfst (\<lambda>r. and_then r (\<lambda>x. result_text x tool))
       (call_result_for_generation cfg spawns tool timeout_secs oc None ss pl)"

definition release_current_handle ::
  "pool_config \<Rightarrow> (usize \<Rightarrow> spawn_outcome) \<Rightarrow> close_outcome \<Rightarrow> nat \<Rightarrow> pooled_session \<Rightarrow> pool \<Rightarrow> pooled_session \<times> pool" where
  "release_current_handle cfg spawns oc now ss pl =
     (case ps_lease ss of
        None \<Rightarrow> (ss, pl)
      | Some (h, g) \<Rightarrow> (ss\<lparr>ps_lease := None\<rparr>, snd (pool_release cfg spawns (wh_slot h) oc now pl)))"

text \<open>\<open>path_of\<close> is the typed reader of the child's answer, reduced to the path it reports.\<close>

definition open_observed_with_generation ::
  "pool_config \<Rightarrow> nat \<Rightarrow> (usize \<Rightarrow> spawn_outcome) \<Rightarrow> (call_tool_result \<Rightarrow> (string, tool_error) result) \<Rightarrow>
   nat option \<Rightarrow> call_outcome \<Rightarrow> close_outcome \<Rightarrow> pooled_session \<Rightarrow> pool \<Rightarrow>
   (string \<times> generation, tool_error) result \<times> pooled_session \<times> pool" where
  "open_observed_with_generation cfg now spawns path_of timeout_secs oc close ss pl =
     (case lease_for_open cfg now spawns ss pl of
        (Err e, ss, pl) \<Rightarrow> (Err e, ss, pl)
      | (Ok (h, g, fresh_lease), ss, pl) \<Rightarrow>
          (let (r, pl) = call_tool cfg spawns h ''open_idb'' (worker_op_timeout cfg timeout_secs) oc pl
           in case and_then r path_of of
                Ok path \<Rightarrow> (Ok (path, g), ss, update_slot (wh_slot h) (\<lambda>c. c\<lparr>pc_idb_path := Some path\<rparr>) pl)
              | Err e \<Rightarrow>
                  if open_error_releases_lease fresh_lease e
                  then (case release_current_handle cfg spawns close now ss pl of (ss, pl) \<Rightarrow> (Err e, ss, pl))
                  else (Err e, ss, pl)))"

definition session_close ::
  "pool_config \<Rightarrow> (usize \<Rightarrow> spawn_outcome) \<Rightarrow> close_outcome \<Rightarrow> nat \<Rightarrow> pooled_session \<Rightarrow> pool \<Rightarrow>
   (unit, tool_error) result \<times> pooled_session \<times> pool" where
  "session_close cfg spawns oc now ss pl =
     (case ps_lease ss of
        None \<Rightarrow> (Err NoDatabaseOpen, ss, pl)
      | Some (h, g) \<Rightarrow>
          (case pool_release cfg spawns (wh_slot h) oc now pl of
             (r, pl) \<Rightarrow> (r, ss\<lparr>ps_lease := None\<rparr>, pl)))"

datatype conditional_close = NotCurrent | Closed

definition close_if_generation ::
  "pool_config \<Rightarrow> (usize \<Rightarrow> spawn_outcome) \<Rightarrow> close_outcome \<Rightarrow> nat \<Rightarrow> generation \<Rightarrow> pooled_session \<Rightarrow> pool \<Rightarrow>
   (conditional_close, tool_error) result \<times> pooled_session \<times> pool" where
  "close_if_generation cfg spawns oc now g ss pl =
     (case ps_lease ss of
        None \<Rightarrow> (Ok NotCurrent, ss, pl)
      | Some (h, current) \<Rightarrow>
          if current \<noteq> g then (Ok NotCurrent, ss, pl)
          else (case pool_release cfg spawns (wh_slot h) oc now pl of
                  (r, pl) \<Rightarrow> (map_ok (\<lambda>_. Closed) r, ss\<lparr>ps_lease := None\<rparr>, pl)))"

end
