(* ===== verification/Pool_Props.thy ===== *)
theory Pool_Props
  imports Pool_Session
begin

text \<open>
  Properties of the worker pool. The pool's methods run concurrently and release their locks while
  they wait for worker processes, so the pool is given as a sequence of events, each the code
  between two lock releases. A worker that was dropped, timed out or cancelled in the middle of a
  call is a \<open>PTakeDead\<close> event at any point. Retiring a worker takes several events: it is taken out of
  its slot (\<open>PTakeDead\<close>, \<open>PReap\<close>), the pool forgets it (\<open>PForget\<close>) and, after an await, it is closed
  and its lock file removed (\<open>PFinish\<close>), unless the future that does so is dropped (\<open>PDropped\<close>).
\<close>

section \<open>Events\<close>

datatype pool_event =
    PWarm
  | PLease string nat
  | PSpawned usize pooled_child
  | PSpawnFailed usize
  | PReleaseBegin usize
  | PReleaseEnd usize close_outcome nat
  | PTakeDead usize
  | PForget usize
  | PEnsureMin
  | PReap usize nat
  | PFinish usize
  | PDropped usize
  | POpened usize string

fun pool_step :: "pool_config \<Rightarrow> pool_event \<Rightarrow> pool \<Rightarrow> pool" where
  "pool_step cfg PWarm pl =
     (if pl_reserved pl < min (cf_min_workers cfg) (cf_max_workers cfg) then snd (reserve_spawn_slot pl) else pl)"
| "pool_step cfg (PLease s now) pl = snd (lease_locked cfg s now pl)"
| "pool_step cfg (PSpawned i c) pl =
     (if i \<in> pl_spawning pl \<and> pc_service c \<and> pc_state c \<noteq> CDead
      then finish_spawn_reservation i (Some c) pl else pl)"
| "pool_step cfg (PSpawnFailed i) pl = finish_spawn_reservation i None pl"
| "pool_step cfg (PReleaseBegin i) pl = snd (release_begin i pl)"
| "pool_step cfg (PReleaseEnd i oc now) pl =
     snd (release_end i oc now pl)"
| "pool_step cfg (PTakeDead i) pl = snd (take_dead_worker i pl)"
| "pool_step cfg (PForget i) pl =
     (if pl_slots pl i = None \<or> slot_state pl i = Some CDead then forget_slot i pl else pl)"
| "pool_step cfg PEnsureMin pl = snd (ensure_min_reserve cfg pl)"
| "pool_step cfg (PReap i t) pl = snd (take_stale_idle_worker_if_above_min cfg i t pl)"
| "pool_step cfg (PFinish i) pl = (case pl_dying pl i of Some c \<Rightarrow> finish_dead_worker i c pl | None \<Rightarrow> pl)"
| "pool_step cfg (PDropped i) pl =
     (if pl_dying pl i = None then pl
      else pl\<lparr>pl_dying := (pl_dying pl)(i := None), pl_dropped := insert i (pl_dropped pl)\<rparr>)"
| "pool_step cfg (POpened i path) pl = update_slot i (\<lambda>c. c\<lparr>pc_idb_path := Some path\<rparr>) pl"

section \<open>Invariant\<close>

text \<open>What became of the workers that left their slot.\<close>

definition retired :: "pool \<Rightarrow> usize set" where
  "retired pl = dom (pl_dying pl) \<union> set (pl_closed pl) \<union> pl_dropped pl"

definition fates_disjoint :: "pool \<Rightarrow> bool" where
  "fates_disjoint pl \<longleftrightarrow> dom (pl_dying pl) \<inter> set (pl_closed pl) = {} \<and>
     dom (pl_dying pl) \<inter> pl_dropped pl = {} \<and> set (pl_closed pl) \<inter> pl_dropped pl = {}"

lemma retired_cong:
  assumes "pl_dying pl' = pl_dying pl" "pl_closed pl' = pl_closed pl" "pl_dropped pl' = pl_dropped pl"
  shows "retired pl' = retired pl" "fates_disjoint pl' = fates_disjoint pl"
  using assms by (simp_all add: retired_def fates_disjoint_def)

lemma update_slot_fates [simp]:
  "pl_dying (update_slot i f pl) = pl_dying pl" "pl_closed (update_slot i f pl) = pl_closed pl"
  "pl_dropped (update_slot i f pl) = pl_dropped pl" "retired (update_slot i f pl) = retired pl"
  "fates_disjoint (update_slot i f pl) = fates_disjoint pl"
  by (simp_all add: update_slot_def retired_def fates_disjoint_def)

lemma other_fields_fates [simp]:
  "retired (pl\<lparr>pl_children := cs\<rparr>) = retired pl" "fates_disjoint (pl\<lparr>pl_children := cs\<rparr>) = fates_disjoint pl"
  "retired (pl\<lparr>pl_slots := ss\<rparr>) = retired pl" "fates_disjoint (pl\<lparr>pl_slots := ss\<rparr>) = fates_disjoint pl"
  "retired (pl\<lparr>pl_spawning := sp\<rparr>) = retired pl" "fates_disjoint (pl\<lparr>pl_spawning := sp\<rparr>) = fates_disjoint pl"
  "retired (pl\<lparr>pl_next_id := n\<rparr>) = retired pl" "fates_disjoint (pl\<lparr>pl_next_id := n\<rparr>) = fates_disjoint pl"
  "retired (pl\<lparr>pl_reserved := k\<rparr>) = retired pl" "fates_disjoint (pl\<lparr>pl_reserved := k\<rparr>) = fates_disjoint pl"
  by (simp_all add: retired_def fates_disjoint_def)

definition pool_ok :: "pool_config \<Rightarrow> pool \<Rightarrow> bool" where
  "pool_ok cfg pl \<longleftrightarrow>
     finite (pl_spawning pl) \<and> distinct (pl_children pl) \<and>
     set (pl_children pl) \<subseteq> dom (pl_slots pl) \<and> pl_spawning pl \<inter> dom (pl_slots pl) = {} \<and>
     (\<forall>i \<in> pl_spawning pl \<union> dom (pl_slots pl). unat i < pl_reserved pl) \<and>
     live_count pl \<le> cf_max_workers cfg \<and> live_count pl \<le> pl_reserved pl \<and>
     (\<forall>i c. pl_slots pl i = Some c \<longrightarrow>
        (pc_service c \<longleftrightarrow> pc_state c \<noteq> CDead) \<and>
        (pc_state c \<noteq> CDead \<longrightarrow> i \<in> set (pl_children pl)) \<and>
        (i \<in> retired pl \<longleftrightarrow> pc_state c = CDead)) \<and>
     distinct (pl_closed pl) \<and> retired pl \<subseteq> dom (pl_slots pl) \<and> fates_disjoint pl \<and>
     (\<forall>i c. pl_dying pl i = Some c \<longrightarrow> pc_service c)"

text \<open>The identifier counter wraps after \<open>2 ^ 64\<close> reservations.\<close>

definition pool_inv :: "pool_config \<Rightarrow> pool \<Rightarrow> bool" where
  "pool_inv cfg pl \<longleftrightarrow>
     (pl_reserved pl \<le> u64_max \<longrightarrow> unat (pl_next_id pl) = pl_reserved pl \<and> pool_ok cfg pl)"

lemma live_count_cong:
  assumes "pl_spawning pl' = pl_spawning pl" "pl_children pl' = pl_children pl"
    "\<And>i. i \<in> set (pl_children pl) \<Longrightarrow> slot_state pl' i = Some CDead \<longleftrightarrow> slot_state pl i = Some CDead"
  shows "live_count pl' = live_count pl"
proof -
  have "filter (is_live pl') (pl_children pl') = filter (is_live pl) (pl_children pl)"
    using assms(2,3) by (auto simp: is_live_def intro!: filter_cong)
  with assms(1) show ?thesis by (simp add: live_count_def)
qed

lemma length_filter_mono: "(\<And>x. x \<in> set xs \<Longrightarrow> P x \<Longrightarrow> Q x) \<Longrightarrow> length (filter P xs) \<le> length (filter Q xs)"
  by (induction xs) (auto simp: le_Suc_eq)

lemma live_count_mono:
  assumes "pl_spawning pl' = pl_spawning pl" "pl_children pl' = pl_children pl"
    "\<And>i. i \<in> set (pl_children pl) \<Longrightarrow> slot_state pl i = Some CDead \<Longrightarrow> slot_state pl' i = Some CDead"
  shows "live_count pl' \<le> live_count pl"
  using assms length_filter_mono [of "pl_children pl" "is_live pl'" "is_live pl"]
  by (auto simp: live_count_def is_live_def)

lemma pool_ok_update:
  assumes "pool_ok cfg pl" "pl_slots pl i = Some c" "pc_state c \<noteq> CDead" "pc_state (f c) \<noteq> CDead"
    "pc_service (f c) = pc_service c"
  shows "pool_ok cfg (update_slot i f pl)"
proof -
  have "live_count (update_slot i f pl) = live_count pl"
    using assms(2-4) by (intro live_count_cong) (auto simp: update_slot_def slot_state_def)
  moreover have "dom (pl_slots (update_slot i f pl)) = dom (pl_slots pl)"
    using assms(2) by (auto simp: update_slot_def dom_def)
  ultimately show ?thesis
    using assms by (auto simp: pool_ok_def update_slot_def)
qed

lemma pool_ok_same_state:
  assumes "pool_ok cfg pl" "\<And>c. pc_state (f c) = pc_state c \<and> pc_service (f c) = pc_service c"
  shows "pool_ok cfg (update_slot i f pl)"
proof -
  have "live_count (update_slot i f pl) = live_count pl"
    using assms(2) by (intro live_count_cong) (auto simp: update_slot_def slot_state_def option.map_comp comp_def)
  moreover have "dom (pl_slots (update_slot i f pl)) = dom (pl_slots pl)"
    by (auto simp: update_slot_def dom_def)
  ultimately show ?thesis
    using assms by (auto simp: pool_ok_def update_slot_def split: if_splits)
qed

lemma pool_ok_kill:
  assumes "pool_ok cfg pl" "pl_slots pl i = Some c" "pc_state c \<noteq> CDead"
  shows "pool_ok cfg (retire_slot i c pl)"
proof -
  let ?pl = "retire_slot i c pl"
  have slots: "pl_slots ?pl = (pl_slots pl)(i \<mapsto> take_dead_worker_locked c)"
    using assms(2) by (simp add: retire_slot_def update_slot_def)
  have dying: "pl_dying ?pl = (pl_dying pl)(i \<mapsto> c)" "pl_closed ?pl = pl_closed pl" "pl_dropped ?pl = pl_dropped pl"
    by (simp_all add: retire_slot_def)
  have same: "pl_spawning ?pl = pl_spawning pl" "pl_children ?pl = pl_children pl" "pl_reserved ?pl = pl_reserved pl"
    by (simp_all add: retire_slot_def update_slot_def)
  have c: "pc_service c" "i \<notin> retired pl" "i \<in> dom (pl_slots pl)"
    using assms by (auto simp: pool_ok_def)
  have "live_count ?pl \<le> live_count pl"
    by (rule live_count_mono) (auto simp: slot_state_def slots same take_dead_worker_locked_def)
  moreover have "retired ?pl = insert i (retired pl)" by (auto simp: retired_def dying)
  moreover have "fates_disjoint ?pl"
    using assms(1) c(2) by (auto simp: pool_ok_def fates_disjoint_def retired_def dying)
  moreover have "insert i (dom (pl_slots pl)) = dom (pl_slots pl)" using c(3) by (rule insert_absorb)
  ultimately show ?thesis
    using assms(1) c unfolding pool_ok_def slots dying same dom_fun_upd option.distinct if_False
    by (simp add: take_dead_worker_locked_def)
qed

lemma pool_ok_fates:
  assumes "pool_ok cfg pl" "pl_slots pl' = pl_slots pl" "pl_children pl' = pl_children pl"
    "pl_spawning pl' = pl_spawning pl" "pl_reserved pl' = pl_reserved pl" "retired pl' = retired pl"
    "fates_disjoint pl'" "distinct (pl_closed pl')" "pl_dying pl' \<subseteq>\<^sub>m pl_dying pl"
  shows "pool_ok cfg pl'"
proof -
  have live: "live_count pl' = live_count pl"
    using assms(2-4) by (intro live_count_cong) (simp_all add: slot_state_def)
  have "pc_service c" if "pl_dying pl' i = Some c" for i c
  proof -
    have "pl_dying pl i = Some c"
      using that assms(9) by (metis domI map_le_def)
    with assms(1) show ?thesis by (simp add: pool_ok_def)
  qed
  then show ?thesis using assms(1,7,8) unfolding pool_ok_def assms(2-6) live by simp
qed

lemma pool_ok_finish:
  assumes "pool_ok cfg pl"
  shows "pool_ok cfg (pool_step cfg (PFinish i) pl)"
proof (cases "pl_dying pl i")
  case (Some c)
  have s: "pc_service c" "i \<notin> set (pl_closed pl)" "i \<notin> pl_dropped pl"
    using assms Some by (auto simp: pool_ok_def fates_disjoint_def)
  show ?thesis
  proof (rule pool_ok_fates [OF assms])
    have ok: "fates_disjoint pl" "distinct (pl_closed pl)" using assms by (simp_all add: pool_ok_def)
    show "retired (pool_step cfg (PFinish i) pl) = retired pl"
      using Some s(1) by (auto simp: retired_def finish_dead_worker_def)
    show "fates_disjoint (pool_step cfg (PFinish i) pl)"
      using ok s Some by (auto simp: fates_disjoint_def finish_dead_worker_def)
  qed (use assms s Some in \<open>auto simp: finish_dead_worker_def pool_ok_def map_le_def\<close>)
qed (use assms in simp)

lemma pool_ok_dropped:
  assumes "pool_ok cfg pl"
  shows "pool_ok cfg (pool_step cfg (PDropped i) pl)"
proof (cases "pl_dying pl i")
  case (Some c)
  show ?thesis
  proof (rule pool_ok_fates [OF assms])
    have ok: "fates_disjoint pl" "distinct (pl_closed pl)" using assms by (simp_all add: pool_ok_def)
    show "retired (pool_step cfg (PDropped i) pl) = retired pl"
      using Some by (auto simp: retired_def)
    show "fates_disjoint (pool_step cfg (PDropped i) pl)"
      using ok Some by (auto simp: fates_disjoint_def)
  qed (use assms Some in \<open>auto simp: pool_ok_def map_le_def\<close>)
qed (use assms in simp)

lemma is_live_slots: "pl_slots pl' = pl_slots pl \<Longrightarrow> is_live pl' = is_live pl"
  by (simp add: fun_eq_iff is_live_def slot_state_def)

lemma reserve_parts:
  "pl_slots (snd (reserve_spawn_slot pl)) = pl_slots pl" "pl_children (snd (reserve_spawn_slot pl)) = pl_children pl"
  "pl_spawning (snd (reserve_spawn_slot pl)) = insert (pl_next_id pl) (pl_spawning pl)"
  "pl_reserved (snd (reserve_spawn_slot pl)) = Suc (pl_reserved pl)"
  "pl_closed (snd (reserve_spawn_slot pl)) = pl_closed pl" "pl_dying (snd (reserve_spawn_slot pl)) = pl_dying pl"
  "retired (snd (reserve_spawn_slot pl)) = retired pl" "fates_disjoint (snd (reserve_spawn_slot pl)) = fates_disjoint pl"
  "pl_next_id (snd (reserve_spawn_slot pl)) = pl_next_id pl + 1"
  by (simp_all add: reserve_spawn_slot_def)

lemma pool_ok_reserve:
  assumes "pool_ok cfg pl" "unat (pl_next_id pl) = pl_reserved pl" "live_count pl < cf_max_workers cfg"
  shows "pool_ok cfg (snd (reserve_spawn_slot pl))"
proof -
  have "\<forall>i \<in> pl_spawning pl \<union> dom (pl_slots pl). unat i < pl_reserved pl"
    using assms(1) by (simp add: pool_ok_def)
  with assms(2) have fresh: "pl_next_id pl \<notin> pl_spawning pl \<union> dom (pl_slots pl)"
    by (metis less_irrefl)
  then have "live_count (snd (reserve_spawn_slot pl)) = Suc (live_count pl)"
    using assms(1) by (simp add: live_count_def is_live_slots [OF reserve_parts(1)] reserve_parts(2,3) pool_ok_def)
  then show ?thesis
    using assms fresh unfolding pool_ok_def reserve_parts by (auto simp: less_Suc_eq)
qed

lemma pool_ok_drop_dead:
  assumes "pool_ok cfg pl" "\<And>i. i \<in> set (pl_children pl) \<Longrightarrow> \<not> P i \<Longrightarrow> slot_state pl i = Some CDead"
  shows "pool_ok cfg (pl\<lparr>pl_children := filter P (pl_children pl)\<rparr>)"
    "live_count (pl\<lparr>pl_children := filter P (pl_children pl)\<rparr>) = live_count pl"
proof -
  let ?pl = "pl\<lparr>pl_children := filter P (pl_children pl)\<rparr>"
  have "P i" if "i \<in> set (pl_children pl)" "is_live pl i" for i
    using that assms(2) by (auto simp: is_live_def)
  then have "filter (is_live pl) (filter P (pl_children pl)) = filter (is_live pl) (pl_children pl)"
    by (auto intro!: filter_cong)
  then show live: "live_count ?pl = live_count pl"
    by (simp add: live_count_def is_live_slots [of ?pl pl])
  have "i \<in> set (filter P (pl_children pl))" if "pl_slots pl i = Some c" "pc_state c \<noteq> CDead" for i c
  proof -
    have "i \<in> set (pl_children pl)" using that assms(1) by (auto simp: pool_ok_def)
    with that assms(2) [of i] show ?thesis by (auto simp: slot_state_def)
  qed
  with assms(1) live show "pool_ok cfg ?pl"
    by (auto simp: pool_ok_def)
qed


lemma pool_ok_finish_spawn:
  assumes "pool_ok cfg pl" "i \<in> pl_spawning pl" "pc_service c" "pc_state c \<noteq> CDead"
  shows "pool_ok cfg (finish_spawn_reservation i (Some c) pl)"
proof -
  let ?pl = "finish_spawn_reservation i (Some c) pl"
  have i: "i \<notin> dom (pl_slots pl)" "i \<notin> set (pl_children pl)" "i \<notin> retired pl"
    using assms(1,2) by (auto simp: pool_ok_def)
  have parts: "pl_slots ?pl = (pl_slots pl)(i \<mapsto> c)" "pl_children ?pl = pl_children pl @ [i]"
    "pl_spawning ?pl = pl_spawning pl - {i}" "pl_reserved ?pl = pl_reserved pl" "pl_closed ?pl = pl_closed pl"
    "pl_dying ?pl = pl_dying pl" "retired ?pl = retired pl" "fates_disjoint ?pl = fates_disjoint pl"
    by (simp_all add: finish_spawn_reservation_def)
  have "filter (is_live ?pl) (pl_children pl) = filter (is_live pl) (pl_children pl)"
    using i(2) by (intro filter_cong) (auto simp: is_live_def slot_state_def parts)
  moreover have "is_live ?pl i"
    using assms(4) by (simp add: is_live_def slot_state_def parts)
  moreover have "finite (pl_spawning pl)" using assms(1) by (simp add: pool_ok_def)
  ultimately have "live_count ?pl = live_count pl"
    using assms(2) card_Suc_Diff1 [of "pl_spawning pl" i] by (simp add: live_count_def parts)
  with assms i show ?thesis
    unfolding pool_ok_def parts by (auto simp: dom_def)
qed

lemma pool_ok_fail_spawn:
  assumes "pool_ok cfg pl"
  shows "pool_ok cfg (finish_spawn_reservation i None pl)"
proof -
  let ?pl = "finish_spawn_reservation i None pl"
  have parts: "pl_slots ?pl = pl_slots pl" "pl_children ?pl = pl_children pl"
    "pl_spawning ?pl = pl_spawning pl - {i}" "pl_reserved ?pl = pl_reserved pl" "pl_closed ?pl = pl_closed pl"
    "pl_dying ?pl = pl_dying pl" "retired ?pl = retired pl" "fates_disjoint ?pl = fates_disjoint pl"
    by (simp_all add: finish_spawn_reservation_def)
  have "live_count ?pl \<le> live_count pl"
    using assms by (simp add: live_count_def parts is_live_slots [OF parts(1)] pool_ok_def card_mono)
  with assms show ?thesis
    unfolding pool_ok_def parts by auto
qed

section \<open>Leasing\<close>

lemma lease_scan_Inl:
  "lease_scan pl is a d = Inl i \<Longrightarrow> i \<in> set is \<and> slot_state pl i = Some CIdle"
  by (induction pl "is" a d rule: lease_scan.induct) (auto split: option.splits child_state.splits)

lemma lease_scan_Inr:
  "lease_scan pl is a d = Inr (a', d') \<Longrightarrow>
     a' = a + length (filter (is_live pl) is) \<and> set d' = set d \<union> {i \<in> set is. slot_state pl i = Some CDead} \<and>
     (\<forall>i \<in> set is. slot_state pl i \<noteq> Some CIdle)"
proof (induction "is" arbitrary: a d)
  case (Cons i "is")
  consider "slot_state pl i = Some CDead" | "slot_state pl i = Some CIdle"
    | "slot_state pl i \<noteq> Some CDead" "slot_state pl i \<noteq> Some CIdle" by blast
  then show ?case
  proof cases
    case 1
    with Cons show ?thesis by (auto simp: is_live_def)
  next
    case 2
    with Cons.prems show ?thesis by simp
  next
    case 3
    then have "lease_scan pl (i # is) a d = lease_scan pl is (Suc a) d"
      by (simp split: option.split child_state.split)
    with Cons.IH [of "Suc a" d] Cons.prems 3 show ?thesis by (auto simp: is_live_def)
  qed
qed simp

lemma pool_ok_lease:
  assumes "pool_ok cfg pl" "unat (pl_next_id pl) = pl_reserved pl"
  shows "pool_ok cfg (snd (lease_locked cfg session now pl))"
proof (cases "lease_scan pl (pl_children pl) (card (pl_spawning pl)) []")
  case (Inl i)
  then obtain c where c: "pl_slots pl i = Some c" "pc_state c = CIdle"
    using lease_scan_Inl [OF Inl] by (auto simp: slot_state_def)
  then have "pool_ok cfg (update_slot i (\<lambda>c. c\<lparr>pc_state := CLeased session, pc_last_used := now\<rparr>) pl)"
    by (intro pool_ok_update [OF assms(1) c(1)]) simp_all
  with Inl show ?thesis by (simp add: lease_locked_def)
next
  case (Inr res)
  obtain active dead where res: "res = (active, dead)" by (cases res)
  let ?pl = "pl\<lparr>pl_children := filter (\<lambda>i. i \<notin> set dead) (pl_children pl)\<rparr>"
  note scan = lease_scan_Inr [OF Inr [unfolded res]]
  have ok: "pool_ok cfg ?pl" and live: "live_count ?pl = live_count pl"
    using scan by (auto intro: pool_ok_drop_dead [OF assms(1)])
  have "active = live_count pl" using scan by (simp add: live_count_def)
  with ok live assms(2) pool_ok_reserve [OF ok] show ?thesis
    by (simp add: lease_locked_def Inr res split_def Let_def not_le)
qed

section \<open>Every event keeps the invariant\<close>

lemma pool_ok_take:
  "pool_ok cfg pl \<Longrightarrow> pool_ok cfg (snd (take_dead_worker i pl))"
  using pool_ok_kill by (auto simp: take_dead_worker_def split: option.split)

lemma pool_ok_reap:
  "pool_ok cfg pl \<Longrightarrow> pool_ok cfg (snd (take_stale_idle_worker_if_above_min cfg i t pl))"
  using pool_ok_kill by (auto simp: take_stale_idle_worker_if_above_min_def split: option.split)

lemma pool_ok_forget:
  assumes "pool_ok cfg pl" "pl_slots pl i = None \<or> slot_state pl i = Some CDead"
  shows "pool_ok cfg (forget_slot i pl)"
proof -
  have "slot_state pl j = Some CDead" if "j \<in> set (pl_children pl)" "\<not> j \<noteq> i" for j
    using that assms by (auto simp: pool_ok_def)
  from pool_ok_drop_dead(1) [OF assms(1), of "\<lambda>j. j \<noteq> i", OF this] show ?thesis
    by (simp add: forget_slot_def)
qed

lemma pool_ok_release_begin:
  assumes "pool_ok cfg pl"
  shows "pool_ok cfg (snd (release_begin i pl))"
proof (cases "pl_slots pl i")
  case None
  with assms show ?thesis by (simp add: release_begin_def slot_state_def update_slot_def fun_upd_idem)
next
  case (Some c)
  with assms show ?thesis
    using pool_ok_update [OF assms Some, of "\<lambda>c. c\<lparr>pc_state := CClosing\<rparr>"]
    by (auto simp: release_begin_def slot_state_def)
qed

lemma pool_ok_release_end:
  assumes "pool_ok cfg pl"
  shows "pool_ok cfg (snd (release_end i oc now pl))"
proof (cases "pl_slots pl i")
  case None
  with assms show ?thesis by (simp add: release_end_def slot_state_def update_slot_def fun_upd_idem)
next
  case (Some c)
  with assms show ?thesis
    using pool_ok_update [OF assms Some, of "\<lambda>c. c\<lparr>pc_state := CIdle, pc_last_used := now, pc_idb_path := None\<rparr>"]
    by (auto simp: release_end_def slot_state_def)
qed

lemma length_filter_le_children: "live_count pl \<le> card (pl_spawning pl) + length (pl_children pl)"
  by (simp add: live_count_def)

lemma pool_ok_ensure_min:
  assumes "pool_ok cfg pl" "unat (pl_next_id pl) = pl_reserved pl"
  shows "pool_ok cfg (snd (ensure_min_reserve cfg pl))"
  using assms pool_ok_reserve [OF assms] length_filter_le_children [of pl]
  by (auto simp: ensure_min_reserve_def Let_def split_def)

lemma pool_ok_step:
  assumes "pool_ok cfg pl" "unat (pl_next_id pl) = pl_reserved pl"
  shows "pool_ok cfg (pool_step cfg e pl)"
proof (cases e)
  case PWarm
  moreover have "live_count pl \<le> pl_reserved pl" using assms(1) by (simp add: pool_ok_def)
  ultimately show ?thesis using assms pool_ok_reserve [OF assms] by auto
next
  case (POpened i path)
  with assms(1) show ?thesis by (simp add: pool_ok_same_state)
next
  case (PFinish i)
  with assms(1) show ?thesis by (simp only: pool_ok_finish)
next
  case (PDropped i)
  with assms(1) show ?thesis by (simp only: pool_ok_dropped)
qed (use assms in \<open>simp_all add: pool_ok_lease pool_ok_finish_spawn pool_ok_fail_spawn pool_ok_release_begin
  pool_ok_release_end pool_ok_take pool_ok_forget pool_ok_ensure_min pool_ok_reap\<close>)

lemmas pool_step_unfolds = lease_locked_def finish_spawn_reservation_def release_begin_def release_end_def
  take_dead_worker_def retire_slot_def forget_slot_def ensure_min_reserve_def take_stale_idle_worker_if_above_min_def
  finish_dead_worker_def update_slot_def

lemma pool_step_counter:
  "pl_reserved (pool_step cfg e pl) = pl_reserved pl \<and> pl_next_id (pool_step cfg e pl) = pl_next_id pl \<or>
   pl_reserved (pool_step cfg e pl) = Suc (pl_reserved pl) \<and> pl_next_id (pool_step cfg e pl) = pl_next_id pl + 1"
proof (cases e)
  case (PLease session now)
  then show ?thesis
    by (cases "lease_scan pl (pl_children pl) (card (pl_spawning pl)) []")
      (simp_all add: lease_locked_def update_slot_def reserve_parts Let_def split_def)
qed (simp_all add: pool_step_unfolds reserve_parts Let_def split_def split: option.split)

lemma pool_inv_step: "pool_inv cfg pl \<Longrightarrow> pool_inv cfg (pool_step cfg e pl)"
  unfolding pool_inv_def
  using pool_step_counter [of cfg e pl] pool_ok_step [of cfg pl e] unat_Suc_u64 [of "pl_next_id pl"]
  by auto

interpretation pools: lifecycle "pool_step cfg" "pool_inv cfg"
  by unfold_locales (rule pool_inv_step)

lemma pool_inv_new: "pool_inv cfg pool_new"
  by (simp add: pool_inv_def pool_ok_def pool_new_def live_count_def retired_def fates_disjoint_def)

lemma pool_run_reserved: "pl_reserved pl \<le> pl_reserved (fold (pool_step cfg) es pl)"
proof (induction es arbitrary: pl)
  case (Cons e es)
  have "pl_reserved pl \<le> pl_reserved (pool_step cfg e pl)"
    using pool_step_counter [of cfg e pl] by auto
  with Cons.IH [of "pool_step cfg e pl"] show ?case by simp
qed simp

lemma pool_run_ok:
  assumes "pl_reserved (fold (pool_step cfg) es pool_new) \<le> u64_max"
  shows "pool_ok cfg (fold (pool_step cfg) es pool_new)"
  using pools.run_inv [OF pool_inv_new, of cfg es] assms by (simp add: pool_inv_def)

end
