(* ===== verification/Pool_Contract.thy ===== *)
theory Pool_Contract
  imports Pool_Props
begin

text \<open>
  What the pool promises: its limits, the fate of a worker, who gets a lease, and that every whole
  operation of the pool and of a session is a run of the pool's atomic events, so that the
  invariant holds around and inside each of them. The last section is about the database
  generations of a session.
\<close>

section \<open>Whole operations are runs of events\<close>

definition reaches :: "pool_config \<Rightarrow> pool \<Rightarrow> pool \<Rightarrow> bool" where
  "reaches cfg pl pl' \<longleftrightarrow> (\<exists>es. pl' = fold (pool_step cfg) es pl)"

lemma reaches_refl [simp, intro]: "reaches cfg pl pl"
  by (auto simp: reaches_def intro: exI [of _ "[]"])

lemma reaches_trans [trans]: "reaches cfg a b \<Longrightarrow> reaches cfg b c \<Longrightarrow> reaches cfg a c"
  unfolding reaches_def by (metis comp_apply fold_append)

lemma reaches_step: "pool_step cfg e pl = pl' \<Longrightarrow> reaches cfg pl pl'"
  by (auto simp: reaches_def intro: exI [of _ "[e]"])

lemma spawn_slot_Ok:
  "spawn_slot i st a b now = Ok c \<Longrightarrow> pc_service c \<and> pc_state c = st"
  by (auto simp: spawn_slot_def result_iffs)

lemma reaches_spawn_reserved:
  assumes "i \<in> pl_spawning pl" "st \<noteq> CDead"
  shows "reaches cfg pl (snd (spawn_reserved_slot i st out pl))"
proof (cases "spawn_slot i st (fst (fst out)) (snd (fst out)) (snd out)")
  case (Ok c)
  with assms spawn_slot_Ok [OF Ok] show ?thesis
    by (intro reaches_step [where e = "PSpawned i c"]) (simp add: spawn_reserved_slot_def)
next
  case (Err e)
  then show ?thesis
    by (intro reaches_step [where e = "PSpawnFailed i"]) (simp add: spawn_reserved_slot_def)
qed

lemma reaches_ensure_min: "reaches cfg pl (ensure_min_workers n cfg spawns pl)"
proof (induction n arbitrary: pl)
  case (Suc n)
  obtain r pl1 where r: "ensure_min_reserve cfg pl = (r, pl1)" by fastforce
  have one: "reaches cfg pl pl1"
    using r by (intro reaches_step [where e = PEnsureMin]) simp
  show ?case
  proof (cases r)
    case None
    with one r show ?thesis by simp
  next
    case (Some i)
    obtain x pl2 where x: "spawn_reserved_slot i CIdle (spawns i) pl1 = (x, pl2)" by fastforce
    have "i \<in> pl_spawning pl1"
      using r Some by (auto simp: ensure_min_reserve_def reserve_spawn_slot_def Let_def split: if_splits)
    from reaches_spawn_reserved [OF this, of CIdle cfg "spawns i"] x have "reaches cfg pl1 pl2" by simp
    with one have "reaches cfg pl pl2" by (rule reaches_trans)
    with r Some x Suc.IH [of pl2] show ?thesis
      by (cases x) (auto intro: reaches_trans)
  qed
qed simp

lemma take_dead_dying:
  assumes "take_dead_worker i pl = (Some c, pl')"
  shows "pl_dying pl' i = Some c" "slot_state pl' i = Some CDead"
  using assms
  by (auto simp: take_dead_worker_def retire_slot_def slot_state_def update_slot_def take_dead_worker_locked_def
      split: option.splits if_splits)

lemma take_stale_dying:
  assumes "take_stale_idle_worker_if_above_min cfg i t pl = (Some c, pl')"
  shows "pl_dying pl' i = Some c" "slot_state pl' i = Some CDead"
  using assms
  by (auto simp: take_stale_idle_worker_if_above_min_def retire_slot_def slot_state_def update_slot_def
      take_dead_worker_locked_def split: option.splits if_splits)

lemma reaches_forget:
  "pl_slots pl i = None \<or> slot_state pl i = Some CDead \<Longrightarrow> reaches cfg pl (forget_slot i pl)"
  by (rule reaches_step [where e = "PForget i"]) simp

text \<open>The end of a retirement: the pool forgets the slot, and then what was taken is closed.\<close>

lemma reaches_finish:
  assumes "pl_dying pl i = Some c" "slot_state pl i = Some CDead"
  shows "reaches cfg pl (finish_dead_worker i c (forget_slot i pl))"
proof -
  have "pool_step cfg (PFinish i) (forget_slot i pl) = finish_dead_worker i c (forget_slot i pl)"
    using assms(1) by (simp add: forget_slot_def)
  with reaches_forget [of pl i cfg] assms(2) show ?thesis
    using reaches_step reaches_trans by blast
qed

lemma reaches_mark_dead: "reaches cfg pl (mark_dead_inner cfg spawns i replenish pl)"
proof -
  obtain d pl1 where d: "take_dead_worker i pl = (d, pl1)" by fastforce
  then have one: "reaches cfg pl pl1"
    by (intro reaches_step [where e = "PTakeDead i"]) simp
  define pl2 where "pl2 = (case d of Some c \<Rightarrow> finish_dead_worker i c (forget_slot i pl1) | None \<Rightarrow> forget_slot i pl1)"
  have "reaches cfg pl1 pl2"
  proof (cases d)
    case None
    with d have "pl_slots pl1 i = None \<or> slot_state pl1 i = Some CDead"
      by (auto simp: take_dead_worker_def slot_state_def split: option.splits if_splits)
    with None show ?thesis by (simp add: pl2_def reaches_forget)
  next
    case (Some c)
    with d reaches_finish take_dead_dying show ?thesis by (simp add: pl2_def)
  qed
  with one have "reaches cfg pl pl2" by (rule reaches_trans)
  moreover have "mark_dead_inner cfg spawns i replenish pl =
      (if replenish then ensure_min_workers (cf_min_workers cfg) cfg spawns pl2 else pl2)"
    using d by (simp add: mark_dead_inner_def pl2_def Let_def)
  ultimately show ?thesis
    using reaches_ensure_min reaches_trans by metis
qed

lemma reaches_reap: "reaches cfg pl (mark_stale_idle_dead cfg i t pl)"
proof -
  obtain d pl1 where d: "take_stale_idle_worker_if_above_min cfg i t pl = (d, pl1)" by fastforce
  then have one: "reaches cfg pl pl1"
    by (intro reaches_step [where e = "PReap i t"]) simp
  show ?thesis
  proof (cases d)
    case None
    with one d show ?thesis by (simp add: mark_stale_idle_dead_def)
  next
    case (Some c)
    with d reaches_finish take_stale_dying
    have "reaches cfg pl1 (finish_dead_worker i c (forget_slot i pl1))" by blast
    with one d Some show ?thesis by (simp add: mark_stale_idle_dead_def reaches_trans)
  qed
qed

lemma reaches_pool_lease: "reaches cfg pl (snd (pool_lease cfg session now spawns pl))"
proof -
  obtain oc pl1 where oc: "lease_locked cfg session now pl = (oc, pl1)" by fastforce
  then have one: "reaches cfg pl pl1"
    by (intro reaches_step [where e = "PLease session now"]) simp
  show ?thesis
  proof (cases oc)
    case (Reserved i)
    with oc have "i \<in> pl_spawning pl1"
      by (auto simp: lease_locked_def reserve_spawn_slot_def Let_def split: sum.splits prod.splits if_splits)
    then have "reaches cfg pl1 (snd (spawn_reserved_slot i (CLeased session) (spawns i) pl1))"
      by (rule reaches_spawn_reserved) simp
    with one show ?thesis
      using oc Reserved by (simp add: pool_lease_def reaches_trans)
  qed (use oc one in \<open>simp_all add: pool_lease_def\<close>)
qed

lemma reaches_pool_release: "reaches cfg pl (snd (pool_release cfg spawns i oc now pl))"
proof -
  obtain b pl1 where b: "release_begin i pl = (b, pl1)" by fastforce
  then have "reaches cfg pl pl1"
    by (intro reaches_step [where e = "PReleaseBegin i"]) simp
  moreover have "reaches cfg pl1 (snd (release_end i oc now pl1))"
    by (intro reaches_step [where e = "PReleaseEnd i oc now"]) simp
  ultimately show ?thesis
    using b reaches_mark_dead [of cfg pl1 spawns i True]
    by (cases b) (auto simp: pool_release_def intro: reaches_trans)
qed

lemma reaches_warm:
  "n + pl_reserved pl \<le> min (cf_min_workers cfg) (cf_max_workers cfg) \<Longrightarrow>
   reaches cfg pl (snd (warm_min n spawns pl))"
proof (induction n arbitrary: pl)
  case (Suc n)
  obtain i pl1 where r: "reserve_spawn_slot pl = (i, pl1)" by fastforce
  obtain x pl2 where x: "spawn_reserved_slot i CIdle (spawns i) pl1 = (x, pl2)" by fastforce
  have one: "reaches cfg pl pl1"
    using r Suc.prems by (intro reaches_step [where e = PWarm]) simp
  have "i \<in> pl_spawning pl1" "pl_reserved pl1 = Suc (pl_reserved pl)"
    using r by (auto simp: reserve_spawn_slot_def)
  moreover have "pl_reserved pl2 = pl_reserved pl1"
    using x by (auto simp: spawn_reserved_slot_def finish_spawn_reservation_def Let_def split: result.splits)
  ultimately have "reaches cfg pl1 pl2" and "x = Ok i' \<Longrightarrow> reaches cfg pl2 (snd (warm_min n spawns pl2))" for i'
    using reaches_spawn_reserved [of i pl1 CIdle cfg "spawns i"] x Suc by auto
  with one r x show ?case
    by (cases x) (auto intro: reaches_trans)
qed simp

lemma reaches_shutdown: "reaches cfg pl (shutdown_all cfg pl)"
proof -
  have "reaches cfg pl (fold (\<lambda>i. mark_dead_inner cfg sp i False) is pl)" for sp "is"
    by (induction "is" arbitrary: pl) (auto intro: reaches_mark_dead reaches_trans)
  then show ?thesis by (simp add: shutdown_all_def)
qed

lemma reaches_call_tool: "reaches cfg pl (snd (call_tool cfg spawns h tool t oc pl))"
  by (cases "call_admission h tool pl"; cases oc) (simp_all add: call_tool_def reaches_mark_dead)


lemma reaches_finish_call: "reaches cfg pl (snd (snd (finish_call cfg spawns h tool t oc ss pl)))"
proof -
  obtain r pl1 where r: "call_tool cfg spawns h tool (worker_op_timeout cfg t) oc pl = (r, pl1)" by fastforce
  have one: "reaches cfg pl pl1"
    using reaches_call_tool [of cfg pl spawns h tool "worker_op_timeout cfg t" oc] r by simp
  then have "reaches cfg pl (mark_dead_inner cfg spawns (wh_slot h) True pl1)"
    using reaches_mark_dead reaches_trans by blast
  with one r show ?thesis
    by (cases r) (simp_all add: finish_call_def split: option.split)
qed

lemma reaches_call_result:
  "reaches cfg pl (snd (snd (call_result_for_generation cfg spawns tool t oc g ss pl)))"
  by (simp add: call_result_for_generation_def reaches_finish_call split: result.split)

lemma reaches_release_current: "reaches cfg pl (snd (release_current_handle cfg spawns oc now ss pl))"
  by (simp add: release_current_handle_def reaches_pool_release split: option.split prod.split)

lemma reaches_lease_for_open: "reaches cfg pl (snd (snd (lease_for_open cfg now spawns ss pl)))"
proof (cases "ps_lease ss")
  case None
  obtain r ss1 where r: "next_database_generation ss = (r, ss1)" by fastforce
  obtain x pl1 where x: "pool_lease cfg (ps_id ss1) now spawns pl = (x, pl1)" by fastforce
  then have "reaches cfg pl pl1"
    using reaches_pool_lease [of cfg pl "ps_id ss1" now spawns] by simp
  with None r x show ?thesis
    by (cases r; cases x) (simp_all add: lease_for_open_def Let_def)
qed (auto simp: lease_for_open_def)

lemma reaches_open:
  "reaches cfg pl (snd (snd (open_observed_with_generation cfg now spawns path_of t oc close ss pl)))"
proof -
  obtain x ss1 pl1 where x: "lease_for_open cfg now spawns ss pl = (x, ss1, pl1)"
    using prod_cases3 by blast
  then have one: "reaches cfg pl pl1"
    using reaches_lease_for_open [of cfg pl now spawns ss] by simp
  show ?thesis
  proof (cases x)
    case (Err e)
    with one x show ?thesis by (simp add: open_observed_with_generation_def)
  next
    case (Ok res)
    obtain h g fresh where res: "res = (h, g, fresh)" using prod_cases3 by blast
    obtain r pl2 where r: "call_tool cfg spawns h ''open_idb'' (worker_op_timeout cfg t) oc pl1 = (r, pl2)"
      by fastforce
    have two: "reaches cfg pl pl2"
      using one reaches_call_tool [of cfg pl1 spawns h "''open_idb''" "worker_op_timeout cfg t" oc] r
      by (simp add: reaches_trans)
    have "reaches cfg pl2 (update_slot (wh_slot h) (\<lambda>c. c\<lparr>pc_idb_path := Some path\<rparr>) pl2)" for path
      by (rule reaches_step [where e = "POpened (wh_slot h) path"]) simp
    with two have three: "reaches cfg pl (update_slot (wh_slot h) (\<lambda>c. c\<lparr>pc_idb_path := Some path\<rparr>) pl2)" for path
      using reaches_trans by blast
    have "reaches cfg pl (snd (release_current_handle cfg spawns close now ss1 pl2))"
      using two reaches_release_current reaches_trans by blast
    with two three x Ok res r show ?thesis
      by (simp add: open_observed_with_generation_def split_def Let_def split: result.split)
  qed
qed

lemma reaches_session_close: "reaches cfg pl (snd (snd (session_close cfg spawns oc now ss pl)))"
  using reaches_pool_release by (simp add: session_close_def split_def split: option.split)

lemma reaches_close_if: "reaches cfg pl (snd (snd (close_if_generation cfg spawns oc now g ss pl)))"
  using reaches_pool_release by (simp add: close_if_generation_def split_def split: option.split)

text \<open>Every operation of the pool and of a session changes the pool only as a run of the pool's
  atomic events, starting from the empty pool when the pool is started. What holds after every
  run therefore holds after every sequence of whole operations, and at every point inside one.\<close>

lemma pool_operations_are_runs:
  "reaches cfg pool_new (snd (pool_start cfg spawns)) \<and>
   reaches cfg pl (snd (pool_lease cfg session now spawns pl)) \<and>
   reaches cfg pl (snd (pool_release cfg spawns i close now pl)) \<and>
   reaches cfg pl (mark_dead_inner cfg spawns i replenish pl) \<and>
   reaches cfg pl (mark_stale_idle_dead cfg i now pl) \<and>
   reaches cfg pl (ensure_min_workers n cfg spawns pl) \<and>
   reaches cfg pl (shutdown_all cfg pl) \<and>
   reaches cfg pl (snd (call_tool cfg spawns h tool t oc pl)) \<and>
   reaches cfg pl (snd (snd (call_result_for_generation cfg spawns tool secs oc expected ss pl))) \<and>
   reaches cfg pl (snd (snd (open_observed_with_generation cfg now spawns path_of secs oc close ss pl))) \<and>
   reaches cfg pl (snd (snd (session_close cfg spawns close now ss pl))) \<and>
   reaches cfg pl (snd (snd (close_if_generation cfg spawns close now g ss pl)))"
proof -
  have "reaches cfg pool_new (snd (pool_start cfg spawns))"
    unfolding pool_start_def by (rule reaches_warm) (simp add: pool_new_def)
  then show ?thesis
    by (intro conjI reaches_pool_lease reaches_pool_release reaches_mark_dead reaches_reap
        reaches_ensure_min reaches_shutdown reaches_call_tool reaches_call_result reaches_open
        reaches_session_close reaches_close_if)
qed


section \<open>Limits and the fate of a worker\<close>

definition running :: "pool \<Rightarrow> usize set" where
  "running pl = {i. \<exists>c. pl_slots pl i = Some c \<and> pc_state c \<noteq> CDead}"

lemma running_card:
  assumes "pool_ok cfg pl"
  shows "card (pl_spawning pl) + card (running pl) \<le> live_count pl"
proof -
  have "running pl \<subseteq> set (filter (is_live pl) (pl_children pl))"
    using assms by (auto simp: running_def pool_ok_def is_live_def slot_state_def)
  then have "card (running pl) \<le> card (set (filter (is_live pl) (pl_children pl)))"
    by (intro card_mono) auto
  also have "\<dots> \<le> length (filter (is_live pl) (pl_children pl))" by (rule card_length)
  finally show ?thesis by (simp add: live_count_def)
qed


definition small_pool :: pool_config where
  "small_pool = \<lparr>cf_max_workers = 1, cf_min_workers = 0, cf_idle_timeout = 1000, cf_op_timeout = 60000\<rparr>"

definition new_child :: "child_state \<Rightarrow> pooled_child" where
  "new_child st = \<lparr>pc_service = True, pc_pid = None, pc_state = st, pc_spawned_at = 0, pc_last_used = 0, pc_idb_path = None\<rparr>"

lemmas small_pool_simps = small_pool_def new_child_def pool_new_def lease_locked_def reserve_spawn_slot_def
  finish_spawn_reservation_def update_slot_def slot_state_def release_begin_def release_end_def
  take_dead_worker_def retire_slot_def take_dead_worker_locked_def finish_dead_worker_def forget_slot_def


lemma dead_step:
  assumes "pool_ok cfg pl" "slot_state pl i = Some CDead"
  shows "slot_state (pool_step cfg e pl) i = Some CDead"
proof (cases e)
  case (PLease session now)
  with assms(2) show ?thesis
  proof (cases "lease_scan pl (pl_children pl) (card (pl_spawning pl)) []")
    case (Inl j)
    from lease_scan_Inl [OF this] assms(2) have "j \<noteq> i" by auto
    with PLease Inl assms(2) show ?thesis by (simp add: lease_locked_def update_slot_def slot_state_def)
  qed (auto simp: lease_locked_def slot_state_def reserve_parts Let_def split_def)
next
  case (PSpawned j c)
  have "i \<in> dom (pl_slots pl)" using assms(2) by (auto simp: slot_state_def)
  with assms(1) have "i \<notin> pl_spawning pl" by (auto simp: pool_ok_def)
  with PSpawned assms(2) show ?thesis by (auto simp: finish_spawn_reservation_def slot_state_def)
qed (use assms(2) in \<open>auto simp: pool_step_unfolds reserve_parts Let_def split_def slot_state_def
  take_dead_worker_locked_def split: option.split\<close>)

text \<open>A worker that was retired stays retired, whatever the pool does later, and every later
  call through a handle to it fails with \<open>WorkerCrashed\<close>.\<close>

theorem dead_worker_stays_dead:
  assumes "slot_state (fold (pool_step cfg) es pool_new) i = Some CDead"
    and "pl_reserved (fold (pool_step cfg) (es @ es') pool_new) \<le> u64_max"
  shows "slot_state (fold (pool_step cfg) (es @ es') pool_new) i = Some CDead \<and>
    call_admission \<lparr>wh_slot = i, wh_session = s\<rparr> tool (fold (pool_step cfg) (es @ es') pool_new) =
      Err (WorkerCrashed (unat i) tool)"
proof -
  let ?pl = "fold (pool_step cfg) es pool_new"
  have "pool_inv cfg pl \<Longrightarrow> slot_state pl i = Some CDead \<Longrightarrow>
      pl_reserved (fold (pool_step cfg) es' pl) \<le> u64_max \<Longrightarrow>
      slot_state (fold (pool_step cfg) es' pl) i = Some CDead" for pl
  proof (induction es' arbitrary: pl)
    case (Cons e es')
    have "pl_reserved pl \<le> u64_max"
      using Cons.prems(3) pool_run_reserved [of pl cfg "e # es'"] by (rule order_trans [rotated])
    with Cons.prems(1) have "pool_ok cfg pl" by (simp add: pool_inv_def)
    from dead_step [OF this Cons.prems(2)] Cons show ?case
      by (simp add: pool_inv_step)
  qed simp
  from this [of ?pl] assms pools.run_inv [OF pool_inv_new, of cfg es] show ?thesis
    by (simp add: call_admission_def)
qed

theorem dead_worker_stays_dead_witness:
  "slot_state (fold (pool_step small_pool)
     ([PLease ''a'' 0, PSpawned 0 (new_child (CLeased ''a'')), PTakeDead 0] @ [PLease ''b'' 1, PSpawned 0 (new_child CIdle)]) pool_new) 0 =
   Some CDead"
  using dead_worker_stays_dead [of small_pool "[PLease ''a'' 0, PSpawned 0 (new_child (CLeased ''a'')), PTakeDead 0]" 0
      "[PLease ''b'' 1, PSpawned 0 (new_child CIdle)]"]
  by (simp add: small_pool_simps)


definition spawns_ok :: "usize \<Rightarrow> spawn_outcome" where
  "spawns_ok i = ((Ok (Some 7), Ok ()), 0)"

section \<open>What retires a worker\<close>

lemma mark_dead_parts:
  assumes "pl_slots pl i = Some c" "pc_state c \<noteq> CDead" "pc_service c"
    and "pl' = mark_dead_inner cfg spawns i False pl"
  shows "pl_slots pl' = (pl_slots pl)(i \<mapsto> take_dead_worker_locked c)"
    "pl_children pl' = filter (\<lambda>j. j \<noteq> i) (pl_children pl)" "pl_spawning pl' = pl_spawning pl"
    "pl_closed pl' = pl_closed pl @ [i]"
    "pl_unlocked pl' = pl_unlocked pl @ (case pc_idb_path c of Some p \<Rightarrow> [(p, pc_pid c)] | None \<Rightarrow> [])"
  using assms
  by (auto simp: mark_dead_inner_def take_dead_worker_def retire_slot_def update_slot_def forget_slot_def
      finish_dead_worker_def Let_def split: option.splits)

lemma mark_dead_gone:
  assumes "pl_slots pl i = None \<or> slot_state pl i = Some CDead"
  shows "mark_dead_inner cfg spawns i False pl = forget_slot i pl"
  using assms by (auto simp: mark_dead_inner_def take_dead_worker_def slot_state_def split: option.splits)

lemma mark_dead_replenish:
  "mark_dead_inner cfg spawns i True pl =
     ensure_min_workers (cf_min_workers cfg) cfg spawns (mark_dead_inner cfg spawns i False pl)"
  by (simp add: mark_dead_inner_def Let_def split: prod.splits)

lemma reaches_reserved: "reaches cfg pl pl' \<Longrightarrow> pl_reserved pl \<le> pl_reserved pl'"
  using pool_run_reserved by (auto simp: reaches_def)

lemma reaches_inv: "reaches cfg pl pl' \<Longrightarrow> pool_inv cfg pl \<Longrightarrow> pool_inv cfg pl'"
  using pools.run_inv by (auto simp: reaches_def)

definition spawns_work :: "(usize \<Rightarrow> spawn_outcome) \<Rightarrow> bool" where
  "spawns_work spawns \<longleftrightarrow> (\<forall>i. is_ok (fst (fst (spawns i))) \<and> is_ok (snd (fst (spawns i))))"

text \<open>One round of \<open>ensure_min_workers\<close> touches only the identifier it reserves, which no slot has.\<close>

lemma ensure_min_round:
  assumes "pool_ok cfg pl" "unat (pl_next_id pl) = pl_reserved pl"
    and "ensure_min_reserve cfg pl = (Some i, pl1)" "spawn_reserved_slot i CIdle (spawns i) pl1 = (x, pl2)"
  shows "i \<notin> dom (pl_slots pl)" "i \<notin> pl_spawning pl" "pl_closed pl2 = pl_closed pl"
    "pl_unlocked pl2 = pl_unlocked pl" "pl_spawning pl2 = pl_spawning pl"
    "\<forall>j \<in> dom (pl_slots pl). pl_slots pl2 j = pl_slots pl j"
    "set (pl_children pl2) \<subseteq> insert i (set (pl_children pl))"
    "spawns_work spawns \<Longrightarrow> length (pl_children pl2) = Suc (length (pl_children pl)) \<and> is_ok x"
proof -
  have i: "i = pl_next_id pl" and pl1: "pl1 = snd (reserve_spawn_slot pl)"
    using assms(3) by (auto simp: ensure_min_reserve_def Let_def reserve_spawn_slot_def split: if_splits)
  have "\<forall>i \<in> pl_spawning pl \<union> dom (pl_slots pl). unat i < pl_reserved pl"
    using assms(1) by (simp add: pool_ok_def)
  then have fresh: "i \<notin> pl_spawning pl \<union> dom (pl_slots pl)" using assms(2) i by (metis less_irrefl)
  then show "i \<notin> dom (pl_slots pl)" "i \<notin> pl_spawning pl" by simp_all
  have pl2: "pl2 = finish_spawn_reservation i
      (case spawn_slot i CIdle (fst (fst (spawns i))) (snd (fst (spawns i))) (snd (spawns i)) of
         Ok c \<Rightarrow> Some c | Err e \<Rightarrow> None) pl1"
    and x: "is_ok x \<longleftrightarrow> is_ok (spawn_slot i CIdle (fst (fst (spawns i))) (snd (fst (spawns i))) (snd (spawns i)))"
    using assms(4) by (auto simp: spawn_reserved_slot_def split: result.splits)
  show "pl_closed pl2 = pl_closed pl" "pl_unlocked pl2 = pl_unlocked pl" "pl_spawning pl2 = pl_spawning pl"
    "\<forall>j \<in> dom (pl_slots pl). pl_slots pl2 j = pl_slots pl j"
    "set (pl_children pl2) \<subseteq> insert i (set (pl_children pl))"
    using fresh i
    by (auto simp: pl2 pl1 finish_spawn_reservation_def reserve_spawn_slot_def Let_def split: result.splits)
  assume "spawns_work spawns"
  then have "is_ok (spawn_slot i CIdle (fst (fst (spawns i))) (snd (fst (spawns i))) (snd (spawns i)))"
    unfolding spawns_work_def
    by (cases "fst (fst (spawns i))"; cases "snd (fst (spawns i))"; drule_tac x = i in spec)
      (simp_all add: spawn_slot_def)
  then show "length (pl_children pl2) = Suc (length (pl_children pl)) \<and> is_ok x"
    unfolding x by (auto simp: pl2 pl1 finish_spawn_reservation_def reserve_spawn_slot_def Let_def
        split: result.splits)
qed

lemma ensure_min_keeps:
  assumes "pool_inv cfg pl" "pl' = ensure_min_workers n cfg spawns pl" "pl_reserved pl' \<le> u64_max"
  shows "pl_closed pl' = pl_closed pl" "pl_unlocked pl' = pl_unlocked pl"
    "\<forall>j \<in> dom (pl_slots pl). pl_slots pl' j = pl_slots pl j"
    "set (pl_children pl') \<inter> dom (pl_slots pl) \<subseteq> set (pl_children pl)"
    "spawns_work spawns \<Longrightarrow>
       min (cf_min_workers cfg) (cf_max_workers cfg) \<le> card (pl_spawning pl) + length (pl_children pl) + n \<Longrightarrow>
       min (cf_min_workers cfg) (cf_max_workers cfg) \<le> card (pl_spawning pl') + length (pl_children pl')"
proof -
  let ?min = "min (cf_min_workers cfg) (cf_max_workers cfg)"
  have "pl_closed pl' = pl_closed pl \<and> pl_unlocked pl' = pl_unlocked pl \<and>
    (\<forall>j \<in> dom (pl_slots pl). pl_slots pl' j = pl_slots pl j) \<and>
    set (pl_children pl') \<inter> dom (pl_slots pl) \<subseteq> set (pl_children pl) \<and>
    (spawns_work spawns \<longrightarrow> ?min \<le> card (pl_spawning pl) + length (pl_children pl) + n \<longrightarrow>
       ?min \<le> card (pl_spawning pl') + length (pl_children pl'))"
    using assms
  proof (induction n arbitrary: pl)
    case (Suc n)
    obtain r pl1 where r: "ensure_min_reserve cfg pl = (r, pl1)" by fastforce
    show ?case
    proof (cases r)
      case None
      then have "pl1 = pl" "?min = 0 \<or> ?min \<le> card (pl_spawning pl) + length (pl_children pl) \<or>
          cf_max_workers cfg \<le> card (pl_spawning pl) + length (pl_children pl)"
        using r by (auto simp: ensure_min_reserve_def Let_def split_def split: if_splits)
      with None r Suc.prems(2) show ?thesis by auto
    next
      case (Some i)
      obtain x pl2 where x: "spawn_reserved_slot i CIdle (spawns i) pl1 = (x, pl2)" by fastforce
      have "pl_reserved pl \<le> u64_max"
        using Suc.prems(2,3) reaches_ensure_min reaches_reserved order_trans by metis
      then have ok: "pool_ok cfg pl" "unat (pl_next_id pl) = pl_reserved pl"
        using Suc.prems(1) by (simp_all add: pool_inv_def)
      note round = ensure_min_round [where spawns = spawns, OF ok r [unfolded Some] x]
      have run: "pl' = (case x of Err _ \<Rightarrow> pl2 | Ok _ \<Rightarrow> ensure_min_workers n cfg spawns pl2)"
        using Suc.prems(2) r Some x by simp
      show ?thesis
      proof (cases x)
        case (Err e)
        with run have "pl' = pl2" by simp
        with Err round show ?thesis by auto
      next
        case (Ok y)
        have "reaches cfg pl pl1" using r by (intro reaches_step [where e = PEnsureMin]) simp
        moreover have "i \<in> pl_spawning pl1"
          using r Some by (auto simp: ensure_min_reserve_def reserve_spawn_slot_def Let_def split: if_splits)
        then have "reaches cfg pl1 pl2"
          using reaches_spawn_reserved [of i pl1 CIdle cfg "spawns i"] x by simp
        ultimately have "pool_inv cfg pl2"
          using Suc.prems(1) reaches_inv by blast
        with Suc.IH [of pl2] Suc.prems(3) run Ok have IH: "pl_closed pl' = pl_closed pl2"
          "pl_unlocked pl' = pl_unlocked pl2" "\<forall>j \<in> dom (pl_slots pl2). pl_slots pl' j = pl_slots pl2 j"
          "set (pl_children pl') \<inter> dom (pl_slots pl2) \<subseteq> set (pl_children pl2)"
          "spawns_work spawns \<longrightarrow> ?min \<le> card (pl_spawning pl2) + length (pl_children pl2) + n \<longrightarrow>
             ?min \<le> card (pl_spawning pl') + length (pl_children pl')"
          by simp_all
        have sub: "dom (pl_slots pl) \<subseteq> dom (pl_slots pl2)" using round(6) by (metis domIff subsetI)
        have "\<forall>j \<in> dom (pl_slots pl). pl_slots pl' j = pl_slots pl j"
        proof
          fix j assume j: "j \<in> dom (pl_slots pl)"
          then have "pl_slots pl' j = pl_slots pl2 j" by (intro bspec [OF IH(3)] subsetD [OF sub])
          also have "\<dots> = pl_slots pl j" using round(6) j by (rule bspec)
          finally show "pl_slots pl' j = pl_slots pl j" .
        qed
        moreover have "set (pl_children pl') \<inter> dom (pl_slots pl) \<subseteq> set (pl_children pl)"
          using IH(4) round(1,7) sub by blast
        ultimately show ?thesis using IH(1,2,5) round(3,4,5,8) by simp
      qed
    qed
  qed simp_all
  then show "pl_closed pl' = pl_closed pl" "pl_unlocked pl' = pl_unlocked pl"
    "\<forall>j \<in> dom (pl_slots pl). pl_slots pl' j = pl_slots pl j"
    "set (pl_children pl') \<inter> dom (pl_slots pl) \<subseteq> set (pl_children pl)"
    "spawns_work spawns \<Longrightarrow> ?min \<le> card (pl_spawning pl) + length (pl_children pl) + n \<Longrightarrow>
       ?min \<le> card (pl_spawning pl') + length (pl_children pl')"
    by blast+
qed

text \<open>A worker that is retired with replacement.\<close>

definition retired_for_good ::
  "pool_config \<Rightarrow> (usize \<Rightarrow> spawn_outcome) \<Rightarrow> usize \<Rightarrow> pooled_child \<Rightarrow> pool \<Rightarrow> pool \<Rightarrow> bool" where
  "retired_for_good cfg spawns i c pl pl' \<longleftrightarrow>
     slot_state pl' i = Some CDead \<and> i \<notin> set (pl_children pl') \<and> pl_closed pl' = pl_closed pl @ [i] \<and>
     pl_unlocked pl' = pl_unlocked pl @ (case pc_idb_path c of Some p \<Rightarrow> [(p, pc_pid c)] | None \<Rightarrow> []) \<and>
     (\<forall>j \<in> dom (pl_slots pl) - {i}. pl_slots pl' j = pl_slots pl j) \<and>
     (spawns_work spawns \<longrightarrow>
        min (cf_min_workers cfg) (cf_max_workers cfg) \<le> card (pl_spawning pl') + length (pl_children pl'))"

lemma mark_dead_retires:
  assumes "pool_inv cfg pl" "pl_slots pl i = Some c" "pc_state c \<noteq> CDead"
    and "pl' = mark_dead_inner cfg spawns i True pl" "pl_reserved pl' \<le> u64_max"
  shows "retired_for_good cfg spawns i c pl pl'"
proof -
  have "pl_reserved pl \<le> u64_max"
    using assms(4,5) reaches_mark_dead reaches_reserved order_trans by metis
  then have "pc_service c" using assms(1-3) by (auto simp: pool_inv_def pool_ok_def)
  define pl1 where "pl1 = mark_dead_inner cfg spawns i False pl"
  note parts = mark_dead_parts [OF assms(2,3) \<open>pc_service c\<close> pl1_def]
  have run: "pl' = ensure_min_workers (cf_min_workers cfg) cfg spawns pl1"
    using assms(4) by (simp add: mark_dead_replenish pl1_def)
  have "pool_inv cfg pl1" unfolding pl1_def using assms(1) reaches_mark_dead reaches_inv by blast
  note keeps = ensure_min_keeps [OF this run assms(5)]
  have "i \<in> dom (pl_slots pl1)" "slot_state pl1 i = Some CDead" "i \<notin> set (pl_children pl1)"
    using parts by (simp_all add: slot_state_def take_dead_worker_locked_def)
  then have "slot_state pl' i = Some CDead" "i \<notin> set (pl_children pl')"
    using keeps(3,4) by (auto simp: slot_state_def)
  moreover have "\<forall>j \<in> dom (pl_slots pl) - {i}. pl_slots pl' j = pl_slots pl j"
    using keeps(3) parts(1) by auto
  moreover have "min (cf_min_workers cfg) (cf_max_workers cfg) \<le>
      card (pl_spawning pl1) + length (pl_children pl1) + cf_min_workers cfg" by simp
  ultimately show ?thesis
    using keeps(1,2,5) parts(4,5) by (simp add: retired_for_good_def)
qed

text \<open>C9: a call through a valid lease that returns leaves the pool as it was and hands over the
  worker's answer; one that fails, runs out of time or is cancelled, and is not interrupted itself,
  ends with the error of its case and with the worker retired: dead, out of the pool's list, its
  service closed once and the lock of its database, if it had one, removed, while every other worker
  is as before. If workers can be started, the pool is back at its minimum.\<close>

theorem ended_call_retires_worker:
  assumes "pl = fold (pool_step cfg) es pool_new" and "call_tool cfg spawns h tool t oc pl = (r, pl')"
    and "pl_reserved pl' \<le> u64_max"
    and "pl_slots pl (wh_slot h) = Some c" and "pc_state c = CLeased (wh_session h)"
  shows "case oc of
      CallReturned x \<Rightarrow> r = Ok x \<and> pl' = pl
    | CallFailed e \<Rightarrow> (\<exists>m. r = Err (WorkerCrashed (unat (wh_slot h)) m)) \<and>
        retired_for_good cfg spawns (wh_slot h) c pl pl'
    | CallTimedOut \<Rightarrow> (\<exists>m. r = Err (TimeoutDetailed m)) \<and> retired_for_good cfg spawns (wh_slot h) c pl pl'
    | CallCancelled \<Rightarrow> (\<exists>m. r = Err (Cancelled m)) \<and> retired_for_good cfg spawns (wh_slot h) c pl pl'"
proof -
  have inv: "pool_inv cfg pl" using assms(1) pools.run_inv [OF pool_inv_new] by simp
  have "call_admission h tool pl = Ok ()"
    using assms(4,5) by (simp add: call_admission_def slot_state_def)
  moreover have "retired_for_good cfg spawns (wh_slot h) c pl pl'"
    if "pl' = mark_dead_inner cfg spawns (wh_slot h) True pl"
    using mark_dead_retires [OF inv assms(4) _ that assms(3)] assms(5) by simp
  ultimately show ?thesis
    using assms(2) by (cases oc) (auto simp: call_tool_def)
qed

theorem ended_call_retires_worker_witness:
  "let pl = fold (pool_step small_pool) [PLease ''a'' 0, PSpawned 0 (new_child (CLeased ''a''))] pool_new
   in retired_for_good small_pool spawns_ok 0 (new_child (CLeased ''a'')) pl
        (snd (call_tool small_pool spawns_ok \<lparr>wh_slot = 0, wh_session = ''a''\<rparr> ''rename'' 1000 CallTimedOut pl))"
proof -
  let ?pl = "fold (pool_step small_pool) [PLease ''a'' 0, PSpawned 0 (new_child (CLeased ''a''))] pool_new"
  let ?h = "\<lparr>wh_slot = 0, wh_session = ''a''\<rparr>"
  obtain r pl' where run: "call_tool small_pool spawns_ok ?h ''rename'' 1000 CallTimedOut ?pl = (r, pl')" by fastforce
  have "pl_slots ?pl (wh_slot ?h) = Some (new_child (CLeased ''a''))" by (simp add: small_pool_simps)
  moreover have "pc_state (new_child (CLeased ''a'')) = CLeased (wh_session ?h)" by (simp add: new_child_def)
  moreover have "pl_reserved (snd (call_tool small_pool spawns_ok ?h ''rename'' 1000 CallTimedOut ?pl)) \<le> u64_max"
    by (simp add: call_tool_def call_admission_def mark_dead_inner_def small_pool_simps)
  ultimately have "retired_for_good small_pool spawns_ok 0 (new_child (CLeased ''a'')) ?pl pl'"
    using ended_call_retires_worker [OF refl run] run by simp
  with run show ?thesis unfolding Let_def by (simp only: snd_conv)
qed

lemma shutdown_reserved:
  "pl_reserved (fold (\<lambda>i. mark_dead_inner cfg sp i False) xs pl) = pl_reserved pl"
proof (induction xs arbitrary: pl)
  case (Cons i xs)
  have "pl_reserved (mark_dead_inner cfg sp i False pl) = pl_reserved pl"
    by (auto simp: mark_dead_inner_def take_dead_worker_def retire_slot_def update_slot_def forget_slot_def
        finish_dead_worker_def Let_def split: option.splits)
  with Cons.IH show ?case by simp
qed simp

lemma shutdown_fold:
  assumes "distinct xs" "\<forall>i c. pl_slots pl i = Some c \<longrightarrow> (pc_service c \<longleftrightarrow> pc_state c \<noteq> CDead)"
    and "pl' = fold (\<lambda>i. mark_dead_inner cfg sp i False) xs pl"
  shows "pl_children pl' = filter (\<lambda>i. i \<notin> set xs) (pl_children pl) \<and> pl_spawning pl' = pl_spawning pl \<and>
    running pl' = running pl - set xs \<and> dom (pl_slots pl') = dom (pl_slots pl) \<and>
    set (pl_closed pl') = set (pl_closed pl) \<union> (running pl \<inter> set xs)"
  using assms
proof (induction xs arbitrary: pl)
  case (Cons i xs)
  define pl1 where "pl1 = mark_dead_inner cfg sp i False pl"
  have one: "pl_children pl1 = filter (\<lambda>j. j \<noteq> i) (pl_children pl) \<and> pl_spawning pl1 = pl_spawning pl \<and>
    running pl1 = running pl - {i} \<and> dom (pl_slots pl1) = dom (pl_slots pl) \<and>
    set (pl_closed pl1) = set (pl_closed pl) \<union> (running pl \<inter> {i}) \<and>
    (\<forall>i c. pl_slots pl1 i = Some c \<longrightarrow> (pc_service c \<longleftrightarrow> pc_state c \<noteq> CDead))"
  proof (cases "i \<in> running pl")
    case True
    then obtain c where c: "pl_slots pl i = Some c" "pc_state c \<noteq> CDead" by (auto simp: running_def)
    with Cons.prems(2) have "pc_service c" by blast
    note parts = mark_dead_parts [OF c this pl1_def]
    show ?thesis
      using c True Cons.prems(2) by (auto simp: parts running_def take_dead_worker_locked_def)
  next
    case False
    then have "pl_slots pl i = None \<or> slot_state pl i = Some CDead"
      by (cases "pl_slots pl i") (auto simp: running_def slot_state_def)
    then have "pl1 = forget_slot i pl" by (simp add: pl1_def mark_dead_gone)
    with False Cons.prems(2) show ?thesis by (auto simp: forget_slot_def running_def)
  qed
  have "distinct xs" "i \<notin> set xs" using Cons.prems(1) by simp_all
  moreover have "pl' = fold (\<lambda>i. mark_dead_inner cfg sp i False) xs pl1"
    using Cons.prems(3) by (simp add: pl1_def)
  ultimately show ?case
    using Cons.IH [of pl1] one by (auto simp: conj_commute)
qed simp

text \<open>C15: shutting the pool down, without interruption, leaves no worker running and none in the pool's
  list, and closes exactly the services of the workers that ran, each once. A worker whose start was
  under way is missed: it is not waited for, and when its start succeeds afterwards it is a running
  worker of the pool.\<close>

theorem shutdown_closes_running_workers:
  assumes "pl = fold (pool_step cfg) es pool_new" "pl_reserved pl \<le> u64_max" "pl' = shutdown_all cfg pl"
  shows "pl_children pl' = [] \<and> running pl' = {} \<and> distinct (pl_closed pl') \<and>
    set (pl_closed pl') = set (pl_closed pl) \<union> running pl \<and> set (pl_closed pl) \<inter> running pl = {} \<and>
    pl_spawning pl' = pl_spawning pl \<and>
    (\<forall>i \<in> pl_spawning pl. \<forall>c. pc_service c \<and> pc_state c \<noteq> CDead \<longrightarrow>
       running (pool_step cfg (PSpawned i c) pl') = {i} \<and> pl_children (pool_step cfg (PSpawned i c) pl') = [i])"
proof -
  have ok: "pool_ok cfg pl" using assms(1,2) pool_run_ok by simp
  obtain es' where "pl' = fold (pool_step cfg) es' pl" using reaches_shutdown assms(3) by (auto simp: reaches_def)
  then have "pl' = fold (pool_step cfg) (es @ es') pool_new" using assms(1) by simp
  have run: "pl_children pl' = []" "running pl' = running pl - set (pl_children pl)" "pl_spawning pl' = pl_spawning pl"
    "set (pl_closed pl') = set (pl_closed pl) \<union> (running pl \<inter> set (pl_children pl))"
    using shutdown_fold [of "pl_children pl" pl pl' cfg "\<lambda>_. ((Err [], Err []), 0)"] ok assms(3)
    by (auto simp: shutdown_all_def pool_ok_def)
  have sub: "running pl \<subseteq> set (pl_children pl)" "set (pl_closed pl) \<inter> running pl = {}"
    using ok by (auto simp: running_def pool_ok_def retired_def)
  have "pl_reserved pl' = pl_reserved pl"
    using assms(3) by (simp add: shutdown_all_def shutdown_reserved)
  then have "distinct (pl_closed pl')"
    using pool_run_ok [of cfg "es @ es'"] \<open>pl' = fold _ (es @ es') _\<close> assms(2) by (simp add: pool_ok_def)
  moreover have "running pl' = {}" using run(2) sub by auto
  moreover have "running (pool_step cfg (PSpawned i c) pl') = {i} \<and> pl_children (pool_step cfg (PSpawned i c) pl') = [i]"
    if "i \<in> pl_spawning pl" "pc_service c" "pc_state c \<noteq> CDead" for i c
    using that run(1,3) \<open>running pl' = {}\<close>
    by (auto simp: finish_spawn_reservation_def running_def)
  ultimately show ?thesis using run sub by auto
qed

theorem shutdown_closes_running_workers_witness:
  "let pl = fold (pool_step small_pool) [PLease ''a'' 0, PSpawned 0 (new_child (CLeased ''a''))] pool_new
   in running (shutdown_all small_pool pl) = {}"
proof -
  let ?pl = "fold (pool_step small_pool) [PLease ''a'' 0, PSpawned 0 (new_child (CLeased ''a''))] pool_new"
  have "pl_reserved ?pl \<le> u64_max" by (simp add: small_pool_simps)
  from shutdown_closes_running_workers [OF refl this refl] show ?thesis unfolding Let_def by blast
qed

section \<open>Leases\<close>

text \<open>What a lease request gets, in every reachable state: an idle worker of the pool, which
  is then leased to the session that asked while all other workers are as before; or, when no
  worker of the pool is idle, a fresh identifier to start one under, if fewer than \<open>max_workers\<close>
  run or start; or the report that exactly \<open>max_workers\<close> are active.\<close>

theorem lease_outcome_correct:
  assumes "pl = fold (pool_step cfg) es pool_new" "pl_reserved pl \<le> u64_max"
    and "lease_locked cfg session now pl = (oc, pl')"
  shows "case oc of
      LeasedIdle i \<Rightarrow> i \<in> set (pl_children pl) \<and> slot_state pl i = Some CIdle \<and>
        slot_state pl' = (slot_state pl)(i \<mapsto> CLeased session)
    | Exhausted active m \<Rightarrow> active = cf_max_workers cfg \<and> m = cf_max_workers cfg \<and>
        (\<forall>i. slot_state pl i \<noteq> Some CIdle) \<and> slot_state pl' = slot_state pl
    | Reserved i \<Rightarrow> i \<notin> pl_spawning pl \<union> dom (pl_slots pl) \<and> pl_spawning pl' = insert i (pl_spawning pl) \<and>
        card (pl_spawning pl) + card (running pl) < cf_max_workers cfg \<and>
        (\<forall>i. slot_state pl i \<noteq> Some CIdle) \<and> slot_state pl' = slot_state pl"
proof -
  have ok: "pool_ok cfg pl" using assms(1,2) pool_run_ok by simp
  have next_id: "unat (pl_next_id pl) = pl_reserved pl"
    using pools.run_inv [OF pool_inv_new, of cfg es] assms(1,2) by (simp add: pool_inv_def)
  show ?thesis
  proof (cases "lease_scan pl (pl_children pl) (card (pl_spawning pl)) []")
    case (Inl i)
    note idle = lease_scan_Inl [OF Inl]
    from Inl assms(3) have "oc = LeasedIdle i"
      and "pl' = update_slot i (\<lambda>c. c\<lparr>pc_state := CLeased session, pc_last_used := now\<rparr>) pl"
      by (simp_all add: lease_locked_def)
    with idle show ?thesis by (auto simp: slot_state_def update_slot_def fun_eq_iff)
  next
    case (Inr res)
    obtain active dead where res: "res = (active, dead)" by (cases res)
    note scan = lease_scan_Inr [OF Inr [unfolded res]]
    have active: "active = live_count pl" using scan by (simp add: live_count_def)
    have no_idle: "\<forall>i. slot_state pl i \<noteq> Some CIdle"
    proof (intro allI notI)
      fix i assume i: "slot_state pl i = Some CIdle"
      then have "i \<in> set (pl_children pl)" using ok by (auto simp: slot_state_def pool_ok_def)
      with scan i show False by auto
    qed
    have "\<forall>i \<in> pl_spawning pl \<union> dom (pl_slots pl). unat i < pl_reserved pl"
      using ok by (simp add: pool_ok_def)
    with next_id have fresh: "pl_next_id pl \<notin> pl_spawning pl \<union> dom (pl_slots pl)" by (metis less_irrefl)
    have limit: "live_count pl \<le> cf_max_workers cfg" using ok by (simp add: pool_ok_def)
    show ?thesis
    proof (cases "cf_max_workers cfg \<le> active")
      case True
      with assms(3) Inr res have "oc = Exhausted active (cf_max_workers cfg)" "slot_state pl' = slot_state pl"
        by (auto simp: lease_locked_def slot_state_def fun_eq_iff)
      with True active limit no_idle show ?thesis by simp
    next
      case False
      with assms(3) Inr res have "oc = Reserved (pl_next_id pl)" "slot_state pl' = slot_state pl"
        "pl_spawning pl' = insert (pl_next_id pl) (pl_spawning pl)"
        by (auto simp: lease_locked_def reserve_spawn_slot_def slot_state_def fun_eq_iff)
      with False active no_idle fresh running_card [OF ok] show ?thesis by simp
    qed
  qed
qed

theorem lease_outcome_correct_witness:
  "let pl = fold (pool_step small_pool) [PLease ''a'' 0, PSpawned 0 (new_child (CLeased ''a''))] pool_new
   in fst (lease_locked small_pool ''b'' 1 pl) = Exhausted 1 1 \<and> (\<forall>i. slot_state pl i \<noteq> Some CIdle)"
proof -
  let ?pl = "fold (pool_step small_pool) [PLease ''a'' 0, PSpawned 0 (new_child (CLeased ''a''))] pool_new"
  have run: "lease_locked small_pool ''b'' 1 ?pl = (Exhausted 1 1, snd (lease_locked small_pool ''b'' 1 ?pl))"
    by (simp add: small_pool_simps)
  have "pl_reserved ?pl \<le> u64_max" by (simp add: small_pool_simps)
  from lease_outcome_correct [OF refl this run] have "\<forall>i. slot_state ?pl i \<noteq> Some CIdle"
    unfolding lease_outcome.case by blast
  with run show ?thesis by (metis fst_conv)
qed

text \<open>A leased worker belongs to its session until that lease is released or the worker is
  retired: no other event of the pool, by whatever session, changes its state, and in
  particular no lease request hands it out again and no clean-up of idle workers takes it.\<close>

theorem leased_worker_is_kept:
  assumes "pl = fold (pool_step cfg) es pool_new" "pl_reserved pl \<le> u64_max"
    and "slot_state pl i = Some (CLeased s)"
    and "e \<noteq> PReleaseBegin i" "\<And>oc now. e \<noteq> PReleaseEnd i oc now" "e \<noteq> PTakeDead i"
  shows "slot_state (pool_step cfg e pl) i = Some (CLeased s)"
proof -
  have ok: "pool_ok cfg pl" using assms(1,2) pool_run_ok by simp
  show ?thesis
  proof (cases e)
    case (PLease session now)
    with assms(3) show ?thesis
    proof (cases "lease_scan pl (pl_children pl) (card (pl_spawning pl)) []")
      case (Inl j)
      from lease_scan_Inl [OF this] assms(3) have "j \<noteq> i" by auto
      with PLease Inl assms(3) show ?thesis by (simp add: lease_locked_def update_slot_def slot_state_def)
    qed (auto simp: lease_locked_def slot_state_def reserve_parts Let_def split_def)
  next
    case (PSpawned j c)
    have "i \<in> dom (pl_slots pl)" using assms(3) by (auto simp: slot_state_def)
    with ok have "i \<notin> pl_spawning pl" by (auto simp: pool_ok_def)
    with PSpawned assms(3) show ?thesis by (auto simp: finish_spawn_reservation_def slot_state_def)
  qed (use assms(3-6) in \<open>auto simp: pool_step_unfolds reserve_parts Let_def split_def slot_state_def
      take_dead_worker_locked_def split: option.split\<close>)
qed

theorem leased_worker_is_kept_witness:
  "slot_state (pool_step small_pool (PLease ''b'' 1)
     (fold (pool_step small_pool) [PLease ''a'' 0, PSpawned 0 (new_child (CLeased ''a''))] pool_new)) 0 = Some (CLeased ''a'')"
  by (rule leased_worker_is_kept [OF refl]) (simp_all add: small_pool_simps)


section \<open>Time limits\<close>

text \<open>The time a worker call may take never exceeds the configured limit, and a request that
  names a limit of its own gets at most ten minutes and ten seconds; a request for at least as
  much time as it may have is cut, a smaller one gets ten seconds of grace.\<close>

theorem worker_op_timeout_bounds:
  "worker_op_timeout cfg requested \<le> cf_op_timeout cfg \<and>
   worker_op_timeout cfg (Some secs) \<le> 610000 \<and>
   worker_op_timeout cfg (Some secs) = min (min secs 600 * 1000 + 10000) (cf_op_timeout cfg)"
  by (cases requested) (auto simp: worker_op_timeout_def MAX_TIMEOUT_SECS_def CHILD_TIMEOUT_GRACE_SECS_def)

section \<open>Database generations\<close>

lemma checked_add_u64_Some:
  "checked_add_u64 a b = Some c \<longleftrightarrow> unat a + unat b \<le> u64_max \<and> c = a + b"
  by (auto simp: checked_add_u64_def)

lemma next_generation_Ok:
  assumes "next_database_generation ss = (Ok g, ss')"
  shows "unat g = Suc (unat (ps_next_generation ss)) \<and> ps_next_generation ss' = g \<and>
    ps_lease ss' = ps_lease ss \<and> ps_id ss' = ps_id ss"
  using assms unat_Suc_u64 [of "ps_next_generation ss"]
  by (auto simp: next_database_generation_def checked_add_u64_def split: if_splits)

definition session_ok :: "pooled_session \<Rightarrow> bool" where
  "session_ok ss \<longleftrightarrow>
     (case ps_lease ss of
        None \<Rightarrow> True
      | Some (h, g) \<Rightarrow> g \<le> ps_next_generation ss \<and> wh_session h = ps_id ss)"

text \<open>C29: A database that a session opens anew has a generation larger than every generation the
  session used before. So after a close and a reopen, work bound to the earlier database is
  refused with \<open>DatabaseReplaced\<close>, and a conditional close for the earlier generation changes
  neither the session nor the pool.\<close>

theorem reopened_database_refuses_old_work:
  assumes "g \<le> ps_next_generation ss"
    and "lease_for_open cfg now spawns ss pl = (Ok (h, g', True), ss', pl')"
  shows "g < g' \<and> required_handle_for_generation ss' (Some g) = Err DatabaseReplaced \<and>
    required_handle_for_generation ss' (Some g') = Ok h \<and>
    close_if_generation cfg spawns oc now' g ss' pl' = (Ok NotCurrent, ss', pl')"
proof -
  have none: "ps_lease ss = None"
    using assms(2) by (auto simp: lease_for_open_def split: option.splits)
  obtain x ss1 where x: "next_database_generation ss = (x, ss1)" by fastforce
  obtain y pl1 where y: "pool_lease cfg (ps_id ss1) now spawns pl = (y, pl1)" by fastforce
  obtain g1 i where "x = Ok g1" "y = Ok i"
    using assms(2) none x y by (cases x; cases y) (auto simp: lease_for_open_def)
  with assms(2) none x y have "g1 = g'" "ss' = ss1\<lparr>ps_lease := Some (h, g')\<rparr>"
    by (auto simp: lease_for_open_def Let_def)
  moreover have "unat g' = Suc (unat (ps_next_generation ss))"
    using next_generation_Ok [of ss g' ss1] x \<open>x = Ok g1\<close> calculation by simp
  moreover from this assms(1) have "g < g'" by (simp add: word_le_nat_alt word_less_nat_alt)
  ultimately show ?thesis
    by (auto simp: required_handle_for_generation_def require_lease_generation_def close_if_generation_def)
qed

lemmas session_simps = small_pool_simps lease_for_open_def next_database_generation_def checked_add_u64_def
  pooled_session_new_def pool_lease_def spawn_reserved_slot_def spawns_ok_def spawn_slot_def Let_def

theorem reopened_database_refuses_old_work_witness:
  "let (r, ss, pl) = lease_for_open small_pool 0 spawns_ok (pooled_session_new ''s'') pool_new
   in required_handle_for_generation ss (Some 0) = Err DatabaseReplaced"
proof -
  let ?h = "\<lparr>wh_slot = 0, wh_session = ''s''\<rparr>"
  let ?run = "lease_for_open small_pool 0 spawns_ok (pooled_session_new ''s'') pool_new"
  have run: "?run = (Ok (?h, 1, True), fst (snd ?run), snd (snd ?run))"
    by (simp add: session_simps)
  have "required_handle_for_generation (fst (snd ?run)) (Some 0) = Err DatabaseReplaced"
    using reopened_database_refuses_old_work [OF _ run, of 0]
    by (simp add: pooled_session_new_def)
  then show ?thesis by (simp add: split_def)
qed


lemma pool_lease_leased:
  assumes "pool_lease cfg s now spawns pl = (Ok i, pl')"
  shows "slot_state pl' i = Some (CLeased s)"
proof -
  obtain oc pl1 where oc: "lease_locked cfg s now pl = (oc, pl1)" by fastforce
  show ?thesis
  proof (cases oc)
    case (LeasedIdle j)
    with oc have scan: "lease_scan pl (pl_children pl) (card (pl_spawning pl)) [] = Inl j"
      and "pl1 = update_slot j (\<lambda>c. c\<lparr>pc_state := CLeased s, pc_last_used := now\<rparr>) pl"
      by (auto simp: lease_locked_def Let_def split_def split: sum.splits if_splits)
    with lease_scan_Inl [OF scan] oc LeasedIdle assms show ?thesis
      by (auto simp: pool_lease_def slot_state_def update_slot_def)
  next
    case (Reserved j)
    with oc assms have run: "spawn_reserved_slot j (CLeased s) (spawns j) pl1 = (Ok i, pl')"
      by (simp add: pool_lease_def)
    then obtain c where "spawn_slot j (CLeased s) (fst (fst (spawns j))) (snd (fst (spawns j))) (snd (spawns j)) = Ok c"
      and "i = j" "pl' = finish_spawn_reservation j (Some c) pl1"
      by (auto simp: spawn_reserved_slot_def split: result.splits)
    with spawn_slot_Ok show ?thesis
      by (auto simp: finish_spawn_reservation_def slot_state_def)
  qed (use oc assms in \<open>simp add: pool_lease_def\<close>)
qed

text \<open>C30: The generation check protects a call only up to the moment it takes the handle. When the
  session closes its database and opens another between that check and the dispatch of the call,
  and the pool gives it the same worker again, the call bound to the old generation passes the
  worker's own check, which compares the session only, and runs on the new database.\<close>

theorem checked_call_can_reach_replaced_database:
  assumes "session_ok ss" "required_handle_for_generation ss (Some g) = Ok h"
    and "session_close cfg spawns oc t ss pl = (r, ss1, pl1)"
    and "lease_for_open cfg t' spawns ss1 pl1 = (Ok (h', g', True), ss2, pl2)"
    and "wh_slot h' = wh_slot h"
    and "result_error answer tool = None"
  shows "g < g' \<and> required_handle_for_generation ss2 (Some g) = Err DatabaseReplaced \<and>
    finish_call cfg spawns h tool secs (CallReturned answer) ss2 pl2 = (Ok answer, ss2, pl2)"
proof -
  have lease: "ps_lease ss = Some (h, g)"
    using assms(2) by (auto simp: required_handle_for_generation_def require_lease_generation_def result_iffs
        split: if_splits)
  then have ss1: "ss1 = ss\<lparr>ps_lease := None\<rparr>" and h: "wh_session h = ps_id ss" "g \<le> ps_next_generation ss"
    using assms(1,3) by (auto simp: session_close_def session_ok_def split: prod.splits)
  obtain x ss3 where x: "next_database_generation ss1 = (x, ss3)" by fastforce
  obtain y pl3 where y: "pool_lease cfg (ps_id ss3) t' spawns pl1 = (y, pl3)" by fastforce
  obtain g1 i where xy: "x = Ok g1" "y = Ok i"
    using assms(4) ss1 x y by (cases x; cases y) (auto simp: lease_for_open_def)
  have n: "unat g1 = Suc (unat (ps_next_generation ss))" "ps_id ss3 = ps_id ss"
    using next_generation_Ok [of ss1 g1 ss3] x xy ss1 by auto
  from assms(4) ss1 x y xy have eqs: "g' = g1" "wh_slot h' = i" "pl2 = pl3" "ss2 = ss3\<lparr>ps_lease := Some (h', g')\<rparr>"
    by (auto simp: lease_for_open_def Let_def)
  have "slot_state pl2 (wh_slot h) = Some (CLeased (ps_id ss))"
    using pool_lease_leased [of cfg "ps_id ss3" t' spawns pl1 i pl3] y xy n eqs assms(5) by simp
  then have "call_admission h tool pl2 = Ok ()" using h by (simp add: call_admission_def)
  moreover have "g < g'" using n eqs h(2) by (simp add: word_le_nat_alt word_less_nat_alt)
  ultimately show ?thesis
    using assms(6) eqs
    by (auto simp: finish_call_def call_tool_def required_handle_for_generation_def require_lease_generation_def)
qed


definition answered :: call_tool_result where
  "answered = \<lparr>ct_content = [Some ''ok''], ct_is_error = None, ct_structured = None\<rparr>"

definition opened_once :: "pooled_session \<times> pool" where
  "opened_once = snd (lease_for_open small_pool 0 spawns_ok (pooled_session_new ''s'') pool_new)"

definition closed_again :: "pooled_session \<times> pool" where
  "closed_again = snd (session_close small_pool spawns_ok (CloseResult answered) 1 (fst opened_once) (snd opened_once))"

definition opened_twice :: "pooled_session \<times> pool" where
  "opened_twice = snd (lease_for_open small_pool 2 spawns_ok (fst closed_again) (snd closed_again))"

theorem checked_call_can_reach_replaced_database_witness:
  "required_handle_for_generation (fst opened_once) (Some 1) = Ok \<lparr>wh_slot = 0, wh_session = ''s''\<rparr> \<and>
   required_handle_for_generation (fst opened_twice) (Some 1) = Err DatabaseReplaced \<and>
   fst (finish_call small_pool spawns_ok \<lparr>wh_slot = 0, wh_session = ''s''\<rparr> ''rename'' None (CallReturned answered)
          (fst opened_twice) (snd opened_twice)) = Ok answered"
proof -
  let ?h = "\<lparr>wh_slot = 0, wh_session = ''s''\<rparr>"
  have once: "fst opened_once = \<lparr>ps_id = ''s'', ps_lease = Some (?h, 1), ps_next_generation = 1\<rparr>"
    "pl_slots (snd opened_once) = [0 \<mapsto> (new_child (CLeased ''s''))\<lparr>pc_pid := Some 7\<rparr>]"
    "pl_children (snd opened_once) = [0]" "pl_spawning (snd opened_once) = {}"
    by (simp_all add: opened_once_def session_simps)
  have ok: "session_ok (fst opened_once)" "required_handle_for_generation (fst opened_once) (Some 1) = Ok ?h"
    by (simp_all add: once session_ok_def required_handle_for_generation_def require_lease_generation_def)
  have close: "session_close small_pool spawns_ok (CloseResult answered) 1 (fst opened_once) (snd opened_once) =
      (Ok (), fst closed_again, snd closed_again)"
    by (simp add: closed_again_def session_close_def once pool_release_def release_resets_def close_error_def
        answered_def small_pool_simps)
  have again: "fst closed_again = \<lparr>ps_id = ''s'', ps_lease = None, ps_next_generation = 1\<rparr>"
    "slot_state (snd closed_again) 0 = Some CIdle"
    "pl_children (snd closed_again) = [0]" "pl_spawning (snd closed_again) = {}"
    by (simp_all add: closed_again_def session_close_def once pool_release_def release_resets_def
        close_error_def answered_def small_pool_simps)
  have reopen: "lease_for_open small_pool 2 spawns_ok (fst closed_again) (snd closed_again) =
      (Ok (?h, 2, True), fst opened_twice, snd opened_twice)"
    by (simp add: opened_twice_def again lease_for_open_def next_database_generation_def checked_add_u64_def
        pool_lease_def lease_locked_def Let_def)
  from checked_call_can_reach_replaced_database [OF ok close reopen, of answered "''rename''" None] ok(2)
  show ?thesis by (simp add: result_error_def answered_def)
qed

end
