(* ===== verification/Operations.thy ===== *)
theory Operations
  imports Lifecycle
begin

text \<open>
  The history of foreground operations, \<open>src/src/server/operation.rs\<close>. A clock reading is the wall
  time in milliseconds and the monotonic time, both read once per call.
\<close>

section \<open>Data\<close>

datatype operation_status = Queued | Running | Completed | Failed | TimedOut | Cancelled_op

record operation_state =
  os_op_id :: string
  os_tool :: string
  os_target_summary :: string
  os_phase :: string
  os_status :: operation_status
  os_message :: string
  os_started_at :: nat
  os_started_at_ms :: nat
  os_last_update_ms :: nat

record operation_snapshot =
  sn_op_id :: string
  sn_tool :: string
  sn_target_summary :: string
  sn_phase :: string
  sn_status :: operation_status
  sn_message :: string
  sn_started_at_ms :: nat
  sn_last_update_ms :: nat
  sn_elapsed_ms :: nat

record operation_event =
  ev_op_id :: string
  ev_tool :: string
  ev_target_summary :: string
  ev_phase :: string
  ev_status :: operation_status
  ev_message :: string
  ev_timestamp_ms :: nat
  ev_elapsed_ms :: nat

record operation_registry =
  or_active_op_id :: "string option"
  or_current :: "(string, operation_state) hmap"
  or_events :: "operation_event list"

record recent_operations =
  ro_active_operation :: "operation_snapshot option"
  ro_recent_events :: "operation_event list"

record clock =
  now_ms :: nat
  instant :: nat

definition RECENT_EVENT_CAP :: nat where "RECENT_EVENT_CAP = 20"
definition MAX_RECENT_LIMIT :: nat where "MAX_RECENT_LIMIT = 50"

text \<open>\<open>as_millis() as u64\<close> keeps the low 64 bits.\<close>

definition elapsed_ms :: "clock \<Rightarrow> operation_state \<Rightarrow> nat" where
  "elapsed_ms clk s = (instant clk - os_started_at s) mod 2 ^ 64"

definition os_snapshot :: "clock \<Rightarrow> operation_state \<Rightarrow> operation_snapshot" where
  "os_snapshot clk s =
     \<lparr>sn_op_id = os_op_id s, sn_tool = os_tool s, sn_target_summary = os_target_summary s,
      sn_phase = os_phase s, sn_status = os_status s, sn_message = os_message s,
      sn_started_at_ms = os_started_at_ms s, sn_last_update_ms = os_last_update_ms s,
      sn_elapsed_ms = elapsed_ms clk s\<rparr>"

definition os_event :: "clock \<Rightarrow> operation_state \<Rightarrow> operation_event" where
  "os_event clk s =
     \<lparr>ev_op_id = os_op_id s, ev_tool = os_tool s, ev_target_summary = os_target_summary s,
      ev_phase = os_phase s, ev_status = os_status s, ev_message = os_message s,
      ev_timestamp_ms = os_last_update_ms s, ev_elapsed_ms = elapsed_ms clk s\<rparr>"

section \<open>Operations\<close>

definition operation_registry_new :: operation_registry where
  "operation_registry_new = \<lparr>or_active_op_id = None, or_current = [], or_events = []\<rparr>"

definition push_event :: "operation_event list \<Rightarrow> operation_event \<Rightarrow> operation_event list" where
  "push_event evs e = (if length evs = RECENT_EVENT_CAP then tl evs else evs) @ [e]"

definition op_start ::
  "string \<Rightarrow> string \<Rightarrow> string \<Rightarrow> clock \<Rightarrow> operation_registry \<Rightarrow> operation_registry" where
  "op_start op_id tool target_summary clk r =
     (let st = \<lparr>os_op_id = op_id, os_tool = tool, os_target_summary = target_summary, os_phase = ''queued'',
                os_status = Queued, os_message = ''Queued for IDA worker execution'',
                os_started_at = instant clk, os_started_at_ms = now_ms clk, os_last_update_ms = now_ms clk\<rparr>
      in r\<lparr>or_events := push_event (or_events r) (os_event clk st), or_active_op_id := Some op_id,
           or_current := hm_insert op_id st (or_current r)\<rparr>)"

definition record_progress ::
  "string \<Rightarrow> string \<Rightarrow> string \<Rightarrow> clock \<Rightarrow> operation_registry \<Rightarrow> operation_snapshot option \<times> operation_registry" where
  "record_progress op_id phase message clk r =
     (case hm_get (or_current r) op_id of
        None \<Rightarrow> (None, r)
      | Some s \<Rightarrow>
          (let s = s\<lparr>os_phase := phase, os_status := Running, os_message := message,
                     os_last_update_ms := now_ms clk\<rparr>
           in (Some (os_snapshot clk s),
               r\<lparr>or_current := hm_insert op_id s (or_current r), or_active_op_id := Some op_id,
                 or_events := push_event (or_events r) (os_event clk s)\<rparr>)))"

definition op_snapshot :: "string \<Rightarrow> clock \<Rightarrow> operation_registry \<Rightarrow> operation_snapshot option" where
  "op_snapshot op_id clk r = map_option (os_snapshot clk) (hm_get (or_current r) op_id)"

fun finished_phase :: "operation_status \<Rightarrow> string \<Rightarrow> string" where
  "finished_phase Completed phase = ''completed''"
| "finished_phase Failed phase = ''failed''"
| "finished_phase TimedOut phase = ''timed_out''"
| "finished_phase Cancelled_op phase = ''cancelled''"
| "finished_phase _ phase = phase"

definition op_finish ::
  "string \<Rightarrow> operation_status \<Rightarrow> string \<Rightarrow> clock \<Rightarrow> operation_registry \<Rightarrow>
   operation_snapshot option \<times> operation_registry" where
  "op_finish op_id status message clk r =
     (case hm_get (or_current r) op_id of
        None \<Rightarrow> (None, r)
      | Some s \<Rightarrow>
          (let s = s\<lparr>os_status := status, os_message := message, os_last_update_ms := now_ms clk\<rparr>;
               s = (if os_phase s = ''queued'' then s\<lparr>os_phase := finished_phase status (os_phase s)\<rparr> else s)
           in (Some (os_snapshot clk s),
               r\<lparr>or_current := hm_remove op_id (or_current r),
                 or_active_op_id := (if or_active_op_id r = Some op_id then None else or_active_op_id r),
                 or_events := push_event (or_events r) (os_event clk s)\<rparr>)))"

definition finish_completed where "finish_completed op_id message = op_finish op_id Completed message"
definition finish_failed where "finish_failed op_id message = op_finish op_id Failed message"
definition finish_timed_out where "finish_timed_out op_id message = op_finish op_id TimedOut message"
definition finish_cancelled where "finish_cancelled op_id message = op_finish op_id Cancelled_op message"

definition op_recent :: "nat option \<Rightarrow> clock \<Rightarrow> operation_registry \<Rightarrow> recent_operations" where
  "op_recent limit clk r =
     (let limit = max 1 (min MAX_RECENT_LIMIT (case limit of Some n \<Rightarrow> n | None \<Rightarrow> RECENT_EVENT_CAP))
      in \<lparr>ro_active_operation =
            map_option (os_snapshot clk) (Option.bind (or_active_op_id r) (hm_get (or_current r))),
          ro_recent_events = take limit (rev (or_events r))\<rparr>)"

text \<open>\<open>{:0w x}\<close> pads with zeros; a longer number is printed in full.\<close>

definition fmt_hex_pad :: "nat \<Rightarrow> nat \<Rightarrow> string" where
  "fmt_hex_pad w n = replicate (w - length (radix_digits 16 n)) (CHR ''0'') @ radix_digits 16 n"

definition next_operation_id :: "clock \<Rightarrow> u64 \<Rightarrow> string \<times> u64" where
  "next_operation_id clk counter =
     (''fg-'' @ fmt_hex_pad 16 (now_ms clk) @ ''-'' @ fmt_hex_pad 8 (unat counter), counter + 1)"

section \<open>Invariant\<close>

datatype op_call =
    Start string string string clock
  | Progress string string string clock
  | Finish string operation_status string clock

fun op_step :: "op_call \<Rightarrow> operation_registry \<Rightarrow> operation_registry" where
  "op_step (Start i tool target clk) r = op_start i tool target clk r"
| "op_step (Progress i phase msg clk) r = snd (record_progress i phase msg clk r)"
| "op_step (Finish i status msg clk) r = snd (op_finish i status msg clk r)"

definition registry_ok :: "operation_registry \<Rightarrow> bool" where
  "registry_ok r \<longleftrightarrow>
     hm_inv (or_current r) \<and> length (or_events r) \<le> RECENT_EVENT_CAP \<and>
     (\<forall>i. or_active_op_id r = Some i \<longrightarrow> hm_get (or_current r) i \<noteq> None) \<and>
     (\<forall>i s. hm_get (or_current r) i = Some s \<longrightarrow> os_op_id s = i \<and> os_status s \<in> {Queued, Running})"

lemma length_push_event: "length evs \<le> RECENT_EVENT_CAP \<Longrightarrow> length (push_event evs e) \<le> RECENT_EVENT_CAP"
  by (auto simp: push_event_def RECENT_EVENT_CAP_def)

lemma registry_ok_step: "registry_ok r \<Longrightarrow> registry_ok (op_step c r)"
  by (cases c) (auto simp: registry_ok_def op_start_def record_progress_def op_finish_def Let_def
      length_push_event hm_invs hm_laws split: option.splits)

interpretation operations: lifecycle op_step registry_ok
  by unfold_locales (rule registry_ok_step)

lemma registry_ok_new: "registry_ok operation_registry_new"
  by (simp add: registry_ok_def operation_registry_new_def)

section \<open>The log\<close>

text \<open>The events a call records: what the bounded queue is compared with.\<close>

fun op_emits :: "op_call \<Rightarrow> operation_registry \<Rightarrow> operation_event list" where
  "op_emits (Start i tool target clk) r =
     [os_event clk \<lparr>os_op_id = i, os_tool = tool, os_target_summary = target, os_phase = ''queued'',
        os_status = Queued, os_message = ''Queued for IDA worker execution'', os_started_at = instant clk,
        os_started_at_ms = now_ms clk, os_last_update_ms = now_ms clk\<rparr>]"
| "op_emits (Progress i phase msg clk) r =
     (case hm_get (or_current r) i of
        None \<Rightarrow> []
      | Some s \<Rightarrow> [os_event clk (s\<lparr>os_phase := phase, os_status := Running, os_message := msg,
                                  os_last_update_ms := now_ms clk\<rparr>)])"
| "op_emits (Finish i status msg clk) r =
     (case hm_get (or_current r) i of
        None \<Rightarrow> []
      | Some s \<Rightarrow>
          [os_event clk (s\<lparr>os_status := status, os_message := msg, os_last_update_ms := now_ms clk,
             os_phase := (if os_phase s = ''queued'' then finished_phase status ''queued'' else os_phase s)\<rparr>)])"

fun op_log :: "op_call list \<Rightarrow> operation_registry \<Rightarrow> operation_event list" where
  "op_log [] r = []"
| "op_log (c # cs) r = op_emits c r @ op_log cs (op_step c r)"

definition last_n :: "nat \<Rightarrow> 'a list \<Rightarrow> 'a list" where
  "last_n n xs = drop (length xs - n) xs"

lemma last_n_append: "last_n n (last_n n xs @ ys) = last_n n (xs @ ys)"
  by (cases "length xs \<le> n") (auto simp: last_n_def add.commute)

lemma push_event_last_n:
  "length evs \<le> RECENT_EVENT_CAP \<Longrightarrow> push_event evs e = last_n RECENT_EVENT_CAP (evs @ [e])"
  by (auto simp: push_event_def last_n_def RECENT_EVENT_CAP_def drop_Suc)

lemma last_n_short: "length xs \<le> n \<Longrightarrow> last_n n xs = xs"
  by (simp add: last_n_def)

lemma events_step:
  assumes "registry_ok r"
  shows "or_events (op_step c r) = last_n RECENT_EVENT_CAP (or_events r @ op_emits c r)"
proof -
  have "length (or_events r) \<le> RECENT_EVENT_CAP" using assms by (simp add: registry_ok_def)
  note len = this push_event_last_n [OF this] last_n_short [OF this]
  show ?thesis
    by (cases c) (auto simp: op_start_def record_progress_def op_finish_def Let_def len
        split: option.split)
qed

lemma events_run:
  "registry_ok r \<Longrightarrow> or_events (fold op_step cs r) = last_n RECENT_EVENT_CAP (or_events r @ op_log cs r)"
proof (induction cs arbitrary: r)
  case Nil
  then show ?case by (simp add: registry_ok_def last_n_short)
next
  case (Cons c cs)
  then show ?case
    by (simp add: registry_ok_step events_step last_n_append)
qed

lemma take_rev_last_n: "take n (rev (last_n m xs)) = take (min m n) (rev xs)"
  by (cases "length xs \<le> m") (auto simp: last_n_def rev_drop min_def)

text \<open>The recent operations are the newest recorded events, newest first: as many as asked for,
  between 1 and 50, but never more than 20, since no more are kept. The active operation that is
  reported is one that was started and has not finished.\<close>

theorem recent_operations_are_newest:
  "ro_recent_events (op_recent limit clk (fold op_step cs operation_registry_new)) =
     take (min 20 (max 1 (case limit of Some n \<Rightarrow> n | None \<Rightarrow> 20))) (rev (op_log cs operation_registry_new)) \<and>
   (case ro_active_operation (op_recent limit clk (fold op_step cs operation_registry_new)) of
      Some sn \<Rightarrow> sn_status sn = Queued \<or> sn_status sn = Running
    | None \<Rightarrow> or_active_op_id (fold op_step cs operation_registry_new) = None)"
proof -
  let ?r = "fold op_step cs operation_registry_new"
  have ok: "registry_ok ?r"
    by (rule operations.run_inv [OF registry_ok_new])
  have "or_events ?r = last_n 20 (op_log cs operation_registry_new)"
    using events_run [OF registry_ok_new] by (simp add: operation_registry_new_def RECENT_EVENT_CAP_def)
  moreover have "min 20 (max 1 (min 50 n)) = min 20 (max 1 n)" for n :: nat by auto
  ultimately have "ro_recent_events (op_recent limit clk ?r) =
      take (min 20 (max 1 (case limit of Some n \<Rightarrow> n | None \<Rightarrow> 20))) (rev (op_log cs operation_registry_new))"
    by (cases limit) (simp_all add: op_recent_def Let_def take_rev_last_n MAX_RECENT_LIMIT_def RECENT_EVENT_CAP_def)
  moreover have "case ro_active_operation (op_recent limit clk ?r) of
      Some sn \<Rightarrow> sn_status sn = Queued \<or> sn_status sn = Running | None \<Rightarrow> or_active_op_id ?r = None"
  proof (cases "or_active_op_id ?r")
    case (Some i)
    then obtain s where "hm_get (or_current ?r) i = Some s" using ok by (auto simp: registry_ok_def)
    moreover from this ok have "os_status s = Queued \<or> os_status s = Running"
      unfolding registry_ok_def by blast
    ultimately show ?thesis using Some by (simp add: op_recent_def os_snapshot_def)
  qed (simp add: op_recent_def)
  ultimately show ?thesis by simp
qed

section \<open>Identifiers\<close>

lemma hex_pad_parse: "n \<le> mx \<Longrightarrow> parse_digits 16 mx 0 (fmt_hex_pad w n) = Some n"
  by (simp add: fmt_hex_pad_def parse_digits_zeros parse_digits_radix_digits)

lemma hex_pad_no_dash: "CHR ''-'' \<notin> set (fmt_hex_pad w n)"
  using parse_digits_valid [OF hex_pad_parse [OF order_refl], of "CHR ''-''" w n]
  by (auto simp: to_digit_def)

lemma hex_pad_inj: "fmt_hex_pad w m = fmt_hex_pad w n \<Longrightarrow> m = n"
  by (metis hex_pad_parse max.cobounded1 max.cobounded2 option.inject)

lemma split_at_mark: "x \<notin> set a \<Longrightarrow> x \<notin> set c \<Longrightarrow> a @ x # b = c @ x # d \<longleftrightarrow> a = c \<and> b = d"
proof (induction a arbitrary: c)
  case Nil
  then show ?case by (cases c) auto
next
  case (Cons y a)
  then show ?case by (cases c) auto
qed

text \<open>Two operations share an identifier only if they read the same counter value in the same
  millisecond; the counter is advanced by every call, so that takes \<open>2 ^ 64\<close> operations in a
  millisecond.\<close>

lemma operation_ids_equal:
  "fst (next_operation_id clk c) = fst (next_operation_id clk' c') \<longleftrightarrow> now_ms clk = now_ms clk' \<and> c = c'"
  using hex_pad_inj hex_pad_no_dash
  by (auto simp: next_operation_id_def split_at_mark word_unat_eq_iff dest!: hex_pad_inj)

end
