(* ===== verification/Ida_Db.thy ===== *)
theory Ida_Db
  imports Params Errors
begin

text \<open>
  The database library as the request handlers see it: a record of what each call returns. The
  handlers take it as an argument. The iterators of the library are the lists they run through, a
  chain of cross references is the list of its links, and \<open>lower\<close> is \<open>str::to_lowercase\<close>, whose
  Unicode tables no handler depends on. The shared helpers of \<open>src/src/ida/handlers/mod.rs\<close>
  follow.
\<close>

section \<open>What the library returns\<close>

datatype block_test = IsNormal | IsRet | IsCndret | IsNoret | IsIndjump | IsExtern | IsError

record ida_block =
  bl_start :: u64
  bl_end :: u64
  bl_len :: nat
  bl_is :: "block_test \<Rightarrow> bool"
  bl_contains :: "u64 \<Rightarrow> bool"
  bl_succs :: "u64 list"
  bl_preds :: "u64 list"

record ida_func =
  fn_start :: u64
  fn_end :: u64
  fn_name :: "string option"
  fn_len :: nat
  fn_contains :: "u64 \<Rightarrow> bool"
  fn_cfg :: "(ida_block list, string) result"

datatype code_ref = NearCall | FarCall | OtherCode
datatype xref_type = XCode code_ref | XData

record ida_xref =
  xr_from :: u64
  xr_to :: u64
  xr_type :: xref_type
  xr_type_debug :: string
  xr_is_code :: bool

datatype operand_type = Near | Far | Mem | Displ | Phrase | Reg | Imm | OtherOperand

record ida_insn =
  in_len :: nat
  in_is_call :: bool
  in_operands :: "(operand_type \<times> u64 option) option list"

record ida_segment =
  sg_start :: u64
  sg_end :: u64
  sg_len :: nat
  sg_external :: bool

record ida_name =
  nm_address :: u64
  nm_name :: string
  nm_is_public :: bool
  nm_is_weak :: bool

record ida_db =
  db_functions :: "ida_func list"
  db_function_at :: "u64 \<Rightarrow> ida_func option"
  db_xrefs_to :: "u64 \<Rightarrow> ida_xref list"
  db_xrefs_from :: "u64 \<Rightarrow> ida_xref list"
  db_insn_at :: "u64 \<Rightarrow> ida_insn option"
  db_next_head :: "u64 \<Rightarrow> u64 option"
  db_address_to_string :: "u64 \<Rightarrow> string option"
  db_get_bytes :: "u64 \<Rightarrow> nat \<Rightarrow> u8 list"
  db_segments :: "ida_segment list"
  db_segment_at :: "u64 \<Rightarrow> ida_segment option"
  db_strings :: "(u64 \<times> string) list"
  db_names :: "ida_name list"
  db_find_text :: "string \<Rightarrow> u64 list"
  db_find_imm :: "u32 \<Rightarrow> u64 list"
  db_disasm_line :: "u64 \<Rightarrow> string option"

section \<open>Formatting and parsing addresses\<close>

definition fmt_addr :: "u64 \<Rightarrow> string" where
  "fmt_addr a = fmt_hex (unat a)"

definition sub_name :: "u64 \<Rightarrow> string" where
  "sub_name a = ''sub_'' @ radix_digits 16 (unat a)"

definition parse_address_str :: "string \<Rightarrow> (u64, tool_error) result" where
  "parse_address_str s0 =
     (let s = trim s0;
          radix = (\<lambda>r. ok_or (parse_u64 r (drop 2 s)) (InvalidAddress s))
      in if prefix ''0x'' s \<or> prefix ''0X'' s then radix 16
         else if prefix ''0b'' s \<or> prefix ''0B'' s then radix 2
         else if prefix ''0o'' s \<or> prefix ''0O'' s then radix 8
         else ok_or (parse_u64 10 s) (InvalidAddress s))"

definition try_parse_address :: "string \<Rightarrow> u64 option" where
  "try_parse_address s = (case parse_address_str s of Ok a \<Rightarrow> Some a | Err _ \<Rightarrow> None)"

definition hex_encode :: "u8 list \<Rightarrow> string" where
  "hex_encode bs = concat (map hex_byte bs)"

definition name_matches :: "string \<Rightarrow> string \<Rightarrow> bool" where
  "name_matches name query \<longleftrightarrow> name = query \<or> contains_str name query"

definition resolve_address_by_name :: "ida_db option \<Rightarrow> string \<Rightarrow> (u64, tool_error) result" where
  "resolve_address_by_name idb name =
     and_then (ok_or idb NoDatabaseOpen) (\<lambda>db.
       case find (\<lambda>f. case fn_name f of Some n \<Rightarrow> name_matches n name | None \<Rightarrow> False) (db_functions db) of
         Some f \<Rightarrow> Ok (fn_start f)
       | None \<Rightarrow>
           (case find (\<lambda>n. name_matches (nm_name n) name) (db_names db) of
              Some n \<Rightarrow> Ok (nm_address n)
            | None \<Rightarrow> Err (FunctionNameNotFound name)))"

text \<open>\<open>u64::checked_add_signed\<close>.\<close>

definition checked_add_signed :: "u64 \<Rightarrow> int \<Rightarrow> u64 option" where
  "checked_add_signed a d =
     (let v = int (unat a) + d in if 0 \<le> v \<and> v \<le> int u64_max then Some (word_of_int v) else None)"

definition resolve_address ::
  "ida_db option \<Rightarrow> u64 option \<Rightarrow> string option \<Rightarrow> int \<Rightarrow> (u64, tool_error) result" where
  "resolve_address idb addr name offset =
     and_then
       (case addr of
          Some a \<Rightarrow> Ok a
        | None \<Rightarrow>
            (case name of
               Some n \<Rightarrow> resolve_address_by_name idb n
             | None \<Rightarrow> Err (InvalidParams ''expected address or name'')))
       (\<lambda>base. ok_or (checked_add_signed base offset)
          (InvalidParams (''offset '' @ fmt_int offset @ '' produces an out-of-range address from base '' @ fmt_addr base)))"

section \<open>Reading back what was printed\<close>

lemma plain_0x: "list_all plain_char (fmt_hex n)"
  using radix_digits_plain [of 16 n] by (simp add: fmt_hex_def plain_char_def)

lemma parse_printed_address [simp]: "parse_address_str (fmt_addr a) = Ok a"
proof -
  have "trim (fmt_addr a) = fmt_addr a"
    using plain_0x [of "unat a"] by (auto simp: fmt_addr_def intro!: trim_plain simp: fmt_hex_def list_all_iff)
  then show ?thesis
    by (simp add: parse_address_str_def fmt_addr_def fmt_hex_def parse_u64_radix_digits)
qed

lemma fmt_addr_inj [simp]: "fmt_addr a = fmt_addr b \<longleftrightarrow> a = b"
  using parse_printed_address by (metis result.inject(1))

end
