(* ===== verification/Listing.thy ===== *)
theory Listing
  imports Ida_Db Hash_Map
begin

text \<open>
  The handlers that list parts of a database page by page: functions, strings, globals, imports
  and cross references. Every one of them filters a list, skips \<open>offset\<close> entries and returns at
  most \<open>limit\<close>. The contract of a pager is the locale \<open>pager\<close>; the handlers are its
  interpretations.
\<close>

section \<open>The contract\<close>

text \<open>A client that follows \<open>next_offset\<close> for at most \<open>n\<close> pages, and whether it came to the end. A page
  is \<open>None\<close> when the handler panics, and then so is the whole listing.\<close>

fun follow_pages ::
  "(nat \<Rightarrow> nat \<Rightarrow> ('a list \<times> nat option) option) \<Rightarrow> nat \<Rightarrow> nat \<Rightarrow> nat \<Rightarrow> ('a list \<times> bool) option" where
  "follow_pages page 0 lim off = Some ([], False)"
| "follow_pages page (Suc n) lim off =
     (case page off lim of
        None \<Rightarrow> None
      | Some (xs, None) \<Rightarrow> Some (xs, True)
      | Some (xs, Some off') \<Rightarrow> map_option (\<lambda>(ys, fin). (xs @ ys, fin)) (follow_pages page n lim off'))"

locale pager =
  fixes page :: "nat \<Rightarrow> nat \<Rightarrow> ('a list \<times> nat option) option"
    and items :: "'a list"
    and fits :: "nat \<Rightarrow> bool"
  assumes page_window: "length items \<le> u64_max \<Longrightarrow> 0 < lim \<Longrightarrow> fits lim \<Longrightarrow> page off lim =
    Some (take lim (drop off items), if off + lim < length items then Some (off + lim) else None)"
begin

lemma follow_from:
  assumes "length items \<le> u64_max" "0 < lim" "fits lim"
  shows "length items < off + n \<Longrightarrow> follow_pages page n lim off = Some (drop off items, True) \<or> n = 0"
proof (induction n arbitrary: off)
  case (Suc n)
  show ?case
  proof (cases "off + lim < length items")
    case False
    then show ?thesis using page_window [OF assms] by simp
  next
    case True
    then have page: "page off lim = Some (take lim (drop off items), Some (off + lim))"
      using page_window [OF assms] by simp
    have "length items < off + lim + n" "n \<noteq> 0" using Suc.prems assms(2) True by auto
    with Suc.IH [of "off + lim"] have "follow_pages page n lim (off + lim) = Some (drop (off + lim) items, True)"
      by simp
    moreover have "take lim (drop off items) @ drop (off + lim) items = drop off items"
      by (metis add.commute append_take_drop_id drop_drop)
    ultimately show ?thesis using page by simp
  qed
qed simp

lemma follow_all:
  "length items \<le> u64_max \<Longrightarrow> 0 < lim \<Longrightarrow> fits lim \<Longrightarrow> length items < n \<Longrightarrow>
   follow_pages page n lim 0 = Some (items, True)"
  using follow_from [of lim 0 n] by auto

end

section \<open>The shared loop\<close>

text \<open>One iteration counts the matching entry and keeps it when it is in the window.\<close>

fun page_loop :: "('a \<Rightarrow> bool) \<Rightarrow> ('a \<Rightarrow> 'b) \<Rightarrow> nat \<Rightarrow> nat \<Rightarrow> 'a list \<Rightarrow> nat \<times> 'b list \<Rightarrow> nat \<times> 'b list" where
  "page_loop P f offset limit [] (tot, acc) = (tot, acc)"
| "page_loop P f offset limit (x # xs) (tot, acc) =
     (if \<not> P x then page_loop P f offset limit xs (tot, acc)
      else if Suc tot \<le> offset then page_loop P f offset limit xs (Suc tot, acc)
      else if limit \<le> length acc then page_loop P f offset limit xs (Suc tot, acc)
      else page_loop P f offset limit xs (Suc tot, acc @ [f x]))"

definition saturating_add :: "nat \<Rightarrow> nat \<Rightarrow> nat" where
  "saturating_add a b = min (a + b) u64_max"

definition next_offset :: "nat \<Rightarrow> 'b list \<Rightarrow> nat \<Rightarrow> nat option" where
  "next_offset offset page tot =
     (if saturating_add offset (length page) < tot then Some (saturating_add offset (length page)) else None)"

lemma page_loop_spec:
  "length acc = min limit (tot - offset) \<Longrightarrow>
   page_loop P f offset limit xs (tot, acc) =
     (tot + length (filter P xs),
      acc @ map f (take (limit - length acc) (drop (offset - tot) (filter P xs))))"
proof (induction xs arbitrary: tot acc)
  case (Cons x xs)
  show ?case
  proof (cases "P x")
    case True
    consider "Suc tot \<le> offset" | "offset \<le> tot" "limit \<le> length acc" | "offset \<le> tot" "length acc < limit"
      by linarith
    then show ?thesis
    proof cases
      case 1
      then have "offset - tot = Suc (offset - Suc tot)" by simp
      with 1 True Cons show ?thesis by simp
    next
      case 2
      then have "length acc = min limit (Suc tot - offset)" using Cons.prems by simp
      with 2 True Cons.IH [of acc "Suc tot"] show ?thesis by simp
    next
      case 3
      have "length (acc @ [f x]) = min limit (Suc tot - offset)" using Cons.prems 3 by simp
      from Cons.IH [OF this] 3 True show ?thesis
        by (simp add: Suc_diff_Suc [symmetric])
    qed
  qed (use Cons in simp)
qed simp

text \<open>Every paged listing is the window of the filtered list, its total and the next offset.\<close>

lemma page_loop_window:
  "page_loop P f offset limit xs (0, []) =
     (length (filter P xs), map f (take limit (drop offset (filter P xs))))"
  by (simp add: page_loop_spec)

lemma next_offset_window:
  assumes "length xs \<le> u64_max" "0 < limit"
  shows "next_offset offset (map f (take limit (drop offset xs))) (length xs) =
    (if offset + limit < length xs then Some (offset + limit) else None)"
  using assms by (auto simp: next_offset_def saturating_add_def min_def)

section \<open>Functions\<close>

record function_info =
  fi_address :: string
  fi_name :: string
  fi_size :: nat

record 'a listing =
  ls_items :: "'a list"
  ls_total :: nat
  ls_next_offset :: "nat option"

definition func_name :: "ida_func \<Rightarrow> string" where
  "func_name f = (case fn_name f of Some n \<Rightarrow> n | None \<Rightarrow> sub_name (fn_start f))"

definition info_of_func :: "ida_func \<Rightarrow> function_info" where
  "info_of_func f = \<lparr>fi_address = fmt_addr (fn_start f), fi_name = func_name f, fi_size = fn_len f\<rparr>"

definition passes_filter :: "(string \<Rightarrow> string) \<Rightarrow> string option \<Rightarrow> string \<Rightarrow> bool" where
  "passes_filter lower flt s \<longleftrightarrow> (case flt of Some f \<Rightarrow> contains_str (lower s) (lower f) | None \<Rightarrow> True)"

definition listing_of :: "nat \<Rightarrow> nat \<times> 'b list \<Rightarrow> 'b listing" where
  "listing_of offset res =
     \<lparr>ls_items = snd res, ls_total = fst res, ls_next_offset = next_offset offset (snd res) (fst res)\<rparr>"

text \<open>\<open>Vec::with_capacity\<close> asks for the whole buffer at once. It panics when the buffer is larger than
  \<open>isize::MAX\<close> bytes and aborts when the allocator refuses; \<open>alloc\<close> tells which sizes it grants.\<close>

definition ISIZE_MAX :: nat where "ISIZE_MAX = 2 ^ 63 - 1"

definition with_capacity :: "(nat \<Rightarrow> bool) \<Rightarrow> nat \<Rightarrow> nat \<Rightarrow> bool" where
  "with_capacity alloc elem_bytes n \<longleftrightarrow> n = 0 \<or> elem_bytes * n \<le> ISIZE_MAX \<and> alloc (elem_bytes * n)"

text \<open>Two strings of 24 bytes and a word.\<close>

definition FUNCTION_INFO_BYTES :: nat where "FUNCTION_INFO_BYTES = 56"

definition list_functions ::
  "(nat \<Rightarrow> bool) \<Rightarrow> (string \<Rightarrow> string) \<Rightarrow> string option \<Rightarrow> nat \<Rightarrow> nat \<Rightarrow> ida_db \<Rightarrow> function_info listing option" where
  "list_functions alloc lower flt offset limit db =
     (if \<not> with_capacity alloc FUNCTION_INFO_BYTES limit then None
      else Some (listing_of offset (page_loop (\<lambda>f. passes_filter lower flt (func_name f)) info_of_func offset limit
                   (db_functions db) (0, []))))"

definition handle_list_functions ::
  "(nat \<Rightarrow> bool) \<Rightarrow> (string \<Rightarrow> string) \<Rightarrow> ida_db option \<Rightarrow> nat \<Rightarrow> nat \<Rightarrow> string option \<Rightarrow>
   (function_info listing, tool_error) result option" where
  "handle_list_functions alloc lower idb offset limit flt =
     (case idb of
        None \<Rightarrow> Some (Err NoDatabaseOpen)
      | Some db \<Rightarrow> map_option Ok (list_functions alloc lower flt offset limit db))"

definition handle_resolve_function :: "ida_db option \<Rightarrow> string \<Rightarrow> (function_info, tool_error) result" where
  "handle_resolve_function idb name =
     and_then (ok_or idb NoDatabaseOpen) (\<lambda>db.
       case find (\<lambda>f. case fn_name f of Some n \<Rightarrow> name_matches n name | None \<Rightarrow> False) (db_functions db) of
         Some f \<Rightarrow> Ok (info_of_func f)
       | None \<Rightarrow> Err (FunctionNameNotFound name))"

datatype lookup_entry = Found string function_info | NotFound string

definition lookup_one :: "ida_db \<Rightarrow> string \<Rightarrow> lookup_entry" where
  "lookup_one db query =
     (case parse_address_str query of
        Ok addr \<Rightarrow>
          (case db_function_at db addr of
             Some f \<Rightarrow> Found query (info_of_func f)
           | None \<Rightarrow> NotFound query)
      | Err _ \<Rightarrow>
          (case find (\<lambda>i. name_matches (fi_name i) query) (map info_of_func (db_functions db)) of
             Some i \<Rightarrow> Found query i
           | None \<Rightarrow> NotFound query))"

definition handle_lookup_funcs :: "ida_db option \<Rightarrow> string list \<Rightarrow> (lookup_entry list, tool_error) result" where
  "handle_lookup_funcs idb queries =
     and_then (ok_or idb NoDatabaseOpen) (\<lambda>db. Ok (map (lookup_one db) queries))"

record function_range_info =
  fr_address :: string
  fr_name :: string
  fr_start :: string
  fr_end :: string
  fr_size :: nat

definition handle_function_at :: "ida_db option \<Rightarrow> u64 \<Rightarrow> (function_range_info, tool_error) result" where
  "handle_function_at idb addr =
     and_then (ok_or idb NoDatabaseOpen) (\<lambda>db.
     and_then (ok_or (db_function_at db addr) (FunctionNotFound addr)) (\<lambda>f.
       Ok \<lparr>fr_address = fmt_addr (fn_start f), fr_name = func_name f, fr_start = fmt_addr (fn_start f),
           fr_end = fmt_addr (fn_end f), fr_size = fn_len f\<rparr>))"


section \<open>Strings\<close>

record string_info =
  si_address :: string
  si_content :: string
  si_length :: nat

definition info_of_string :: "u64 \<times> string \<Rightarrow> string_info" where
  "info_of_string e = \<lparr>si_address = fmt_addr (fst e), si_content = snd e, si_length = length (snd e)\<rparr>"

definition list_strings where
  "list_strings lower flt offset limit db =
     listing_of offset (page_loop (\<lambda>e. passes_filter lower flt (snd e)) info_of_string offset limit (db_strings db) (0, []))"

definition handle_strings ::
  "(string \<Rightarrow> string) \<Rightarrow> ida_db option \<Rightarrow> nat \<Rightarrow> nat \<Rightarrow> string option \<Rightarrow> (string_info listing, tool_error) result" where
  "handle_strings lower idb offset limit flt =
     and_then (ok_or idb NoDatabaseOpen) (\<lambda>db. Ok (list_strings lower flt offset limit db))"

record string_xref_info = string_info +
  sx_xrefs :: "string list"
  sx_xref_count :: nat

text \<open>The loop over the references to a string checks its bound after each one it takes, so it
  takes at least one.\<close>

fun xref_froms :: "nat \<Rightarrow> ida_xref list \<Rightarrow> string list \<Rightarrow> string list" where
  "xref_froms bound [] acc = acc"
| "xref_froms bound (x # xs) acc =
     (let acc = acc @ [fmt_addr (xr_from x)]
      in if bound \<le> length acc then acc else xref_froms bound xs acc)"

definition info_with_xrefs :: "ida_db \<Rightarrow> nat \<Rightarrow> u64 \<times> string \<Rightarrow> string_xref_info" where
  "info_with_xrefs db bound e =
     (let xrefs = xref_froms bound (db_xrefs_to db (fst e)) []
      in \<lparr>si_address = fmt_addr (fst e), si_content = snd e, si_length = length (snd e),
          sx_xrefs = xrefs, sx_xref_count = length xrefs\<rparr>)"

definition analyze_strings where
  "analyze_strings lower query offset limit db =
     listing_of offset (page_loop (\<lambda>e. passes_filter lower query (snd e)) (info_with_xrefs db 64) offset limit (db_strings db) (0, []))"

definition handle_analyze_strings where
  "handle_analyze_strings lower idb query offset limit =
     and_then (ok_or idb NoDatabaseOpen) (\<lambda>db. Ok (analyze_strings lower query offset limit db))"

definition string_matched :: "(string \<Rightarrow> string) \<Rightarrow> string \<Rightarrow> bool \<Rightarrow> bool \<Rightarrow> string \<Rightarrow> bool" where
  "string_matched lower query exact case_insensitive content =
     (let norm = (if case_insensitive then lower else (\<lambda>s. s))
      in if exact then norm content = norm query else contains_str (norm content) (norm query))"

definition find_strings where
  "find_strings lower query exact ci offset limit db =
     listing_of offset (page_loop (\<lambda>e. string_matched lower query exact ci (snd e)) info_of_string offset limit (db_strings db) (0, []))"

definition handle_find_string where
  "handle_find_string lower idb query exact ci offset limit =
     and_then (ok_or idb NoDatabaseOpen) (\<lambda>db. Ok (find_strings lower query exact ci offset limit db))"

definition xrefs_to_strings where
  "xrefs_to_strings lower query exact ci offset limit max_xrefs db =
     (let bound = max 1 (min 1024 max_xrefs)
      in listing_of offset
           (page_loop (\<lambda>e. string_matched lower query exact ci (snd e)) (info_with_xrefs db bound) offset limit (db_strings db) (0, [])))"

definition handle_xrefs_to_string where
  "handle_xrefs_to_string lower idb query exact ci offset limit max_xrefs =
     and_then (ok_or idb NoDatabaseOpen) (\<lambda>db. Ok (xrefs_to_strings lower query exact ci offset limit max_xrefs db))"

section \<open>Globals and imports\<close>

record global_info =
  gi_address :: string
  gi_name :: string
  gi_is_public :: bool
  gi_is_weak :: bool

definition info_of_name :: "ida_name \<Rightarrow> global_info" where
  "info_of_name n =
     \<lparr>gi_address = fmt_addr (nm_address n), gi_name = nm_name n, gi_is_public = nm_is_public n, gi_is_weak = nm_is_weak n\<rparr>"

definition list_globals where
  "list_globals lower query offset limit db =
     listing_of offset
       (page_loop (\<lambda>n. passes_filter lower query (nm_name n) \<and> db_function_at db (nm_address n) = None)
          info_of_name offset limit (db_names db) (0, []))"

definition handle_list_globals where
  "handle_list_globals lower idb query offset limit =
     and_then (ok_or idb NoDatabaseOpen) (\<lambda>db. Ok (list_globals lower query offset limit db))"

record import_info =
  im_address :: string
  im_name :: string
  im_ordinal :: nat

fun import_loop :: "ida_db \<Rightarrow> nat \<Rightarrow> nat \<Rightarrow> ida_name list \<Rightarrow> nat \<Rightarrow> import_info list \<Rightarrow> import_info list" where
  "import_loop db offset limit [] n acc = acc"
| "import_loop db offset limit (x # xs) n acc =
     (if (case db_segment_at db (nm_address x) of Some sg \<Rightarrow> sg_external sg | None \<Rightarrow> False)
      then if n < offset then import_loop db offset limit xs (Suc n) acc
           else if limit \<le> length acc then acc
           else import_loop db offset limit xs (Suc n)
                  (acc @ [\<lparr>im_address = fmt_addr (nm_address x), im_name = nm_name x, im_ordinal = n\<rparr>])
      else import_loop db offset limit xs n acc)"

definition handle_imports :: "ida_db option \<Rightarrow> nat \<Rightarrow> nat \<Rightarrow> (import_info list, tool_error) result" where
  "handle_imports idb offset limit =
     and_then (ok_or idb NoDatabaseOpen) (\<lambda>db. Ok (import_loop db offset limit (db_names db) 0 []))"

record export_info =
  ex_address :: string
  ex_name :: string
  ex_is_public :: bool

fun export_loop :: "nat \<Rightarrow> nat \<Rightarrow> ida_name list \<Rightarrow> nat \<Rightarrow> export_info list \<Rightarrow> export_info list" where
  "export_loop offset limit [] n acc = acc"
| "export_loop offset limit (x # xs) n acc =
     (if n < offset then export_loop offset limit xs (Suc n) acc
      else if limit \<le> length acc then acc
      else export_loop offset limit xs (Suc n)
             (acc @ [\<lparr>ex_address = fmt_addr (nm_address x), ex_name = nm_name x, ex_is_public = nm_is_public x\<rparr>]))"

definition handle_exports :: "ida_db option \<Rightarrow> nat \<Rightarrow> nat \<Rightarrow> (export_info list, tool_error) result" where
  "handle_exports idb offset limit =
     and_then (ok_or idb NoDatabaseOpen) (\<lambda>db. Ok (export_loop offset limit (db_names db) 0 []))"

section \<open>Cross references\<close>

record xref_info =
  xi_from :: string
  xi_to :: string
  xi_type :: string
  xi_is_code :: bool

record xref_list_result =
  xl_xrefs :: "xref_info list"
  xl_truncated :: bool
  xl_next_offset :: "usize option"

definition to_xref_info :: "ida_xref \<Rightarrow> xref_info" where
  "to_xref_info x =
     \<lparr>xi_from = fmt_addr (xr_from x), xi_to = fmt_addr (xr_to x), xi_type = xr_type_debug x, xi_is_code = xr_is_code x\<rparr>"

fun take_window :: "'a list \<Rightarrow> usize \<Rightarrow> usize \<Rightarrow> usize \<Rightarrow> 'a list \<Rightarrow> 'a list \<times> bool" where
  "take_window [] offset limit skipped items = (items, False)"
| "take_window (x # xs) offset limit skipped items =
     (if skipped < offset then take_window xs offset limit (skipped + 1) items
      else if word_of_nat (length items) = limit then (items, True)
      else take_window xs offset limit skipped (items @ [x]))"

definition collect_window :: "ida_xref list \<Rightarrow> usize \<Rightarrow> usize \<Rightarrow> xref_list_result" where
  "collect_window chain offset limit =
     (let (window, truncated) = take_window chain offset limit 0 [];
          xrefs = map to_xref_info window
      in \<lparr>xl_xrefs = xrefs, xl_truncated = truncated,
          xl_next_offset = (if truncated then Some (offset + word_of_nat (length xrefs)) else None)\<rparr>)"

definition handle_xrefs_to :: "ida_db option \<Rightarrow> u64 \<Rightarrow> usize \<Rightarrow> usize \<Rightarrow> (xref_list_result, tool_error) result" where
  "handle_xrefs_to idb addr offset limit =
     and_then (ok_or idb NoDatabaseOpen) (\<lambda>db. Ok (collect_window (db_xrefs_to db addr) offset limit))"

definition handle_xrefs_from :: "ida_db option \<Rightarrow> u64 \<Rightarrow> usize \<Rightarrow> usize \<Rightarrow> (xref_list_result, tool_error) result" where
  "handle_xrefs_from idb addr offset limit =
     and_then (ok_or idb NoDatabaseOpen) (\<lambda>db. Ok (collect_window (db_xrefs_from db addr) offset limit))"

text \<open>The matrix looks each source up in a map that was filled in the order of the addresses.\<close>

definition xref_map :: "ida_db \<Rightarrow> u64 list \<Rightarrow> (u64, u64 set) hmap" where
  "xref_map db addrs = fold (\<lambda>a. hm_insert a (set (map xr_to (db_xrefs_from db a)))) addrs []"

definition xref_matrix :: "ida_db \<Rightarrow> u64 list \<Rightarrow> bool list list" where
  "xref_matrix db addrs =
     map (\<lambda>from. map (\<lambda>to. case hm_get (xref_map db addrs) from of Some s \<Rightarrow> to \<in> s | None \<Rightarrow> False) addrs) addrs"

definition handle_xref_matrix :: "ida_db option \<Rightarrow> u64 list \<Rightarrow> (string list \<times> bool list list, tool_error) result" where
  "handle_xref_matrix idb addrs =
     and_then (ok_or idb NoDatabaseOpen) (\<lambda>db. Ok (map fmt_addr addrs, xref_matrix db addrs))"

section \<open>The listings are pagers\<close>

abbreviation page_of :: "(nat \<Rightarrow> nat \<Rightarrow> 'a listing) \<Rightarrow> nat \<Rightarrow> nat \<Rightarrow> ('a list \<times> nat option) option" where
  "page_of f off lim \<equiv> Some (ls_items (f off lim), ls_next_offset (f off lim))"

abbreviation function_page ::
  "(nat \<Rightarrow> bool) \<Rightarrow> (string \<Rightarrow> string) \<Rightarrow> string option \<Rightarrow> ida_db \<Rightarrow> nat \<Rightarrow> nat \<Rightarrow> (function_info list \<times> nat option) option" where
  "function_page alloc lower flt db off lim \<equiv>
     map_option (\<lambda>l. (ls_items l, ls_next_offset l)) (list_functions alloc lower flt off lim db)"

lemma page_of_loop:
  assumes "length (map f (filter P xs)) \<le> u64_max" "0 < lim"
  shows "page_of (\<lambda>off lim. listing_of off (page_loop P f off lim xs (0, []))) off lim =
    Some (take lim (drop off (map f (filter P xs))),
          if off + lim < length (map f (filter P xs)) then Some (off + lim) else None)"
  using assms by (simp add: listing_of_def page_loop_window take_map drop_map next_offset_window)

lemma pager_of_loop:
  "pager (page_of (\<lambda>off lim. listing_of off (page_loop P f off lim xs (0, [])))) (map f (filter P xs)) (\<lambda>_. True)"
  by unfold_locales (rule page_of_loop)

interpretation functions_pager: pager "function_page alloc lower flt db"
  "map info_of_func (filter (\<lambda>f. passes_filter lower flt (func_name f)) (db_functions db))"
  "with_capacity alloc FUNCTION_INFO_BYTES"
  by unfold_locales (simp only: list_functions_def not_True_eq_False if_False option.map page_of_loop)

interpretation strings_pager: pager "page_of (\<lambda>off lim. list_strings lower flt off lim db)"
  "map info_of_string (filter (\<lambda>e. passes_filter lower flt (snd e)) (db_strings db))" "\<lambda>_. True"
  unfolding list_strings_def by (rule pager_of_loop)

interpretation find_pager: pager "page_of (\<lambda>off lim. find_strings lower query exact ci off lim db)"
  "map info_of_string (filter (\<lambda>e. string_matched lower query exact ci (snd e)) (db_strings db))" "\<lambda>_. True"
  unfolding find_strings_def by (rule pager_of_loop)

interpretation analyze_pager: pager "page_of (\<lambda>off lim. analyze_strings lower query off lim db)"
  "map (info_with_xrefs db 64) (filter (\<lambda>e. passes_filter lower query (snd e)) (db_strings db))" "\<lambda>_. True"
  unfolding analyze_strings_def by (rule pager_of_loop)

interpretation string_xrefs_pager: pager "page_of (\<lambda>off lim. xrefs_to_strings lower query exact ci off lim mx db)"
  "map (info_with_xrefs db (max 1 (min 1024 mx))) (filter (\<lambda>e. string_matched lower query exact ci (snd e)) (db_strings db))"
  "\<lambda>_. True"
  unfolding xrefs_to_strings_def Let_def by (rule pager_of_loop)

interpretation globals_pager: pager "page_of (\<lambda>off lim. list_globals lower query off lim db)"
  "map info_of_name (filter (\<lambda>n. passes_filter lower query (nm_name n) \<and> db_function_at db (nm_address n) = None) (db_names db))"
  "\<lambda>_. True"
  unfolding list_globals_def by (rule pager_of_loop)

lemma take_window_skip:
  "skipped \<le> offset \<Longrightarrow> take_window xs offset limit skipped items =
     take_window (drop (unat (offset - skipped)) xs) offset limit offset items"
proof (induction xs arbitrary: skipped)
  case (Cons x xs)
  show ?case
  proof (cases "skipped = offset")
    case False
    with Cons.prems have less: "skipped < offset" by simp
    then have next_le: "skipped + 1 \<le> offset" by (simp add: inc_le)
    have "unat (offset - skipped) = Suc (unat (offset - (skipped + 1)))"
      using less next_le by (simp add: unat_sub less_imp_le word_less_nat_alt unat_Suc_u64_less)
    with less Cons.IH [OF next_le] show ?thesis by simp
  qed simp
qed simp

lemma take_window_take:
  "length items \<le> unat limit \<Longrightarrow> take_window xs offset limit offset items =
     (items @ take (unat limit - length items) xs, unat limit < length items + length xs)"
proof (induction xs arbitrary: items)
  case (Cons x xs)
  have len: "unat (word_of_nat (length items) :: usize) = length items"
    using Cons.prems unsigned_less [of limit, where ?'a = nat] by (simp add: unat_of_nat_u64)
  show ?case
  proof (cases "length items = unat limit")
    case True
    then have "word_of_nat (length items) = limit" by (simp add: word_unat_eq_iff)
    with True show ?thesis by simp
  next
    case False
    then have "word_of_nat (length items) \<noteq> limit" using len by auto
    moreover have "length (items @ [x]) \<le> unat limit" using False Cons.prems by simp
    moreover have "unat limit - length items = Suc (unat limit - Suc (length items))"
      using False Cons.prems by simp
    ultimately show ?thesis using Cons.IH [of "items @ [x]"] by simp
  qed
qed simp

lemma take_window_window:
  "take_window xs offset limit 0 [] =
     (take (unat limit) (drop (unat offset) xs), unat limit < length xs - unat offset)"
  using take_window_skip [of 0 offset xs limit "[]"] by (simp add: take_window_take)


abbreviation xref_page :: "ida_xref list \<Rightarrow> nat \<Rightarrow> nat \<Rightarrow> (xref_info list \<times> nat option) option" where
  "xref_page chain off lim \<equiv>
     (let r = collect_window chain (word_of_nat (min off u64_max)) (word_of_nat (min lim u64_max))
      in Some (xl_xrefs r, map_option unat (xl_next_offset r)))"

interpretation xrefs_pager: pager "xref_page chain" "map to_xref_info chain" "\<lambda>_. True"
proof unfold_locales
  fix off lim :: nat
  let ?o = "word_of_nat (min off u64_max) :: usize" and ?l = "word_of_nat (min lim u64_max) :: usize"
  assume len: "length (map to_xref_info chain) \<le> u64_max"
  have u: "unat ?o = min off u64_max" "unat ?l = min lim u64_max"
    by (simp_all add: unat_of_nat_u64)
  have window: "take (min lim u64_max) (drop (min off u64_max) chain) = take lim (drop off chain)"
    using len by (simp add: min_def)
  then have items: "xl_xrefs (collect_window chain ?o ?l) = take lim (drop off (map to_xref_info chain))"
    by (simp add: collect_window_def take_window_window u take_map drop_map Let_def)
  have "map_option unat (xl_next_offset (collect_window chain ?o ?l)) =
      (if off + lim < length (map to_xref_info chain) then Some (off + lim) else None)"
  proof (cases "off + lim < length chain")
    case True
    then have "unat (?o + word_of_nat lim) = off + lim"
      using len by (subst unat_add_u64) (simp_all add: unat_of_nat_u64)
    moreover have "unat (word_of_nat off :: usize) = off" "unat (word_of_nat lim :: usize) = lim"
      using True len by (simp_all add: unat_of_nat_u64)
    ultimately show ?thesis
      using True len by (simp add: collect_window_def take_window_window Let_def min_def)
  next
    case False
    then have "\<not> min lim u64_max < length chain - min off u64_max" using len by (auto simp: min_def)
    with False show ?thesis by (simp add: collect_window_def take_window_window u Let_def)
  qed
  with items show "xref_page chain off lim = Some (take lim (drop off (map to_xref_info chain)),
      if off + lim < length (map to_xref_info chain) then Some (off + lim) else None)"
    by (simp only: Let_def)
qed

section \<open>Properties\<close>

lemma filtered_length_le: "length xs \<le> n \<Longrightarrow> length (map f (filter P xs)) \<le> n"
  by (auto intro: order_trans [OF length_filter_le])

lemma filtered_length_less: "length (map f (filter P xs)) < Suc (length xs)"
  by (simp add: less_Suc_eq_le)

text \<open>C34: a client that asks for pages of a positive size and follows \<open>next_offset\<close> gets every string,
  global and cross reference that matches its filter exactly once, in database order, and comes to an
  end. For functions this holds for page sizes whose buffer can be allocated; for a larger one the
  very first page panics, even if the database has no function at all.\<close>

theorem paging_lists_everything_once:
  assumes "0 < lim"
    and "length (db_functions db) \<le> u64_max" "length (db_strings db) \<le> u64_max" "length (db_names db) \<le> u64_max"
    and "length (db_xrefs_to db a) \<le> u64_max"
  shows "follow_pages (function_page alloc lower flt db) (Suc (length (db_functions db))) lim 0 =
      (if with_capacity alloc FUNCTION_INFO_BYTES lim
       then Some (map info_of_func (filter (\<lambda>f. passes_filter lower flt (func_name f)) (db_functions db)), True)
       else None) \<and>
    follow_pages (page_of (\<lambda>off lim. list_strings lower flt off lim db)) (Suc (length (db_strings db))) lim 0 =
      Some (map info_of_string (filter (\<lambda>e. passes_filter lower flt (snd e)) (db_strings db)), True) \<and>
    follow_pages (page_of (\<lambda>off lim. find_strings lower query exact ci off lim db)) (Suc (length (db_strings db))) lim 0 =
      Some (map info_of_string (filter (\<lambda>e. string_matched lower query exact ci (snd e)) (db_strings db)), True) \<and>
    follow_pages (page_of (\<lambda>off lim. list_globals lower flt off lim db)) (Suc (length (db_names db))) lim 0 =
      Some (map info_of_name (filter (\<lambda>n. passes_filter lower flt (nm_name n) \<and> db_function_at db (nm_address n) = None) (db_names db)), True) \<and>
    follow_pages (xref_page (db_xrefs_to db a)) (Suc (length (db_xrefs_to db a))) lim 0 =
      Some (map to_xref_info (db_xrefs_to db a), True)"
proof -
  have "follow_pages (function_page alloc lower flt db) (Suc (length (db_functions db))) lim 0 =
      Some (map info_of_func (filter (\<lambda>f. passes_filter lower flt (func_name f)) (db_functions db)), True)"
    if "with_capacity alloc FUNCTION_INFO_BYTES lim"
    by (intro functions_pager.follow_all filtered_length_le filtered_length_less assms that)
  moreover have "follow_pages (function_page alloc lower flt db) (Suc (length (db_functions db))) lim 0 = None"
    if "\<not> with_capacity alloc FUNCTION_INFO_BYTES lim"
    using that by (simp add: list_functions_def)
  moreover have "follow_pages (page_of (\<lambda>off lim. list_strings lower flt off lim db)) (Suc (length (db_strings db))) lim 0 =
      Some (map info_of_string (filter (\<lambda>e. passes_filter lower flt (snd e)) (db_strings db)), True)"
    by (intro strings_pager.follow_all filtered_length_le filtered_length_less assms TrueI)
  moreover have "follow_pages (page_of (\<lambda>off lim. find_strings lower query exact ci off lim db)) (Suc (length (db_strings db))) lim 0 =
      Some (map info_of_string (filter (\<lambda>e. string_matched lower query exact ci (snd e)) (db_strings db)), True)"
    by (intro find_pager.follow_all filtered_length_le filtered_length_less assms TrueI)
  moreover have "follow_pages (page_of (\<lambda>off lim. list_globals lower flt off lim db)) (Suc (length (db_names db))) lim 0 =
      Some (map info_of_name (filter (\<lambda>n. passes_filter lower flt (nm_name n) \<and> db_function_at db (nm_address n) = None) (db_names db)), True)"
    by (intro globals_pager.follow_all filtered_length_le filtered_length_less assms TrueI)
  moreover have "follow_pages (xref_page (db_xrefs_to db a)) (Suc (length (db_xrefs_to db a))) lim 0 =
      Some (map to_xref_info (db_xrefs_to db a), True)"
    by (intro xrefs_pager.follow_all) (use assms in simp_all)
  ultimately show ?thesis
    by (intro conjI) (cases "with_capacity alloc FUNCTION_INFO_BYTES lim"; simp only: if_True if_False simp_thms)+
qed

definition empty_db :: ida_db where
  "empty_db =
     \<lparr>db_functions = [], db_function_at = Map.empty, db_xrefs_to = (\<lambda>_. []), db_xrefs_from = (\<lambda>_. []),
      db_insn_at = Map.empty, db_next_head = Map.empty, db_address_to_string = Map.empty,
      db_get_bytes = (\<lambda>_ n. replicate n 0), db_segments = [], db_segment_at = Map.empty, db_strings = [], db_names = [],
      db_find_text = (\<lambda>_. []), db_find_imm = (\<lambda>_. []), db_disasm_line = Map.empty\<rparr>"

definition three_strings :: ida_db where
  "three_strings = empty_db\<lparr>db_strings := [(1, ''ab''), (2, ''xy''), (3, ''cab'')]\<rparr>"

theorem paging_lists_everything_once_witness:
  "length (db_strings three_strings) = 3 \<and>
   follow_pages (page_of (\<lambda>off lim. list_strings id (Some ''ab'') off lim three_strings))
     (Suc (length (db_strings three_strings))) 1 0 =
     Some (map info_of_string [(1, ''ab''), (3, ''cab'')], True)"
proof -
  have strings: "db_strings three_strings = [(1, ''ab''), (2, ''xy''), (3, ''cab'')]"
    and rest: "db_functions three_strings = []" "db_names three_strings = []" "db_xrefs_to three_strings 0 = []"
    by (simp_all add: three_strings_def empty_db_def)
  have "filter (\<lambda>e. passes_filter id (Some ''ab'') (snd e)) (db_strings three_strings) = [(1, ''ab''), (3, ''cab'')]"
    by (simp add: strings passes_filter_def)
  moreover have "follow_pages (page_of (\<lambda>off lim. list_strings id (Some ''ab'') off lim three_strings))
      (Suc (length (db_strings three_strings))) 1 0 =
      Some (map info_of_string (filter (\<lambda>e. passes_filter id (Some ''ab'') (snd e)) (db_strings three_strings)), True)"
    by (rule paging_lists_everything_once [of 1 three_strings 0 "\<lambda>_. True" id "Some ''ab''" "[]" False False,
          THEN conjunct2, THEN conjunct1]) (simp_all add: strings rest)
  ultimately show ?thesis by (simp only: strings) simp
qed

end
