(* ===== verification/Search.thy ===== *)
theory Search
  imports Listing Protocol
begin

text \<open>
  Searching a database, \<open>src/src/ida/handlers/search.rs\<close>: byte patterns with wildcards, read in
  chunks that overlap by one byte less than the pattern, and instruction patterns over the
  disassembly. The main result is that the chunked search finds what a search over the whole
  segment finds.
\<close>

section \<open>Patterns\<close>

fun split_ws_fuel :: "nat \<Rightarrow> string \<Rightarrow> string \<Rightarrow> string list" where
  "split_ws_fuel 0 acc s = []"
| "split_ws_fuel (Suc n) acc s =
     (if s = [] then (if acc = [] then [] else [acc])
      else case find (\<lambda>w. prefix w s) ws_seqs of
             Some w \<Rightarrow> (if acc = [] then [] else [acc]) @ split_ws_fuel n [] (drop (length w) s)
           | None \<Rightarrow> split_ws_fuel n (acc @ [hd s]) (tl s))"

text \<open>Every step takes at least one byte.\<close>

definition split_whitespace :: "string \<Rightarrow> string list" where
  "split_whitespace s = split_ws_fuel (Suc (length s)) [] s"

fun chunks2 :: "string \<Rightarrow> string list" where
  "chunks2 (a # b # s) = [a, b] # chunks2 s"
| "chunks2 [a] = [[a]]"
| "chunks2 [] = []"

fun trim_start_0x :: "string \<Rightarrow> string" where
  "trim_start_0x (a # b # s) = (if a = CHR ''0'' \<and> b = CHR ''x'' then trim_start_0x s else a # b # s)"
| "trim_start_0x s = s"

definition parse_pattern_token :: "string \<Rightarrow> (u8 option, tool_error) result" where
  "parse_pattern_token tok =
     (if tok = ''?'' \<or> tok = ''??'' then Ok None
      else case parse_uint 16 255 (trim_start_0x tok) of
             Some b \<Rightarrow> Ok (Some (word_of_nat b))
           | None \<Rightarrow> Err (IdaError (''invalid byte: '' @ tok)))"

definition parse_pattern :: "string \<Rightarrow> (u8 option list, tool_error) result" where
  "parse_pattern pattern =
     (let trimmed = trim pattern
      in if trimmed = [] then Err (IdaError ''empty pattern'')
         else and_then
                (if CHR '' '' \<in> set trimmed then Ok (split_whitespace trimmed)
                 else if length trimmed mod 2 \<noteq> 0
                      then Err (IdaError (''invalid hex pattern length: '' @ trimmed))
                      else Ok (map from_utf8_lossy (chunks2 trimmed)))
                (\<lambda>tokens. collect_results (map parse_pattern_token tokens)))"

section \<open>Byte search\<close>

definition CHUNK_SIZE :: nat where "CHUNK_SIZE = 1024 * 1024"

definition byte_matches :: "u8 option \<Rightarrow> u8 \<Rightarrow> bool" where
  "byte_matches p b \<longleftrightarrow> (case p of Some x \<Rightarrow> b = x | None \<Rightarrow> True)"

text \<open>The inner loop compares the pattern with the bytes from position \<open>i\<close>.\<close>

definition matches_at :: "u8 option list \<Rightarrow> u8 list \<Rightarrow> nat \<Rightarrow> bool" where
  "matches_at pat bytes i \<longleftrightarrow> list_all (\<lambda>j. byte_matches (pat ! j) (bytes ! (i + j))) [0..<length pat]"

fun scan_chunk :: "(nat \<Rightarrow> bool) \<Rightarrow> u64 \<Rightarrow> nat \<Rightarrow> nat list \<Rightarrow> string list \<Rightarrow> string list" where
  "scan_chunk ok base max_results [] acc = acc"
| "scan_chunk ok base max_results (i # is) acc =
     (if max_results \<le> length acc then acc
      else scan_chunk ok base max_results is (if ok i then acc @ [fmt_addr (base + word_of_nat i)] else acc))"

function find_in_segment ::
  "ida_db \<Rightarrow> u8 option list \<Rightarrow> nat \<Rightarrow> ida_segment \<Rightarrow> nat \<Rightarrow> string list \<Rightarrow> string list" where
  "find_in_segment db pat max_results seg offset acc =
     (if offset < sg_len seg \<and> length acc < max_results
      then let remaining = sg_len seg - offset;
               read_len = min remaining (CHUNK_SIZE + (length pat - 1));
               base = sg_start seg + word_of_nat offset;
               bytes = db_get_bytes db base read_len
           in if length bytes < length pat then acc
              else let acc = scan_chunk (matches_at pat bytes) base max_results
                               [0..<Suc (length bytes - length pat)] acc
                   in if remaining \<le> CHUNK_SIZE then acc
                      else find_in_segment db pat max_results seg (offset + CHUNK_SIZE) acc
      else acc)"
  by pat_completeness auto
termination
  by (relation "measure (\<lambda>(db, pat, mx, seg, offset, acc). sg_len seg - offset)") (auto simp: CHUNK_SIZE_def)

declare find_in_segment.simps [simp del]

fun find_in_segments :: "ida_db \<Rightarrow> u8 option list \<Rightarrow> nat \<Rightarrow> ida_segment list \<Rightarrow> string list \<Rightarrow> string list" where
  "find_in_segments db pat max_results [] acc = acc"
| "find_in_segments db pat max_results (seg # segs) acc =
     (let acc = find_in_segment db pat max_results seg 0 acc
      in if max_results \<le> length acc then acc else find_in_segments db pat max_results segs acc)"

definition handle_find_bytes :: "ida_db option \<Rightarrow> string \<Rightarrow> nat \<Rightarrow> (json, tool_error) result" where
  "handle_find_bytes idb pattern max_results =
     and_then (ok_or idb NoDatabaseOpen) (\<lambda>db.
     and_then (parse_pattern pattern) (\<lambda>pat.
       if pat = [] then Err (IdaError ''empty pattern'')
       else let found = find_in_segments db pat max_results (db_segments db) []
            in Ok (JObject [(''pattern'', JString pattern), (''matches'', JArray (map JString found)),
                            (''count'', json_of_nat (length found))])))"

section \<open>The chunked search is the plain search\<close>

definition hit :: "(u64 \<Rightarrow> u8) \<Rightarrow> u8 option list \<Rightarrow> u64 \<Rightarrow> nat \<Rightarrow> bool" where
  "hit mem pat start k \<longleftrightarrow> (\<forall>j < length pat. byte_matches (pat ! j) (mem (start + word_of_nat (k + j))))"

definition segment_hits :: "(u64 \<Rightarrow> u8) \<Rightarrow> u8 option list \<Rightarrow> ida_segment \<Rightarrow> string list" where
  "segment_hits mem pat seg =
     map (\<lambda>k. fmt_addr (sg_start seg + word_of_nat k))
       (filter (hit mem pat (sg_start seg)) [0..<Suc (sg_len seg) - length pat])"

lemma scan_chunk_take:
  "scan_chunk ok base m is acc =
     acc @ take (m - length acc) (map (\<lambda>i. fmt_addr (base + word_of_nat i)) (filter ok is))"
proof (induction "is" arbitrary: acc)
  case (Cons i "is")
  show ?case
  proof (cases "ok i \<and> length acc < m")
    case True
    then have "m - length acc = Suc (m - Suc (length acc))" by (simp add: Suc_diff_Suc)
    with True Cons show ?thesis by simp
  qed (use Cons in auto)
qed simp

lemma take_append_take:
  "length acc' = length acc + length (take (m - length acc) xs) \<Longrightarrow> acc' = acc @ take (m - length acc) xs \<Longrightarrow>
   acc' @ take (m - length acc') ys = acc @ take (m - length acc) (xs @ ys)"
  by (auto simp: min_def)

lemma matches_at_hit:
  assumes "bytes = map (\<lambda>k. mem (base + word_of_nat k)) [0..<n]" "base = start + word_of_nat offset"
    "i + length pat \<le> n"
  shows "matches_at pat bytes i \<longleftrightarrow> hit mem pat start (offset + i)"
  using assms by (auto simp: matches_at_def hit_def list_all_iff algebra_simps)

lemma filter_upt_shift: "filter P [a..<a + n] = map ((+) a) (filter (\<lambda>i. P (a + i)) [0..<n])"
proof -
  have "map (\<lambda>i. i + a) [0..<n] = map ((+) a) [0..<n]" by (rule map_cong) simp_all
  then have "[a..<a + n] = map ((+) a) [0..<n]" by (simp add: map_add_upt add.commute)
  then show ?thesis by (simp add: filter_map comp_def)
qed


text \<open>What the library documents of \<open>get_bytes\<close>: all the bytes asked for.\<close>

definition reads_memory :: "ida_db \<Rightarrow> (u64 \<Rightarrow> u8) \<Rightarrow> bool" where
  "reads_memory db mem \<longleftrightarrow> (\<forall>a n. db_get_bytes db a n = map (\<lambda>k. mem (a + word_of_nat k)) [0..<n])"

lemma chunk_hits:
  assumes "reads_memory db mem" "base = start + word_of_nat offset" "length pat \<le> n"
  shows "map (\<lambda>i. fmt_addr (base + word_of_nat i))
      (filter (matches_at pat (db_get_bytes db base n)) [0..<Suc (n - length pat)]) =
    map (\<lambda>k. fmt_addr (start + word_of_nat k)) (filter (hit mem pat start) [offset..<offset + Suc (n - length pat)])"
proof -
  have bytes: "db_get_bytes db base n = map (\<lambda>k. mem (base + word_of_nat k)) [0..<n]"
    using assms(1) by (simp add: reads_memory_def)
  have "filter (matches_at pat (db_get_bytes db base n)) [0..<Suc (n - length pat)] =
      filter (\<lambda>i. hit mem pat start (offset + i)) [0..<Suc (n - length pat)]"
    using assms(3) by (intro filter_cong refl matches_at_hit [OF bytes assms(2)]) auto
  then show ?thesis
    by (simp only: filter_upt_shift map_map comp_def assms(2)) (simp add: algebra_simps)
qed

lemma upt_split: "a \<le> b \<Longrightarrow> b \<le> c \<Longrightarrow> [a..<c] = [a..<b] @ [b..<c]"
  using upt_add_eq_append [of a b "c - b"] by simp

lemma find_in_segment_hits:
  assumes "reads_memory db mem" "pat \<noteq> []"
  shows "find_in_segment db pat m seg offset acc =
    acc @ take (m - length acc) (map (\<lambda>k. fmt_addr (sg_start seg + word_of_nat k))
      (filter (hit mem pat (sg_start seg)) [offset..<Suc (sg_len seg) - length pat]))"
proof (induction "sg_len seg - offset" arbitrary: offset acc rule: less_induct)
  case less
  note simps = find_in_segment.simps [of db pat m seg offset acc]
  let ?hits = "\<lambda>is. map (\<lambda>k. fmt_addr (sg_start seg + word_of_nat k)) (filter (hit mem pat (sg_start seg)) is)"
  let ?base = "sg_start seg + word_of_nat offset" and ?stop = "Suc (sg_len seg) - length pat"
  define n where "n = min (sg_len seg - offset) (CHUNK_SIZE + (length pat - 1))"
  have len: "length (db_get_bytes db ?base n) = n"
    using assms(1) by (simp add: reads_memory_def)
  have pos: "0 < length pat" "0 < CHUNK_SIZE" using assms(2) by (simp_all add: CHUNK_SIZE_def)
  show ?case
  proof (cases "offset < sg_len seg \<and> length acc < m \<and> length pat \<le> n")
    case False
    then have "find_in_segment db pat m seg offset acc = acc"
      using simps len by (auto simp: n_def Let_def)
    moreover have "?stop \<le> sg_len seg" using assms(2) by (cases pat) simp_all
    then have "m - length acc = 0 \<or> ?stop \<le> offset"
      using False pos(2) by (auto simp: n_def min_def split: if_splits)
    ultimately show ?thesis by auto
  next
    case True
    define acc' where "acc' = acc @ take (m - length acc) (?hits [offset..<offset + Suc (n - length pat)])"
    have acc': "scan_chunk (matches_at pat (db_get_bytes db ?base n)) ?base m [0..<Suc (n - length pat)] acc = acc'"
      using True chunk_hits [OF assms(1) refl, of pat n] by (simp only: scan_chunk_take acc'_def)
    have "\<not> n < length pat" "offset < sg_len seg \<and> length acc < m" using True by auto
    then have step: "find_in_segment db pat m seg offset acc =
        (if sg_len seg - offset \<le> CHUNK_SIZE then acc' else find_in_segment db pat m seg (offset + CHUNK_SIZE) acc')"
      by (subst simps) (simp only: Let_def n_def [symmetric] len acc' simp_thms if_True if_False)
    show ?thesis
    proof (cases "sg_len seg - offset \<le> CHUNK_SIZE")
      case small: True
      then have "n = sg_len seg - offset" using pos by (simp add: n_def)
      then have all: "offset + Suc (n - length pat) = ?stop" using True by linarith
      from step small have "find_in_segment db pat m seg offset acc = acc'" by simp
      then show ?thesis by (simp only: acc'_def all)
    next
      case False
      have "[offset..<?stop] = [offset..<offset + Suc (n - length pat)] @ [offset + CHUNK_SIZE..<?stop]"
      proof (cases "sg_len seg - offset \<le> CHUNK_SIZE + (length pat - 1)")
        case t: True
        then have "n = sg_len seg - offset" by (simp add: n_def)
        with t True pos have "offset + Suc (n - length pat) = ?stop" "?stop \<le> offset + CHUNK_SIZE"
          by linarith+
        then show ?thesis by simp
      next
        case f: False
        then have "n = CHUNK_SIZE + (length pat - 1)" by (simp add: n_def)
        with f pos have "offset + Suc (n - length pat) = offset + CHUNK_SIZE" "offset + CHUNK_SIZE \<le> ?stop"
          by linarith+
        then show ?thesis using upt_split [of offset "offset + CHUNK_SIZE" ?stop] by simp
      qed
      then have split: "?hits [offset..<?stop] =
          ?hits [offset..<offset + Suc (n - length pat)] @ ?hits [offset + CHUNK_SIZE..<?stop]"
        by simp
      have "find_in_segment db pat m seg (offset + CHUNK_SIZE) acc' =
          acc' @ take (m - length acc') (?hits [offset + CHUNK_SIZE..<?stop])"
        using True pos(2) by (intro less.hyps) linarith
      also have "\<dots> = acc @ take (m - length acc) (?hits [offset..<?stop])"
        unfolding split by (rule take_append_take) (simp_all only: acc'_def length_append)
      finally show ?thesis using step False by simp
    qed
  qed
qed

lemma find_in_segments_hits:
  assumes "reads_memory db mem" "pat \<noteq> []"
  shows "find_in_segments db pat m segs acc = acc @ take (m - length acc) (concat (map (segment_hits mem pat) segs))"
proof (induction segs arbitrary: acc)
  case (Cons seg segs)
  define acc' where "acc' = acc @ take (m - length acc) (segment_hits mem pat seg)"
  have "find_in_segment db pat m seg 0 acc = acc'"
    by (simp add: find_in_segment_hits [OF assms] segment_hits_def acc'_def)
  then have "find_in_segments db pat m (seg # segs) acc = acc' @ take (m - length acc') (concat (map (segment_hits mem pat) segs))"
    using Cons.IH [of acc'] by (simp add: Let_def)
  also have "\<dots> = acc @ take (m - length acc) (segment_hits mem pat seg @ concat (map (segment_hits mem pat) segs))"
    by (rule take_append_take) (simp_all only: acc'_def length_append)
  finally show ?case by simp
qed simp

text \<open>C5: Searching for a byte pattern reads each segment in overlapping pieces of a mebibyte, and
  still reports exactly the addresses at which the whole pattern, wildcards included, matches
  inside one segment: in order, none twice, none missed at the seam of two pieces, and cut off
  only after the number of results asked for.\<close>

theorem find_bytes_finds_all_matches:
  assumes "reads_memory db mem" "parse_pattern pattern = Ok pat" "pat \<noteq> []"
  shows "\<exists>found. handle_find_bytes (Some db) pattern max_results =
      Ok (JObject [(''pattern'', JString pattern), (''matches'', JArray (map JString found)),
                   (''count'', json_of_nat (length found))]) \<and>
    found = take max_results (concat (map (segment_hits mem pat) (db_segments db)))"
  using assms find_in_segments_hits [OF assms(1,3), of max_results "db_segments db" "[]"]
  by (simp add: handle_find_bytes_def Let_def)


definition one_segment :: ida_db where
  "one_segment = empty_db\<lparr>db_segments := [\<lparr>sg_start = 0x10, sg_end = 0x14, sg_len = 4, sg_external = False\<rparr>]\<rparr>"

lemma one_segment_memory: "reads_memory one_segment (\<lambda>_. 0)"
  by (simp add: reads_memory_def one_segment_def empty_db_def map_replicate_const)

lemma parse_pattern_example: "parse_pattern ''00??'' = Ok [Some 0, None]"
proof -
  have "trim ''00??'' = ''00??''" by (rule trim_plain) (simp_all add: plain_char_def)
  moreover have "from_utf8_lossy ''00'' = ''00''" "from_utf8_lossy ''??'' = ''??''"
    by (simp_all add: from_utf8_lossy_ascii is_ascii_def)
  ultimately show ?thesis
    by (simp add: parse_pattern_def parse_pattern_token_def parse_uint_def to_digit_def)
qed

lemma one_segment_hits:
  "concat (map (segment_hits (\<lambda>_. 0) [Some 0, None]) (db_segments one_segment)) = [''0x10'', ''0x11'', ''0x12'']"
proof -
  have "segment_hits (\<lambda>_. 0) [Some 0, None] \<lparr>sg_start = 0x10, sg_end = 0x14, sg_len = 4, sg_external = False\<rparr> =
      map fmt_addr [0x10, 0x11, 0x12]"
    by (simp add: segment_hits_def hit_def byte_matches_def upt_rec less_Suc_eq nth_Cons')
  then show ?thesis by (simp add: one_segment_def fmt_addr_def fmt_hex_def radix_digits.simps)
qed

theorem find_bytes_finds_all_matches_witness:
  "parse_pattern ''00??'' = Ok [Some 0, None] \<and>
   handle_find_bytes (Some one_segment) ''00??'' 2 =
     Ok (JObject [(''pattern'', JString ''00??''), (''matches'', JArray [JString ''0x10'', JString ''0x11'']),
                  (''count'', json_of_nat 2)])"
  using find_bytes_finds_all_matches [OF one_segment_memory parse_pattern_example, of 2] parse_pattern_example
  by (simp add: one_segment_hits numeral_2_eq_2)

end
