(* ===== verification/Insn_Search.thy ===== *)
theory Insn_Search
  imports Search
begin

text \<open>
  Instruction search over the disassembly, \<open>src/src/ida/handlers/search.rs\<close>, and the searches the
  library does itself. Addresses only grow, which bounds the walk over a segment.
\<close>

section \<open>Disassembly lines\<close>

definition strip_comment :: "string \<Rightarrow> string" where
  "strip_comment line = takeWhile (\<lambda>c. c \<noteq> CHR '';'') line"

fun break_ws :: "nat \<Rightarrow> string \<Rightarrow> string \<Rightarrow> string \<times> string" where
  "break_ws 0 acc s = (acc, [])"
| "break_ws (Suc n) acc s =
     (if s = [] then (acc, [])
      else case find (\<lambda>w. prefix w s) ws_seqs of
             Some w \<Rightarrow> (acc, drop (length w) s)
           | None \<Rightarrow> break_ws n (acc @ [hd s]) (tl s))"

definition split_disasm_line :: "string \<Rightarrow> string \<times> string \<times> string" where
  "split_disasm_line line =
     (let trimmed = trim (strip_comment line)
      in if trimmed = [] then ([], [], [])
         else let (mnemonic, operands) = break_ws (Suc (length trimmed)) [] trimmed
              in (trim mnemonic, trim operands, trimmed))"

definition next_addr :: "ida_db \<Rightarrow> u64 \<Rightarrow> u64 option" where
  "next_addr db current =
     (case db_insn_at db current of
        Some insn \<Rightarrow>
          if in_len insn = 0 then None
          else Some (word_of_nat (min (unat current + in_len insn) u64_max))
      | None \<Rightarrow>
          (case db_next_head db current of
             Some n \<Rightarrow> if current < n then Some n else None
           | None \<Rightarrow> None))"

definition matches_pattern :: "string \<Rightarrow> string \<Rightarrow> bool \<Rightarrow> bool" where
  "matches_pattern haystack pattern case_insensitive \<longleftrightarrow>
     (if case_insensitive then contains_str (to_ascii_lowercase haystack) (to_ascii_lowercase pattern)
      else contains_str haystack pattern)"

section \<open>The walk over the segments\<close>

function scan_insns ::
  "ida_db \<Rightarrow> u64 \<Rightarrow> nat \<Rightarrow> (u64 \<Rightarrow> json option) \<Rightarrow> u64 \<Rightarrow> json list \<Rightarrow> json list" where
  "scan_insns db seg_end max_results check addr acc =
     (if addr < seg_end \<and> length acc < max_results
      then let acc = (case check addr of Some j \<Rightarrow> acc @ [j] | None \<Rightarrow> acc)
           in case next_addr db addr of
                Some n \<Rightarrow> if addr < n then scan_insns db seg_end max_results check n acc else acc
              | None \<Rightarrow> acc
      else acc)"
  by pat_completeness auto
termination
  by (relation "measure (\<lambda>(db, seg_end, mx, check, addr, acc). unat seg_end - unat addr)")
    (auto simp: word_less_nat_alt)

declare scan_insns.simps [simp del]

fun scan_segments ::
  "ida_db \<Rightarrow> nat \<Rightarrow> (ida_segment \<Rightarrow> u64 \<Rightarrow> json option) \<Rightarrow> ida_segment list \<Rightarrow> json list \<Rightarrow> json list" where
  "scan_segments db max_results check [] acc = acc"
| "scan_segments db max_results check (seg # segs) acc =
     (let acc = scan_insns db (sg_end seg) max_results (check seg) (sg_start seg) acc
      in if max_results \<le> length acc then acc else scan_segments db max_results check segs acc)"

definition ci_norm :: "bool \<Rightarrow> string \<Rightarrow> string" where
  "ci_norm case_insensitive s = (if case_insensitive then to_ascii_lowercase s else s)"

definition pattern_hits :: "string \<Rightarrow> string \<Rightarrow> string \<Rightarrow> bool" where
  "pattern_hits pat mnemonic line \<longleftrightarrow>
     (if CHR '' '' \<in> set pat \<or> CHR '','' \<in> set pat then contains_str line pat else contains_str mnemonic pat)"

text \<open>The instructions after the first one must match the remaining patterns one by one.\<close>

fun match_sequence :: "ida_db \<Rightarrow> u64 \<Rightarrow> bool \<Rightarrow> u64 \<Rightarrow> string list \<Rightarrow> u64 list \<Rightarrow> u64 list option" where
  "match_sequence db seg_end ci current [] seq_addrs = Some seq_addrs"
| "match_sequence db seg_end ci current (pat # pats) seq_addrs =
     (case next_addr db current of
        None \<Rightarrow> None
      | Some n \<Rightarrow>
          if \<not> n < seg_end then None
          else case db_disasm_line db n of
                 None \<Rightarrow> None
               | Some line \<Rightarrow>
                   (let (mnemonic, _, clean_line) = split_disasm_line line
                    in if mnemonic = [] then None
                       else if pattern_hits pat (ci_norm ci mnemonic) (ci_norm ci clean_line)
                       then match_sequence db seg_end ci n pats (seq_addrs @ [n])
                       else None))"

definition check_insns :: "ida_db \<Rightarrow> string list \<Rightarrow> bool \<Rightarrow> ida_segment \<Rightarrow> u64 \<Rightarrow> json option" where
  "check_insns db patterns_norm ci seg addr =
     (case db_disasm_line db addr of
        None \<Rightarrow> None
      | Some line \<Rightarrow>
          (let (mnemonic, _, clean_line) = split_disasm_line line
           in if mnemonic = [] then None
              else if \<not> pattern_hits (hd patterns_norm) (ci_norm ci mnemonic) (ci_norm ci clean_line) then None
              else if length patterns_norm = 1
              then Some (JObject [(''address'', JString (fmt_addr addr)), (''mnemonic'', JString mnemonic),
                                  (''line'', JString clean_line)])
              else map_option (\<lambda>seq_addrs.
                     JObject [(''address'', JString (fmt_addr addr)), (''mnemonic'', JString mnemonic),
                              (''line'', JString clean_line),
                              (''sequence'', JArray (map (\<lambda>a. JString (fmt_addr a)) seq_addrs))])
                     (match_sequence db (sg_end seg) ci addr (tl patterns_norm) [addr])))"

definition search_result :: "string list \<Rightarrow> bool \<Rightarrow> json list \<Rightarrow> json" where
  "search_result patterns ci found =
     JObject [(''patterns'', JArray (map JString patterns)), (''case_insensitive'', JBool ci),
              (''matches'', JArray found), (''count'', json_of_nat (length found))]"

definition handle_find_insns :: "ida_db option \<Rightarrow> string list \<Rightarrow> nat \<Rightarrow> bool \<Rightarrow> (json, tool_error) result" where
  "handle_find_insns idb patterns max_results ci =
     and_then (ok_or idb NoDatabaseOpen) (\<lambda>db.
       if patterns = [] then Err (InvalidParams ''empty patterns'')
       else Ok (search_result patterns ci
              (scan_segments db max_results (check_insns db (map (ci_norm ci) patterns) ci) (db_segments db) [])))"

definition check_operands :: "ida_db \<Rightarrow> string list \<Rightarrow> bool \<Rightarrow> ida_segment \<Rightarrow> u64 \<Rightarrow> json option" where
  "check_operands db patterns_norm ci seg addr =
     (case db_disasm_line db addr of
        None \<Rightarrow> None
      | Some line \<Rightarrow>
          (let (mnemonic, operands, clean_line) = split_disasm_line line
           in if mnemonic \<noteq> [] \<and> list_ex (\<lambda>pat. matches_pattern (ci_norm ci operands) pat False) patterns_norm
              then Some (JObject [(''address'', JString (fmt_addr addr)), (''mnemonic'', JString mnemonic),
                                  (''operands'', JString operands), (''line'', JString clean_line)])
              else None))"

definition handle_find_insn_operands ::
  "ida_db option \<Rightarrow> string list \<Rightarrow> nat \<Rightarrow> bool \<Rightarrow> (json, tool_error) result" where
  "handle_find_insn_operands idb patterns max_results ci =
     and_then (ok_or idb NoDatabaseOpen) (\<lambda>db.
       if patterns = [] then Err (InvalidParams ''empty patterns'')
       else Ok (search_result patterns ci
              (scan_segments db max_results (check_operands db (map (ci_norm ci) patterns) ci) (db_segments db) [])))"

text \<open>The library's own searches: the bound is tested after a match was taken.\<close>

fun take_matches :: "nat \<Rightarrow> u64 list \<Rightarrow> string list \<Rightarrow> string list" where
  "take_matches max_results [] acc = acc"
| "take_matches max_results (a # as) acc =
     (let acc = acc @ [fmt_addr a] in if max_results \<le> length acc then acc else take_matches max_results as acc)"

definition matches_json :: "string list \<Rightarrow> json" where
  "matches_json found = JObject [(''matches'', JArray (map JString found)), (''count'', json_of_nat (length found))]"

definition handle_search_text :: "ida_db option \<Rightarrow> string \<Rightarrow> nat \<Rightarrow> (json, tool_error) result" where
  "handle_search_text idb text max_results =
     and_then (ok_or idb NoDatabaseOpen) (\<lambda>db. Ok (matches_json (take_matches max_results (db_find_text db text) [])))"

definition handle_search_imm :: "ida_db option \<Rightarrow> u64 \<Rightarrow> nat \<Rightarrow> (json, tool_error) result" where
  "handle_search_imm idb imm max_results =
     and_then (ok_or idb NoDatabaseOpen) (\<lambda>db.
       Ok (matches_json (take_matches max_results (db_find_imm db (ucast imm)) [])))"

section \<open>What the walk visits\<close>

text \<open>The heads of a segment, as far as the library leads; the search reports the first
  \<open>max_results\<close> of them that pass the check.\<close>

function heads :: "ida_db \<Rightarrow> u64 \<Rightarrow> u64 \<Rightarrow> u64 list" where
  "heads db seg_end addr =
     (if addr < seg_end
      then addr # (case next_addr db addr of
                     Some n \<Rightarrow> if addr < n then heads db seg_end n else []
                   | None \<Rightarrow> [])
      else [])"
  by pat_completeness auto
termination
  by (relation "measure (\<lambda>(db, seg_end, addr). unat seg_end - unat addr)") (auto simp: word_less_nat_alt)

declare heads.simps [simp del]

lemma scan_insns_heads:
  "scan_insns db seg_end m check addr acc =
     acc @ take (m - length acc) (List.map_filter check (heads db seg_end addr))"
proof (induction db seg_end m check addr acc rule: scan_insns.induct)
  case (1 db seg_end m check addr acc)
  show ?case
  proof (cases "addr < seg_end \<and> length acc < m")
    case True
    then have more: "m - length acc = Suc (m - Suc (length acc))" by (simp add: Suc_diff_Suc)
    show ?thesis
      using True 1 more
      by (subst scan_insns.simps, subst heads.simps)
        (auto simp: map_filter_simps Let_def split: option.split)
  qed (auto simp: scan_insns.simps [of _ _ _ _ _ acc] heads.simps [of _ _ addr] map_filter_simps)
qed

lemma scan_segments_heads:
  "scan_segments db m check segs acc =
     acc @ take (m - length acc) (concat (map (\<lambda>seg. List.map_filter (check seg) (heads db (sg_end seg) (sg_start seg))) segs))"
proof (induction segs arbitrary: acc)
  case (Cons seg segs)
  define acc' where "acc' = acc @ take (m - length acc) (List.map_filter (check seg) (heads db (sg_end seg) (sg_start seg)))"
  have "scan_segments db m check (seg # segs) acc =
      acc' @ take (m - length acc') (concat (map (\<lambda>seg. List.map_filter (check seg) (heads db (sg_end seg) (sg_start seg))) segs))"
    using Cons.IH [of acc'] scan_insns_heads [of db "sg_end seg" m "check seg" "sg_start seg" acc]
    by (simp add: Let_def acc'_def [symmetric])
  also have "\<dots> = acc @ take (m - length acc) (List.map_filter (check seg) (heads db (sg_end seg) (sg_start seg)) @
      concat (map (\<lambda>seg. List.map_filter (check seg) (heads db (sg_end seg) (sg_start seg))) segs))"
    by (rule take_append_take) (simp_all only: acc'_def length_append)
  finally show ?case by simp
qed simp

end
