(* ===== verification/Controlflow.thy ===== *)
theory Controlflow
  imports Listing
begin

text \<open>
  Control flow, \<open>src/src/ida/handlers/controlflow.rs\<close>: basic blocks, callers, callees, the paths
  between two blocks of a function and the call graph around a function.
\<close>

section \<open>Basic blocks\<close>

record basic_block_info =
  bb_start :: string
  bb_end :: string
  bb_size :: nat
  bb_block_type :: string
  bb_successors :: "string list"
  bb_predecessors :: "string list"

definition block_type :: "ida_block \<Rightarrow> string" where
  "block_type b =
     (if bl_is b IsNormal then ''normal'' else if bl_is b IsRet then ''ret''
      else if bl_is b IsCndret then ''cndret'' else if bl_is b IsNoret then ''noret''
      else if bl_is b IsIndjump then ''indjump'' else if bl_is b IsExtern then ''extern''
      else if bl_is b IsError then ''error'' else ''unknown'')"

definition handle_basic_blocks :: "ida_db option \<Rightarrow> u64 \<Rightarrow> (basic_block_info list, tool_error) result" where
  "handle_basic_blocks idb addr =
     and_then (ok_or idb NoDatabaseOpen) (\<lambda>db.
     and_then (ok_or (db_function_at db addr) (FunctionNotFound addr)) (\<lambda>f.
     and_then (map_err IdaError (fn_cfg f)) (\<lambda>blocks.
       Ok (map (\<lambda>b. \<lparr>bb_start = fmt_addr (bl_start b), bb_end = fmt_addr (bl_end b), bb_size = bl_len b,
                     bb_block_type = block_type b, bb_successors = map fmt_addr (bl_succs b),
                     bb_predecessors = map fmt_addr (bl_preds b)\<rparr>) blocks))))"

section \<open>Callees and callers\<close>

text \<open>The entry for a call target and the key it is remembered by.\<close>

definition callee_entry :: "ida_db \<Rightarrow> u64 \<Rightarrow> u64 \<times> function_info" where
  "callee_entry db target =
     (case db_function_at db target of
        Some f \<Rightarrow> (fn_start f, info_of_func f)
      | None \<Rightarrow>
          (target, \<lparr>fi_address = fmt_addr target,
                    fi_name = (case db_address_to_string db target of Some s \<Rightarrow> s | None \<Rightarrow> sub_name target),
                    fi_size = 0\<rparr>))"

definition add_callee :: "ida_db \<Rightarrow> u64 \<Rightarrow> function_info list \<times> u64 set \<Rightarrow> function_info list \<times> u64 set" where
  "add_callee db target st =
     (let (key, info) = callee_entry db target; (callees, seen) = st
      in if key \<in> seen then st else (callees @ [info], insert key seen))"

definition is_direct_branch_operand :: "operand_type \<Rightarrow> bool" where
  "is_direct_branch_operand k \<longleftrightarrow> k = Near \<or> k = Far"

text \<open>The first operand that is a direct branch and carries an address.\<close>

fun first_branch :: "(operand_type \<times> u64 option) option list \<Rightarrow> u64 option" where
  "first_branch [] = None"
| "first_branch (None # ops) = first_branch ops"
| "first_branch (Some (k, a) # ops) =
     (if is_direct_branch_operand k \<and> a \<noteq> None then a else first_branch ops)"

definition direct_call_target :: "ida_db \<Rightarrow> u64 \<Rightarrow> u64 option" where
  "direct_call_target db addr =
     (case db_insn_at db addr of
        None \<Rightarrow> None
      | Some insn \<Rightarrow> if \<not> in_is_call insn then None else first_branch (in_operands insn))"

definition is_call_xref :: "ida_xref \<Rightarrow> bool" where
  "is_call_xref x \<longleftrightarrow> xr_type x = XCode NearCall \<or> xr_type x = XCode FarCall"

definition callees_at :: "ida_db \<Rightarrow> u64 \<Rightarrow> function_info list \<times> u64 set \<Rightarrow> function_info list \<times> u64 set" where
  "callees_at db addr st =
     (let calls = filter is_call_xref (db_xrefs_from db addr);
          st = fold (\<lambda>x. add_callee db (xr_to x)) calls st
      in if calls = [] then (case direct_call_target db addr of Some t \<Rightarrow> add_callee db t st | None \<Rightarrow> st)
         else st)"

text \<open>The address after this one; \<open>None\<close> where the loop breaks.\<close>

definition step_addr :: "ida_db \<Rightarrow> u64 \<Rightarrow> u64 option" where
  "step_addr db current =
     (case db_insn_at db current of
        Some insn \<Rightarrow>
          (let n = word_of_nat (min (unat current + in_len insn) u64_max)
           in if n \<le> current then None else Some n)
      | None \<Rightarrow>
          (case db_next_head db current of
             Some n \<Rightarrow> if n \<le> current then None else Some n
           | None \<Rightarrow> None))"

lemma step_addr_less: "step_addr db a = Some n \<Longrightarrow> a < n"
  by (auto simp: step_addr_def Let_def split: option.splits if_splits)

function callee_loop ::
  "ida_db \<Rightarrow> u64 \<Rightarrow> u64 \<Rightarrow> function_info list \<times> u64 set \<Rightarrow> function_info list \<times> u64 set" where
  "callee_loop db fin current st =
     (if current < fin
      then let st = callees_at db current st
           in case step_addr db current of Some n \<Rightarrow> callee_loop db fin n st | None \<Rightarrow> st
      else st)"
  by pat_completeness auto
termination
  by (relation "measure (\<lambda>(db, fin, current, st). unat fin - unat current)")
    (auto simp: word_less_nat_alt dest: step_addr_less)

declare callee_loop.simps [simp del]

definition handle_callees :: "ida_db option \<Rightarrow> u64 \<Rightarrow> (function_info list, tool_error) result" where
  "handle_callees idb addr =
     and_then (ok_or idb NoDatabaseOpen) (\<lambda>db.
     and_then (ok_or (db_function_at db addr) (FunctionNotFound addr)) (\<lambda>f.
       Ok (fst (callee_loop db (fn_end f) (fn_start f) ([], {})))))"

definition add_caller :: "ida_db \<Rightarrow> ida_xref \<Rightarrow> function_info list \<times> u64 set \<Rightarrow> function_info list \<times> u64 set" where
  "add_caller db x st =
     (if \<not> is_call_xref x then st
      else case db_function_at db (xr_from x) of
             None \<Rightarrow> st
           | Some f \<Rightarrow>
               (let (callers, seen) = st
                in if fn_start f \<in> seen then st
                   else (callers @ [info_of_func f], insert (fn_start f) seen)))"

definition handle_callers :: "ida_db option \<Rightarrow> u64 \<Rightarrow> (function_info list, tool_error) result" where
  "handle_callers idb addr =
     and_then (ok_or idb NoDatabaseOpen) (\<lambda>db.
     and_then (ok_or (db_function_at db addr) (FunctionNotFound addr)) (\<lambda>f.
       Ok (fst (fold (add_caller db) (db_xrefs_to db (fn_start f)) ([], {})))))"

section \<open>Paths between blocks\<close>

text \<open>\<open>dfs\<close> over block numbers. \<open>succ\<close> gives the successors of a block that are blocks of the
  function, and \<open>label\<close> prints a block. The path grows with every call and a call returns at once
  when it is longer than \<open>max_depth\<close>, so the recursion ends.\<close>

function (sequential) dfs ::
  "(nat \<Rightarrow> nat list) \<Rightarrow> (nat \<Rightarrow> string) \<Rightarrow> nat \<Rightarrow> nat \<Rightarrow> nat \<Rightarrow> nat \<Rightarrow> nat list \<Rightarrow> string list list \<Rightarrow> string list list"
and dfs_succs ::
  "(nat \<Rightarrow> nat list) \<Rightarrow> (nat \<Rightarrow> string) \<Rightarrow> nat \<Rightarrow> nat \<Rightarrow> nat \<Rightarrow> nat list \<Rightarrow> nat list \<Rightarrow> string list list \<Rightarrow> string list list" where
  "dfs succ label fin max_depth max_paths cur path results =
     (if max_paths \<le> length results then results
      else if max_depth < length path then results
      else let path = path @ [cur]
           in if cur = fin then results @ [map label path]
              else dfs_succs succ label fin max_depth max_paths (succ cur) path results)"
| "dfs_succs succ label fin max_depth max_paths [] path results = results"
| "dfs_succs succ label fin max_depth max_paths (n # ns) path results =
     (if n \<in> set path then dfs_succs succ label fin max_depth max_paths ns path results
      else let results = dfs succ label fin max_depth max_paths n path results
           in if max_paths \<le> length results then results
              else dfs_succs succ label fin max_depth max_paths ns path results)"
  by pat_completeness auto
termination
  by (relation "measures [\<lambda>x. case x of Inl (s, l, f, d, m, c, p, r) \<Rightarrow> 2 * (Suc d - length p) + 0
      | Inr (s, l, f, d, m, ns, p, r) \<Rightarrow> 2 * (Suc d - length p) + 1,
      \<lambda>x. case x of Inl _ \<Rightarrow> 0 | Inr (s, l, f, d, m, ns, p, r) \<Rightarrow> length ns]") auto


declare dfs.simps [simp del]

text \<open>\<open>position\<close>, the map from start address to block number (a later block with the same start
  replaces an earlier one), and the successors of a block by number.\<close>

definition position :: "('a \<Rightarrow> bool) \<Rightarrow> 'a list \<Rightarrow> nat option" where
  "position P xs = find (\<lambda>i. P (xs ! i)) [0..<length xs]"

definition index_by_start :: "ida_block list \<Rightarrow> (u64, nat) hmap" where
  "index_by_start blocks = fold (\<lambda>(i, b). hm_insert (bl_start b) i) (enumerate 0 blocks) []"

definition block_succ :: "ida_block list \<Rightarrow> nat \<Rightarrow> nat list" where
  "block_succ blocks i = List.map_filter (hm_get (index_by_start blocks)) (bl_succs (blocks ! i))"

definition block_label :: "ida_block list \<Rightarrow> nat \<Rightarrow> string" where
  "block_label blocks i = fmt_addr (bl_start (blocks ! i))"

definition paths_json :: "string list list \<Rightarrow> json" where
  "paths_json results =
     JObject [(''paths'', JArray (map (\<lambda>p. JArray (map JString p)) results)), (''count'', json_of_nat (length results))]"

definition handle_find_paths :: "ida_db option \<Rightarrow> u64 \<Rightarrow> u64 \<Rightarrow> nat \<Rightarrow> nat \<Rightarrow> (json, tool_error) result" where
  "handle_find_paths idb start fin max_paths max_depth =
     and_then (ok_or idb NoDatabaseOpen) (\<lambda>db.
     and_then (ok_or (db_function_at db start) (FunctionNotFound start)) (\<lambda>f.
       if \<not> fn_contains f fin
       then Err (NotSupported ''find_paths only supports addresses within the same function'')
       else
     and_then (map_err IdaError (fn_cfg f)) (\<lambda>blocks.
     and_then (ok_or (position (\<lambda>b. bl_contains b start) blocks) (AddressOutOfRange start)) (\<lambda>start_idx.
     and_then (ok_or (position (\<lambda>b. bl_contains b fin) blocks) (AddressOutOfRange fin)) (\<lambda>end_idx.
       Ok (paths_json (dfs (block_succ blocks) (block_label blocks) end_idx (max 1 max_depth) (max 1 max_paths)
             start_idx [] [])))))))"

section \<open>The search enumerates the simple paths\<close>

fun all_paths :: "(nat \<Rightarrow> nat list) \<Rightarrow> nat \<Rightarrow> nat \<Rightarrow> nat \<Rightarrow> nat list \<Rightarrow> nat list list" where
  "all_paths succ fin 0 cur path = []"
| "all_paths succ fin (Suc n) cur path =
     (if cur = fin then [path @ [cur]]
      else concat (map (\<lambda>s. if s \<in> set (path @ [cur]) then [] else all_paths succ fin n s (path @ [cur])) (succ cur)))"

definition simple_path :: "(nat \<Rightarrow> nat list) \<Rightarrow> nat \<Rightarrow> nat \<Rightarrow> nat list \<Rightarrow> bool" where
  "simple_path succ a b q \<longleftrightarrow>
     q \<noteq> [] \<and> hd q = a \<and> last q = b \<and> distinct q \<and> successively (\<lambda>x y. y \<in> set (succ x)) q"

lemma take_append_same:
  "r' = r @ take (m - length r) xs \<Longrightarrow> r' @ take (m - length r') ys = r @ take (m - length r) (xs @ ys)"
  by (auto simp: min_def)

lemma dfs_all_paths:
  "dfs succ label fin d m cur path results =
     results @ take (m - length results) (map (map label) (all_paths succ fin (Suc d - length path) cur path))"
  "dfs_succs succ label fin d m ns path results =
     results @ take (m - length results) (map (map label)
       (concat (map (\<lambda>s. if s \<in> set path then [] else all_paths succ fin (Suc d - length path) s path) ns)))"
proof (induction succ label fin d m cur path results and succ label fin d m ns path results rule: dfs_dfs_succs.induct)
  case (1 succ label fin d m cur path results)
  show ?case
  proof (cases "length results < m \<and> length path \<le> d")
    case True
    then have depth: "Suc d - length path = Suc (Suc d - length (path @ [cur]))"
      and more: "m - length results = Suc (m - Suc (length results))" by auto
    show ?thesis
    proof (cases "cur = fin")
      case fin: True
      with True more show ?thesis by (simp add: dfs.simps depth)
    next
      case False
      with True have "dfs succ label fin d m cur path results = dfs_succs succ label fin d m (succ cur) (path @ [cur]) results"
        by (simp add: dfs.simps)
      also have "\<dots> = results @ take (m - length results) (map (map label)
          (concat (map (\<lambda>s. if s \<in> set (path @ [cur]) then [] else all_paths succ fin (Suc d - length (path @ [cur])) s (path @ [cur])) (succ cur))))"
        using True False by (intro 1) auto
      finally show ?thesis by (simp only: depth all_paths.simps False if_False)
    qed
  qed (auto simp: dfs.simps)
next
  case (3 succ label fin d m n ns path results)
  let ?rest = "map (map label) (concat (map (\<lambda>s. if s \<in> set path then [] else all_paths succ fin (Suc d - length path) s path) ns))"
  show ?case
  proof (cases "n \<in> set path")
    case False
    define r where "r = dfs succ label fin d m n path results"
    have r: "r = results @ take (m - length results) (map (map label) (all_paths succ fin (Suc d - length path) n path))"
      using 3(2) [OF False] by (simp add: r_def)
    have "dfs_succs succ label fin d m (n # ns) path results = r @ take (m - length r) ?rest"
      using False 3(3) [OF False refl] by (simp add: r_def [symmetric] Let_def)
    also have "\<dots> = results @ take (m - length results)
        (map (map label) (all_paths succ fin (Suc d - length path) n path) @ ?rest)"
      by (rule take_append_same [OF r])
    finally show ?thesis using False by simp
  qed (use 3(1) in simp)
qed simp


lemma simple_path_Cons:
  "simple_path succ a b q \<longleftrightarrow>
     (a = b \<and> q = [a]) \<or>
     (a \<noteq> b \<and> (\<exists>s q'. q = a # q' \<and> s \<in> set (succ a) \<and> simple_path succ s b q' \<and> a \<notin> set q'))"
proof (cases q)
  case (Cons x q')
  show ?thesis
  proof (cases q')
    case Nil
    with Cons show ?thesis by (auto simp: simple_path_def)
  next
    case q': (Cons y q'')
    with Cons show ?thesis by (auto simp: simple_path_def)
  qed
qed (auto simp: simple_path_def)

lemma all_paths_iff:
  "cur \<notin> set path \<Longrightarrow> p \<in> set (all_paths succ fin n cur path) \<longleftrightarrow>
     (\<exists>q. p = path @ q \<and> simple_path succ cur fin q \<and> length q \<le> n \<and> set q \<inter> set path = {})"
proof (induction n arbitrary: cur path)
  case 0
  then show ?case by (auto simp: simple_path_def)
next
  case (Suc n)
  show ?case
  proof (cases "cur = fin")
    case True
    with Suc.prems show ?thesis by (auto simp: simple_path_Cons [of succ fin])
  next
    case False
    have "p \<in> set (all_paths succ fin (Suc n) cur path) \<longleftrightarrow>
        (\<exists>s \<in> set (succ cur). s \<notin> set (path @ [cur]) \<and> p \<in> set (all_paths succ fin n s (path @ [cur])))"
      using False by auto
    also have "\<dots> \<longleftrightarrow> (\<exists>s \<in> set (succ cur). s \<notin> set (path @ [cur]) \<and> (\<exists>q. p = (path @ [cur]) @ q \<and>
        simple_path succ s fin q \<and> length q \<le> n \<and> set q \<inter> set (path @ [cur]) = {}))"
      using Suc.IH by metis
    also have "\<dots> \<longleftrightarrow> (\<exists>q. p = path @ cur # q \<and> (\<exists>s \<in> set (succ cur). simple_path succ s fin q) \<and>
        length q \<le> n \<and> set q \<inter> set (path @ [cur]) = {})"
    proof -
      have "s \<notin> set (path @ [cur])" if "simple_path succ s fin q" "set q \<inter> set (path @ [cur]) = {}" for s q
        using that hd_in_set [of q] by (auto simp: simple_path_def)
      then show ?thesis by (simp only: append_assoc append.simps) blast
    qed
    also have "\<dots> \<longleftrightarrow> (\<exists>q. p = path @ q \<and> simple_path succ cur fin q \<and> length q \<le> Suc n \<and> set q \<inter> set path = {})"
      using False Suc.prems by (subst (2) simple_path_Cons) auto
    finally show ?thesis .
  qed
qed

text \<open>C4: The paths reported between two addresses are exactly the simple paths of the control-flow
  graph from the block of the first to the block of the second that take at most \<open>max_depth\<close>
  branches (at least one), in depth-first order and cut off only after \<open>max_paths\<close> of them (at
  least one).\<close>

theorem find_paths_are_the_simple_paths:
  assumes "db_function_at db start = Some f" "fn_contains f fin" "fn_cfg f = Ok blocks"
    and "position (\<lambda>b. bl_contains b start) blocks = Some a" "position (\<lambda>b. bl_contains b fin) blocks = Some b"
  shows "\<exists>all. set all = {q. simple_path (block_succ blocks) a b q \<and> length q \<le> Suc (max 1 max_depth)} \<and>
    handle_find_paths (Some db) start fin max_paths max_depth =
      Ok (paths_json (take (max 1 max_paths) (map (map (block_label blocks)) all)))"
proof (intro exI conjI)
  show "set (all_paths (block_succ blocks) b (Suc (max 1 max_depth)) a []) =
      {q. simple_path (block_succ blocks) a b q \<and> length q \<le> Suc (max 1 max_depth)}"
    using all_paths_iff [of a "[]"] by (auto simp del: all_paths.simps)
  show "handle_find_paths (Some db) start fin max_paths max_depth =
      Ok (paths_json (take (max 1 max_paths) (map (map (block_label blocks))
        (all_paths (block_succ blocks) b (Suc (max 1 max_depth)) a []))))"
    using assms by (simp add: handle_find_paths_def dfs_all_paths del: all_paths.simps)
qed


definition small_block :: "u64 \<Rightarrow> u64 list \<Rightarrow> ida_block" where
  "small_block a succs =
     \<lparr>bl_start = a, bl_end = a + 4, bl_len = 4, bl_is = (\<lambda>_. False), bl_contains = (\<lambda>x. a \<le> x \<and> x < a + 4),
      bl_succs = succs, bl_preds = []\<rparr>"

definition small_func :: ida_func where
  "small_func =
     \<lparr>fn_start = 0, fn_end = 12, fn_name = None, fn_len = 12, fn_contains = (\<lambda>x. x < 12),
      fn_cfg = Ok [small_block 0 [4, 8], small_block 4 [8, 0], small_block 8 []]\<rparr>"

definition small_db :: ida_db where
  "small_db = empty_db\<lparr>db_function_at := (\<lambda>a. if a < 12 then Some small_func else None)\<rparr>"

theorem find_paths_are_the_simple_paths_witness:
  "\<exists>all blocks. set all = {q. simple_path (block_succ blocks) 0 2 q \<and> length q \<le> 9} \<and>
     fn_cfg small_func = Ok blocks \<and>
     handle_find_paths (Some small_db) 0 9 5 8 = Ok (paths_json (take 5 (map (map (block_label blocks)) all)))"
proof -
  let ?blocks = "[small_block 0 [4, 8], small_block 4 [8, 0], small_block 8 []]"
  obtain all where "set all = {q. simple_path (block_succ ?blocks) 0 2 q \<and> length q \<le> Suc (max 1 8)}"
    "handle_find_paths (Some small_db) 0 9 5 8 = Ok (paths_json (take (max 1 5) (map (map (block_label ?blocks)) all)))"
    using find_paths_are_the_simple_paths [of small_db 0 small_func 9 ?blocks 0 2 8 5]
    by (auto simp: small_db_def small_func_def small_block_def position_def upt_rec nth_Cons')
  moreover have "fn_cfg small_func = Ok ?blocks" by (simp add: small_func_def)
  ultimately show ?thesis by (intro exI [of _ all] exI [of _ ?blocks]) simp
qed

end
