(* ===== verification/Callgraph.thy ===== *)
theory Callgraph
  imports Controlflow
begin

text \<open>
  The call graph around a function (\<open>handle_callgraph\<close> in
  \<open>src/src/ida/handlers/controlflow.rs\<close>): a breadth-first walk with a bound on depth and on the
  number of nodes. Each node enters the queue once, which ends the walk.
\<close>

section \<open>The walk\<close>

type_synonym graph_state = "(u64, function_info) hmap \<times> (u64 \<times> u64) list \<times> (u64 \<times> nat) list"

definition visit_callee :: "u64 \<Rightarrow> nat \<Rightarrow> nat \<Rightarrow> function_info \<Rightarrow> graph_state \<Rightarrow> graph_state" where
  "visit_callee cur depth max_nodes callee st =
     (let (nodes, edges, queue) = st
      in case parse_address_str (fi_address callee) of
           Err _ \<Rightarrow> st
         | Ok target \<Rightarrow>
             if hm_get nodes target = None \<and> length nodes < max_nodes
             then (hm_insert target callee nodes, edges @ [(cur, target)], queue @ [(target, Suc depth)])
             else (nodes, edges @ [(cur, target)], queue))"

definition callees_or_none :: "ida_db \<Rightarrow> u64 \<Rightarrow> function_info list" where
  "callees_or_none db a = (case handle_callees (Some db) a of Ok cs \<Rightarrow> cs | Err _ \<Rightarrow> [])"

definition graph_room :: "nat \<Rightarrow> graph_state \<Rightarrow> nat" where
  "graph_room max_nodes st = 2 * (max_nodes - length (fst st)) + length (snd (snd st))"

lemma visit_callee_room: "graph_room m (visit_callee cur d m c st) \<le> graph_room m st"
  by (auto simp: visit_callee_def graph_room_def hm_insert_fresh split: prod.splits result.split)

lemma visit_callees_room: "graph_room m (fold (visit_callee cur d m) cs st) \<le> graph_room m st"
proof (induction cs arbitrary: st)
  case (Cons c cs)
  have "graph_room m (fold (visit_callee cur d m) cs (visit_callee cur d m c st)) \<le> graph_room m (visit_callee cur d m c st)"
    by (rule Cons.IH)
  also have "\<dots> \<le> graph_room m st" by (rule visit_callee_room)
  finally show ?case by simp
qed simp

function graph_loop :: "ida_db \<Rightarrow> nat \<Rightarrow> nat \<Rightarrow> graph_state \<Rightarrow> graph_state" where
  "graph_loop db max_depth max_nodes (nodes, edges, queue) =
     (case queue of
        [] \<Rightarrow> (nodes, edges, queue)
      | (cur, depth) # queue' \<Rightarrow>
          if max_depth \<le> depth then graph_loop db max_depth max_nodes (nodes, edges, queue')
          else if max_nodes \<le> length nodes then (nodes, edges, queue')
          else graph_loop db max_depth max_nodes
                 (fold (visit_callee cur depth max_nodes) (callees_or_none db cur) (nodes, edges, queue')))"
  by pat_completeness auto
termination
proof (relation "measure (\<lambda>(db, d, m, st). graph_room m st)")
  fix db :: ida_db and max_depth max_nodes cur depth nodes edges queue queue' and x :: "u64 \<times> nat"
  assume "queue = x # queue'" "(cur, depth) = x"
  then have "graph_room max_nodes (nodes, edges, queue') < graph_room max_nodes (nodes, edges, queue)"
    by (simp add: graph_room_def)
  then show "((db, max_depth, max_nodes, fold (visit_callee cur depth max_nodes) (callees_or_none db cur) (nodes, edges, queue')),
      db, max_depth, max_nodes, nodes, edges, queue) \<in> measure (\<lambda>(db, d, m, st). graph_room m st)"
    using visit_callees_room [of max_nodes cur depth "callees_or_none db cur" "(nodes, edges, queue')"] by simp
qed (auto simp: graph_room_def)

declare graph_loop.simps [simp del]

definition graph_json :: "graph_state \<Rightarrow> json" where
  "graph_json st =
     JObject [(''nodes'', JArray (map (\<lambda>(a, i). JObject [(''address'', JString (fi_address i)),
                 (''name'', JString (fi_name i)), (''size'', json_of_nat (fi_size i))]) (fst st))),
              (''edges'', JArray (map (\<lambda>(a, b). JObject [(''from'', JString (fmt_addr a)), (''to'', JString (fmt_addr b))])
                 (fst (snd st))))]"

definition build_graph :: "ida_db \<Rightarrow> ida_func \<Rightarrow> nat \<Rightarrow> nat \<Rightarrow> graph_state" where
  "build_graph db root max_depth max_nodes =
     graph_loop db (max 1 max_depth) (max 1 max_nodes)
       (hm_insert (fn_start root) (info_of_func root) [], [], [(fn_start root, 0)])"

definition handle_callgraph :: "ida_db option \<Rightarrow> u64 \<Rightarrow> nat \<Rightarrow> nat \<Rightarrow> (json, tool_error) result" where
  "handle_callgraph idb addr max_depth max_nodes =
     and_then (ok_or idb NoDatabaseOpen) (\<lambda>db.
     and_then (ok_or (db_function_at db addr) (FunctionNotFound addr)) (\<lambda>root.
       Ok (graph_json (build_graph db root max_depth max_nodes))))"

section \<open>Call distance\<close>

definition calls :: "ida_db \<Rightarrow> u64 \<Rightarrow> u64 set" where
  "calls db a = {t. \<exists>c \<in> set (callees_or_none db a). parse_address_str (fi_address c) = Ok t}"

inductive within :: "ida_db \<Rightarrow> u64 \<Rightarrow> nat \<Rightarrow> u64 \<Rightarrow> bool" for db root where
  here: "within db root n root"
| call: "within db root n a \<Longrightarrow> b \<in> calls db a \<Longrightarrow> within db root (Suc n) b"

lemma within_mono: "within db root n a \<Longrightarrow> n \<le> m \<Longrightarrow> within db root m a"
proof (induction n a arbitrary: m rule: within.induct)
  case (call n a b)
  then show ?case by (cases m) (auto intro: within.call)
qed (rule within.here)

section \<open>Invariant\<close>

text \<open>\<open>dep\<close> is the depth at which a node was found, \<open>d\<close> a depth that no node still waiting falls
  below and no node exceeds by more than one. A node that has left the queue, other than those in
  \<open>X\<close>, has all its callees in the graph, unless the graph is full.\<close>

definition graph_inv ::
  "ida_db \<Rightarrow> u64 \<Rightarrow> nat \<Rightarrow> nat \<Rightarrow> u64 set \<Rightarrow> (u64 \<Rightarrow> nat) \<Rightarrow> nat \<Rightarrow> graph_state \<Rightarrow> bool" where
  "graph_inv db root max_depth max_nodes X dep d st \<longleftrightarrow>
     (let (nodes, edges, queue) = st
      in hm_inv nodes \<and> length nodes \<le> max_nodes \<and> root \<in> dom (hm_get nodes) \<and> dep root = 0 \<and>
         (\<forall>a k. (a, k) \<in> set queue \<longrightarrow> a \<in> dom (hm_get nodes) \<and> k = dep a \<and> d \<le> k) \<and> sorted (map snd queue) \<and>
         (\<forall>a \<in> dom (hm_get nodes). within db root (dep a) a \<and> dep a \<le> Suc d \<and> dep a \<le> max_depth) \<and>
         (\<forall>a b. (a, b) \<in> set edges \<longrightarrow> a \<in> dom (hm_get nodes) \<and> dep a < max_depth \<and> b \<in> calls db a) \<and>
         (length nodes < max_nodes \<longrightarrow>
            (\<forall>a \<in> dom (hm_get nodes) - fst ` set queue - X. dep a < max_depth \<longrightarrow>
               (\<forall>b \<in> calls db a. b \<in> dom (hm_get nodes) \<and> dep b \<le> Suc (dep a)))))"

lemma graph_invD:
  assumes "graph_inv db root D M X dep d (nodes, edges, queue)"
  shows "hm_inv nodes" "length nodes \<le> M" "root \<in> dom (hm_get nodes)" "dep root = 0"
    "\<And>a k. (a, k) \<in> set queue \<Longrightarrow> a \<in> dom (hm_get nodes) \<and> k = dep a \<and> d \<le> k"
    "sorted (map snd queue)"
    "\<And>a. a \<in> dom (hm_get nodes) \<Longrightarrow> within db root (dep a) a \<and> dep a \<le> Suc d \<and> dep a \<le> D"
    "\<And>a b. (a, b) \<in> set edges \<Longrightarrow> a \<in> dom (hm_get nodes) \<and> dep a < D \<and> b \<in> calls db a"
    "\<And>a b. length nodes < M \<Longrightarrow> a \<in> dom (hm_get nodes) - fst ` set queue - X \<Longrightarrow> dep a < D \<Longrightarrow> b \<in> calls db a \<Longrightarrow>
       b \<in> dom (hm_get nodes) \<and> dep b \<le> Suc (dep a)"
  by (insert assms [unfolded graph_inv_def Let_def prod.case], blast+)

lemma graph_invI:
  assumes "hm_inv nodes" "length nodes \<le> M" "root \<in> dom (hm_get nodes)" "dep root = 0"
    "\<And>a k. (a, k) \<in> set queue \<Longrightarrow> a \<in> dom (hm_get nodes) \<and> k = dep a \<and> d \<le> k"
    "sorted (map snd queue)"
    "\<And>a. a \<in> dom (hm_get nodes) \<Longrightarrow> within db root (dep a) a \<and> dep a \<le> Suc d \<and> dep a \<le> D"
    "\<And>a b. (a, b) \<in> set edges \<Longrightarrow> a \<in> dom (hm_get nodes) \<and> dep a < D \<and> b \<in> calls db a"
    "\<And>a b. length nodes < M \<Longrightarrow> a \<in> dom (hm_get nodes) - fst ` set queue - X \<Longrightarrow> dep a < D \<Longrightarrow> b \<in> calls db a \<Longrightarrow>
       b \<in> dom (hm_get nodes) \<and> dep b \<le> Suc (dep a)"
  shows "graph_inv db root D M X dep d (nodes, edges, queue)"
  using assms unfolding graph_inv_def Let_def prod.case by blast

lemma visit_callee_inv:
  assumes inv: "graph_inv db root D M X dep k (nodes, edges, queue)"
    and cur: "cur \<in> dom (hm_get nodes)" "dep cur = k" "k < D"
    and c: "c \<in> set (callees_or_none db cur)"
    and st': "visit_callee cur k M c (nodes, edges, queue) = (nodes', edges', queue')"
  shows "\<exists>dep'. graph_inv db root D M X dep' k (nodes', edges', queue') \<and>
    (\<forall>a \<in> dom (hm_get nodes). dep' a = dep a) \<and> dom (hm_get nodes) \<subseteq> dom (hm_get nodes') \<and>
    length nodes \<le> length nodes' \<and>
    (\<forall>t. parse_address_str (fi_address c) = Ok t \<longrightarrow> length nodes' < M \<longrightarrow> t \<in> dom (hm_get nodes'))"
proof (cases "parse_address_str (fi_address c)")
  case (Err e)
  with st' have "nodes' = nodes" "edges' = edges" "queue' = queue" by (auto simp: visit_callee_def)
  with inv Err show ?thesis by (intro exI [of _ dep]) simp
next
  case (Ok t)
  then have t: "t \<in> calls db cur" using c by (auto simp: calls_def)
  show ?thesis
  proof (cases "hm_get nodes t = None \<and> length nodes < M")
    case False
    with st' Ok have eqs: "nodes' = nodes" "edges' = edges @ [(cur, t)]" "queue' = queue"
      by (auto simp: visit_callee_def)
    have "graph_inv db root D M X dep k (nodes', edges', queue')"
      unfolding eqs
    proof (rule graph_invI)
      fix a b assume "(a, b) \<in> set (edges @ [(cur, t)])"
      then have "a = cur \<and> b = t \<or> (a, b) \<in> set edges" by auto
      with cur t graph_invD(8) [OF inv, of a b] show "a \<in> dom (hm_get nodes) \<and> dep a < D \<and> b \<in> calls db a"
        by auto
    qed (fact graph_invD [OF inv])+
    with False Ok eqs show ?thesis by (intro exI [of _ dep]) auto
  next
    case True
    with st' Ok have eqs: "nodes' = hm_insert t c nodes" "edges' = edges @ [(cur, t)]" "queue' = queue @ [(t, Suc k)]"
      by (auto simp: visit_callee_def)
    have new: "t \<notin> dom (hm_get nodes)" using True by auto
    have hm: "hm_inv nodes" using inv by (simp add: graph_inv_def)
    have dom': "dom (hm_get nodes') = insert t (dom (hm_get nodes))" and inv': "hm_inv nodes'"
      using hm by (simp_all add: eqs hm.dom_insert hm.invar_insert)
    have len': "length nodes' = Suc (length nodes)" using True hm by (simp add: eqs hm.len_insert_fresh)
    let ?dep = "dep(t := Suc k)"
    have same: "?dep a = dep a" if "a \<in> dom (hm_get nodes)" for a using that new by auto
    note waiting = graph_invD(5) [OF inv] and depths = graph_invD(7) [OF inv]
    have near: "within db root (Suc k) t"
      using depths [OF cur(1)] cur(2) t by (auto intro: within.call)
    have "graph_inv db root D M X ?dep k (nodes', edges', queue')"
    proof (rule graph_invI)
      show "hm_inv nodes'" by (rule inv')
      show "length nodes' \<le> M" using True len' by simp
      show "root \<in> dom (hm_get nodes')" "?dep root = 0"
        using graph_invD(3,4) [OF inv] same [of root] by (simp_all add: dom')
      have "j \<le> Suc k" if "(a, j) \<in> set queue" for a j
        using waiting [OF that] depths [of a] by simp
      then show "sorted (map snd queue')"
        using graph_invD(6) [OF inv] by (auto simp: eqs sorted_append)
    next
      fix a j assume "(a, j) \<in> set queue'"
      then have "a = t \<and> j = Suc k \<or> (a, j) \<in> set queue" by (auto simp: eqs(3))
      then show "a \<in> dom (hm_get nodes') \<and> j = ?dep a \<and> k \<le> j"
      proof (elim disjE)
        assume q: "(a, j) \<in> set queue"
        show ?thesis using waiting [OF q] same [of a] by (simp add: dom')
      qed (simp add: dom')
    next
      fix a assume "a \<in> dom (hm_get nodes')"
      then show "within db root (?dep a) a \<and> ?dep a \<le> Suc k \<and> ?dep a \<le> D"
        using depths [of a] near same [of a] cur(3) by (cases "a = t") (simp_all add: dom')
    next
      fix a b assume "(a, b) \<in> set edges'"
      then have "a = cur \<and> b = t \<or> (a, b) \<in> set edges" by (auto simp: eqs(2))
      then have "a \<in> dom (hm_get nodes) \<and> dep a < D \<and> b \<in> calls db a"
        using cur t graph_invD(8) [OF inv, of a b] by auto
      with same [of a] show "a \<in> dom (hm_get nodes') \<and> ?dep a < D \<and> b \<in> calls db a"
        by (simp add: dom')
    next
      fix a b
      assume a: "a \<in> dom (hm_get nodes') - fst ` set queue' - X" "?dep a < D" and b: "b \<in> calls db a"
      then have old: "a \<in> dom (hm_get nodes) - fst ` set queue - X" by (auto simp: dom' eqs(3))
      then have "b \<in> dom (hm_get nodes) \<and> dep b \<le> Suc (dep a)"
        using a(2) b same [of a] True by (intro graph_invD(9) [OF inv]) auto
      with old same [of a] same [of b] show "b \<in> dom (hm_get nodes') \<and> ?dep b \<le> Suc (?dep a)"
        by (simp add: dom')
    qed
    then show ?thesis
      using same len' dom' Ok by (intro exI [of _ ?dep]) auto
  qed
qed

lemma visit_callees_inv:
  assumes "graph_inv db root D M X dep k (nodes, edges, queue)"
    and "cur \<in> dom (hm_get nodes)" "dep cur = k" "k < D" "set cs \<subseteq> set (callees_or_none db cur)"
    and "fold (visit_callee cur k M) cs (nodes, edges, queue) = (nodes', edges', queue')"
  shows "\<exists>dep'. graph_inv db root D M X dep' k (nodes', edges', queue') \<and>
    (\<forall>a \<in> dom (hm_get nodes). dep' a = dep a) \<and> dom (hm_get nodes) \<subseteq> dom (hm_get nodes') \<and>
    length nodes \<le> length nodes' \<and>
    (\<forall>c \<in> set cs. \<forall>t. parse_address_str (fi_address c) = Ok t \<longrightarrow> length nodes' < M \<longrightarrow> t \<in> dom (hm_get nodes'))"
  using assms
proof (induction cs arbitrary: dep nodes edges queue)
  case Nil
  then show ?case by (intro exI [of _ dep]) auto
next
  case (Cons c cs)
  obtain n1 e1 q1 where one: "visit_callee cur k M c (nodes, edges, queue) = (n1, e1, q1)"
    using prod_cases3 by blast
  from visit_callee_inv [OF Cons.prems(1-4) _ one] Cons.prems(5) obtain dep1 where
    dep1: "graph_inv db root D M X dep1 k (n1, e1, q1)" "\<forall>a \<in> dom (hm_get nodes). dep1 a = dep a"
      "dom (hm_get nodes) \<subseteq> dom (hm_get n1)" "length nodes \<le> length n1"
      "\<forall>t. parse_address_str (fi_address c) = Ok t \<longrightarrow> length n1 < M \<longrightarrow> t \<in> dom (hm_get n1)"
    by auto
  from dep1 Cons.prems have "cur \<in> dom (hm_get n1)" "dep1 cur = k" "set cs \<subseteq> set (callees_or_none db cur)"
    "fold (visit_callee cur k M) cs (n1, e1, q1) = (nodes', edges', queue')"
    using one by auto
  from Cons.IH [OF dep1(1) this(1,2) Cons.prems(4) this(3,4)] obtain dep' where
    dep': "graph_inv db root D M X dep' k (nodes', edges', queue')" "\<forall>a \<in> dom (hm_get n1). dep' a = dep1 a"
      "dom (hm_get n1) \<subseteq> dom (hm_get nodes')" "length n1 \<le> length nodes'"
      "\<forall>c \<in> set cs. \<forall>t. parse_address_str (fi_address c) = Ok t \<longrightarrow> length nodes' < M \<longrightarrow> t \<in> dom (hm_get nodes')"
    by blast
  have "t \<in> dom (hm_get nodes')" if "parse_address_str (fi_address c) = Ok t" "length nodes' < M" for t
    using that dep1(5) dep'(3,4) by (meson le_less_trans subsetD)
  moreover have "dep' a = dep a" if "a \<in> dom (hm_get nodes)" for a
  proof -
    have "a \<in> dom (hm_get n1)" using dep1(3) that by (rule subsetD)
    with dep'(2) dep1(2) that show ?thesis by simp
  qed
  moreover have "dom (hm_get nodes) \<subseteq> dom (hm_get nodes')" "length nodes \<le> length nodes'"
    using dep'(3,4) dep1(3,4) by simp_all
  ultimately show ?case
    using dep'(1,5) by (intro exI [of _ dep']) (simp only: set_simps ball_simps, blast)
qed


lemma graph_inv_drop:
  assumes inv: "graph_inv db root D M {} dep d (nodes, edges, (cur, k) # queue)"
  shows "graph_inv db root D M {cur} dep k (nodes, edges, queue)" "cur \<in> dom (hm_get nodes)" "dep cur = k"
proof -
  have head: "cur \<in> dom (hm_get nodes) \<and> k = dep cur \<and> d \<le> k"
    by (rule graph_invD(5) [OF inv]) simp
  then show "cur \<in> dom (hm_get nodes)" "dep cur = k" by simp_all
  have later: "k \<le> j" if "(a, j) \<in> set queue" for a j
    using graph_invD(6) [OF inv] that by force
  show "graph_inv db root D M {cur} dep k (nodes, edges, queue)"
  proof (rule graph_invI)
    fix a j assume "(a, j) \<in> set queue"
    with graph_invD(5) [OF inv, of a j] later show "a \<in> dom (hm_get nodes) \<and> j = dep a \<and> k \<le> j" by simp
  next
    fix a assume "a \<in> dom (hm_get nodes)"
    with graph_invD(7) [OF inv, of a] head show "within db root (dep a) a \<and> dep a \<le> Suc k \<and> dep a \<le> D" by simp
  next
    fix a b
    assume "length nodes < M" "a \<in> dom (hm_get nodes) - fst ` set queue - {cur}" "dep a < D" "b \<in> calls db a"
    moreover from this have "a \<in> dom (hm_get nodes) - fst ` set ((cur, k) # queue) - {}" by simp
    ultimately show "b \<in> dom (hm_get nodes) \<and> dep b \<le> Suc (dep a)" by (intro graph_invD(9) [OF inv])
  qed (use graph_invD [OF inv] in simp_all)
qed


lemma graph_inv_visit:
  assumes inv: "graph_inv db root D M {} dep d (nodes, edges, (cur, k) # queue)" and k: "k < D"
    and st': "fold (visit_callee cur k M) (callees_or_none db cur) (nodes, edges, queue) = (nodes', edges', queue')"
  shows "\<exists>dep'. graph_inv db root D M {} dep' k (nodes', edges', queue')"
proof -
  note drop = graph_inv_drop [OF inv]
  from visit_callees_inv [OF drop k order_refl st'] obtain dep' where
    inv': "graph_inv db root D M {cur} dep' k (nodes', edges', queue')" and
    same: "\<forall>a \<in> dom (hm_get nodes). dep' a = dep a" and
    all: "\<forall>c \<in> set (callees_or_none db cur). \<forall>t. parse_address_str (fi_address c) = Ok t \<longrightarrow>
       length nodes' < M \<longrightarrow> t \<in> dom (hm_get nodes')"
    by blast
  have "dep' cur = k" using same drop(2,3) by simp
  have "graph_inv db root D M {} dep' k (nodes', edges', queue')"
  proof (rule graph_invI)
    fix a b
    assume a: "length nodes' < M" "a \<in> dom (hm_get nodes') - fst ` set queue' - {}" "dep' a < D" "b \<in> calls db a"
    show "b \<in> dom (hm_get nodes') \<and> dep' b \<le> Suc (dep' a)"
    proof (cases "a = cur")
      case True
      with a all have "b \<in> dom (hm_get nodes')" by (auto simp: calls_def)
      with graph_invD(7) [OF inv', of b] True \<open>dep' cur = k\<close> show ?thesis by simp
    next
      case False
      with a show ?thesis by (intro graph_invD(9) [OF inv']) auto
    qed
  qed (fact graph_invD [OF inv'])+
  then show ?thesis by blast
qed

lemma graph_inv_skip:
  assumes inv: "graph_inv db root D M {} dep d (nodes, edges, (cur, k) # queue)" and k: "D \<le> k"
  shows "graph_inv db root D M {} dep k (nodes, edges, queue)"
proof -
  note drop = graph_inv_drop [OF inv]
  show ?thesis
  proof (rule graph_invI)
    fix a b
    assume a: "length nodes < M" "a \<in> dom (hm_get nodes) - fst ` set queue - {}" "dep a < D" "b \<in> calls db a"
    then have "a \<noteq> cur" using drop(3) k by auto
    with a show "b \<in> dom (hm_get nodes) \<and> dep b \<le> Suc (dep a)" by (intro graph_invD(9) [OF drop(1)]) auto
  qed (fact graph_invD [OF drop(1)])+
qed

text \<open>When the walk ends, its state satisfies the invariant, and the queue is empty or the graph is
  full.\<close>

lemma graph_loop_inv:
  "graph_inv db root D M {} dep d st \<Longrightarrow>
   \<exists>dep d nodes edges queue. graph_loop db D M st = (nodes, edges, queue) \<and>
     graph_inv db root D M {} dep d (nodes, edges, queue) \<and> (queue = [] \<or> M \<le> length nodes)"
proof (induction db D M st arbitrary: dep d rule: graph_loop.induct)
  case (1 db D M nodes edges queue)
  show ?case
  proof (cases queue)
    case Nil
    with 1 show ?thesis by (auto simp: graph_loop.simps)
  next
    case (Cons x queue')
    obtain cur k where x: "x = (cur, k)" by (cases x)
    note inv = 1(3) [unfolded Cons x]
    show ?thesis
    proof (cases "D \<le> k")
      case True
      from 1(1) [OF Cons x [symmetric] True graph_inv_skip [OF inv True]] show ?thesis
        by (subst graph_loop.simps) (simp add: Cons x True)
    next
      case False
      show ?thesis
      proof (cases "M \<le> length nodes")
        case full: True
        note drop = graph_inv_drop(1) [OF inv]
        have "graph_inv db root D M {} dep k (nodes, edges, queue')"
          by (rule graph_invI) (fact graph_invD [OF drop] | use full in simp)+
        moreover have "graph_loop db D M (nodes, edges, queue) = (nodes, edges, queue')"
          using False full by (subst graph_loop.simps) (simp add: Cons x)
        ultimately show ?thesis using full by blast
      next
        case room: False
        obtain n1 e1 q1 where st1: "fold (visit_callee cur k M) (callees_or_none db cur) (nodes, edges, queue') = (n1, e1, q1)"
          using prod_cases3 by blast
        from graph_inv_visit [OF inv _ st1] False obtain dep1 where "graph_inv db root D M {} dep1 k (n1, e1, q1)"
          by auto
        from 1(2) [OF Cons x [symmetric] False room, unfolded st1, OF this] show ?thesis
          by (subst graph_loop.simps) (simp add: Cons x False room st1)
      qed
    qed
  qed
qed


section \<open>Properties\<close>

lemma graph_inv_start:
  "graph_inv db root (max 1 D) (max 1 M) {} (\<lambda>_. 0) 0 (hm_insert root i [], [], [(root, 0)])"
  by (rule graph_invI)
    (auto simp: hm.dom_insert hm.invar_insert hm.len_insert_fresh hm_get_def intro: within.here)

lemma graph_complete:
  assumes inv: "graph_inv db root D M {} dep d (nodes, edges, [])" and room: "length nodes < M"
  shows "within db root n a \<Longrightarrow> n \<le> D \<Longrightarrow> a \<in> dom (hm_get nodes) \<and> dep a \<le> n"
proof (induction n a rule: within.induct)
  case (here n)
  then show ?case using graph_invD(3,4) [OF inv] by simp
next
  case (call n a b)
  then have a: "a \<in> dom (hm_get nodes)" "dep a \<le> n" by auto
  with call graph_invD(9) [OF inv room, of a b] show ?case by simp
qed

text \<open>C6: The call graph of a function has at most \<open>max_nodes\<close> nodes, no function twice, and only
  functions within \<open>max_depth\<close> calls of the root; every edge is a call made by one of its nodes.
  Unless the bound on the nodes was reached, the nodes are all the functions within
  \<open>max_depth\<close> calls, and both ends of every edge are nodes.\<close>

theorem callgraph_is_bounded_reachability:
  assumes "db_function_at db addr = Some root"
  shows "\<exists>nodes edges queue. build_graph db root max_depth max_nodes = (nodes, edges, queue) \<and>
    handle_callgraph (Some db) addr max_depth max_nodes = Ok (graph_json (nodes, edges, queue)) \<and>
    distinct (map fst nodes) \<and> length nodes \<le> max 1 max_nodes \<and>
    fst ` set nodes \<subseteq> {a. within db (fn_start root) (max 1 max_depth) a} \<and>
    (\<forall>(a, b) \<in> set edges. a \<in> fst ` set nodes \<and> b \<in> calls db a) \<and>
    (length nodes < max 1 max_nodes \<longrightarrow>
       fst ` set nodes = {a. within db (fn_start root) (max 1 max_depth) a} \<and>
       (\<forall>(a, b) \<in> set edges. b \<in> fst ` set nodes))"
proof -
  let ?D = "max 1 max_depth" and ?M = "max 1 max_nodes" and ?r = "fn_start root"
  obtain dep d nodes edges queue where run: "build_graph db root max_depth max_nodes = (nodes, edges, queue)"
    and inv: "graph_inv db ?r ?D ?M {} dep d (nodes, edges, queue)" and fin: "queue = [] \<or> ?M \<le> length nodes"
    using graph_loop_inv [OF graph_inv_start] unfolding build_graph_def by blast
  have keys: "fst ` set nodes = dom (hm_get nodes)" by (rule hm_keys_dom)
  have sound: "fst ` set nodes \<subseteq> {a. within db ?r ?D a}"
    using graph_invD(7) [OF inv] within_mono unfolding keys by blast
  have edges: "a \<in> fst ` set nodes \<and> dep a < ?D \<and> b \<in> calls db a" if "(a, b) \<in> set edges" for a b
    using graph_invD(8) [OF inv that] keys by simp
  have complete: "a \<in> fst ` set nodes" if "length nodes < ?M" "within db ?r ?D a" for a
  proof -
    have "queue = []" using fin that(1) by linarith
    from graph_complete [OF inv [unfolded this] that(1,2)] show ?thesis by (simp add: keys)
  qed
  have "b \<in> fst ` set nodes" if "length nodes < ?M" "(a, b) \<in> set edges" for a b
  proof -
    have "a \<in> dom (hm_get nodes)" "dep a < ?D" "b \<in> calls db a" using edges [OF that(2)] keys by auto
    then have "within db ?r (Suc (dep a)) b" using graph_invD(7) [OF inv, of a] by (auto intro: within.call)
    then have "within db ?r ?D b" by (rule within_mono) (use \<open>dep a < ?D\<close> in simp)
    with complete that(1) show ?thesis by simp
  qed
  moreover have "handle_callgraph (Some db) addr max_depth max_nodes = Ok (graph_json (nodes, edges, queue))"
    using assms run by (simp add: handle_callgraph_def)
  ultimately show ?thesis
    using run sound edges complete graph_invD(1,2) [OF inv]
    by (intro exI [of _ nodes] exI [of _ edges] exI [of _ queue]) (auto simp: hm_inv_def)
qed

theorem callgraph_is_bounded_reachability_witness:
  "\<exists>nodes edges queue. handle_callgraph (Some small_db) 5 3 10 = Ok (graph_json (nodes, edges, queue)) \<and>
     length nodes \<le> 10 \<and> fst ` set nodes \<subseteq> {a. within small_db 0 3 a}"
proof -
  have "db_function_at small_db 5 = Some small_func" by (simp add: small_db_def)
  from callgraph_is_bounded_reachability [OF this, of 3 10] show ?thesis
    by (auto simp: small_func_def)
qed

end
