(* ===== verification/Spill.thy ===== *)
theory Spill
  imports Civil Json Hash_Map
begin

text \<open>
  Large results, \<open>src/src/spill.rs\<close>: a result that is too large for the terminal is written to a
  dated directory and an envelope that describes it is printed instead; directories older than
  three days are removed. The file system is the list of the entries of the base directory, in the
  order it is read, each a directory with its files. Clock readings, the process number, the
  outcome of each file operation, the JSON printer and the SHA-256 function are arguments.
  \<open>estimate_tokens\<close> divides by the floating-point constant 3.8 and rounds up; for the sizes of
  memory that is the ceiling of the exact quotient, \<open>5 n / 19\<close>, since a quotient that is not an
  integer is at least \<open>1 / 19\<close> away from one and the rounding error is far smaller.
\<close>

section \<open>Definitions\<close>

definition DEFAULT_SPILL_TOKEN_LIMIT :: nat where "DEFAULT_SPILL_TOKEN_LIMIT = 10000"
definition SPILL_RETENTION_DAYS :: int where "SPILL_RETENTION_DAYS = 3"

definition estimate_tokens :: "nat \<Rightarrow> nat" where
  "estimate_tokens byte_len = (5 * byte_len + 18) div 19"

type_synonym spill_fs = "(string \<times> (string, string) hmap) list"

definition date_name :: "int \<Rightarrow> string" where
  "date_name days =
     (let (year, month, day) = civil_from_days days
      in (if year < 0 then ''-'' @ fmt_pad 3 (nat (- year)) else fmt_pad 4 (nat year)) @ fmt_pad 2 month @ fmt_pad 2 day)"

definition spill_dir :: "nat \<Rightarrow> string" where
  "spill_dir secs = date_name (int (secs div 86400))"

definition is_date_name :: "string \<Rightarrow> bool" where
  "is_date_name name \<longleftrightarrow> length name = 8 \<and> list_all (\<lambda>c. to_digit 10 c \<noteq> None) name"

definition name_days :: "string \<Rightarrow> int option" where
  "name_days name =
     (case (parse_uint 10 (2 ^ 63 - 1) (take 4 name), parse_uint 10 (2 ^ 32 - 1) (take 2 (drop 4 name)),
            parse_uint 10 (2 ^ 32 - 1) (take 2 (drop 6 name))) of
        (Some y, Some m, Some d) \<Rightarrow> Some (days_from_civil (int y) m d)
      | _ \<Rightarrow> None)"

definition expired :: "int \<Rightarrow> string \<Rightarrow> bool" where
  "expired today name \<longleftrightarrow>
     is_date_name name \<and> (case name_days name of Some d \<Rightarrow> SPILL_RETENTION_DAYS < today - d | None \<Rightarrow> False)"

text \<open>Removing a directory may fail, which is ignored.\<close>

definition prune_old_spills :: "(string \<Rightarrow> bool) \<Rightarrow> int \<Rightarrow> spill_fs \<Rightarrow> spill_fs" where
  "prune_old_spills removable today fs = filter (\<lambda>(name, _). \<not> (expired today name \<and> removable name)) fs"

definition replace_dots :: "string \<Rightarrow> string" where
  "replace_dots s = map (\<lambda>c. if c = CHR ''.'' then CHR ''_'' else c) s"

definition spill_filename :: "string \<Rightarrow> nat \<Rightarrow> nat \<Rightarrow> nat \<Rightarrow> string" where
  "spill_filename op secs nanos pid =
     (let time_of_day = secs mod 86400
      in replace_dots op @ ''-'' @ fmt_pad 2 (time_of_day div 3600) @ fmt_pad 2 (time_of_day mod 3600 div 60) @
         fmt_pad 2 (time_of_day mod 60) @ ''_'' @ fmt_pad 3 (nanos div 1000000) @ ''-p'' @ fmt_dec pid @ ''-'' @
         fmt_pad 9 nanos @ ''.json'')"

fun value_type_name :: "json \<Rightarrow> string" where
  "value_type_name JNull = ''null''"
| "value_type_name (JBool _) = ''bool''"
| "value_type_name (JNumber _) = ''number''"
| "value_type_name (JString _) = ''string''"
| "value_type_name (JArray _) = ''array''"
| "value_type_name (JObject _) = ''object''"

definition spill_summary :: "json \<Rightarrow> json" where
  "spill_summary value =
     (case value of
        JArray arr \<Rightarrow> JObject [(''kind'', JString ''array''), (''count'', json_of_nat (length arr))]
      | JObject obj \<Rightarrow>
          JObject [(''kind'', JString ''object''), (''keys'', JArray (map (JString \<circ> fst) (take 10 obj))),
                   (''count'', json_of_nat (length obj))]
      | JString s \<Rightarrow> JObject [(''kind'', JString ''string''), (''chars'', json_of_nat (length s))]
      | _ \<Rightarrow> JObject [(''kind'', JString (value_type_name value))])"

definition build_envelope :: "(string \<Rightarrow> string) \<Rightarrow> string \<Rightarrow> string \<Rightarrow> nat \<Rightarrow> json \<Rightarrow> json" where
  "build_envelope sha256_hex spill_path data token_estimate value =
     JObject [(''ok'', JBool True), (''spilled'', JBool True), (''artifact_path'', JString spill_path),
              (''format'', JString ''json''), (''bytes'', json_of_nat (length data)),
              (''tokens_estimate'', json_of_nat token_estimate), (''sha256'', JString (sha256_hex data)),
              (''summary'', spill_summary value),
              (''hint'', JString (''Output exceeded token limit. Full result saved to artifact_path. '' @
                 ''Use `cat` or read the file to access complete data.''))]"

record spill_result =
  sr_stdout_output :: string
  sr_spilled :: bool
  sr_spill_path :: "string option"

text \<open>What the file operations answer: an error for each step that can fail, how much was written
  before a failing write, which directories can be removed. There are
  three clock readings, for the directory, the file and the clean-up.\<close>

record spill_env =
  se_render :: "json \<Rightarrow> (string, string) result"
  se_sha256 :: "string \<Rightarrow> string"
  se_tmp :: string
  se_pid :: nat
  se_dir_secs :: nat
  se_file_secs :: nat
  se_file_nanos :: nat
  se_prune_secs :: nat
  se_mkdir_error :: "string option"
  se_create_error :: "string option"
  se_write_error :: "(nat \<times> string) option"
  se_removable :: "string \<Rightarrow> bool"

definition put_file :: "string \<Rightarrow> string \<Rightarrow> string \<Rightarrow> spill_fs \<Rightarrow> spill_fs" where
  "put_file dir file content fs =
     map (\<lambda>(d, files). (d, if d = dir then hm_insert file content files else files)) fs"

definition make_dir :: "string \<Rightarrow> spill_fs \<Rightarrow> spill_fs" where
  "make_dir dir fs = (if dir \<in> fst ` set fs then fs else fs @ [(dir, [])])"

definition maybe_spill :: "spill_env \<Rightarrow> json \<Rightarrow> string \<Rightarrow> nat \<Rightarrow> spill_fs \<Rightarrow> (spill_result, string) result \<times> spill_fs" where
  "maybe_spill env result op token_limit fs =
     (case se_render env result of
        Err e \<Rightarrow> (Err e, fs)
      | Ok rendered \<Rightarrow>
          (let token_estimate = estimate_tokens (length rendered)
           in if token_limit = 0 \<or> token_estimate \<le> token_limit
              then (Ok \<lparr>sr_stdout_output = rendered, sr_spilled = False, sr_spill_path = None\<rparr>, fs)
              else
                let dir = spill_dir (se_dir_secs env);
                    file = spill_filename op (se_file_secs env) (se_file_nanos env) (se_pid env);
                    path = se_tmp env @ ''/ida-rs-spills/'' @ dir @ ''/'' @ file
                in case se_mkdir_error env of
                     Some e \<Rightarrow> (Err e, fs)
                   | None \<Rightarrow>
                       let fs = make_dir dir fs
                       in case se_create_error env of
                            Some e \<Rightarrow> (Err e, fs)
                          | None \<Rightarrow>
                              case se_write_error env of
                                Some (n, e) \<Rightarrow> (Err e, put_file dir file (take n rendered) fs)
                              | None \<Rightarrow>
                                  let fs = prune_old_spills (se_removable env) (int (se_prune_secs env div 86400))
                                             (put_file dir file rendered fs)
                                  in case se_render env (build_envelope (se_sha256 env) path rendered token_estimate result) of
                                       Err e \<Rightarrow> (Err e, fs)
                                     | Ok envelope \<Rightarrow>
                                         (Ok \<lparr>sr_stdout_output = envelope, sr_spilled = True, sr_spill_path = Some path\<rparr>, fs)))"

section \<open>Directory names\<close>

lemma length_fmt_dec_le:
  assumes "n < 10 ^ w" "0 < w"
  shows "length (fmt_dec n) \<le> w"
  using assms unfolding fmt_dec_def
proof (induction w arbitrary: n)
  case (Suc w)
  show ?case
  proof (cases "n < 10")
    case False
    then have "0 < w" using Suc.prems(1) by (cases w) auto
    moreover have "n div 10 < 10 ^ w" using Suc.prems(1) by (simp add: less_mult_imp_div_less mult.commute)
    ultimately have "length (radix_digits 10 (n div 10)) \<le> w" by (rule Suc.IH [rotated])
    with False show ?thesis by (subst radix_digits.simps) simp
  qed (subst radix_digits.simps, simp)
qed simp

lemma length_fmt_pad: "n < 10 ^ w \<Longrightarrow> 0 < w \<Longrightarrow> length (fmt_pad w n) = w"
  using length_fmt_dec_le [of n w] by (simp add: fmt_pad_def)

lemma parse_fmt_pad:
  assumes "n \<le> mx" "0 < w"
  shows "parse_uint 10 mx (fmt_pad w n) = Some n"
proof -
  have digits: "parse_digits 10 mx 0 (fmt_pad w n) = Some n"
    using assms by (simp add: fmt_pad_def fmt_dec_def parse_digits_zeros parse_digits_radix_digits)
  moreover have "fmt_pad w n \<noteq> []" by (simp add: fmt_pad_def fmt_dec_def)
  moreover have "hd (fmt_pad w n) \<noteq> CHR ''+''"
    using parse_digits_valid [OF digits hd_in_set [OF \<open>fmt_pad w n \<noteq> []\<close>]] by (auto simp: to_digit_def)
  ultimately show ?thesis by (simp add: parse_uint_def)
qed

lemma fmt_pad_digits: "0 < w \<Longrightarrow> list_all (\<lambda>c. to_digit 10 c \<noteq> None) (fmt_pad w n)"
proof -
  have "parse_digits 10 n 0 (fmt_pad w n) = Some n"
    by (simp add: fmt_pad_def fmt_dec_def parse_digits_zeros parse_digits_radix_digits)
  then show ?thesis using parse_digits_valid by (fastforce simp: list_all_iff)
qed


lemma date_name_parse:
  assumes "civil_from_days days = (y, m, d)" "0 \<le> y" "y \<le> 9999"
  shows "is_date_name (date_name days)" "name_days (date_name days) = Some days"
proof -
  have "valid_date (y, m, d)" by (rule civil_inverse(1) [OF assms(1)])
  then have md: "m \<le> 12" "d \<le> 31" by (auto simp: valid_date_def days_in_month_def split: if_splits)
  have name: "date_name days = fmt_pad 4 (nat y) @ fmt_pad 2 m @ fmt_pad 2 d"
    using assms by (simp add: date_name_def)
  have len: "length (fmt_pad 4 (nat y)) = 4" "length (fmt_pad 2 m) = 2" "length (fmt_pad 2 d) = 2"
    using assms md by (intro length_fmt_pad; simp)+
  show "is_date_name (date_name days)"
    using fmt_pad_digits [of 4 "nat y"] fmt_pad_digits [of 2 m] fmt_pad_digits [of 2 d]
    by (simp add: is_date_name_def name len)
  have "parse_uint 10 (2 ^ 63 - 1) (fmt_pad 4 (nat y)) = Some (nat y)"
    "parse_uint 10 (2 ^ 32 - 1) (fmt_pad 2 m) = Some m" "parse_uint 10 (2 ^ 32 - 1) (fmt_pad 2 d) = Some d"
    using assms md by (intro parse_fmt_pad; simp)+
  then show "name_days (date_name days) = Some days"
    using assms civil_inverse(3) [OF assms(1)] by (simp add: name_days_def name len)
qed

section \<open>Properties\<close>

text \<open>The clean-up removes a directory of dated results exactly when it is more than three days
  old, for every date with a four-digit year, and keeps every entry whose name is not a date.\<close>

theorem prune_removes_only_expired:
  assumes "civil_from_days days = (y, m, d)" "0 \<le> y" "y \<le> 9999"
  shows "((date_name days, files) \<in> set (prune_old_spills (\<lambda>_. True) today fs) \<longleftrightarrow>
      (date_name days, files) \<in> set fs \<and> today - days \<le> 3) \<and>
    (\<not> is_date_name name \<longrightarrow>
      ((name, files) \<in> set (prune_old_spills removable today fs) \<longleftrightarrow> (name, files) \<in> set fs))"
proof -
  have "expired today (date_name days) \<longleftrightarrow> 3 < today - days"
    using date_name_parse [OF assms] by (simp add: expired_def SPILL_RETENTION_DAYS_def)
  moreover have "\<not> is_date_name name \<Longrightarrow> \<not> expired today name" by (simp add: expired_def)
  ultimately show ?thesis by (simp add: prune_old_spills_def not_less)
qed

lemma civil_day_20463: "civil_from_days 20463 = (2026, 1, 10)"
  by (rule civil_from_daysI)
    (simp_all add: valid_date_def day_number_def day_of_year_def month_defs year_start_def)

theorem prune_removes_only_expired_witness:
  "(date_name 20463, []) \<notin> set (prune_old_spills (\<lambda>_. True) 20467 [(date_name 20463, [])]) \<and>
   (date_name 20463, []) \<in> set (prune_old_spills (\<lambda>_. True) 20466 [(date_name 20463, [])])"
  using prune_removes_only_expired [OF civil_day_20463, of "[]" 20467 "[(date_name 20463, [])]"]
    prune_removes_only_expired [OF civil_day_20463, of "[]" 20466 "[(date_name 20463, [])]"]
  by simp

lemma put_file_get:
  assumes "dir \<in> fst ` set fs"
  shows "\<exists>files. (dir, files) \<in> set (put_file dir file content fs) \<and> hm_get files file = Some content"
proof -
  from assms obtain files where "(dir, files) \<in> set fs" by auto
  then have "(dir, hm_insert file content files) \<in> set (put_file dir file content fs)"
    by (force simp: put_file_def)
  moreover have "hm_get (hm_insert file content files) file = Some content"
    by (simp add: hm_get_def hm_insert_def update_conv')
  ultimately show ?thesis by blast
qed

text \<open>C35: Nothing is lost: a result that is not spilled is printed in full and the file system is not
  touched; one that is spilled is over a limit that is not zero, and when the call succeeds the file
  whose path is reported holds the result in full, also after the clean-up that the same call does,
  as long as the clock did not jump by more than three days in between.\<close>

theorem spilled_output_is_saved:
  assumes "maybe_spill env result op token_limit fs = (Ok r, fs')"
    and "civil_from_days (int (se_dir_secs env div 86400)) = (y, m, d)" "0 \<le> y" "y \<le> 9999"
    and "se_prune_secs env div 86400 \<le> se_dir_secs env div 86400 + 3"
  shows "\<exists>rendered. se_render env result = Ok rendered \<and>
    (if sr_spilled r
     then 0 < token_limit \<and> token_limit < estimate_tokens (length rendered) \<and>
       (\<exists>file files. sr_spill_path r = Some (se_tmp env @ ''/ida-rs-spills/'' @ spill_dir (se_dir_secs env) @ ''/'' @ file) \<and>
          (spill_dir (se_dir_secs env), files) \<in> set fs' \<and> hm_get files file = Some rendered)
     else sr_stdout_output r = rendered \<and> fs' = fs)"
proof -
  obtain rendered where r: "se_render env result = Ok rendered"
    using assms(1) by (cases "se_render env result") (auto simp: maybe_spill_def)
  let ?dir = "spill_dir (se_dir_secs env)"
  let ?file = "spill_filename op (se_file_secs env) (se_file_nanos env) (se_pid env)"
  let ?fs = "put_file ?dir ?file rendered (make_dir ?dir fs)"
  show ?thesis
  proof (cases "token_limit = 0 \<or> estimate_tokens (length rendered) \<le> token_limit")
    case True
    with assms(1) r have "\<not> sr_spilled r" "sr_stdout_output r = rendered" "fs' = fs"
      by (auto simp: maybe_spill_def Let_def)
    with r show ?thesis by simp
  next
    case False
    have fs': "fs' = prune_old_spills (se_removable env) (int (se_prune_secs env div 86400)) ?fs"
      and out: "sr_spilled r" "sr_spill_path r = Some (se_tmp env @ ''/ida-rs-spills/'' @ ?dir @ ''/'' @ ?file)"
      using assms(1) False r by (auto simp: maybe_spill_def Let_def split: option.splits result.splits)
    have "?dir \<in> fst ` set (make_dir ?dir fs)" by (auto simp: make_dir_def)
    from put_file_get [OF this] obtain files where
      files: "(?dir, files) \<in> set ?fs" "hm_get files ?file = Some rendered" by blast
    have "\<not> expired (int (se_prune_secs env div 86400)) ?dir"
      using date_name_parse [OF assms(2-4)] assms(5)
      by (auto simp: expired_def spill_dir_def SPILL_RETENTION_DAYS_def)
    then have "(?dir, files) \<in> set fs'" using files(1) by (auto simp: fs' prune_old_spills_def)
    with files(2) out False r show ?thesis by auto
  qed
qed


definition test_env :: spill_env where
  "test_env =
     \<lparr>se_render = (\<lambda>j. case j of JString s \<Rightarrow> Ok s | _ \<Rightarrow> Ok ''envelope''), se_sha256 = (\<lambda>_. []), se_tmp = ''/tmp'',
      se_pid = 1, se_dir_secs = 1768003200, se_file_secs = 1768003200, se_file_nanos = 5,
      se_prune_secs = 1768003201, se_mkdir_error = None, se_create_error = None, se_write_error = None,
      se_removable = (\<lambda>_. True)\<rparr>"

theorem spilled_output_is_saved_witness:
  "\<exists>r fs' files file. maybe_spill test_env (JString ''12345678'') ''strings'' 1 [] = (Ok r, fs') \<and> sr_spilled r \<and>
     (spill_dir 1768003200, files) \<in> set fs' \<and> hm_get files file = Some ''12345678''"
proof -
  have over: "\<not> estimate_tokens (length ''12345678'') \<le> 1" by (simp add: estimate_tokens_def)
  obtain r fs' where run: "maybe_spill test_env (JString ''12345678'') ''strings'' 1 [] = (Ok r, fs')" and r: "sr_spilled r"
    using over by (auto simp: maybe_spill_def test_env_def build_envelope_def Let_def)
  have "civil_from_days (int (se_dir_secs test_env div 86400)) = (2026, 1, 10)"
    by (simp add: test_env_def civil_day_20463)
  from spilled_output_is_saved [OF run this] r have
    "\<exists>file files. (spill_dir 1768003200, files) \<in> set fs' \<and> hm_get files file = Some ''12345678''"
    by (auto simp: test_env_def)
  with run r show ?thesis by blast
qed

end
