(* ===== verification/Cli_Args.thy ===== *)
theory Cli_Args
  imports Prelude
begin

text \<open>
  The command line as \<open>src/src/cli.rs\<close> declares it: one record per argument structure and the
  command enumeration. Turning the words of a command line into these values, with the declared
  defaults, is done by a library and is not modelled.
\<close>

type_synonym i64 = "64 word"
type_synonym i32 = "32 word"

section \<open>Argument structures\<close>

record functions_args =
  functions_offset :: usize
  functions_limit :: usize
  functions_filter :: "string option"

record resolve_function_args =
  resolve_function_name :: string

record lookup_funcs_args =
  lookup_funcs_queries :: "string list"

record disasm_args =
  disasm_address :: "string option"
  disasm_name :: "string option"
  disasm_count :: usize
  disasm_offset :: usize

record disasm_function_at_args =
  disasm_function_at_address :: string
  disasm_function_at_count :: usize
  disasm_function_at_offset :: usize

record decompile_args =
  decompile_address :: "string option"
  decompile_name :: "string option"
  decompile_max_lines :: usize

record pseudocode_at_args =
  pseudocode_at_address :: string
  pseudocode_at_end_address :: "string option"

record strings_args =
  strings_offset :: usize
  strings_limit :: usize
  strings_filter :: "string option"

record find_string_args =
  find_string_query :: string
  find_string_exact :: bool
  find_string_case_insensitive :: bool
  find_string_offset :: usize
  find_string_limit :: usize

record get_string_args =
  get_string_address :: string
  get_string_max_len :: usize

record analyze_strings_args =
  analyze_strings_query :: "string option"
  analyze_strings_offset :: usize
  analyze_strings_limit :: usize

record xrefs_to_string_args =
  xrefs_to_string_query :: string
  xrefs_to_string_exact :: bool
  xrefs_to_string_case_insensitive :: bool
  xrefs_to_string_offset :: usize
  xrefs_to_string_limit :: usize
  xrefs_to_string_max_xrefs :: usize

record pagination_args =
  pagination_offset :: usize
  pagination_limit :: usize

record globals_args =
  globals_offset :: usize
  globals_limit :: usize
  globals_filter :: "string option"

record query_args =
  query_query :: string

record address_args =
  address_address :: string

record xref_page_args =
  xref_page_address :: string
  xref_page_offset :: usize
  xref_page_limit :: usize

record multi_address_args =
  multi_address_addresses :: "string list"

record callgraph_args =
  callgraph_address :: string
  callgraph_max_depth :: usize
  callgraph_max_nodes :: usize

record find_paths_args =
  find_paths_start :: string
  find_paths_end :: string
  find_paths_max_paths :: usize
  find_paths_max_depth :: usize

record get_bytes_args =
  get_bytes_address :: string
  get_bytes_size :: usize

record read_int_args =
  read_int_address :: string
  read_int_size :: usize

record find_bytes_args =
  find_bytes_pattern :: string
  find_bytes_limit :: usize

record search_text_args =
  search_text_text :: string
  search_text_max_results :: usize

record search_imm_args =
  search_imm_value :: string
  search_imm_max_results :: usize

record find_insns_args =
  find_insns_patterns :: "string list"
  find_insns_max_results :: usize
  find_insns_case_insensitive :: bool

record local_types_args =
  local_types_offset :: usize
  local_types_limit :: usize
  local_types_filter :: "string option"

record declare_type_args =
  declare_type_decl :: string
  declare_type_relaxed :: bool
  declare_type_replace :: bool
  declare_type_multi :: bool

record apply_types_args =
  apply_types_address :: "string option"
  apply_types_name :: "string option"
  apply_types_offset :: i64
  apply_types_stack_offset :: "i64 option"
  apply_types_stack_name :: "string option"
  apply_types_decl :: "string option"
  apply_types_type_name :: "string option"
  apply_types_relaxed :: bool
  apply_types_delay :: bool
  apply_types_strict :: bool

record infer_types_args =
  infer_types_address :: "string option"
  infer_types_name :: "string option"
  infer_types_offset :: i64

record declare_stack_args =
  declare_stack_address :: "string option"
  declare_stack_name :: "string option"
  declare_stack_offset :: i64
  declare_stack_var_name :: "string option"
  declare_stack_decl :: string
  declare_stack_relaxed :: bool

record delete_stack_args =
  delete_stack_address :: "string option"
  delete_stack_name :: "string option"
  delete_stack_offset :: "i64 option"
  delete_stack_var_name :: "string option"

record structs_args =
  structs_offset :: usize
  structs_limit :: usize
  structs_filter :: "string option"

record struct_info_args =
  struct_info_ordinal :: "u32 option"
  struct_info_name :: "string option"

record read_struct_args =
  read_struct_address :: string
  read_struct_ordinal :: "u32 option"
  read_struct_name :: "string option"

record xrefs_to_field_args =
  xrefs_to_field_ordinal :: "u32 option"
  xrefs_to_field_name :: "string option"
  xrefs_to_field_member_index :: "u32 option"
  xrefs_to_field_member_name :: "string option"
  xrefs_to_field_limit :: usize

record set_comment_args =
  set_comment_address :: "string option"
  set_comment_name :: "string option"
  set_comment_offset :: i64
  set_comment_comment :: string
  set_comment_repeatable :: bool

record rename_args =
  rename_address :: "string option"
  rename_current_name :: "string option"
  rename_name :: string
  rename_flags :: i32

record patch_bytes_args =
  patch_bytes_address :: "string option"
  patch_bytes_name :: "string option"
  patch_bytes_offset :: i64
  patch_bytes_bytes :: string

record patch_asm_args =
  patch_asm_address :: "string option"
  patch_asm_name :: "string option"
  patch_asm_offset :: i64
  patch_asm_line :: string

record run_script_args =
  run_script_code :: string

record load_debug_info_args =
  load_debug_info_path :: "string option"
  load_debug_info_verbose :: bool

record int_convert_args =
  int_convert_value :: string

section \<open>Commands\<close>

datatype daemon_command = DStart bool | DStop | DStatus | DWorker string string

datatype target_command =
    TLoad (tl_file: string) (tl_idb_out: "string option") (tl_no_analyse: bool)
  | TList
  | TClose string
  | TSwitch string

datatype (plugins only: size) cli_command =
    CDaemon daemon_command
  | CTarget target_command
  | CInfo
  | CMeta
  | CAnalysisStatus
  | CFunctions functions_args
  | CResolveFunction resolve_function_args
  | CFunctionAt address_args
  | CLookupFuncs lookup_funcs_args
  | CAnalyzeFuncs
  | CDisasm disasm_args
  | CDisasmFunctionAt disasm_function_at_args
  | CDecompile decompile_args
  | CPseudocodeAt pseudocode_at_args
  | CStrings strings_args
  | CFindString find_string_args
  | CGetString get_string_args
  | CAnalyzeStrings analyze_strings_args
  | CXrefsToString xrefs_to_string_args
  | CSegments
  | CImports pagination_args
  | CExports pagination_args
  | CEntrypoints
  | CGlobals globals_args
  | CGetGlobalValue query_args
  | CXrefsTo xref_page_args
  | CXrefsFrom xref_page_args
  | CXrefMatrix multi_address_args
  | CBasicBlocks address_args
  | CCallers address_args
  | CCallees address_args
  | CCallgraph callgraph_args
  | CFindPaths find_paths_args
  | CGetBytes get_bytes_args
  | CReadInt read_int_args
  | CFindBytes find_bytes_args
  | CSearchText search_text_args
  | CSearchImm search_imm_args
  | CFindInsns find_insns_args
  | CFindInsnOperands find_insns_args
  | CAddrInfo address_args
  | CLocalTypes local_types_args
  | CDeclareType declare_type_args
  | CApplyTypes apply_types_args
  | CInferTypes infer_types_args
  | CStackFrame address_args
  | CDeclareStack declare_stack_args
  | CDeleteStack delete_stack_args
  | CStructs structs_args
  | CStructInfo struct_info_args
  | CReadStruct read_struct_args
  | CXrefsToField xrefs_to_field_args
  | CSetComment set_comment_args
  | CRename rename_args
  | CPatchBytes patch_bytes_args
  | CPatchAsm patch_asm_args
  | CRunScript run_script_args
  | CLoadDebugInfo load_debug_info_args
  | CIntConvert int_convert_args

end
