(* ===== verification/Cli.thy ===== *)
theory Cli
  imports Cli_Args Dispatch Router Spill
begin

text \<open>
  The command-line client, \<open>src/src/cli.rs\<close>: the request each command becomes, the exchange with
  the daemon and what is printed. What the operating system and the JSON library answer is the
  record \<open>client_env\<close>; what a command prints is the list of its lines. Running the
  daemon itself (\<open>daemon start\<close> in the foreground and \<open>daemon worker\<close>) is the subject of other theories.
\<close>

section \<open>Requests\<close>

definition of_usize :: "usize \<Rightarrow> json" where "of_usize v = json_of_nat (unat v)"
definition of_u32 :: "u32 \<Rightarrow> json" where "of_u32 v = json_of_nat (unat v)"
definition of_i64 :: "i64 \<Rightarrow> json" where "of_i64 v = json_of_int (sint v)"
definition of_i32 :: "i32 \<Rightarrow> json" where "of_i32 v = json_of_int (sint v)"
definition of_strs :: "string list \<Rightarrow> json" where "of_strs xs = JArray (map JString xs)"

text \<open>\<open>None\<close> is the \<open>unreachable!\<close> of the commands that are not sent this way.\<close>

primrec cli_command_to_request :: "cli_command \<Rightarrow> (string \<times> json) option" where
  "cli_command_to_request (CDaemon c) = None"
| "cli_command_to_request (CTarget c) = None"
| "cli_command_to_request CInfo = Some (''info'', JObject [])"
| "cli_command_to_request CMeta = Some (''meta'', JObject [])"
| "cli_command_to_request CAnalysisStatus = Some (''analysis_status'', JObject [])"
| "cli_command_to_request (CFunctions a) = Some (''functions'', JObject
     [(''offset'', of_usize (functions_offset a)), (''limit'', of_usize (functions_limit a)),
      (''filter'', json_of_opt JString (functions_filter a))])"
| "cli_command_to_request (CResolveFunction a) = Some (''resolve_function'', JObject
     [(''name'', JString (resolve_function_name a))])"
| "cli_command_to_request (CFunctionAt a) = Some (''function_at'', JObject
     [(''address'', JString (address_address a))])"
| "cli_command_to_request (CLookupFuncs a) = Some (''lookup_funcs'', JObject
     [(''queries'', of_strs (lookup_funcs_queries a))])"
| "cli_command_to_request CAnalyzeFuncs = Some (''analyze_funcs'', JObject [])"
| "cli_command_to_request (CDisasm a) = Some (''disasm'', JObject
     [(''address'', json_of_opt JString (disasm_address a)),
      (''name'', json_of_opt JString (disasm_name a)), (''count'', of_usize (disasm_count a)),
      (''offset'', of_usize (disasm_offset a))])"
| "cli_command_to_request (CDisasmFunctionAt a) = Some (''disasm_function_at'', JObject
     [(''address'', JString (disasm_function_at_address a)),
      (''count'', of_usize (disasm_function_at_count a)),
      (''offset'', of_usize (disasm_function_at_offset a))])"
| "cli_command_to_request (CDecompile a) = Some (''decompile'', JObject
     [(''address'', json_of_opt JString (decompile_address a)),
      (''name'', json_of_opt JString (decompile_name a)),
      (''max_lines'', of_usize (decompile_max_lines a))])"
| "cli_command_to_request (CPseudocodeAt a) = Some (''pseudocode_at'', JObject
     [(''address'', JString (pseudocode_at_address a)),
      (''end_address'', json_of_opt JString (pseudocode_at_end_address a))])"
| "cli_command_to_request (CStrings a) = Some (''strings'', JObject
     [(''offset'', of_usize (strings_offset a)), (''limit'', of_usize (strings_limit a)),
      (''filter'', json_of_opt JString (strings_filter a))])"
| "cli_command_to_request (CFindString a) = Some (''find_string'', JObject
     [(''query'', JString (find_string_query a)), (''exact'', JBool (find_string_exact a)),
      (''case_insensitive'', JBool (find_string_case_insensitive a)),
      (''offset'', of_usize (find_string_offset a)), (''limit'', of_usize (find_string_limit a))])"
| "cli_command_to_request (CGetString a) = Some (''get_string'', JObject
     [(''address'', JString (get_string_address a)),
      (''max_len'', of_usize (get_string_max_len a))])"
| "cli_command_to_request (CAnalyzeStrings a) = Some (''analyze_strings'', JObject
     [(''query'', json_of_opt JString (analyze_strings_query a)),
      (''offset'', of_usize (analyze_strings_offset a)),
      (''limit'', of_usize (analyze_strings_limit a))])"
| "cli_command_to_request (CXrefsToString a) = Some (''xrefs_to_string'', JObject
     [(''query'', JString (xrefs_to_string_query a)), (''exact'', JBool (xrefs_to_string_exact a)),
      (''case_insensitive'', JBool (xrefs_to_string_case_insensitive a)),
      (''offset'', of_usize (xrefs_to_string_offset a)),
      (''limit'', of_usize (xrefs_to_string_limit a)),
      (''max_xrefs'', of_usize (xrefs_to_string_max_xrefs a))])"
| "cli_command_to_request CSegments = Some (''segments'', JObject [])"
| "cli_command_to_request (CImports a) = Some (''imports'', JObject
     [(''offset'', of_usize (pagination_offset a)), (''limit'', of_usize (pagination_limit a))])"
| "cli_command_to_request (CExports a) = Some (''exports'', JObject
     [(''offset'', of_usize (pagination_offset a)), (''limit'', of_usize (pagination_limit a))])"
| "cli_command_to_request CEntrypoints = Some (''entrypoints'', JObject [])"
| "cli_command_to_request (CGlobals a) = Some (''globals'', JObject
     [(''offset'', of_usize (globals_offset a)), (''limit'', of_usize (globals_limit a)),
      (''filter'', json_of_opt JString (globals_filter a))])"
| "cli_command_to_request (CGetGlobalValue a) = Some (''get_global_value'', JObject
     [(''query'', JString (query_query a))])"
| "cli_command_to_request (CXrefsTo a) = Some (''xrefs_to'', JObject
     [(''address'', JString (xref_page_address a)), (''offset'', of_usize (xref_page_offset a)),
      (''limit'', of_usize (xref_page_limit a))])"
| "cli_command_to_request (CXrefsFrom a) = Some (''xrefs_from'', JObject
     [(''address'', JString (xref_page_address a)), (''offset'', of_usize (xref_page_offset a)),
      (''limit'', of_usize (xref_page_limit a))])"
| "cli_command_to_request (CXrefMatrix a) = Some (''xref_matrix'', JObject
     [(''addresses'', of_strs (multi_address_addresses a))])"
| "cli_command_to_request (CBasicBlocks a) = Some (''basic_blocks'', JObject
     [(''address'', JString (address_address a))])"
| "cli_command_to_request (CCallers a) = Some (''callers'', JObject
     [(''address'', JString (address_address a))])"
| "cli_command_to_request (CCallees a) = Some (''callees'', JObject
     [(''address'', JString (address_address a))])"
| "cli_command_to_request (CCallgraph a) = Some (''callgraph'', JObject
     [(''address'', JString (callgraph_address a)),
      (''max_depth'', of_usize (callgraph_max_depth a)),
      (''max_nodes'', of_usize (callgraph_max_nodes a))])"
| "cli_command_to_request (CFindPaths a) = Some (''find_paths'', JObject
     [(''start'', JString (find_paths_start a)), (''end'', JString (find_paths_end a)),
      (''max_paths'', of_usize (find_paths_max_paths a)),
      (''max_depth'', of_usize (find_paths_max_depth a))])"
| "cli_command_to_request (CGetBytes a) = Some (''get_bytes'', JObject
     [(''address'', JString (get_bytes_address a)), (''size'', of_usize (get_bytes_size a))])"
| "cli_command_to_request (CReadInt a) = Some (''read_int'', JObject
     [(''address'', JString (read_int_address a)), (''size'', of_usize (read_int_size a))])"
| "cli_command_to_request (CFindBytes a) = Some (''find_bytes'', JObject
     [(''pattern'', JString (find_bytes_pattern a)), (''limit'', of_usize (find_bytes_limit a))])"
| "cli_command_to_request (CSearchText a) = Some (''search_text'', JObject
     [(''text'', JString (search_text_text a)),
      (''max_results'', of_usize (search_text_max_results a))])"
| "cli_command_to_request (CSearchImm a) = Some (''search_imm'', JObject
     [(''value'', JString (search_imm_value a)),
      (''max_results'', of_usize (search_imm_max_results a))])"
| "cli_command_to_request (CFindInsns a) = Some (''find_insns'', JObject
     [(''patterns'', of_strs (find_insns_patterns a)),
      (''max_results'', of_usize (find_insns_max_results a)),
      (''case_insensitive'', JBool (find_insns_case_insensitive a))])"
| "cli_command_to_request (CFindInsnOperands a) = Some (''find_insn_operands'', JObject
     [(''patterns'', of_strs (find_insns_patterns a)),
      (''max_results'', of_usize (find_insns_max_results a)),
      (''case_insensitive'', JBool (find_insns_case_insensitive a))])"
| "cli_command_to_request (CAddrInfo a) = Some (''addr_info'', JObject
     [(''address'', JString (address_address a))])"
| "cli_command_to_request (CLocalTypes a) = Some (''local_types'', JObject
     [(''offset'', of_usize (local_types_offset a)), (''limit'', of_usize (local_types_limit a)),
      (''filter'', json_of_opt JString (local_types_filter a))])"
| "cli_command_to_request (CDeclareType a) = Some (''declare_type'', JObject
     [(''decl'', JString (declare_type_decl a)), (''relaxed'', JBool (declare_type_relaxed a)),
      (''replace'', JBool (declare_type_replace a)), (''multi'', JBool (declare_type_multi a))])"
| "cli_command_to_request (CApplyTypes a) = Some (''apply_types'', JObject
     [(''address'', json_of_opt JString (apply_types_address a)),
      (''name'', json_of_opt JString (apply_types_name a)),
      (''offset'', of_i64 (apply_types_offset a)),
      (''stack_offset'', json_of_opt of_i64 (apply_types_stack_offset a)),
      (''stack_name'', json_of_opt JString (apply_types_stack_name a)),
      (''decl'', json_of_opt JString (apply_types_decl a)),
      (''type_name'', json_of_opt JString (apply_types_type_name a)),
      (''relaxed'', JBool (apply_types_relaxed a)), (''delay'', JBool (apply_types_delay a)),
      (''strict'', JBool (apply_types_strict a))])"
| "cli_command_to_request (CInferTypes a) = Some (''infer_types'', JObject
     [(''address'', json_of_opt JString (infer_types_address a)),
      (''name'', json_of_opt JString (infer_types_name a)),
      (''offset'', of_i64 (infer_types_offset a))])"
| "cli_command_to_request (CStackFrame a) = Some (''stack_frame'', JObject
     [(''address'', JString (address_address a))])"
| "cli_command_to_request (CDeclareStack a) = Some (''declare_stack'', JObject
     [(''address'', json_of_opt JString (declare_stack_address a)),
      (''name'', json_of_opt JString (declare_stack_name a)),
      (''offset'', of_i64 (declare_stack_offset a)),
      (''var_name'', json_of_opt JString (declare_stack_var_name a)),
      (''decl'', JString (declare_stack_decl a)), (''relaxed'', JBool (declare_stack_relaxed a))])"
| "cli_command_to_request (CDeleteStack a) = Some (''delete_stack'', JObject
     [(''address'', json_of_opt JString (delete_stack_address a)),
      (''name'', json_of_opt JString (delete_stack_name a)),
      (''offset'', json_of_opt of_i64 (delete_stack_offset a)),
      (''var_name'', json_of_opt JString (delete_stack_var_name a))])"
| "cli_command_to_request (CStructs a) = Some (''structs'', JObject
     [(''offset'', of_usize (structs_offset a)), (''limit'', of_usize (structs_limit a)),
      (''filter'', json_of_opt JString (structs_filter a))])"
| "cli_command_to_request (CStructInfo a) = Some (''struct_info'', JObject
     [(''ordinal'', json_of_opt of_u32 (struct_info_ordinal a)),
      (''name'', json_of_opt JString (struct_info_name a))])"
| "cli_command_to_request (CReadStruct a) = Some (''read_struct'', JObject
     [(''address'', JString (read_struct_address a)),
      (''ordinal'', json_of_opt of_u32 (read_struct_ordinal a)),
      (''name'', json_of_opt JString (read_struct_name a))])"
| "cli_command_to_request (CXrefsToField a) = Some (''xrefs_to_field'', JObject
     [(''ordinal'', json_of_opt of_u32 (xrefs_to_field_ordinal a)),
      (''name'', json_of_opt JString (xrefs_to_field_name a)),
      (''member_index'', json_of_opt of_u32 (xrefs_to_field_member_index a)),
      (''member_name'', json_of_opt JString (xrefs_to_field_member_name a)),
      (''limit'', of_usize (xrefs_to_field_limit a))])"
| "cli_command_to_request (CSetComment a) = Some (''set_comment'', JObject
     [(''address'', json_of_opt JString (set_comment_address a)),
      (''name'', json_of_opt JString (set_comment_name a)),
      (''offset'', of_i64 (set_comment_offset a)), (''comment'', JString (set_comment_comment a)),
      (''repeatable'', JBool (set_comment_repeatable a))])"
| "cli_command_to_request (CRename a) = Some (''rename'', JObject
     [(''address'', json_of_opt JString (rename_address a)),
      (''current_name'', json_of_opt JString (rename_current_name a)),
      (''name'', JString (rename_name a)), (''flags'', of_i32 (rename_flags a))])"
| "cli_command_to_request (CPatchBytes a) = Some (''patch_bytes'', JObject
     [(''address'', json_of_opt JString (patch_bytes_address a)),
      (''name'', json_of_opt JString (patch_bytes_name a)),
      (''offset'', of_i64 (patch_bytes_offset a)), (''bytes'', JString (patch_bytes_bytes a))])"
| "cli_command_to_request (CPatchAsm a) = Some (''patch_asm'', JObject
     [(''address'', json_of_opt JString (patch_asm_address a)),
      (''name'', json_of_opt JString (patch_asm_name a)),
      (''offset'', of_i64 (patch_asm_offset a)), (''line'', JString (patch_asm_line a))])"
| "cli_command_to_request (CRunScript a) = Some (''run_script'', JObject
     [(''code'', JString (run_script_code a))])"
| "cli_command_to_request (CLoadDebugInfo a) = Some (''load_debug_info'', JObject
     [(''path'', json_of_opt JString (load_debug_info_path a)),
      (''verbose'', JBool (load_debug_info_verbose a))])"
| "cli_command_to_request (CIntConvert a) = Some (''int_convert'', JObject
     [(''value'', JString (int_convert_value a))])"

section \<open>The exchange with the daemon\<close>

datatype read_failure = ReadTimedOut | ReadFailed string

text \<open>\<open>ce_exchange\<close> is what \<open>read_line\<close> returns after the given line and its newline were written.\<close>

record client_env =
  ce_sock_exists :: bool
  ce_connect_err :: "string option"
  ce_timeout_err :: "string option"
  ce_nanos :: nat
  ce_pid :: nat
  ce_print_request :: "request \<Rightarrow> (string, string) result"
  ce_write_err :: "string option"
  ce_newline_err :: "string option"
  ce_flush_err :: "string option"
  ce_exchange :: "string \<Rightarrow> (string, read_failure) result"
  ce_parse_response :: "string \<Rightarrow> (response, string) result"
  ce_timeout_var :: "string option"
  ce_pretty :: "json \<Rightarrow> (string, string) result"
  ce_registry :: "string option"
  ce_registry_exists :: bool
  ce_parse_json :: "string \<Rightarrow> json option"
  ce_pid_alive :: "nat \<Rightarrow> bool"

definition hex_pad :: "nat \<Rightarrow> nat \<Rightarrow> string" where
  "hex_pad w n = replicate (w - length (radix_digits 16 n)) (CHR ''0'') @ radix_digits 16 n"

definition make_request_id :: "nat \<Rightarrow> nat \<Rightarrow> string" where
  "make_request_id nanos pid = hex_pad 16 nanos @ hex_pad 8 pid"

definition CLIENT_DEFAULT_TIMEOUT_SECS :: nat where
  "CLIENT_DEFAULT_TIMEOUT_SECS = WORKER_OP_TIMEOUT_SECS + 30"
definition CLIENT_STATUS_TIMEOUT_SECS :: nat where "CLIENT_STATUS_TIMEOUT_SECS = 3"
definition CLIENT_STOP_TIMEOUT_SECS :: nat where "CLIENT_STOP_TIMEOUT_SECS = 20"

definition client_timeout :: "string option \<Rightarrow> nat" where
  "client_timeout var =
     (case Option.bind var (parse_uint 10 u64_max) of
        Some n \<Rightarrow> if 0 < n then n else CLIENT_DEFAULT_TIMEOUT_SECS
      | None \<Rightarrow> CLIENT_DEFAULT_TIMEOUT_SECS)"

definition client_request :: "client_env \<Rightarrow> string \<Rightarrow> json \<Rightarrow> string option \<Rightarrow> request" where
  "client_request env op params target =
     \<lparr>rq_id = make_request_id (ce_nanos env) (ce_pid env), rq_op = op, rq_params = params, rq_target = target\<rparr>"

definition send_daemon_request ::
  "client_env \<Rightarrow> string \<Rightarrow> json \<Rightarrow> string option \<Rightarrow> nat \<Rightarrow> (response, string) result" where
  "send_daemon_request env op params target timeout =
     (if \<not> ce_sock_exists env
      then Err (''Daemon is not running. Start it with:'' @ [NL] @ ''  ida-rs-cli daemon start'')
      else
        and_then (fail_if (ce_connect_err env) ''Failed to connect to daemon: '') (\<lambda>_.
        and_then (fail_if (ce_timeout_err env) ''Failed to set socket timeout: '') (\<lambda>_.
        and_then (ce_print_request env (client_request env op params target)) (\<lambda>line.
        and_then (fail_if (ce_write_err env) []) (\<lambda>_.
        and_then (fail_if (ce_newline_err env) []) (\<lambda>_.
        and_then (fail_if (ce_flush_err env) []) (\<lambda>_.
          case ce_exchange env line of
            Err ReadTimedOut \<Rightarrow>
              Err (''Daemon did not respond within '' @ fmt_dec timeout @ ''s (op '' @ [CHR 0x27] @ op @ [CHR 0x27] @
                   ''). It may be busy or wedged; check 'ida-rs-cli daemon status'.'')
          | Err (ReadFailed e) \<Rightarrow> Err (''Failed to read daemon response: '' @ e)
          | Ok response_line \<Rightarrow>
              map_err (\<lambda>e. ''Invalid daemon response: '' @ e) (ce_parse_response env response_line))))))))"

section \<open>Commands\<close>

datatype out_line = Stdout string | Stderr string

type_synonym cli_outcome = "(unit, string) result \<times> out_line list"

definition output_json :: "client_env \<Rightarrow> json \<Rightarrow> cli_outcome" where
  "output_json env v =
     (case ce_pretty env v of Err e \<Rightarrow> (Err e, []) | Ok s \<Rightarrow> (Ok (), [Stdout s]))"

text \<open>The common shape: a refused exchange and a response that is not \<open>ok\<close> are errors.\<close>

definition with_response ::
  "(response, string) result \<Rightarrow> (response \<Rightarrow> (unit, string) result \<times> 'a) \<Rightarrow> 'a \<Rightarrow> (unit, string) result \<times> 'a" where
  "with_response r k none =
     (case r of
        Err e \<Rightarrow> (Err e, none)
      | Ok resp \<Rightarrow>
          if rs_ok resp then k resp
          else (Err (case rs_error resp of Some e \<Rightarrow> e | None \<Rightarrow> ''Unknown error''), none))"

definition result_field :: "response \<Rightarrow> string \<Rightarrow> string \<Rightarrow> string" where
  "result_field resp key dflt =
     (case Option.bind (rs_result resp) (\<lambda>r. get_str r key) of Some s \<Rightarrow> s | None \<Rightarrow> dflt)"

definition target_load_params :: "string \<Rightarrow> string option \<Rightarrow> bool \<Rightarrow> json" where
  "target_load_params file idb_out no_analyse =
     JObject ([(''path'', JString file), (''auto_analyse'', JBool (\<not> no_analyse))] @
              (case idb_out of Some out \<Rightarrow> [(''idb_out'', JString out)] | None \<Rightarrow> []))"

fun run_target_command :: "client_env \<Rightarrow> target_command \<Rightarrow> cli_outcome" where
  "run_target_command env (TLoad file idb_out no_analyse) =
     with_response
       (send_daemon_request env ''target.load'' (target_load_params file idb_out no_analyse) None
          (client_timeout (ce_timeout_var env)))
       (\<lambda>resp. output_json env (json_of_opt id (rs_result resp))) []"
| "run_target_command env TList =
     with_response
       (send_daemon_request env ''target.list'' (JObject []) None (client_timeout (ce_timeout_var env)))
       (\<lambda>resp. output_json env (json_of_opt id (rs_result resp))) []"
| "run_target_command env (TClose tid) =
     with_response
       (send_daemon_request env ''target.close'' (JObject [(''id'', JString tid)]) None
          (client_timeout (ce_timeout_var env)))
       (\<lambda>resp. (Ok (), [Stderr (''Target '' @ [CHR 0x27] @ result_field resp ''closed'' tid @ [CHR 0x27] @ '' closed.'')])) []"
| "run_target_command env (TSwitch tid) =
     with_response
       (send_daemon_request env ''target.switch'' (JObject [(''id'', JString tid)]) None
          (client_timeout (ce_timeout_var env)))
       (\<lambda>resp. (Ok (), [Stderr (''Switched to target '' @ [CHR 0x27] @ result_field resp ''active'' tid @ [CHR 0x27] @ ''.'')])) []"

text \<open>\<open>pid as u32\<close> keeps the low 32 bits of the registry's number.\<close>

definition status_lines :: "client_env \<Rightarrow> json option \<Rightarrow> response \<Rightarrow> out_line list" where
  "status_lines env registry resp =
     [Stderr ''Daemon is running:''] @
     (case registry of
        None \<Rightarrow> []
      | Some reg \<Rightarrow>
          (let pid = (case get_u64 reg ''pid'' of Some n \<Rightarrow> n | None \<Rightarrow> 0);
               alive = (if 0 < pid \<and> ce_pid_alive env (pid mod 2 ^ 32) then ''alive'' else ''not running?'');
               field = (\<lambda>k. case get_str reg k of Some s \<Rightarrow> s | None \<Rightarrow> ''?'')
           in [Stderr (''  PID: '' @ fmt_dec pid @ '' ('' @ alive @ '')''),
               Stderr (''  Socket: '' @ field ''socket''), Stderr (''  Version: '' @ field ''version'')])) @
     (case rs_result resp of
        None \<Rightarrow> []
      | Some result \<Rightarrow>
          [Stderr (''  Targets loaded: '' @
             fmt_dec (case get_u64 result ''targets'' of Some n \<Rightarrow> n | None \<Rightarrow> 0))]) @
     [Stderr ''  Status: healthy'']"

definition daemon_status :: "client_env \<Rightarrow> string \<Rightarrow> cli_outcome" where
  "daemon_status env reg_path =
     (if \<not> ce_sock_exists env then (Ok (), [Stderr ''Daemon is not running (no socket found).''])
      else let registry = Option.bind (ce_registry env) (ce_parse_json env);
               warning = (if registry = None \<and> ce_registry_exists env
                          then [Stderr (''  Warning: could not parse registry file '' @ reg_path)] else [])
           in case send_daemon_request env ''ping'' (JObject []) None CLIENT_STATUS_TIMEOUT_SECS of
                Ok resp \<Rightarrow>
                  if rs_ok resp then (Ok (), warning @ status_lines env registry resp)
                  else (Ok (), warning @ [Stderr ''  Status: socket exists but daemon not responding''])
              | Err _ \<Rightarrow> (Ok (), warning @ [Stderr ''  Status: socket exists but daemon not responding'']))"

definition daemon_stop :: "client_env \<Rightarrow> cli_outcome" where
  "daemon_stop env =
     (case send_daemon_request env ''shutdown'' (JObject []) None CLIENT_STOP_TIMEOUT_SECS of
        Ok resp \<Rightarrow>
          if rs_ok resp then (Ok (), [Stderr ''Daemon stopped.''])
          else (Err (''Failed to stop daemon: '' @ (case rs_error resp of Some e \<Rightarrow> e | None \<Rightarrow> [])), [])
      | Err e \<Rightarrow> (Err (''Failed to stop daemon: '' @ e), []))"

text \<open>An analysis command; \<open>None\<close> is the \<open>unreachable!\<close> of the request conversion.\<close>

definition run_via_daemon ::
  "client_env \<Rightarrow> spill_env \<Rightarrow> string option \<Rightarrow> nat \<Rightarrow> cli_command \<Rightarrow> spill_fs \<Rightarrow>
   ((unit, string) result \<times> out_line list \<times> spill_fs) option" where
  "run_via_daemon env senv target spill_threshold cmd fs =
     (case cli_command_to_request cmd of
        None \<Rightarrow> None
      | Some (op, params) \<Rightarrow>
          Some (with_response
            (send_daemon_request env op params target (client_timeout (ce_timeout_var env)))
            (\<lambda>resp. case rs_result resp of
                None \<Rightarrow> (Ok (), [], fs)
              | Some result \<Rightarrow>
                  (case maybe_spill senv result op spill_threshold fs of
                     (Err e, fs) \<Rightarrow> (Err e, [], fs)
                   | (Ok sr, fs) \<Rightarrow> (Ok (), [Stdout (sr_stdout_output sr)], fs)))
            ([], fs)))"

section \<open>Starting the daemon in the background\<close>

definition daemon_answers :: "client_env \<Rightarrow> bool" where
  "daemon_answers env \<longleftrightarrow>
     ce_sock_exists env \<and>
     (case send_daemon_request env ''ping'' (JObject []) None CLIENT_STATUS_TIMEOUT_SECS of
        Ok resp \<Rightarrow> rs_ok resp | Err _ \<Rightarrow> False)"

text \<open>What one turn of the waiting loop sees: the daemon, the exit status of the child, whether the
  deadline of 15 seconds has passed. Waiting for more turns than are given is \<open>None\<close>.\<close>

record start_turn =
  tn_env :: client_env
  tn_wait :: "(string option, string) result"
  tn_late :: bool

record start_env =
  st_client :: client_env
  st_sock :: string
  st_log :: string
  st_mkdir_err :: "string option"
  st_open_err :: "string option"
  st_exe_err :: "string option"
  st_clone_err :: "string option"
  st_spawn :: "(nat, string) result"
  st_log_text :: string

definition log_tail :: "string \<Rightarrow> string" where
  "log_tail s = join [NL] (take 20 (rev (rust_lines s)))"

fun wait_started :: "start_env \<Rightarrow> nat \<Rightarrow> start_turn list \<Rightarrow> cli_outcome option" where
  "wait_started se pid [] = None"
| "wait_started se pid (tn # tns) =
     (if daemon_answers (tn_env tn)
      then Some (Ok (), [Stderr (''Daemon started in background (pid '' @ fmt_dec pid @ '')''),
                         Stderr (''  Socket: '' @ st_sock se), Stderr (''  Log: '' @ st_log se)])
      else case tn_wait tn of
             Err e \<Rightarrow> Some (Err e, [])
           | Ok (Some status) \<Rightarrow>
               (let tail = log_tail (st_log_text se)
                in Some (Err (''Background daemon failed to start (see '' @ st_log se @ '')''),
                         Stderr (''Daemon exited during startup: '' @ status) #
                         (if tail = [] then [] else [Stderr (''Last log lines:'' @ [NL] @ tail)])))
           | Ok None \<Rightarrow>
               if tn_late tn
               then Some (Err (''Daemon did not become ready within 15s (see '' @ st_log se @ '')''), [])
               else wait_started se pid tns)"

definition start_daemon_background :: "start_env \<Rightarrow> start_turn list \<Rightarrow> cli_outcome option" where
  "start_daemon_background se turns =
     (if daemon_answers (st_client se)
      then Some (Err ''Daemon is already running. Use 'ida-rs-cli daemon stop' first.'', [])
      else case and_then (fail_if (st_mkdir_err se) []) (\<lambda>_.
                and_then (fail_if (st_open_err se) []) (\<lambda>_.
                and_then (fail_if (st_exe_err se) []) (\<lambda>_.
                and_then (fail_if (st_clone_err se) []) (\<lambda>_. st_spawn se)))) of
             Err e \<Rightarrow> Some (Err e, [])
           | Ok pid \<Rightarrow> wait_started se pid turns)"

section \<open>The program\<close>

text \<open>\<open>router\<close> and \<open>worker\<close> are the outcomes of \<open>run_router\<close> and \<open>run_worker\<close>, which serve until they
  are shut down; \<open>None\<close> is that no outcome is reached.\<close>

fun run_daemon_command ::
  "start_env \<Rightarrow> start_turn list \<Rightarrow> string \<Rightarrow> cli_outcome option \<Rightarrow> (string \<Rightarrow> string \<Rightarrow> cli_outcome option) \<Rightarrow>
   daemon_command \<Rightarrow> cli_outcome option" where
  "run_daemon_command se turns reg_path router worker (DStart background) =
     (if background then start_daemon_background se turns else router)"
| "run_daemon_command se turns reg_path router worker DStop = Some (daemon_stop (st_client se))"
| "run_daemon_command se turns reg_path router worker DStatus = Some (daemon_status (st_client se) reg_path)"
| "run_daemon_command se turns reg_path router worker (DWorker sock wid) = worker sock wid"

definition run_cli ::
  "start_env \<Rightarrow> start_turn list \<Rightarrow> string \<Rightarrow> cli_outcome option \<Rightarrow> (string \<Rightarrow> string \<Rightarrow> cli_outcome option) \<Rightarrow>
   spill_env \<Rightarrow> string option \<Rightarrow> nat \<Rightarrow> cli_command \<Rightarrow> spill_fs \<Rightarrow>
   ((unit, string) result \<times> out_line list \<times> spill_fs) option" where
  "run_cli se turns reg_path router worker senv target spill_threshold cmd fs =
     (let keep = map_option (\<lambda>(r, out). (r, out, fs)) in
      case cmd of
        CDaemon c \<Rightarrow> keep (run_daemon_command se turns reg_path router worker c)
      | CTarget c \<Rightarrow> keep (Some (run_target_command (st_client se) c))
      | _ \<Rightarrow> run_via_daemon (st_client se) senv target spill_threshold cmd fs)"

end
