(* ===== verification/Cli_Props.thy ===== *)
theory Cli_Props
  imports Cli Router_Props
begin

text \<open>
  What a command of the client does. \<open>command_effect\<close> says, without requests and JSON, which
  handler the worker calls for a command and with which arguments; the first property is that the
  request built by the client and the dispatch of the worker together compute it. The last section
  joins the client, the line protocol and the router: the client reads the response made for its request.
\<close>

section \<open>The meaning of the commands\<close>

definition run_call ::
  "'idb handlers \<Rightarrow> 'idb option \<Rightarrow> (handler_call, string) result \<Rightarrow> ((json, string) result \<times> 'idb option) option" where
  "run_call h idb r = (case r of Err e \<Rightarrow> Some (Err e, idb) | Ok c \<Rightarrow> h_call h c idb)"

definition opt_parse :: "string option \<Rightarrow> (u64 option, string) result" where
  "opt_parse s = transpose_opt (map_option parse_addr s)"

definition need_addr :: "string option \<Rightarrow> (u64, string) result" where
  "need_addr s = (case s of None \<Rightarrow> Err ''Missing parameter: address'' | Some a \<Rightarrow> parse_addr a)"

definition text_effect ::
  "(string \<Rightarrow> json) \<Rightarrow> 'idb handlers \<Rightarrow> 'idb option \<Rightarrow> (text_call, string) result \<Rightarrow>
   ((json, string) result \<times> 'idb option) option" where
  "text_effect out h idb r =
     (case r of Err e \<Rightarrow> Some (Err e, idb) | Ok t \<Rightarrow> map_option (apfst (map_ok out)) (h_text h t idb))"

definition disasm_json :: "usize \<Rightarrow> string \<Rightarrow> json" where
  "disasm_json offset = (\<lambda>s. JObject [(''disasm'', JString (apply_line_offset s offset))])"

primrec command_effect ::
  "'idb handlers \<Rightarrow> 'idb idalib \<Rightarrow> string \<Rightarrow> 'idb option \<Rightarrow> cli_command \<Rightarrow>
   ((json, string) result \<times> 'idb option) option" where
  "command_effect h ida tid idb (CDaemon c) = None"
| "command_effect h ida tid idb (CTarget c) = None"
| "command_effect h ida tid idb (CIntConvert a) = None"
| "command_effect h ida tid idb CInfo = Some (dispatch_info h ida tid idb, idb)"
| "command_effect h ida tid idb CMeta = run_call h idb (Ok H_idb_meta)"
| "command_effect h ida tid idb CAnalysisStatus = run_call h idb (Ok H_analysis_status)"
| "command_effect h ida tid idb (CFunctions a) =
     run_call h idb (Ok (H_list_functions (functions_offset a) (functions_limit a) (functions_filter a)))"
| "command_effect h ida tid idb (CResolveFunction a) =
     run_call h idb (Ok (H_resolve_function (resolve_function_name a)))"
| "command_effect h ida tid idb (CFunctionAt a) =
     run_call h idb (map_ok H_function_at (parse_addr (address_address a)))"
| "command_effect h ida tid idb (CLookupFuncs a) = run_call h idb (Ok (H_lookup_funcs (lookup_funcs_queries a)))"
| "command_effect h ida tid idb CAnalyzeFuncs = run_call h idb (Ok H_analyze_funcs)"
| "command_effect h ida tid idb (CDisasm a) =
     text_effect (disasm_json (disasm_offset a)) h idb
       (case disasm_name a of
          Some name \<Rightarrow> Ok (T_disasm_by_name name (disasm_count a + disasm_offset a))
        | None \<Rightarrow> map_ok (\<lambda>addr. T_disasm addr (disasm_count a + disasm_offset a)) (need_addr (disasm_address a)))"
| "command_effect h ida tid idb (CDisasmFunctionAt a) =
     text_effect (\<lambda>s. JObject [(''disasm'', JString (apply_line_offset s (disasm_function_at_offset a))),
                               (''has_more'', JBool False)]) h idb
       (map_ok (\<lambda>addr. T_disasm_function_at addr (disasm_function_at_count a + disasm_function_at_offset a))
          (parse_addr (disasm_function_at_address a)))"
| "command_effect h ida tid idb (CDecompile a) =
     Option.bind
       (case decompile_name a of
          Some name \<Rightarrow> map_option (\<lambda>r. and_then r parse_addr) (h_resolve_address h name idb)
        | None \<Rightarrow> Some (need_addr (decompile_address a)))
       (\<lambda>addr. text_effect (\<lambda>s. JObject [(''pseudocode'', JString (apply_max_lines s (decompile_max_lines a)))]) h idb
          (map_ok T_decompile addr))"
| "command_effect h ida tid idb (CPseudocodeAt a) =
     run_call h idb (and_then (parse_addr (pseudocode_at_address a)) (\<lambda>addr.
       map_ok (H_pseudocode_at addr) (opt_parse (pseudocode_at_end_address a))))"
| "command_effect h ida tid idb (CStrings a) =
     run_call h idb (Ok (H_strings (strings_offset a) (strings_limit a) (strings_filter a)))"
| "command_effect h ida tid idb (CFindString a) =
     run_call h idb (Ok (H_find_string (find_string_query a) (find_string_exact a)
       (find_string_case_insensitive a) (find_string_offset a) (find_string_limit a)))"
| "command_effect h ida tid idb (CGetString a) =
     run_call h idb (map_ok (\<lambda>addr. H_get_string addr (get_string_max_len a)) (parse_addr (get_string_address a)))"
| "command_effect h ida tid idb (CAnalyzeStrings a) =
     run_call h idb (Ok (H_analyze_strings (analyze_strings_query a) (analyze_strings_offset a) (analyze_strings_limit a)))"
| "command_effect h ida tid idb (CXrefsToString a) =
     run_call h idb (Ok (H_xrefs_to_string (xrefs_to_string_query a) (xrefs_to_string_exact a)
       (xrefs_to_string_case_insensitive a) (xrefs_to_string_offset a) (xrefs_to_string_limit a)
       (xrefs_to_string_max_xrefs a)))"
| "command_effect h ida tid idb CSegments = run_call h idb (Ok H_segments)"
| "command_effect h ida tid idb (CImports a) = run_call h idb (Ok (H_imports (pagination_offset a) (pagination_limit a)))"
| "command_effect h ida tid idb (CExports a) = run_call h idb (Ok (H_exports (pagination_offset a) (pagination_limit a)))"
| "command_effect h ida tid idb CEntrypoints = run_call h idb (Ok H_entrypoints)"
| "command_effect h ida tid idb (CGlobals a) =
     run_call h idb (Ok (H_list_globals (globals_filter a) (globals_offset a) (globals_limit a)))"
| "command_effect h ida tid idb (CGetGlobalValue a) = run_call h idb (Ok (H_get_global_value (query_query a)))"
| "command_effect h ida tid idb (CXrefsTo a) =
     run_call h idb (map_ok (\<lambda>addr. H_xrefs_to addr (xref_page_offset a) (clamp_usize (xref_page_limit a) 1 10000))
       (parse_addr (xref_page_address a)))"
| "command_effect h ida tid idb (CXrefsFrom a) =
     run_call h idb (map_ok (\<lambda>addr. H_xrefs_from addr (xref_page_offset a) (clamp_usize (xref_page_limit a) 1 10000))
       (parse_addr (xref_page_address a)))"
| "command_effect h ida tid idb (CXrefMatrix a) =
     run_call h idb (map_ok H_xref_matrix (collect_results (map parse_addr (multi_address_addresses a))))"
| "command_effect h ida tid idb (CBasicBlocks a) = run_call h idb (map_ok H_basic_blocks (parse_addr (address_address a)))"
| "command_effect h ida tid idb (CCallers a) = run_call h idb (map_ok H_callers (parse_addr (address_address a)))"
| "command_effect h ida tid idb (CCallees a) = run_call h idb (map_ok H_callees (parse_addr (address_address a)))"
| "command_effect h ida tid idb (CCallgraph a) =
     run_call h idb (map_ok (\<lambda>addr. H_callgraph addr (callgraph_max_depth a) (callgraph_max_nodes a))
       (parse_addr (callgraph_address a)))"
| "command_effect h ida tid idb (CFindPaths a) =
     run_call h idb (and_then (parse_addr (find_paths_start a)) (\<lambda>s.
       map_ok (\<lambda>e. H_find_paths s e (find_paths_max_paths a) (find_paths_max_depth a)) (parse_addr (find_paths_end a))))"
| "command_effect h ida tid idb (CGetBytes a) =
     run_call h idb (map_ok (\<lambda>addr. H_get_bytes addr (get_bytes_size a)) (parse_addr (get_bytes_address a)))"
| "command_effect h ida tid idb (CReadInt a) =
     run_call h idb (map_ok (\<lambda>addr. H_read_int addr (read_int_size a)) (parse_addr (read_int_address a)))"
| "command_effect h ida tid idb (CFindBytes a) =
     run_call h idb (Ok (H_find_bytes (find_bytes_pattern a) (find_bytes_limit a)))"
| "command_effect h ida tid idb (CSearchText a) =
     run_call h idb (Ok (H_search_text (search_text_text a) (search_text_max_results a)))"
| "command_effect h ida tid idb (CSearchImm a) =
     run_call h idb (map_ok (\<lambda>imm. H_search_imm imm (search_imm_max_results a)) (parse_addr (search_imm_value a)))"
| "command_effect h ida tid idb (CFindInsns a) =
     run_call h idb (Ok (H_find_insns (find_insns_patterns a) (find_insns_max_results a) (find_insns_case_insensitive a)))"
| "command_effect h ida tid idb (CFindInsnOperands a) =
     run_call h idb (Ok (H_find_insn_operands (find_insns_patterns a) (find_insns_max_results a) (find_insns_case_insensitive a)))"
| "command_effect h ida tid idb (CAddrInfo a) = run_call h idb (map_ok H_addr_info (parse_addr (address_address a)))"
| "command_effect h ida tid idb (CLocalTypes a) =
     run_call h idb (Ok (H_local_types (local_types_offset a) (local_types_limit a) (local_types_filter a)))"
| "command_effect h ida tid idb (CDeclareType a) =
     run_call h idb (Ok (H_declare_type (declare_type_decl a) (declare_type_relaxed a) (declare_type_replace a) (declare_type_multi a)))"
| "command_effect h ida tid idb (CApplyTypes a) =
     run_call h idb (map_ok (\<lambda>addr. H_apply_types addr (apply_types_name a) (sint (apply_types_offset a))
       (map_option sint (apply_types_stack_offset a)) (apply_types_stack_name a) (apply_types_decl a)
       (apply_types_type_name a) (apply_types_relaxed a) (apply_types_delay a) (apply_types_strict a))
       (opt_parse (apply_types_address a)))"
| "command_effect h ida tid idb (CInferTypes a) =
     run_call h idb (map_ok (\<lambda>addr. H_infer_types addr (infer_types_name a) (sint (infer_types_offset a)))
       (opt_parse (infer_types_address a)))"
| "command_effect h ida tid idb (CStackFrame a) = run_call h idb (map_ok H_stack_frame (parse_addr (address_address a)))"
| "command_effect h ida tid idb (CDeclareStack a) =
     run_call h idb (map_ok (\<lambda>addr. H_declare_stack addr (declare_stack_name a) (sint (declare_stack_offset a))
       (declare_stack_var_name a) (declare_stack_decl a) (declare_stack_relaxed a)) (opt_parse (declare_stack_address a)))"
| "command_effect h ida tid idb (CDeleteStack a) =
     run_call h idb (map_ok (\<lambda>addr. H_delete_stack addr (delete_stack_name a)
       (map_option sint (delete_stack_offset a)) (delete_stack_var_name a)) (opt_parse (delete_stack_address a)))"
| "command_effect h ida tid idb (CStructs a) =
     run_call h idb (Ok (H_structs (structs_offset a) (structs_limit a) (structs_filter a)))"
| "command_effect h ida tid idb (CStructInfo a) =
     run_call h idb (Ok (H_struct_info (struct_info_ordinal a) (struct_info_name a)))"
| "command_effect h ida tid idb (CReadStruct a) =
     run_call h idb (map_ok (\<lambda>addr. H_read_struct addr (read_struct_ordinal a) (read_struct_name a))
       (parse_addr (read_struct_address a)))"
| "command_effect h ida tid idb (CXrefsToField a) =
     run_call h idb (Ok (H_xrefs_to_field (xrefs_to_field_ordinal a) (xrefs_to_field_name a)
       (xrefs_to_field_member_index a) (xrefs_to_field_member_name a) (xrefs_to_field_limit a)))"
| "command_effect h ida tid idb (CSetComment a) =
     run_call h idb (map_ok (\<lambda>addr. H_set_comments addr (set_comment_name a) (sint (set_comment_offset a))
       (set_comment_comment a) (set_comment_repeatable a)) (opt_parse (set_comment_address a)))"
| "command_effect h ida tid idb (CRename a) =
     run_call h idb (map_ok (\<lambda>addr. H_rename addr (rename_current_name a) (rename_name a) (rename_flags a))
       (opt_parse (rename_address a)))"
| "command_effect h ida tid idb (CPatchBytes a) =
     (case opt_parse (patch_bytes_address a) of
        Err e \<Rightarrow> Some (Err e, idb)
      | Ok addr \<Rightarrow>
          (case parse_hex_bytes (patch_bytes_bytes a) of
             None \<Rightarrow> None
           | Some r \<Rightarrow> run_call h idb (map_ok (H_patch_bytes addr (patch_bytes_name a) (sint (patch_bytes_offset a))) r)))"
| "command_effect h ida tid idb (CPatchAsm a) =
     run_call h idb (map_ok (\<lambda>addr. H_patch_asm addr (patch_asm_name a) (sint (patch_asm_offset a)) (patch_asm_line a))
       (opt_parse (patch_asm_address a)))"
| "command_effect h ida tid idb (CRunScript a) = run_call h idb (Ok (H_run_script (run_script_code a)))"
| "command_effect h ida tid idb (CLoadDebugInfo a) =
     run_call h idb (Ok (H_load_debug_info (load_debug_info_path a) (load_debug_info_verbose a)))"

section \<open>Reading back what the client wrote\<close>

lemma as_str_opt [simp]: "as_str (json_of_opt JString s) = s"
  by (simp add: json_of_opt_def split: option.splits)

lemma as_u64_of_usize [simp]: "map_option word_of_nat (as_u64 (of_usize v)) = Some v"
  by (simp add: of_usize_def json_of_nat_def)

lemma as_i64_of_i64 [simp]: "as_i64 (of_i64 v) = Some (sint v)"
  by (simp add: of_i64_def json_of_int_def)

lemma as_i64_of_i32 [simp]: "as_i64 (of_i32 v) = Some (sint v)"
  by (simp add: of_i32_def json_of_int_def)

lemma as_i64_opt [simp]: "as_i64 (json_of_opt of_i64 v) = map_option sint v"
  by (simp add: json_of_opt_def split: option.splits)

lemma as_u64_opt_u32 [simp]: "map_option word_of_nat (as_u64 (json_of_opt of_u32 v)) = v"
  by (simp add: json_of_opt_def of_u32_def json_of_nat_def split: option.splits)

lemma as_array_of_strs [simp]: "as_array (of_strs xs) = Some (map JString xs)"
  by (simp add: of_strs_def)

lemma map_filter_as_str [simp]: "List.map_filter as_str (map JString xs) = xs"
  by (induction xs) (simp_all add: List.map_filter_simps)

lemmas client_params = param_str_def param_usize_def param_bool_def param_addr_def param_str_vec_def
  param_addr_vec_def opt_addr_def opt_u32_def i64_or_def json_gets

lemmas dispatch_calls = run_op_def analysis_call_def call_functions_def call_pseudocode_def call_strings_def
  call_graph_def call_search_def call_types_def call_structs_def call_edits_def

lemmas effects = run_call_def text_effect_def opt_parse_def need_addr_def disasm_json_def

lemma and_then_Ok_map [simp]: "and_then r (\<lambda>x. Ok (f x)) = map_ok f r"
  by (cases r) simp_all

text \<open>The operations the router and the worker answer themselves.\<close>

definition manager_ops :: "string set" where
  "manager_ops = {''ping'', ''shutdown'', ''target.load'', ''target.list'', ''target.switch'', ''target.close''}"

text \<open>The request of a command makes the worker do what the command means.\<close>

definition reaches_handler ::
  "'idb handlers \<Rightarrow> 'idb idalib \<Rightarrow> string \<Rightarrow> 'idb option \<Rightarrow> cli_command \<Rightarrow> bool" where
  "reaches_handler h ida tid idb c \<longleftrightarrow>
     (case cli_command_to_request c of
        None \<Rightarrow> True
      | Some (op, p) \<Rightarrow> op \<noteq> ''int_convert'' \<longrightarrow>
          op \<notin> manager_ops \<and> known_op op p \<and> run_op h ida tid op p idb = command_effect h ida tid idb c)"

lemma reaches_planI:
  assumes "cli_command_to_request c = Some (op, p)" "command_effect h ida tid idb c = run_call h idb r"
    "op \<notin> {''info'', ''disasm'', ''disasm_function_at'', ''decompile''} \<union> manager_ops" "analysis_call op p = Plan r"
  shows "reaches_handler h ida tid idb c"
  using assms by (cases r) (simp_all add: reaches_handler_def run_op_def run_call_def known_op_def)

lemma not_sent_reaches:
  "reaches_handler h ida tid idb (CDaemon d)" "reaches_handler h ida tid idb (CTarget t)"
  "reaches_handler h ida tid idb (CIntConvert i)" "reaches_handler h ida tid idb CInfo"
  by (simp_all add: reaches_handler_def run_op_def known_op_def manager_ops_def)

lemma disasm_reaches: "reaches_handler h ida tid idb (CDisasm a)"
  unfolding reaches_handler_def cli_command_to_request.simps option.case prod.case
  by (cases "disasm_name a"; cases "disasm_address a"; cases "parse_addr (the (disasm_address a))")
    (simp_all add: run_op_def known_op_def manager_ops_def dispatch_disasm_def client_params effects json_of_opt_def Let_def)

lemma disasm_function_at_reaches: "reaches_handler h ida tid idb (CDisasmFunctionAt a)"
  unfolding reaches_handler_def cli_command_to_request.simps option.case prod.case
  by (cases "parse_addr (disasm_function_at_address a)")
    (simp_all add: run_op_def known_op_def manager_ops_def dispatch_disasm_function_at_def client_params effects Let_def)

lemma decompile_reaches: "reaches_handler h ida tid idb (CDecompile a)"
  unfolding reaches_handler_def cli_command_to_request.simps option.case prod.case
  by (cases "decompile_name a"; cases "decompile_address a"; cases "parse_addr (the (decompile_address a))";
      cases "h_resolve_address h (the (decompile_name a)) idb";
      cases "and_then (the (h_resolve_address h (the (decompile_name a)) idb)) parse_addr")
    (simp_all add: run_op_def known_op_def manager_ops_def dispatch_decompile_def client_params effects json_of_opt_def)

lemma patch_bytes_reaches: "reaches_handler h ida tid idb (CPatchBytes a)"
  unfolding reaches_handler_def cli_command_to_request.simps option.case prod.case
  by (cases "opt_parse (patch_bytes_address a)"; cases "parse_hex_bytes (patch_bytes_bytes a)";
      cases "the (parse_hex_bytes (patch_bytes_bytes a))")
    (simp_all add: dispatch_calls client_params effects known_op_def manager_ops_def)

lemmas other_reaches =
  not_sent_reaches disasm_reaches disasm_function_at_reaches decompile_reaches patch_bytes_reaches

lemma command_reaches_handler: "reaches_handler h ida tid idb c"
  by (induct c;
      (rule other_reaches
       | (rule reaches_planI, rule cli_command_to_request.simps, rule command_effect.simps, simp add: manager_ops_def,
          simp add: dispatch_calls client_params opt_parse_def)))

lemma command_request:
  assumes "cli_command_to_request c = Some (op, p)" "op \<noteq> ''int_convert''"
  shows "op \<notin> manager_ops" "known_op op p" "run_op h ida tid op p idb = command_effect h ida tid idb c"
  using command_reaches_handler [of h ida tid idb c] assms by (simp_all add: reaches_handler_def)

text \<open>C14: an analysis command of the client calls the handler the command names, with the
  arguments given on the command line: the numbers, addresses, flags and optional values survive
  the way through the JSON parameters, no command is an unknown operation, and no parameter is
  reported missing unless neither address nor name was given.\<close>

theorem cli_command_reaches_handler:
  assumes "cli_command_to_request c = Some (op, p)" "op \<noteq> ''int_convert''"
    "rq_op req = op" "rq_params req = p"
    "tm_resolve mgr (rq_target req) = Ok tid" "get_idb mgr tid = Ok idb"
  shows "dispatch_inner env info_json h ida req mgr =
    (case command_effect h ida tid idb c of
       None \<Rightarrow> (None, mgr)
     | Some (r, idb') \<Rightarrow> (Some r, set_idb tid idb' mgr))"
  using assms command_request(1,2) [OF assms(1,2)] command_request(3) [OF assms(1,2), of h ida tid idb]
  by (simp add: dispatch_inner_def dispatch_analysis_def manager_ops_def)

text \<open>A worker with one database and handlers that answer with the name of the call, for evaluation.\<close>

definition named_handlers :: "unit handlers" where
  "named_handlers = \<lparr>h_call = (\<lambda>c idb. Some (Ok (JString (hc_name c)), idb)), h_text = (\<lambda>_ idb. Some (Ok [], idb)),
     h_resolve_address = (\<lambda>_ _. Some (Err [])), h_analysis_status = (\<lambda>_. JNull)\<rparr>"

definition one_target :: "unit target_manager" where
  "one_target = \<lparr>tm_targets = [(''t1'', \<lparr>tr_idb = Some (), tr_info = info0\<rparr>)], tm_active_id = Some ''t1'', tm_next_id = 2\<rparr>"

theorem cli_command_reaches_handler_witness:
  "fst (dispatch_inner env0 (\<lambda>_. JNull) named_handlers ida0
     \<lparr>rq_id = [], rq_op = ''segments'', rq_params = JObject [], rq_target = None\<rparr> one_target) =
   Some (Ok (JString ''handle_segments''))"
  by (subst cli_command_reaches_handler [where c = CSegments and tid = "''t1''" and idb = "Some ()"])
    (simp_all add: one_target_def tm_resolve_def selects_active_def get_idb_def run_call_def named_handlers_def hm_get_def)

section \<open>Client, protocol and router\<close>

text \<open>What the client reads when the daemon at the other end is the router: the first response to
  the one line it wrote.\<close>

definition router_exchange ::
  "world \<Rightarrow> (string \<Rightarrow> (request, string) result) \<Rightarrow> (response \<Rightarrow> string) \<Rightarrow> router_sys \<Rightarrow>
   string \<Rightarrow> (string, read_failure) result" where
  "router_exchange w parse print sys line =
     (case router_handle_connection w parse (\<lambda>_. True) [line @ [NL]] None sys of
        (resps, _, _) \<Rightarrow> Ok (case resps of [] \<Rightarrow> [] | r # _ \<Rightarrow> print r @ [NL]))"

text \<open>The client is connected to the router, and the JSON library reads back the request and the
  response of this exchange.\<close>

definition connected ::
  "client_env \<Rightarrow> world \<Rightarrow> (string \<Rightarrow> (request, string) result) \<Rightarrow> (response \<Rightarrow> string) \<Rightarrow> router_sys \<Rightarrow>
   request \<Rightarrow> string \<Rightarrow> bool" where
  "connected env w parse print sys req line \<longleftrightarrow>
     ce_sock_exists env \<and> ce_connect_err env = None \<and> ce_timeout_err env = None \<and> ce_write_err env = None \<and>
     ce_newline_err env = None \<and> ce_flush_err env = None \<and>
     ce_exchange env = router_exchange w parse print sys \<and>
     ce_print_request env req = Ok line \<and> parse line = Ok req \<and>
     line \<noteq> [] \<and> NL \<notin> set line \<and> is_ascii line \<and> trim line = line \<and> length line \<le> MAX_LINE_BYTES \<and>
     (let resp = fst (route_request w req sys) in ce_parse_response env (print resp @ [NL]) = Ok resp)"

lemma one_line:
  assumes "line \<noteq> []" "NL \<notin> set line"
  shows "split_stream (line @ [NL]) = [line]"
proof -
  have "first_line (line @ [NL]) = line" "after_line (line @ [NL]) = []"
    using line_append_missing [of line "[NL]"] assms(2) by (simp_all add: first_line_def after_line_def)
  then show ?thesis by (subst split_stream.simps) simp
qed

lemma router_exchange_answer:
  assumes "connected env w parse print sys req line"
  shows "ce_exchange env line = Ok (print (fst (route_request w req sys)) @ [NL])"
proof -
  obtain resp served sys' where r: "route_request w req sys = (resp, served, sys')" by (metis prod_cases3)
  then have "served" by (auto simp: route_request_def split: prod.splits result.splits)
  with assms r have "fst (conn_loop None parse (route_request w) (\<lambda>_. True) 0 [line @ [NL]] sys) = [resp]"
    by (simp add: connected_def conn_loop_serves reader_ok_def one_line from_utf8_lossy_ascii emit_def)
  with assms r show ?thesis
    by (auto simp: connected_def router_exchange_def router_handle_connection_def split: prod.splits)
qed

text \<open>So the response a client reads is the one the router made for its request.\<close>

lemma send_daemon_request_answer:
  assumes "connected env w parse print sys (client_request env op p target) line"
  shows "send_daemon_request env op p target t = Ok (fst (route_request w (client_request env op p target) sys))"
  using assms router_exchange_answer [OF assms]
  by (simp add: send_daemon_request_def connected_def Let_def)

end
