(* ===== verification/Tool_Args.thy ===== *)
theory Tool_Args
  imports Errors
begin

text \<open>
  How the tools of the MCP server read their arguments, \<open>src/src/server/mod.rs\<close>: addresses and byte
  strings in the several forms clients send them, and bounded integers. \<open>of_text\<close> is the library's
  reader of JSON text and \<open>num_text\<close> its printer of numbers.
\<close>

section \<open>Strings and addresses\<close>

fun split_char :: "char \<Rightarrow> string \<Rightarrow> string list" where
  "split_char c [] = [[]]"
| "split_char c (x # xs) =
     (if x = c then [] # split_char c xs
      else case split_char c xs of w # ws \<Rightarrow> (x # w) # ws | [] \<Rightarrow> [[x]])"

definition parse_address :: "string \<Rightarrow> (u64, tool_error) result" where
  "parse_address s0 =
     (let s = filter (\<lambda>c. c \<noteq> CHR ''_'') (trim s0);
          radix = (\<lambda>r. ok_or (parse_u64 r (drop 2 s)) (InvalidAddress s))
      in if prefix ''0x'' s \<or> prefix ''0X'' s then radix 16
         else if prefix ''0b'' s \<or> prefix ''0B'' s then radix 2
         else if prefix ''0o'' s \<or> prefix ''0O'' s then radix 8
         else ok_or (parse_u64 10 s) (InvalidAddress s))"

definition scalar_string :: "(jnum \<Rightarrow> string) \<Rightarrow> json \<Rightarrow> (string, tool_error) result" where
  "scalar_string num_text v =
     (case v of JString s \<Rightarrow> Ok s | JNumber n \<Rightarrow> Ok (num_text n) | _ \<Rightarrow> Err (IdaError ''expected string or number''))"

definition value_to_strings ::
  "(string \<Rightarrow> json option) \<Rightarrow> (jnum \<Rightarrow> string) \<Rightarrow> json \<Rightarrow> (string list, tool_error) result" where
  "value_to_strings of_text num_text v =
     (case v of
        JString s \<Rightarrow>
          (let trimmed = trim s
           in case (if prefix ''['' trimmed then of_text trimmed else None) of
                Some (JArray arr) \<Rightarrow> collect_results (map (scalar_string num_text) arr)
              | _ \<Rightarrow>
                  if CHR '','' \<in> set trimmed
                  then Ok (filter (\<lambda>t. t \<noteq> []) (map trim (split_char (CHR '','') trimmed)))
                  else if trimmed = [] then Err (IdaError ''empty string'')
                  else Ok [trimmed])
      | JNumber n \<Rightarrow> Ok [num_text n]
      | JArray arr \<Rightarrow> collect_results (map (scalar_string num_text) arr)
      | _ \<Rightarrow> Err (IdaError ''expected string, number, or array''))"

definition value_to_addresses ::
  "(string \<Rightarrow> json option) \<Rightarrow> (jnum \<Rightarrow> string) \<Rightarrow> json \<Rightarrow> (u64 list, tool_error) result" where
  "value_to_addresses of_text num_text v =
     and_then (value_to_strings of_text num_text v) (\<lambda>strings.
       if strings = [] then Err (InvalidAddress ''no addresses provided'')
       else collect_results (map parse_address strings))"

definition value_to_single_address ::
  "(string \<Rightarrow> json option) \<Rightarrow> (jnum \<Rightarrow> string) \<Rightarrow> json \<Rightarrow> (u64, tool_error) result" where
  "value_to_single_address of_text num_text v =
     and_then (value_to_addresses of_text num_text v) (\<lambda>addrs.
       case addrs of a # _ \<Rightarrow> Ok a | [] \<Rightarrow> Err (InvalidAddress ''empty address list''))"

definition value_to_exactly_one_address ::
  "(string \<Rightarrow> json option) \<Rightarrow> (jnum \<Rightarrow> string) \<Rightarrow> json \<Rightarrow> string \<Rightarrow> (u64, tool_error) result" where
  "value_to_exactly_one_address of_text num_text v field_name =
     and_then (value_to_addresses of_text num_text v) (\<lambda>addrs.
       case addrs of [a] \<Rightarrow> Ok a | _ \<Rightarrow> Err (InvalidParams (field_name @ '' must contain exactly one value'')))"

section \<open>Bytes\<close>

definition is_hexdigit :: "char \<Rightarrow> bool" where
  "is_hexdigit c \<longleftrightarrow> to_digit 16 c \<noteq> None"

definition byte_separator :: "char \<Rightarrow> bool" where
  "byte_separator c \<longleftrightarrow> c \<in> {CHR '' '', CHR 0x09, CHR 0x0A, CHR 0x0C, CHR 0x0D} \<or>
     c \<in> {CHR '','', CHR ''_'', CHR '':'', CHR ''-''} \<or> c = CHR ''x'' \<or> c = CHR ''X''"

text \<open>The refused character is printed whole: its first byte with the continuation bytes.\<close>

fun clean_hex :: "string \<Rightarrow> (string, tool_error) result" where
  "clean_hex [] = Ok []"
| "clean_hex (c # cs) =
     (if is_hexdigit c then map_ok ((#) c) (clean_hex cs)
      else if byte_separator c then clean_hex cs
      else Err (InvalidParams (''invalid hex character: '' @ c # takeWhile is_continuation cs)))"

fun byte_pairs :: "string \<Rightarrow> (u8 list, tool_error) result" where
  "byte_pairs (a # b # rest) =
     and_then (ok_or (parse_uint 16 255 [a, b]) (InvalidParams ''invalid hex byte'')) (\<lambda>v.
       map_ok ((#) (word_of_nat v)) (byte_pairs rest))"
| "byte_pairs _ = Ok []"

definition hex_string_bytes :: "string \<Rightarrow> (u8 list, tool_error) result" where
  "hex_string_bytes s =
     and_then (clean_hex s) (\<lambda>cleaned.
       if cleaned = [] then Err (InvalidParams ''no bytes provided'')
       else if length cleaned mod 2 \<noteq> 0 then Err (InvalidParams ''hex string has odd length'')
       else byte_pairs cleaned)"

definition byte_of_nat :: "nat \<Rightarrow> (u8, tool_error) result" where
  "byte_of_nat n = (if 255 < n then Err (InvalidParams ''byte value out of range'') else Ok (word_of_nat n))"

definition byte_of_value :: "json \<Rightarrow> (u8, tool_error) result" where
  "byte_of_value v =
     (case v of
        JNumber n \<Rightarrow> and_then (ok_or (num_u64 n) (InvalidParams ''invalid byte'')) byte_of_nat
      | JString s \<Rightarrow> and_then (parse_address s) (\<lambda>a. byte_of_nat (unat a))
      | _ \<Rightarrow> Err (InvalidParams ''bytes must be numbers or strings''))"

definition value_to_bytes :: "json \<Rightarrow> (u8 list, tool_error) result" where
  "value_to_bytes v =
     (case v of
        JString s \<Rightarrow> hex_string_bytes s
      | JArray arr \<Rightarrow>
          and_then (collect_results (map byte_of_value arr)) (\<lambda>out.
            if out = [] then Err (InvalidParams ''no bytes provided'') else Ok out)
      | JNumber n \<Rightarrow> map_ok (\<lambda>b. [b]) (and_then (ok_or (num_u64 n) (InvalidParams ''invalid byte'')) byte_of_nat)
      | _ \<Rightarrow> Err (InvalidParams ''expected hex string or array of bytes''))"

section \<open>Bounded integers\<close>

text \<open>\<open>T::try_from\<close> for the type with the given name and range.\<close>

definition parse_optional_unsigned ::
  "string \<Rightarrow> int \<Rightarrow> int \<Rightarrow> int option \<Rightarrow> string \<Rightarrow> (int option, tool_error) result" where
  "parse_optional_unsigned tname lo hi v name =
     (case v of
        Some i \<Rightarrow>
          (if lo \<le> i \<and> i \<le> hi then Ok (Some i)
           else Err (InvalidParams (name @ '' ('' @ fmt_int i @ '') is out of range for '' @ tname)))
      | None \<Rightarrow> Ok None)"

definition arg_usize :: "int option \<Rightarrow> string \<Rightarrow> (usize option, tool_error) result" where
  "arg_usize v name = map_ok (map_option word_of_int) (parse_optional_unsigned ''usize'' 0 (2 ^ 64 - 1) v name)"

definition arg_u64 :: "int option \<Rightarrow> string \<Rightarrow> (u64 option, tool_error) result" where
  "arg_u64 v name = map_ok (map_option word_of_int) (parse_optional_unsigned ''u64'' 0 (2 ^ 64 - 1) v name)"

definition arg_u32 :: "int option \<Rightarrow> string \<Rightarrow> (u32 option, tool_error) result" where
  "arg_u32 v name = map_ok (map_option word_of_int) (parse_optional_unsigned ''u32'' 0 (2 ^ 32 - 1) v name)"

definition arg_i32 :: "int option \<Rightarrow> string \<Rightarrow> (32 word option, tool_error) result" where
  "arg_i32 v name = map_ok (map_option word_of_int) (parse_optional_unsigned ''i32'' (- (2 ^ 31)) (2 ^ 31 - 1) v name)"

text \<open>\<open>unwrap_or(d)\<close>, and \<open>unwrap_or(d).min(m)\<close>.\<close>

definition or_default :: "'a \<Rightarrow> 'a option \<Rightarrow> 'a" where
  "or_default d v = (case v of Some x \<Rightarrow> x | None \<Rightarrow> d)"

definition or_default_min :: "usize \<Rightarrow> usize \<Rightarrow> usize option \<Rightarrow> usize" where
  "or_default_min d m v = min (or_default d v) m"

section \<open>Reading addresses\<close>

lemma parse_u64_chars:
  assumes "parse_u64 r s = Some a" "c \<in> set s"
  shows "c = CHR ''+'' \<or> to_digit r c \<noteq> None"
proof (cases s)
  case (Cons d ds)
  from assms obtain v where "parse_uint r u64_max s = Some v" by (auto simp: parse_u64_def)
  with Cons assms(2) show ?thesis
    using parse_digits_valid [of r u64_max 0 ds v c] parse_digits_valid [of r u64_max 0 s v c]
    by (auto simp: parse_uint_def split: if_splits)
qed (use assms in simp)

lemma to_digit_underscore: "r \<le> 36 \<Longrightarrow> to_digit r (CHR ''_'') = None"
  by (simp add: to_digit_def)

lemma parse_u64_no_underscore:
  "parse_u64 r s = Some a \<Longrightarrow> r \<le> 36 \<Longrightarrow> filter (\<lambda>c. c \<noteq> CHR ''_'') s = s"
  using parse_u64_chars [of r s a] to_digit_underscore [of r] by (force intro: filter_True)

lemma decimal_no_prefix:
  assumes "parse_u64 10 s = Some a" "x \<in> {CHR ''x'', CHR ''X'', CHR ''b'', CHR ''B'', CHR ''o'', CHR ''O''}"
  shows "\<not> prefix [CHR ''0'', x] s"
proof
  assume "prefix [CHR ''0'', x] s"
  then have "x \<in> set s" by (auto simp: prefix_def)
  from parse_u64_chars [OF assms(1) this] assms(2) show False by (auto simp: to_digit_def)
qed

lemma parse_address_decimal: "parse_u64 10 (trim s) = Some a \<Longrightarrow> parse_address s = Ok a"
  by (simp add: parse_address_def Let_def parse_u64_no_underscore decimal_no_prefix)

text \<open>What the command line reads as an address, the tools read as the same address.\<close>

lemma parse_address_extends:
  assumes "parse_addr s = Ok a"
  shows "parse_address s = Ok a"
proof (cases "prefix ''0x'' (trim s) \<or> prefix ''0X'' (trim s)")
  case True
  then obtain x ds where t: "trim s = CHR ''0'' # x # ds" "x = CHR ''x'' \<or> x = CHR ''X''"
    by (auto simp: prefix_def)
  from t(2) assms have ds: "parse_u64 16 ds = Some a" by (elim disjE) (simp_all add: parse_addr_def Let_def t(1))
  from t(2) show ?thesis
    by (elim disjE) (simp_all add: parse_address_def Let_def t(1) ds parse_u64_no_underscore [OF ds])
next
  case False
  with assms show ?thesis by (simp add: parse_addr_def Let_def parse_address_decimal)
qed

lemma trim_prefixed: "2 \<le> r \<Longrightarrow> r \<le> 36 \<Longrightarrow> plain_char x \<Longrightarrow>
    trim (x # y # radix_digits r n) = x # y # radix_digits r n"
  using last_radix_digits [of r n] by (intro trim_plain) simp_all

lemma parse_address_radix:
  assumes "(x, r) \<in> {(CHR ''x'', 16), (CHR ''b'', 2), (CHR ''o'', 8)}"
  shows "parse_address (CHR ''0'' # x # radix_digits r (unat a)) = Ok a"
proof -
  have r: "2 \<le> r" "r \<le> 36" using assms by auto
  note p = parse_u64_radix_digits [OF r, of a]
  have "trim (CHR ''0'' # x # radix_digits r (unat a)) = CHR ''0'' # x # radix_digits r (unat a)"
    using r by (intro trim_prefixed) (simp_all add: plain_char_def)
  moreover have "filter (\<lambda>c. c \<noteq> CHR ''_'') (radix_digits r (unat a)) = radix_digits r (unat a)"
    using parse_u64_no_underscore [OF p] r by simp
  ultimately show ?thesis using assms p
    by (elim insertE emptyE) (simp_all add: parse_address_def Let_def)
qed

lemma parse_address_printed:
  "parse_address (fmt_hex (unat a)) = Ok a" "parse_address (fmt_dec (unat a)) = Ok a"
  "parse_address (fmt_bin (unat a)) = Ok a" "parse_address (fmt_oct (unat a)) = Ok a"
proof -
  show "parse_address (fmt_dec (unat a)) = Ok a"
    using parse_addr_roundtrip [of a] by (intro parse_address_extends) blast
qed (simp_all add: fmt_hex_def fmt_bin_def fmt_oct_def parse_address_radix)

text \<open>The forms in which a client may write one address.\<close>

definition address_text :: "u64 \<Rightarrow> string \<Rightarrow> bool" where
  "address_text a s \<longleftrightarrow> s \<in> {fmt_hex (unat a), fmt_dec (unat a), fmt_bin (unat a), fmt_oct (unat a)}"

definition address_form :: "u64 \<Rightarrow> json \<Rightarrow> bool" where
  "address_form a v \<longleftrightarrow> v = json_of_nat (unat a) \<or> (\<exists>s. v = JString s \<and> address_text a s)"

lemma address_text_parse: "address_text a s \<Longrightarrow> parse_address s = Ok a"
  by (auto simp: address_text_def parse_address_printed)

lemma radix_digits_digit: "2 \<le> r \<Longrightarrow> r \<le> 36 \<Longrightarrow> c \<in> set (radix_digits r n) \<Longrightarrow> to_digit r c \<noteq> None"
  using parse_digits_valid [OF parse_digits_radix_digits [of r n n]] by simp

lemma to_digit_marks: "r \<le> 36 \<Longrightarrow> to_digit r (CHR '','') = None \<and> to_digit r (CHR ''['') = None"
  by (simp add: to_digit_def)

lemma address_text_shape:
  assumes "address_text a s"
  shows "s \<noteq> [] \<and> list_all plain_char s \<and> CHR '','' \<notin> set s \<and> hd s \<noteq> CHR ''[''"
proof -
  have digits: "radix_digits r n \<noteq> [] \<and> list_all plain_char (radix_digits r n) \<and> CHR '','' \<notin> set (radix_digits r n) \<and>
      hd (radix_digits r n) \<noteq> CHR ''[''" if "2 \<le> r" "r \<le> 36" for r n
    using radix_digits_plain [OF that] radix_digits_digit [OF that, of "CHR '',''" n]
      radix_digits_digit [OF that, of "CHR ''[''" n] to_digit_marks [OF that(2)]
    by simp (metis list.set_sel(1) radix_digits_nonempty)
  show ?thesis
    using assms digits [of 16 "unat a"] digits [of 10 "unat a"] digits [of 2 "unat a"] digits [of 8 "unat a"]
    by (auto simp: address_text_def fmt_hex_def fmt_dec_def fmt_bin_def fmt_oct_def plain_char_def)
qed

lemma trim_text: "address_text a s \<Longrightarrow> trim s = s"
  using address_text_shape [of a s] by (intro trim_plain) (auto simp: list_all_iff)

lemma trim_space: "trim (CHR '' '' # s) = trim s"
  by (simp add: trim_def trim_start_def ws_seqs_def)

lemma split_char_append: "c \<notin> set s \<Longrightarrow> split_char c (s @ c # t) = s # split_char c t"
  by (induction s) auto

lemma split_char_none: "c \<notin> set s \<Longrightarrow> split_char c s = [s]"
  by (induction s) auto

lemma join_split:
  assumes "list_all2 address_text addrs ss" "ss \<noteq> []" "sep = [] \<or> sep = [CHR '' '']"
  shows "map trim (split_char (CHR '','') (join (CHR '','' # sep) ss)) = ss"
  using assms
proof (induction addrs ss rule: list_all2_induct)
  case (Cons a addrs s ss)
  then have s: "CHR '','' \<notin> set s" "trim s = s" using address_text_shape trim_text by blast+
  show ?case
  proof (cases ss)
    case (Cons t ts)
    then show ?thesis
      using Cons.IH Cons.prems s by (auto simp: split_char_append trim_space)
  qed (use s in \<open>simp add: split_char_none\<close>)
qed simp

lemma collect_addresses:
  "list_all2 address_text addrs ss \<Longrightarrow> collect_results (map parse_address ss) = Ok addrs"
  by (auto simp: collect_results_Ok_iff list_all2_conv_all_nth address_text_parse intro!: nth_equalityI)

lemma collect_forms:
  assumes "list_all2 address_form addrs vs" "\<forall>n i. num_text (JNum (Some n) i) = fmt_dec n"
  shows "\<exists>ss. collect_results (map (scalar_string num_text) vs) = Ok ss \<and> list_all2 address_text addrs ss"
  using assms(1)
proof (induction addrs vs rule: list_all2_induct)
  case (Cons a addrs v vs)
  from Cons(1) assms(2) obtain s where "scalar_string num_text v = Ok s" "address_text a s"
    by (auto simp: address_form_def scalar_string_def json_of_nat_def address_text_def)
  with Cons.IH show ?case by auto
qed simp

lemma value_to_addresses_strings:
  "value_to_strings of_text num_text v = Ok ss \<Longrightarrow> list_all2 address_text addrs ss \<Longrightarrow> addrs \<noteq> [] \<Longrightarrow>
     value_to_addresses of_text num_text v = Ok addrs"
  by (auto simp: value_to_addresses_def collect_addresses)

lemma join_ends:
  "list_all2 address_text addrs ss \<Longrightarrow> ss \<noteq> [] \<Longrightarrow>
     join sep ss \<noteq> [] \<and> hd (join sep ss) = hd (hd ss) \<and> last (join sep ss) = last (last ss)"
proof (induction addrs ss rule: list_all2_induct)
  case (Cons a addrs s ss)
  then have "s \<noteq> []" using address_text_shape by blast
  with Cons.IH show ?case by (cases ss) auto
qed simp

lemma joined_strings:
  assumes ss: "list_all2 address_text addrs ss" "addrs \<noteq> []" and sep: "sep \<in> {'','', '', ''}"
  shows "value_to_strings of_text num_text (JString (join sep ss)) = Ok ss"
proof -
  let ?t = "join sep ss"
  have ne: "ss \<noteq> []" using ss by auto
  have shape: "s \<noteq> [] \<and> list_all plain_char s \<and> CHR '','' \<notin> set s \<and> hd s \<noteq> CHR ''[''" if "s \<in> set ss" for s
    using ss(1) that address_text_shape by (auto simp: list_all2_conv_all_nth in_set_conv_nth)
  note ends = join_ends [OF ss(1) ne, of sep]
  have "plain_char (hd (hd ss))" "plain_char (last (last ss))" "hd (hd ss) \<noteq> CHR ''[''"
    using shape [of "hd ss"] shape [of "last ss"] ne by (auto simp: list_all_iff)
  with ends have t: "trim ?t = ?t" "\<not> prefix ''['' ?t" "?t \<noteq> []"
    by (auto simp: trim_plain prefix_def hd_append)
  have split: "map trim (split_char (CHR '','') ?t) = ss"
    using join_split [OF ss(1) ne, of "tl sep"] sep by auto
  have "filter (\<lambda>s. s \<noteq> []) ss = ss" using shape by (auto intro: filter_True)
  moreover have "ss = [?t]" if "CHR '','' \<notin> set ?t"
    using split t(1) by (simp add: split_char_none [OF that])
  ultimately show ?thesis
    using t split by (auto simp: value_to_strings_def Let_def)
qed

text \<open>C25: addresses reach a tool in whatever form a client writes them: as numbers or as text in
  decimal, hexadecimal, octal or binary, alone, in an array, in the text of an array, or separated
  by commas. Each form is read as the same addresses in the same order.\<close>

theorem addresses_in_every_form:
  assumes "list_all2 address_form addrs vs" "list_all2 address_text addrs ss" "addrs \<noteq> []"
    "\<forall>n i. num_text (JNum (Some n) i) = fmt_dec n"
  shows "value_to_addresses of_text num_text (JArray vs) = Ok addrs \<and>
    (sep \<in> {'','', '', ''} \<longrightarrow> value_to_addresses of_text num_text (JString (join sep ss)) = Ok addrs) \<and>
    (trim t = t \<and> prefix ''['' t \<and> of_text t = Some (JArray vs) \<longrightarrow>
       value_to_addresses of_text num_text (JString t) = Ok addrs) \<and>
    (vs = [v] \<longrightarrow> value_to_addresses of_text num_text v = Ok addrs)"
proof -
  obtain ts where ts: "collect_results (map (scalar_string num_text) vs) = Ok ts" "list_all2 address_text addrs ts"
    using collect_forms [OF assms(1,4)] by blast
  have "value_to_addresses of_text num_text (JArray vs) = Ok addrs"
    using ts assms(3) by (intro value_to_addresses_strings) (simp_all add: value_to_strings_def)
  moreover have "value_to_addresses of_text num_text (JString (join sep ss)) = Ok addrs" if "sep \<in> {'','', '', ''}"
    using value_to_addresses_strings [OF joined_strings [OF assms(2,3) that] assms(2,3)] .
  moreover have "value_to_addresses of_text num_text (JString t) = Ok addrs"
    if "trim t = t" "prefix ''['' t" "of_text t = Some (JArray vs)"
    using that ts assms(3) by (intro value_to_addresses_strings) (simp_all add: value_to_strings_def)
  moreover have "value_to_addresses of_text num_text v = Ok addrs" if "vs = [v]"
  proof -
    from that assms(1) obtain a where a: "addrs = [a]" "address_form a v" by (auto simp: list_all2_Cons2)
    show ?thesis
    proof (cases "\<exists>s. v = JString s \<and> address_text a s")
      case True
      then obtain s where s: "v = JString s" "address_text a s" by blast
      then show ?thesis using joined_strings [of "[a]" "[s]" "'',''"] a value_to_addresses_strings by simp
    next
      case False
      with a ts that show ?thesis
        by (intro value_to_addresses_strings [of _ _ _ ts])
          (auto simp: address_form_def value_to_strings_def scalar_string_def json_of_nat_def)
    qed
  qed
  ultimately show ?thesis by blast
qed

theorem addresses_in_every_form_witness:
  "value_to_addresses (\<lambda>_. None) (\<lambda>n. case num_u64 n of Some k \<Rightarrow> fmt_dec k | None \<Rightarrow> []) (JString ''0x10, 255'') = Ok [0x10, 0xFF] \<and>
   value_to_addresses (\<lambda>_. None) (\<lambda>n. case num_u64 n of Some k \<Rightarrow> fmt_dec k | None \<Rightarrow> []) (JArray [json_of_nat 16, JString ''0xff'']) = Ok [0x10, 0xFF]"
  using addresses_in_every_form [of "[0x10, 0xFF]" "[json_of_nat 16, JString ''0xff'']" "[''0x10'', ''255'']"
      "\<lambda>n. case num_u64 n of Some k \<Rightarrow> fmt_dec k | None \<Rightarrow> []" "\<lambda>_. None" "'', ''"]
  by (simp add: address_form_def address_text_def fmt_hex_def fmt_dec_def radix_digits.simps)

section \<open>Reading bytes\<close>

lemma unat_u8: "unat (b :: u8) < 256"
  using unsigned_less [of b, where ?'a = nat] by simp

lemma is_hexdigit_digit_char [simp]: "d < 16 \<Longrightarrow> is_hexdigit (digit_char d)"
  by (simp add: is_hexdigit_def)

lemma clean_hex_byte: "clean_hex (hex_byte b @ s) = map_ok ((@) (hex_byte b)) (clean_hex s)"
  using unat_u8 [of b] by (cases "clean_hex s") (simp_all add: hex_byte_def)

lemma separator_not_hexdigit: "byte_separator c \<Longrightarrow> \<not> is_hexdigit c"
  by (auto simp: byte_separator_def is_hexdigit_def to_digit_def)

lemma clean_hex_separators: "list_all byte_separator t \<Longrightarrow> clean_hex (t @ s) = clean_hex s"
  by (induction t) (auto simp: separator_not_hexdigit)

lemma byte_pairs_append: "byte_pairs (hex_byte b @ s) = map_ok ((#) b) (byte_pairs s)"
  using hex_byte_parse [of b] by (simp add: hex_byte_def)

lemma clean_hex_spread:
  assumes "list_all2 (\<lambda>t b. list_all byte_separator t) seps bs" "list_all byte_separator trail"
  shows "clean_hex (concat (map2 (\<lambda>t b. t @ hex_byte b) seps bs) @ trail) = Ok (concat (map hex_byte bs))"
  using assms(1)
proof (induction seps bs rule: list_all2_induct)
  case Nil
  show ?case using clean_hex_separators [OF assms(2), of "[]"] by simp
qed (simp add: clean_hex_separators clean_hex_byte)

lemma byte_pairs_bytes: "byte_pairs (concat (map hex_byte bs)) = Ok bs"
proof (induction bs)
  case (Cons b bs)
  then show ?case by (simp add: byte_pairs_append)
qed simp

lemma hex_bytes_Nil: "concat (map hex_byte bs) = [] \<longleftrightarrow> bs = []"
  by (cases bs) (simp_all add: hex_byte_def)

lemma hex_string_bytes_clean:
  "clean_hex s = Ok (concat (map hex_byte bs)) \<Longrightarrow> bs \<noteq> [] \<Longrightarrow> hex_string_bytes s = Ok bs"
  by (simp add: hex_string_bytes_def byte_pairs_bytes length_hex_bytes hex_bytes_Nil del: concat_eq_Nil_conv)

lemma unat_ucast_u8: "unat (ucast (b :: u8) :: u64) = unat b"
  using unat_u8 [of b] by (simp add: unsigned_ucast_eq take_bit_eq_mod)

lemma byte_of_nat_unat: "byte_of_nat (unat b) = Ok b"
  using unat_u8 [of b] by (simp add: byte_of_nat_def)

text \<open>bytes reach the \<open>patch\<close> tool as they were written: two hexadecimal digits each with any
  separators before, between and after them, an array of numbers, or an array of prefixed
  hexadecimal numbers.\<close>

theorem bytes_roundtrip:
  assumes "list_all2 (\<lambda>t b. list_all byte_separator t) seps bs" "list_all byte_separator trail" "bs \<noteq> []"
  shows "value_to_bytes (JString (concat (map2 (\<lambda>t b. t @ hex_byte b) seps bs) @ trail)) = Ok bs \<and>
    value_to_bytes (JArray (map (\<lambda>b. json_of_nat (unat b)) bs)) = Ok bs \<and>
    value_to_bytes (JArray (map (\<lambda>b. JString (fmt_hex (unat b))) bs)) = Ok bs"
proof -
  have "parse_address (fmt_hex (unat b)) = Ok (ucast b)" for b :: u8
    using parse_address_printed(1) [of "ucast b"] by (simp add: unat_ucast_u8)
  then have "collect_results (map byte_of_value (map (\<lambda>b. JString (fmt_hex (unat b))) bs)) = Ok bs"
    by (auto simp: collect_results_Ok_iff byte_of_value_def byte_of_nat_unat unat_ucast_u8)
  moreover have "collect_results (map byte_of_value (map (\<lambda>b. json_of_nat (unat b)) bs)) = Ok bs"
    by (auto simp: collect_results_Ok_iff byte_of_value_def byte_of_nat_unat json_of_nat_def)
  ultimately show ?thesis
    using assms hex_string_bytes_clean [OF clean_hex_spread] by (auto simp: value_to_bytes_def)
qed

theorem bytes_roundtrip_witness:
  "value_to_bytes (JString ''90,cc'') = Ok [0x90, 0xCC] \<and>
   value_to_bytes (JArray [JString ''0x90'', JString ''0xcc'']) = Ok [0x90, 0xCC]"
  using bytes_roundtrip [of "['''', '','']" "[0x90, 0xCC]" "[]"]
  by (simp add: byte_separator_def hex_byte_def fmt_hex_def radix_digits.simps)

lemma prefixed_pair:
  "CHR ''0'' # hex_byte a @ CHR ''0'' # hex_byte b = concat (map hex_byte [drop_bit 4 a, push_bit 4 a, b])"
proof -
  have "unat (drop_bit 4 a) = unat a div 16" "unat (push_bit 4 a) = 16 * (unat a mod 16)"
    using mult_mod_right [of 16 "unat a" 16]
    by (simp_all add: drop_bit_eq_div push_bit_eq_mult unat_div_distrib unat_word_ariths mult.commute)
  then show ?thesis using unat_u8 [of a] by (simp add: hex_byte_def)
qed

lemma clean_hex_prefixed:
  "clean_hex (''0x'' @ hex_byte b @ s) = map_ok (\<lambda>r. CHR ''0'' # hex_byte b @ r) (clean_hex s)"
proof -
  have "is_hexdigit (CHR ''0'')" "\<not> is_hexdigit (CHR ''x'')" "byte_separator (CHR ''x'')"
    by (simp_all add: is_hexdigit_def to_digit_def byte_separator_def)
  then show ?thesis using clean_hex_byte [of b s] by (cases "clean_hex s") simp_all
qed

lemma clean_hex_prefixed_pairs:
  "clean_hex (concat (map (\<lambda>(a, b). ''0x'' @ hex_byte a @ '' 0x'' @ hex_byte b @ '' '') ps)) =
     Ok (concat (map hex_byte (concat (map (\<lambda>(a, b). [drop_bit 4 a, push_bit 4 a, b]) ps))))"
proof (induction ps)
  case (Cons p ps)
  obtain a b where p: "p = (a, b)" by fastforce
  have space: "clean_hex (CHR '' '' # s) = clean_hex s" for s
    using clean_hex_separators [of "'' ''" s] by (simp add: byte_separator_def)
  have "clean_hex (''0x'' @ hex_byte a @ '' 0x'' @ hex_byte b @ '' '' @ s) =
      map_ok (\<lambda>r. (CHR ''0'' # hex_byte a @ CHR ''0'' # hex_byte b) @ r) (clean_hex s)" for s
    using clean_hex_prefixed [of a "'' '' @ ''0x'' @ hex_byte b @ '' '' @ s"] clean_hex_prefixed [of b "'' '' @ s"]
    unfolding append_Cons append_Nil append_assoc space by (cases "clean_hex s") simp_all
  from this [of "concat (map (\<lambda>(a, b). ''0x'' @ hex_byte a @ '' 0x'' @ hex_byte b @ '' '') ps)"] Cons.IH p
  show ?case unfolding prefixed_pair by simp
qed simp

text \<open>C40: a prefix \<open>0x\<close> before the bytes of a hexadecimal string is not skipped: its \<open>x\<close> is, but its
  zero is taken for a digit. A single prefixed byte is refused, and of an even number every two
  bytes become three others. In an array a text without prefix is a decimal number, which in a
  string is hexadecimal.\<close>

theorem prefixed_bytes_are_misread:
  "(ps \<noteq> [] \<longrightarrow>
      value_to_bytes (JString (concat (map (\<lambda>(a, b). ''0x'' @ hex_byte a @ '' 0x'' @ hex_byte b @ '' '') ps))) =
        Ok (concat (map (\<lambda>(a, b). [drop_bit 4 a, push_bit 4 a, b]) ps))) \<and>
   value_to_bytes (JString (''0x'' @ hex_byte b)) = Err (InvalidParams ''hex string has odd length'') \<and>
   value_to_bytes (JString ''90'') = Ok [0x90] \<and> value_to_bytes (JArray [JString ''90'']) = Ok [90]"
proof (intro conjI impI)
  assume "ps \<noteq> []"
  then have "concat (map (\<lambda>(a, b). [drop_bit 4 a, push_bit 4 a, b]) ps) \<noteq> []" by (auto simp: neq_Nil_conv)
  then show "value_to_bytes (JString (concat (map (\<lambda>(a, b). ''0x'' @ hex_byte a @ '' 0x'' @ hex_byte b @ '' '') ps))) =
      Ok (concat (map (\<lambda>(a, b). [drop_bit 4 a, push_bit 4 a, b]) ps))"
    unfolding value_to_bytes_def json.case by (rule hex_string_bytes_clean [OF clean_hex_prefixed_pairs])
next
  show "value_to_bytes (JString (''0x'' @ hex_byte b)) = Err (InvalidParams ''hex string has odd length'')"
    using clean_hex_prefixed [of b "[]"] by (simp add: value_to_bytes_def hex_string_bytes_def hex_byte_def)
next
  show "value_to_bytes (JString ''90'') = Ok [0x90]"
    by (simp add: value_to_bytes_def hex_string_bytes_def is_hexdigit_def to_digit_def parse_uint_def)
next
  show "value_to_bytes (JArray [JString ''90'']) = Ok [90]"
    using parse_address_printed(2) [of 90]
    by (simp add: value_to_bytes_def byte_of_value_def byte_of_nat_def fmt_dec_def radix_digits.simps)
qed

theorem prefixed_bytes_are_misread_witness:
  "value_to_bytes (JString ''0x90 0x91 '') = Ok [0x09, 0x00, 0x91]"
  using prefixed_bytes_are_misread [of "[(0x90, 0x91)]" 0] by (simp add: hex_byte_def)

end
