(* ===== verification/Tool_Requests.thy ===== *)
theory Tool_Requests
  imports Tool_Args
begin

text \<open>
  The arguments of the tools, \<open>src/src/server/requests.rs\<close>, as the library hands them to the tools:
  integers have the range of \<open>i64\<close>, and a \<open>Value\<close> is any JSON value. Their readers are in \<open>Tool_Decode\<close>.
\<close>

record load_debug_info_request =
  rq_load_debug_info_path :: "string option"
  rq_load_debug_info_verbose :: "bool option"

record list_functions_request =
  rq_list_functions_offset :: "int option"
  rq_list_functions_limit :: "int option"
  rq_list_functions_filter :: "string option"
  rq_list_functions_timeout_secs :: "int option"

record resolve_function_request =
  rq_resolve_function_name :: string

record addr_info_request =
  rq_addr_info_address :: "json option"
  rq_addr_info_target_name :: "string option"
  rq_addr_info_offset :: "int option"

record function_at_request =
  rq_function_at_address :: "json option"
  rq_function_at_target_name :: "string option"
  rq_function_at_offset :: "int option"

record disasm_function_at_request =
  rq_disasm_function_at_address :: "json option"
  rq_disasm_function_at_target_name :: "string option"
  rq_disasm_function_at_offset :: "int option"
  rq_disasm_function_at_count :: "int option"

record disasm_request =
  rq_disasm_address :: json
  rq_disasm_count :: "int option"

record disasm_by_name_request =
  rq_disasm_by_name_name :: string
  rq_disasm_by_name_count :: "int option"

record decompile_request =
  rq_decompile_address :: json

record strings_request =
  rq_strings_offset :: "int option"
  rq_strings_limit :: "int option"
  rq_strings_filter :: "string option"
  rq_strings_timeout_secs :: "int option"

record find_string_request =
  rq_find_string_query :: string
  rq_find_string_exact :: "bool option"
  rq_find_string_case_insensitive :: "bool option"
  rq_find_string_offset :: "int option"
  rq_find_string_limit :: "int option"
  rq_find_string_timeout_secs :: "int option"

record xrefs_to_string_request =
  rq_xrefs_to_string_query :: string
  rq_xrefs_to_string_exact :: "bool option"
  rq_xrefs_to_string_case_insensitive :: "bool option"
  rq_xrefs_to_string_offset :: "int option"
  rq_xrefs_to_string_limit :: "int option"
  rq_xrefs_to_string_max_xrefs :: "int option"
  rq_xrefs_to_string_timeout_secs :: "int option"

record local_types_request =
  rq_local_types_offset :: "int option"
  rq_local_types_limit :: "int option"
  rq_local_types_filter :: "string option"
  rq_local_types_timeout_secs :: "int option"

record declare_type_request =
  rq_declare_type_decl :: string
  rq_declare_type_relaxed :: "bool option"
  rq_declare_type_replace :: "bool option"
  rq_declare_type_multi :: "bool option"

record structs_request =
  rq_structs_offset :: "int option"
  rq_structs_limit :: "int option"
  rq_structs_filter :: "string option"
  rq_structs_timeout_secs :: "int option"

record struct_info_request =
  rq_struct_info_ordinal :: "int option"
  rq_struct_info_name :: "string option"

record read_struct_request =
  rq_read_struct_address :: json
  rq_read_struct_ordinal :: "int option"
  rq_read_struct_name :: "string option"

record apply_types_request =
  rq_apply_types_address :: "json option"
  rq_apply_types_target_name :: "string option"
  rq_apply_types_offset :: "int option"
  rq_apply_types_stack_offset :: "int option"
  rq_apply_types_stack_name :: "string option"
  rq_apply_types_type_name :: "string option"
  rq_apply_types_decl :: "string option"
  rq_apply_types_relaxed :: "bool option"
  rq_apply_types_delay :: "bool option"
  rq_apply_types_strict :: "bool option"

record infer_types_request =
  rq_infer_types_address :: "json option"
  rq_infer_types_target_name :: "string option"
  rq_infer_types_offset :: "int option"

record declare_stack_request =
  rq_declare_stack_address :: "json option"
  rq_declare_stack_target_name :: "string option"
  rq_declare_stack_offset :: int
  rq_declare_stack_var_name :: "string option"
  rq_declare_stack_decl :: string
  rq_declare_stack_relaxed :: "bool option"

record delete_stack_request =
  rq_delete_stack_address :: "json option"
  rq_delete_stack_target_name :: "string option"
  rq_delete_stack_offset :: "int option"
  rq_delete_stack_var_name :: "string option"

record xrefs_to_field_request =
  rq_xrefs_to_field_ordinal :: "int option"
  rq_xrefs_to_field_name :: "string option"
  rq_xrefs_to_field_member_index :: "int option"
  rq_xrefs_to_field_member_name :: "string option"
  rq_xrefs_to_field_limit :: "int option"

record address_request =
  rq_address_address :: json

record lumina_lookup_request =
  rq_lumina_lookup_address :: "json option"
  rq_lumina_lookup_target_name :: "string option"
  rq_lumina_lookup_offset :: "int option"
  rq_lumina_lookup_timeout_secs :: "int option"

record lumina_apply_request =
  rq_lumina_apply_address :: "json option"
  rq_lumina_apply_target_name :: "string option"
  rq_lumina_apply_offset :: "int option"
  rq_lumina_apply_force :: "bool option"
  rq_lumina_apply_timeout_secs :: "int option"

record xrefs_request =
  rq_xrefs_address :: json
  rq_xrefs_limit :: "int option"
  rq_xrefs_offset :: "int option"
  rq_xrefs_timeout_secs :: "int option"

record get_bytes_request =
  rq_get_bytes_address :: "json option"
  rq_get_bytes_target_name :: "string option"
  rq_get_bytes_offset :: "int option"
  rq_get_bytes_size :: "int option"

record set_comments_request =
  rq_set_comments_address :: "json option"
  rq_set_comments_target_name :: "string option"
  rq_set_comments_offset :: "int option"
  rq_set_comments_comment :: string
  rq_set_comments_repeatable :: "bool option"

record rename_request =
  rq_rename_address :: "json option"
  rq_rename_current_name :: "string option"
  rq_rename_name :: string
  rq_rename_flags :: "int option"

record patch_request =
  rq_patch_address :: "json option"
  rq_patch_target_name :: "string option"
  rq_patch_offset :: "int option"
  rq_patch_bytes :: json

record patch_asm_request =
  rq_patch_asm_address :: "json option"
  rq_patch_asm_target_name :: "string option"
  rq_patch_asm_offset :: "int option"
  rq_patch_asm_line :: string

record paginated_request =
  rq_paginated_offset :: "int option"
  rq_paginated_limit :: "int option"

record lookup_funcs_request =
  rq_lookup_funcs_queries :: json

record list_globals_request =
  rq_list_globals_query :: "string option"
  rq_list_globals_offset :: "int option"
  rq_list_globals_limit :: "int option"
  rq_list_globals_timeout_secs :: "int option"

record analyze_strings_request =
  rq_analyze_strings_query :: "string option"
  rq_analyze_strings_offset :: "int option"
  rq_analyze_strings_limit :: "int option"
  rq_analyze_strings_timeout_secs :: "int option"

record find_bytes_request =
  rq_find_bytes_patterns :: json
  rq_find_bytes_limit :: "int option"
  rq_find_bytes_offset :: "int option"
  rq_find_bytes_timeout_secs :: "int option"
  rq_find_bytes_worker_max_results :: "int option"

record search_request =
  rq_search_targets :: json
  rq_search_kind :: "string option"
  rq_search_limit :: "int option"
  rq_search_offset :: "int option"
  rq_search_timeout_secs :: "int option"
  rq_search_worker_max_results :: "int option"

record find_insns_request =
  rq_find_insns_patterns :: json
  rq_find_insns_limit :: "int option"
  rq_find_insns_case_insensitive :: "bool option"
  rq_find_insns_timeout_secs :: "int option"

record find_insn_operands_request =
  rq_find_insn_operands_patterns :: json
  rq_find_insn_operands_limit :: "int option"
  rq_find_insn_operands_case_insensitive :: "bool option"
  rq_find_insn_operands_timeout_secs :: "int option"

record find_paths_request =
  rq_find_paths_start :: json
  rq_find_paths_end :: json
  rq_find_paths_max_paths :: "int option"
  rq_find_paths_max_depth :: "int option"

record call_graph_request =
  rq_call_graph_roots :: json
  rq_call_graph_max_depth :: "int option"
  rq_call_graph_max_nodes :: "int option"

record xref_matrix_request =
  rq_xref_matrix_addrs :: json

record export_funcs_request =
  rq_export_funcs_addrs :: "json option"
  rq_export_funcs_offset :: "int option"
  rq_export_funcs_limit :: "int option"
  rq_export_funcs_format :: "string option"

record get_string_request =
  rq_get_string_address :: json
  rq_get_string_max_len :: "int option"

record get_global_value_request =
  rq_get_global_value_query :: json

record int_convert_request =
  rq_int_convert_inputs :: json

record pseudocode_at_request =
  rq_pseudocode_at_address :: json
  rq_pseudocode_at_end_address :: "string option"

end
