(* ===== verification/Mcp_Lock.thy ===== *)
theory Mcp_Lock
  imports Paths Errors
begin

text \<open>
  The lock files that keep two processes from opening one database, \<open>src/src/ida/lock.rs\<close>, for
  Unix. The world is what the operating system keeps: which file a path names, the text of a file,
  which process holds the record lock of a file and which processes run. Files are numbered, so that
  a path can name another file after it was removed and created again while a process still has the
  old one open. A record lock belongs to a process and a file; closing the file releases it.
  Removing a file that exists succeeds here: its errors are left out.
\<close>

section \<open>Paths\<close>

text \<open>\<open>PathBuf::set_extension\<close>: what follows the file name is cut off, and the extension replaced.\<close>

fun skip_trailing :: "string \<Rightarrow> string" where
  "skip_trailing (c # cs) =
     (if c = CHR ''/'' then skip_trailing cs
      else if c = CHR ''.'' \<and> cs \<noteq> [] \<and> hd cs = CHR ''/'' then skip_trailing cs
      else c # cs)"
| "skip_trailing [] = []"

definition file_stem :: "string \<Rightarrow> string" where
  "file_stem name =
     (if CHR ''.'' \<notin> set (tl name) then name
      else rev (tl (dropWhile (\<lambda>c. c \<noteq> CHR ''.'') (rev name))))"

definition set_extension :: "string \<Rightarrow> string \<Rightarrow> string" where
  "set_extension p ext =
     (case file_name p of
        None \<Rightarrow> p
      | Some name \<Rightarrow>
          (let q = rev (skip_trailing (rev p))
           in take (length q - length name) q @ file_stem name @ (if ext = [] then [] else ''.'' @ ext)))"

abbreviation lock_path_for :: "string \<Rightarrow> string" where
  "lock_path_for db_path \<equiv> set_extension db_path ''imcp''"

section \<open>System calls\<close>

record lock_world =
  lw_dir :: "string \<Rightarrow> nat option"
  lw_text :: "nat \<Rightarrow> string"
  lw_owner :: "nat \<Rightarrow> nat option"
  lw_fresh :: nat
  lw_running :: "nat \<Rightarrow> bool"

definition sys_open_create :: "string \<Rightarrow> lock_world \<Rightarrow> nat \<times> lock_world" where
  "sys_open_create path w =
     (case lw_dir w path of
        Some i \<Rightarrow> (i, w)
      | None \<Rightarrow>
          (lw_fresh w,
           w\<lparr>lw_dir := (lw_dir w)(path \<mapsto> lw_fresh w), lw_text := (lw_text w)(lw_fresh w := []),
             lw_owner := (lw_owner w)(lw_fresh w := None), lw_fresh := Suc (lw_fresh w)\<rparr>))"

text \<open>\<open>F_SETLK\<close>: granted unless another process holds the lock, whose number \<open>F_GETLK\<close> tells.\<close>

definition try_lock_file :: "nat \<Rightarrow> nat \<Rightarrow> lock_world \<Rightarrow> (unit, nat) result \<times> lock_world" where
  "try_lock_file me i w =
     (case lw_owner w i of
        Some p \<Rightarrow> if p = me then (Ok (), w) else (Err p, w)
      | None \<Rightarrow> (Ok (), w\<lparr>lw_owner := (lw_owner w)(i \<mapsto> me)\<rparr>))"

definition sys_close :: "nat \<Rightarrow> nat \<Rightarrow> lock_world \<Rightarrow> lock_world" where
  "sys_close me i w = (if lw_owner w i = Some me then w\<lparr>lw_owner := (lw_owner w)(i := None)\<rparr> else w)"

definition sys_write :: "nat \<Rightarrow> string \<Rightarrow> lock_world \<Rightarrow> lock_world" where
  "sys_write i s w = w\<lparr>lw_text := (lw_text w)(i := s)\<rparr>"

definition sys_unlink :: "string \<Rightarrow> lock_world \<Rightarrow> lock_world" where
  "sys_unlink path w = w\<lparr>lw_dir := (lw_dir w)(path := None)\<rparr>"

section \<open>Taking and releasing the lock\<close>

record mcp_lock =
  ml_file :: nat
  ml_path :: string

record lock_info =
  li_host :: string
  li_exe :: string
  li_now :: nat
  li_open_err :: "string option"

definition lock_text :: "nat \<Rightarrow> lock_info \<Rightarrow> string" where
  "lock_text pid li =
     ''pid='' @ fmt_dec pid @ [NL] @ ''host='' @ li_host li @ [NL] @ ''exe='' @ li_exe li @ [NL] @
     ''opened_at='' @ fmt_dec (li_now li) @ [NL]"

text \<open>\<open>acquire_mcp_lock\<close> in the two parts that another process can come between: opening the lock
  file, and locking and filling it.\<close>

definition acquire_open :: "lock_info \<Rightarrow> string \<Rightarrow> lock_world \<Rightarrow> (nat, tool_error) result \<times> lock_world" where
  "acquire_open li db_path w =
     (case li_open_err li of
        Some e \<Rightarrow> (Err (OpenFailed (lock_path_for db_path @ '': '' @ e)), w)
      | None \<Rightarrow> apfst Ok (sys_open_create (lock_path_for db_path) w))"

definition acquire_finish ::
  "nat \<Rightarrow> lock_info \<Rightarrow> string \<Rightarrow> nat \<Rightarrow> lock_world \<Rightarrow> (mcp_lock, tool_error) result \<times> lock_world" where
  "acquire_finish me li db_path i w =
     (let path = lock_path_for db_path in
      case try_lock_file me i w of
        (Err pid, w) \<Rightarrow>
          (Err (DatabaseLocked (if 0 < pid then path @ '' (locked by pid '' @ fmt_dec pid @ '')'' else path)),
           sys_close me i w)
      | (Ok _, w) \<Rightarrow> (Ok \<lparr>ml_file = i, ml_path = path\<rparr>, sys_write i (lock_text me li) w))"

definition acquire_mcp_lock ::
  "nat \<Rightarrow> lock_info \<Rightarrow> string \<Rightarrow> lock_world \<Rightarrow> (mcp_lock, tool_error) result \<times> lock_world" where
  "acquire_mcp_lock me li db_path w =
     (case acquire_open li db_path w of
        (Err e, w) \<Rightarrow> (Err e, w)
      | (Ok i, w) \<Rightarrow> acquire_finish me li db_path i w)"

text \<open>\<open>release_mcp_lock_file\<close>, and the \<open>Drop\<close> of a lock that was not handed over: the file is removed,
  then closed.\<close>

definition release_mcp_lock_file :: "nat \<Rightarrow> mcp_lock \<Rightarrow> lock_world \<Rightarrow> lock_world" where
  "release_mcp_lock_file me l w = sys_close me (ml_file l) (sys_unlink (ml_path l) w)"

definition release_mcp_lock ::
  "nat \<Rightarrow> nat option \<Rightarrow> string option \<Rightarrow> lock_world \<Rightarrow> (nat option \<times> string option) \<times> lock_world" where
  "release_mcp_lock me lock_file lock_path w =
     (let w = (case lock_path of Some p \<Rightarrow> sys_unlink p w | None \<Rightarrow> w);
          w = (case lock_file of Some i \<Rightarrow> sys_close me i w | None \<Rightarrow> w)
      in ((None, None), w))"

section \<open>Stale locks\<close>

definition lock_pid :: "string \<Rightarrow> nat option" where
  "lock_pid text =
     Option.bind (find (\<lambda>l. strip_prefix_str ''pid='' l \<noteq> None) (rust_lines text))
       (\<lambda>l. parse_uint 10 (2 ^ 32 - 1) (trim (the (strip_prefix_str ''pid='' l))))"

definition read_lock_file_pid :: "nat \<Rightarrow> string \<Rightarrow> lock_world \<Rightarrow> nat option \<times> lock_world" where
  "read_lock_file_pid me path w =
     (case lw_dir w path of
        None \<Rightarrow> (None, w)
      | Some i \<Rightarrow> (lock_pid (lw_text w i), sys_close me i w))"

definition remove_mcp_lock_for_pid :: "nat \<Rightarrow> string \<Rightarrow> nat option \<Rightarrow> lock_world \<Rightarrow> lock_world" where
  "remove_mcp_lock_for_pid me db_path pid w =
     (case pid of
        None \<Rightarrow> w
      | Some pid \<Rightarrow>
          (case read_lock_file_pid me (lock_path_for db_path) w of
             (found, w) \<Rightarrow> if found \<noteq> Some pid then w else sys_unlink (lock_path_for db_path) w))"

record stale_lock_info =
  sl_path :: string
  sl_pid :: nat
  sl_reason :: string

definition clean_stale_mcp_lock :: "nat \<Rightarrow> string \<Rightarrow> lock_world \<Rightarrow> stale_lock_info option \<times> lock_world" where
  "clean_stale_mcp_lock me db_path w =
     (let path = lock_path_for db_path in
      case lw_dir w path of
        None \<Rightarrow> (None, w)
      | Some i \<Rightarrow>
          (case read_lock_file_pid me path w of
             (None, w) \<Rightarrow>
               (case try_lock_file me i w of
                  (Ok _, w) \<Rightarrow>
                    (Some \<lparr>sl_path = path, sl_pid = 0, sl_reason = ''no valid PID and no fcntl lock held''\<rparr>,
                     sys_unlink path (sys_close me i w))
                | (Err _, w) \<Rightarrow> (None, sys_close me i w))
           | (Some pid, w) \<Rightarrow>
               if lw_running w pid then (None, w)
               else (Some \<lparr>sl_path = path, sl_pid = pid,
                           sl_reason = ''process '' @ fmt_dec pid @ '' is no longer running''\<rparr>,
                     sys_unlink path w)))"

text \<open>\<open>F_GETLK\<close> reports the lock of another process only.\<close>

definition locked_by_pid :: "nat \<Rightarrow> string \<Rightarrow> lock_world \<Rightarrow> nat option \<times> lock_world" where
  "locked_by_pid me path w =
     (case lw_dir w path of
        None \<Rightarrow> (None, w)
      | Some i \<Rightarrow>
          (case lw_owner w i of
             Some p \<Rightarrow> if p = me then None else Some p
           | None \<Rightarrow> None, sys_close me i w))"

definition lock_candidates :: "string \<Rightarrow> string list" where
  "lock_candidates path =
     [path] @
     (case extension path of
        Some ext \<Rightarrow>
          if ext = ''i64'' \<or> ext = ''idb'' \<or> ext = ''id0''
          then (if ext = ''id0'' then [set_extension path ''i64''] else []) @
               [set_extension path ''id0'', set_extension path ''id1'', set_extension path ''nam'']
          else []
      | None \<Rightarrow> []) @
     [lock_path_for path]"

fun first_locked :: "nat \<Rightarrow> string list \<Rightarrow> lock_world \<Rightarrow> string option \<times> lock_world" where
  "first_locked me [] w = (None, w)"
| "first_locked me (c # cs) w =
     (case locked_by_pid me c w of
        (Some pid, w) \<Rightarrow>
          (Some (if pid = 0 then c @ '' (locked by another process)''
                 else c @ '' (locked by pid '' @ fmt_dec pid @ '')''), w)
      | (None, w) \<Rightarrow> first_locked me cs w)"

definition detect_db_lock :: "nat \<Rightarrow> string \<Rightarrow> lock_world \<Rightarrow> string option \<times> lock_world" where
  "detect_db_lock me path w = first_locked me (lock_candidates path) w"

end
