(* ===== verification/Database.thy ===== *)
theory Database
  imports Targets Mcp_Lock
begin

text \<open>
  Opening a database in the MCP server, \<open>src/src/ida/handlers/database.rs\<close>: which file is opened
  for a request, under which lock, with which debug information, and what is undone when a step
  fails. The database library is the record \<open>db_lib\<close>. A cancellation token is the function that
  tells, for the successive checks of one request, whether it is cancelled by then. Progress
  messages and log lines are left out.
\<close>

section \<open>The database library\<close>

record db_open_options =
  do_auto_analyse :: bool
  do_save :: bool
  do_args :: "string list"
  do_idb :: "string option"
  do_file_type :: "string option"

record 'idb db_lib =
  dl_open :: "db_open_options \<Rightarrow> string \<Rightarrow> ('idb, string) result"
  dl_path :: "'idb \<Rightarrow> string"
  dl_filetype :: "'idb \<Rightarrow> string"
  dl_processor :: "'idb \<Rightarrow> string"
  dl_is_64bit :: "'idb \<Rightarrow> bool"
  dl_is_32bit_exactly :: "'idb \<Rightarrow> bool"
  dl_function_count :: "'idb \<Rightarrow> nat"
  dl_analysis_status :: "'idb \<Rightarrow> json"
  dl_load_debug_info :: "'idb \<Rightarrow> string \<Rightarrow> bool \<Rightarrow> (bool, string) result"

record debug_info_load =
  dil_path :: string
  dil_loaded :: bool
  dil_error :: "string option"

record db_info =
  dbi_path :: string
  dbi_file_type :: string
  dbi_processor :: string
  dbi_bits :: nat
  dbi_function_count :: nat
  dbi_debug_info :: "debug_info_load option"
  dbi_analysis_status :: json

definition build_db_info :: "'idb db_lib \<Rightarrow> 'idb \<Rightarrow> string \<Rightarrow> debug_info_load option \<Rightarrow> db_info" where
  "build_db_info lib db path debug_info =
     \<lparr>dbi_path = path, dbi_file_type = dl_filetype lib db, dbi_processor = dl_processor lib db,
      dbi_bits = (if dl_is_64bit lib db then 64 else if dl_is_32bit_exactly lib db then 32 else 16),
      dbi_function_count = dl_function_count lib db, dbi_debug_info = debug_info,
      dbi_analysis_status = dl_analysis_status lib db\<rparr>"

section \<open>Paths\<close>

definition dsym_expected_path_for_binary :: "string \<Rightarrow> string option" where
  "dsym_expected_path_for_binary path =
     map_option (\<lambda>name. path_join (path_join (path_join (path_join (path @ ''.dSYM'') ''Contents'')
                          ''Resources'') ''DWARF'') name) (file_name path)"

definition dsym_path_for_binary :: "fs_env \<Rightarrow> string \<Rightarrow> string option" where
  "dsym_path_for_binary env path =
     (case dsym_expected_path_for_binary path of
        Some p \<Rightarrow> if fe_exists env p then Some p else None
      | None \<Rightarrow> None)"

definition unpacked_id0_path :: "string \<Rightarrow> string option" where
  "unpacked_id0_path path =
     Option.bind (extension path) (\<lambda>ext.
       if to_ascii_lowercase ext = ''i64'' \<or> to_ascii_lowercase ext = ''idb''
       then Some (set_extension path ''id0'') else None)"

definition existing_idb_for_raw_binary :: "fs_env \<Rightarrow> string \<Rightarrow> string option" where
  "existing_idb_for_raw_binary env path =
     (let idb_path = idb_path_for_raw_binary path
      in if fe_exists env idb_path then Some idb_path else None)"

definition existing_idb_for_raw_open :: "fs_env \<Rightarrow> string \<Rightarrow> string option \<Rightarrow> string option" where
  "existing_idb_for_raw_open env path explicit_idb_out =
     (case explicit_idb_out of
        Some out \<Rightarrow> if fe_exists env out then Some out else None
      | None \<Rightarrow> existing_idb_for_raw_binary env path)"

definition has_ida_database_extension :: "string \<Rightarrow> bool" where
  "has_ida_database_extension path \<longleftrightarrow>
     (case extension path of
        Some ext \<Rightarrow> to_ascii_lowercase ext \<in> {''i64'', ''idb'', ''id0''}
      | None \<Rightarrow> False)"

definition raw_input_matches_generated_database :: "string \<Rightarrow> string \<Rightarrow> bool" where
  "raw_input_matches_generated_database raw database \<longleftrightarrow>
     \<not> has_ida_database_extension raw \<and> path_eq (idb_path_for_raw_binary raw) database"

definition base_input_path_for_database :: "string \<Rightarrow> string" where
  "base_input_path_for_database path = (if has_ida_database_extension path then set_extension path [] else path)"

definition opt_path_eq :: "string option \<Rightarrow> string \<Rightarrow> bool" where
  "opt_path_eq p q \<longleftrightarrow> (case p of Some p \<Rightarrow> path_eq p q | None \<Rightarrow> False)"

definition database_paths_match :: "string \<Rightarrow> string \<Rightarrow> bool" where
  "database_paths_match current requested \<longleftrightarrow>
     path_eq current requested \<or>
     opt_path_eq (unpacked_id0_path current) requested \<or>
     opt_path_eq (unpacked_id0_path requested) current \<or>
     raw_input_matches_generated_database requested current \<or>
     raw_input_matches_generated_database current requested"

definition non_empty_trimmed :: "string option \<Rightarrow> string option" where
  "non_empty_trimmed value = Option.bind value (\<lambda>s. if trim s \<noteq> [] then Some (trim s) else None)"

definition init_database_args :: "string list \<Rightarrow> string list" where
  "init_database_args extra_args = (if ''-A'' \<in> set extra_args then [] else [''-A'']) @ extra_args"

section \<open>Opening\<close>

record open_request =
  or_path :: string
  or_load_debug_info :: bool
  or_debug_info_path :: "string option"
  or_debug_info_verbose :: bool
  or_force :: bool
  or_rebuild :: bool
  or_file_type :: "string option"
  or_auto_analyse :: bool
  or_extra_args :: "string list"
  or_idb_out :: "string option"
  or_cancel :: "nat \<Rightarrow> bool"

definition cancelled_by_client :: tool_error where
  "cancelled_by_client = Cancelled ''Operation cancelled by client''"

definition ensure_not_cancelled :: "(nat \<Rightarrow> bool) \<Rightarrow> nat \<Rightarrow> (unit, tool_error) result" where
  "ensure_not_cancelled cancel k = (if cancel k then Err cancelled_by_client else Ok ())"

text \<open>Which files an open works on: the output of a raw binary, the database that is reused for it,
  and the debug symbols beside it that are loaded with a fresh one.\<close>

record open_plan =
  pn_expanded :: string
  pn_is_idb :: bool
  pn_raw_out :: "string option"
  pn_existing :: "string option"
  pn_dsym :: "string option"

definition plan_open :: "fs_env \<Rightarrow> open_request \<Rightarrow> string \<Rightarrow> open_plan" where
  "plan_open env req expanded =
     (let ext = to_ascii_lowercase (case extension expanded of Some e \<Rightarrow> e | None \<Rightarrow> []) in
      if ext = ''i64'' \<or> ext = ''idb'' \<or> ext = ''id0''
      then \<lparr>pn_expanded = expanded, pn_is_idb = True, pn_raw_out = None, pn_existing = None, pn_dsym = None\<rparr>
      else
        let explicit = map_option (expand_path env) (or_idb_out req);
            out_path = (case explicit of Some p \<Rightarrow> p | None \<Rightarrow> idb_path_for_raw_binary expanded);
            generated = existing_idb_for_raw_open env expanded explicit
        in \<lparr>pn_expanded = expanded, pn_is_idb = False, pn_raw_out = Some out_path,
            pn_existing = (if or_rebuild req then None else generated),
            pn_dsym = (if generated = None then dsym_path_for_binary env expanded else None)\<rparr>)"

definition lock_target_path :: "open_plan \<Rightarrow> string" where
  "lock_target_path pn = (case pn_raw_out pn of Some p \<Rightarrow> p | None \<Rightarrow> pn_expanded pn)"

definition open_existing ::
  "fs_env \<Rightarrow> 'idb db_lib \<Rightarrow> string list \<Rightarrow> string \<Rightarrow> ('idb, string) result \<times> string" where
  "open_existing env lib args target =
     (let opts = \<lparr>do_auto_analyse = False, do_save = True, do_args = args, do_idb = None, do_file_type = None\<rparr>
      in case (dl_open lib opts target, unpacked_id0_path target) of
           (Ok db, _) \<Rightarrow> (Ok db, target)
         | (Err e, None) \<Rightarrow> (Err e, target)
         | (Err e, Some id0) \<Rightarrow>
             if fe_exists env id0 then (dl_open lib opts id0, id0) else (Err e, target))"

definition open_raw ::
  "'idb db_lib \<Rightarrow> open_request \<Rightarrow> string list \<Rightarrow> string \<Rightarrow> string \<Rightarrow> ('idb, string) result \<times> string" where
  "open_raw lib req args expanded out_path =
     (dl_open lib \<lparr>do_auto_analyse = or_auto_analyse req, do_save = True, do_args = args,
                   do_idb = Some out_path, do_file_type = non_empty_trimmed (or_file_type req)\<rparr> expanded,
      out_path)"

definition load_requested_debug_info ::
  "fs_env \<Rightarrow> 'idb db_lib \<Rightarrow> open_request \<Rightarrow> open_plan \<Rightarrow> 'idb \<Rightarrow> debug_info_load option" where
  "load_requested_debug_info env lib req pn db =
     map_option (\<lambda>path.
         if \<not> fe_exists env path
         then \<lparr>dil_path = path, dil_loaded = False, dil_error = Some ''debug info not found''\<rparr>
         else case dl_load_debug_info lib db path (or_debug_info_verbose req) of
                Ok True \<Rightarrow> \<lparr>dil_path = path, dil_loaded = True, dil_error = None\<rparr>
              | Ok False \<Rightarrow> \<lparr>dil_path = path, dil_loaded = False, dil_error = Some ''load returned false''\<rparr>
              | Err e \<Rightarrow> \<lparr>dil_path = path, dil_loaded = False, dil_error = Some e\<rparr>)
       (case non_empty_trimmed (or_debug_info_path req) of
          Some path \<Rightarrow> Some path
        | None \<Rightarrow> dsym_expected_path_for_binary
                    (if pn_is_idb pn then base_input_path_for_database (pn_expanded pn) else pn_expanded pn))"

text \<open>What follows a successful open, with the numbers of its cancellation checks.\<close>

definition after_open ::
  "fs_env \<Rightarrow> 'idb db_lib \<Rightarrow> open_request \<Rightarrow> open_plan \<Rightarrow> string \<Rightarrow> 'idb \<Rightarrow> (db_info, tool_error) result" where
  "after_open env lib req pn opened_path db =
     and_then (ensure_not_cancelled (or_cancel req) 3) (\<lambda>_.
     and_then (if or_load_debug_info req
               then map_ok (\<lambda>_. load_requested_debug_info env lib req pn db) (ensure_not_cancelled (or_cancel req) 4)
               else if \<not> pn_is_idb pn \<and> pn_dsym pn \<noteq> None
               then map_ok (\<lambda>_. None) (ensure_not_cancelled (or_cancel req) 4)
               else Ok None) (\<lambda>debug_info.
     map_ok (\<lambda>_. build_db_info lib db opened_path debug_info) (ensure_not_cancelled (or_cancel req) 5)))"

record 'idb open_slot =
  sl_idb :: "'idb option"
  sl_lock_file :: "nat option"
  sl_lock_path :: "string option"

definition clean_stale_locks :: "nat \<Rightarrow> open_plan \<Rightarrow> lock_world \<Rightarrow> lock_world" where
  "clean_stale_locks me pn w =
     snd (clean_stale_mcp_lock me (pn_expanded pn) (snd (clean_stale_mcp_lock me (lock_target_path pn) w)))"

definition open_locked ::
  "fs_env \<Rightarrow> 'idb db_lib \<Rightarrow> nat \<Rightarrow> open_request \<Rightarrow> open_plan \<Rightarrow> mcp_lock \<Rightarrow> 'idb open_slot \<Rightarrow> lock_world \<Rightarrow>
   (db_info, tool_error) result \<times> 'idb open_slot \<times> lock_world" where
  "open_locked env lib me req pn l slot w =
     (let args = init_database_args (or_extra_args req);
          opened = (if pn_is_idb pn then Some (open_existing env lib args (pn_expanded pn))
                    else case pn_existing pn of
                           Some p \<Rightarrow> Some (open_existing env lib args p)
                         | None \<Rightarrow> map_option (open_raw lib req args (pn_expanded pn)) (pn_raw_out pn))
      in case opened of
           None \<Rightarrow> (Err (OpenFailed ''raw binary output path was not initialized''), slot, release_mcp_lock_file me l w)
         | Some (Err e, opened_path) \<Rightarrow>
             (let w = release_mcp_lock_file me l w;
                  (msg, w) = detect_db_lock me opened_path w;
                  (msg, w) = (case msg of Some m \<Rightarrow> (Some m, w) | None \<Rightarrow> detect_db_lock me (pn_expanded pn) w)
              in (Err (case msg of Some m \<Rightarrow> DatabaseLocked m | None \<Rightarrow> OpenFailed (opened_path @ '': '' @ e)), slot, w))
         | Some (Ok db, opened_path) \<Rightarrow>
             (case after_open env lib req pn opened_path db of
                Err e \<Rightarrow> (Err e, slot, release_mcp_lock_file me l w)
              | Ok info \<Rightarrow>
                  (Ok info, \<lparr>sl_idb = Some db, sl_lock_file = Some (ml_file l), sl_lock_path = Some (ml_path l)\<rparr>, w)))"

definition handle_open ::
  "fs_env \<Rightarrow> 'idb db_lib \<Rightarrow> nat \<Rightarrow> lock_info \<Rightarrow> open_request \<Rightarrow> 'idb open_slot \<Rightarrow> lock_world \<Rightarrow>
   (db_info, tool_error) result \<times> 'idb open_slot \<times> lock_world" where
  "handle_open env lib me li req slot w =
     (let expanded = expand_path env (or_path req) in
      if or_cancel req 2 then (Err cancelled_by_client, slot, w)
      else case sl_idb slot of
             Some db \<Rightarrow>
               if database_paths_match (dl_path lib db) expanded
               then (Ok (build_db_info lib db (dl_path lib db) None), slot, w)
               else (Err (DatabaseAlreadyOpen (dl_path lib db)), slot, w)
           | None \<Rightarrow>
               if \<not> fe_exists env expanded then (Err (InvalidPath (''File not found: '' @ expanded)), slot, w)
               else let pn = plan_open env req expanded;
                        w = (if or_force req then clean_stale_locks me pn w else w)
                    in case acquire_mcp_lock me li (lock_target_path pn) w of
                         (Err e, w) \<Rightarrow> (Err e, slot, w)
                       | (Ok l, w) \<Rightarrow> open_locked env lib me req pn l slot w)"

definition handle_load_debug_info ::
  "fs_env \<Rightarrow> 'idb db_lib \<Rightarrow> 'idb option \<Rightarrow> string option \<Rightarrow> bool \<Rightarrow> (json, tool_error) result" where
  "handle_load_debug_info env lib idb path verbose =
     and_then (ok_or idb NoDatabaseOpen) (\<lambda>db.
     and_then (case path of
                 Some p \<Rightarrow> Ok p
               | None \<Rightarrow> ok_or (dsym_path_for_binary env (base_input_path_for_database (dl_path lib db)))
                           (InvalidPath ''No sibling .dSYM found'')) (\<lambda>resolved.
       if \<not> fe_exists env resolved then Err (InvalidPath (''File not found: '' @ resolved))
       else map_ok (\<lambda>loaded. JObject [(''path'', JString resolved), (''loaded'', JBool loaded)])
              (map_err IdaError (dl_load_debug_info lib db resolved verbose))))"

end
