(* ===== verification/Ida_Loop.thy ===== *)
theory Ida_Loop
  imports Database Dispatch
begin

text \<open>
  The loop that owns the database in the MCP server, \<open>run_ida_loop\<close> of
  \<open>src/src/ida/loop_impl.rs\<close>: it takes one request at a time from a queue, initializes the library
  before the first one, and answers each request on its own channel, here the ticket it carries.
  Opening, closing and the requests that are bound to a database generation are modelled one by one;
  every other request calls a handler with the database and sends its result back, most of them under
  the guard that turns a crash of the library into an error (\<open>src/src/crash_guard.rs\<close>), so that they
  are one constructor with the handler, its arguments and whether it is guarded. \<open>list_functions\<close>,
  \<open>addr_info\<close>, \<open>function_at\<close> and \<open>disasm_function_at\<close> run without the guard.
\<close>

section \<open>Versions\<close>

definition check_version_mismatch :: "int \<times> int \<Rightarrow> int \<times> int \<Rightarrow> string option" where
  "check_version_mismatch sdk runtime =
     (let (sdk_major, sdk_minor) = sdk; (runtime_major, runtime_minor) = runtime;
          at_least_9_4 = (9 < sdk_major \<or> sdk_major = 9 \<and> 4 \<le> sdk_minor);
          dec = (\<lambda>i. if i < 0 then ''-'' @ fmt_dec (nat (- i)) else fmt_dec (nat i))
      in if runtime_major \<noteq> sdk_major \<or> at_least_9_4 \<and> runtime_minor \<noteq> sdk_minor
         then Some (''IDA version mismatch: ida-mcp was compiled for IDA '' @ dec sdk_major @ ''.'' @ dec sdk_minor @
                    '', but the runtime IDA library reports '' @ dec runtime_major @ ''.'' @ dec runtime_minor @
                    ''. Install the matching IDA version or use the ida-mcp release built for your IDA version.'')
         else None)"

section \<open>Requests and replies\<close>

datatype conditional_close = Closed | NotCurrent

record opened_database =
  od_info :: db_info
  od_generation :: u64

text \<open>\<open>cancel\<close> tells whether the token is cancelled at the first check, before the library is
  initialized, and at the second, when the request is taken up.\<close>

datatype ida_request =
    ROpen open_request
  | RClose
  | RCloseIfGeneration u64
  | RAnalysisStatus "u64 option"
  | RDscLoadImage string "u64 option"
  | RCancellable (rc_call: handler_call) (rc_cancel: "nat \<Rightarrow> bool")
  | RCall (rc_guarded: bool) handler_call
  | RShutdown

datatype ida_reply =
    ReOpened "(opened_database, tool_error) result"
  | ReUnit
  | ReClosed "(conditional_close, tool_error) result"
  | ReValue "(json, tool_error) result"

definition req_cancel :: "ida_request \<Rightarrow> nat \<Rightarrow> bool" where
  "req_cancel req k =
     (case req of ROpen r \<Rightarrow> or_cancel r k | RCancellable _ cancel \<Rightarrow> cancel k | _ \<Rightarrow> False)"

text \<open>A handler run by the library: it returns, or a signal is raised in it.\<close>

datatype handler_outcome = Finished "(json, tool_error) result" | Signalled nat

definition crash_guarded :: "string \<Rightarrow> handler_outcome \<Rightarrow> (json, tool_error) result" where
  "crash_guarded operation oc =
     (case oc of
        Finished r \<Rightarrow> r
      | Signalled sig \<Rightarrow>
          Err (IdaError (operation @ '' crashed in IDA SDK (signal '' @ fmt_dec sig @
            ''). The database may still be usable '' @ [CHR 0xE2, CHR 0x80, CHR 0x94] @
            '' try other operations. This is a bug in the IDA SDK, not in ida-mcp.'')))"

section \<open>State\<close>

datatype loop_end = Running | ShutDown | Killed

record 'idb ida_loop =
  lo_slot :: "'idb open_slot"
  lo_generation :: "u64 option"
  lo_next_generation :: u64
  lo_initialized :: bool
  lo_mismatch :: "string option"
  lo_end :: loop_end
  lo_world :: lock_world
  lo_replies :: "(nat \<times> ida_reply) list"

text \<open>\<open>le_init\<close> is what the deferred initialization answers, a version mismatch included; a handler
  may change the contents of the database it works on.\<close>

record 'idb loop_env =
  le_fs :: fs_env
  le_lib :: "'idb db_lib"
  le_me :: nat
  le_info :: lock_info
  le_init :: "(string option, string) result"
  le_call :: "handler_call \<Rightarrow> 'idb option \<Rightarrow> handler_outcome"
  le_effect :: "handler_call \<Rightarrow> 'idb \<Rightarrow> 'idb"

definition no_database :: "'idb open_slot" where
  "no_database = \<lparr>sl_idb = None, sl_lock_file = None, sl_lock_path = None\<rparr>"

definition loop_start :: "bool \<Rightarrow> string option \<Rightarrow> lock_world \<Rightarrow> 'idb ida_loop" where
  "loop_start initialized mismatch w =
     \<lparr>lo_slot = no_database, lo_generation = None, lo_next_generation = 0, lo_initialized = initialized,
      lo_mismatch = mismatch, lo_end = Running, lo_world = w, lo_replies = []\<rparr>"

definition reply :: "nat \<Rightarrow> ida_reply \<Rightarrow> 'idb ida_loop \<Rightarrow> 'idb ida_loop" where
  "reply ticket r s = s\<lparr>lo_replies := lo_replies s @ [(ticket, r)]\<rparr>"

section \<open>One request\<close>

definition require_generation :: "u64 option \<Rightarrow> u64 option \<Rightarrow> (unit, tool_error) result" where
  "require_generation expected current =
     (case expected of
        None \<Rightarrow> Ok ()
      | Some g \<Rightarrow> if current = Some g then Ok () else Err DatabaseReplaced)"

definition release_slot :: "nat \<Rightarrow> 'idb ida_loop \<Rightarrow> 'idb ida_loop" where
  "release_slot me s =
     s\<lparr>lo_slot := no_database,
       lo_world := snd (release_mcp_lock me (sl_lock_file (lo_slot s)) (sl_lock_path (lo_slot s)) (lo_world s))\<rparr>"

definition loop_open :: "'idb loop_env \<Rightarrow> nat \<Rightarrow> open_request \<Rightarrow> 'idb ida_loop \<Rightarrow> 'idb ida_loop" where
  "loop_open env ticket req s =
     (if or_cancel req 1 then reply ticket (ReOpened (Err cancelled_by_client)) s
      else let had_open_database = (sl_idb (lo_slot s) \<noteq> None) in
           case handle_open (le_fs env) (le_lib env) (le_me env) (le_info env) req (lo_slot s) (lo_world s) of
             (Err e, slot, w) \<Rightarrow> reply ticket (ReOpened (Err e)) (s\<lparr>lo_slot := slot, lo_world := w\<rparr>)
           | (Ok info, slot, w) \<Rightarrow>
               (let s = s\<lparr>lo_slot := slot, lo_world := w\<rparr> in
                case (if had_open_database then lo_generation s else None) of
                  Some g \<Rightarrow> reply ticket (ReOpened (Ok \<lparr>od_info = info, od_generation = g\<rparr>)) s
                | None \<Rightarrow>
                    if lo_next_generation s = - 1
                    then reply ticket (ReOpened (Err (IdaError ''database generation counter exhausted'')))
                           (release_slot (le_me env) s)
                    else let g = lo_next_generation s + 1
                         in reply ticket (ReOpened (Ok \<lparr>od_info = info, od_generation = g\<rparr>))
                              (s\<lparr>lo_next_generation := g, lo_generation := Some g\<rparr>)))"

definition loop_close :: "'idb loop_env \<Rightarrow> 'idb ida_loop \<Rightarrow> 'idb ida_loop" where
  "loop_close env s = release_slot (le_me env) (s\<lparr>lo_generation := None\<rparr>)"

definition run_handler :: "'idb loop_env \<Rightarrow> bool \<Rightarrow> handler_call \<Rightarrow> nat \<Rightarrow> 'idb ida_loop \<Rightarrow> 'idb ida_loop" where
  "run_handler env guarded c ticket s =
     (let oc = le_call env c (sl_idb (lo_slot s));
          s = s\<lparr>lo_slot := (lo_slot s)\<lparr>sl_idb := map_option (le_effect env c) (sl_idb (lo_slot s))\<rparr>\<rparr>
      in if guarded then reply ticket (ReValue (crash_guarded (hc_name c) oc)) s
         else case oc of
                Finished r \<Rightarrow> reply ticket (ReValue r) s
              | Signalled _ \<Rightarrow> s\<lparr>lo_end := Killed\<rparr>)"

definition bound_handler ::
  "'idb loop_env \<Rightarrow> u64 option \<Rightarrow> handler_call \<Rightarrow> nat \<Rightarrow> 'idb ida_loop \<Rightarrow> 'idb ida_loop" where
  "bound_handler env expected c ticket s =
     (case require_generation expected (lo_generation s) of
        Err e \<Rightarrow> reply ticket (ReValue (Err e)) s
      | Ok _ \<Rightarrow> run_handler env True c ticket s)"

abbreviation analysis_status_call :: handler_call where
  "analysis_status_call \<equiv> Call ''handle_analysis_status'' []"

abbreviation dsc_load_image_call :: "string \<Rightarrow> handler_call" where
  "dsc_load_image_call m \<equiv> Call ''handle_dsc_load_image'' [AStr m]"

fun serve_request :: "'idb loop_env \<Rightarrow> ida_request \<Rightarrow> nat \<Rightarrow> 'idb ida_loop \<Rightarrow> 'idb ida_loop" where
  "serve_request env (ROpen req) ticket s = loop_open env ticket req s"
| "serve_request env RClose ticket s = reply ticket ReUnit (loop_close env s)"
| "serve_request env (RCloseIfGeneration g) ticket s =
     (if lo_generation s = Some g then reply ticket (ReClosed (Ok Closed)) (loop_close env s)
      else reply ticket (ReClosed (Ok NotCurrent)) s)"
| "serve_request env (RAnalysisStatus expected) ticket s =
     bound_handler env expected analysis_status_call ticket s"
| "serve_request env (RDscLoadImage m expected) ticket s =
     bound_handler env expected (dsc_load_image_call m) ticket s"
| "serve_request env (RCancellable c cancel) ticket s =
     (if cancel 1 then reply ticket (ReValue (Err cancelled_by_client)) s else run_handler env True c ticket s)"
| "serve_request env (RCall guarded c) ticket s = run_handler env guarded c ticket s"
| "serve_request env RShutdown ticket s = release_slot (le_me env) (s\<lparr>lo_end := ShutDown\<rparr>)"

text \<open>\<open>shutdown_cleanup\<close> drops the database and releases the lock; the generation is left as it is.\<close>

fun reject_with_error :: "ida_request \<Rightarrow> tool_error \<Rightarrow> nat \<Rightarrow> 'idb ida_loop \<Rightarrow> 'idb ida_loop" where
  "reject_with_error RShutdown e ticket s = s"
| "reject_with_error RClose e ticket s = reply ticket ReUnit s"
| "reject_with_error (RCloseIfGeneration g) e ticket s = reply ticket (ReClosed (Err e)) s"
| "reject_with_error (ROpen req) e ticket s = reply ticket (ReOpened (Err e)) s"
| "reject_with_error req e ticket s = reply ticket (ReValue (Err e)) s"

text \<open>The deferred initialization; \<open>Some e\<close> is the error the request is rejected with.\<close>

definition ensure_initialized ::
  "'idb loop_env \<Rightarrow> ida_request \<Rightarrow> 'idb ida_loop \<Rightarrow> tool_error option \<times> 'idb ida_loop" where
  "ensure_initialized env req s =
     (if lo_initialized s then (None, s)
      else if req_cancel req 0 then (Some cancelled_by_client, s)
      else case le_init env of
             Ok mismatch \<Rightarrow> (None, s\<lparr>lo_initialized := True, lo_mismatch := mismatch\<rparr>)
           | Err e \<Rightarrow> (Some (IdaError (''failed to initialize IDA on the main thread: '' @ e)), s))"

definition ida_loop_step :: "'idb loop_env \<Rightarrow> ida_request \<Rightarrow> nat \<Rightarrow> 'idb ida_loop \<Rightarrow> 'idb ida_loop" where
  "ida_loop_step env req ticket s =
     (if lo_end s \<noteq> Running then s
      else case ensure_initialized env req s of
             (Some e, s) \<Rightarrow> reject_with_error req e ticket s
           | (None, s) \<Rightarrow>
               (case lo_mismatch s of
                  Some msg \<Rightarrow>
                    (case req of
                       RShutdown \<Rightarrow> release_slot (le_me env) (s\<lparr>lo_end := ShutDown\<rparr>)
                     | _ \<Rightarrow> reject_with_error req (SdkVersionMismatch msg) ticket s)
                | None \<Rightarrow> serve_request env req ticket s))"

end
