(* ===== verification/Lock_Props.thy ===== *)
theory Lock_Props
  imports Mcp_Lock Lifecycle
begin

text \<open>
  What the lock files guarantee: processes that take, release and clean up locks one operation at a
  time never hold the lock of one database twice, also when processes die and leave their files
  behind. When an operation of one process comes between the system calls of another, two
  processes can hold it.
\<close>

section \<open>The number in a lock file\<close>

lemma plain_not_line: "plain_char c \<Longrightarrow> c \<noteq> NL \<and> c \<noteq> CR"
  by (auto simp: plain_char_def)

lemma pid_line:
  "NL \<notin> set (''pid='' @ fmt_dec n)" "strip_cr (''pid='' @ fmt_dec n) = ''pid='' @ fmt_dec n"
proof -
  have *: "c \<in> set (fmt_dec n) \<Longrightarrow> plain_char c" for c
    using radix_digits_plain [of 10 n] by (simp add: fmt_dec_def list_all_iff)
  show "NL \<notin> set (''pid='' @ fmt_dec n)" using * plain_not_line by auto
  have "last (''pid='' @ fmt_dec n) \<noteq> CR"
    using * [OF last_in_set] plain_not_line by (fastforce simp: fmt_dec_def)
  then show "strip_cr (''pid='' @ fmt_dec n) = ''pid='' @ fmt_dec n" by (simp add: strip_cr_def)
qed

lemma lock_pid_lock_text [simp]:
  assumes "pid < 2 ^ 32"
  shows "lock_pid (lock_text pid li) = Some pid"
proof -
  obtain rest where "lock_text pid li = (''pid='' @ fmt_dec pid) @ NL # rest"
    by (simp add: lock_text_def)
  then have "rust_lines (lock_text pid li) = (''pid='' @ fmt_dec pid) # rust_lines rest"
    using rust_lines_append [OF pid_line(1), of pid rest] pid_line(2) by simp
  moreover have "trim (fmt_dec pid) = fmt_dec pid"
    using hd_radix_digits [of 10 pid] last_radix_digits [of 10 pid]
    by (intro trim_plain) (simp_all add: fmt_dec_def)
  ultimately show ?thesis
    using assms by (simp add: lock_pid_def strip_prefix_str_def fmt_dec_def parse_uint_radix_digits)
qed

section \<open>Processes\<close>

text \<open>The processes with the locks they hold. A process number is taken by one process at a time;
  a process holds at most one lock, as the IDA loop opens one database at a time.\<close>

record lock_sys =
  ls_world :: lock_world
  ls_held :: "nat \<Rightarrow> mcp_lock option"

datatype lock_event =
    LvStart nat
  | LvAcquire nat lock_info string
  | LvRelease nat
  | LvCrash nat
  | LvClean nat string
  | LvReap nat string nat

definition exit_process :: "nat \<Rightarrow> lock_world \<Rightarrow> lock_world" where
  "exit_process me w =
     w\<lparr>lw_running := (lw_running w)(me := False),
       lw_owner := (\<lambda>i. if lw_owner w i = Some me then None else lw_owner w i)\<rparr>"

definition can_act :: "nat \<Rightarrow> lock_sys \<Rightarrow> bool" where
  "can_act me s \<longleftrightarrow> me < 2 ^ 32 \<and> lw_running (ls_world s) me \<and> ls_held s me = None"

fun lock_step :: "lock_event \<Rightarrow> lock_sys \<Rightarrow> lock_sys" where
  "lock_step (LvStart me) s =
     s\<lparr>ls_world := (ls_world s)\<lparr>lw_running := (lw_running (ls_world s))(me := True)\<rparr>\<rparr>"
| "lock_step (LvAcquire me li db_path) s =
     (if can_act me s
      then (case acquire_mcp_lock me li db_path (ls_world s) of
              (Ok l, w) \<Rightarrow> \<lparr>ls_world = w, ls_held = (ls_held s)(me \<mapsto> l)\<rparr>
            | (Err _, w) \<Rightarrow> s\<lparr>ls_world := w\<rparr>)
      else s)"
| "lock_step (LvRelease me) s =
     (case ls_held s me of
        None \<Rightarrow> s
      | Some l \<Rightarrow>
          \<lparr>ls_world = snd (release_mcp_lock me (Some (ml_file l)) (Some (ml_path l)) (ls_world s)),
           ls_held = (ls_held s)(me := None)\<rparr>)"
| "lock_step (LvCrash me) s =
     \<lparr>ls_world = exit_process me (ls_world s), ls_held = (ls_held s)(me := None)\<rparr>"
| "lock_step (LvClean me db_path) s =
     (if can_act me s then s\<lparr>ls_world := snd (clean_stale_mcp_lock me db_path (ls_world s))\<rparr> else s)"
| "lock_step (LvReap me db_path pid) s =
     (if can_act me s \<and> \<not> lw_running (ls_world s) pid
      then s\<lparr>ls_world := remove_mcp_lock_for_pid me db_path (Some pid) (ls_world s)\<rparr> else s)"

text \<open>A held lock is the file its path names, locked by its holder, with the holder's number in it.\<close>

definition holds_lock :: "lock_world \<Rightarrow> nat \<Rightarrow> mcp_lock \<Rightarrow> bool" where
  "holds_lock w p l \<longleftrightarrow>
     lw_running w p \<and> lw_dir w (ml_path l) = Some (ml_file l) \<and> lw_owner w (ml_file l) = Some p \<and>
     lock_pid (lw_text w (ml_file l)) = Some p"

definition lock_inv :: "lock_sys \<Rightarrow> bool" where
  "lock_inv s \<longleftrightarrow>
     (\<forall>path i. lw_dir (ls_world s) path = Some i \<longrightarrow> i < lw_fresh (ls_world s)) \<and>
     (\<forall>p l. ls_held s p = Some l \<longrightarrow> holds_lock (ls_world s) p l) \<and>
     (\<forall>i p. lw_owner (ls_world s) i = Some p \<longrightarrow> (\<exists>l. ls_held s p = Some l \<and> ml_file l = i))"

lemma lock_invD:
  assumes "lock_inv s"
  shows "lw_dir (ls_world s) path = Some i \<Longrightarrow> i < lw_fresh (ls_world s)"
    and "ls_held s p = Some l \<Longrightarrow> holds_lock (ls_world s) p l"
    and "lw_owner (ls_world s) i = Some p \<Longrightarrow> \<exists>l. ls_held s p = Some l \<and> ml_file l = i"
  using assms by (auto simp: lock_inv_def)

lemma held_file_old: "lock_inv s \<Longrightarrow> ls_held s p = Some l \<Longrightarrow> ml_file l < lw_fresh (ls_world s)"
  by (meson holds_lock_def lock_invD)

lemma open_inv:
  assumes "lock_inv s" "sys_open_create path (ls_world s) = (i, w)"
  shows "lock_inv (s\<lparr>ls_world := w\<rparr>)"
proof (cases "lw_dir (ls_world s) path")
  case None
  have "lw_dir (ls_world s) p = Some i \<Longrightarrow> i < Suc (lw_fresh (ls_world s))" for p i
    using lock_invD(1) [OF assms(1), of p i] by simp
  moreover have "holds_lock w p l" if "ls_held s p = Some l" for p l
    using lock_invD(2) [OF assms(1) that] held_file_old [OF assms(1) that] assms(2) None
    by (auto simp: holds_lock_def sys_open_create_def)
  ultimately show ?thesis
    using assms None by (auto simp: lock_inv_def sys_open_create_def split: if_splits)
qed (use assms in \<open>auto simp: sys_open_create_def\<close>)

lemma acquire_inv:
  assumes inv: "lock_inv s" and act: "can_act me s"
  shows "lock_inv (lock_step (LvAcquire me li db_path) s)"
proof (cases "li_open_err li")
  case (Some e)
  with inv act show ?thesis by (simp add: acquire_mcp_lock_def acquire_open_def)
next
  case None
  define path where "path = lock_path_for db_path"
  obtain i w where op: "sys_open_create path (ls_world s) = (i, w)" by fastforce
  define s1 where "s1 = s\<lparr>ls_world := w\<rparr>"
  have dir: "lw_dir w path = Some i"
    using op by (auto simp: sys_open_create_def split: option.splits)
  have inv1: "lock_inv s1"
    using open_inv [OF inv op] by (simp add: s1_def)
  have act1: "can_act me s1"
    using op act by (auto simp: s1_def can_act_def sys_open_create_def split: option.splits)
  have step: "lock_step (LvAcquire me li db_path) s =
      (case acquire_finish me li db_path i w of
         (Ok l, w) \<Rightarrow> \<lparr>ls_world = w, ls_held = (ls_held s)(me \<mapsto> l)\<rparr> | (Err _, w) \<Rightarrow> s\<lparr>ls_world := w\<rparr>)"
    using act None op by (simp add: acquire_mcp_lock_def acquire_open_def path_def)
  have free: "lw_owner w j \<noteq> Some me" for j
    using lock_invD(3) [OF inv1, of j me] act1 by (auto simp: s1_def can_act_def)
  show ?thesis
  proof (cases "lw_owner w i = None")
    case True
    then have "ls_held s p = Some l \<Longrightarrow> ml_file l \<noteq> i" for p l
      using lock_invD(2) [OF inv1, of p l] act by (auto simp: s1_def holds_lock_def can_act_def)
    with True dir inv1 act1 free show ?thesis
      unfolding step by (auto simp: acquire_finish_def try_lock_file_def sys_write_def path_def [symmetric] lock_inv_def
          s1_def holds_lock_def can_act_def split: option.splits)
  next
    case False
    with inv1 free show ?thesis
      unfolding step by (auto simp: acquire_finish_def try_lock_file_def sys_close_def s1_def Let_def)
  qed
qed

lemma clean_inv:
  assumes inv: "lock_inv s" and act: "can_act me s"
  shows "lock_inv (lock_step (LvClean me db_path) s)"
proof (cases "lw_dir (ls_world s) (lock_path_for db_path)")
  case None
  with inv act show ?thesis by (simp add: clean_stale_mcp_lock_def)
next
  case (Some i)
  have other: "ls_held s p = Some l \<Longrightarrow> p \<noteq> me" for p l using act by (auto simp: can_act_def)
  show ?thesis
    using Some inv act other
    by (fastforce simp: clean_stale_mcp_lock_def read_lock_file_pid_def try_lock_file_def sys_close_def sys_unlink_def
        lock_inv_def holds_lock_def Let_def split: option.splits if_splits)
qed

lemma reap_inv:
  assumes inv: "lock_inv s" and act: "can_act me s" "\<not> lw_running (ls_world s) pid"
  shows "lock_inv (lock_step (LvReap me db_path pid) s)"
proof (cases "lw_dir (ls_world s) (lock_path_for db_path)")
  case None
  with inv act show ?thesis by (simp add: remove_mcp_lock_for_pid_def read_lock_file_pid_def)
next
  case (Some i)
  have other: "ls_held s p = Some l \<Longrightarrow> p \<noteq> me" for p l using act by (auto simp: can_act_def)
  show ?thesis
    using Some inv act other
    by (fastforce simp: remove_mcp_lock_for_pid_def read_lock_file_pid_def sys_close_def sys_unlink_def
        lock_inv_def holds_lock_def split: if_splits)
qed

lemma release_inv:
  assumes inv: "lock_inv s"
  shows "lock_inv (lock_step (LvRelease me) s)"
proof (cases "ls_held s me")
  case (Some l)
  have "ls_held s p = Some m \<Longrightarrow> p \<noteq> me \<Longrightarrow> ml_file m \<noteq> ml_file l \<and> ml_path m \<noteq> ml_path l" for p m
    using lock_invD(2) [OF inv Some] lock_invD(2) [OF inv, of p m] by (auto simp: holds_lock_def)
  moreover have "lw_owner (ls_world s) i = Some me \<Longrightarrow> i = ml_file l" for i
    using lock_invD(3) [OF inv, of i me] Some by auto
  ultimately show ?thesis
    using Some inv by (auto simp: release_mcp_lock_def sys_close_def sys_unlink_def lock_inv_def holds_lock_def)
qed (simp add: inv)

lemma lock_step_inv: "lock_inv s \<Longrightarrow> lock_inv (lock_step e s)"
proof (cases e)
  case (LvAcquire me li p)
  then show "lock_inv s \<Longrightarrow> ?thesis" by (cases "can_act me s") (simp add: acquire_inv del: lock_step.simps, simp)
next
  case (LvClean me p)
  then show "lock_inv s \<Longrightarrow> ?thesis" by (cases "can_act me s") (simp add: clean_inv del: lock_step.simps, simp)
next
  case (LvReap me p pid)
  then show "lock_inv s \<Longrightarrow> ?thesis"
    by (cases "can_act me s \<and> \<not> lw_running (ls_world s) pid") (simp add: reap_inv del: lock_step.simps, auto)
next
  case (LvRelease me)
  then show "lock_inv s \<Longrightarrow> ?thesis" by (simp only: release_inv)
next
  case (LvCrash me)
  then show "lock_inv s \<Longrightarrow> ?thesis" by (auto simp: exit_process_def lock_inv_def holds_lock_def)
next
  case (LvStart me)
  then show "lock_inv s \<Longrightarrow> ?thesis" by (auto simp: lock_inv_def holds_lock_def)
qed

interpretation locks: lifecycle lock_step lock_inv
  by unfold_locales (rule lock_step_inv)

section \<open>Exclusion\<close>

definition lock_start :: "lock_sys" where
  "lock_start = \<lparr>ls_world = \<lparr>lw_dir = Map.empty, lw_text = (\<lambda>_. []), lw_owner = Map.empty, lw_fresh = 0,
                             lw_running = (\<lambda>_. False)\<rparr>, ls_held = Map.empty\<rparr>"

lemma lock_start_inv: "lock_inv lock_start"
  by (simp add: lock_inv_def lock_start_def)

text \<open>C12: processes that start, take locks, release them, die, clean up stale lock files and
  remove the files of killed workers, one operation at a time and in any order, never hold the
  lock of one path twice; the lock file of a holder is never removed by another process.\<close>

theorem mcp_lock_is_exclusive:
  assumes "s = fold lock_step evs lock_start" "ls_held s p = Some l"
  shows "lw_dir (ls_world s) (ml_path l) = Some (ml_file l) \<and>
    (ls_held s q = Some m \<longrightarrow> ml_path m = ml_path l \<longrightarrow> q = p)"
proof -
  have inv: "lock_inv s" using locks.run_inv [OF lock_start_inv] assms(1) by simp
  show ?thesis
    using lock_invD(2) [OF inv assms(2)] lock_invD(2) [OF inv, of q m] by (auto simp: holds_lock_def)
qed

definition info_none :: lock_info where
  "info_none = \<lparr>li_host = [], li_exe = [], li_now = 0, li_open_err = None\<rparr>"

theorem mcp_lock_is_exclusive_witness:
  "ls_held (fold lock_step [LvStart 1, LvStart 2, LvAcquire 1 info_none ''a.i64'', LvClean 2 ''a.i64'',
      LvAcquire 2 info_none ''a.i64''] lock_start) 1 = Some \<lparr>ml_file = 0, ml_path = ''a.imcp''\<rparr> \<and>
   lw_dir (ls_world (fold lock_step [LvStart 1, LvStart 2, LvAcquire 1 info_none ''a.i64'', LvClean 2 ''a.i64'',
      LvAcquire 2 info_none ''a.i64''] lock_start)) ''a.imcp'' = Some 0"
proof -
  have path: "lock_path_for ''a.i64'' = ''a.imcp''"
    by (simp add: set_extension_def file_name_def components_def is_absolute_def component_of_def file_stem_def)
  have held: "ls_held (fold lock_step [LvStart 1, LvStart 2, LvAcquire 1 info_none ''a.i64'', LvClean 2 ''a.i64'',
      LvAcquire 2 info_none ''a.i64''] lock_start) 1 = Some \<lparr>ml_file = 0, ml_path = ''a.imcp''\<rparr>"
    by (simp add: path lock_start_def can_act_def acquire_mcp_lock_def acquire_open_def info_none_def
        acquire_finish_def sys_open_create_def try_lock_file_def sys_write_def clean_stale_mcp_lock_def
        read_lock_file_pid_def sys_close_def)
  with mcp_lock_is_exclusive [OF refl held] show ?thesis by simp
qed

lemma acquire_free:
  assumes "lw_dir w (lock_path_for db) = None" "li_open_err li = None"
  shows "acquire_mcp_lock me li db w =
    (Ok \<lparr>ml_file = lw_fresh w, ml_path = lock_path_for db\<rparr>,
     w\<lparr>lw_dir := (lw_dir w)(lock_path_for db \<mapsto> lw_fresh w),
       lw_text := (lw_text w)(lw_fresh w := lock_text me li),
       lw_owner := (lw_owner w)(lw_fresh w \<mapsto> me), lw_fresh := Suc (lw_fresh w)\<rparr>)"
  using assms by (simp add: acquire_mcp_lock_def acquire_open_def acquire_finish_def sys_open_create_def
      try_lock_file_def sys_write_def)

text \<open>C36: the exclusion is lost when operations interleave: a process that has opened the lock file
  before its holder releases it locks a file that no longer has a name, so that a third process
  takes the lock of the same path as well.\<close>

theorem released_lock_can_be_taken_twice:
  assumes "lw_dir w (lock_path_for db) = None" "li_open_err li = None"
  shows "\<exists>l1 w1 i w2 w3 l2 w4 l3 w5.
    acquire_mcp_lock 1 li db w = (Ok l1, w1) \<and>
    acquire_open li db w1 = (Ok i, w2) \<and>
    release_mcp_lock_file 1 l1 w2 = w3 \<and>
    acquire_finish 2 li db i w3 = (Ok l2, w4) \<and>
    acquire_mcp_lock 3 li db w4 = (Ok l3, w5) \<and>
    ml_path l2 = ml_path l3 \<and> lw_owner w5 (ml_file l2) = Some 2 \<and> lw_owner w5 (ml_file l3) = Some 3"
proof -
  define path where "path = lock_path_for db"
  define i where "i = lw_fresh w"
  have none: "lw_dir w path = None" using assms(1) by (simp add: path_def)
  obtain w1 where w1: "acquire_mcp_lock 1 li db w = (Ok \<lparr>ml_file = i, ml_path = path\<rparr>, w1)"
      and d1: "lw_dir w1 path = Some i" and o1: "lw_owner w1 i = Some 1" and f1: "lw_fresh w1 = Suc i"
    using acquire_free [OF _ assms(2), of w db 1] none by (simp add: path_def i_def)
  define w3 where "w3 = release_mcp_lock_file 1 \<lparr>ml_file = i, ml_path = path\<rparr> w1"
  have w3: "lw_dir w3 path = None" "lw_owner w3 i = None" "lw_fresh w3 = Suc i"
    using o1 f1 by (simp_all add: w3_def release_mcp_lock_file_def sys_close_def sys_unlink_def)
  obtain w4 where w4: "acquire_finish 2 li db i w3 = (Ok \<lparr>ml_file = i, ml_path = path\<rparr>, w4)"
      and d4: "lw_dir w4 path = None" and o4: "lw_owner w4 i = Some 2" and f4: "lw_fresh w4 = Suc i"
    using w3 by (simp add: acquire_finish_def try_lock_file_def sys_write_def path_def [symmetric])
  obtain w5 where "acquire_mcp_lock 3 li db w4 = (Ok \<lparr>ml_file = Suc i, ml_path = path\<rparr>, w5)"
      "lw_owner w5 (Suc i) = Some 3" "lw_owner w5 i = Some 2"
    using acquire_free [OF _ assms(2), of w4 db 3] d4 o4 f4 by (simp add: path_def)
  moreover have "acquire_open li db w1 = (Ok i, w1)"
    using d1 assms(2) by (simp add: acquire_open_def sys_open_create_def path_def)
  ultimately show ?thesis using w1 w3_def w4 by fastforce
qed

theorem released_lock_can_be_taken_twice_witness:
  "\<exists>l1 w1 i w2 w3 l2 w4 l3 w5.
    acquire_mcp_lock 1 info_none ''a.i64'' (ls_world lock_start) = (Ok l1, w1) \<and>
    acquire_open info_none ''a.i64'' w1 = (Ok i, w2) \<and>
    release_mcp_lock_file 1 l1 w2 = w3 \<and>
    acquire_finish 2 info_none ''a.i64'' i w3 = (Ok l2, w4) \<and>
    acquire_mcp_lock 3 info_none ''a.i64'' w4 = (Ok l3, w5) \<and>
    ml_path l2 = ml_path l3 \<and> lw_owner w5 (ml_file l2) = Some 2 \<and> lw_owner w5 (ml_file l3) = Some 3"
  by (rule released_lock_can_be_taken_twice) (simp_all add: lock_start_def info_none_def)

end
