(* ===== verification/Loop_Props.thy ===== *)
theory Loop_Props
  imports Ida_Loop Lock_Props
begin

text \<open>
  What the loop that owns the database guarantees. Its effect on the lock files is a sequence of the
  lock operations of its process, so that an open database is locked against every other process; a
  generation that was closed never comes back, so that work bound to it is refused; every request
  but a shutdown is answered once.
\<close>

section \<open>The locks of the loop's process\<close>

definition my_lock :: "'idb open_slot \<Rightarrow> mcp_lock option" where
  "my_lock slot =
     (case (sl_lock_file slot, sl_lock_path slot) of
        (Some f, Some p) \<Rightarrow> Some \<lparr>ml_file = f, ml_path = p\<rparr>
      | _ \<Rightarrow> None)"

definition lock_view :: "nat \<Rightarrow> (nat \<Rightarrow> mcp_lock option) \<Rightarrow> 'idb open_slot \<Rightarrow> lock_world \<Rightarrow> lock_sys" where
  "lock_view me others slot w = \<lparr>ls_world = w, ls_held = others(me := my_lock slot)\<rparr>"

definition slot_ok :: "'idb open_slot \<Rightarrow> bool" where
  "slot_ok slot \<longleftrightarrow> (sl_idb slot = None \<longleftrightarrow> my_lock slot = None) \<and>
     (sl_idb slot = None \<longrightarrow> sl_lock_file slot = None \<and> sl_lock_path slot = None)"

definition may_lock :: "nat \<Rightarrow> lock_world \<Rightarrow> bool" where
  "may_lock me w \<longleftrightarrow> me < 2 ^ 32 \<and> lw_running w me"

lemma lock_eta: "\<lparr>ml_file = ml_file l, ml_path = ml_path l\<rparr> = l"
  by simp

lemma my_lock_SomeD: "my_lock slot = Some l \<Longrightarrow> sl_lock_file slot = Some (ml_file l) \<and> sl_lock_path slot = Some (ml_path l)"
  by (cases "sl_lock_file slot"; cases "sl_lock_path slot") (auto simp: my_lock_def)

lemma lock_world_running [simp]:
  "lw_running (snd (sys_open_create p w)) = lw_running w"
  "lw_running (snd (try_lock_file me i w)) = lw_running w"
  "lw_running (sys_close me i w) = lw_running w"
  "lw_running (sys_write i t w) = lw_running w"
  "lw_running (sys_unlink p w) = lw_running w"
  by (auto simp: sys_open_create_def try_lock_file_def sys_close_def sys_write_def sys_unlink_def split: option.splits)

lemma try_lock_running: "try_lock_file me i w = (r, w') \<Longrightarrow> lw_running w' = lw_running w"
  using lock_world_running(2) [of me i w] by simp

lemma open_create_running: "sys_open_create p w = (i, w') \<Longrightarrow> lw_running w' = lw_running w"
  using lock_world_running(1) [of p w] by simp

lemma lock_op_running [simp]:
  "lw_running (snd (clean_stale_mcp_lock me db w)) = lw_running w"
  "lw_running (snd (acquire_mcp_lock me li db w)) = lw_running w"
  "lw_running (release_mcp_lock_file me l w) = lw_running w"
  "lw_running (snd (release_mcp_lock me f p w)) = lw_running w"
  by (auto simp: clean_stale_mcp_lock_def read_lock_file_pid_def acquire_mcp_lock_def acquire_open_def
      acquire_finish_def release_mcp_lock_file_def release_mcp_lock_def Let_def
      apfst_def map_prod_def split: option.splits result.splits prod.splits dest: try_lock_running)
    (metis try_lock_running open_create_running)+

text \<open>A process that holds no lock changes nothing by opening and closing files.\<close>

lemma close_nothing:
  assumes "lock_inv s" "ls_held s me = None"
  shows "sys_close me i (ls_world s) = ls_world s"
  using lock_invD(3) [OF assms(1), of i me] assms(2) by (auto simp: sys_close_def)

lemma detect_nothing:
  assumes "lock_inv s" "ls_held s me = None"
  shows "snd (detect_db_lock me path (ls_world s)) = ls_world s"
proof -
  have "snd (locked_by_pid me c (ls_world s)) = ls_world s" for c
    using close_nothing [OF assms] by (auto simp: locked_by_pid_def split: option.splits)
  then have "snd (first_locked me cs (ls_world s)) = ls_world s" for cs
  proof (induction cs)
    case (Cons c cs)
    with \<open>\<And>c. snd (locked_by_pid me c (ls_world s)) = ls_world s\<close> [of c] show ?case
      by (cases "locked_by_pid me c (ls_world s)") (auto split: option.splits)
  qed simp
  then show ?thesis by (simp add: detect_db_lock_def)
qed

lemma release_file_step:
  "lock_step (LvRelease me) \<lparr>ls_world = w, ls_held = others(me \<mapsto> l)\<rparr> =
   \<lparr>ls_world = release_mcp_lock_file me l w, ls_held = others(me := None)\<rparr>"
  by (simp add: release_mcp_lock_def release_mcp_lock_file_def)

lemma no_lock_view: "my_lock slot = None \<Longrightarrow> lock_view me others slot w = \<lparr>ls_world = w, ls_held = others(me := None)\<rparr>"
  by (simp add: lock_view_def)

lemma clean_locks_run:
  assumes "may_lock me w"
  shows "\<lparr>ls_world = clean_stale_locks me pn w, ls_held = others(me := None)\<rparr> =
    fold lock_step [LvClean me (lock_target_path pn), LvClean me (pn_expanded pn)]
      \<lparr>ls_world = w, ls_held = others(me := None)\<rparr>"
  using assms by (simp add: clean_stale_locks_def can_act_def may_lock_def)

text \<open>What an open does, once the lock is taken.\<close>

lemma open_locked_cases:
  assumes quiet: "\<And>p. snd (detect_db_lock me p (release_mcp_lock_file me l w)) = release_mcp_lock_file me l w"
  shows "(\<exists>e. open_locked env lib me req pn l slot w = (Err e, slot, release_mcp_lock_file me l w)) \<or>
    (\<exists>info db. open_locked env lib me req pn l slot w =
       (Ok info, \<lparr>sl_idb = Some db, sl_lock_file = Some (ml_file l), sl_lock_path = Some (ml_path l)\<rparr>, w))"
proof -
  define opened where "opened =
    (if pn_is_idb pn then Some (open_existing env lib (init_database_args (or_extra_args req)) (pn_expanded pn))
     else case pn_existing pn of
            Some p \<Rightarrow> Some (open_existing env lib (init_database_args (or_extra_args req)) p)
          | None \<Rightarrow> map_option (open_raw lib req (init_database_args (or_extra_args req)) (pn_expanded pn)) (pn_raw_out pn))"
  note fold = open_locked_def [of env lib me req pn l slot w, unfolded Let_def, folded opened_def]
  consider "opened = None" | e p where "opened = Some (Err e, p)" | db p where "opened = Some (Ok db, p)"
    by (cases opened) (auto, metis result.exhaust)
  then show ?thesis
  proof cases
    case 2
    obtain m1 where m1: "detect_db_lock me p (release_mcp_lock_file me l w) = (m1, release_mcp_lock_file me l w)"
      using quiet [of p] by (metis prod.collapse)
    obtain m2 where "detect_db_lock me (pn_expanded pn) (release_mcp_lock_file me l w) =
        (m2, release_mcp_lock_file me l w)"
      using quiet [of "pn_expanded pn"] by (metis prod.collapse)
    with 2 m1 show ?thesis unfolding fold by (cases m1) simp_all
  next
    case 3
    then show ?thesis unfolding fold by (cases "after_open env lib req pn p db") auto
  qed (simp add: fold)
qed

text \<open>The lock operations of one process.\<close>

fun own_event :: "nat \<Rightarrow> lock_event \<Rightarrow> bool" where
  "own_event me (LvAcquire p _ _) \<longleftrightarrow> p = me"
| "own_event me (LvRelease p) \<longleftrightarrow> p = me"
| "own_event me (LvClean p _) \<longleftrightarrow> p = me"
| "own_event me _ \<longleftrightarrow> False"

lemma own_event_running: "own_event me e \<Longrightarrow> lw_running (ls_world (lock_step e s)) = lw_running (ls_world s)"
proof (cases e)
  case (LvAcquire p li db)
  then show ?thesis
    using lock_op_running(2) [of p li db "ls_world s"]
    by (cases "acquire_mcp_lock p li db (ls_world s)") (auto split: result.splits)
qed (auto split: option.splits)

lemma own_events_running:
  "list_all (own_event me) evs \<Longrightarrow> lw_running (ls_world (fold lock_step evs s)) = lw_running (ls_world s)"
  by (induction evs arbitrary: s) (auto simp: own_event_running)

definition open_outcome_ok ::
  "nat \<Rightarrow> (nat \<Rightarrow> mcp_lock option) \<Rightarrow> lock_sys \<Rightarrow> 'idb open_slot \<Rightarrow>
   (db_info, tool_error) result \<times> 'idb open_slot \<times> lock_world \<Rightarrow> bool" where
  "open_outcome_ok me others v slot out \<longleftrightarrow>
     (case out of (r, slot', w') \<Rightarrow>
        (\<exists>evs. list_all (own_event me) evs \<and> lock_view me others slot' w' = fold lock_step evs v) \<and> slot_ok slot' \<and>
        (case r of Ok _ \<Rightarrow> sl_idb slot' \<noteq> None \<and> (sl_idb slot \<noteq> None \<longrightarrow> slot' = slot) | Err _ \<Rightarrow> slot' = slot))"

lemma outcome_after:
  "list_all (own_event me) evs0 \<Longrightarrow> open_outcome_ok me others (fold lock_step evs0 v) slot out \<Longrightarrow>
   open_outcome_ok me others v slot out"
  unfolding open_outcome_ok_def
  by (auto split: prod.splits) (metis fold_append list_all_append o_apply)+

lemma outcome_same:
  "slot_ok slot \<Longrightarrow> (case r of Ok _ \<Rightarrow> sl_idb slot \<noteq> None | Err _ \<Rightarrow> True) \<Longrightarrow>
   open_outcome_ok me others (lock_view me others slot w) slot (r, slot, w)"
  unfolding open_outcome_ok_def by (auto intro!: exI [of _ "[]"] split: result.splits)

lemma open_locked_ok:
  assumes inv: "lock_inv \<lparr>ls_world = w, ls_held = others(me \<mapsto> l)\<rparr>" and slot: "slot_ok slot" "sl_idb slot = None"
  shows "open_outcome_ok me others \<lparr>ls_world = w, ls_held = others(me \<mapsto> l)\<rparr> slot
    (open_locked env lib me req pn l slot w)"
proof -
  define v where "v = lock_step (LvRelease me) \<lparr>ls_world = w, ls_held = others(me \<mapsto> l)\<rparr>"
  have v: "v = \<lparr>ls_world = release_mcp_lock_file me l w, ls_held = others(me := None)\<rparr>"
    by (simp only: v_def release_file_step)
  have vinv: "lock_inv v" unfolding v_def by (rule lock_step_inv [OF inv])
  have none: "my_lock slot = None" using slot by (simp add: slot_ok_def)
  have quiet: "snd (detect_db_lock me p (release_mcp_lock_file me l w)) = release_mcp_lock_file me l w" for p
    using detect_nothing [OF vinv, of me p] by (simp add: v)
  from open_locked_cases [of me l w env lib req pn slot, OF quiet] show ?thesis
  proof (elim disjE exE)
    fix e assume out: "open_locked env lib me req pn l slot w = (Err e, slot, release_mcp_lock_file me l w)"
    have "lock_view me others slot (release_mcp_lock_file me l w) =
        fold lock_step [LvRelease me] \<lparr>ls_world = w, ls_held = others(me \<mapsto> l)\<rparr>"
      using v none by (simp add: v_def no_lock_view del: lock_step.simps)
    then show ?thesis using slot(1)
      by (auto simp: open_outcome_ok_def out simp del: lock_step.simps fold_simps intro!: exI [of _ "[LvRelease me]"])
  next
    fix info db assume out: "open_locked env lib me req pn l slot w =
      (Ok info, \<lparr>sl_idb = Some db, sl_lock_file = Some (ml_file l), sl_lock_path = Some (ml_path l)\<rparr>, w)"
    show ?thesis using slot(2)
      by (auto simp: open_outcome_ok_def out lock_view_def my_lock_def slot_ok_def lock_eta intro!: exI [of _ "[]"])
  qed
qed

lemma handle_open_ok:
  assumes inv: "lock_inv (lock_view me others slot w)" and act: "may_lock me w" and ok: "slot_ok slot"
  shows "open_outcome_ok me others (lock_view me others slot w) slot (handle_open env lib me li req slot w)"
proof (cases "or_cancel req 2 \<or> sl_idb slot \<noteq> None \<or> \<not> fe_exists env (expand_path env (or_path req))")
  case True
  then show ?thesis
    by (auto simp: handle_open_def Let_def intro!: outcome_same [OF ok] split: option.splits)
next
  case False
  define pn where "pn = plan_open env req (expand_path env (or_path req))"
  define w1 where "w1 = (if or_force req then clean_stale_locks me pn w else w)"
  define evs where "evs = (if or_force req then [LvClean me (lock_target_path pn), LvClean me (pn_expanded pn)] else [])"
  define v1 where "v1 = \<lparr>ls_world = w1, ls_held = others(me := None)\<rparr>"
  have none: "my_lock slot = None" "sl_idb slot = None" using False ok by (auto simp: slot_ok_def)
  have v1: "v1 = fold lock_step evs (lock_view me others slot w)"
    using clean_locks_run [OF act] none by (simp add: v1_def w1_def evs_def no_lock_view)
  have inv1: "lock_inv v1" unfolding v1 by (rule locks.run_inv [OF inv])
  have can: "can_act me v1"
    using act by (simp add: v1_def w1_def can_act_def may_lock_def clean_stale_locks_def)
  obtain ra w2 where acq: "acquire_mcp_lock me li (lock_target_path pn) w1 = (ra, w2)" by fastforce
  have handle: "handle_open env lib me li req slot w =
      (case ra of Err e \<Rightarrow> (Err e, slot, w2) | Ok l \<Rightarrow> open_locked env lib me req pn l slot w2)"
    using False none acq by (simp add: handle_open_def pn_def [symmetric] w1_def Let_def split: result.splits)
  have step: "lock_step (LvAcquire me li (lock_target_path pn)) v1 =
      \<lparr>ls_world = w2, ls_held = others(me := (case ra of Ok l \<Rightarrow> Some l | Err _ \<Rightarrow> None))\<rparr>"
    using can acq by (simp add: v1_def split: result.splits)
  have "open_outcome_ok me others (fold lock_step [LvAcquire me li (lock_target_path pn)] v1) slot
      (handle_open env lib me li req slot w)"
  proof (cases ra)
    case (Ok l)
    have "lock_inv (lock_step (LvAcquire me li (lock_target_path pn)) v1)" by (rule lock_step_inv [OF inv1])
    with Ok show ?thesis
      using open_locked_ok [OF _ ok none(2), of w2 others me l env lib req pn] handle step
      by (simp del: lock_step.simps)
  next
    case (Err e)
    then show ?thesis
      using outcome_same [OF ok, of "Err e :: (db_info, tool_error) result" me others w2] handle step none
      by (simp add: no_lock_view del: lock_step.simps)
  qed
  from outcome_after [OF _ this] have "open_outcome_ok me others v1 slot (handle_open env lib me li req slot w)" by simp
  then show ?thesis
    unfolding v1 by (rule outcome_after [rotated]) (simp add: evs_def)
qed

section \<open>The loop\<close>

abbreviation loop_view :: "nat \<Rightarrow> (nat \<Rightarrow> mcp_lock option) \<Rightarrow> 'idb ida_loop \<Rightarrow> lock_sys" where
  "loop_view me others s \<equiv> lock_view me others (lo_slot s) (lo_world s)"

definition loop_inv :: "nat \<Rightarrow> (nat \<Rightarrow> mcp_lock option) \<Rightarrow> 'idb ida_loop \<Rightarrow> bool" where
  "loop_inv me others s \<longleftrightarrow>
     slot_ok (lo_slot s) \<and> lock_inv (loop_view me others s) \<and> may_lock me (lo_world s) \<and>
     (lo_end s \<noteq> ShutDown \<longrightarrow> (sl_idb (lo_slot s) = None \<longleftrightarrow> lo_generation s = None)) \<and>
     (\<forall>g. lo_generation s = Some g \<longrightarrow> g \<le> lo_next_generation s)"

lemma loop_invD:
  assumes "loop_inv me others s"
  shows "slot_ok (lo_slot s)" "lock_inv (loop_view me others s)" "may_lock me (lo_world s)"
    "lo_end s \<noteq> ShutDown \<Longrightarrow> sl_idb (lo_slot s) = None \<longleftrightarrow> lo_generation s = None"
    "lo_generation s = Some g \<Longrightarrow> g \<le> lo_next_generation s"
  using assms by (auto simp: loop_inv_def)

lemma reply_fields [simp]:
  "lo_slot (reply t r s) = lo_slot s" "lo_generation (reply t r s) = lo_generation s"
  "lo_next_generation (reply t r s) = lo_next_generation s" "lo_end (reply t r s) = lo_end s"
  "lo_world (reply t r s) = lo_world s" "lo_initialized (reply t r s) = lo_initialized s"
  "lo_mismatch (reply t r s) = lo_mismatch s" "lo_replies (reply t r s) = lo_replies s @ [(t, r)]"
  by (simp_all add: reply_def)

lemma reply_inv [simp]: "loop_inv me others (reply t r s) \<longleftrightarrow> loop_inv me others s"
  by (simp add: loop_inv_def)

lemma release_fields [simp]:
  "lo_slot (release_slot me s) = no_database" "lo_generation (release_slot me s) = lo_generation s"
  "lo_next_generation (release_slot me s) = lo_next_generation s" "lo_end (release_slot me s) = lo_end s"
  "lo_replies (release_slot me s) = lo_replies s" "lw_running (lo_world (release_slot me s)) = lw_running (lo_world s)"
  by (simp_all add: release_slot_def)

lemma no_database_ok [simp]: "slot_ok no_database" "sl_idb no_database = None" "my_lock no_database = None"
  by (simp_all add: no_database_def slot_ok_def my_lock_def)

lemma release_slot_view:
  assumes "slot_ok (lo_slot s)"
  shows "loop_view me others (release_slot me s) =
    (if sl_idb (lo_slot s) = None then loop_view me others s else lock_step (LvRelease me) (loop_view me others s))"
proof (cases "my_lock (lo_slot s)")
  case None
  with assms have "sl_idb (lo_slot s) = None" "sl_lock_file (lo_slot s) = None" "sl_lock_path (lo_slot s) = None"
    by (auto simp: slot_ok_def)
  with None show ?thesis by (simp add: release_slot_def release_mcp_lock_def lock_view_def)
next
  case (Some l)
  with assms have "sl_idb (lo_slot s) \<noteq> None" "sl_lock_file (lo_slot s) = Some (ml_file l)"
    "sl_lock_path (lo_slot s) = Some (ml_path l)"
    using my_lock_SomeD [OF Some] by (simp_all add: slot_ok_def)
  with Some show ?thesis by (auto simp: release_slot_def lock_view_def)
qed

lemma release_slot_lock_inv:
  assumes "slot_ok (lo_slot s)" "lock_inv (loop_view me others s)"
  shows "lock_inv (loop_view me others (release_slot me s))"
proof (cases "sl_idb (lo_slot s) = None")
  case True
  with assms release_slot_view [OF assms(1), of me others] show ?thesis by (simp only: if_True simp_thms)
next
  case False
  with lock_step_inv [OF assms(2)] release_slot_view [OF assms(1), of me others] show ?thesis by (simp only: if_False simp_thms)
qed

lemma released_inv:
  assumes "slot_ok (lo_slot s)" "lock_inv (loop_view me others s)" "may_lock me (lo_world s)"
    "lo_end s = ShutDown \<or> lo_generation s = None" "\<And>g. lo_generation s = Some g \<Longrightarrow> g \<le> lo_next_generation s"
  shows "loop_inv me others (release_slot me s)"
  unfolding loop_inv_def
  using release_slot_lock_inv [OF assms(1,2)] assms(3-5) by (auto simp: may_lock_def)

lemma close_inv:
  assumes "loop_inv me others s" "le_me env = me"
  shows "loop_inv me others (loop_close env s)"
  unfolding loop_close_def assms(2) by (rule released_inv) (use loop_invD [OF assms(1)] in simp_all)

lemma shutdown_inv:
  assumes "loop_inv me others s"
  shows "loop_inv me others (release_slot me (s\<lparr>lo_end := ShutDown\<rparr>))"
  by (rule released_inv) (use loop_invD [OF assms(1)] in simp_all)

lemma slot_update [simp]:
  "my_lock (slot\<lparr>sl_idb := x\<rparr>) = my_lock slot"
  "slot_ok (slot\<lparr>sl_idb := map_option f (sl_idb slot)\<rparr>) \<longleftrightarrow> slot_ok slot"
  "lock_view me others (slot\<lparr>sl_idb := x\<rparr>) w = lock_view me others slot w"
  by (auto simp: my_lock_def slot_ok_def lock_view_def)

lemma handler_fields [simp]:
  "lo_slot (run_handler env gd c t s) = (lo_slot s)\<lparr>sl_idb := map_option (le_effect env c) (sl_idb (lo_slot s))\<rparr>"
  "lo_generation (run_handler env gd c t s) = lo_generation s"
  "lo_next_generation (run_handler env gd c t s) = lo_next_generation s"
  "lo_world (run_handler env gd c t s) = lo_world s"
  "lo_end s \<noteq> ShutDown \<Longrightarrow> lo_end (run_handler env gd c t s) \<noteq> ShutDown"
  by (auto simp: run_handler_def Let_def split: handler_outcome.splits)

lemma handler_inv: "loop_inv me others s \<Longrightarrow> lo_end s = Running \<Longrightarrow> loop_inv me others (run_handler env gd c t s)"
  by (simp add: loop_inv_def)

lemma word_no_wrap: "n \<noteq> (- 1 :: u64) \<Longrightarrow> n < n + 1"
  using unatSuc [of n] by (metis add.commute add_eq_0_iff lessI word_less_nat_alt)

lemma open_inv_loop:
  assumes inv: "loop_inv me others s" and run: "lo_end s = Running" and me: "le_me env = me"
  shows "loop_inv me others (loop_open env t req s)"
proof (cases "or_cancel req 1")
  case True
  with inv show ?thesis by (simp add: loop_open_def)
next
  case False
  obtain r slot w where h: "handle_open (le_fs env) (le_lib env) me (le_info env) req (lo_slot s) (lo_world s) = (r, slot, w)"
    by (metis prod_cases3)
  define s1 where "s1 = s\<lparr>lo_slot := slot, lo_world := w\<rparr>"
  have out: "open_outcome_ok me others (loop_view me others s) (lo_slot s) (r, slot, w)"
    using handle_open_ok [OF loop_invD(2,3,1) [OF inv], of "le_fs env" "le_lib env" "le_info env" req] h by simp
  then obtain evs where own: "list_all (own_event me) evs"
    and view: "loop_view me others s1 = fold lock_step evs (loop_view me others s)"
    by (auto simp: open_outcome_ok_def s1_def)
  have locks1: "lock_inv (loop_view me others s1)" unfolding view by (rule locks.run_inv [OF loop_invD(2) [OF inv]])
  have slot1: "slot_ok (lo_slot s1)" using out by (simp add: open_outcome_ok_def s1_def)
  have "lw_running w = lw_running (lo_world s)"
    using own_events_running [OF own, of "loop_view me others s"] unfolding view [symmetric]
    by (simp add: lock_view_def s1_def)
  then have may1: "may_lock me (lo_world s1)" using loop_invD(3) [OF inv] by (simp add: may_lock_def s1_def)
  note gen = loop_invD(4,5) [OF inv] run
  show ?thesis
  proof (cases r)
    case (Err e)
    with out have "slot = lo_slot s" by (simp add: open_outcome_ok_def)
    with Err h False me locks1 slot1 may1 gen show ?thesis
      by (simp add: loop_open_def s1_def loop_inv_def)
  next
    case (Ok info)
    with out have some: "sl_idb slot \<noteq> None" by (simp add: open_outcome_ok_def)
    have open': "loop_open env t req s =
      (case (if sl_idb (lo_slot s) \<noteq> None then lo_generation s else None) of
         Some g \<Rightarrow> reply t (ReOpened (Ok \<lparr>od_info = info, od_generation = g\<rparr>)) s1
       | None \<Rightarrow>
           if lo_next_generation s = - 1
           then reply t (ReOpened (Err (IdaError ''database generation counter exhausted''))) (release_slot me s1)
           else reply t (ReOpened (Ok \<lparr>od_info = info, od_generation = lo_next_generation s + 1\<rparr>))
                  (s1\<lparr>lo_next_generation := lo_next_generation s + 1, lo_generation := Some (lo_next_generation s + 1)\<rparr>))"
      using Ok h False me by (auto simp: loop_open_def s1_def Let_def split: option.splits)
    show ?thesis
    proof (cases "sl_idb (lo_slot s) = None")
      case True
      have "loop_inv me others (release_slot me s1)"
        by (rule released_inv [OF slot1 locks1 may1]) (use gen True in \<open>simp_all add: s1_def\<close>)
      with True some slot1 locks1 may1 show ?thesis by (simp add: open' loop_inv_def s1_def)
    next
      case False
      with some slot1 locks1 may1 gen show ?thesis by (auto simp: open' loop_inv_def s1_def)
    qed
  qed
qed

lemma reject_inv: "loop_inv me others s \<Longrightarrow> loop_inv me others (reject_with_error req e t s)"
  by (cases req) simp_all

lemma ensure_initialized_inv:
  "loop_inv me others s \<Longrightarrow> loop_inv me others (snd (ensure_initialized env req s))"
  by (auto simp: ensure_initialized_def loop_inv_def split: result.splits)

lemma serve_inv:
  assumes "loop_inv me others s" "lo_end s = Running" "le_me env = me"
  shows "loop_inv me others (serve_request env req t s)"
  using assms open_inv_loop [OF assms] close_inv [OF assms(1,3)] shutdown_inv [OF assms(1)] handler_inv [OF assms(1,2)]
  by (cases req) (auto simp: bound_handler_def split: result.splits)

lemma loop_step_inv:
  assumes "loop_inv me others s" "le_me env = me"
  shows "loop_inv me others (ida_loop_step env req t s)"
proof (cases "lo_end s = Running")
  case True
  obtain e s1 where i: "ensure_initialized env req s = (e, s1)" by fastforce
  have inv1: "loop_inv me others s1" using ensure_initialized_inv [OF assms(1), of env req] i by simp
  have run1: "lo_end s1 = Running"
    using i True by (auto simp: ensure_initialized_def split: if_splits result.splits)
  show ?thesis
    using True i inv1 reject_inv [OF inv1] serve_inv [OF inv1 run1 assms(2)] shutdown_inv [OF inv1] assms(2)
    by (auto simp: ida_loop_step_def split: option.splits ida_request.splits)
qed (use assms in \<open>simp add: ida_loop_step_def\<close>)

section \<open>The loop among other processes\<close>

text \<open>The loop with the locks other processes hold: its requests, and lock operations of the others.\<close>

datatype 'idb loop_event = LoRequest "'idb loop_env" ida_request nat | LoForeign lock_event

fun event_actor :: "lock_event \<Rightarrow> nat" where
  "event_actor (LvStart p) = p"
| "event_actor (LvAcquire p _ _) = p"
| "event_actor (LvRelease p) = p"
| "event_actor (LvCrash p) = p"
| "event_actor (LvClean p _) = p"
| "event_actor (LvReap p _ _) = p"

fun loop_sys_step ::
  "nat \<Rightarrow> 'idb loop_event \<Rightarrow> 'idb ida_loop \<times> (nat \<Rightarrow> mcp_lock option) \<Rightarrow> 'idb ida_loop \<times> (nat \<Rightarrow> mcp_lock option)" where
  "loop_sys_step me (LoRequest env req t) (s, others) =
     (if le_me env = me then (ida_loop_step env req t s, others) else (s, others))"
| "loop_sys_step me (LoForeign e) (s, others) =
     (if event_actor e = me then (s, others)
      else let v = lock_step e (loop_view me others s) in (s\<lparr>lo_world := ls_world v\<rparr>, ls_held v))"

lemma foreign_keeps_mine:
  assumes "event_actor e \<noteq> me"
  shows "ls_held (lock_step e v) me = ls_held v me" "lw_running (ls_world (lock_step e v)) me = lw_running (ls_world v) me"
proof -
  have acq: "lw_running w = lw_running (ls_world v)" if "acquire_mcp_lock p li db (ls_world v) = (r, w)" for p li db r w
    using lock_op_running(2) [of p li db "ls_world v"] that by simp
  have read: "lw_running (snd (read_lock_file_pid p path w)) = lw_running w" for p path w
    by (auto simp: read_lock_file_pid_def split: option.splits)
  have reap: "lw_running (remove_mcp_lock_for_pid p db pid w) = lw_running w" for p db pid w
    using read [of p "lock_path_for db" w]
    by (auto simp: remove_mcp_lock_for_pid_def split: option.splits prod.splits)
  show "ls_held (lock_step e v) me = ls_held v me"
    using assms by (cases e) (auto split: result.splits prod.splits option.splits)
  show "lw_running (ls_world (lock_step e v)) me = lw_running (ls_world v) me"
    using assms
    by (cases e) (auto simp: exit_process_def reap acq split: result.splits prod.splits option.splits)
qed

lemma loop_sys_step_inv:
  assumes "loop_inv me (snd x) (fst x)"
  shows "loop_inv me (snd (loop_sys_step me ev x)) (fst (loop_sys_step me ev x))"
proof (cases ev)
  case (LoRequest env req t)
  with assms loop_step_inv [OF assms] show ?thesis by (cases x) simp
next
  case (LoForeign e)
  obtain s others where x: "x = (s, others)" by fastforce
  define v where "v = lock_step e (loop_view me others s)"
  have inv: "loop_inv me others s" using assms x by simp
  show ?thesis
  proof (cases "event_actor e = me")
    case False
    note keep = foreign_keeps_mine [OF False, of "loop_view me others s", folded v_def]
    have "loop_view me (ls_held v) (s\<lparr>lo_world := ls_world v\<rparr>) = v"
      using keep(1) by (cases v) (auto simp: lock_view_def fun_eq_iff)
    moreover have "lock_inv v" unfolding v_def by (rule lock_step_inv [OF loop_invD(2) [OF inv]])
    moreover have "may_lock me (ls_world v)"
      using keep(2) loop_invD(3) [OF inv] by (simp add: may_lock_def lock_view_def)
    ultimately have "loop_inv me (ls_held v) (s\<lparr>lo_world := ls_world v\<rparr>)"
      using inv by (simp add: loop_inv_def)
    with False x LoForeign show ?thesis by (simp add: v_def Let_def del: lock_step.simps)
  qed (use x LoForeign inv in simp)
qed

interpretation loops: lifecycle "loop_sys_step me" "\<lambda>x. loop_inv me (snd x) (fst x)"
  by unfold_locales (rule loop_sys_step_inv)

text \<open>A loop in a process that runs and holds no lock, in a world other processes have worked in.\<close>

lemma loop_start_inv:
  assumes "v = fold lock_step evs lock_start" "me < 2 ^ 32" "lw_running (ls_world v) me" "ls_held v me = None"
  shows "loop_inv me (ls_held v) (loop_start i m (ls_world v))"
proof -
  have inv: "lock_inv v" unfolding assms(1) by (rule locks.run_inv [OF lock_start_inv])
  have view: "lock_view me (ls_held v) no_database (ls_world v) = v"
    using assms(4) by (cases v) (auto simp: lock_view_def fun_eq_iff)
  show ?thesis
    using assms(2,3) inv by (simp add: loop_inv_def loop_start_def may_lock_def view)
qed

text \<open>C11: the loop has a database open exactly when it holds a lock and, until it shuts down,
  exactly when a generation is current. While it holds the lock, the lock file is the one it made,
  locked by its process, and no other process holds the lock of that path, whatever requests and lock
  operations of other processes came before, in any order, each request and lock operation being one
  uninterrupted step: when processes are interleaved inside a lock operation, exclusion can be lost, as
  \<open>Lock_Props\<close> shows.\<close>

theorem open_database_is_locked:
  assumes "v = fold lock_step evs lock_start" "me < 2 ^ 32" "lw_running (ls_world v) me" "ls_held v me = None"
    "(s, others) = fold (loop_sys_step me) es (loop_start i m (ls_world v), ls_held v)"
  shows "(sl_idb (lo_slot s) = None \<longleftrightarrow> my_lock (lo_slot s) = None) \<and>
    (lo_end s \<noteq> ShutDown \<longrightarrow> (sl_idb (lo_slot s) = None \<longleftrightarrow> lo_generation s = None)) \<and>
    (my_lock (lo_slot s) = Some l \<longrightarrow>
       holds_lock (lo_world s) me l \<and> (\<forall>q k. q \<noteq> me \<longrightarrow> others q = Some k \<longrightarrow> ml_path k \<noteq> ml_path l))"
proof -
  have inv: "loop_inv me others s"
    using loops.run_inv [of me "(loop_start i m (ls_world v), ls_held v)" es] loop_start_inv [OF assms(1-4)] assms(5)
    by (metis fst_conv snd_conv)
  have held: "holds_lock (lo_world s) p k" if "(others(me := my_lock (lo_slot s))) p = Some k" for p k
    using lock_invD(2) [OF loop_invD(2) [OF inv], of p k] that by (simp add: lock_view_def)
  have "holds_lock (lo_world s) me l" if "my_lock (lo_slot s) = Some l"
    using held [of me l] that by simp
  moreover have "ml_path k \<noteq> ml_path l"
    if "my_lock (lo_slot s) = Some l" "q \<noteq> me" "others q = Some k" for q k
    using held [of me l] held [of q k] that by (auto simp: holds_lock_def)
  ultimately show ?thesis
    using loop_invD(1,4) [OF inv] by (auto simp: slot_ok_def)
qed

text \<open>A library that opens everything, for evaluation.\<close>

definition open_lib :: "unit db_lib" where
  "open_lib = \<lparr>dl_open = (\<lambda>_ _. Ok ()), dl_path = (\<lambda>_. ''a.i64''), dl_filetype = (\<lambda>_. []), dl_processor = (\<lambda>_. []),
     dl_is_64bit = (\<lambda>_. True), dl_is_32bit_exactly = (\<lambda>_. False), dl_function_count = (\<lambda>_. 0),
     dl_analysis_status = (\<lambda>_. JNull), dl_load_debug_info = (\<lambda>_ _ _. Ok True)\<rparr>"

definition open_a :: open_request where
  "open_a = \<lparr>or_path = ''a.i64'', or_load_debug_info = False, or_debug_info_path = None, or_debug_info_verbose = False,
     or_force = True, or_rebuild = False, or_file_type = None, or_auto_analyse = False, or_extra_args = [],
     or_idb_out = None, or_cancel = (\<lambda>_. False)\<rparr>"

definition loop_env1 :: "unit loop_env" where
  "loop_env1 = \<lparr>le_fs = env0, le_lib = open_lib, le_me = 3, le_info = info_none, le_init = Ok None,
     le_call = (\<lambda>_ _. Finished (Ok JNull)), le_effect = (\<lambda>_ db. db)\<rparr>"

definition two_processes :: lock_sys where
  "two_processes = fold lock_step [LvStart 3, LvStart 2] lock_start"

lemma two_processes:
  "ls_world two_processes = \<lparr>lw_dir = Map.empty, lw_text = (\<lambda>_. []), lw_owner = Map.empty, lw_fresh = 0,
     lw_running = (\<lambda>p. p = 2 \<or> p = 3)\<rparr>"
  "ls_held two_processes = Map.empty"
  by (auto simp: two_processes_def lock_start_def fun_eq_iff)

lemma path_a:
  "file_name ''a.i64'' = Some ''a.i64''" "lock_path_for ''a.i64'' = ''a.imcp''" "extension ''a.i64'' = Some ''i64''"
  by (simp_all add: set_extension_def file_name_def components_def is_absolute_def component_of_def file_stem_def
      extension_def)

lemma plan_a: "plan_open env0 open_a ''a.i64'' =
    \<lparr>pn_expanded = ''a.i64'', pn_is_idb = True, pn_raw_out = None, pn_existing = None, pn_dsym = None\<rparr>"
  by (simp add: plan_open_def path_a to_ascii_lowercase_def ascii_lower_def)

lemma open_a_fields:
  "or_path open_a = ''a.i64''" "or_force open_a" "\<not> or_cancel open_a k" "fe_exists env0 p"
  by (simp_all add: open_a_def env0_def)

lemma open_a_no_debug: "or_load_debug_info open_a = False"
  by (simp add: open_a_def)

lemma open_existing_a: "open_existing env open_lib args p = (Ok (), p)"
  by (simp add: open_existing_def open_lib_def)

lemma handle_open_a:
  "\<exists>w. handle_open env0 open_lib 3 info_none open_a no_database (ls_world two_processes) =
     (Ok (build_db_info open_lib () ''a.i64'' None),
      \<lparr>sl_idb = Some (), sl_lock_file = Some 0, sl_lock_path = Some ''a.imcp''\<rparr>, w)"
proof -
  have expand: "expand_path env0 ''a.i64'' = ''a.i64''"
    by (simp add: expand_path_def strip_prefix_str_def)
  have "clean_stale_locks 3 (plan_open env0 open_a ''a.i64'') (ls_world two_processes) = ls_world two_processes"
    by (simp add: clean_stale_locks_def lock_target_path_def plan_a clean_stale_mcp_lock_def path_a two_processes)
  then have "handle_open env0 open_lib 3 info_none open_a no_database (ls_world two_processes) =
      (case acquire_mcp_lock 3 info_none ''a.i64'' (ls_world two_processes) of
         (Err e, w) \<Rightarrow> (Err e, no_database, w)
       | (Ok l, w) \<Rightarrow> open_locked env0 open_lib 3 open_a (plan_open env0 open_a ''a.i64'') l no_database w)"
    using expand by (simp add: handle_open_def open_a_fields Let_def) (simp add: plan_a lock_target_path_def)
  also have "\<dots> = open_locked env0 open_lib 3 open_a (plan_open env0 open_a ''a.i64'')
      \<lparr>ml_file = 0, ml_path = ''a.imcp''\<rparr> no_database (snd (acquire_mcp_lock 3 info_none ''a.i64'' (ls_world two_processes)))"
    using acquire_free [of "ls_world two_processes" "''a.i64''" info_none 3]
    by (simp add: two_processes path_a info_none_def)
  finally show ?thesis
    by (simp add: open_locked_def plan_a Let_def open_existing_a after_open_def ensure_not_cancelled_def open_a_fields
        open_a_no_debug)
qed

theorem open_database_is_locked_witness:
  "case fold (loop_sys_step 3) [LoRequest loop_env1 (ROpen open_a) 7]
          (loop_start True None (ls_world two_processes), ls_held two_processes) of
     (s, others) \<Rightarrow> holds_lock (lo_world s) 3 \<lparr>ml_file = 0, ml_path = ''a.imcp''\<rparr>"
proof -
  obtain s others where run: "fold (loop_sys_step 3) [LoRequest loop_env1 (ROpen open_a) 7]
      (loop_start True None (ls_world two_processes), ls_held two_processes) = (s, others)" by fastforce
  obtain w where open': "handle_open env0 open_lib 3 info_none open_a no_database (ls_world two_processes) =
      (Ok (build_db_info open_lib () ''a.i64'' None),
       \<lparr>sl_idb = Some (), sl_lock_file = Some 0, sl_lock_path = Some ''a.imcp''\<rparr>, w)"
    using handle_open_a by blast
  have "\<not> or_cancel open_a 1" by (simp add: open_a_def)
  then have "lo_slot s = \<lparr>sl_idb = Some (), sl_lock_file = Some 0, sl_lock_path = Some ''a.imcp''\<rparr>"
    using run open' by (auto simp: loop_env1_def ida_loop_step_def loop_start_def ensure_initialized_def loop_open_def
        no_database_def)
  then have lock: "my_lock (lo_slot s) = Some \<lparr>ml_file = 0, ml_path = ''a.imcp''\<rparr>" by (simp add: my_lock_def)
  have "holds_lock (lo_world s) 3 \<lparr>ml_file = 0, ml_path = ''a.imcp''\<rparr>"
    using open_database_is_locked [OF two_processes_def _ _ _ run [symmetric], of "\<lparr>ml_file = 0, ml_path = ''a.imcp''\<rparr>"] lock
    by (simp add: two_processes)
  with run show ?thesis by simp
qed

section \<open>Generations\<close>

lemma reject_fields [simp]:
  "lo_generation (reject_with_error req e t s) = lo_generation s"
  "lo_next_generation (reject_with_error req e t s) = lo_next_generation s"
  by (cases req; simp)+

text \<open>A step rejects the request or serves it, in a state with the same database.\<close>

lemma loop_step_cases:
  assumes "lo_end s = Running"
  obtains s1 where "lo_generation s1 = lo_generation s" "lo_next_generation s1 = lo_next_generation s"
    "lo_replies s1 = lo_replies s" "lo_slot s1 = lo_slot s"
    "(\<exists>e. ida_loop_step env req t s = reject_with_error req e t s1) \<or>
     ida_loop_step env req t s = serve_request env req t s1"
proof -
  obtain e s1 where i: "ensure_initialized env req s = (e, s1)" by fastforce
  have "lo_generation s1 = lo_generation s" "lo_next_generation s1 = lo_next_generation s"
    "lo_replies s1 = lo_replies s" "lo_slot s1 = lo_slot s"
    using i by (auto simp: ensure_initialized_def split: if_splits result.splits)
  moreover have "(\<exists>e. ida_loop_step env req t s = reject_with_error req e t s1) \<or>
     ida_loop_step env req t s = serve_request env req t s1"
    using assms i by (cases req) (auto simp: ida_loop_step_def split: option.splits)
  ultimately show ?thesis by (rule that)
qed

lemma serve_generation:
  "lo_next_generation s \<le> lo_next_generation (serve_request env req t s)"
  "lo_generation s \<noteq> Some g \<Longrightarrow> g \<le> lo_next_generation s \<Longrightarrow> lo_generation (serve_request env req t s) \<noteq> Some g"
  using word_no_wrap [of "lo_next_generation s"]
  by (cases req; auto simp: loop_open_def loop_close_def bound_handler_def Let_def
        split: prod.splits result.splits option.splits)+

lemma generation_not_reused:
  assumes "lo_generation s \<noteq> Some g" "g \<le> lo_next_generation s"
  shows "lo_generation (ida_loop_step env req t s) \<noteq> Some g" "g \<le> lo_next_generation (ida_loop_step env req t s)"
proof -
  have "lo_generation (ida_loop_step env req t s) \<noteq> Some g \<and> g \<le> lo_next_generation (ida_loop_step env req t s)"
  proof (cases "lo_end s = Running")
    case True
    obtain s1 where "lo_generation s1 = lo_generation s" "lo_next_generation s1 = lo_next_generation s"
      "(\<exists>e. ida_loop_step env req t s = reject_with_error req e t s1) \<or>
       ida_loop_step env req t s = serve_request env req t s1"
      using loop_step_cases [OF True, of env req t] by metis
    then show ?thesis
      using assms serve_generation(1) [of s1 env req t] serve_generation(2) [of s1 g env req t] by (metis order_trans reject_fields)
  qed (use assms in \<open>simp add: ida_loop_step_def\<close>)
  then show "lo_generation (ida_loop_step env req t s) \<noteq> Some g" "g \<le> lo_next_generation (ida_loop_step env req t s)"
    by auto
qed

text \<open>C21: a generation that was handed out and is not current, because its database was closed,
  never becomes current again: after any further requests, work and conditional closes that are bound
  to it are refused in the same step that would have done them, and change nothing.\<close>

theorem closed_generation_is_dead:
  assumes "s = fold (\<lambda>(env, req, t). ida_loop_step env req t) reqs s0"
    "g \<le> lo_next_generation s0" "lo_generation s0 \<noteq> Some g"
  shows "lo_generation s \<noteq> Some g \<and>
    serve_request env (RDscLoadImage m (Some g)) t s = reply t (ReValue (Err DatabaseReplaced)) s \<and>
    serve_request env (RAnalysisStatus (Some g)) t s = reply t (ReValue (Err DatabaseReplaced)) s \<and>
    serve_request env (RCloseIfGeneration g) t s = reply t (ReClosed (Ok NotCurrent)) s"
proof -
  have "lo_generation s \<noteq> Some g \<and> g \<le> lo_next_generation s"
    using assms
  proof (induction reqs arbitrary: s rule: rev_induct)
    case (snoc r reqs)
    obtain e q u where r: "r = (e, q, u)" by (metis prod_cases3)
    define s1 where "s1 = fold (\<lambda>(env, req, t). ida_loop_step env req t) reqs s0"
    have "lo_generation s1 \<noteq> Some g" "g \<le> lo_next_generation s1" using snoc.IH [of s1] snoc.prems s1_def by auto
    with snoc.prems(1) r generation_not_reused [of s1 g e q u] show ?case
      by (auto simp: s1_def)
  qed simp
  then show ?thesis by (simp add: bound_handler_def require_generation_def)
qed

theorem closed_generation_is_dead_witness:
  "lo_generation (fold (\<lambda>(env, req, t). ida_loop_step env req t) [(loop_env1, RClose, 0)]
     ((loop_start True None (ls_world two_processes) :: unit ida_loop)\<lparr>lo_next_generation := 1\<rparr>)) \<noteq> Some 1"
  using closed_generation_is_dead [OF refl, of 1 "(loop_start True None (ls_world two_processes))\<lparr>lo_next_generation := 1\<rparr>"
      "[(loop_env1, RClose, 0)]"]
  by (simp add: loop_start_def)

section \<open>Replies\<close>

lemma reject_replies:
  "req \<noteq> RShutdown \<Longrightarrow> \<exists>r. lo_replies (reject_with_error req e t s) = lo_replies s @ [(t, r)]"
  by (cases req) auto

lemma serve_replies:
  "req \<noteq> RShutdown \<Longrightarrow> (\<exists>r. lo_replies (serve_request env req t s) = lo_replies s @ [(t, r)]) \<or>
     (\<exists>c sig. req = RCall False c \<and> le_call env c (sl_idb (lo_slot s)) = Signalled sig \<and>
        lo_end (serve_request env req t s) = Killed \<and> lo_replies (serve_request env req t s) = lo_replies s)"
  by (cases req) (auto simp: loop_open_def loop_close_def bound_handler_def run_handler_def Let_def
      split: prod.splits result.splits option.splits handler_outcome.splits)

text \<open>C22: every request the loop takes gets exactly one reply. The exceptions are a shutdown, which
  has no channel to answer on, and a crash of the library in one of the handlers that run without the
  guard, which ends the process.\<close>

theorem ida_request_answered_once:
  assumes "lo_end s = Running"
  shows "(\<exists>r. lo_replies (ida_loop_step env req t s) = lo_replies s @ [(t, r)]) \<or>
    (lo_replies (ida_loop_step env req t s) = lo_replies s \<and>
     (req = RShutdown \<or>
      lo_end (ida_loop_step env req t s) = Killed \<and>
        (\<exists>c sig. req = RCall False c \<and> le_call env c (sl_idb (lo_slot s)) = Signalled sig)))"
proof -
  obtain s1 where s1: "lo_replies s1 = lo_replies s" "lo_slot s1 = lo_slot s"
    "(\<exists>e. ida_loop_step env req t s = reject_with_error req e t s1) \<or>
     ida_loop_step env req t s = serve_request env req t s1"
    using loop_step_cases [OF assms, of env req t] by metis
  show ?thesis
  proof (cases "req = RShutdown")
    case True
    with s1 show ?thesis by auto
  next
    case False
    from reject_replies [OF this, of _ t s1] serve_replies [OF this, of env t s1] s1 show ?thesis by metis
  qed
qed

theorem ida_request_answered_once_witness:
  "\<exists>r. lo_replies (ida_loop_step loop_env1 RClose 5 (loop_start True None (ls_world two_processes))) = [(5, r)]"
  using ida_request_answered_once [of "loop_start True None (ls_world two_processes)" loop_env1 RClose 5]
  by (auto simp: loop_start_def ida_loop_step_def ensure_initialized_def)

text \<open>A shutdown request is lost when the deferred initialization of the library fails: the
  loop neither ends nor answers, and goes on waiting for requests.\<close>

theorem shutdown_lost_when_initialization_fails:
  assumes "\<not> lo_initialized s" "le_init env = Err e"
  shows "ida_loop_step env RShutdown t s = s"
  using assms by (simp add: ida_loop_step_def ensure_initialized_def req_cancel_def)

theorem shutdown_lost_when_initialization_fails_witness:
  "lo_end (ida_loop_step (loop_env1\<lparr>le_init := Err ''no license''\<rparr>) RShutdown 3
     (loop_start False None (ls_world two_processes))) = Running"
  using shutdown_lost_when_initialization_fails
    [of "loop_start False None (ls_world two_processes)" "loop_env1\<lparr>le_init := Err ''no license''\<rparr>" "''no license''" 3]
  by (simp add: loop_start_def)

end
