(* ===== verification/Close_Token.thy ===== *)
theory Close_Token
  imports Loop_Props
begin

text \<open>
  Who may close the shared database of the HTTP server: the close tokens of \<open>src/src/ida/worker.rs\<close> and
  the tools that hand them out and check them, \<open>open_idb\<close> and \<open>close_idb\<close> in \<open>src/src/server/mod.rs\<close>,
  over the loop that owns the database. Of \<open>open_idb\<close> the opening itself and what follows from it are
  modelled. The random token is an argument, and so is whether the request could be put into the
  loop's queue.
\<close>

section \<open>Tokens\<close>

record close_token_lease =
  cl_token :: string
  cl_owner_session_id :: string

record close_token_grant =
  cg_token :: string
  cg_reused :: bool
  cg_owner_session_id :: string

datatype close_authorization = Granted | GrantedByOverride string | Denied string

definition issue_for_session ::
  "string \<Rightarrow> string \<Rightarrow> close_token_lease option \<Rightarrow> (close_token_grant, string) result \<times> close_token_lease option" where
  "issue_for_session fresh session_id st =
     (case st of
        Some lease \<Rightarrow>
          (if cl_owner_session_id lease = session_id
           then Ok \<lparr>cg_token = cl_token lease, cg_reused = True, cg_owner_session_id = cl_owner_session_id lease\<rparr>
           else Err (cl_owner_session_id lease), st)
      | None \<Rightarrow>
          (Ok \<lparr>cg_token = fresh, cg_reused = False, cg_owner_session_id = session_id\<rparr>,
           Some \<lparr>cl_token = fresh, cl_owner_session_id = session_id\<rparr>))"

definition authorize_close ::
  "string \<Rightarrow> string option \<Rightarrow> bool \<Rightarrow> close_token_lease option \<Rightarrow> close_authorization" where
  "authorize_close session_id token force st =
     (case st of
        None \<Rightarrow> Granted
      | Some lease \<Rightarrow>
          if token = Some (cl_token lease) \<or> cl_owner_session_id lease = session_id then Granted
          else if force then GrantedByOverride (cl_owner_session_id lease)
          else Denied (cl_owner_session_id lease))"

definition clear_close_token :: "close_token_lease option \<Rightarrow> close_token_lease option" where
  "clear_close_token st = None"

section \<open>The server's tools\<close>

datatype server_mode = Stdio | Http | Worker

definition close_hint_for :: "server_mode \<Rightarrow> bool \<Rightarrow> string" where
  "close_hint_for mode pooled =
     (case mode of
        Http \<Rightarrow>
          if pooled
          then ''In pooled HTTP/SSE mode, close_idb releases this session's child worker lease. Sessions do not share one global close_token.''
          else ''In HTTP/SSE mode, keep the close_token returned by open_idb. Sessionless MCP 2026 and non-owning legacy contexts must pass it to close_idb; the owning legacy session can close directly. If the token is lost, close_idb(force=true) can recover the shared IDA context.''
      | Stdio \<Rightarrow> ''Call close_idb when done to release locks for other sessions.''
      | Worker \<Rightarrow> ''Child worker mode is managed by the parent router; close_idb is normally called by the parent.'')"

definition apply_close_metadata ::
  "(close_token_grant, string) result option \<Rightarrow> string \<Rightarrow> (string \<times> json) list \<Rightarrow> (string \<times> json) list" where
  "apply_close_metadata grant hint m =
     (case grant of
        Some (Ok g) \<Rightarrow>
          (let m = map_insert ''close_hint'' (JString hint) m;
               m = map_insert ''close_owner_session_id'' (JString (cg_owner_session_id g)) m;
               m = map_insert ''close_token'' (JString (cg_token g)) m
           in if cg_reused g then map_insert ''close_token_reused'' (JBool True) m else m)
      | Some (Err owner) \<Rightarrow>
          (let m = map_insert ''close_hint'' (JString (''The open database is currently owned by HTTP context '' @ owner @
                 ''. Provide its close_token to close_idb, or call close_idb(force=true) if that token was lost.'')) m;
               m = map_insert ''close_owner_session_id'' (JString owner) m
           in map_insert ''close_recovery_hint''
                (JString ''If the original close_token was lost, call close_idb(force=true) from a trusted client.'') m)
      | None \<Rightarrow> map_insert ''close_hint'' (JString hint) m)"

text \<open>The server's shared part: the loop and the lease. \<open>local\<close> tells that there is no pool.\<close>

record 'idb shared_server =
  sv_mode :: server_mode
  sv_local :: bool
  sv_loop :: "'idb ida_loop"
  sv_lease :: "close_token_lease option"

definition uses_close_tokens :: "'idb shared_server \<Rightarrow> bool" where
  "uses_close_tokens sv \<longleftrightarrow> sv_local sv"

definition http_close_grant ::
  "string \<Rightarrow> string \<Rightarrow> 'idb shared_server \<Rightarrow> (close_token_grant, string) result option \<times> 'idb shared_server" where
  "http_close_grant fresh session_id sv =
     (if sv_mode sv = Http \<and> uses_close_tokens sv
      then (case issue_for_session fresh session_id (sv_lease sv) of
              (grant, lease) \<Rightarrow> (Some grant, sv\<lparr>sv_lease := lease\<rparr>))
      else (None, sv))"

text \<open>A request put into the queue and its answer; without one the channel is closed.\<close>

definition loop_answer :: "'idb ida_loop \<Rightarrow> 'idb ida_loop \<Rightarrow> ida_reply option" where
  "loop_answer s s' = (case drop (length (lo_replies s)) (lo_replies s') of (_, r) # _ \<Rightarrow> Some r | [] \<Rightarrow> None)"

definition worker_request ::
  "'idb loop_env \<Rightarrow> (unit, tool_error) result \<Rightarrow> nat \<Rightarrow> ida_request \<Rightarrow> 'idb shared_server \<Rightarrow>
   (ida_reply, tool_error) result \<times> 'idb shared_server" where
  "worker_request env sent ticket req sv =
     (case sent of
        Err e \<Rightarrow> (Err e, sv)
      | Ok _ \<Rightarrow>
          (let s' = ida_loop_step env req ticket (sv_loop sv)
           in (ok_or (loop_answer (sv_loop sv) s') WorkerClosed, sv\<lparr>sv_loop := s'\<rparr>)))"

text \<open>The tool that opens: the worker's request, awaited, and then the grant.\<close>

definition open_worker ::
  "'idb loop_env \<Rightarrow> (unit, tool_error) result \<Rightarrow> nat \<Rightarrow> open_request \<Rightarrow> 'idb shared_server \<Rightarrow>
   (opened_database, tool_error) result \<times> 'idb shared_server" where
  "open_worker env sent ticket req sv =
     (case worker_request env sent ticket (ROpen req) sv of
        (Ok (ReOpened r), sv) \<Rightarrow> (r, sv)
      | (Ok _, sv) \<Rightarrow> (Err WorkerClosed, sv)
      | (Err e, sv) \<Rightarrow> (Err e, sv))"

definition open_answer ::
  "string \<Rightarrow> string \<Rightarrow> (opened_database, tool_error) result \<Rightarrow> 'idb shared_server \<Rightarrow>
   (opened_database \<times> (close_token_grant, string) result option, tool_error) result \<times> 'idb shared_server" where
  "open_answer fresh session_id r sv =
     (case r of
        Ok opened \<Rightarrow> (case http_close_grant fresh session_id sv of (grant, sv) \<Rightarrow> (Ok (opened, grant), sv))
      | Err e \<Rightarrow> (Err e, sv))"

definition open_idb ::
  "'idb loop_env \<Rightarrow> (unit, tool_error) result \<Rightarrow> nat \<Rightarrow> string \<Rightarrow> string \<Rightarrow> open_request \<Rightarrow> 'idb shared_server \<Rightarrow>
   (opened_database \<times> (close_token_grant, string) result option, tool_error) result \<times> 'idb shared_server" where
  "open_idb env sent ticket fresh session_id req sv =
     (case open_worker env sent ticket req sv of (r, sv) \<Rightarrow> open_answer fresh session_id r sv)"

definition owner_token_required :: "string \<Rightarrow> json" where
  "owner_token_required owner =
     JObject [(''closed'', JBool False), (''reason'', JString ''owner token required''),
       (''owner_session_id'', JString owner),
       (''hint'', JString ''Provide the close_token from open_idb, or call close_idb(force=true) from a trusted client if that token was lost.'')]"

datatype close_outcome = DatabaseClosed | CloseIgnored json | CloseFailed tool_error

text \<open>The tool that closes: the check of the token, the worker's request, awaited, and then the
  clearing of the token.\<close>

definition close_admission ::
  "string \<Rightarrow> string option \<Rightarrow> bool option \<Rightarrow> 'idb shared_server \<Rightarrow> close_outcome option" where
  "close_admission session_id token force sv =
     (if sv_mode sv = Http \<and> uses_close_tokens sv
      then (case authorize_close session_id token (force = Some True) (sv_lease sv) of
              Denied owner \<Rightarrow> Some (CloseIgnored (owner_token_required owner))
            | _ \<Rightarrow> None)
      else None)"

definition close_worker ::
  "'idb loop_env \<Rightarrow> (unit, tool_error) result \<Rightarrow> nat \<Rightarrow> 'idb shared_server \<Rightarrow>
   (unit, tool_error) result \<times> 'idb shared_server" where
  "close_worker env sent ticket sv =
     (case worker_request env sent ticket RClose sv of
        (Ok ReUnit, sv) \<Rightarrow> (Ok (), sv)
      | (Ok _, sv) \<Rightarrow> (Err WorkerClosed, sv)
      | (Err e, sv) \<Rightarrow> (Err e, sv))"

definition close_answer :: "(unit, tool_error) result \<Rightarrow> 'idb shared_server \<Rightarrow> close_outcome \<times> 'idb shared_server" where
  "close_answer r sv =
     (case r of
        Ok _ \<Rightarrow> (DatabaseClosed, if sv_local sv then sv\<lparr>sv_lease := clear_close_token (sv_lease sv)\<rparr> else sv)
      | Err e \<Rightarrow> (CloseFailed e, sv))"

definition close_idb ::
  "'idb loop_env \<Rightarrow> (unit, tool_error) result \<Rightarrow> nat \<Rightarrow> string \<Rightarrow> string option \<Rightarrow> bool option \<Rightarrow> 'idb shared_server \<Rightarrow>
   close_outcome \<times> 'idb shared_server" where
  "close_idb env sent ticket session_id token force sv =
     (case close_admission session_id token force sv of
        Some refused \<Rightarrow> (refused, sv)
      | None \<Rightarrow> (case close_worker env sent ticket sv of (r, sv) \<Rightarrow> close_answer r sv))"

definition worker_close_if_generation ::
  "'idb loop_env \<Rightarrow> (unit, tool_error) result \<Rightarrow> nat \<Rightarrow> u64 \<Rightarrow> 'idb shared_server \<Rightarrow>
   (conditional_close, tool_error) result \<times> 'idb shared_server" where
  "worker_close_if_generation env sent ticket g sv =
     (case worker_request env sent ticket (RCloseIfGeneration g) sv of
        (Ok (ReClosed (Ok Closed)), sv) \<Rightarrow> (Ok Closed, sv\<lparr>sv_lease := clear_close_token (sv_lease sv)\<rparr>)
      | (Ok (ReClosed r), sv) \<Rightarrow> (r, sv)
      | (Ok _, sv) \<Rightarrow> (Err WorkerClosed, sv)
      | (Err e, sv) \<Rightarrow> (Err e, sv))"

section \<open>Whole calls\<close>

lemma open_idb_whole:
  "open_idb env sent ticket fresh session_id req sv =
     (case worker_request env sent ticket (ROpen req) sv of
        (Ok (ReOpened (Ok opened)), sv) \<Rightarrow>
          (case http_close_grant fresh session_id sv of (grant, sv) \<Rightarrow> (Ok (opened, grant), sv))
      | (Ok (ReOpened (Err e)), sv) \<Rightarrow> (Err e, sv)
      | (Ok _, sv) \<Rightarrow> (Err WorkerClosed, sv)
      | (Err e, sv) \<Rightarrow> (Err e, sv))"
  by (simp add: open_idb_def open_worker_def open_answer_def split: prod.split result.split ida_reply.split)

lemma close_idb_whole:
  "close_idb env sent ticket session_id token force sv =
     (let checked = (sv_mode sv = Http \<and> uses_close_tokens sv);
          auth = authorize_close session_id token (force = Some True) (sv_lease sv)
      in case (if checked then auth else Granted) of
           Denied owner \<Rightarrow> (CloseIgnored (owner_token_required owner), sv)
         | _ \<Rightarrow>
             (case worker_request env sent ticket RClose sv of
                (Ok ReUnit, sv) \<Rightarrow> (DatabaseClosed, if sv_local sv then sv\<lparr>sv_lease := clear_close_token (sv_lease sv)\<rparr> else sv)
              | (Ok _, sv) \<Rightarrow> (CloseFailed WorkerClosed, sv)
              | (Err e, sv) \<Rightarrow> (CloseFailed e, sv)))"
  by (simp add: close_idb_def close_admission_def close_worker_def close_answer_def Let_def
      split: prod.split result.split ida_reply.split close_authorization.split)

section \<open>Only the owner closes\<close>

lemma open_locked_slot:
  "open_locked env lib me req pn l slot w = (r, slot', w') \<Longrightarrow>
     (case r of Ok _ \<Rightarrow> sl_idb slot' \<noteq> None | Err _ \<Rightarrow> slot' = slot)"
  by (auto simp: open_locked_def Let_def split: option.splits prod.splits result.splits if_splits)

lemma handle_open_slot:
  assumes h: "handle_open env lib me li req slot w = (r, slot', w')"
  shows "case r of Ok _ \<Rightarrow> sl_idb slot' \<noteq> None \<and> (sl_idb slot \<noteq> None \<longrightarrow> slot' = slot) | Err _ \<Rightarrow> slot' = slot"
proof (cases "or_cancel req 2 \<or> sl_idb slot \<noteq> None \<or> \<not> fe_exists env (expand_path env (or_path req))")
  case True
  with h show ?thesis by (auto simp: handle_open_def Let_def split: option.splits if_splits)
next
  case False
  define pn where "pn = plan_open env req (expand_path env (or_path req))"
  obtain ra w2 where acq: "acquire_mcp_lock me li (lock_target_path pn) (if or_force req then clean_stale_locks me pn w else w) = (ra, w2)"
    by fastforce
  have "handle_open env lib me li req slot w =
      (case ra of Err e \<Rightarrow> (Err e, slot, w2) | Ok l \<Rightarrow> open_locked env lib me req pn l slot w2)"
    using False acq by (simp add: handle_open_def pn_def [symmetric] Let_def split: result.splits)
  with h False open_locked_slot [of env lib me req pn _ slot w2 r slot' w'] show ?thesis
    by (cases ra) (auto split: result.splits)
qed

abbreviation db_open :: "'idb ida_loop \<Rightarrow> bool" where
  "db_open s \<equiv> sl_idb (lo_slot s) \<noteq> None"

text \<open>A database is open only after a successful initialization, and exactly when a generation is current.\<close>

definition loop_sane :: "'idb ida_loop \<Rightarrow> bool" where
  "loop_sane s \<longleftrightarrow> (lo_end s = Running \<longrightarrow> (db_open s \<longleftrightarrow> lo_generation s \<noteq> None) \<and>
     (db_open s \<longrightarrow> lo_initialized s \<and> lo_mismatch s = None))"

definition opens :: "ida_reply option \<Rightarrow> bool" where
  "opens r \<longleftrightarrow> (\<exists>od. r = Some (ReOpened (Ok od)))"

lemma loop_sane_reply [simp]: "loop_sane (reply t r s) \<longleftrightarrow> loop_sane s"
  by (simp add: loop_sane_def)

lemma loop_answer_one: "lo_replies s' = lo_replies s @ [(t, r)] \<Longrightarrow> loop_answer s s' = Some r"
  by (simp add: loop_answer_def)

lemma loop_answer_none: "lo_replies s' = lo_replies s \<Longrightarrow> loop_answer s s' = None"
  by (simp add: loop_answer_def)

lemma loop_open_effect:
  assumes "loop_sane s" "lo_end s = Running" "lo_initialized s" "lo_mismatch s = None"
  shows "\<exists>r. lo_replies (loop_open env t req s) = lo_replies s @ [(t, ReOpened r)] \<and> loop_sane (loop_open env t req s) \<and>
     (case r of Ok _ \<Rightarrow> db_open (loop_open env t req s) | Err _ \<Rightarrow> db_open (loop_open env t req s) \<longleftrightarrow> db_open s)"
proof (cases "or_cancel req 1")
  case True
  with assms show ?thesis by (simp add: loop_open_def)
next
  case False
  obtain r slot w where h: "handle_open (le_fs env) (le_lib env) (le_me env) (le_info env) req (lo_slot s) (lo_world s) = (r, slot, w)"
    by (metis prod_cases3)
  note slot = handle_open_slot [OF h]
  show ?thesis
  proof (cases r)
    case (Err e)
    with h False slot assms show ?thesis by (simp add: loop_open_def loop_sane_def)
  next
    case (Ok info)
    with h False slot assms show ?thesis
      by (cases "db_open s") (auto simp: loop_open_def Let_def loop_sane_def release_slot_def no_database_def)
  qed
qed

lemma reject_effect:
  "lo_replies (reject_with_error req e t s) = lo_replies s @ (if req = RShutdown then [] else
     [(t, case req of ROpen _ \<Rightarrow> ReOpened (Err e) | RClose \<Rightarrow> ReUnit | RCloseIfGeneration _ \<Rightarrow> ReClosed (Err e) | _ \<Rightarrow> ReValue (Err e))])"
  by (cases req) simp_all

text \<open>What a step of a loop that runs does, by the kind of the request.\<close>

definition same_database :: "'idb ida_loop \<Rightarrow> 'idb ida_loop \<Rightarrow> bool" where
  "same_database s s1 \<longleftrightarrow> lo_replies s1 = lo_replies s \<and> lo_slot s1 = lo_slot s \<and> lo_generation s1 = lo_generation s \<and>
     lo_end s1 = Running \<and> loop_sane s1"

lemma loop_step_sane:
  assumes sane: "loop_sane s" and run: "lo_end s = Running"
  shows "\<exists>s1. same_database s s1 \<and>
     ((\<not> db_open s \<and> (\<exists>e. ida_loop_step env req t s = reject_with_error req e t s1)) \<or>
      (ida_loop_step env req t s = serve_request env req t s1 \<and>
        (req = RShutdown \<or> lo_initialized s1 \<and> lo_mismatch s1 = None)))"
proof -
  obtain e s1 where i: "ensure_initialized env req s = (e, s1)" by fastforce
  have s1: "lo_replies s1 = lo_replies s" "lo_slot s1 = lo_slot s" "lo_generation s1 = lo_generation s"
    "lo_end s1 = Running" "e = None \<Longrightarrow> lo_initialized s1" "e \<noteq> None \<Longrightarrow> \<not> db_open s"
    "db_open s \<Longrightarrow> lo_initialized s1 \<and> lo_mismatch s1 = None"
    using i run sane by (auto simp: ensure_initialized_def loop_sane_def split: if_splits result.splits)
  have same: "same_database s s1"
    using sane s1(1-4,7) run unfolding same_database_def loop_sane_def by auto
  have step: "ida_loop_step env req t s =
      (case e of Some e \<Rightarrow> reject_with_error req e t s1
       | None \<Rightarrow> case lo_mismatch s1 of
           Some msg \<Rightarrow> if req = RShutdown then serve_request env RShutdown t s1
                       else reject_with_error req (SdkVersionMismatch msg) t s1
         | None \<Rightarrow> serve_request env req t s1)"
    using run i by (auto simp: ida_loop_step_def split: option.splits ida_request.splits)
  have "e \<noteq> None \<or> lo_mismatch s1 \<noteq> None \<Longrightarrow> sl_idb (lo_slot s) = None" using s1(6,7) by (cases "sl_idb (lo_slot s)") auto
  with same step s1(5) show ?thesis
    by (intro exI [of _ s1]) (cases e; cases "lo_mismatch s1"; auto)
qed

lemma open_step:
  assumes "loop_sane s" "lo_end s = Running" "s' = ida_loop_step env (ROpen req) t s"
  shows "loop_sane s' \<and> (\<exists>r. loop_answer s s' = Some (ReOpened r) \<and>
     (case r of Ok _ \<Rightarrow> db_open s' | Err _ \<Rightarrow> db_open s' \<longleftrightarrow> db_open s))"
proof -
  obtain s1 where s1: "same_database s s1"
    "(\<not> db_open s \<and> (\<exists>e. s' = reject_with_error (ROpen req) e t s1)) \<or>
     (s' = loop_open env t req s1 \<and> lo_initialized s1 \<and> lo_mismatch s1 = None)"
    using loop_step_sane [OF assms(1,2), of env "ROpen req" t] unfolding assms(3) by auto
  from s1(2) show ?thesis
  proof
    assume "\<not> db_open s \<and> (\<exists>e. s' = reject_with_error (ROpen req) e t s1)"
    with s1(1) show ?thesis by (auto simp: loop_answer_def same_database_def)
  next
    assume s': "s' = loop_open env t req s1 \<and> lo_initialized s1 \<and> lo_mismatch s1 = None"
    with loop_open_effect [of s1 env t req] s1(1) obtain r where "lo_replies s' = lo_replies s1 @ [(t, ReOpened r)]"
      "loop_sane s'" "case r of Ok _ \<Rightarrow> db_open s' | Err _ \<Rightarrow> db_open s' \<longleftrightarrow> db_open s1"
      by (auto simp: same_database_def)
    with s1(1) show ?thesis by (auto simp: loop_answer_def same_database_def split: result.splits)
  qed
qed

lemma close_step:
  assumes "loop_sane s" "lo_end s = Running" "s' = ida_loop_step env RClose t s"
  shows "loop_sane s' \<and> loop_answer s s' = Some ReUnit \<and> \<not> db_open s' \<and> lo_generation s' = None"
proof -
  obtain s1 where s1: "same_database s s1"
    "(\<not> db_open s \<and> s' = reply t ReUnit s1) \<or> s' = reply t ReUnit (loop_close env s1)"
    using loop_step_sane [OF assms(1,2), of env RClose t] unfolding assms(3) by auto
  have gen: "\<not> db_open s \<Longrightarrow> lo_generation s = None" using assms(1,2) by (simp add: loop_sane_def)
  from s1(2) show ?thesis
  proof
    assume "\<not> db_open s \<and> s' = reply t ReUnit s1"
    with s1(1) gen show ?thesis by (auto simp: loop_answer_def same_database_def)
  next
    assume "s' = reply t ReUnit (loop_close env s1)"
    with s1(1) show ?thesis by (simp add: loop_answer_def same_database_def loop_close_def loop_sane_def)
  qed
qed

lemma close_generation_step:
  assumes "loop_sane s" "lo_end s = Running" "s' = ida_loop_step env (RCloseIfGeneration g) t s"
  shows "loop_sane s' \<and> (\<exists>r. loop_answer s s' = Some (ReClosed r) \<and>
     (if r = Ok Closed then \<not> db_open s' \<and> lo_generation s' = None
      else lo_slot s' = lo_slot s \<and> lo_generation s' = lo_generation s))"
proof -
  obtain s1 where s1: "same_database s s1"
    "(\<exists>e. s' = reply t (ReClosed (Err e)) s1) \<or> s' = serve_request env (RCloseIfGeneration g) t s1"
    using loop_step_sane [OF assms(1,2), of env "RCloseIfGeneration g" t] unfolding assms(3) by auto
  have "s' = reply t (ReClosed (Ok Closed)) (loop_close env s1) \<or> (\<exists>r. r \<noteq> Ok Closed \<and> s' = reply t (ReClosed r) s1)"
    using s1(2) by (auto split: if_splits)
  then show ?thesis
  proof
    assume "s' = reply t (ReClosed (Ok Closed)) (loop_close env s1)"
    with s1(1) show ?thesis by (simp add: loop_answer_def same_database_def loop_close_def loop_sane_def)
  next
    assume "\<exists>r. r \<noteq> Ok Closed \<and> s' = reply t (ReClosed r) s1"
    then obtain r where "r \<noteq> Ok Closed" "s' = reply t (ReClosed r) s1" by blast
    with s1(1) show ?thesis by (simp add: loop_answer_def same_database_def)
  qed
qed

definition plain_request :: "ida_request \<Rightarrow> bool" where
  "plain_request req \<longleftrightarrow> (case req of ROpen _ \<Rightarrow> False | RClose \<Rightarrow> False | RCloseIfGeneration _ \<Rightarrow> False | _ \<Rightarrow> True)"

lemma plain_step:
  assumes "loop_sane s" "lo_end s = Running" "plain_request req" "s' = ida_loop_step env req t s"
  shows "loop_sane s' \<and> lo_generation s' = lo_generation s \<and> (lo_end s' = Running \<longrightarrow> (db_open s' \<longleftrightarrow> db_open s))"
proof -
  obtain s1 where s1: "same_database s s1"
    "(\<exists>e. s' = reject_with_error req e t s1) \<or> s' = serve_request env req t s1"
    using loop_step_sane [OF assms(1,2), of env req t] unfolding assms(4) by blast
  have handler: "loop_sane (run_handler env gd c t s1) \<and> lo_generation (run_handler env gd c t s1) = lo_generation s \<and>
      (db_open (run_handler env gd c t s1) \<longleftrightarrow> db_open s)" for gd c
  proof -
    have "lo_initialized (run_handler env gd c t s1) = lo_initialized s1" "lo_mismatch (run_handler env gd c t s1) = lo_mismatch s1"
      by (auto simp: run_handler_def Let_def split: handler_outcome.splits)
    with s1(1) show ?thesis by (auto simp: loop_sane_def same_database_def simp del: not_None_eq)
  qed
  have same: "loop_sane s1" "lo_generation s1 = lo_generation s" "db_open s1 \<longleftrightarrow> db_open s"
    using s1(1) by (auto simp: same_database_def)
  from s1(2) show ?thesis
  proof
    assume "\<exists>e. s' = reject_with_error req e t s1"
    with same assms(3) show ?thesis by (cases req) (auto simp: plain_request_def)
  next
    assume "s' = serve_request env req t s1"
    with same handler assms(3) show ?thesis
      by (cases req) (auto simp: plain_request_def bound_handler_def loop_sane_def split: result.splits)
  qed
qed

section \<open>The shared server\<close>

datatype 'idb server_op =
    SoOpen "'idb loop_env" "(unit, tool_error) result" nat string string open_request
  | SoClose "'idb loop_env" "(unit, tool_error) result" nat string "string option" "bool option"
  | SoCloseGeneration "'idb loop_env" "(unit, tool_error) result" nat u64
  | SoRequest "'idb loop_env" nat ida_request

fun server_step :: "'idb server_op \<Rightarrow> 'idb shared_server \<Rightarrow> 'idb shared_server" where
  "server_step (SoOpen env sent t fresh sid req) sv = snd (open_idb env sent t fresh sid req sv)"
| "server_step (SoClose env sent t sid token force) sv = snd (close_idb env sent t sid token force sv)"
| "server_step (SoCloseGeneration env sent t g) sv = snd (worker_close_if_generation env sent t g sv)"
| "server_step (SoRequest env t req) sv =
     (if plain_request req then sv\<lparr>sv_loop := ida_loop_step env req t (sv_loop sv)\<rparr> else sv)"

definition server_inv :: "'idb shared_server \<Rightarrow> bool" where
  "server_inv sv \<longleftrightarrow> sv_mode sv = Http \<and> sv_local sv \<and> loop_sane (sv_loop sv) \<and>
     (lo_end (sv_loop sv) = Running \<longrightarrow> (db_open (sv_loop sv) \<longleftrightarrow> sv_lease sv \<noteq> None))"

text \<open>How an operation changes loop and lease: nothing happens, a database is open and the lease issued,
  or it is closed and the lease cleared.\<close>

lemma dead_loop_step: "lo_end s \<noteq> Running \<Longrightarrow> ida_loop_step env req t s = s"
  by (simp add: ida_loop_step_def)

lemma open_idb_cases:
  assumes inv: "server_inv sv" and out: "open_idb env sent t fresh sid req sv = (r, sv')"
  shows "loop_sane (sv_loop sv') \<and> (sv_loop sv' = sv_loop sv \<or> sv_loop sv' = ida_loop_step env (ROpen req) t (sv_loop sv)) \<and>
    (case r of
       Ok (od, g) \<Rightarrow> lo_end (sv_loop sv) = Running \<and> sv_loop sv' = ida_loop_step env (ROpen req) t (sv_loop sv) \<and>
         loop_answer (sv_loop sv) (sv_loop sv') = Some (ReOpened (Ok od)) \<and> db_open (sv_loop sv') \<and>
         (\<exists>grant lease. issue_for_session fresh sid (sv_lease sv) = (grant, lease) \<and> g = Some grant \<and>
            sv' = sv\<lparr>sv_loop := sv_loop sv', sv_lease := lease\<rparr>)
     | Err _ \<Rightarrow> sv' = sv\<lparr>sv_loop := sv_loop sv'\<rparr> \<and> (db_open (sv_loop sv') \<longleftrightarrow> db_open (sv_loop sv)))"
proof -
  have sane: "loop_sane (sv_loop sv)" and mode: "sv_mode sv = Http" "sv_local sv" using inv by (auto simp: server_inv_def)
  define s' where "s' = ida_loop_step env (ROpen req) t (sv_loop sv)"
  show ?thesis
  proof (cases sent)
    case (Err e)
    with out sane show ?thesis by (auto simp: open_idb_whole worker_request_def)
  next
    case (Ok u)
    show ?thesis
    proof (cases "lo_end (sv_loop sv) = Running")
      case False
      with out Ok sane dead_loop_step [OF False, of env "ROpen req" t] show ?thesis
        by (auto simp: open_idb_whole worker_request_def Let_def loop_answer_def)
    next
      case True
      obtain a where a: "loop_sane s'" "loop_answer (sv_loop sv) s' = Some (ReOpened a)"
        "case a of Ok _ \<Rightarrow> db_open s' | Err _ \<Rightarrow> db_open s' \<longleftrightarrow> db_open (sv_loop sv)"
        using open_step [OF sane True s'_def] by blast
      obtain grant lease where issue: "issue_for_session fresh sid (sv_lease sv) = (grant, lease)" by fastforce
      show ?thesis
        using out Ok True a issue mode
        by (cases a) (auto simp: open_idb_whole worker_request_def http_close_grant_def uses_close_tokens_def
            s'_def [symmetric] Let_def)
    qed
  qed
qed

lemma close_idb_cases:
  assumes inv: "server_inv sv" and out: "close_idb env sent t sid token force sv = (r, sv')"
  shows "(sv' = sv \<and> r \<noteq> DatabaseClosed) \<or>
    (lo_end (sv_loop sv) = Running \<and> r = DatabaseClosed \<and> sv' = sv\<lparr>sv_loop := sv_loop sv', sv_lease := None\<rparr> \<and>
     sv_loop sv' = ida_loop_step env RClose t (sv_loop sv) \<and> sent = Ok () \<and>
     loop_sane (sv_loop sv') \<and> \<not> db_open (sv_loop sv') \<and> lo_generation (sv_loop sv') = None)"
proof -
  have sane: "loop_sane (sv_loop sv)" and mode: "sv_mode sv = Http" "sv_local sv" using inv by (auto simp: server_inv_def)
  define s' where "s' = ida_loop_step env RClose t (sv_loop sv)"
  show ?thesis
  proof (cases "lo_end (sv_loop sv) = Running")
    case False
    with out mode dead_loop_step [OF False, of env RClose t] show ?thesis
      by (auto simp: close_idb_whole worker_request_def Let_def loop_answer_def uses_close_tokens_def
          split: close_authorization.splits result.splits)
  next
    case True
    have a: "loop_sane s'" "loop_answer (sv_loop sv) s' = Some ReUnit" "\<not> db_open s'" "lo_generation s' = None"
      using close_step [OF sane True s'_def] by blast+
    show ?thesis
      using out True a mode
      by (auto simp: close_idb_whole worker_request_def clear_close_token_def uses_close_tokens_def s'_def [symmetric] Let_def
          split: close_authorization.splits result.splits)
  qed
qed

lemma close_generation_cases:
  assumes inv: "server_inv sv" and out: "worker_close_if_generation env sent t g sv = (r, sv')"
  shows "(sv' = sv\<lparr>sv_loop := sv_loop sv'\<rparr> \<and> loop_sane (sv_loop sv') \<and> (db_open (sv_loop sv') \<longleftrightarrow> db_open (sv_loop sv)) \<and>
      lo_generation (sv_loop sv') = lo_generation (sv_loop sv) \<and> (lo_end (sv_loop sv) \<noteq> Running \<longrightarrow> sv' = sv)) \<or>
    (lo_end (sv_loop sv) = Running \<and> sv' = sv\<lparr>sv_loop := sv_loop sv', sv_lease := None\<rparr> \<and>
     loop_sane (sv_loop sv') \<and> \<not> db_open (sv_loop sv') \<and> lo_generation (sv_loop sv') = None)"
proof -
  have sane: "loop_sane (sv_loop sv)" using inv by (auto simp: server_inv_def)
  define s' where "s' = ida_loop_step env (RCloseIfGeneration g) t (sv_loop sv)"
  show ?thesis
  proof (cases sent)
    case (Err e)
    with out sane show ?thesis by (auto simp: worker_close_if_generation_def worker_request_def)
  next
    case (Ok u)
    show ?thesis
    proof (cases "lo_end (sv_loop sv) = Running")
      case False
      with out Ok sane dead_loop_step [OF False, of env "RCloseIfGeneration g" t] show ?thesis
        by (auto simp: worker_close_if_generation_def worker_request_def Let_def loop_answer_def)
    next
      case True
      obtain a where a: "loop_sane s'" "loop_answer (sv_loop sv) s' = Some (ReClosed a)"
        "if a = Ok Closed then \<not> db_open s' \<and> lo_generation s' = None
         else lo_slot s' = lo_slot (sv_loop sv) \<and> lo_generation s' = lo_generation (sv_loop sv)"
        using close_generation_step [OF sane True s'_def] by blast
      have "sv' = sv\<lparr>sv_loop := s', sv_lease := (if a = Ok Closed then None else sv_lease sv)\<rparr>"
        using out Ok a(2)
        by (cases a; cases "a = Ok Closed")
          (auto simp: worker_close_if_generation_def worker_request_def clear_close_token_def s'_def [symmetric] Let_def
            split: conditional_close.splits)
      with a True show ?thesis by (auto split: if_splits)
    qed
  qed
qed

lemma issue_leases: "issue_for_session fresh sid st = (grant, lease) \<Longrightarrow> lease \<noteq> None"
  by (auto simp: issue_for_session_def split: option.splits)

lemma server_step_inv:
  assumes inv: "server_inv sv"
  shows "server_inv (server_step op sv)"
proof (cases op)
  case (SoOpen env sent t fresh sid req)
  obtain r sv' where out: "open_idb env sent t fresh sid req sv = (r, sv')" by fastforce
  have alive: "lo_end (sv_loop sv) = Running" if "lo_end (sv_loop sv') = Running"
    using open_idb_cases [OF inv out] that dead_loop_step [of "sv_loop sv" env "ROpen req" t] by fastforce
  show ?thesis
  proof (cases r)
    case (Ok x)
    obtain od g where x: "x = (od, g)" by fastforce
    with open_idb_cases [OF inv out] Ok obtain grant lease where
      sv': "loop_sane (sv_loop sv')" "db_open (sv_loop sv')" "issue_for_session fresh sid (sv_lease sv) = (grant, lease)"
        "sv' = sv\<lparr>sv_loop := sv_loop sv', sv_lease := lease\<rparr>" by auto
    have "sv_mode sv' = Http" "sv_local sv'" "sv_lease sv' = lease" using inv by (subst sv'(4), simp add: server_inv_def)+
    with sv' issue_leases [OF sv'(3)] SoOpen out show ?thesis by (simp add: server_inv_def)
  next
    case (Err e)
    with open_idb_cases [OF inv out] have sv': "loop_sane (sv_loop sv')" "sv' = sv\<lparr>sv_loop := sv_loop sv'\<rparr>"
      "db_open (sv_loop sv') \<longleftrightarrow> db_open (sv_loop sv)" by auto
    have "sv_mode sv' = Http" "sv_local sv'" "sv_lease sv' = sv_lease sv" using inv by (subst sv'(2), simp add: server_inv_def)+
    with sv' inv alive SoOpen out show ?thesis by (simp add: server_inv_def)
  qed
next
  case (SoClose env sent t sid token force)
  obtain r sv' where out: "close_idb env sent t sid token force sv = (r, sv')" by fastforce
  from close_idb_cases [OF inv out] show ?thesis
  proof (elim disjE conjE)
    assume sv': "sv' = sv\<lparr>sv_loop := sv_loop sv', sv_lease := None\<rparr>" "loop_sane (sv_loop sv')" "\<not> db_open (sv_loop sv')"
    have "sv_mode sv' = Http" "sv_local sv'" "sv_lease sv' = None" using inv by (subst sv'(1), simp add: server_inv_def)+
    with sv' SoClose out show ?thesis by (simp add: server_inv_def)
  qed (use SoClose out inv in simp)
next
  case (SoCloseGeneration env sent t g)
  obtain r sv' where out: "worker_close_if_generation env sent t g sv = (r, sv')" by fastforce
  from close_generation_cases [OF inv out] show ?thesis
  proof (elim disjE conjE)
    assume sv': "sv' = sv\<lparr>sv_loop := sv_loop sv'\<rparr>" "loop_sane (sv_loop sv')"
      "db_open (sv_loop sv') \<longleftrightarrow> db_open (sv_loop sv)" "lo_end (sv_loop sv) \<noteq> Running \<longrightarrow> sv' = sv"
    have "sv_mode sv' = Http" "sv_local sv'" "sv_lease sv' = sv_lease sv" using inv by (subst sv'(1), simp add: server_inv_def)+
    with sv'(2-4) inv SoCloseGeneration out show ?thesis
      by (cases "lo_end (sv_loop sv) = Running") (simp_all add: server_inv_def)
  next
    assume sv': "sv' = sv\<lparr>sv_loop := sv_loop sv', sv_lease := None\<rparr>" "loop_sane (sv_loop sv')" "\<not> db_open (sv_loop sv')"
    have "sv_mode sv' = Http" "sv_local sv'" "sv_lease sv' = None" using inv by (subst sv'(1), simp add: server_inv_def)+
    with sv' SoCloseGeneration out show ?thesis by (simp add: server_inv_def)
  qed
next
  case (SoRequest env t req)
  show ?thesis
  proof (cases "plain_request req \<and> lo_end (sv_loop sv) = Running")
    case True
    with plain_step [OF _ _ _ refl, of "sv_loop sv" req env t] inv SoRequest show ?thesis
      by (auto simp: server_inv_def)
  next
    case False
    with dead_loop_step [of "sv_loop sv" env req t] inv SoRequest show ?thesis by auto
  qed
qed

interpretation shared: lifecycle server_step server_inv
  by unfold_locales (rule server_step_inv)

text \<open>The lease of the database with generation \<open>g\<close>, as long as that database is the current one.\<close>

definition leased :: "u64 \<Rightarrow> close_token_lease \<Rightarrow> 'idb shared_server \<Rightarrow> bool" where
  "leased g L sv \<longleftrightarrow> g \<le> lo_next_generation (sv_loop sv) \<and>
     (lo_generation (sv_loop sv) = Some g \<longrightarrow> sv_lease sv = Some L)"

lemma next_generation_mono: "lo_next_generation s \<le> lo_next_generation (ida_loop_step env req t s)"
proof (cases "lo_end s = Running")
  case True
  then obtain s1 where "lo_next_generation s1 = lo_next_generation s"
    "(\<exists>e. ida_loop_step env req t s = reject_with_error req e t s1) \<or> ida_loop_step env req t s = serve_request env req t s1"
    using loop_step_cases [OF True, of env req t] by metis
  with serve_generation(1) [of s1 env req t] show ?thesis by auto
qed (simp add: dead_loop_step)

text \<open>An operation steps the loop or leaves it alone.\<close>

lemma worker_request_loop:
  "worker_request env sent t req sv = (a, sv1) \<Longrightarrow>
     sv_loop sv1 = sv_loop sv \<or> sv_loop sv1 = ida_loop_step env req t (sv_loop sv)"
  by (auto simp: worker_request_def Let_def split: result.splits)

lemma server_step_loop:
  "sv_loop (server_step op sv) = sv_loop sv \<or> (\<exists>env req t. sv_loop (server_step op sv) = ida_loop_step env req t (sv_loop sv))"
proof (cases op)
  case (SoOpen env sent t fresh sid req)
  obtain a sv1 where w: "worker_request env sent t (ROpen req) sv = (a, sv1)" by fastforce
  have "sv_loop (server_step op sv) = sv_loop sv1"
    by (auto simp: SoOpen open_idb_whole w http_close_grant_def split: result.splits prod.splits ida_reply.splits)
  with worker_request_loop [OF w] show ?thesis by metis
next
  case (SoClose env sent t sid token force)
  obtain a sv1 where w: "worker_request env sent t RClose sv = (a, sv1)" by fastforce
  have "sv_loop (server_step op sv) = sv_loop sv1 \<or> sv_loop (server_step op sv) = sv_loop sv"
    by (auto simp: SoClose close_idb_whole w Let_def split: result.splits ida_reply.splits close_authorization.splits)
  with worker_request_loop [OF w] show ?thesis by metis
next
  case (SoCloseGeneration env sent t g)
  obtain a sv1 where w: "worker_request env sent t (RCloseIfGeneration g) sv = (a, sv1)" by fastforce
  have "sv_loop (server_step op sv) = sv_loop sv1"
    by (auto simp: SoCloseGeneration worker_close_if_generation_def w
        split: result.splits ida_reply.splits conditional_close.splits)
  with worker_request_loop [OF w] show ?thesis by metis
qed auto

lemma lease_kept:
  assumes inv: "server_inv sv" and "sv_lease sv = Some L" "lo_generation (sv_loop sv) = Some g"
    "lo_generation (sv_loop (server_step op sv)) = Some g"
  shows "sv_lease (server_step op sv) = Some L"
proof (cases op)
  case (SoOpen env sent t fresh sid req)
  obtain r sv' where out: "open_idb env sent t fresh sid req sv = (r, sv')" by fastforce
  have keep: "issue_for_session fresh sid (Some L) = (grant, lease) \<Longrightarrow> lease = Some L" for grant lease
    by (auto simp: issue_for_session_def)
  have "sv_lease sv' = Some L"
  proof (cases r)
    case (Ok x)
    with open_idb_cases [OF inv out] obtain grant lease where l: "issue_for_session fresh sid (sv_lease sv) = (grant, lease)"
      "sv' = sv\<lparr>sv_loop := sv_loop sv', sv_lease := lease\<rparr>" by (cases x) auto
    have "sv_lease sv' = lease" by (subst l(2)) simp
    with l(1) keep assms(2) show ?thesis by simp
  next
    case (Err e)
    with open_idb_cases [OF inv out] have "sv' = sv\<lparr>sv_loop := sv_loop sv'\<rparr>" by auto
    then have "sv_lease sv' = sv_lease sv" by (metis shared_server.select_convs(4) shared_server.surjective shared_server.update_convs(3))
    with assms(2) show ?thesis by simp
  qed
  with SoOpen out show ?thesis by simp
next
  case (SoClose env sent t sid token force)
  obtain r sv' where out: "close_idb env sent t sid token force sv = (r, sv')" by fastforce
  with close_idb_cases [OF inv out] SoClose assms(4) have "sv' = sv" by auto
  with SoClose out assms(2) show ?thesis by simp
next
  case (SoCloseGeneration env sent t g')
  obtain r sv' where out: "worker_close_if_generation env sent t g' sv = (r, sv')" by fastforce
  with close_generation_cases [OF inv out] SoCloseGeneration assms(4) have "sv' = sv\<lparr>sv_loop := sv_loop sv'\<rparr>" by auto
  then have "sv_lease sv' = sv_lease sv" by (metis shared_server.select_convs(4) shared_server.surjective shared_server.update_convs(3))
  with SoCloseGeneration out assms(2) show ?thesis by simp
qed (use assms in auto)

lemma leased_step:
  assumes "server_inv sv" "leased g L sv"
  shows "leased g L (server_step op sv)"
proof -
  have "g \<le> lo_next_generation (sv_loop (server_step op sv))"
    using server_step_loop [of op sv] assms(2) next_generation_mono order_trans unfolding leased_def by metis
  moreover have "lo_generation (sv_loop (server_step op sv)) \<noteq> Some g" if "lo_generation (sv_loop sv) \<noteq> Some g"
    using server_step_loop [of op sv] generation_not_reused(1) [OF that] assms(2) that unfolding leased_def by metis
  ultimately show ?thesis
    using lease_kept [OF assms(1), of L g op] assms(2) unfolding leased_def by blast
qed

lemma leased_run: "server_inv sv \<Longrightarrow> leased g L sv \<Longrightarrow> leased g L (fold server_step ops sv)"
  by (induction ops arbitrary: sv) (simp_all add: leased_step server_step_inv)

lemma loop_open_generation:
  assumes "\<not> db_open s" "lo_replies (loop_open env t req s) = lo_replies s @ [(t, ReOpened (Ok od))]"
  shows "lo_generation (loop_open env t req s) = Some (od_generation od) \<and>
    od_generation od \<le> lo_next_generation (loop_open env t req s)"
proof (cases "or_cancel req 1")
  case False
  obtain r slot w where "handle_open (le_fs env) (le_lib env) (le_me env) (le_info env) req (lo_slot s) (lo_world s) = (r, slot, w)"
    by (metis prod_cases3)
  with False assms show ?thesis by (cases r) (auto simp: loop_open_def Let_def split: if_splits)
qed (use assms in \<open>simp add: loop_open_def\<close>)

lemma open_generation:
  assumes run: "lo_end s = Running" and "\<not> db_open s" "s' = ida_loop_step env (ROpen req) t s"
    "loop_answer s s' = Some (ReOpened (Ok od))"
  shows "lo_generation s' = Some (od_generation od) \<and> od_generation od \<le> lo_next_generation s'"
proof -
  obtain s1 where s1: "lo_replies s1 = lo_replies s" "lo_slot s1 = lo_slot s"
    "(\<exists>e. s' = reject_with_error (ROpen req) e t s1) \<or> s' = loop_open env t req s1"
    using loop_step_cases [OF run, of env "ROpen req" t] unfolding assms(3) serve_request.simps by metis
  obtain r where s': "lo_replies s' = lo_replies s @ [(t, r)]"
    using s1 serve_replies [of "ROpen req" env t s1] by auto
  then have "r = ReOpened (Ok od)" using assms(4) by (simp add: loop_answer_def)
  with s' s1 have "s' = loop_open env t req s1" "lo_replies (loop_open env t req s1) = lo_replies s1 @ [(t, ReOpened (Ok od))]"
    by auto
  with loop_open_generation [of s1 env t req od] assms(2) s1(2) show ?thesis by simp
qed

definition server_start :: "bool \<Rightarrow> string option \<Rightarrow> lock_world \<Rightarrow> 'idb shared_server" where
  "server_start i m w = \<lparr>sv_mode = Http, sv_local = True, sv_loop = loop_start i m w, sv_lease = None\<rparr>"

lemma server_start_inv: "server_inv (server_start i m w)"
  by (simp add: server_inv_def server_start_def loop_sane_def loop_start_def)

text \<open>The example database, opened in any world without its lock file.\<close>

lemma handle_open_fresh:
  assumes "lw_dir w ''a.imcp'' = None"
  shows "\<exists>w' info. lw_dir w' = (lw_dir w)(''a.imcp'' \<mapsto> lw_fresh w) \<and>
    handle_open env0 open_lib 3 info_none open_a no_database w =
      (Ok info, \<lparr>sl_idb = Some (), sl_lock_file = Some (lw_fresh w), sl_lock_path = Some ''a.imcp''\<rparr>, w')"
proof -
  have expand: "expand_path env0 ''a.i64'' = ''a.i64''" by (simp add: expand_path_def strip_prefix_str_def)
  obtain w1 where acq: "acquire_mcp_lock 3 info_none ''a.i64'' w = (Ok \<lparr>ml_file = lw_fresh w, ml_path = ''a.imcp''\<rparr>, w1)"
    "lw_dir w1 = (lw_dir w)(''a.imcp'' \<mapsto> lw_fresh w)"
    using acquire_free [of w "''a.i64''" info_none 3] assms by (simp add: path_a info_none_def)
  have "clean_stale_locks 3 (plan_open env0 open_a ''a.i64'') w = w"
    using assms by (simp add: clean_stale_locks_def lock_target_path_def plan_a clean_stale_mcp_lock_def path_a)
  then have "handle_open env0 open_lib 3 info_none open_a no_database w =
      (case acquire_mcp_lock 3 info_none ''a.i64'' w of
         (Err e, w) \<Rightarrow> (Err e, no_database, w)
       | (Ok l, w) \<Rightarrow> open_locked env0 open_lib 3 open_a (plan_open env0 open_a ''a.i64'') l no_database w)"
    using expand by (simp add: handle_open_def open_a_fields Let_def) (simp add: plan_a lock_target_path_def)
  with acq show ?thesis
    by (simp add: open_locked_def plan_a Let_def open_existing_a after_open_def ensure_not_cancelled_def open_a_fields
        open_a_no_debug)
qed

lemma loop_open_fresh:
  assumes "lo_slot s = no_database" "lw_dir (lo_world s) ''a.imcp'' = None" "lo_end s = Running" "lo_initialized s"
    "lo_mismatch s = None" "lo_next_generation s \<noteq> - 1"
  obtains od s' where "ida_loop_step loop_env1 (ROpen open_a) t s = s'" "loop_answer s s' = Some (ReOpened (Ok od))"
    "lo_end s' = Running" "lo_generation s' = Some (od_generation od)" "lo_initialized s'" "lo_mismatch s' = None"
    "lo_slot s' = \<lparr>sl_idb = Some (), sl_lock_file = Some (lw_fresh (lo_world s)), sl_lock_path = Some ''a.imcp''\<rparr>"
    "lo_next_generation s' = lo_next_generation s + 1"
proof -
  obtain w' info where "handle_open env0 open_lib 3 info_none open_a (lo_slot s) (lo_world s) =
      (Ok info, \<lparr>sl_idb = Some (), sl_lock_file = Some (lw_fresh (lo_world s)), sl_lock_path = Some ''a.imcp''\<rparr>, w')"
    using handle_open_fresh [OF assms(2)] assms(1) by auto
  moreover have "\<not> or_cancel open_a 1" by (simp add: open_a_def)
  ultimately show ?thesis
    using assms
    by (intro that [OF refl, of "\<lparr>od_info = info, od_generation = lo_next_generation s + 1\<rparr>"])
      (auto simp: loop_env1_def ida_loop_step_def ensure_initialized_def loop_open_def no_database_def loop_answer_def Let_def)
qed

text \<open>C31: the shared database belongs to the session that opened it, as long as it is the current
  one, whatever tools any sessions call, one after the other: the open hands out the token; a session
  that neither opened the database nor presents the token nor forces the matter cannot close it, and
  is told the owner; the owner, a holder of the token and a forced call can.\<close>

theorem database_belongs_to_its_opener:
  assumes "sv0 = fold server_step before (server_start i m w)" "\<not> db_open (sv_loop sv0)"
    "open_idb env sent t fresh a req sv0 = (Ok (opened, grant), sv1)"
    "sv = fold server_step after sv1" "lo_generation (sv_loop sv) = Some (od_generation opened)" "lo_end (sv_loop sv) = Running"
  shows "grant = Some (Ok \<lparr>cg_token = fresh, cg_reused = False, cg_owner_session_id = a\<rparr>) \<and>
    (if b = a \<or> token = Some fresh \<or> force = Some True
     then fst (close_idb env' (Ok ()) t' b token force sv) = DatabaseClosed \<and>
       \<not> db_open (sv_loop (snd (close_idb env' (Ok ()) t' b token force sv)))
     else close_idb env' sent' t' b token force sv = (CloseIgnored (owner_token_required a), sv))"
proof -
  let ?L = "\<lparr>cl_token = fresh, cl_owner_session_id = a\<rparr>"
  have inv0: "server_inv sv0" unfolding assms(1) by (rule shared.run_inv [OF server_start_inv])
  have opened: "lo_end (sv_loop sv0) = Running" "sv_loop sv1 = ida_loop_step env (ROpen req) t (sv_loop sv0)"
    "loop_answer (sv_loop sv0) (sv_loop sv1) = Some (ReOpened (Ok opened))"
    using open_idb_cases [OF inv0 assms(3)] unfolding result.case prod.case by blast+
  have "sv_lease sv0 = None" using inv0 assms(2) opened(1) by (simp add: server_inv_def)
  then have issue: "issue_for_session fresh a (sv_lease sv0) =
      (Ok \<lparr>cg_token = fresh, cg_reused = False, cg_owner_session_id = a\<rparr>, Some ?L)" by (simp add: issue_for_session_def)
  with open_idb_cases [OF inv0 assms(3)] have sv1: "sv1 = sv0\<lparr>sv_loop := sv_loop sv1, sv_lease := Some ?L\<rparr>"
    and grant: "grant = Some (Ok \<lparr>cg_token = fresh, cg_reused = False, cg_owner_session_id = a\<rparr>)" by auto
  have "sv_lease sv1 = Some ?L" by (subst sv1) simp
  with open_generation [OF opened(1) assms(2) opened(2,3)] have "leased (od_generation opened) ?L sv1" by (simp add: leased_def)
  moreover have inv1: "server_inv sv1"
    using server_step_inv [OF inv0, of "SoOpen env sent t fresh a req"] assms(3) by simp
  ultimately have lease: "sv_lease sv = Some ?L"
    using leased_run [of sv1 "od_generation opened" ?L after] assms(4,5) by (simp add: leased_def)
  have inv: "server_inv sv" unfolding assms(4) by (rule shared.run_inv [OF inv1])
  note close = close_step [OF _ assms(6) refl, of env' t']
  show ?thesis
  proof (cases "b = a \<or> token = Some fresh \<or> force = Some True")
    case True
    with lease inv close have "close_idb env' (Ok ()) t' b token force sv =
        (DatabaseClosed, sv\<lparr>sv_loop := ida_loop_step env' RClose t' (sv_loop sv), sv_lease := None\<rparr>)"
      by (auto simp: close_idb_whole authorize_close_def worker_request_def uses_close_tokens_def server_inv_def
          clear_close_token_def Let_def)
    with True grant close inv show ?thesis by (simp add: server_inv_def)
  next
    case False
    with lease inv grant show ?thesis
      by (auto simp: close_idb_whole authorize_close_def uses_close_tokens_def server_inv_def Let_def)
  qed
qed

text \<open>C37: an open and a close are several steps with an await between them, and the lease is touched in
  the last one. When the owner's close has closed the database but not yet cleared the token, and another
  session's open runs in between, that session is refused the token because the first still has the
  lease; then the lease is cleared, and any third session may close the second session's database. The
  owner's close is the same steps as \<open>close_idb\<close>, and the second session's the same as \<open>open_idb\<close>.\<close>

theorem reopened_database_can_lose_its_owner:
  assumes "sv_mode sv = Http" "sv_local sv" "sv_lease sv = Some lease"
    and "lo_end (sv_loop sv) = Running" "loop_sane (sv_loop sv)" "b \<noteq> cl_owner_session_id lease"
    and "close_worker env (Ok ()) t1 sv = (closed, sv1)" "lo_end (sv_loop sv1) = Running"
    and "open_worker env' (Ok ()) t2 req sv1 = (Ok opened, sv2)" "lo_end (sv_loop sv2) = Running"
    and "open_answer fresh b (Ok opened) sv2 = (granted, sv3)" "close_answer closed sv3 = (outcome, sv4)"
  shows "close_idb env (Ok ()) t1 (cl_owner_session_id lease) None None sv = close_answer closed sv1
    \<and> open_idb env' (Ok ()) t2 fresh b req sv1 = (granted, sv3)
    \<and> granted = Ok (opened, Some (Err (cl_owner_session_id lease))) \<and> outcome = DatabaseClosed
    \<and> db_open (sv_loop sv4)
    \<and> fst (close_idb env'' (Ok ()) t3 c None None sv4) = DatabaseClosed
    \<and> \<not> db_open (sv_loop (snd (close_idb env'' (Ok ()) t3 c None None sv4)))"
proof -
  define s1 where "s1 = ida_loop_step env RClose t1 (sv_loop sv)"
  note s1 = close_step [OF assms(5,4) s1_def]
  have sv1: "closed = Ok ()" "sv1 = sv\<lparr>sv_loop := s1\<rparr>"
    using assms(7) s1 by (auto simp: close_worker_def worker_request_def s1_def [symmetric] Let_def)
  define s2 where "s2 = ida_loop_step env' (ROpen req) t2 s1"
  have sv2: "sv2 = sv1\<lparr>sv_loop := s2\<rparr>" "loop_answer s1 s2 = Some (ReOpened (Ok opened))"
    using assms(9) sv1 by (auto simp: open_worker_def worker_request_def s2_def [symmetric] Let_def
        split: result.splits ida_reply.splits option.splits)
  have s2: "loop_sane s2" "db_open s2"
    using open_step [OF _ _ s2_def] s1 assms(8) sv1 sv2(2) by auto
  have sv3: "granted = Ok (opened, Some (Err (cl_owner_session_id lease)))" "sv3 = sv2"
    using assms(1,2,3,6,11) sv1 sv2
    by (auto simp: open_answer_def http_close_grant_def uses_close_tokens_def issue_for_session_def)
  have sv4: "outcome = DatabaseClosed" "sv4 = sv\<lparr>sv_loop := s2, sv_lease := None\<rparr>"
    using assms(2,12) sv1 sv2 sv3 by (simp_all add: close_answer_def clear_close_token_def)
  have "close_idb env (Ok ()) t1 (cl_owner_session_id lease) None None sv = close_answer closed sv1"
    using assms(3,7) by (simp add: close_idb_def close_admission_def authorize_close_def)
  moreover have "open_idb env' (Ok ()) t2 fresh b req sv1 = (granted, sv3)"
    using assms(9,11) by (simp add: open_idb_def)
  moreover have "close_idb env'' (Ok ()) t3 c None None sv4 =
      (DatabaseClosed, sv4\<lparr>sv_loop := ida_loop_step env'' RClose t3 s2\<rparr>)"
    using close_step [OF s2(1) _ refl, of env'' t3] assms(2,10) sv2 sv4
    by (simp add: close_idb_def close_admission_def authorize_close_def close_worker_def worker_request_def
        close_answer_def clear_close_token_def Let_def)
  moreover have "\<not> db_open (ida_loop_step env'' RClose t3 s2)"
    using close_step [OF s2(1) _ refl, of env'' t3] assms(10) sv2 by auto
  ultimately show ?thesis using sv3 sv4 s2 by simp
qed

text \<open>The example: a session opens the database in a fresh world.\<close>

abbreviation start0 :: "unit shared_server" where
  "start0 \<equiv> server_start True None (ls_world two_processes)"

lemma loop_start_fields:
  "lo_slot (sv_loop start0) = no_database" "lw_dir (lo_world (sv_loop start0)) ''a.imcp'' = None"
  "lo_end (sv_loop start0) = Running" "lo_initialized (sv_loop start0)" "lo_mismatch (sv_loop start0) = None"
  "lo_next_generation (sv_loop start0) \<noteq> - 1"
  by (simp_all add: server_start_def loop_start_def two_processes)

lemma open_idb_example:
  obtains od sv1 where "open_idb loop_env1 (Ok ()) 1 ''k'' ''a'' open_a start0 =
      (Ok (od, Some (Ok \<lparr>cg_token = ''k'', cg_reused = False, cg_owner_session_id = ''a''\<rparr>)), sv1)"
    "lo_generation (sv_loop sv1) = Some (od_generation od)" "lo_end (sv_loop sv1) = Running" "db_open (sv_loop sv1)"
proof -
  obtain od s' where s': "ida_loop_step loop_env1 (ROpen open_a) 1 (sv_loop start0) = s'"
    "loop_answer (sv_loop start0) s' = Some (ReOpened (Ok od))" "lo_end s' = Running"
    "lo_generation s' = Some (od_generation od)" "db_open s'"
    using loop_open_fresh [OF loop_start_fields, of 1] by (metis open_slot.select_convs(1) option.distinct(1))
  have "open_idb loop_env1 (Ok ()) 1 ''k'' ''a'' open_a start0 =
      (Ok (od, Some (Ok \<lparr>cg_token = ''k'', cg_reused = False, cg_owner_session_id = ''a''\<rparr>)),
       start0\<lparr>sv_loop := s', sv_lease := Some \<lparr>cl_token = ''k'', cl_owner_session_id = ''a''\<rparr>\<rparr>)"
    using s'(1,2)
    by (simp add: open_idb_whole worker_request_def http_close_grant_def issue_for_session_def uses_close_tokens_def
        server_start_def Let_def)
  then show ?thesis by (rule that) (use s' in simp_all)
qed

lemma database_belongs_to_its_opener_witness:
  "\<exists>od grant sv1. open_idb loop_env1 (Ok ()) 1 ''k'' ''a'' open_a start0 = (Ok (od, grant), sv1) \<and>
     close_idb loop_env1 (Ok ()) 2 ''b'' None None sv1 = (CloseIgnored (owner_token_required ''a''), sv1) \<and>
     fst (close_idb loop_env1 (Ok ()) 2 ''b'' (Some ''k'') None sv1) = DatabaseClosed"
proof -
  obtain od sv1 where ex: "open_idb loop_env1 (Ok ()) 1 ''k'' ''a'' open_a start0 =
      (Ok (od, Some (Ok \<lparr>cg_token = ''k'', cg_reused = False, cg_owner_session_id = ''a''\<rparr>)), sv1)"
    "lo_generation (sv_loop sv1) = Some (od_generation od)" "lo_end (sv_loop sv1) = Running" "db_open (sv_loop sv1)"
    by (rule open_idb_example)
  have closed: "\<not> db_open (sv_loop start0)" using loop_start_fields(1) by simp
  note own = database_belongs_to_its_opener [of start0 "[]" True None "ls_world two_processes" loop_env1 "Ok ()" 1 "''k''" "''a''"
      open_a od _ sv1 sv1 "[]" "''b''" _ None loop_env1 2 "Ok ()", OF _ closed ex(1) _ ex(2,3)]
  show ?thesis using ex(1) own [of None] own [of "Some ''k''"] by simp
qed

lemma reopened_database_can_lose_its_owner_witness:
  "\<exists>sv1 sv2 opened sv. close_worker loop_env1 (Ok ()) 2 sv = (Ok (), sv1) \<and>
     open_worker loop_env1 (Ok ()) 3 open_a sv1 = (Ok opened, sv2) \<and>
     fst (open_answer ''j'' ''b'' (Ok opened) sv2) = Ok (opened, Some (Err ''a'')) \<and>
     db_open (sv_loop (sv2 :: unit shared_server))"
proof -
  obtain od s where s: "ida_loop_step loop_env1 (ROpen open_a) 1 (sv_loop start0) = s"
    "loop_answer (sv_loop start0) s = Some (ReOpened (Ok od))" "lo_end s = Running"
    "lo_generation s = Some (od_generation od)" "lo_initialized s" "lo_mismatch s = None"
    "lo_slot s = \<lparr>sl_idb = Some (), sl_lock_file = Some (lw_fresh (lo_world (sv_loop start0))), sl_lock_path = Some ''a.imcp''\<rparr>"
    "lo_next_generation s = lo_next_generation (sv_loop start0) + 1"
    by (rule loop_open_fresh [OF loop_start_fields, of 1])
  have sane: "loop_sane s" using s(3-7) by (simp add: loop_sane_def)
  define lease where "lease = \<lparr>cl_token = ''k'', cl_owner_session_id = ''a''\<rparr>"
  define sv :: "unit shared_server" where "sv = start0\<lparr>sv_loop := s, sv_lease := Some lease\<rparr>"
  have sv: "sv_mode sv = Http" "sv_local sv" "sv_lease sv = Some lease" "lo_end (sv_loop sv) = Running" "loop_sane (sv_loop sv)"
    using s(3) sane by (simp_all add: sv_def server_start_def)
  define s1 where "s1 = ida_loop_step loop_env1 RClose 2 s"
  have s1: "lo_slot s1 = no_database" "lw_dir (lo_world s1) ''a.imcp'' = None" "lo_end s1 = Running" "lo_initialized s1"
    "lo_mismatch s1 = None" "lo_next_generation s1 \<noteq> - 1"
    using s(3,5-8) unfolding s1_def
    by (simp_all add: ida_loop_step_def ensure_initialized_def loop_close_def release_slot_def reply_def release_mcp_lock_def
        sys_unlink_def sys_close_def server_start_def loop_start_def Let_def)
  obtain od2 s2 where s2: "ida_loop_step loop_env1 (ROpen open_a) 3 s1 = s2" "loop_answer s1 s2 = Some (ReOpened (Ok od2))"
    "lo_end s2 = Running"
    using loop_open_fresh [OF s1, of 3] by metis
  have close: "close_worker loop_env1 (Ok ()) 2 sv = (Ok (), sv\<lparr>sv_loop := s1\<rparr>)"
    using close_step [OF sane s(3) s1_def] by (simp add: close_worker_def worker_request_def sv_def s1_def [symmetric] Let_def)
  have opened: "open_worker loop_env1 (Ok ()) 3 open_a (sv\<lparr>sv_loop := s1\<rparr>) = (Ok od2, sv\<lparr>sv_loop := s2\<rparr>)"
    using s2 by (simp add: open_worker_def worker_request_def Let_def)
  obtain granted sv3 outcome sv4 where rest: "open_answer ''j'' ''b'' (Ok od2) (sv\<lparr>sv_loop := s2\<rparr>) = (granted, sv3)"
    "close_answer (Ok ()) sv3 = (outcome, sv4)" by fastforce
  have b: "''b'' \<noteq> cl_owner_session_id lease" by (simp add: lease_def)
  have "granted = Ok (od2, Some (Err ''a''))" "db_open (sv_loop sv4)"
    using reopened_database_can_lose_its_owner [OF sv b close _ opened _ rest, of loop_env1 4 "''c''"] s1(3) s2(3)
    by (simp_all add: lease_def)
  moreover have "sv_loop sv4 = s2" using rest
    by (auto simp: open_answer_def close_answer_def http_close_grant_def split: if_splits prod.splits)
  ultimately show ?thesis using close opened rest(1)
    by (intro exI [of _ "sv\<lparr>sv_loop := s1\<rparr>"] exI [of _ "sv\<lparr>sv_loop := s2\<rparr>"] exI [of _ od2] exI [of _ sv]) simp
qed

end
