(* ===== verification/Ida_Calls.thy ===== *)
theory Ida_Calls
  imports Close_Token
begin

text \<open>
  The requests that run a handler on the database (\<open>src/src/ida/request.rs\<close>), the arms of the loop
  that serve them (\<open>src/src/ida/loop_impl.rs\<close>) and the methods of the worker that send them and wait
  for the answer (\<open>src/src/ida/worker.rs\<close>).
\<close>

section \<open>Requests\<close>

text \<open>Debug information and the state of the analysis.\<close>

datatype database_call =
    QLoadDebugInfo "string option" bool
  | QAnalysisStatus "u64 option"

text \<open>Functions, disassembly, segments and strings.\<close>

datatype function_call =
    QListFunctions usize usize "string option"
  | QResolveFunction string
  | QDisasmByName string usize
  | QDisasm u64 usize
  | QDecompile u64
  | QSegments
  | QStrings usize usize "string option"

text \<open>Types.\<close>

datatype type_call =
    QLocalTypes usize usize "string option"
  | QDeclareType string bool bool bool
  | QApplyTypes "u64 option" "string option" int "int option" "string option" "string option" "string option" bool bool bool
  | QInferTypes "u64 option" "string option" int

text \<open>Places given by address or name, which the loop resolves before it calls the handler.\<close>

datatype place_call =
    QAddrInfo "u64 option" "string option" int
  | QFunctionAt "u64 option" "string option" int
  | QDisasmFunctionAt "u64 option" "string option" int usize

text \<open>Stack frames.\<close>

datatype frame_call =
    QDeclareStack "u64 option" "string option" int "string option" string bool
  | QDeleteStack "u64 option" "string option" "int option" "string option"
  | QStackFrame u64

text \<open>Structures.\<close>

datatype struct_call =
    QStructs usize usize "string option"
  | QStructInfo "u32 option" "string option"
  | QReadStruct u64 "u32 option" "string option"

text \<open>Cross-references.\<close>

datatype xref_call =
    QXRefsTo u64 usize usize
  | QXRefsFrom u64 usize usize
  | QXRefsToField "u32 option" "string option" "u32 option" "string option" usize

text \<open>Imports, exports and Lumina.\<close>

datatype symbol_call =
    QImports usize usize
  | QExports usize usize
  | QEntrypoints
  | QLuminaLookup "u64 option" "string option" int
  | QLuminaApply "u64 option" "string option" int bool

text \<open>Bytes and annotations.\<close>

datatype edit_call =
    QGetBytes "u64 option" "string option" int usize
  | QSetComments "u64 option" "string option" int string bool
  | QRename "u64 option" "string option" string "32 word"
  | QPatchBytes "u64 option" "string option" int "u8 list"
  | QPatchAsm "u64 option" "string option" int string

text \<open>Control flow of a function, globals and strings.\<close>

datatype lookup_call =
    QBasicBlocks u64
  | QCallees u64
  | QCallers u64
  | QIdbMeta
  | QLookupFunctions "string list"
  | QListGlobals "string option" usize usize
  | QAnalyzeStrings "string option" usize usize
  | QFindString string bool bool usize usize
  | QXrefsToString string bool bool usize usize usize

text \<open>Search and values.\<close>

datatype search_call =
    QFindBytes string usize
  | QSearchText string usize
  | QSearchImm u64 usize
  | QFindInsns "string list" usize bool
  | QFindInsnOperands "string list" usize bool
  | QReadInt u64 usize
  | QGetString u64 usize
  | QGetGlobalValue string

text \<open>Paths, graphs and pseudocode.\<close>

datatype graph_call =
    QFindPaths u64 u64 usize usize
  | QCallGraph u64 usize usize
  | QXrefMatrix "u64 list"
  | QExportFuncs usize usize
  | QPseudocodeAt u64 "u64 option"

datatype ida_call =
    QDatabaseCall database_call
  | QFunctionCall function_call
  | QTypeCall type_call
  | QPlaceCall place_call
  | QFrameCall frame_call
  | QStructCall struct_call
  | QXrefCall xref_call
  | QSymbolCall symbol_call
  | QEditCall edit_call
  | QLookupCall lookup_call
  | QSearchCall search_call
  | QGraphCall graph_call

section \<open>The arms of the loop\<close>

text \<open>A request that only runs a handler names it with its arguments and tells whether a crash in it is
  caught. The arms that resolve a place first are one call with the address, the name and the offset.\<close>

fun database_arm :: "database_call \<Rightarrow> ida_request" where
  "database_arm (QLoadDebugInfo path verbose) = RCall True (Call ''handle_load_debug_info'' [a_opt AStr path, ABool verbose])"
| "database_arm (QAnalysisStatus expected_generation) = RAnalysisStatus expected_generation"

fun function_arm :: "function_call \<Rightarrow> ida_request" where
  "function_arm (QListFunctions offset limit flt) = RCall False (Call ''handle_list_functions'' [AUsize offset, AUsize limit, a_opt AStr flt])"
| "function_arm (QResolveFunction name) = RCall True (Call ''handle_resolve_function'' [AStr name])"
| "function_arm (QDisasmByName name cnt) = RCall True (Call ''handle_disasm_by_name'' [AStr name, AUsize cnt])"
| "function_arm (QDisasm addr cnt) = RCall True (Call ''handle_disasm'' [AAddr addr, AUsize cnt])"
| "function_arm (QDecompile addr) = RCall True (Call ''handle_decompile'' [AAddr addr])"
| "function_arm QSegments = RCall True (Call ''handle_segments'' [])"
| "function_arm (QStrings offset limit flt) = RCall True (Call ''handle_strings'' [AUsize offset, AUsize limit, a_opt AStr flt])"

fun type_arm :: "type_call \<Rightarrow> ida_request" where
  "type_arm (QLocalTypes offset limit flt) = RCall True (Call ''handle_local_types'' [AUsize offset, AUsize limit, a_opt AStr flt])"
| "type_arm (QDeclareType decl relaxed repl multi) = RCall True (Call ''handle_declare_type'' [AStr decl, ABool relaxed, ABool repl, ABool multi])"
| "type_arm (QApplyTypes addr name offset stack_offset stack_name decl type_name relaxed delay strict) = RCall True (Call ''handle_apply_types'' [a_opt AAddr addr, a_opt AStr name, AI64 offset, a_opt AI64 stack_offset, a_opt AStr stack_name, a_opt AStr decl, a_opt AStr type_name, ABool relaxed, ABool delay, ABool strict])"
| "type_arm (QInferTypes addr name offset) = RCall True (Call ''handle_infer_types'' [a_opt AAddr addr, a_opt AStr name, AI64 offset])"

fun place_arm :: "place_call \<Rightarrow> ida_request" where
  "place_arm (QAddrInfo addr name offset) = RCall False (Call ''handle_addr_info'' [a_opt AAddr addr, a_opt AStr name, AI64 offset])"
| "place_arm (QFunctionAt addr name offset) = RCall False (Call ''handle_function_at'' [a_opt AAddr addr, a_opt AStr name, AI64 offset])"
| "place_arm (QDisasmFunctionAt addr name offset cnt) = RCall False (Call ''handle_disasm_function_at'' [a_opt AAddr addr, a_opt AStr name, AI64 offset, AUsize cnt])"

fun frame_arm :: "frame_call \<Rightarrow> ida_request" where
  "frame_arm (QDeclareStack addr name offset var_name decl relaxed) = RCall True (Call ''handle_declare_stack'' [a_opt AAddr addr, a_opt AStr name, AI64 offset, a_opt AStr var_name, AStr decl, ABool relaxed])"
| "frame_arm (QDeleteStack addr name offset var_name) = RCall True (Call ''handle_delete_stack'' [a_opt AAddr addr, a_opt AStr name, a_opt AI64 offset, a_opt AStr var_name])"
| "frame_arm (QStackFrame addr) = RCall True (Call ''handle_stack_frame'' [AAddr addr])"

fun struct_arm :: "struct_call \<Rightarrow> ida_request" where
  "struct_arm (QStructs offset limit flt) = RCall True (Call ''handle_structs'' [AUsize offset, AUsize limit, a_opt AStr flt])"
| "struct_arm (QStructInfo ordinal name) = RCall True (Call ''handle_struct_info'' [a_opt AU32 ordinal, a_opt AStr name])"
| "struct_arm (QReadStruct addr ordinal name) = RCall True (Call ''handle_read_struct'' [AAddr addr, a_opt AU32 ordinal, a_opt AStr name])"

fun xref_arm :: "xref_call \<Rightarrow> ida_request" where
  "xref_arm (QXRefsTo addr offset limit) = RCall True (Call ''handle_xrefs_to'' [AAddr addr, AUsize offset, AUsize limit])"
| "xref_arm (QXRefsFrom addr offset limit) = RCall True (Call ''handle_xrefs_from'' [AAddr addr, AUsize offset, AUsize limit])"
| "xref_arm (QXRefsToField ordinal name member_index member_name limit) = RCall True (Call ''handle_xrefs_to_field'' [a_opt AU32 ordinal, a_opt AStr name, a_opt AU32 member_index, a_opt AStr member_name, AUsize limit])"

fun symbol_arm :: "symbol_call \<Rightarrow> ida_request" where
  "symbol_arm (QImports offset limit) = RCall True (Call ''handle_imports'' [AUsize offset, AUsize limit])"
| "symbol_arm (QExports offset limit) = RCall True (Call ''handle_exports'' [AUsize offset, AUsize limit])"
| "symbol_arm QEntrypoints = RCall True (Call ''handle_entrypoints'' [])"
| "symbol_arm (QLuminaLookup addr name offset) = RCall True (Call ''handle_lumina_lookup'' [a_opt AAddr addr, a_opt AStr name, AI64 offset])"
| "symbol_arm (QLuminaApply addr name offset force) = RCall True (Call ''handle_lumina_apply'' [a_opt AAddr addr, a_opt AStr name, AI64 offset, ABool force])"

fun edit_arm :: "edit_call \<Rightarrow> ida_request" where
  "edit_arm (QGetBytes addr name offset sz) = RCall True (Call ''handle_get_bytes'' [a_opt AAddr addr, a_opt AStr name, AI64 offset, AUsize sz])"
| "edit_arm (QSetComments addr name offset comment repeatable) = RCall True (Call ''handle_set_comments'' [a_opt AAddr addr, a_opt AStr name, AI64 offset, AStr comment, ABool repeatable])"
| "edit_arm (QRename addr current_name new_name flags) = RCall True (Call ''handle_rename'' [a_opt AAddr addr, a_opt AStr current_name, AStr new_name, AI32 flags])"
| "edit_arm (QPatchBytes addr name offset bs) = RCall True (Call ''handle_patch_bytes'' [a_opt AAddr addr, a_opt AStr name, AI64 offset, ABytes bs])"
| "edit_arm (QPatchAsm addr name offset text_line) = RCall True (Call ''handle_patch_asm'' [a_opt AAddr addr, a_opt AStr name, AI64 offset, AStr text_line])"

fun lookup_arm :: "lookup_call \<Rightarrow> ida_request" where
  "lookup_arm (QBasicBlocks addr) = RCall True (Call ''handle_basic_blocks'' [AAddr addr])"
| "lookup_arm (QCallees addr) = RCall True (Call ''handle_callees'' [AAddr addr])"
| "lookup_arm (QCallers addr) = RCall True (Call ''handle_callers'' [AAddr addr])"
| "lookup_arm QIdbMeta = RCall True (Call ''handle_idb_meta'' [])"
| "lookup_arm (QLookupFunctions queries) = RCall True (Call ''handle_lookup_funcs'' [AStrs queries])"
| "lookup_arm (QListGlobals query offset limit) = RCall True (Call ''handle_list_globals'' [a_opt AStr query, AUsize offset, AUsize limit])"
| "lookup_arm (QAnalyzeStrings query offset limit) = RCall True (Call ''handle_analyze_strings'' [a_opt AStr query, AUsize offset, AUsize limit])"
| "lookup_arm (QFindString query ex case_insensitive offset limit) = RCall True (Call ''handle_find_string'' [AStr query, ABool ex, ABool case_insensitive, AUsize offset, AUsize limit])"
| "lookup_arm (QXrefsToString query ex case_insensitive offset limit max_xrefs) = RCall True (Call ''handle_xrefs_to_string'' [AStr query, ABool ex, ABool case_insensitive, AUsize offset, AUsize limit, AUsize max_xrefs])"

fun search_arm :: "search_call \<Rightarrow> ida_request" where
  "search_arm (QFindBytes pattern max_results) = RCall True (Call ''handle_find_bytes'' [AStr pattern, AUsize max_results])"
| "search_arm (QSearchText text max_results) = RCall True (Call ''handle_search_text'' [AStr text, AUsize max_results])"
| "search_arm (QSearchImm imm max_results) = RCall True (Call ''handle_search_imm'' [AAddr imm, AUsize max_results])"
| "search_arm (QFindInsns patterns max_results case_insensitive) = RCall True (Call ''handle_find_insns'' [AStrs patterns, AUsize max_results, ABool case_insensitive])"
| "search_arm (QFindInsnOperands patterns max_results case_insensitive) = RCall True (Call ''handle_find_insn_operands'' [AStrs patterns, AUsize max_results, ABool case_insensitive])"
| "search_arm (QReadInt addr sz) = RCall True (Call ''handle_read_int'' [AAddr addr, AUsize sz])"
| "search_arm (QGetString addr max_len) = RCall True (Call ''handle_get_string'' [AAddr addr, AUsize max_len])"
| "search_arm (QGetGlobalValue query) = RCall True (Call ''handle_get_global_value'' [AStr query])"

fun graph_arm :: "graph_call \<Rightarrow> ida_request" where
  "graph_arm (QFindPaths from_addr to_addr max_paths max_depth) = RCall True (Call ''handle_find_paths'' [AAddr from_addr, AAddr to_addr, AUsize max_paths, AUsize max_depth])"
| "graph_arm (QCallGraph addr max_depth max_nodes) = RCall True (Call ''handle_callgraph'' [AAddr addr, AUsize max_depth, AUsize max_nodes])"
| "graph_arm (QXrefMatrix addrs) = RCall True (Call ''handle_xref_matrix'' [AAddrs addrs])"
| "graph_arm (QExportFuncs offset limit) = RCall True (Call ''handle_list_functions'' [AUsize offset, AUsize limit, ANone])"
| "graph_arm (QPseudocodeAt addr end_addr) = RCall True (Call ''handle_pseudocode_at'' [AAddr addr, a_opt AAddr end_addr])"

fun call_request :: "ida_call \<Rightarrow> ida_request" where
  "call_request (QDatabaseCall c) = database_arm c"
| "call_request (QFunctionCall c) = function_arm c"
| "call_request (QTypeCall c) = type_arm c"
| "call_request (QPlaceCall c) = place_arm c"
| "call_request (QFrameCall c) = frame_arm c"
| "call_request (QStructCall c) = struct_arm c"
| "call_request (QXrefCall c) = xref_arm c"
| "call_request (QSymbolCall c) = symbol_arm c"
| "call_request (QEditCall c) = edit_arm c"
| "call_request (QLookupCall c) = lookup_arm c"
| "call_request (QSearchCall c) = search_arm c"
| "call_request (QGraphCall c) = graph_arm c"

section \<open>The methods of the worker\<close>

text \<open>A method sends its request and waits for the answer, with a time limit or without, or with one that
  only the watchdog of a pool applies.\<close>

datatype wait = Timed "u64 option" | Untimed | Watched "u64 option"

type_synonym worker_call = "ida_call \<times> wait"


definition worker_load_debug_info :: "string option \<Rightarrow> bool \<Rightarrow> worker_call" where
  "worker_load_debug_info path verbose = (QDatabaseCall (QLoadDebugInfo path verbose), Untimed)"

definition worker_analysis_status_for_generation :: "u64 option \<Rightarrow> worker_call" where
  "worker_analysis_status_for_generation expected_generation = (QDatabaseCall (QAnalysisStatus expected_generation), Untimed)"

definition worker_list_functions :: "usize \<Rightarrow> usize \<Rightarrow> string option \<Rightarrow> u64 option \<Rightarrow> worker_call" where
  "worker_list_functions offset limit flt timeout_secs = (QFunctionCall (QListFunctions offset limit flt), Timed timeout_secs)"

definition worker_resolve_function :: "string \<Rightarrow> worker_call" where
  "worker_resolve_function name = (QFunctionCall (QResolveFunction name), Untimed)"

definition worker_disasm_by_name :: "string \<Rightarrow> usize \<Rightarrow> worker_call" where
  "worker_disasm_by_name name cnt = (QFunctionCall (QDisasmByName name cnt), Untimed)"

definition worker_disasm :: "u64 \<Rightarrow> usize \<Rightarrow> worker_call" where
  "worker_disasm addr cnt = (QFunctionCall (QDisasm addr cnt), Untimed)"

definition worker_decompile :: "u64 \<Rightarrow> worker_call" where
  "worker_decompile addr = (QFunctionCall (QDecompile addr), Untimed)"

definition worker_segments :: "worker_call" where
  "worker_segments = (QFunctionCall QSegments, Untimed)"

definition worker_strings :: "usize \<Rightarrow> usize \<Rightarrow> string option \<Rightarrow> u64 option \<Rightarrow> worker_call" where
  "worker_strings offset limit flt timeout_secs = (QFunctionCall (QStrings offset limit flt), Timed timeout_secs)"

definition worker_local_types :: "usize \<Rightarrow> usize \<Rightarrow> string option \<Rightarrow> u64 option \<Rightarrow> worker_call" where
  "worker_local_types offset limit flt timeout_secs = (QTypeCall (QLocalTypes offset limit flt), Timed timeout_secs)"

definition worker_declare_type :: "string \<Rightarrow> bool \<Rightarrow> bool \<Rightarrow> bool \<Rightarrow> worker_call" where
  "worker_declare_type decl relaxed repl multi = (QTypeCall (QDeclareType decl relaxed repl multi), Untimed)"

definition worker_apply_types :: "u64 option \<Rightarrow> string option \<Rightarrow> int \<Rightarrow> int option \<Rightarrow> string option \<Rightarrow> string option \<Rightarrow> string option \<Rightarrow> bool \<Rightarrow> bool \<Rightarrow> bool \<Rightarrow> worker_call" where
  "worker_apply_types addr name offset stack_offset stack_name decl type_name relaxed delay strict = (QTypeCall (QApplyTypes addr name offset stack_offset stack_name decl type_name relaxed delay strict), Untimed)"

definition worker_infer_types :: "u64 option \<Rightarrow> string option \<Rightarrow> int \<Rightarrow> worker_call" where
  "worker_infer_types addr name offset = (QTypeCall (QInferTypes addr name offset), Untimed)"

definition worker_addr_info :: "u64 option \<Rightarrow> string option \<Rightarrow> int \<Rightarrow> worker_call" where
  "worker_addr_info addr name offset = (QPlaceCall (QAddrInfo addr name offset), Untimed)"

definition worker_function_at :: "u64 option \<Rightarrow> string option \<Rightarrow> int \<Rightarrow> worker_call" where
  "worker_function_at addr name offset = (QPlaceCall (QFunctionAt addr name offset), Untimed)"

definition worker_disasm_function_at :: "u64 option \<Rightarrow> string option \<Rightarrow> int \<Rightarrow> usize \<Rightarrow> worker_call" where
  "worker_disasm_function_at addr name offset cnt = (QPlaceCall (QDisasmFunctionAt addr name offset cnt), Untimed)"

definition worker_declare_stack :: "u64 option \<Rightarrow> string option \<Rightarrow> int \<Rightarrow> string option \<Rightarrow> string \<Rightarrow> bool \<Rightarrow> worker_call" where
  "worker_declare_stack addr name offset var_name decl relaxed = (QFrameCall (QDeclareStack addr name offset var_name decl relaxed), Untimed)"

definition worker_delete_stack :: "u64 option \<Rightarrow> string option \<Rightarrow> int option \<Rightarrow> string option \<Rightarrow> worker_call" where
  "worker_delete_stack addr name offset var_name = (QFrameCall (QDeleteStack addr name offset var_name), Untimed)"

definition worker_stack_frame :: "u64 \<Rightarrow> worker_call" where
  "worker_stack_frame addr = (QFrameCall (QStackFrame addr), Untimed)"

definition worker_structs :: "usize \<Rightarrow> usize \<Rightarrow> string option \<Rightarrow> u64 option \<Rightarrow> worker_call" where
  "worker_structs offset limit flt timeout_secs = (QStructCall (QStructs offset limit flt), Timed timeout_secs)"

definition worker_struct_info :: "u32 option \<Rightarrow> string option \<Rightarrow> worker_call" where
  "worker_struct_info ordinal name = (QStructCall (QStructInfo ordinal name), Untimed)"

definition worker_read_struct :: "u64 \<Rightarrow> u32 option \<Rightarrow> string option \<Rightarrow> worker_call" where
  "worker_read_struct addr ordinal name = (QStructCall (QReadStruct addr ordinal name), Untimed)"

definition worker_xrefs_to :: "u64 \<Rightarrow> usize \<Rightarrow> usize \<Rightarrow> u64 option \<Rightarrow> worker_call" where
  "worker_xrefs_to addr offset limit timeout_secs = (QXrefCall (QXRefsTo addr offset limit), Timed timeout_secs)"

definition worker_xrefs_from :: "u64 \<Rightarrow> usize \<Rightarrow> usize \<Rightarrow> u64 option \<Rightarrow> worker_call" where
  "worker_xrefs_from addr offset limit timeout_secs = (QXrefCall (QXRefsFrom addr offset limit), Timed timeout_secs)"

definition worker_xrefs_to_field :: "u32 option \<Rightarrow> string option \<Rightarrow> u32 option \<Rightarrow> string option \<Rightarrow> usize \<Rightarrow> worker_call" where
  "worker_xrefs_to_field ordinal name member_index member_name limit = (QXrefCall (QXRefsToField ordinal name member_index member_name limit), Untimed)"

definition worker_imports :: "usize \<Rightarrow> usize \<Rightarrow> worker_call" where
  "worker_imports offset limit = (QSymbolCall (QImports offset limit), Untimed)"

definition worker_exports :: "usize \<Rightarrow> usize \<Rightarrow> worker_call" where
  "worker_exports offset limit = (QSymbolCall (QExports offset limit), Untimed)"

definition worker_entrypoints :: "worker_call" where
  "worker_entrypoints = (QSymbolCall QEntrypoints, Untimed)"

definition worker_lumina_lookup :: "u64 option \<Rightarrow> string option \<Rightarrow> int \<Rightarrow> u64 option \<Rightarrow> worker_call" where
  "worker_lumina_lookup addr name offset timeout_secs = (QSymbolCall (QLuminaLookup addr name offset), Timed timeout_secs)"

definition worker_lumina_apply :: "u64 option \<Rightarrow> string option \<Rightarrow> int \<Rightarrow> bool \<Rightarrow> u64 option \<Rightarrow> worker_call" where
  "worker_lumina_apply addr name offset force timeout_secs =
     (QSymbolCall (QLuminaApply addr name offset force), Watched timeout_secs)"

definition worker_get_bytes :: "u64 option \<Rightarrow> string option \<Rightarrow> int \<Rightarrow> usize \<Rightarrow> worker_call" where
  "worker_get_bytes addr name offset sz = (QEditCall (QGetBytes addr name offset sz), Untimed)"

definition worker_set_comments :: "u64 option \<Rightarrow> string option \<Rightarrow> int \<Rightarrow> string \<Rightarrow> bool \<Rightarrow> worker_call" where
  "worker_set_comments addr name offset comment repeatable = (QEditCall (QSetComments addr name offset comment repeatable), Untimed)"

definition worker_rename :: "u64 option \<Rightarrow> string option \<Rightarrow> string \<Rightarrow> 32 word \<Rightarrow> worker_call" where
  "worker_rename addr current_name new_name flags = (QEditCall (QRename addr current_name new_name flags), Untimed)"

definition worker_patch_bytes :: "u64 option \<Rightarrow> string option \<Rightarrow> int \<Rightarrow> u8 list \<Rightarrow> worker_call" where
  "worker_patch_bytes addr name offset bs = (QEditCall (QPatchBytes addr name offset bs), Untimed)"

definition worker_patch_asm :: "u64 option \<Rightarrow> string option \<Rightarrow> int \<Rightarrow> string \<Rightarrow> worker_call" where
  "worker_patch_asm addr name offset text_line = (QEditCall (QPatchAsm addr name offset text_line), Untimed)"

definition worker_basic_blocks :: "u64 \<Rightarrow> worker_call" where
  "worker_basic_blocks addr = (QLookupCall (QBasicBlocks addr), Untimed)"

definition worker_callees :: "u64 \<Rightarrow> worker_call" where
  "worker_callees addr = (QLookupCall (QCallees addr), Untimed)"

definition worker_callers :: "u64 \<Rightarrow> worker_call" where
  "worker_callers addr = (QLookupCall (QCallers addr), Untimed)"

definition worker_idb_meta :: "worker_call" where
  "worker_idb_meta = (QLookupCall QIdbMeta, Untimed)"

definition worker_lookup_funcs :: "string list \<Rightarrow> worker_call" where
  "worker_lookup_funcs queries = (QLookupCall (QLookupFunctions queries), Untimed)"

definition worker_list_globals :: "string option \<Rightarrow> usize \<Rightarrow> usize \<Rightarrow> u64 option \<Rightarrow> worker_call" where
  "worker_list_globals query offset limit timeout_secs = (QLookupCall (QListGlobals query offset limit), Timed timeout_secs)"

definition worker_analyze_strings :: "string option \<Rightarrow> usize \<Rightarrow> usize \<Rightarrow> u64 option \<Rightarrow> worker_call" where
  "worker_analyze_strings query offset limit timeout_secs = (QLookupCall (QAnalyzeStrings query offset limit), Timed timeout_secs)"

definition worker_find_string :: "string \<Rightarrow> bool \<Rightarrow> bool \<Rightarrow> usize \<Rightarrow> usize \<Rightarrow> u64 option \<Rightarrow> worker_call" where
  "worker_find_string query ex case_insensitive offset limit timeout_secs = (QLookupCall (QFindString query ex case_insensitive offset limit), Timed timeout_secs)"

definition worker_xrefs_to_string :: "string \<Rightarrow> bool \<Rightarrow> bool \<Rightarrow> usize \<Rightarrow> usize \<Rightarrow> usize \<Rightarrow> u64 option \<Rightarrow> worker_call" where
  "worker_xrefs_to_string query ex case_insensitive offset limit max_xrefs timeout_secs = (QLookupCall (QXrefsToString query ex case_insensitive offset limit max_xrefs), Timed timeout_secs)"

definition worker_find_bytes :: "string \<Rightarrow> usize \<Rightarrow> u64 option \<Rightarrow> worker_call" where
  "worker_find_bytes pattern max_results timeout_secs = (QSearchCall (QFindBytes pattern max_results), Timed timeout_secs)"

definition worker_search_text :: "string \<Rightarrow> usize \<Rightarrow> u64 option \<Rightarrow> worker_call" where
  "worker_search_text text max_results timeout_secs = (QSearchCall (QSearchText text max_results), Timed timeout_secs)"

definition worker_search_imm :: "u64 \<Rightarrow> usize \<Rightarrow> u64 option \<Rightarrow> worker_call" where
  "worker_search_imm imm max_results timeout_secs = (QSearchCall (QSearchImm imm max_results), Timed timeout_secs)"

definition worker_find_insns :: "string list \<Rightarrow> usize \<Rightarrow> bool \<Rightarrow> u64 option \<Rightarrow> worker_call" where
  "worker_find_insns patterns max_results case_insensitive timeout_secs = (QSearchCall (QFindInsns patterns max_results case_insensitive), Timed timeout_secs)"

definition worker_find_insn_operands :: "string list \<Rightarrow> usize \<Rightarrow> bool \<Rightarrow> u64 option \<Rightarrow> worker_call" where
  "worker_find_insn_operands patterns max_results case_insensitive timeout_secs = (QSearchCall (QFindInsnOperands patterns max_results case_insensitive), Timed timeout_secs)"

definition worker_read_int :: "u64 \<Rightarrow> usize \<Rightarrow> worker_call" where
  "worker_read_int addr sz = (QSearchCall (QReadInt addr sz), Untimed)"

definition worker_get_string :: "u64 \<Rightarrow> usize \<Rightarrow> worker_call" where
  "worker_get_string addr max_len = (QSearchCall (QGetString addr max_len), Untimed)"

definition worker_get_global_value :: "string \<Rightarrow> worker_call" where
  "worker_get_global_value query = (QSearchCall (QGetGlobalValue query), Untimed)"

definition worker_find_paths :: "u64 \<Rightarrow> u64 \<Rightarrow> usize \<Rightarrow> usize \<Rightarrow> worker_call" where
  "worker_find_paths from_addr to_addr max_paths max_depth = (QGraphCall (QFindPaths from_addr to_addr max_paths max_depth), Untimed)"

definition worker_callgraph :: "u64 \<Rightarrow> usize \<Rightarrow> usize \<Rightarrow> worker_call" where
  "worker_callgraph addr max_depth max_nodes = (QGraphCall (QCallGraph addr max_depth max_nodes), Untimed)"

definition worker_xref_matrix :: "u64 list \<Rightarrow> worker_call" where
  "worker_xref_matrix addrs = (QGraphCall (QXrefMatrix addrs), Untimed)"

definition worker_export_funcs :: "usize \<Rightarrow> usize \<Rightarrow> worker_call" where
  "worker_export_funcs offset limit = (QGraphCall (QExportFuncs offset limit), Untimed)"

definition worker_pseudocode_at :: "u64 \<Rightarrow> u64 option \<Rightarrow> worker_call" where
  "worker_pseudocode_at addr end_addr = (QGraphCall (QPseudocodeAt addr end_addr), Untimed)"

section \<open>Waiting for the answer\<close>

definition DEFAULT_TIMEOUT_SECS :: nat where "DEFAULT_TIMEOUT_SECS = 120"

definition wait_secs :: "u64 option \<Rightarrow> nat" where
  "wait_secs timeout_secs =
     min (case timeout_secs of Some t \<Rightarrow> unat t | None \<Rightarrow> DEFAULT_TIMEOUT_SECS) MAX_TIMEOUT_SECS"

text \<open>The answer is there after \<open>d\<close> seconds; without one the sender was dropped then.\<close>

definition recv :: "wait \<Rightarrow> nat \<Rightarrow> (json, tool_error) result option \<Rightarrow> (json, tool_error) result" where
  "recv w d answer =
     (let got = (case answer of Some r \<Rightarrow> r | None \<Rightarrow> Err WorkerClosed)
      in case w of
           Timed t \<Rightarrow> if d \<le> wait_secs t then got else Err (Timeout (wait_secs t))
         | _ \<Rightarrow> got)"

definition call_worker ::
  "'idb loop_env \<Rightarrow> (unit, tool_error) result \<Rightarrow> nat \<Rightarrow> nat \<Rightarrow> worker_call \<Rightarrow> 'idb ida_loop \<Rightarrow>
   (json, tool_error) result \<times> 'idb ida_loop" where
  "call_worker env sent d ticket c s =
     (case sent of
        Err e \<Rightarrow> (Err e, s)
      | Ok _ \<Rightarrow>
          (let s' = ida_loop_step env (call_request (fst c)) ticket s
           in (recv (snd c) d (case loop_answer s s' of Some (ReValue r) \<Rightarrow> Some r | _ \<Rightarrow> None), s')))"

end
