(* ===== verification/Mcp_Tools.thy ===== *)
theory Mcp_Tools
  imports Tool_Requests Ida_Calls
begin

text \<open>
  The tools of the MCP server that run handlers, \<open>src/src/server/mod.rs\<close>. A tool reads its arguments
  and either refuses them or has a plan: which calls of the worker it makes, and how it puts their
  results into its answer. The worker is a parameter of running a plan. \<open>pretty\<close> is the library's
  printer of JSON. The tools that start operations with progress or tasks are not here.
\<close>

section \<open>Plans\<close>

datatype tool_plan =
    PCall bool "json \<Rightarrow> json" worker_call
  | PEach string "string \<Rightarrow> json \<Rightarrow> json" "(string \<times> worker_call) list"
  | PPages string usize usize "(string \<times> (worker_call, tool_error) result) list"
  | PDone json

type_synonym planned = "(tool_plan, tool_error) result"

fun plan_calls :: "tool_plan \<Rightarrow> worker_call list" where
  "plan_calls (PCall raw post c) = [c]"
| "plan_calls (PEach key entry cs) = map snd cs"
| "plan_calls (PPages key offset limit cs) = List.map_filter (\<lambda>(_, c). case c of Ok q \<Rightarrow> Some q | Err _ \<Rightarrow> None) cs"
| "plan_calls (PDone v) = []"

definition success_text :: "string \<Rightarrow> call_tool_result" where
  "success_text t = \<lparr>ct_content = [Some t], ct_is_error = Some False, ct_structured = None\<rparr>"

definition error_entry :: "string \<Rightarrow> string \<Rightarrow> tool_error \<Rightarrow> json" where
  "error_entry key label e = JObject [(key, JString label), (''error'', JString (tool_error_message e))]"

definition result_entry :: "string \<Rightarrow> string \<Rightarrow> string \<Rightarrow> json \<Rightarrow> json" where
  "result_entry key value_key label r = JObject [(key, JString label), (value_key, r)]"

definition results_object :: "json list \<Rightarrow> json" where
  "results_object rs = JObject [(''results'', JArray rs)]"

text \<open>The window that \<open>find_bytes\<close> and \<open>search\<close> cut out of the matches they got.\<close>

definition page_entry :: "string \<Rightarrow> string \<Rightarrow> usize \<Rightarrow> usize \<Rightarrow> json \<Rightarrow> json" where
  "page_entry key label offset response_limit value =
     (let matches = (case Option.bind (json_get value ''matches'') as_array of Some m \<Rightarrow> m | None \<Rightarrow> []);
          total = length matches;
          sliced = take (unat response_limit) (drop (unat offset) matches);
          next_offset = (if unat (offset + response_limit) < total then Some (offset + response_limit) else None)
      in JObject [(key, JString label), (''matches'', JArray sliced), (''total'', json_of_nat total),
                  (''next_offset'', json_of_opt (\<lambda>n. json_of_nat (unat n)) next_offset)])"

fun run_plan :: "(json \<Rightarrow> string) \<Rightarrow> (worker_call \<Rightarrow> (json, tool_error) result) \<Rightarrow> tool_plan \<Rightarrow> call_tool_result" where
  "run_plan pretty w (PCall raw post c) =
     (case w c of
        Ok r \<Rightarrow> success_text (case (raw, r) of (True, JString t) \<Rightarrow> t | _ \<Rightarrow> pretty (post r))
      | Err e \<Rightarrow> to_tool_result e)"
| "run_plan pretty w (PEach key entry cs) =
     success_text (pretty (results_object
       (map (\<lambda>(label, c). case w c of Ok r \<Rightarrow> entry label r | Err e \<Rightarrow> error_entry key label e) cs)))"
| "run_plan pretty w (PPages key offset response_limit cs) =
     success_text (pretty (results_object
       (map (\<lambda>(label, c). case and_then c w of
               Ok r \<Rightarrow> page_entry key label offset response_limit r
             | Err e \<Rightarrow> error_entry key label e) cs)))"
| "run_plan pretty w (PDone v) = success_text (pretty v)"

definition run_tool ::
  "(json \<Rightarrow> string) \<Rightarrow> (worker_call \<Rightarrow> (json, tool_error) result) \<Rightarrow> planned \<Rightarrow> call_tool_result" where
  "run_tool pretty w planned = (case planned of Ok p \<Rightarrow> run_plan pretty w p | Err e \<Rightarrow> to_tool_result e)"

section \<open>Reading arguments\<close>

record readers =
  rd_of_text :: "string \<Rightarrow> json option"
  rd_num_text :: "jnum \<Rightarrow> string"

abbreviation tool_strings :: "readers \<Rightarrow> json \<Rightarrow> (string list, tool_error) result" where
  "tool_strings rd \<equiv> value_to_strings (rd_of_text rd) (rd_num_text rd)"

abbreviation tool_addresses :: "readers \<Rightarrow> json \<Rightarrow> (u64 list, tool_error) result" where
  "tool_addresses rd \<equiv> value_to_addresses (rd_of_text rd) (rd_num_text rd)"

abbreviation tool_address :: "readers \<Rightarrow> json \<Rightarrow> (u64, tool_error) result" where
  "tool_address rd \<equiv> value_to_single_address (rd_of_text rd) (rd_num_text rd)"

definition tool_opt_address :: "readers \<Rightarrow> json option \<Rightarrow> (u64 option, tool_error) result" where
  "tool_opt_address rd v = (case v of Some a \<Rightarrow> map_ok Some (tool_address rd a) | None \<Rightarrow> Ok None)"

abbreviation plain :: "worker_call \<Rightarrow> planned" where
  "plain c \<equiv> Ok (PCall False id c)"

abbreviation plain_text :: "worker_call \<Rightarrow> planned" where
  "plain_text c \<equiv> Ok (PCall True id c)"

text \<open>One address gives the bare result, several an entry each.\<close>

definition for_each_address :: "string \<Rightarrow> string \<Rightarrow> bool \<Rightarrow> (u64 \<Rightarrow> worker_call) \<Rightarrow> u64 list \<Rightarrow> planned" where
  "for_each_address key value_key raw c addrs =
     (if length addrs = 1 then Ok (PCall raw id (c (hd addrs)))
      else Ok (PEach key (result_entry key value_key) (map (\<lambda>a. (fmt_hex (unat a), c a)) addrs)))"

section \<open>Functions and disassembly\<close>

definition tool_list_functions :: "list_functions_request \<Rightarrow> planned" where
  "tool_list_functions req =
     and_then (arg_usize (rq_list_functions_limit req) ''limit'') (\<lambda>limit.
     and_then (arg_usize (rq_list_functions_offset req) ''offset'') (\<lambda>offset.
     and_then (arg_u64 (rq_list_functions_timeout_secs req) ''timeout_secs'') (\<lambda>timeout_secs.
       plain (worker_list_functions (or_default 0 offset) (or_default_min 100 10000 limit)
                (rq_list_functions_filter req) timeout_secs))))"

definition tool_list_funcs :: "list_functions_request \<Rightarrow> planned" where
  "tool_list_funcs req =
     and_then (arg_usize (rq_list_functions_limit req) ''limit'') (\<lambda>limit.
     and_then (arg_usize (rq_list_functions_offset req) ''offset'') (\<lambda>offset.
     and_then (arg_u64 (rq_list_functions_timeout_secs req) ''timeout_secs'') (\<lambda>timeout_secs.
       plain (worker_list_functions (or_default 0 offset) (or_default_min 100 10000 limit)
                (rq_list_functions_filter req) timeout_secs))))"

definition tool_resolve_function :: "resolve_function_request \<Rightarrow> planned" where
  "tool_resolve_function req = plain (worker_resolve_function (rq_resolve_function_name req))"

definition tool_addr_info :: "readers \<Rightarrow> addr_info_request \<Rightarrow> planned" where
  "tool_addr_info rd req =
     and_then (tool_opt_address rd (rq_addr_info_address req)) (\<lambda>addr.
       plain (worker_addr_info addr (rq_addr_info_target_name req) (or_default 0 (rq_addr_info_offset req))))"

definition tool_function_at :: "readers \<Rightarrow> function_at_request \<Rightarrow> planned" where
  "tool_function_at rd req =
     and_then (tool_opt_address rd (rq_function_at_address req)) (\<lambda>addr.
       plain (worker_function_at addr (rq_function_at_target_name req) (or_default 0 (rq_function_at_offset req))))"

definition tool_disasm :: "readers \<Rightarrow> disasm_request \<Rightarrow> planned" where
  "tool_disasm rd req =
     and_then (arg_usize (rq_disasm_count req) ''count'') (\<lambda>cnt.
     and_then (tool_addresses rd (rq_disasm_address req))
       (for_each_address ''address'' ''disasm'' True (\<lambda>a. worker_disasm a (or_default_min 10 1000 cnt))))"

definition tool_disasm_by_name :: "disasm_by_name_request \<Rightarrow> planned" where
  "tool_disasm_by_name req =
     and_then (arg_usize (rq_disasm_by_name_count req) ''count'') (\<lambda>cnt.
       plain_text (worker_disasm_by_name (rq_disasm_by_name_name req) (or_default_min 10 1000 cnt)))"

definition tool_disasm_function_at :: "readers \<Rightarrow> disasm_function_at_request \<Rightarrow> planned" where
  "tool_disasm_function_at rd req =
     and_then (tool_opt_address rd (rq_disasm_function_at_address req)) (\<lambda>addr.
     and_then (arg_usize (rq_disasm_function_at_count req) ''count'') (\<lambda>cnt.
       plain_text (worker_disasm_function_at addr (rq_disasm_function_at_target_name req)
         (or_default 0 (rq_disasm_function_at_offset req)) (or_default_min 200 5000 cnt))))"

definition tool_decompile :: "readers \<Rightarrow> decompile_request \<Rightarrow> planned" where
  "tool_decompile rd req =
     and_then (tool_addresses rd (rq_decompile_address req))
       (for_each_address ''address'' ''decompile'' True worker_decompile)"

definition tool_pseudocode_at :: "readers \<Rightarrow> pseudocode_at_request \<Rightarrow> planned" where
  "tool_pseudocode_at rd req =
     and_then (tool_addresses rd (rq_pseudocode_at_address req)) (\<lambda>addrs.
     and_then (case rq_pseudocode_at_end_address req of
                 Some s \<Rightarrow> map_ok Some (parse_address s)
               | None \<Rightarrow> Ok None) (\<lambda>end_addr.
       for_each_address ''address'' ''pseudocode'' False (\<lambda>a. worker_pseudocode_at a end_addr) addrs))"

definition tool_segments :: planned where
  "tool_segments = plain worker_segments"

section \<open>Strings\<close>

definition tool_strings_list :: "strings_request \<Rightarrow> planned" where
  "tool_strings_list req =
     and_then (arg_usize (rq_strings_limit req) ''limit'') (\<lambda>limit.
     and_then (arg_usize (rq_strings_offset req) ''offset'') (\<lambda>offset.
     and_then (arg_u64 (rq_strings_timeout_secs req) ''timeout_secs'') (\<lambda>timeout_secs.
       plain (worker_strings (or_default 0 offset) (or_default_min 100 10000 limit) (rq_strings_filter req) timeout_secs))))"

definition tool_find_string :: "find_string_request \<Rightarrow> planned" where
  "tool_find_string req =
     and_then (arg_usize (rq_find_string_limit req) ''limit'') (\<lambda>limit.
     and_then (arg_usize (rq_find_string_offset req) ''offset'') (\<lambda>offset.
     and_then (arg_u64 (rq_find_string_timeout_secs req) ''timeout_secs'') (\<lambda>timeout_secs.
       plain (worker_find_string (rq_find_string_query req) (or_default False (rq_find_string_exact req))
         (or_default True (rq_find_string_case_insensitive req)) (or_default 0 offset)
         (or_default_min 100 10000 limit) timeout_secs))))"

definition tool_xrefs_to_string :: "xrefs_to_string_request \<Rightarrow> planned" where
  "tool_xrefs_to_string req =
     and_then (arg_usize (rq_xrefs_to_string_limit req) ''limit'') (\<lambda>limit.
     and_then (arg_usize (rq_xrefs_to_string_offset req) ''offset'') (\<lambda>offset.
     and_then (arg_usize (rq_xrefs_to_string_max_xrefs req) ''max_xrefs'') (\<lambda>max_xrefs.
     and_then (arg_u64 (rq_xrefs_to_string_timeout_secs req) ''timeout_secs'') (\<lambda>timeout_secs.
       plain (worker_xrefs_to_string (rq_xrefs_to_string_query req) (or_default False (rq_xrefs_to_string_exact req))
         (or_default True (rq_xrefs_to_string_case_insensitive req)) (or_default 0 offset)
         (or_default_min 100 10000 limit) (or_default 64 max_xrefs) timeout_secs)))))"

definition tool_analyze_strings :: "analyze_strings_request \<Rightarrow> planned" where
  "tool_analyze_strings req =
     and_then (arg_usize (rq_analyze_strings_limit req) ''limit'') (\<lambda>limit.
     and_then (arg_usize (rq_analyze_strings_offset req) ''offset'') (\<lambda>offset.
     and_then (arg_u64 (rq_analyze_strings_timeout_secs req) ''timeout_secs'') (\<lambda>timeout_secs.
       plain (worker_analyze_strings (rq_analyze_strings_query req) (or_default 0 offset)
         (or_default_min 100 10000 limit) timeout_secs))))"

definition tool_get_string :: "readers \<Rightarrow> get_string_request \<Rightarrow> planned" where
  "tool_get_string rd req =
     and_then (tool_addresses rd (rq_get_string_address req)) (\<lambda>addrs.
     and_then (arg_usize (rq_get_string_max_len req) ''max_len'') (\<lambda>max_len.
       for_each_address ''address'' ''string'' False
         (\<lambda>a. worker_get_string a (or_default_min 256 0x10000 max_len)) addrs))"

section \<open>Cross-references and symbols\<close>

definition DEFAULT_XREFS_LIMIT :: usize where "DEFAULT_XREFS_LIMIT = 1000"
definition MAX_XREFS_LIMIT :: usize where "MAX_XREFS_LIMIT = 10000"

definition parse_xrefs_paging :: "xrefs_request \<Rightarrow> (usize \<times> usize \<times> u64 option, tool_error) result" where
  "parse_xrefs_paging req =
     and_then (arg_usize (rq_xrefs_limit req) ''limit'') (\<lambda>limit.
     and_then (arg_usize (rq_xrefs_offset req) ''offset'') (\<lambda>offset.
     and_then (arg_u64 (rq_xrefs_timeout_secs req) ''timeout_secs'') (\<lambda>timeout_secs.
       Ok (or_default 0 offset, max 1 (min (or_default DEFAULT_XREFS_LIMIT limit) MAX_XREFS_LIMIT), timeout_secs))))"

definition xrefs_entry :: "string \<Rightarrow> json \<Rightarrow> json" where
  "xrefs_entry label r =
     (case r of JObject m \<Rightarrow> JObject (map_insert ''address'' (JString label) m) | other \<Rightarrow> other)"

definition xrefs_lookup ::
  "readers \<Rightarrow> (u64 \<Rightarrow> usize \<Rightarrow> usize \<Rightarrow> u64 option \<Rightarrow> worker_call) \<Rightarrow> xrefs_request \<Rightarrow> planned" where
  "xrefs_lookup rd xrefs_for req =
     and_then (parse_xrefs_paging req) (\<lambda>(offset, limit, timeout_secs).
     and_then (tool_addresses rd (rq_xrefs_address req)) (\<lambda>addrs.
       if length addrs = 1 then plain (xrefs_for (hd addrs) offset limit timeout_secs)
       else Ok (PEach ''address'' xrefs_entry
              (map (\<lambda>a. (fmt_hex (unat a), xrefs_for a offset limit timeout_secs)) addrs))))"

definition tool_xrefs_to :: "readers \<Rightarrow> xrefs_request \<Rightarrow> planned" where
  "tool_xrefs_to rd req = xrefs_lookup rd worker_xrefs_to req"

definition tool_xrefs_from :: "readers \<Rightarrow> xrefs_request \<Rightarrow> planned" where
  "tool_xrefs_from rd req = xrefs_lookup rd worker_xrefs_from req"

definition tool_xrefs_to_field :: "xrefs_to_field_request \<Rightarrow> planned" where
  "tool_xrefs_to_field req =
     and_then (arg_usize (rq_xrefs_to_field_limit req) ''limit'') (\<lambda>limit.
     and_then (arg_u32 (rq_xrefs_to_field_ordinal req) ''ordinal'') (\<lambda>ordinal.
     and_then (arg_u32 (rq_xrefs_to_field_member_index req) ''member_index'') (\<lambda>member_index.
       plain (worker_xrefs_to_field ordinal (rq_xrefs_to_field_name req) member_index
         (rq_xrefs_to_field_member_name req) (or_default_min 1000 10000 limit)))))"

definition tool_xref_matrix :: "readers \<Rightarrow> xref_matrix_request \<Rightarrow> planned" where
  "tool_xref_matrix rd req =
     and_then (tool_addresses rd (rq_xref_matrix_addrs req)) (\<lambda>addrs. plain (worker_xref_matrix addrs))"

definition tool_imports :: "paginated_request \<Rightarrow> planned" where
  "tool_imports req =
     and_then (arg_usize (rq_paginated_limit req) ''limit'') (\<lambda>limit.
     and_then (arg_usize (rq_paginated_offset req) ''offset'') (\<lambda>offset.
       plain (worker_imports (or_default 0 offset) (or_default_min 100 10000 limit))))"

definition tool_exports :: "paginated_request \<Rightarrow> planned" where
  "tool_exports req =
     and_then (arg_usize (rq_paginated_limit req) ''limit'') (\<lambda>limit.
     and_then (arg_usize (rq_paginated_offset req) ''offset'') (\<lambda>offset.
       plain (worker_exports (or_default 0 offset) (or_default_min 100 10000 limit))))"

definition tool_entrypoints :: planned where
  "tool_entrypoints = plain worker_entrypoints"

definition tool_lookup_funcs :: "readers \<Rightarrow> lookup_funcs_request \<Rightarrow> planned" where
  "tool_lookup_funcs rd req =
     and_then (tool_strings rd (rq_lookup_funcs_queries req)) (\<lambda>queries. plain (worker_lookup_funcs queries))"

definition tool_list_globals :: "list_globals_request \<Rightarrow> planned" where
  "tool_list_globals req =
     and_then (arg_usize (rq_list_globals_limit req) ''limit'') (\<lambda>limit.
     and_then (arg_usize (rq_list_globals_offset req) ''offset'') (\<lambda>offset.
     and_then (arg_u64 (rq_list_globals_timeout_secs req) ''timeout_secs'') (\<lambda>timeout_secs.
       plain (worker_list_globals (rq_list_globals_query req) (or_default 0 offset)
         (or_default_min 100 10000 limit) timeout_secs))))"

text \<open>\<open>to_lowercase\<close> of a format name: no letter outside ASCII has a lower case in \<open>json\<close>.\<close>

definition tool_export_funcs :: "readers \<Rightarrow> export_funcs_request \<Rightarrow> planned" where
  "tool_export_funcs rd req =
     and_then (case rq_export_funcs_format req of
                 Some fmt \<Rightarrow>
                   if to_ascii_lowercase fmt \<noteq> ''json''
                   then Err (NotSupported (''format '' @ fmt @ '' not supported (only json)''))
                   else Ok ()
               | None \<Rightarrow> Ok ()) (\<lambda>_.
       case rq_export_funcs_addrs req of
         Some addrs \<Rightarrow> and_then (tool_strings rd addrs) (\<lambda>queries. plain (worker_lookup_funcs queries))
       | None \<Rightarrow>
           and_then (arg_usize (rq_export_funcs_limit req) ''limit'') (\<lambda>limit.
           and_then (arg_usize (rq_export_funcs_offset req) ''offset'') (\<lambda>offset.
             plain (worker_export_funcs (or_default 0 offset) (or_default_min 100 10000 limit)))))"

text \<open>Outside a child worker the session is added to the answer.\<close>

definition with_session :: "server_mode \<Rightarrow> string \<Rightarrow> json \<Rightarrow> json" where
  "with_session mode session_id v =
     (case v of
        JObject m \<Rightarrow> if mode \<noteq> Worker then JObject (map_insert ''session_id'' (JString session_id) m) else v
      | other \<Rightarrow> other)"

definition tool_idb_meta :: "server_mode \<Rightarrow> string \<Rightarrow> planned" where
  "tool_idb_meta mode session_id = Ok (PCall False (with_session mode session_id) worker_idb_meta)"

definition tool_analysis_status :: "server_mode \<Rightarrow> string \<Rightarrow> planned" where
  "tool_analysis_status mode session_id =
     Ok (PCall False (with_session mode session_id) (worker_analysis_status_for_generation None))"

definition tool_load_debug_info :: "load_debug_info_request \<Rightarrow> planned" where
  "tool_load_debug_info req =
     plain (worker_load_debug_info (rq_load_debug_info_path req) (or_default False (rq_load_debug_info_verbose req)))"

section \<open>Memory\<close>

definition tool_get_bytes :: "readers \<Rightarrow> get_bytes_request \<Rightarrow> planned" where
  "tool_get_bytes rd req =
     and_then (arg_usize (rq_get_bytes_size req) ''size'') (\<lambda>sz0.
       let sz = or_default_min 256 0x10000 sz0
       in case rq_get_bytes_address req of
            Some v \<Rightarrow>
              and_then (tool_addresses rd v)
                (for_each_address ''address'' ''bytes'' False (\<lambda>a. worker_get_bytes (Some a) None 0 sz))
          | None \<Rightarrow>
              (case rq_get_bytes_target_name req of
                 Some name \<Rightarrow> plain (worker_get_bytes None (Some name) (or_default 0 (rq_get_bytes_offset req)) sz)
               | None \<Rightarrow> Err (InvalidParams ''address or name required'')))"

definition get_int_values :: "readers \<Rightarrow> json \<Rightarrow> usize \<Rightarrow> planned" where
  "get_int_values rd address sz =
     and_then (tool_addresses rd address) (for_each_address ''address'' ''value'' False (\<lambda>a. worker_read_int a sz))"

definition tool_get_u8 :: "readers \<Rightarrow> address_request \<Rightarrow> planned" where
  "tool_get_u8 rd req = get_int_values rd (rq_address_address req) 1"

definition tool_get_u16 :: "readers \<Rightarrow> address_request \<Rightarrow> planned" where
  "tool_get_u16 rd req = get_int_values rd (rq_address_address req) 2"

definition tool_get_u32 :: "readers \<Rightarrow> address_request \<Rightarrow> planned" where
  "tool_get_u32 rd req = get_int_values rd (rq_address_address req) 4"

definition tool_get_u64 :: "readers \<Rightarrow> address_request \<Rightarrow> planned" where
  "tool_get_u64 rd req = get_int_values rd (rq_address_address req) 8"

definition tool_get_global_value :: "readers \<Rightarrow> get_global_value_request \<Rightarrow> planned" where
  "tool_get_global_value rd req =
     and_then (tool_strings rd (rq_get_global_value_query req)) (\<lambda>queries.
       if length queries = 1 then plain (worker_get_global_value (hd queries))
       else Ok (PEach ''query'' (result_entry ''query'' ''value'') (map (\<lambda>q. (q, worker_get_global_value q)) queries)))"

definition tool_patch :: "readers \<Rightarrow> patch_request \<Rightarrow> planned" where
  "tool_patch rd req =
     and_then (tool_opt_address rd (rq_patch_address req)) (\<lambda>addr.
     and_then (value_to_bytes (rq_patch_bytes req)) (\<lambda>bs.
       plain (worker_patch_bytes addr (rq_patch_target_name req) (or_default 0 (rq_patch_offset req)) bs)))"

definition tool_patch_asm :: "readers \<Rightarrow> patch_asm_request \<Rightarrow> planned" where
  "tool_patch_asm rd req =
     and_then (tool_opt_address rd (rq_patch_asm_address req)) (\<lambda>addr.
       plain (worker_patch_asm addr (rq_patch_asm_target_name req) (or_default 0 (rq_patch_asm_offset req))
         (rq_patch_asm_line req)))"

section \<open>Search\<close>

text \<open>A child worker is told by its parent how many results to return.\<close>

definition worker_max_results :: "server_mode \<Rightarrow> int option \<Rightarrow> (usize option, tool_error) result" where
  "worker_max_results mode v =
     (if mode = Worker then map_ok (map_option (\<lambda>n. min n 20000)) (arg_usize v ''_worker_max_results'') else Ok None)"

definition tool_find_bytes :: "readers \<Rightarrow> server_mode \<Rightarrow> find_bytes_request \<Rightarrow> planned" where
  "tool_find_bytes rd mode req =
     and_then (tool_strings rd (rq_find_bytes_patterns req)) (\<lambda>patterns.
     and_then (arg_usize (rq_find_bytes_limit req) ''limit'') (\<lambda>limit0.
     and_then (arg_usize (rq_find_bytes_offset req) ''offset'') (\<lambda>offset0.
     and_then (worker_max_results mode (rq_find_bytes_worker_max_results req)) (\<lambda>worker_max.
     and_then (arg_u64 (rq_find_bytes_timeout_secs req) ''timeout_secs'') (\<lambda>timeout_secs.
       let limit = or_default_min 100 10000 limit0;
           offset = or_default 0 offset0;
           max_results = or_default (min (offset + limit) 20000) worker_max
       in Ok (PPages ''pattern'' offset (or_default limit worker_max)
            (map (\<lambda>p. (p, Ok (worker_find_bytes p max_results timeout_secs))) patterns)))))))"

text \<open>The kind is compared in lower case; no letter outside ASCII has a lower case in one of the names.\<close>

definition search_target :: "string \<Rightarrow> usize \<Rightarrow> u64 option \<Rightarrow> string \<Rightarrow> (worker_call, tool_error) result" where
  "search_target kind max_results timeout_secs target =
     (if kind = ''imm'' \<or> kind = ''immediate''
      then map_ok (\<lambda>v. worker_search_imm v max_results timeout_secs) (parse_address target)
      else if kind = ''text'' \<or> kind = ''string'' then Ok (worker_search_text target max_results timeout_secs)
      else case parse_address target of
             Ok v \<Rightarrow> Ok (worker_search_imm v max_results timeout_secs)
           | Err _ \<Rightarrow> Ok (worker_search_text target max_results timeout_secs))"

definition tool_search :: "readers \<Rightarrow> server_mode \<Rightarrow> search_request \<Rightarrow> planned" where
  "tool_search rd mode req =
     and_then (tool_strings rd (rq_search_targets req)) (\<lambda>targets.
     and_then (arg_usize (rq_search_limit req) ''limit'') (\<lambda>limit0.
     and_then (arg_usize (rq_search_offset req) ''offset'') (\<lambda>offset0.
     and_then (worker_max_results mode (rq_search_worker_max_results req)) (\<lambda>worker_max.
     and_then (arg_u64 (rq_search_timeout_secs req) ''timeout_secs'') (\<lambda>timeout_secs.
       let limit = or_default_min 100 10000 limit0;
           offset = or_default 0 offset0;
           kind = to_ascii_lowercase (or_default ''auto'' (rq_search_kind req));
           max_results = or_default (min (offset + limit) 20000) worker_max
       in Ok (PPages ''target'' offset (or_default limit worker_max)
            (map (\<lambda>t. (t, search_target kind max_results timeout_secs t)) targets)))))))"

definition tool_find_insns :: "readers \<Rightarrow> find_insns_request \<Rightarrow> planned" where
  "tool_find_insns rd req =
     and_then (tool_strings rd (rq_find_insns_patterns req)) (\<lambda>patterns.
       if patterns = [] then Err (InvalidParams ''empty patterns'')
       else
         and_then (arg_usize (rq_find_insns_limit req) ''limit'') (\<lambda>limit.
         and_then (arg_u64 (rq_find_insns_timeout_secs req) ''timeout_secs'') (\<lambda>timeout_secs.
           plain (worker_find_insns patterns (or_default 100 limit)
             (or_default False (rq_find_insns_case_insensitive req)) timeout_secs))))"

definition tool_find_insn_operands :: "readers \<Rightarrow> find_insn_operands_request \<Rightarrow> planned" where
  "tool_find_insn_operands rd req =
     and_then (tool_strings rd (rq_find_insn_operands_patterns req)) (\<lambda>patterns.
       if patterns = [] then Err (InvalidParams ''empty patterns'')
       else
         and_then (arg_usize (rq_find_insn_operands_limit req) ''limit'') (\<lambda>limit.
         and_then (arg_u64 (rq_find_insn_operands_timeout_secs req) ''timeout_secs'') (\<lambda>timeout_secs.
           plain (worker_find_insn_operands patterns (or_default 100 limit)
             (or_default False (rq_find_insn_operands_case_insensitive req)) timeout_secs))))"

section \<open>Control flow\<close>

definition tool_basic_blocks :: "readers \<Rightarrow> address_request \<Rightarrow> planned" where
  "tool_basic_blocks rd req =
     and_then (tool_addresses rd (rq_address_address req))
       (for_each_address ''address'' ''basic_blocks'' False worker_basic_blocks)"

definition tool_callees :: "readers \<Rightarrow> address_request \<Rightarrow> planned" where
  "tool_callees rd req =
     and_then (tool_addresses rd (rq_address_address req)) (for_each_address ''address'' ''callees'' False worker_callees)"

definition tool_callers :: "readers \<Rightarrow> address_request \<Rightarrow> planned" where
  "tool_callers rd req =
     and_then (tool_addresses rd (rq_address_address req)) (for_each_address ''address'' ''callers'' False worker_callers)"

definition tool_find_paths :: "readers \<Rightarrow> find_paths_request \<Rightarrow> planned" where
  "tool_find_paths rd req =
     and_then (tool_address rd (rq_find_paths_start req)) (\<lambda>from_addr.
     and_then (tool_address rd (rq_find_paths_end req)) (\<lambda>to_addr.
     and_then (arg_usize (rq_find_paths_max_paths req) ''max_paths'') (\<lambda>max_paths.
     and_then (arg_usize (rq_find_paths_max_depth req) ''max_depth'') (\<lambda>max_depth.
       plain (worker_find_paths from_addr to_addr (or_default_min 8 128 max_paths) (or_default_min 64 2048 max_depth))))))"

definition tool_callgraph :: "readers \<Rightarrow> call_graph_request \<Rightarrow> planned" where
  "tool_callgraph rd req =
     and_then (tool_addresses rd (rq_call_graph_roots req)) (\<lambda>roots.
     and_then (arg_usize (rq_call_graph_max_depth req) ''max_depth'') (\<lambda>max_depth.
     and_then (arg_usize (rq_call_graph_max_nodes req) ''max_nodes'') (\<lambda>max_nodes.
       for_each_address ''root'' ''callgraph'' False
         (\<lambda>a. worker_callgraph a (or_default_min 2 16 max_depth) (or_default_min 256 10000 max_nodes)) roots)))"

section \<open>Types and annotations\<close>

definition tool_local_types :: "local_types_request \<Rightarrow> planned" where
  "tool_local_types req =
     and_then (arg_usize (rq_local_types_offset req) ''offset'') (\<lambda>offset.
     and_then (arg_usize (rq_local_types_limit req) ''limit'') (\<lambda>limit.
     and_then (arg_u64 (rq_local_types_timeout_secs req) ''timeout_secs'') (\<lambda>timeout_secs.
       plain (worker_local_types (or_default 0 offset) (or_default 100 limit) (rq_local_types_filter req) timeout_secs))))"

definition tool_declare_type :: "declare_type_request \<Rightarrow> planned" where
  "tool_declare_type req =
     plain (worker_declare_type (rq_declare_type_decl req) (or_default False (rq_declare_type_relaxed req))
       (or_default False (rq_declare_type_replace req)) (or_default False (rq_declare_type_multi req)))"

definition tool_apply_types :: "readers \<Rightarrow> apply_types_request \<Rightarrow> planned" where
  "tool_apply_types rd req =
     and_then (tool_opt_address rd (rq_apply_types_address req)) (\<lambda>addr.
       plain (worker_apply_types addr (rq_apply_types_target_name req) (or_default 0 (rq_apply_types_offset req))
         (rq_apply_types_stack_offset req) (rq_apply_types_stack_name req) (rq_apply_types_decl req)
         (rq_apply_types_type_name req) (or_default False (rq_apply_types_relaxed req))
         (or_default False (rq_apply_types_delay req)) (or_default False (rq_apply_types_strict req))))"

definition tool_infer_types :: "readers \<Rightarrow> infer_types_request \<Rightarrow> planned" where
  "tool_infer_types rd req =
     and_then (tool_opt_address rd (rq_infer_types_address req)) (\<lambda>addr.
       plain (worker_infer_types addr (rq_infer_types_target_name req) (or_default 0 (rq_infer_types_offset req))))"

definition tool_stack_frame :: "readers \<Rightarrow> address_request \<Rightarrow> planned" where
  "tool_stack_frame rd req =
     and_then (tool_address rd (rq_address_address req)) (\<lambda>addr. plain (worker_stack_frame addr))"

definition tool_declare_stack :: "readers \<Rightarrow> declare_stack_request \<Rightarrow> planned" where
  "tool_declare_stack rd req =
     and_then (tool_opt_address rd (rq_declare_stack_address req)) (\<lambda>addr.
       plain (worker_declare_stack addr (rq_declare_stack_target_name req) (rq_declare_stack_offset req)
         (rq_declare_stack_var_name req) (rq_declare_stack_decl req) (or_default False (rq_declare_stack_relaxed req))))"

definition tool_delete_stack :: "readers \<Rightarrow> delete_stack_request \<Rightarrow> planned" where
  "tool_delete_stack rd req =
     and_then (tool_opt_address rd (rq_delete_stack_address req)) (\<lambda>addr.
       plain (worker_delete_stack addr (rq_delete_stack_target_name req) (rq_delete_stack_offset req)
         (rq_delete_stack_var_name req)))"

definition tool_structs :: "structs_request \<Rightarrow> planned" where
  "tool_structs req =
     and_then (arg_usize (rq_structs_limit req) ''limit'') (\<lambda>limit.
     and_then (arg_usize (rq_structs_offset req) ''offset'') (\<lambda>offset.
     and_then (arg_u64 (rq_structs_timeout_secs req) ''timeout_secs'') (\<lambda>timeout_secs.
       plain (worker_structs (or_default 0 offset) (or_default_min 100 10000 limit) (rq_structs_filter req) timeout_secs))))"

definition tool_search_structs :: "structs_request \<Rightarrow> planned" where
  "tool_search_structs req =
     and_then (arg_usize (rq_structs_offset req) ''offset'') (\<lambda>offset.
     and_then (arg_usize (rq_structs_limit req) ''limit'') (\<lambda>limit.
     and_then (arg_u64 (rq_structs_timeout_secs req) ''timeout_secs'') (\<lambda>timeout_secs.
       plain (worker_structs (or_default 0 offset) (or_default 100 limit) (rq_structs_filter req) timeout_secs))))"

definition tool_struct_info :: "struct_info_request \<Rightarrow> planned" where
  "tool_struct_info req =
     and_then (arg_u32 (rq_struct_info_ordinal req) ''ordinal'') (\<lambda>ordinal.
       plain (worker_struct_info ordinal (rq_struct_info_name req)))"

definition tool_read_struct :: "readers \<Rightarrow> read_struct_request \<Rightarrow> planned" where
  "tool_read_struct rd req =
     and_then (tool_addresses rd (rq_read_struct_address req)) (\<lambda>addrs.
     and_then (arg_u32 (rq_read_struct_ordinal req) ''ordinal'') (\<lambda>ordinal.
       for_each_address ''address'' ''struct'' False
         (\<lambda>a. worker_read_struct a ordinal (rq_read_struct_name req)) addrs))"

definition tool_set_comments :: "readers \<Rightarrow> set_comments_request \<Rightarrow> planned" where
  "tool_set_comments rd req =
     and_then (tool_opt_address rd (rq_set_comments_address req)) (\<lambda>addr.
       plain (worker_set_comments addr (rq_set_comments_target_name req) (or_default 0 (rq_set_comments_offset req))
         (rq_set_comments_comment req) (or_default False (rq_set_comments_repeatable req))))"

definition tool_rename :: "readers \<Rightarrow> rename_request \<Rightarrow> planned" where
  "tool_rename rd req =
     and_then (tool_opt_address rd (rq_rename_address req)) (\<lambda>addr.
     and_then (arg_i32 (rq_rename_flags req) ''flags'') (\<lambda>flags.
       plain (worker_rename addr (rq_rename_current_name req) (rq_rename_name req) (or_default 0 flags))))"

definition tool_lumina_lookup :: "readers \<Rightarrow> lumina_lookup_request \<Rightarrow> planned" where
  "tool_lumina_lookup rd req =
     and_then (arg_u64 (rq_lumina_lookup_timeout_secs req) ''timeout_secs'') (\<lambda>timeout_secs.
     and_then (tool_opt_address rd (rq_lumina_lookup_address req)) (\<lambda>addr.
       plain (worker_lumina_lookup addr (rq_lumina_lookup_target_name req)
         (or_default 0 (rq_lumina_lookup_offset req)) timeout_secs)))"

text \<open>The local worker drops the time limit.\<close>

definition tool_lumina_apply :: "readers \<Rightarrow> lumina_apply_request \<Rightarrow> planned" where
  "tool_lumina_apply rd req =
     and_then (arg_u64 (rq_lumina_apply_timeout_secs req) ''timeout_secs'') (\<lambda>timeout_secs.
     and_then (tool_opt_address rd (rq_lumina_apply_address req)) (\<lambda>addr.
       plain (worker_lumina_apply addr (rq_lumina_apply_target_name req)
         (or_default 0 (rq_lumina_apply_offset req)) (or_default False (rq_lumina_apply_force req)) timeout_secs)))"

section \<open>Conversion of integers\<close>

definition to_le_bytes :: "u64 \<Rightarrow> u8 list" where
  "to_le_bytes v = map (\<lambda>i. ucast (drop_bit (8 * i) v)) [0..<8]"

definition to_be_bytes :: "u64 \<Rightarrow> u8 list" where
  "to_be_bytes v = rev (to_le_bytes v)"

fun trim_zeros :: "u8 list \<Rightarrow> u8 list" where
  "trim_zeros (b # c # bs) = (if b = 0 then trim_zeros (c # bs) else b # c # bs)"
| "trim_zeros bs = bs"

definition trim_bytes_be :: "u8 list \<Rightarrow> u8 list" where
  "trim_bytes_be bs = trim_zeros bs"

definition trim_bytes_le :: "u8 list \<Rightarrow> u8 list" where
  "trim_bytes_le bs = rev (trim_zeros (rev bs))"

definition bytes_to_ascii :: "u8 list \<Rightarrow> string" where
  "bytes_to_ascii bs = map (\<lambda>b. if 32 \<le> unat b \<and> unat b \<le> 126 then char_of (unat b) else CHR ''.'') bs"

definition encode_hex :: "u8 list \<Rightarrow> string" where
  "encode_hex bs = concat (map hex_byte bs)"

definition int_entry :: "string \<Rightarrow> json" where
  "int_entry input =
     (case parse_address input of
        Ok value \<Rightarrow>
          JObject [(''input'', JString input), (''value'', json_of_nat (unat value)),
            (''dec'', JString (fmt_dec (unat value))), (''hex'', JString (fmt_hex (unat value))),
            (''bin'', JString (fmt_bin (unat value))),
            (''bytes_le'', JString (encode_hex (trim_bytes_le (to_le_bytes value)))),
            (''bytes_be'', JString (encode_hex (trim_bytes_be (to_be_bytes value)))),
            (''ascii'', JString (bytes_to_ascii (trim_bytes_le (to_le_bytes value))))]
      | Err e \<Rightarrow> error_entry ''input'' input e)"

definition tool_int_convert :: "readers \<Rightarrow> int_convert_request \<Rightarrow> planned" where
  "tool_int_convert rd req =
     and_then (tool_strings rd (rq_int_convert_inputs req)) (\<lambda>inputs.
       Ok (PDone (results_object (map int_entry inputs))))"

end
