(* ===== verification/Mcp_Tool_Props.thy ===== *)
theory Mcp_Tool_Props
  imports Mcp_Tools Search
begin

text \<open>
  What a client's arguments can make the tools do: the calls of the worker stay within fixed bounds
  whatever integers a request carries, except for four tools that pass the client's number on, and what the
  paged searches return.
\<close>

section \<open>The tools\<close>

text \<open>The tools by name, as the server's router selects them.\<close>

datatype function_tool =
    TListFunctions list_functions_request
  | TListFuncs list_functions_request
  | TResolveFunction resolve_function_request
  | TAddrInfo addr_info_request
  | TFunctionAt function_at_request
  | TDisasm disasm_request
  | TDisasmByName disasm_by_name_request
  | TDisasmFunctionAt disasm_function_at_request
  | TDecompile decompile_request
  | TPseudocodeAt pseudocode_at_request
  | TSegments

primrec function_plan :: "readers \<Rightarrow> server_mode \<Rightarrow> string \<Rightarrow> function_tool \<Rightarrow> planned" where
  "function_plan rd mode session_id (TListFunctions req) = tool_list_functions req"
| "function_plan rd mode session_id (TListFuncs req) = tool_list_funcs req"
| "function_plan rd mode session_id (TResolveFunction req) = tool_resolve_function req"
| "function_plan rd mode session_id (TAddrInfo req) = tool_addr_info rd req"
| "function_plan rd mode session_id (TFunctionAt req) = tool_function_at rd req"
| "function_plan rd mode session_id (TDisasm req) = tool_disasm rd req"
| "function_plan rd mode session_id (TDisasmByName req) = tool_disasm_by_name req"
| "function_plan rd mode session_id (TDisasmFunctionAt req) = tool_disasm_function_at rd req"
| "function_plan rd mode session_id (TDecompile req) = tool_decompile rd req"
| "function_plan rd mode session_id (TPseudocodeAt req) = tool_pseudocode_at rd req"
| "function_plan rd mode session_id TSegments = tool_segments"

datatype string_tool =
    TStringsList strings_request
  | TFindString find_string_request
  | TXrefsToString xrefs_to_string_request
  | TAnalyzeStrings analyze_strings_request
  | TGetString get_string_request

primrec string_plan :: "readers \<Rightarrow> server_mode \<Rightarrow> string \<Rightarrow> string_tool \<Rightarrow> planned" where
  "string_plan rd mode session_id (TStringsList req) = tool_strings_list req"
| "string_plan rd mode session_id (TFindString req) = tool_find_string req"
| "string_plan rd mode session_id (TXrefsToString req) = tool_xrefs_to_string req"
| "string_plan rd mode session_id (TAnalyzeStrings req) = tool_analyze_strings req"
| "string_plan rd mode session_id (TGetString req) = tool_get_string rd req"

datatype symbol_tool =
    TXrefsTo xrefs_request
  | TXrefsFrom xrefs_request
  | TXrefsToField xrefs_to_field_request
  | TXrefMatrix xref_matrix_request
  | TImports paginated_request
  | TExports paginated_request
  | TEntrypoints
  | TLookupFuncs lookup_funcs_request
  | TListGlobals list_globals_request
  | TExportFuncs export_funcs_request
  | TIdbMeta
  | TAnalysisStatus
  | TLoadDebugInfo load_debug_info_request

primrec symbol_plan :: "readers \<Rightarrow> server_mode \<Rightarrow> string \<Rightarrow> symbol_tool \<Rightarrow> planned" where
  "symbol_plan rd mode session_id (TXrefsTo req) = tool_xrefs_to rd req"
| "symbol_plan rd mode session_id (TXrefsFrom req) = tool_xrefs_from rd req"
| "symbol_plan rd mode session_id (TXrefsToField req) = tool_xrefs_to_field req"
| "symbol_plan rd mode session_id (TXrefMatrix req) = tool_xref_matrix rd req"
| "symbol_plan rd mode session_id (TImports req) = tool_imports req"
| "symbol_plan rd mode session_id (TExports req) = tool_exports req"
| "symbol_plan rd mode session_id TEntrypoints = tool_entrypoints"
| "symbol_plan rd mode session_id (TLookupFuncs req) = tool_lookup_funcs rd req"
| "symbol_plan rd mode session_id (TListGlobals req) = tool_list_globals req"
| "symbol_plan rd mode session_id (TExportFuncs req) = tool_export_funcs rd req"
| "symbol_plan rd mode session_id TIdbMeta = tool_idb_meta mode session_id"
| "symbol_plan rd mode session_id TAnalysisStatus = tool_analysis_status mode session_id"
| "symbol_plan rd mode session_id (TLoadDebugInfo req) = tool_load_debug_info req"

datatype memory_tool =
    TGetBytes get_bytes_request
  | TGetU8 address_request
  | TGetU16 address_request
  | TGetU32 address_request
  | TGetU64 address_request
  | TGetGlobalValue get_global_value_request
  | TPatch patch_request
  | TPatchAsm patch_asm_request

primrec memory_plan :: "readers \<Rightarrow> server_mode \<Rightarrow> string \<Rightarrow> memory_tool \<Rightarrow> planned" where
  "memory_plan rd mode session_id (TGetBytes req) = tool_get_bytes rd req"
| "memory_plan rd mode session_id (TGetU8 req) = tool_get_u8 rd req"
| "memory_plan rd mode session_id (TGetU16 req) = tool_get_u16 rd req"
| "memory_plan rd mode session_id (TGetU32 req) = tool_get_u32 rd req"
| "memory_plan rd mode session_id (TGetU64 req) = tool_get_u64 rd req"
| "memory_plan rd mode session_id (TGetGlobalValue req) = tool_get_global_value rd req"
| "memory_plan rd mode session_id (TPatch req) = tool_patch rd req"
| "memory_plan rd mode session_id (TPatchAsm req) = tool_patch_asm rd req"

datatype search_tool =
    TFindBytes find_bytes_request
  | TSearch search_request
  | TFindInsns find_insns_request
  | TFindInsnOperands find_insn_operands_request

primrec search_plan :: "readers \<Rightarrow> server_mode \<Rightarrow> string \<Rightarrow> search_tool \<Rightarrow> planned" where
  "search_plan rd mode session_id (TFindBytes req) = tool_find_bytes rd mode req"
| "search_plan rd mode session_id (TSearch req) = tool_search rd mode req"
| "search_plan rd mode session_id (TFindInsns req) = tool_find_insns rd req"
| "search_plan rd mode session_id (TFindInsnOperands req) = tool_find_insn_operands rd req"

datatype flow_tool =
    TBasicBlocks address_request
  | TCallees address_request
  | TCallers address_request
  | TFindPaths find_paths_request
  | TCallgraph call_graph_request

primrec flow_plan :: "readers \<Rightarrow> server_mode \<Rightarrow> string \<Rightarrow> flow_tool \<Rightarrow> planned" where
  "flow_plan rd mode session_id (TBasicBlocks req) = tool_basic_blocks rd req"
| "flow_plan rd mode session_id (TCallees req) = tool_callees rd req"
| "flow_plan rd mode session_id (TCallers req) = tool_callers rd req"
| "flow_plan rd mode session_id (TFindPaths req) = tool_find_paths rd req"
| "flow_plan rd mode session_id (TCallgraph req) = tool_callgraph rd req"

datatype type_tool =
    TLocalTypes local_types_request
  | TDeclareType declare_type_request
  | TApplyTypes apply_types_request
  | TInferTypes infer_types_request
  | TStackFrame address_request
  | TDeclareStack declare_stack_request
  | TDeleteStack delete_stack_request
  | TStructs structs_request
  | TSearchStructs structs_request
  | TStructInfo struct_info_request
  | TReadStruct read_struct_request
  | TSetComments set_comments_request
  | TRename rename_request
  | TLuminaLookup lumina_lookup_request
  | TLuminaApply lumina_apply_request

primrec type_plan :: "readers \<Rightarrow> server_mode \<Rightarrow> string \<Rightarrow> type_tool \<Rightarrow> planned" where
  "type_plan rd mode session_id (TLocalTypes req) = tool_local_types req"
| "type_plan rd mode session_id (TDeclareType req) = tool_declare_type req"
| "type_plan rd mode session_id (TApplyTypes req) = tool_apply_types rd req"
| "type_plan rd mode session_id (TInferTypes req) = tool_infer_types rd req"
| "type_plan rd mode session_id (TStackFrame req) = tool_stack_frame rd req"
| "type_plan rd mode session_id (TDeclareStack req) = tool_declare_stack rd req"
| "type_plan rd mode session_id (TDeleteStack req) = tool_delete_stack rd req"
| "type_plan rd mode session_id (TStructs req) = tool_structs req"
| "type_plan rd mode session_id (TSearchStructs req) = tool_search_structs req"
| "type_plan rd mode session_id (TStructInfo req) = tool_struct_info req"
| "type_plan rd mode session_id (TReadStruct req) = tool_read_struct rd req"
| "type_plan rd mode session_id (TSetComments req) = tool_set_comments rd req"
| "type_plan rd mode session_id (TRename req) = tool_rename rd req"
| "type_plan rd mode session_id (TLuminaLookup req) = tool_lumina_lookup rd req"
| "type_plan rd mode session_id (TLuminaApply req) = tool_lumina_apply rd req"

datatype convert_tool =
    TIntConvert int_convert_request

primrec convert_plan :: "readers \<Rightarrow> server_mode \<Rightarrow> string \<Rightarrow> convert_tool \<Rightarrow> planned" where
  "convert_plan rd mode session_id (TIntConvert req) = tool_int_convert rd req"

datatype tool_request =
    RFunctionTool function_tool
  | RStringTool string_tool
  | RSymbolTool symbol_tool
  | RMemoryTool memory_tool
  | RSearchTool search_tool
  | RFlowTool flow_tool
  | RTypeTool type_tool
  | RConvertTool convert_tool

primrec tool_plan_of :: "readers \<Rightarrow> server_mode \<Rightarrow> string \<Rightarrow> tool_request \<Rightarrow> planned" where
  "tool_plan_of rd mode session_id (RFunctionTool t) = function_plan rd mode session_id t"
| "tool_plan_of rd mode session_id (RStringTool t) = string_plan rd mode session_id t"
| "tool_plan_of rd mode session_id (RSymbolTool t) = symbol_plan rd mode session_id t"
| "tool_plan_of rd mode session_id (RMemoryTool t) = memory_plan rd mode session_id t"
| "tool_plan_of rd mode session_id (RSearchTool t) = search_plan rd mode session_id t"
| "tool_plan_of rd mode session_id (RFlowTool t) = flow_plan rd mode session_id t"
| "tool_plan_of rd mode session_id (RTypeTool t) = type_plan rd mode session_id t"
| "tool_plan_of rd mode session_id (RConvertTool t) = convert_plan rd mode session_id t"

section \<open>Bounds\<close>

text \<open>The largest amounts of work a call may ask for. \<open>max_xrefs\<close>, which the handler limits itself, is
  passed on as it is.\<close>

fun call_bounded :: "ida_call \<Rightarrow> bool" where
  "call_bounded (QFunctionCall c) =
     (case c of QListFunctions _ limit _ \<Rightarrow> limit \<le> 10000 | QDisasmByName _ cnt \<Rightarrow> cnt \<le> 1000
      | QDisasm _ cnt \<Rightarrow> cnt \<le> 1000 | QStrings _ limit _ \<Rightarrow> limit \<le> 10000 | _ \<Rightarrow> True)"
| "call_bounded (QPlaceCall c) = (case c of QDisasmFunctionAt _ _ _ cnt \<Rightarrow> cnt \<le> 5000 | _ \<Rightarrow> True)"
| "call_bounded (QXrefCall c) =
     (case c of QXRefsTo _ _ limit \<Rightarrow> 1 \<le> limit \<and> limit \<le> 10000 | QXRefsFrom _ _ limit \<Rightarrow> 1 \<le> limit \<and> limit \<le> 10000
      | QXRefsToField _ _ _ _ limit \<Rightarrow> limit \<le> 10000)"
| "call_bounded (QSymbolCall c) =
     (case c of QImports _ limit \<Rightarrow> limit \<le> 10000 | QExports _ limit \<Rightarrow> limit \<le> 10000 | _ \<Rightarrow> True)"
| "call_bounded (QEditCall c) = (case c of QGetBytes _ _ _ sz \<Rightarrow> sz \<le> 0x10000 | _ \<Rightarrow> True)"
| "call_bounded (QLookupCall c) =
     (case c of QListGlobals _ _ limit \<Rightarrow> limit \<le> 10000 | QAnalyzeStrings _ _ limit \<Rightarrow> limit \<le> 10000
      | QFindString _ _ _ _ limit \<Rightarrow> limit \<le> 10000 | QXrefsToString _ _ _ _ limit _ \<Rightarrow> limit \<le> 10000 | _ \<Rightarrow> True)"
| "call_bounded (QSearchCall c) =
     (case c of QFindBytes _ m \<Rightarrow> m \<le> 20000 | QSearchText _ m \<Rightarrow> m \<le> 20000 | QSearchImm _ m \<Rightarrow> m \<le> 20000
      | QFindInsns _ m _ \<Rightarrow> m \<le> 20000 | QFindInsnOperands _ m _ \<Rightarrow> m \<le> 20000
      | QReadInt _ sz \<Rightarrow> sz \<in> {1, 2, 4, 8} | QGetString _ m \<Rightarrow> m \<le> 0x10000 | _ \<Rightarrow> True)"
| "call_bounded (QTypeCall c) = (case c of QLocalTypes _ limit _ \<Rightarrow> limit \<le> 10000 | _ \<Rightarrow> True)"
| "call_bounded (QStructCall c) = (case c of QStructs _ limit _ \<Rightarrow> limit \<le> 10000 | _ \<Rightarrow> True)"
| "call_bounded (QGraphCall c) =
     (case c of QFindPaths _ _ paths depth \<Rightarrow> paths \<le> 128 \<and> depth \<le> 2048
      | QCallGraph _ depth nodes \<Rightarrow> depth \<le> 16 \<and> nodes \<le> 10000 | QExportFuncs _ limit \<Rightarrow> limit \<le> 10000 | _ \<Rightarrow> True)"
| "call_bounded _ = True"

text \<open>The tools that limit what they pass on; the other four hand the client's number to the worker.\<close>

fun limits_calls :: "tool_request \<Rightarrow> bool" where
  "limits_calls (RSearchTool t) = (case t of TFindInsns _ \<Rightarrow> False | TFindInsnOperands _ \<Rightarrow> False | _ \<Rightarrow> True)"
| "limits_calls (RTypeTool t) = (case t of TLocalTypes _ \<Rightarrow> False | TSearchStructs _ \<Rightarrow> False | _ \<Rightarrow> True)"
| "limits_calls _ = True"

text \<open>Every call of a plan has a property.\<close>

definition planned_all :: "(worker_call \<Rightarrow> bool) \<Rightarrow> planned \<Rightarrow> bool" where
  "planned_all P r = (case r of Ok p \<Rightarrow> list_all P (plan_calls p) | Err _ \<Rightarrow> True)"

abbreviation planned_bounded :: "planned \<Rightarrow> bool" where
  "planned_bounded \<equiv> planned_all (\<lambda>c. call_bounded (fst c))"

lemma planned_all_and_then [intro!]:
  "(\<And>x. r = Ok x \<Longrightarrow> planned_all P (f x)) \<Longrightarrow> planned_all P (and_then r f)"
  by (cases r) (simp_all add: planned_all_def)

lemma planned_all_Err [simp]: "planned_all P (Err e)"
  by (simp add: planned_all_def)

lemma planned_all_call [simp]: "planned_all P (Ok (PCall raw post c)) \<longleftrightarrow> P c"
  by (simp add: planned_all_def)

lemma planned_all_each [intro!]:
  "(\<And>a. P (c a)) \<Longrightarrow> planned_all P (for_each_address key value_key raw c addrs)"
  by (simp add: for_each_address_def planned_all_def list_all_iff)

lemma planned_all_PEach [simp]: "planned_all P (Ok (PEach key entry cs)) \<longleftrightarrow> (\<forall>(_, c) \<in> set cs. P c)"
  by (auto simp: planned_all_def list_all_iff)

lemma planned_all_PPages [simp]:
  "planned_all P (Ok (PPages key offset limit cs)) \<longleftrightarrow>
     (\<forall>(_, r) \<in> set cs. case r of Ok c \<Rightarrow> P c | Err _ \<Rightarrow> True)"
  by (force simp: planned_all_def list_all_iff List.map_filter_def split: result.splits)

lemma planned_all_PDone [simp]: "planned_all P (Ok (PDone v))"
  by (simp add: planned_all_def)

lemma or_default_min_le [simp]: "or_default_min d m v \<le> m"
  by (simp add: or_default_min_def)

lemma worker_max_results_le: "worker_max_results mode v = Ok (Some n) \<Longrightarrow> n \<le> 20000"
  by (auto simp: worker_max_results_def map_ok_Ok_iff split: if_splits)

lemmas worker_methods =
  worker_load_debug_info_def worker_analysis_status_for_generation_def worker_list_functions_def
  worker_resolve_function_def worker_disasm_by_name_def worker_disasm_def worker_decompile_def
  worker_segments_def worker_strings_def worker_local_types_def worker_declare_type_def
  worker_apply_types_def worker_infer_types_def worker_addr_info_def worker_function_at_def
  worker_disasm_function_at_def worker_declare_stack_def worker_delete_stack_def
  worker_stack_frame_def worker_structs_def worker_struct_info_def worker_read_struct_def
  worker_xrefs_to_def worker_xrefs_from_def worker_xrefs_to_field_def worker_imports_def
  worker_exports_def worker_entrypoints_def worker_lumina_lookup_def worker_lumina_apply_def
  worker_get_bytes_def worker_set_comments_def worker_rename_def worker_patch_bytes_def
  worker_patch_asm_def worker_basic_blocks_def worker_callees_def worker_callers_def
  worker_idb_meta_def worker_lookup_funcs_def worker_list_globals_def worker_analyze_strings_def
  worker_find_string_def worker_xrefs_to_string_def worker_find_bytes_def worker_search_text_def
  worker_search_imm_def worker_find_insns_def worker_find_insn_operands_def worker_read_int_def
  worker_get_string_def worker_get_global_value_def worker_find_paths_def worker_callgraph_def
  worker_xref_matrix_def worker_export_funcs_def worker_pseudocode_at_def

lemmas tool_defs =
  tool_list_functions_def tool_list_funcs_def tool_resolve_function_def tool_addr_info_def
  tool_function_at_def tool_disasm_def tool_disasm_by_name_def tool_disasm_function_at_def
  tool_decompile_def tool_pseudocode_at_def tool_segments_def tool_strings_list_def
  tool_find_string_def tool_xrefs_to_string_def tool_analyze_strings_def tool_get_string_def
  tool_xrefs_to_def tool_xrefs_from_def tool_xrefs_to_field_def tool_xref_matrix_def
  tool_imports_def tool_exports_def tool_entrypoints_def tool_lookup_funcs_def tool_list_globals_def
  tool_export_funcs_def tool_idb_meta_def tool_analysis_status_def tool_load_debug_info_def
  tool_get_bytes_def tool_get_u8_def tool_get_u16_def tool_get_u32_def tool_get_u64_def
  tool_get_global_value_def tool_patch_def tool_patch_asm_def tool_find_bytes_def tool_search_def
  tool_find_insns_def tool_find_insn_operands_def tool_basic_blocks_def tool_callees_def
  tool_callers_def tool_find_paths_def tool_callgraph_def tool_local_types_def tool_declare_type_def
  tool_apply_types_def tool_infer_types_def tool_stack_frame_def tool_declare_stack_def
  tool_delete_stack_def tool_structs_def tool_search_structs_def tool_struct_info_def
  tool_read_struct_def tool_set_comments_def tool_rename_def tool_lumina_lookup_def
  tool_lumina_apply_def tool_int_convert_def

lemma planned_all_if [intro!]:
  "(b \<Longrightarrow> planned_all P p) \<Longrightarrow> (\<not> b \<Longrightarrow> planned_all P q) \<Longrightarrow> planned_all P (if b then p else q)"
  by simp

lemma function_plan_bounded: "planned_bounded (function_plan rd mode session_id t)"
  by (cases t) (auto simp: tool_defs worker_methods)

lemma string_plan_bounded: "planned_bounded (string_plan rd mode session_id t)"
  by (cases t) (auto simp: tool_defs worker_methods)

lemma flow_plan_bounded: "planned_bounded (flow_plan rd mode session_id t)"
  by (cases t) (auto simp: tool_defs worker_methods)

lemma type_plan_bounded: "limits_calls (RTypeTool t) \<Longrightarrow> planned_bounded (type_plan rd mode session_id t)"
  by (cases t) (auto simp: tool_defs worker_methods)

lemma memory_plan_bounded: "planned_bounded (memory_plan rd mode session_id t)"
  by (cases t) (auto simp: tool_defs get_int_values_def worker_methods Let_def split: option.split)

lemma xrefs_limit: "parse_xrefs_paging req = Ok (offset, limit, timeout) \<Longrightarrow> 1 \<le> limit \<and> limit \<le> 10000"
  by (auto simp: parse_xrefs_paging_def and_then_Ok_iff MAX_XREFS_LIMIT_def min_def max_def not_le)

lemma symbol_plan_bounded: "planned_bounded (symbol_plan rd mode session_id t)"
  by (cases t)
    (auto simp: tool_defs xrefs_lookup_def worker_methods dest: xrefs_limit split: option.split)

lemma search_target_bounded:
  "m \<le> 20000 \<Longrightarrow> search_target kind m timeout target = Ok c \<Longrightarrow> call_bounded (fst c)"
  by (auto simp: search_target_def worker_methods map_ok_Ok_iff split: if_splits result.splits)

lemma searched_at_most: "worker_max_results mode v = Ok worker_max \<Longrightarrow> or_default (min n 20000) worker_max \<le> 20000"
  by (auto simp: or_default_def dest: worker_max_results_le split: option.split)

lemma search_plan_bounded: "limits_calls (RSearchTool t) \<Longrightarrow> planned_bounded (search_plan rd mode session_id t)"
  by (cases t)
    (auto simp: tool_defs worker_methods Let_def searched_at_most split: result.split
      dest!: search_target_bounded [OF searched_at_most, rotated])

lemma convert_plan_bounded: "planned_bounded (convert_plan rd mode session_id t)"
  by (cases t) (auto simp: tool_defs)

lemmas plans_bounded = function_plan_bounded string_plan_bounded symbol_plan_bounded memory_plan_bounded
  search_plan_bounded flow_plan_bounded type_plan_bounded convert_plan_bounded

text \<open>C24: whatever integers a client puts into a request, no call that a tool makes of the worker asks for
  more than a fixed amount of work (entries of a page, instructions, bytes, matches, paths, nodes, depth),
  and a page of cross-references has at least one entry, so that paging advances. The tools \<open>local_types\<close>,
  \<open>search_structs\<close>, \<open>find_insns\<close> and \<open>find_insn_operands\<close> are excepted.\<close>

theorem tool_calls_are_bounded:
  assumes "tool_plan_of rd mode session_id req = Ok p" "c \<in> set (plan_calls p)" "limits_calls req"
  shows "call_bounded (fst c)"
proof -
  have "planned_bounded (tool_plan_of rd mode session_id req)"
    using assms(3) by (cases req) (simp_all only: tool_plan_of.simps plans_bounded)
  with assms(1,2) show ?thesis by (simp add: planned_all_def list_all_iff)
qed

text \<open>Readers that print integers and know no JSON text.\<close>

definition plain_readers :: readers where
  "plain_readers = \<lparr>rd_of_text = (\<lambda>_. None), rd_num_text = (\<lambda>n. case num_u64 n of Some k \<Rightarrow> fmt_dec k | None \<Rightarrow> [])\<rparr>"

theorem tool_calls_are_bounded_witness:
  "plan_calls (PCall True id (worker_disasm_by_name ''main'' 1000)) = [worker_disasm_by_name ''main'' 1000] \<and>
   tool_plan_of plain_readers Stdio [] (RFunctionTool (TDisasmByName \<lparr>rq_disasm_by_name_name = ''main'', rq_disasm_by_name_count = Some 5000\<rparr>)) =
     Ok (PCall True id (worker_disasm_by_name ''main'' 1000)) \<and>
   call_bounded (fst (worker_disasm_by_name ''main'' 1000))"
  (is "?calls \<and> ?plan \<and> ?bounded")
proof -
  have plan: ?plan
    by (simp add: tool_disasm_by_name_def arg_usize_def parse_optional_unsigned_def or_default_min_def or_default_def)
  with tool_calls_are_bounded [OF plan, of "worker_disasm_by_name ''main'' 1000"] show ?thesis by simp
qed

section \<open>Paged search\<close>

lemma arg_usize_nat: "n \<le> u64_max \<Longrightarrow> arg_usize (Some (int n)) name = Ok (Some (word_of_nat n))"
  by (simp add: arg_usize_def parse_optional_unsigned_def)

lemma find_bytes_answer:
  assumes "reads_memory db mem" "parse_pattern p = Ok pat" "pat \<noteq> []"
  shows "handle_find_bytes (Some db) p m =
    Ok (JObject [(''pattern'', JString p),
          (''matches'', JArray (map JString (take m (concat (map (segment_hits mem pat) (db_segments db)))))),
          (''count'', json_of_nat (min m (length (concat (map (segment_hits mem pat) (db_segments db))))))])"
  using assms find_in_segments_hits [OF assms(1,3), of m "db_segments db" "[]"]
  by (simp add: handle_find_bytes_def Let_def min.commute)

lemma page_of_fetched:
  assumes "json_get v ''matches'' = Some (JArray (map f (take (unat (min (off + lim) 20000)) xs)))"
  shows "page_entry key label off lim v =
    JObject [(key, JString label),
      (''matches'', JArray (map f (take (unat lim) (drop (unat off) (take (unat (min (off + lim) 20000)) xs))))),
      (''total'', json_of_nat (min (unat (min (off + lim) 20000)) (length xs))), (''next_offset'', JNull)]"
proof -
  have "unat (min (off + lim) 20000) \<le> unat (off + lim)"
    by (metis min.cobounded1 word_le_nat_alt)
  then have "\<not> unat (off + lim) < min (unat (min (off + lim) 20000)) (length xs)" by simp
  then show ?thesis
    using assms by (auto simp: page_entry_def Let_def json_of_opt_def drop_map take_map min.commute)
qed

text \<open>C39: the tool \<open>find_bytes\<close>, outside worker mode and for patterns that can be read, never announces a
  next offset, however many matches follow: it asks the worker for the matches up to the end of the window,
  at most 20000, cuts the window out of those and reports their number as the total. The window is the
  right one when it ends within the first 20000 matches; from offset 20000 on it is empty.\<close>

theorem find_bytes_never_announces_next_page:
  assumes "reads_memory db mem" "\<And>p m t. w (worker_find_bytes p m t) = handle_find_bytes (Some db) p (unat m)"
    "mode \<noteq> Worker" "tool_strings rd (rq_find_bytes_patterns req) = Ok ps"
    "\<And>p. p \<in> set ps \<Longrightarrow> parse_pattern p = Ok (pat p) \<and> pat p \<noteq> []"
    "arg_usize (rq_find_bytes_limit req) ''limit'' = Ok l" "arg_usize (rq_find_bytes_offset req) ''offset'' = Ok n"
    "arg_u64 (rq_find_bytes_timeout_secs req) ''timeout_secs'' = Ok t"
    "lim = or_default_min 100 10000 l" "off = or_default 0 n" "fetched = unat (min (off + lim) 20000)"
  shows "run_tool pretty w (tool_find_bytes rd mode req) = success_text (pretty (results_object (map (\<lambda>p.
      let all = concat (map (segment_hits mem (pat p)) (db_segments db))
      in JObject [(''pattern'', JString p),
           (''matches'', JArray (map JString (take (unat lim) (drop (unat off) (take fetched all))))),
           (''total'', json_of_nat (min fetched (length all))), (''next_offset'', JNull)]) ps)))
    \<and> (unat off + unat lim \<le> 20000 \<longrightarrow>
         (\<forall>all. take (unat lim) (drop (unat off) (take fetched all)) = take (unat lim) (drop (unat off) (all :: string list))))
    \<and> (20000 \<le> unat off \<longrightarrow> (\<forall>all. take (unat lim) (drop (unat off) (take fetched (all :: string list))) = []))"
proof (intro conjI impI allI)
  have plan: "tool_find_bytes rd mode req = Ok (PPages ''pattern'' off lim
      (map (\<lambda>p. (p, Ok (worker_find_bytes p (min (off + lim) 20000) t))) ps))"
    using assms by (simp add: tool_find_bytes_def worker_max_results_def or_default_def Let_def)
  show "run_tool pretty w (tool_find_bytes rd mode req) = success_text (pretty (results_object (map (\<lambda>p.
      let all = concat (map (segment_hits mem (pat p)) (db_segments db))
      in JObject [(''pattern'', JString p),
           (''matches'', JArray (map JString (take (unat lim) (drop (unat off) (take fetched all))))),
           (''total'', json_of_nat (min fetched (length all))), (''next_offset'', JNull)]) ps)))"
    unfolding plan using assms(2,5,11) find_bytes_answer [OF assms(1)]
    by (auto simp: run_tool_def Let_def page_of_fetched intro!: arg_cong [of _ _ success_text] arg_cong [of _ _ pretty]
        arg_cong [of _ _ results_object])
next
  fix all :: "string list"
  assume "unat off + unat lim \<le> 20000"
  moreover from this have "unat (off + lim) = unat off + unat lim"
    by (intro unat_add_u64) simp
  ultimately have "fetched = unat off + unat lim"
    unfolding assms(11) by (simp add: min_def word_le_nat_alt)
  then show "take (unat lim) (drop (unat off) (take fetched all)) = take (unat lim) (drop (unat off) all)"
    by (simp add: drop_take)
next
  fix all :: "string list"
  assume "20000 \<le> unat off"
  moreover have "fetched \<le> 20000" unfolding assms(11) by (simp add: min_def word_le_nat_alt)
  ultimately show "take (unat lim) (drop (unat off) (take fetched all)) = []" by simp
qed

definition searching_worker :: "worker_call \<Rightarrow> (json, tool_error) result" where
  "searching_worker c =
     (case fst c of
        QSearchCall (QFindBytes p m) \<Rightarrow> handle_find_bytes (Some one_segment) p (unat m)
      | _ \<Rightarrow> Err WorkerClosed)"

theorem find_bytes_never_announces_next_page_witness:
  "\<forall>pretty. run_tool pretty searching_worker (tool_find_bytes plain_readers Http
       \<lparr>rq_find_bytes_patterns = JString ''00??'', rq_find_bytes_limit = Some 1, rq_find_bytes_offset = Some 0,
        rq_find_bytes_timeout_secs = None, rq_find_bytes_worker_max_results = None\<rparr>) =
     success_text (pretty (results_object [JObject [(''pattern'', JString ''00??''),
       (''matches'', JArray [JString ''0x10'']), (''total'', json_of_nat 1), (''next_offset'', JNull)]]))"
proof
  fix pretty
  have "trim ''00??'' = ''00??''" by (rule trim_plain) (simp_all add: plain_char_def)
  then have ps: "tool_strings plain_readers (JString ''00??'') = Ok [''00??'']"
    by (simp add: value_to_strings_def)
  have w: "searching_worker (worker_find_bytes p m t) = handle_find_bytes (Some one_segment) p (unat m)" for p m t
    by (simp add: searching_worker_def worker_find_bytes_def)
  let ?req = "\<lparr>rq_find_bytes_patterns = JString ''00??'', rq_find_bytes_limit = Some 1, rq_find_bytes_offset = Some 0,
      rq_find_bytes_timeout_secs = None, rq_find_bytes_worker_max_results = None\<rparr>"
  show "run_tool pretty searching_worker (tool_find_bytes plain_readers Http ?req) =
      success_text (pretty (results_object [JObject [(''pattern'', JString ''00??''),
        (''matches'', JArray [JString ''0x10'']), (''total'', json_of_nat 1), (''next_offset'', JNull)]]))"
    using find_bytes_never_announces_next_page [OF one_segment_memory w, of Http plain_readers ?req "[''00??'']"
        "\<lambda>_. [Some 0, None]" "Some 1" "Some 0" None 1 0 1 pretty] ps
    by (simp add: parse_pattern_example one_segment_hits arg_usize_def arg_u64_def parse_optional_unsigned_def
        or_default_min_def or_default_def Let_def)
qed

section \<open>Limits that are not set\<close>

text \<open>The limit of an instruction search and of two of the lists of types goes to the worker as it is:
  for every number a client can write, each of the four tools makes a call that asks for that much,
  although the schemas of the requests promise at most ten thousand.\<close>

theorem unlimited_tools:
  assumes "n \<le> u64_max" "tool_strings rd patterns = Ok ps" "ps \<noteq> []"
  shows "tool_search_structs \<lparr>rq_structs_offset = None, rq_structs_limit = Some (int n), rq_structs_filter = None,
        rq_structs_timeout_secs = None\<rparr> = plain (worker_structs 0 (word_of_nat n) None None)
    \<and> tool_local_types \<lparr>rq_local_types_offset = None, rq_local_types_limit = Some (int n), rq_local_types_filter = None,
        rq_local_types_timeout_secs = None\<rparr> = plain (worker_local_types 0 (word_of_nat n) None None)
    \<and> tool_find_insns rd \<lparr>rq_find_insns_patterns = patterns, rq_find_insns_limit = Some (int n),
        rq_find_insns_case_insensitive = None, rq_find_insns_timeout_secs = None\<rparr> =
        plain (worker_find_insns ps (word_of_nat n) False None)
    \<and> tool_find_insn_operands rd \<lparr>rq_find_insn_operands_patterns = patterns, rq_find_insn_operands_limit = Some (int n),
        rq_find_insn_operands_case_insensitive = None, rq_find_insn_operands_timeout_secs = None\<rparr> =
        plain (worker_find_insn_operands ps (word_of_nat n) False None)"
proof -
  have "arg_usize None name = Ok None" "arg_u64 None name = Ok None" for name
    by (simp_all add: arg_usize_def arg_u64_def parse_optional_unsigned_def)
  then show ?thesis
    using assms by (simp add: tool_search_structs_def tool_local_types_def tool_find_insns_def
        tool_find_insn_operands_def arg_usize_nat or_default_def)
qed

theorem unlimited_tools_witness:
  "tool_local_types \<lparr>rq_local_types_offset = None, rq_local_types_limit = Some (int 1000000), rq_local_types_filter = None,
     rq_local_types_timeout_secs = None\<rparr> = plain (worker_local_types 0 (word_of_nat 1000000) None None)"
proof -
  have "trim ''mov'' = ''mov''" by (rule trim_plain) (simp_all add: plain_char_def)
  then have ps: "tool_strings plain_readers (JString ''mov'') = Ok [''mov'']"
    by (simp add: value_to_strings_def)
  show ?thesis using unlimited_tools [OF _ ps, of 1000000] by simp
qed

end
