(* ===== verification/Tool_Decode.thy ===== *)
theory Tool_Decode
  imports Mcp_Tool_Props
begin

text \<open>
  How the arguments of a tool call become its argument structure: the readers that the attributes of
  \<open>src/src/server/requests.rs\<close> ask for, and the tools by their names. A member may go by several
  names; two of them in one call are refused, as is a value of another type; unknown members are
  ignored. An optional member may be missing or null.
\<close>

type_synonym tool_args = "(string \<times> json) list"

definition arg_values :: "string list \<Rightarrow> tool_args \<Rightarrow> json list" where
  "arg_values names m = map snd (filter (\<lambda>(k, _). k \<in> set names) m)"

definition req_arg :: "(json \<Rightarrow> 'a option) \<Rightarrow> string list \<Rightarrow> tool_args \<Rightarrow> 'a option" where
  "req_arg conv names m = (case arg_values names m of [v] \<Rightarrow> conv v | _ \<Rightarrow> None)"

definition opt_value :: "(json \<Rightarrow> 'a option) \<Rightarrow> json \<Rightarrow> 'a option option" where
  "opt_value conv v = (if v = JNull then Some None else map_option Some (conv v))"

definition opt_arg :: "(json \<Rightarrow> 'a option) \<Rightarrow> string list \<Rightarrow> tool_args \<Rightarrow> 'a option option" where
  "opt_arg conv names m =
     (case arg_values names m of [] \<Rightarrow> Some None | [v] \<Rightarrow> opt_value conv v | _ \<Rightarrow> None)"

section \<open>Argument structures\<close>

definition de_load_debug_info :: "tool_args \<Rightarrow> load_debug_info_request option" where
  "de_load_debug_info m =
     Option.bind (opt_arg as_str [''path''] m) (\<lambda>v_path.
     Option.bind (opt_arg as_bool [''verbose''] m) (\<lambda>v_verbose.
       Some \<lparr>rq_load_debug_info_path = v_path, rq_load_debug_info_verbose = v_verbose\<rparr>))"

definition de_list_functions :: "tool_args \<Rightarrow> list_functions_request option" where
  "de_list_functions m =
     Option.bind (opt_arg as_i64 [''offset''] m) (\<lambda>v_offset.
     Option.bind (opt_arg as_i64 [''limit'', ''count''] m) (\<lambda>v_limit.
     Option.bind (opt_arg as_str [''filter'', ''query'', ''queries''] m) (\<lambda>v_filter.
     Option.bind (opt_arg as_i64 [''timeout_secs''] m) (\<lambda>v_timeout_secs.
       Some \<lparr>rq_list_functions_offset = v_offset, rq_list_functions_limit = v_limit,
              rq_list_functions_filter = v_filter, rq_list_functions_timeout_secs = v_timeout_secs\<rparr>))))"

definition de_resolve_function :: "tool_args \<Rightarrow> resolve_function_request option" where
  "de_resolve_function m =
     Option.bind (req_arg as_str [''name''] m) (\<lambda>v_name.
       Some \<lparr>rq_resolve_function_name = v_name\<rparr>)"

definition de_addr_info :: "tool_args \<Rightarrow> addr_info_request option" where
  "de_addr_info m =
     Option.bind (opt_arg Some [''address'', ''ea'', ''addr'', ''addresses''] m) (\<lambda>v_address.
     Option.bind (opt_arg as_str [''target_name'', ''name'', ''symbol''] m) (\<lambda>v_target_name.
     Option.bind (opt_arg as_i64 [''offset''] m) (\<lambda>v_offset.
       Some \<lparr>rq_addr_info_address = v_address, rq_addr_info_target_name = v_target_name,
              rq_addr_info_offset = v_offset\<rparr>)))"

definition de_function_at :: "tool_args \<Rightarrow> function_at_request option" where
  "de_function_at m =
     Option.bind (opt_arg Some [''address'', ''ea'', ''addr'', ''addresses''] m) (\<lambda>v_address.
     Option.bind (opt_arg as_str [''target_name'', ''name'', ''symbol''] m) (\<lambda>v_target_name.
     Option.bind (opt_arg as_i64 [''offset''] m) (\<lambda>v_offset.
       Some \<lparr>rq_function_at_address = v_address, rq_function_at_target_name = v_target_name,
              rq_function_at_offset = v_offset\<rparr>)))"

definition de_disasm_function_at :: "tool_args \<Rightarrow> disasm_function_at_request option" where
  "de_disasm_function_at m =
     Option.bind (opt_arg Some [''address'', ''ea'', ''addr'', ''addresses''] m) (\<lambda>v_address.
     Option.bind (opt_arg as_str [''target_name'', ''name'', ''symbol''] m) (\<lambda>v_target_name.
     Option.bind (opt_arg as_i64 [''offset''] m) (\<lambda>v_offset.
     Option.bind (opt_arg as_i64 [''count''] m) (\<lambda>v_count.
       Some \<lparr>rq_disasm_function_at_address = v_address,
              rq_disasm_function_at_target_name = v_target_name,
              rq_disasm_function_at_offset = v_offset, rq_disasm_function_at_count = v_count\<rparr>))))"

definition de_disasm :: "tool_args \<Rightarrow> disasm_request option" where
  "de_disasm m =
     Option.bind (req_arg Some [''address'', ''addrs'', ''addr'', ''addresses''] m) (\<lambda>v_address.
     Option.bind (opt_arg as_i64 [''count''] m) (\<lambda>v_count.
       Some \<lparr>rq_disasm_address = v_address, rq_disasm_count = v_count\<rparr>))"

definition de_disasm_by_name :: "tool_args \<Rightarrow> disasm_by_name_request option" where
  "de_disasm_by_name m =
     Option.bind (req_arg as_str [''name''] m) (\<lambda>v_name.
     Option.bind (opt_arg as_i64 [''count''] m) (\<lambda>v_count.
       Some \<lparr>rq_disasm_by_name_name = v_name, rq_disasm_by_name_count = v_count\<rparr>))"

definition de_decompile :: "tool_args \<Rightarrow> decompile_request option" where
  "de_decompile m =
     Option.bind (req_arg Some [''address'', ''addrs'', ''addr'', ''addresses''] m) (\<lambda>v_address.
       Some \<lparr>rq_decompile_address = v_address\<rparr>)"

definition de_strings :: "tool_args \<Rightarrow> strings_request option" where
  "de_strings m =
     Option.bind (opt_arg as_i64 [''offset''] m) (\<lambda>v_offset.
     Option.bind (opt_arg as_i64 [''limit'', ''count''] m) (\<lambda>v_limit.
     Option.bind (opt_arg as_str [''filter'', ''query''] m) (\<lambda>v_filter.
     Option.bind (opt_arg as_i64 [''timeout_secs''] m) (\<lambda>v_timeout_secs.
       Some \<lparr>rq_strings_offset = v_offset, rq_strings_limit = v_limit,
              rq_strings_filter = v_filter, rq_strings_timeout_secs = v_timeout_secs\<rparr>))))"

definition de_find_string :: "tool_args \<Rightarrow> find_string_request option" where
  "de_find_string m =
     Option.bind (req_arg as_str [''query''] m) (\<lambda>v_query.
     Option.bind (opt_arg as_bool [''exact''] m) (\<lambda>v_exact.
     Option.bind (opt_arg as_bool [''case_insensitive''] m) (\<lambda>v_case_insensitive.
     Option.bind (opt_arg as_i64 [''offset''] m) (\<lambda>v_offset.
     Option.bind (opt_arg as_i64 [''limit'', ''count''] m) (\<lambda>v_limit.
     Option.bind (opt_arg as_i64 [''timeout_secs''] m) (\<lambda>v_timeout_secs.
       Some \<lparr>rq_find_string_query = v_query, rq_find_string_exact = v_exact,
              rq_find_string_case_insensitive = v_case_insensitive,
              rq_find_string_offset = v_offset, rq_find_string_limit = v_limit,
              rq_find_string_timeout_secs = v_timeout_secs\<rparr>))))))"

definition de_xrefs_to_string :: "tool_args \<Rightarrow> xrefs_to_string_request option" where
  "de_xrefs_to_string m =
     Option.bind (req_arg as_str [''query''] m) (\<lambda>v_query.
     Option.bind (opt_arg as_bool [''exact''] m) (\<lambda>v_exact.
     Option.bind (opt_arg as_bool [''case_insensitive''] m) (\<lambda>v_case_insensitive.
     Option.bind (opt_arg as_i64 [''offset''] m) (\<lambda>v_offset.
     Option.bind (opt_arg as_i64 [''limit'', ''count''] m) (\<lambda>v_limit.
     Option.bind (opt_arg as_i64 [''max_xrefs''] m) (\<lambda>v_max_xrefs.
     Option.bind (opt_arg as_i64 [''timeout_secs''] m) (\<lambda>v_timeout_secs.
       Some \<lparr>rq_xrefs_to_string_query = v_query, rq_xrefs_to_string_exact = v_exact,
              rq_xrefs_to_string_case_insensitive = v_case_insensitive,
              rq_xrefs_to_string_offset = v_offset, rq_xrefs_to_string_limit = v_limit,
              rq_xrefs_to_string_max_xrefs = v_max_xrefs,
              rq_xrefs_to_string_timeout_secs = v_timeout_secs\<rparr>)))))))"

definition de_local_types :: "tool_args \<Rightarrow> local_types_request option" where
  "de_local_types m =
     Option.bind (opt_arg as_i64 [''offset''] m) (\<lambda>v_offset.
     Option.bind (opt_arg as_i64 [''limit'', ''count''] m) (\<lambda>v_limit.
     Option.bind (opt_arg as_str [''filter'', ''query''] m) (\<lambda>v_filter.
     Option.bind (opt_arg as_i64 [''timeout_secs''] m) (\<lambda>v_timeout_secs.
       Some \<lparr>rq_local_types_offset = v_offset, rq_local_types_limit = v_limit,
              rq_local_types_filter = v_filter, rq_local_types_timeout_secs = v_timeout_secs\<rparr>))))"

definition de_declare_type :: "tool_args \<Rightarrow> declare_type_request option" where
  "de_declare_type m =
     Option.bind (req_arg as_str [''decl''] m) (\<lambda>v_decl.
     Option.bind (opt_arg as_bool [''relaxed''] m) (\<lambda>v_relaxed.
     Option.bind (opt_arg as_bool [''replace''] m) (\<lambda>v_replace.
     Option.bind (opt_arg as_bool [''multi''] m) (\<lambda>v_multi.
       Some \<lparr>rq_declare_type_decl = v_decl, rq_declare_type_relaxed = v_relaxed,
              rq_declare_type_replace = v_replace, rq_declare_type_multi = v_multi\<rparr>))))"

definition de_structs :: "tool_args \<Rightarrow> structs_request option" where
  "de_structs m =
     Option.bind (opt_arg as_i64 [''offset''] m) (\<lambda>v_offset.
     Option.bind (opt_arg as_i64 [''limit'', ''count''] m) (\<lambda>v_limit.
     Option.bind (opt_arg as_str [''filter'', ''query''] m) (\<lambda>v_filter.
     Option.bind (opt_arg as_i64 [''timeout_secs''] m) (\<lambda>v_timeout_secs.
       Some \<lparr>rq_structs_offset = v_offset, rq_structs_limit = v_limit,
              rq_structs_filter = v_filter, rq_structs_timeout_secs = v_timeout_secs\<rparr>))))"

definition de_struct_info :: "tool_args \<Rightarrow> struct_info_request option" where
  "de_struct_info m =
     Option.bind (opt_arg as_i64 [''ordinal''] m) (\<lambda>v_ordinal.
     Option.bind (opt_arg as_str [''name'', ''struct_name'', ''type_name''] m) (\<lambda>v_name.
       Some \<lparr>rq_struct_info_ordinal = v_ordinal, rq_struct_info_name = v_name\<rparr>))"

definition de_read_struct :: "tool_args \<Rightarrow> read_struct_request option" where
  "de_read_struct m =
     Option.bind (req_arg Some [''address'', ''ea'', ''addr'', ''addresses''] m) (\<lambda>v_address.
     Option.bind (opt_arg as_i64 [''ordinal''] m) (\<lambda>v_ordinal.
     Option.bind (opt_arg as_str [''name'', ''struct_name'', ''type_name''] m) (\<lambda>v_name.
       Some \<lparr>rq_read_struct_address = v_address, rq_read_struct_ordinal = v_ordinal,
              rq_read_struct_name = v_name\<rparr>)))"

definition de_apply_types :: "tool_args \<Rightarrow> apply_types_request option" where
  "de_apply_types m =
     Option.bind (opt_arg Some [''address'', ''ea'', ''addr'', ''addresses''] m) (\<lambda>v_address.
     Option.bind (opt_arg as_str [''target_name'', ''name'', ''symbol''] m) (\<lambda>v_target_name.
     Option.bind (opt_arg as_i64 [''offset''] m) (\<lambda>v_offset.
     Option.bind (opt_arg as_i64 [''stack_offset''] m) (\<lambda>v_stack_offset.
     Option.bind (opt_arg as_str [''stack_name''] m) (\<lambda>v_stack_name.
     Option.bind (opt_arg as_str [''type_name''] m) (\<lambda>v_type_name.
     Option.bind (opt_arg as_str [''decl''] m) (\<lambda>v_decl.
     Option.bind (opt_arg as_bool [''relaxed''] m) (\<lambda>v_relaxed.
     Option.bind (opt_arg as_bool [''delay''] m) (\<lambda>v_delay.
     Option.bind (opt_arg as_bool [''strict''] m) (\<lambda>v_strict.
       Some \<lparr>rq_apply_types_address = v_address, rq_apply_types_target_name = v_target_name,
              rq_apply_types_offset = v_offset, rq_apply_types_stack_offset = v_stack_offset,
              rq_apply_types_stack_name = v_stack_name, rq_apply_types_type_name = v_type_name,
              rq_apply_types_decl = v_decl, rq_apply_types_relaxed = v_relaxed,
              rq_apply_types_delay = v_delay, rq_apply_types_strict = v_strict\<rparr>))))))))))"

definition de_infer_types :: "tool_args \<Rightarrow> infer_types_request option" where
  "de_infer_types m =
     Option.bind (opt_arg Some [''address'', ''ea'', ''addr'', ''addresses''] m) (\<lambda>v_address.
     Option.bind (opt_arg as_str [''target_name'', ''name'', ''symbol''] m) (\<lambda>v_target_name.
     Option.bind (opt_arg as_i64 [''offset''] m) (\<lambda>v_offset.
       Some \<lparr>rq_infer_types_address = v_address, rq_infer_types_target_name = v_target_name,
              rq_infer_types_offset = v_offset\<rparr>)))"

definition de_declare_stack :: "tool_args \<Rightarrow> declare_stack_request option" where
  "de_declare_stack m =
     Option.bind (opt_arg Some [''address'', ''ea'', ''addr'', ''addresses''] m) (\<lambda>v_address.
     Option.bind (opt_arg as_str [''target_name'', ''function'', ''name''] m) (\<lambda>v_target_name.
     Option.bind (req_arg as_i64 [''offset''] m) (\<lambda>v_offset.
     Option.bind (opt_arg as_str [''var_name''] m) (\<lambda>v_var_name.
     Option.bind (req_arg as_str [''decl''] m) (\<lambda>v_decl.
     Option.bind (opt_arg as_bool [''relaxed''] m) (\<lambda>v_relaxed.
       Some \<lparr>rq_declare_stack_address = v_address, rq_declare_stack_target_name = v_target_name,
              rq_declare_stack_offset = v_offset, rq_declare_stack_var_name = v_var_name,
              rq_declare_stack_decl = v_decl, rq_declare_stack_relaxed = v_relaxed\<rparr>))))))"

definition de_delete_stack :: "tool_args \<Rightarrow> delete_stack_request option" where
  "de_delete_stack m =
     Option.bind (opt_arg Some [''address'', ''ea'', ''addr'', ''addresses''] m) (\<lambda>v_address.
     Option.bind (opt_arg as_str [''target_name'', ''function'', ''name''] m) (\<lambda>v_target_name.
     Option.bind (opt_arg as_i64 [''offset''] m) (\<lambda>v_offset.
     Option.bind (opt_arg as_str [''var_name''] m) (\<lambda>v_var_name.
       Some \<lparr>rq_delete_stack_address = v_address, rq_delete_stack_target_name = v_target_name,
              rq_delete_stack_offset = v_offset, rq_delete_stack_var_name = v_var_name\<rparr>))))"

definition de_xrefs_to_field :: "tool_args \<Rightarrow> xrefs_to_field_request option" where
  "de_xrefs_to_field m =
     Option.bind (opt_arg as_i64 [''ordinal''] m) (\<lambda>v_ordinal.
     Option.bind (opt_arg as_str [''name'', ''struct_name'', ''type_name''] m) (\<lambda>v_name.
     Option.bind (opt_arg as_i64 [''member_index''] m) (\<lambda>v_member_index.
     Option.bind (opt_arg as_str [''member_name'', ''member'', ''field'', ''field_name''] m) (\<lambda>v_member_name.
     Option.bind (opt_arg as_i64 [''limit'', ''count''] m) (\<lambda>v_limit.
       Some \<lparr>rq_xrefs_to_field_ordinal = v_ordinal, rq_xrefs_to_field_name = v_name,
              rq_xrefs_to_field_member_index = v_member_index,
              rq_xrefs_to_field_member_name = v_member_name, rq_xrefs_to_field_limit = v_limit\<rparr>)))))"

definition de_address :: "tool_args \<Rightarrow> address_request option" where
  "de_address m =
     Option.bind (req_arg Some [''address'', ''addrs'', ''addr'', ''addresses''] m) (\<lambda>v_address.
       Some \<lparr>rq_address_address = v_address\<rparr>)"

definition de_lumina_lookup :: "tool_args \<Rightarrow> lumina_lookup_request option" where
  "de_lumina_lookup m =
     Option.bind (opt_arg Some [''address'', ''ea'', ''addr'', ''addresses''] m) (\<lambda>v_address.
     Option.bind (opt_arg as_str [''target_name'', ''function'', ''name'', ''symbol''] m) (\<lambda>v_target_name.
     Option.bind (opt_arg as_i64 [''offset''] m) (\<lambda>v_offset.
     Option.bind (opt_arg as_i64 [''timeout_secs''] m) (\<lambda>v_timeout_secs.
       Some \<lparr>rq_lumina_lookup_address = v_address, rq_lumina_lookup_target_name = v_target_name,
              rq_lumina_lookup_offset = v_offset, rq_lumina_lookup_timeout_secs = v_timeout_secs\<rparr>))))"

definition de_lumina_apply :: "tool_args \<Rightarrow> lumina_apply_request option" where
  "de_lumina_apply m =
     Option.bind (opt_arg Some [''address'', ''ea'', ''addr'', ''addresses''] m) (\<lambda>v_address.
     Option.bind (opt_arg as_str [''target_name'', ''function'', ''name'', ''symbol''] m) (\<lambda>v_target_name.
     Option.bind (opt_arg as_i64 [''offset''] m) (\<lambda>v_offset.
     Option.bind (opt_arg as_bool [''force''] m) (\<lambda>v_force.
     Option.bind (opt_arg as_i64 [''timeout_secs''] m) (\<lambda>v_timeout_secs.
       Some \<lparr>rq_lumina_apply_address = v_address, rq_lumina_apply_target_name = v_target_name,
              rq_lumina_apply_offset = v_offset, rq_lumina_apply_force = v_force,
              rq_lumina_apply_timeout_secs = v_timeout_secs\<rparr>)))))"

definition de_xrefs :: "tool_args \<Rightarrow> xrefs_request option" where
  "de_xrefs m =
     Option.bind (req_arg Some [''address'', ''addrs'', ''addr'', ''addresses''] m) (\<lambda>v_address.
     Option.bind (opt_arg as_i64 [''limit'', ''count''] m) (\<lambda>v_limit.
     Option.bind (opt_arg as_i64 [''offset''] m) (\<lambda>v_offset.
     Option.bind (opt_arg as_i64 [''timeout_secs''] m) (\<lambda>v_timeout_secs.
       Some \<lparr>rq_xrefs_address = v_address, rq_xrefs_limit = v_limit, rq_xrefs_offset = v_offset,
              rq_xrefs_timeout_secs = v_timeout_secs\<rparr>))))"

definition de_get_bytes :: "tool_args \<Rightarrow> get_bytes_request option" where
  "de_get_bytes m =
     Option.bind (opt_arg Some [''address'', ''addrs'', ''addr'', ''addresses''] m) (\<lambda>v_address.
     Option.bind (opt_arg as_str [''target_name'', ''name'', ''symbol''] m) (\<lambda>v_target_name.
     Option.bind (opt_arg as_i64 [''offset''] m) (\<lambda>v_offset.
     Option.bind (opt_arg as_i64 [''size'', ''count''] m) (\<lambda>v_size.
       Some \<lparr>rq_get_bytes_address = v_address, rq_get_bytes_target_name = v_target_name,
              rq_get_bytes_offset = v_offset, rq_get_bytes_size = v_size\<rparr>))))"

definition de_set_comments :: "tool_args \<Rightarrow> set_comments_request option" where
  "de_set_comments m =
     Option.bind (opt_arg Some [''address'', ''ea'', ''addr'', ''addresses''] m) (\<lambda>v_address.
     Option.bind (opt_arg as_str [''target_name'', ''name'', ''symbol''] m) (\<lambda>v_target_name.
     Option.bind (opt_arg as_i64 [''offset''] m) (\<lambda>v_offset.
     Option.bind (req_arg as_str [''comment'', ''text''] m) (\<lambda>v_comment.
     Option.bind (opt_arg as_bool [''repeatable'', ''rptble''] m) (\<lambda>v_repeatable.
       Some \<lparr>rq_set_comments_address = v_address, rq_set_comments_target_name = v_target_name,
              rq_set_comments_offset = v_offset, rq_set_comments_comment = v_comment,
              rq_set_comments_repeatable = v_repeatable\<rparr>)))))"

definition de_rename :: "tool_args \<Rightarrow> rename_request option" where
  "de_rename m =
     Option.bind (opt_arg Some [''address'', ''ea'', ''addr'', ''addresses''] m) (\<lambda>v_address.
     Option.bind (opt_arg as_str [''current_name'', ''current'', ''old_name'', ''from''] m) (\<lambda>v_current_name.
     Option.bind (req_arg as_str [''name'', ''new_name''] m) (\<lambda>v_name.
     Option.bind (opt_arg as_i64 [''flags''] m) (\<lambda>v_flags.
       Some \<lparr>rq_rename_address = v_address, rq_rename_current_name = v_current_name,
              rq_rename_name = v_name, rq_rename_flags = v_flags\<rparr>))))"

definition de_patch :: "tool_args \<Rightarrow> patch_request option" where
  "de_patch m =
     Option.bind (opt_arg Some [''address'', ''ea'', ''addr'', ''addresses''] m) (\<lambda>v_address.
     Option.bind (opt_arg as_str [''target_name'', ''name'', ''symbol''] m) (\<lambda>v_target_name.
     Option.bind (opt_arg as_i64 [''offset''] m) (\<lambda>v_offset.
     Option.bind (req_arg Some [''bytes'', ''data''] m) (\<lambda>v_bytes.
       Some \<lparr>rq_patch_address = v_address, rq_patch_target_name = v_target_name,
              rq_patch_offset = v_offset, rq_patch_bytes = v_bytes\<rparr>))))"

definition de_patch_asm :: "tool_args \<Rightarrow> patch_asm_request option" where
  "de_patch_asm m =
     Option.bind (opt_arg Some [''address'', ''ea'', ''addr'', ''addresses''] m) (\<lambda>v_address.
     Option.bind (opt_arg as_str [''target_name'', ''name'', ''symbol''] m) (\<lambda>v_target_name.
     Option.bind (opt_arg as_i64 [''offset''] m) (\<lambda>v_offset.
     Option.bind (req_arg as_str [''line'', ''asm'', ''instruction''] m) (\<lambda>v_line.
       Some \<lparr>rq_patch_asm_address = v_address, rq_patch_asm_target_name = v_target_name,
              rq_patch_asm_offset = v_offset, rq_patch_asm_line = v_line\<rparr>))))"

definition de_paginated :: "tool_args \<Rightarrow> paginated_request option" where
  "de_paginated m =
     Option.bind (opt_arg as_i64 [''offset''] m) (\<lambda>v_offset.
     Option.bind (opt_arg as_i64 [''limit'', ''count''] m) (\<lambda>v_limit.
       Some \<lparr>rq_paginated_offset = v_offset, rq_paginated_limit = v_limit\<rparr>))"

definition de_lookup_funcs :: "tool_args \<Rightarrow> lookup_funcs_request option" where
  "de_lookup_funcs m =
     Option.bind (req_arg Some [''queries'', ''query'', ''names''] m) (\<lambda>v_queries.
       Some \<lparr>rq_lookup_funcs_queries = v_queries\<rparr>)"

definition de_list_globals :: "tool_args \<Rightarrow> list_globals_request option" where
  "de_list_globals m =
     Option.bind (opt_arg as_str [''query'', ''filter''] m) (\<lambda>v_query.
     Option.bind (opt_arg as_i64 [''offset''] m) (\<lambda>v_offset.
     Option.bind (opt_arg as_i64 [''limit'', ''count''] m) (\<lambda>v_limit.
     Option.bind (opt_arg as_i64 [''timeout_secs''] m) (\<lambda>v_timeout_secs.
       Some \<lparr>rq_list_globals_query = v_query, rq_list_globals_offset = v_offset,
              rq_list_globals_limit = v_limit, rq_list_globals_timeout_secs = v_timeout_secs\<rparr>))))"

definition de_analyze_strings :: "tool_args \<Rightarrow> analyze_strings_request option" where
  "de_analyze_strings m =
     Option.bind (opt_arg as_str [''query'', ''filter''] m) (\<lambda>v_query.
     Option.bind (opt_arg as_i64 [''offset''] m) (\<lambda>v_offset.
     Option.bind (opt_arg as_i64 [''limit'', ''count''] m) (\<lambda>v_limit.
     Option.bind (opt_arg as_i64 [''timeout_secs''] m) (\<lambda>v_timeout_secs.
       Some \<lparr>rq_analyze_strings_query = v_query, rq_analyze_strings_offset = v_offset,
              rq_analyze_strings_limit = v_limit, rq_analyze_strings_timeout_secs = v_timeout_secs\<rparr>))))"

definition de_find_bytes :: "tool_args \<Rightarrow> find_bytes_request option" where
  "de_find_bytes m =
     Option.bind (req_arg Some [''patterns'', ''pattern''] m) (\<lambda>v_patterns.
     Option.bind (opt_arg as_i64 [''limit'', ''count''] m) (\<lambda>v_limit.
     Option.bind (opt_arg as_i64 [''offset''] m) (\<lambda>v_offset.
     Option.bind (opt_arg as_i64 [''timeout_secs''] m) (\<lambda>v_timeout_secs.
     Option.bind (opt_arg as_i64 [''_worker_max_results''] m) (\<lambda>v_worker_max_results.
       Some \<lparr>rq_find_bytes_patterns = v_patterns, rq_find_bytes_limit = v_limit,
              rq_find_bytes_offset = v_offset, rq_find_bytes_timeout_secs = v_timeout_secs,
              rq_find_bytes_worker_max_results = v_worker_max_results\<rparr>)))))"

definition de_search :: "tool_args \<Rightarrow> search_request option" where
  "de_search m =
     Option.bind (req_arg Some [''targets'', ''query'', ''queries''] m) (\<lambda>v_targets.
     Option.bind (opt_arg as_str [''kind'', ''type''] m) (\<lambda>v_kind.
     Option.bind (opt_arg as_i64 [''limit'', ''count''] m) (\<lambda>v_limit.
     Option.bind (opt_arg as_i64 [''offset''] m) (\<lambda>v_offset.
     Option.bind (opt_arg as_i64 [''timeout_secs''] m) (\<lambda>v_timeout_secs.
     Option.bind (opt_arg as_i64 [''_worker_max_results''] m) (\<lambda>v_worker_max_results.
       Some \<lparr>rq_search_targets = v_targets, rq_search_kind = v_kind, rq_search_limit = v_limit,
              rq_search_offset = v_offset, rq_search_timeout_secs = v_timeout_secs,
              rq_search_worker_max_results = v_worker_max_results\<rparr>))))))"

definition de_find_insns :: "tool_args \<Rightarrow> find_insns_request option" where
  "de_find_insns m =
     Option.bind (req_arg Some [''patterns'', ''pattern'', ''query'', ''queries'', ''mnemonic'', ''mnemonics''] m) (\<lambda>v_patterns.
     Option.bind (opt_arg as_i64 [''limit'', ''count''] m) (\<lambda>v_limit.
     Option.bind (opt_arg as_bool [''case_insensitive''] m) (\<lambda>v_case_insensitive.
     Option.bind (opt_arg as_i64 [''timeout_secs''] m) (\<lambda>v_timeout_secs.
       Some \<lparr>rq_find_insns_patterns = v_patterns, rq_find_insns_limit = v_limit,
              rq_find_insns_case_insensitive = v_case_insensitive,
              rq_find_insns_timeout_secs = v_timeout_secs\<rparr>))))"

definition de_find_insn_operands :: "tool_args \<Rightarrow> find_insn_operands_request option" where
  "de_find_insn_operands m =
     Option.bind (req_arg Some [''patterns'', ''pattern'', ''query'', ''queries'', ''operands''] m) (\<lambda>v_patterns.
     Option.bind (opt_arg as_i64 [''limit'', ''count''] m) (\<lambda>v_limit.
     Option.bind (opt_arg as_bool [''case_insensitive''] m) (\<lambda>v_case_insensitive.
     Option.bind (opt_arg as_i64 [''timeout_secs''] m) (\<lambda>v_timeout_secs.
       Some \<lparr>rq_find_insn_operands_patterns = v_patterns, rq_find_insn_operands_limit = v_limit,
              rq_find_insn_operands_case_insensitive = v_case_insensitive,
              rq_find_insn_operands_timeout_secs = v_timeout_secs\<rparr>))))"

definition de_find_paths :: "tool_args \<Rightarrow> find_paths_request option" where
  "de_find_paths m =
     Option.bind (req_arg Some [''start''] m) (\<lambda>v_start.
     Option.bind (req_arg Some [''end''] m) (\<lambda>v_end.
     Option.bind (opt_arg as_i64 [''max_paths''] m) (\<lambda>v_max_paths.
     Option.bind (opt_arg as_i64 [''max_depth''] m) (\<lambda>v_max_depth.
       Some \<lparr>rq_find_paths_start = v_start, rq_find_paths_end = v_end,
              rq_find_paths_max_paths = v_max_paths, rq_find_paths_max_depth = v_max_depth\<rparr>))))"

definition de_call_graph :: "tool_args \<Rightarrow> call_graph_request option" where
  "de_call_graph m =
     Option.bind (req_arg Some [''roots'', ''root'', ''addr'', ''address'', ''addrs''] m) (\<lambda>v_roots.
     Option.bind (opt_arg as_i64 [''max_depth''] m) (\<lambda>v_max_depth.
     Option.bind (opt_arg as_i64 [''max_nodes''] m) (\<lambda>v_max_nodes.
       Some \<lparr>rq_call_graph_roots = v_roots, rq_call_graph_max_depth = v_max_depth,
              rq_call_graph_max_nodes = v_max_nodes\<rparr>)))"

definition de_xref_matrix :: "tool_args \<Rightarrow> xref_matrix_request option" where
  "de_xref_matrix m =
     Option.bind (req_arg Some [''addrs'', ''addr'', ''address'', ''addresses''] m) (\<lambda>v_addrs.
       Some \<lparr>rq_xref_matrix_addrs = v_addrs\<rparr>)"

definition de_export_funcs :: "tool_args \<Rightarrow> export_funcs_request option" where
  "de_export_funcs m =
     Option.bind (opt_arg Some [''addrs'', ''addr'', ''address'', ''functions''] m) (\<lambda>v_addrs.
     Option.bind (opt_arg as_i64 [''offset''] m) (\<lambda>v_offset.
     Option.bind (opt_arg as_i64 [''limit'', ''count''] m) (\<lambda>v_limit.
     Option.bind (opt_arg as_str [''format''] m) (\<lambda>v_format.
       Some \<lparr>rq_export_funcs_addrs = v_addrs, rq_export_funcs_offset = v_offset,
              rq_export_funcs_limit = v_limit, rq_export_funcs_format = v_format\<rparr>))))"

definition de_get_string :: "tool_args \<Rightarrow> get_string_request option" where
  "de_get_string m =
     Option.bind (req_arg Some [''address'', ''addrs'', ''addr'', ''addresses''] m) (\<lambda>v_address.
     Option.bind (opt_arg as_i64 [''max_len''] m) (\<lambda>v_max_len.
       Some \<lparr>rq_get_string_address = v_address, rq_get_string_max_len = v_max_len\<rparr>))"

definition de_get_global_value :: "tool_args \<Rightarrow> get_global_value_request option" where
  "de_get_global_value m =
     Option.bind (req_arg Some [''query'', ''queries'', ''names'', ''addrs''] m) (\<lambda>v_query.
       Some \<lparr>rq_get_global_value_query = v_query\<rparr>)"

definition de_int_convert :: "tool_args \<Rightarrow> int_convert_request option" where
  "de_int_convert m =
     Option.bind (req_arg Some [''inputs'', ''input''] m) (\<lambda>v_inputs.
       Some \<lparr>rq_int_convert_inputs = v_inputs\<rparr>)"

definition de_pseudocode_at :: "tool_args \<Rightarrow> pseudocode_at_request option" where
  "de_pseudocode_at m =
     Option.bind (req_arg Some [''address'', ''addrs'', ''addr'', ''addresses''] m) (\<lambda>v_address.
     Option.bind (opt_arg as_str [''end_address''] m) (\<lambda>v_end_address.
       Some \<lparr>rq_pseudocode_at_address = v_address, rq_pseudocode_at_end_address = v_end_address\<rparr>))"

section \<open>Tools by name\<close>

definition tool_readers :: "(string \<times> (tool_args \<Rightarrow> tool_request option)) list" where
  "tool_readers =
     [(''list_functions'', \<lambda>m. map_option (RFunctionTool \<circ> TListFunctions) (de_list_functions m)),
      (''list_funcs'', \<lambda>m. map_option (RFunctionTool \<circ> TListFuncs) (de_list_functions m)),
      (''resolve_function'', \<lambda>m. map_option (RFunctionTool \<circ> TResolveFunction) (de_resolve_function m)),
      (''addr_info'', \<lambda>m. map_option (RFunctionTool \<circ> TAddrInfo) (de_addr_info m)),
      (''function_at'', \<lambda>m. map_option (RFunctionTool \<circ> TFunctionAt) (de_function_at m)),
      (''disasm'', \<lambda>m. map_option (RFunctionTool \<circ> TDisasm) (de_disasm m)),
      (''disasm_by_name'', \<lambda>m. map_option (RFunctionTool \<circ> TDisasmByName) (de_disasm_by_name m)),
      (''disasm_function_at'', \<lambda>m. map_option (RFunctionTool \<circ> TDisasmFunctionAt) (de_disasm_function_at m)),
      (''decompile'', \<lambda>m. map_option (RFunctionTool \<circ> TDecompile) (de_decompile m)),
      (''pseudocode_at'', \<lambda>m. map_option (RFunctionTool \<circ> TPseudocodeAt) (de_pseudocode_at m)),
      (''segments'', \<lambda>m. Some (RFunctionTool TSegments)),
      (''strings'', \<lambda>m. map_option (RStringTool \<circ> TStringsList) (de_strings m)),
      (''find_string'', \<lambda>m. map_option (RStringTool \<circ> TFindString) (de_find_string m)),
      (''xrefs_to_string'', \<lambda>m. map_option (RStringTool \<circ> TXrefsToString) (de_xrefs_to_string m)),
      (''analyze_strings'', \<lambda>m. map_option (RStringTool \<circ> TAnalyzeStrings) (de_analyze_strings m)),
      (''get_string'', \<lambda>m. map_option (RStringTool \<circ> TGetString) (de_get_string m)),
      (''xrefs_to'', \<lambda>m. map_option (RSymbolTool \<circ> TXrefsTo) (de_xrefs m)),
      (''xrefs_from'', \<lambda>m. map_option (RSymbolTool \<circ> TXrefsFrom) (de_xrefs m)),
      (''xrefs_to_field'', \<lambda>m. map_option (RSymbolTool \<circ> TXrefsToField) (de_xrefs_to_field m)),
      (''xref_matrix'', \<lambda>m. map_option (RSymbolTool \<circ> TXrefMatrix) (de_xref_matrix m)),
      (''imports'', \<lambda>m. map_option (RSymbolTool \<circ> TImports) (de_paginated m)),
      (''exports'', \<lambda>m. map_option (RSymbolTool \<circ> TExports) (de_paginated m)),
      (''entrypoints'', \<lambda>m. Some (RSymbolTool TEntrypoints)),
      (''lookup_funcs'', \<lambda>m. map_option (RSymbolTool \<circ> TLookupFuncs) (de_lookup_funcs m)),
      (''list_globals'', \<lambda>m. map_option (RSymbolTool \<circ> TListGlobals) (de_list_globals m)),
      (''export_funcs'', \<lambda>m. map_option (RSymbolTool \<circ> TExportFuncs) (de_export_funcs m)),
      (''idb_meta'', \<lambda>m. Some (RSymbolTool TIdbMeta)),
      (''analysis_status'', \<lambda>m. Some (RSymbolTool TAnalysisStatus)),
      (''load_debug_info'', \<lambda>m. map_option (RSymbolTool \<circ> TLoadDebugInfo) (de_load_debug_info m)),
      (''get_bytes'', \<lambda>m. map_option (RMemoryTool \<circ> TGetBytes) (de_get_bytes m)),
      (''get_u8'', \<lambda>m. map_option (RMemoryTool \<circ> TGetU8) (de_address m)),
      (''get_u16'', \<lambda>m. map_option (RMemoryTool \<circ> TGetU16) (de_address m)),
      (''get_u32'', \<lambda>m. map_option (RMemoryTool \<circ> TGetU32) (de_address m)),
      (''get_u64'', \<lambda>m. map_option (RMemoryTool \<circ> TGetU64) (de_address m)),
      (''get_global_value'', \<lambda>m. map_option (RMemoryTool \<circ> TGetGlobalValue) (de_get_global_value m)),
      (''patch'', \<lambda>m. map_option (RMemoryTool \<circ> TPatch) (de_patch m)),
      (''patch_asm'', \<lambda>m. map_option (RMemoryTool \<circ> TPatchAsm) (de_patch_asm m)),
      (''find_bytes'', \<lambda>m. map_option (RSearchTool \<circ> TFindBytes) (de_find_bytes m)),
      (''search'', \<lambda>m. map_option (RSearchTool \<circ> TSearch) (de_search m)),
      (''find_insns'', \<lambda>m. map_option (RSearchTool \<circ> TFindInsns) (de_find_insns m)),
      (''find_insn_operands'', \<lambda>m. map_option (RSearchTool \<circ> TFindInsnOperands) (de_find_insn_operands m)),
      (''basic_blocks'', \<lambda>m. map_option (RFlowTool \<circ> TBasicBlocks) (de_address m)),
      (''callees'', \<lambda>m. map_option (RFlowTool \<circ> TCallees) (de_address m)),
      (''callers'', \<lambda>m. map_option (RFlowTool \<circ> TCallers) (de_address m)),
      (''find_paths'', \<lambda>m. map_option (RFlowTool \<circ> TFindPaths) (de_find_paths m)),
      (''callgraph'', \<lambda>m. map_option (RFlowTool \<circ> TCallgraph) (de_call_graph m)),
      (''local_types'', \<lambda>m. map_option (RTypeTool \<circ> TLocalTypes) (de_local_types m)),
      (''declare_type'', \<lambda>m. map_option (RTypeTool \<circ> TDeclareType) (de_declare_type m)),
      (''apply_types'', \<lambda>m. map_option (RTypeTool \<circ> TApplyTypes) (de_apply_types m)),
      (''infer_types'', \<lambda>m. map_option (RTypeTool \<circ> TInferTypes) (de_infer_types m)),
      (''stack_frame'', \<lambda>m. map_option (RTypeTool \<circ> TStackFrame) (de_address m)),
      (''declare_stack'', \<lambda>m. map_option (RTypeTool \<circ> TDeclareStack) (de_declare_stack m)),
      (''delete_stack'', \<lambda>m. map_option (RTypeTool \<circ> TDeleteStack) (de_delete_stack m)),
      (''structs'', \<lambda>m. map_option (RTypeTool \<circ> TStructs) (de_structs m)),
      (''search_structs'', \<lambda>m. map_option (RTypeTool \<circ> TSearchStructs) (de_structs m)),
      (''struct_info'', \<lambda>m. map_option (RTypeTool \<circ> TStructInfo) (de_struct_info m)),
      (''read_struct'', \<lambda>m. map_option (RTypeTool \<circ> TReadStruct) (de_read_struct m)),
      (''set_comments'', \<lambda>m. map_option (RTypeTool \<circ> TSetComments) (de_set_comments m)),
      (''rename'', \<lambda>m. map_option (RTypeTool \<circ> TRename) (de_rename m)),
      (''lumina_lookup'', \<lambda>m. map_option (RTypeTool \<circ> TLuminaLookup) (de_lumina_lookup m)),
      (''lumina_apply'', \<lambda>m. map_option (RTypeTool \<circ> TLuminaApply) (de_lumina_apply m)),
      (''int_convert'', \<lambda>m. map_option (RConvertTool \<circ> TIntConvert) (de_int_convert m))]"

text \<open>The request of a call by name; \<open>None\<close> when the library refuses the arguments or the tool is not
  one of these.\<close>

definition read_tool_call :: "string \<Rightarrow> tool_args \<Rightarrow> tool_request option" where
  "read_tool_call name m = Option.bind (map_of tool_readers name) (\<lambda>f. f m)"

text \<open>The table, tool by tool.\<close>

lemma read_tool_calls:
  "read_tool_call ''list_functions'' m = map_option (RFunctionTool \<circ> TListFunctions) (de_list_functions m)"
  "read_tool_call ''list_funcs'' m = map_option (RFunctionTool \<circ> TListFuncs) (de_list_functions m)"
  "read_tool_call ''resolve_function'' m = map_option (RFunctionTool \<circ> TResolveFunction) (de_resolve_function m)"
  "read_tool_call ''addr_info'' m = map_option (RFunctionTool \<circ> TAddrInfo) (de_addr_info m)"
  "read_tool_call ''function_at'' m = map_option (RFunctionTool \<circ> TFunctionAt) (de_function_at m)"
  "read_tool_call ''disasm'' m = map_option (RFunctionTool \<circ> TDisasm) (de_disasm m)"
  "read_tool_call ''disasm_by_name'' m = map_option (RFunctionTool \<circ> TDisasmByName) (de_disasm_by_name m)"
  "read_tool_call ''disasm_function_at'' m = map_option (RFunctionTool \<circ> TDisasmFunctionAt) (de_disasm_function_at m)"
  "read_tool_call ''decompile'' m = map_option (RFunctionTool \<circ> TDecompile) (de_decompile m)"
  "read_tool_call ''pseudocode_at'' m = map_option (RFunctionTool \<circ> TPseudocodeAt) (de_pseudocode_at m)"
  "read_tool_call ''segments'' m = Some (RFunctionTool TSegments)"
  "read_tool_call ''strings'' m = map_option (RStringTool \<circ> TStringsList) (de_strings m)"
  "read_tool_call ''find_string'' m = map_option (RStringTool \<circ> TFindString) (de_find_string m)"
  "read_tool_call ''xrefs_to_string'' m = map_option (RStringTool \<circ> TXrefsToString) (de_xrefs_to_string m)"
  "read_tool_call ''analyze_strings'' m = map_option (RStringTool \<circ> TAnalyzeStrings) (de_analyze_strings m)"
  "read_tool_call ''get_string'' m = map_option (RStringTool \<circ> TGetString) (de_get_string m)"
  "read_tool_call ''xrefs_to'' m = map_option (RSymbolTool \<circ> TXrefsTo) (de_xrefs m)"
  "read_tool_call ''xrefs_from'' m = map_option (RSymbolTool \<circ> TXrefsFrom) (de_xrefs m)"
  "read_tool_call ''xrefs_to_field'' m = map_option (RSymbolTool \<circ> TXrefsToField) (de_xrefs_to_field m)"
  "read_tool_call ''xref_matrix'' m = map_option (RSymbolTool \<circ> TXrefMatrix) (de_xref_matrix m)"
  "read_tool_call ''imports'' m = map_option (RSymbolTool \<circ> TImports) (de_paginated m)"
  "read_tool_call ''exports'' m = map_option (RSymbolTool \<circ> TExports) (de_paginated m)"
  "read_tool_call ''entrypoints'' m = Some (RSymbolTool TEntrypoints)"
  "read_tool_call ''lookup_funcs'' m = map_option (RSymbolTool \<circ> TLookupFuncs) (de_lookup_funcs m)"
  "read_tool_call ''list_globals'' m = map_option (RSymbolTool \<circ> TListGlobals) (de_list_globals m)"
  "read_tool_call ''export_funcs'' m = map_option (RSymbolTool \<circ> TExportFuncs) (de_export_funcs m)"
  "read_tool_call ''idb_meta'' m = Some (RSymbolTool TIdbMeta)"
  "read_tool_call ''analysis_status'' m = Some (RSymbolTool TAnalysisStatus)"
  "read_tool_call ''load_debug_info'' m = map_option (RSymbolTool \<circ> TLoadDebugInfo) (de_load_debug_info m)"
  "read_tool_call ''get_bytes'' m = map_option (RMemoryTool \<circ> TGetBytes) (de_get_bytes m)"
  "read_tool_call ''get_u8'' m = map_option (RMemoryTool \<circ> TGetU8) (de_address m)"
  "read_tool_call ''get_u16'' m = map_option (RMemoryTool \<circ> TGetU16) (de_address m)"
  "read_tool_call ''get_u32'' m = map_option (RMemoryTool \<circ> TGetU32) (de_address m)"
  "read_tool_call ''get_u64'' m = map_option (RMemoryTool \<circ> TGetU64) (de_address m)"
  "read_tool_call ''get_global_value'' m = map_option (RMemoryTool \<circ> TGetGlobalValue) (de_get_global_value m)"
  "read_tool_call ''patch'' m = map_option (RMemoryTool \<circ> TPatch) (de_patch m)"
  "read_tool_call ''patch_asm'' m = map_option (RMemoryTool \<circ> TPatchAsm) (de_patch_asm m)"
  "read_tool_call ''find_bytes'' m = map_option (RSearchTool \<circ> TFindBytes) (de_find_bytes m)"
  "read_tool_call ''search'' m = map_option (RSearchTool \<circ> TSearch) (de_search m)"
  "read_tool_call ''find_insns'' m = map_option (RSearchTool \<circ> TFindInsns) (de_find_insns m)"
  "read_tool_call ''find_insn_operands'' m = map_option (RSearchTool \<circ> TFindInsnOperands) (de_find_insn_operands m)"
  "read_tool_call ''basic_blocks'' m = map_option (RFlowTool \<circ> TBasicBlocks) (de_address m)"
  "read_tool_call ''callees'' m = map_option (RFlowTool \<circ> TCallees) (de_address m)"
  "read_tool_call ''callers'' m = map_option (RFlowTool \<circ> TCallers) (de_address m)"
  "read_tool_call ''find_paths'' m = map_option (RFlowTool \<circ> TFindPaths) (de_find_paths m)"
  "read_tool_call ''callgraph'' m = map_option (RFlowTool \<circ> TCallgraph) (de_call_graph m)"
  "read_tool_call ''local_types'' m = map_option (RTypeTool \<circ> TLocalTypes) (de_local_types m)"
  "read_tool_call ''declare_type'' m = map_option (RTypeTool \<circ> TDeclareType) (de_declare_type m)"
  "read_tool_call ''apply_types'' m = map_option (RTypeTool \<circ> TApplyTypes) (de_apply_types m)"
  "read_tool_call ''infer_types'' m = map_option (RTypeTool \<circ> TInferTypes) (de_infer_types m)"
  "read_tool_call ''stack_frame'' m = map_option (RTypeTool \<circ> TStackFrame) (de_address m)"
  "read_tool_call ''declare_stack'' m = map_option (RTypeTool \<circ> TDeclareStack) (de_declare_stack m)"
  "read_tool_call ''delete_stack'' m = map_option (RTypeTool \<circ> TDeleteStack) (de_delete_stack m)"
  "read_tool_call ''structs'' m = map_option (RTypeTool \<circ> TStructs) (de_structs m)"
  "read_tool_call ''search_structs'' m = map_option (RTypeTool \<circ> TSearchStructs) (de_structs m)"
  "read_tool_call ''struct_info'' m = map_option (RTypeTool \<circ> TStructInfo) (de_struct_info m)"
  "read_tool_call ''read_struct'' m = map_option (RTypeTool \<circ> TReadStruct) (de_read_struct m)"
  "read_tool_call ''set_comments'' m = map_option (RTypeTool \<circ> TSetComments) (de_set_comments m)"
  "read_tool_call ''rename'' m = map_option (RTypeTool \<circ> TRename) (de_rename m)"
  "read_tool_call ''lumina_lookup'' m = map_option (RTypeTool \<circ> TLuminaLookup) (de_lumina_lookup m)"
  "read_tool_call ''lumina_apply'' m = map_option (RTypeTool \<circ> TLuminaApply) (de_lumina_apply m)"
  "read_tool_call ''int_convert'' m = map_option (RConvertTool \<circ> TIntConvert) (de_int_convert m)"
  by (simp_all add: read_tool_call_def tool_readers_def)

lemmas de_defs =
  de_load_debug_info_def de_list_functions_def de_resolve_function_def de_addr_info_def
  de_function_at_def de_disasm_function_at_def de_disasm_def de_disasm_by_name_def
  de_decompile_def de_strings_def de_find_string_def de_xrefs_to_string_def
  de_local_types_def de_declare_type_def de_structs_def de_struct_info_def
  de_read_struct_def de_apply_types_def de_infer_types_def de_declare_stack_def
  de_delete_stack_def de_xrefs_to_field_def de_address_def de_lumina_lookup_def
  de_lumina_apply_def de_xrefs_def de_get_bytes_def de_set_comments_def de_rename_def
  de_patch_def de_patch_asm_def de_paginated_def de_lookup_funcs_def de_list_globals_def
  de_analyze_strings_def de_find_bytes_def de_search_def de_find_insns_def
  de_find_insn_operands_def de_find_paths_def de_call_graph_def de_xref_matrix_def
  de_export_funcs_def de_get_string_def de_get_global_value_def de_int_convert_def
  de_pseudocode_at_def

end
