(* ===== verification/Child_Calls.thy ===== *)
theory Child_Calls
  imports Tool_Decode Pool_Session
begin

text \<open>
  The calls of a pooled session, \<open>src/src/ida/pool.rs\<close>: each method names a tool of the child worker,
  writes its arguments as JSON and says how the child's answer is read. The arms of the backend in
  \<open>src/src/ida/worker.rs\<close> choose the method for a call.
\<close>

section \<open>Calls of a child\<close>

text \<open>The answer is a text, a JSON value, a value of some type, or a list of matches.\<close>

datatype child_reading = ReadText | ReadValue | ReadJson | ReadMatches

record child_call =
  cc_tool :: string
  cc_args :: tool_args
  cc_timeout :: "u64 option"
  cc_reading :: child_reading

definition call_child :: "child_reading \<Rightarrow> string \<Rightarrow> tool_args \<Rightarrow> u64 option \<Rightarrow> child_call" where
  "call_child reading tool args timeout_secs =
     \<lparr>cc_tool = tool, cc_args = args, cc_timeout = timeout_secs, cc_reading = reading\<rparr>"

text \<open>An unsigned integer as JSON.\<close>

definition nat_arg :: "'a::len word \<Rightarrow> json" where
  "nat_arg w = json_of_nat (unat w)"

section \<open>The methods\<close>

definition pooled_load_debug_info :: "string option \<Rightarrow> bool \<Rightarrow> child_call" where
  "pooled_load_debug_info path verbose =
     call_child ReadValue ''load_debug_info''
       [(''path'', json_of_opt JString path), (''verbose'', JBool verbose)] None"

definition pooled_analysis_status :: "child_call" where
  "pooled_analysis_status =
     call_child ReadJson ''analysis_status''
       [] None"

definition pooled_list_functions :: "usize \<Rightarrow> usize \<Rightarrow> string option \<Rightarrow> u64 option \<Rightarrow> child_call" where
  "pooled_list_functions offset limit flt timeout_secs =
     call_child ReadJson ''list_functions''
       [(''offset'', nat_arg offset), (''limit'', nat_arg limit),
        (''filter'', json_of_opt JString flt),
        (''timeout_secs'', json_of_opt nat_arg timeout_secs)] timeout_secs"

definition pooled_resolve_function :: "string \<Rightarrow> child_call" where
  "pooled_resolve_function name =
     call_child ReadJson ''resolve_function''
       [(''name'', JString name)] None"

definition pooled_disasm_by_name :: "string \<Rightarrow> usize \<Rightarrow> child_call" where
  "pooled_disasm_by_name name cnt =
     call_child ReadText ''disasm_by_name''
       [(''name'', JString name), (''count'', nat_arg cnt)] None"

definition pooled_disasm :: "u64 \<Rightarrow> usize \<Rightarrow> child_call" where
  "pooled_disasm addr cnt =
     call_child ReadText ''disasm''
       [(''address'', hex_addr addr), (''count'', nat_arg cnt)] None"

definition pooled_decompile :: "u64 \<Rightarrow> child_call" where
  "pooled_decompile addr =
     call_child ReadText ''decompile''
       [(''address'', hex_addr addr)] None"

definition pooled_segments :: "child_call" where
  "pooled_segments =
     call_child ReadJson ''segments''
       [] None"

definition pooled_strings :: "usize \<Rightarrow> usize \<Rightarrow> string option \<Rightarrow> u64 option \<Rightarrow> child_call" where
  "pooled_strings offset limit flt timeout_secs =
     call_child ReadJson ''strings''
       [(''offset'', nat_arg offset), (''limit'', nat_arg limit),
        (''filter'', json_of_opt JString flt),
        (''timeout_secs'', json_of_opt nat_arg timeout_secs)] timeout_secs"

definition pooled_local_types :: "usize \<Rightarrow> usize \<Rightarrow> string option \<Rightarrow> u64 option \<Rightarrow> child_call" where
  "pooled_local_types offset limit flt timeout_secs =
     call_child ReadJson ''local_types''
       [(''offset'', nat_arg offset), (''limit'', nat_arg limit),
        (''filter'', json_of_opt JString flt),
        (''timeout_secs'', json_of_opt nat_arg timeout_secs)] timeout_secs"

definition pooled_declare_type :: "string \<Rightarrow> bool \<Rightarrow> bool \<Rightarrow> bool \<Rightarrow> child_call" where
  "pooled_declare_type decl relaxed repl multi =
     call_child ReadValue ''declare_type''
       [(''decl'', JString decl), (''relaxed'', JBool relaxed), (''replace'', JBool repl),
        (''multi'', JBool multi)] None"

definition pooled_apply_types :: "u64 option \<Rightarrow> string option \<Rightarrow> int \<Rightarrow> int option \<Rightarrow> string option \<Rightarrow> string option \<Rightarrow> string option \<Rightarrow> bool \<Rightarrow> bool \<Rightarrow> bool \<Rightarrow> child_call" where
  "pooled_apply_types addr name offset stack_offset stack_name decl type_name relaxed delay strict =
     call_child ReadValue ''apply_types''
       [(''address'', opt_hex_addr addr), (''target_name'', json_of_opt JString name),
        (''offset'', json_of_int offset),
        (''stack_offset'', json_of_opt json_of_int stack_offset),
        (''stack_name'', json_of_opt JString stack_name), (''decl'', json_of_opt JString decl),
        (''type_name'', json_of_opt JString type_name), (''relaxed'', JBool relaxed),
        (''delay'', JBool delay), (''strict'', JBool strict)] None"

definition pooled_infer_types :: "u64 option \<Rightarrow> string option \<Rightarrow> int \<Rightarrow> child_call" where
  "pooled_infer_types addr name offset =
     call_child ReadJson ''infer_types''
       [(''address'', opt_hex_addr addr), (''target_name'', json_of_opt JString name),
        (''offset'', json_of_int offset)] None"

definition pooled_addr_info :: "u64 option \<Rightarrow> string option \<Rightarrow> int \<Rightarrow> child_call" where
  "pooled_addr_info addr name offset =
     call_child ReadJson ''addr_info''
       [(''address'', opt_hex_addr addr), (''target_name'', json_of_opt JString name),
        (''offset'', json_of_int offset)] None"

definition pooled_function_at :: "u64 option \<Rightarrow> string option \<Rightarrow> int \<Rightarrow> child_call" where
  "pooled_function_at addr name offset =
     call_child ReadJson ''function_at''
       [(''address'', opt_hex_addr addr), (''target_name'', json_of_opt JString name),
        (''offset'', json_of_int offset)] None"

definition pooled_disasm_function_at :: "u64 option \<Rightarrow> string option \<Rightarrow> int \<Rightarrow> usize \<Rightarrow> child_call" where
  "pooled_disasm_function_at addr name offset cnt =
     call_child ReadText ''disasm_function_at''
       [(''address'', opt_hex_addr addr), (''target_name'', json_of_opt JString name),
        (''offset'', json_of_int offset), (''count'', nat_arg cnt)] None"

definition pooled_declare_stack :: "u64 option \<Rightarrow> string option \<Rightarrow> int \<Rightarrow> string option \<Rightarrow> string \<Rightarrow> bool \<Rightarrow> child_call" where
  "pooled_declare_stack addr name offset var_name decl relaxed =
     call_child ReadJson ''declare_stack''
       [(''address'', opt_hex_addr addr), (''target_name'', json_of_opt JString name),
        (''offset'', json_of_int offset), (''var_name'', json_of_opt JString var_name),
        (''decl'', JString decl), (''relaxed'', JBool relaxed)] None"

definition pooled_delete_stack :: "u64 option \<Rightarrow> string option \<Rightarrow> int option \<Rightarrow> string option \<Rightarrow> child_call" where
  "pooled_delete_stack addr name offset var_name =
     call_child ReadJson ''delete_stack''
       [(''address'', opt_hex_addr addr), (''target_name'', json_of_opt JString name),
        (''offset'', json_of_opt json_of_int offset),
        (''var_name'', json_of_opt JString var_name)] None"

definition pooled_stack_frame :: "u64 \<Rightarrow> child_call" where
  "pooled_stack_frame addr =
     call_child ReadJson ''stack_frame''
       [(''address'', hex_addr addr)] None"

definition pooled_structs :: "usize \<Rightarrow> usize \<Rightarrow> string option \<Rightarrow> u64 option \<Rightarrow> child_call" where
  "pooled_structs offset limit flt timeout_secs =
     call_child ReadJson ''structs''
       [(''offset'', nat_arg offset), (''limit'', nat_arg limit),
        (''filter'', json_of_opt JString flt),
        (''timeout_secs'', json_of_opt nat_arg timeout_secs)] timeout_secs"

definition pooled_struct_info :: "u32 option \<Rightarrow> string option \<Rightarrow> child_call" where
  "pooled_struct_info ordinal name =
     call_child ReadJson ''struct_info''
       [(''ordinal'', json_of_opt nat_arg ordinal), (''name'', json_of_opt JString name)] None"

definition pooled_read_struct :: "u64 \<Rightarrow> u32 option \<Rightarrow> string option \<Rightarrow> child_call" where
  "pooled_read_struct addr ordinal name =
     call_child ReadJson ''read_struct''
       [(''address'', hex_addr addr), (''ordinal'', json_of_opt nat_arg ordinal),
        (''name'', json_of_opt JString name)] None"

definition pooled_xrefs_to :: "u64 \<Rightarrow> usize \<Rightarrow> usize \<Rightarrow> u64 option \<Rightarrow> child_call" where
  "pooled_xrefs_to addr offset limit timeout_secs =
     call_child ReadJson ''xrefs_to''
       [(''address'', hex_addr addr), (''offset'', nat_arg offset), (''limit'', nat_arg limit),
        (''timeout_secs'', json_of_opt nat_arg timeout_secs)] timeout_secs"

definition pooled_xrefs_from :: "u64 \<Rightarrow> usize \<Rightarrow> usize \<Rightarrow> u64 option \<Rightarrow> child_call" where
  "pooled_xrefs_from addr offset limit timeout_secs =
     call_child ReadJson ''xrefs_from''
       [(''address'', hex_addr addr), (''offset'', nat_arg offset), (''limit'', nat_arg limit),
        (''timeout_secs'', json_of_opt nat_arg timeout_secs)] timeout_secs"

definition pooled_xrefs_to_field :: "u32 option \<Rightarrow> string option \<Rightarrow> u32 option \<Rightarrow> string option \<Rightarrow> usize \<Rightarrow> child_call" where
  "pooled_xrefs_to_field ordinal name member_index member_name limit =
     call_child ReadJson ''xrefs_to_field''
       [(''ordinal'', json_of_opt nat_arg ordinal), (''name'', json_of_opt JString name),
        (''member_index'', json_of_opt nat_arg member_index),
        (''member_name'', json_of_opt JString member_name), (''limit'', nat_arg limit)] None"

definition pooled_imports :: "usize \<Rightarrow> usize \<Rightarrow> child_call" where
  "pooled_imports offset limit =
     call_child ReadJson ''imports''
       [(''offset'', nat_arg offset), (''limit'', nat_arg limit)] None"

definition pooled_exports :: "usize \<Rightarrow> usize \<Rightarrow> child_call" where
  "pooled_exports offset limit =
     call_child ReadJson ''exports''
       [(''offset'', nat_arg offset), (''limit'', nat_arg limit)] None"

definition pooled_entrypoints :: "child_call" where
  "pooled_entrypoints =
     call_child ReadJson ''entrypoints''
       [] None"

definition pooled_lumina_lookup :: "u64 option \<Rightarrow> string option \<Rightarrow> int \<Rightarrow> u64 option \<Rightarrow> child_call" where
  "pooled_lumina_lookup addr name offset timeout_secs =
     call_child ReadValue ''lumina_lookup''
       [(''address'', opt_hex_addr addr), (''target_name'', json_of_opt JString name),
        (''offset'', json_of_int offset), (''timeout_secs'', json_of_opt nat_arg timeout_secs)] timeout_secs"

definition pooled_get_bytes :: "u64 option \<Rightarrow> string option \<Rightarrow> int \<Rightarrow> usize \<Rightarrow> child_call" where
  "pooled_get_bytes addr name offset sz =
     call_child ReadJson ''get_bytes''
       [(''address'', opt_hex_addr addr), (''target_name'', json_of_opt JString name),
        (''offset'', json_of_int offset), (''size'', nat_arg sz)] None"

definition pooled_set_comments :: "u64 option \<Rightarrow> string option \<Rightarrow> int \<Rightarrow> string \<Rightarrow> bool \<Rightarrow> child_call" where
  "pooled_set_comments addr name offset comment repeatable =
     call_child ReadValue ''set_comments''
       [(''address'', opt_hex_addr addr), (''target_name'', json_of_opt JString name),
        (''offset'', json_of_int offset), (''comment'', JString comment),
        (''repeatable'', JBool repeatable)] None"

definition pooled_rename :: "u64 option \<Rightarrow> string option \<Rightarrow> string \<Rightarrow> 32 word \<Rightarrow> child_call" where
  "pooled_rename addr current_name new_name flags =
     call_child ReadValue ''rename''
       [(''address'', opt_hex_addr addr), (''current_name'', json_of_opt JString current_name),
        (''name'', JString new_name), (''flags'', json_of_int (sint flags))] None"

definition pooled_patch_bytes :: "u64 option \<Rightarrow> string option \<Rightarrow> int \<Rightarrow> u8 list \<Rightarrow> child_call" where
  "pooled_patch_bytes addr name offset bs =
     call_child ReadValue ''patch''
       [(''address'', opt_hex_addr addr), (''target_name'', json_of_opt JString name),
        (''offset'', json_of_int offset), (''bytes'', JArray (map nat_arg bs))] None"

definition pooled_patch_asm :: "u64 option \<Rightarrow> string option \<Rightarrow> int \<Rightarrow> string \<Rightarrow> child_call" where
  "pooled_patch_asm addr name offset text_line =
     call_child ReadValue ''patch_asm''
       [(''address'', opt_hex_addr addr), (''target_name'', json_of_opt JString name),
        (''offset'', json_of_int offset), (''line'', JString text_line)] None"

definition pooled_basic_blocks :: "u64 \<Rightarrow> child_call" where
  "pooled_basic_blocks addr =
     call_child ReadJson ''basic_blocks''
       [(''address'', hex_addr addr)] None"

definition pooled_callees :: "u64 \<Rightarrow> child_call" where
  "pooled_callees addr =
     call_child ReadJson ''callees''
       [(''address'', hex_addr addr)] None"

definition pooled_callers :: "u64 \<Rightarrow> child_call" where
  "pooled_callers addr =
     call_child ReadJson ''callers''
       [(''address'', hex_addr addr)] None"

definition pooled_idb_meta :: "child_call" where
  "pooled_idb_meta =
     call_child ReadValue ''idb_meta''
       [] None"

definition pooled_lookup_funcs :: "string list \<Rightarrow> child_call" where
  "pooled_lookup_funcs queries =
     call_child ReadValue ''lookup_funcs''
       [(''queries'', JArray (map JString queries))] None"

definition pooled_list_globals :: "string option \<Rightarrow> usize \<Rightarrow> usize \<Rightarrow> u64 option \<Rightarrow> child_call" where
  "pooled_list_globals query offset limit timeout_secs =
     call_child ReadValue ''list_globals''
       [(''query'', json_of_opt JString query), (''offset'', nat_arg offset),
        (''limit'', nat_arg limit), (''timeout_secs'', json_of_opt nat_arg timeout_secs)] timeout_secs"

definition pooled_analyze_strings :: "string option \<Rightarrow> usize \<Rightarrow> usize \<Rightarrow> u64 option \<Rightarrow> child_call" where
  "pooled_analyze_strings query offset limit timeout_secs =
     call_child ReadValue ''analyze_strings''
       [(''query'', json_of_opt JString query), (''offset'', nat_arg offset),
        (''limit'', nat_arg limit), (''timeout_secs'', json_of_opt nat_arg timeout_secs)] timeout_secs"

definition pooled_find_string :: "string \<Rightarrow> bool \<Rightarrow> bool \<Rightarrow> usize \<Rightarrow> usize \<Rightarrow> u64 option \<Rightarrow> child_call" where
  "pooled_find_string query ex case_insensitive offset limit timeout_secs =
     call_child ReadJson ''find_string''
       [(''query'', JString query), (''exact'', JBool ex),
        (''case_insensitive'', JBool case_insensitive), (''offset'', nat_arg offset),
        (''limit'', nat_arg limit), (''timeout_secs'', json_of_opt nat_arg timeout_secs)] timeout_secs"

definition pooled_xrefs_to_string :: "string \<Rightarrow> bool \<Rightarrow> bool \<Rightarrow> usize \<Rightarrow> usize \<Rightarrow> usize \<Rightarrow> u64 option \<Rightarrow> child_call" where
  "pooled_xrefs_to_string query ex case_insensitive offset limit max_xrefs timeout_secs =
     call_child ReadJson ''xrefs_to_string''
       [(''query'', JString query), (''exact'', JBool ex),
        (''case_insensitive'', JBool case_insensitive), (''offset'', nat_arg offset),
        (''limit'', nat_arg limit), (''max_xrefs'', nat_arg max_xrefs),
        (''timeout_secs'', json_of_opt nat_arg timeout_secs)] timeout_secs"

definition pooled_find_insns :: "string list \<Rightarrow> usize \<Rightarrow> bool \<Rightarrow> u64 option \<Rightarrow> child_call" where
  "pooled_find_insns patterns max_results case_insensitive timeout_secs =
     call_child ReadValue ''find_insns''
       [(''patterns'', JArray (map JString patterns)), (''limit'', nat_arg max_results),
        (''case_insensitive'', JBool case_insensitive),
        (''timeout_secs'', json_of_opt nat_arg timeout_secs)] timeout_secs"

definition pooled_find_insn_operands :: "string list \<Rightarrow> usize \<Rightarrow> bool \<Rightarrow> u64 option \<Rightarrow> child_call" where
  "pooled_find_insn_operands patterns max_results case_insensitive timeout_secs =
     call_child ReadValue ''find_insn_operands''
       [(''patterns'', JArray (map JString patterns)), (''limit'', nat_arg max_results),
        (''case_insensitive'', JBool case_insensitive),
        (''timeout_secs'', json_of_opt nat_arg timeout_secs)] timeout_secs"

definition pooled_get_string :: "u64 \<Rightarrow> usize \<Rightarrow> child_call" where
  "pooled_get_string addr max_len =
     call_child ReadValue ''get_string''
       [(''address'', hex_addr addr), (''max_len'', nat_arg max_len)] None"

definition pooled_get_global_value :: "string \<Rightarrow> child_call" where
  "pooled_get_global_value query =
     call_child ReadValue ''get_global_value''
       [(''query'', JString query)] None"

definition pooled_find_paths :: "u64 \<Rightarrow> u64 \<Rightarrow> usize \<Rightarrow> usize \<Rightarrow> child_call" where
  "pooled_find_paths from_addr to_addr max_paths max_depth =
     call_child ReadValue ''find_paths''
       [(''start'', hex_addr from_addr), (''end'', hex_addr to_addr),
        (''max_paths'', nat_arg max_paths), (''max_depth'', nat_arg max_depth)] None"

definition pooled_callgraph :: "u64 \<Rightarrow> usize \<Rightarrow> usize \<Rightarrow> child_call" where
  "pooled_callgraph addr max_depth max_nodes =
     call_child ReadValue ''callgraph''
       [(''roots'', hex_addr addr), (''max_depth'', nat_arg max_depth),
        (''max_nodes'', nat_arg max_nodes)] None"

definition pooled_xref_matrix :: "u64 list \<Rightarrow> child_call" where
  "pooled_xref_matrix addrs =
     call_child ReadValue ''xref_matrix''
       [(''addrs'', JArray (map hex_addr addrs))] None"

definition pooled_export_funcs :: "usize \<Rightarrow> usize \<Rightarrow> child_call" where
  "pooled_export_funcs offset limit =
     call_child ReadJson ''export_funcs''
       [(''offset'', nat_arg offset), (''limit'', nat_arg limit), (''format'', JString ''json'')] None"

definition pooled_pseudocode_at :: "u64 \<Rightarrow> u64 option \<Rightarrow> child_call" where
  "pooled_pseudocode_at addr end_addr =
     call_child ReadValue ''pseudocode_at''
       [(''address'', hex_addr addr), (''end_address'', opt_hex_addr end_addr)] None"

definition lumina_apply_child_args :: "u64 option \<Rightarrow> string option \<Rightarrow> int \<Rightarrow> bool \<Rightarrow> tool_args" where
  "lumina_apply_child_args addr name offset force =
     [(''address'', opt_hex_addr addr), (''target_name'', json_of_opt JString name),
      (''offset'', json_of_int offset), (''force'', JBool force), (''timeout_secs'', JNull)]"

definition pooled_lumina_apply ::
  "u64 option \<Rightarrow> string option \<Rightarrow> int \<Rightarrow> bool \<Rightarrow> u64 option \<Rightarrow> child_call" where
  "pooled_lumina_apply addr name offset force timeout_secs =
     call_child ReadValue ''lumina_apply'' (lumina_apply_child_args addr name offset force) timeout_secs"

definition find_bytes_child_args :: "string \<Rightarrow> usize \<Rightarrow> u64 option \<Rightarrow> tool_args" where
  "find_bytes_child_args pattern max_results timeout_secs =
     [(''patterns'', JArray [JString pattern]), (''limit'', nat_arg (min max_results 10000)),
      (''offset'', json_of_nat 0), (''timeout_secs'', json_of_opt nat_arg timeout_secs),
      (''_worker_max_results'', nat_arg max_results)]"

definition search_child_args :: "string \<Rightarrow> string \<Rightarrow> usize \<Rightarrow> u64 option \<Rightarrow> tool_args" where
  "search_child_args target kind max_results timeout_secs =
     [(''targets'', JArray [JString target]), (''kind'', JString kind), (''limit'', nat_arg (min max_results 10000)),
      (''offset'', json_of_nat 0), (''timeout_secs'', json_of_opt nat_arg timeout_secs),
      (''_worker_max_results'', nat_arg max_results)]"

definition pooled_find_bytes :: "string \<Rightarrow> usize \<Rightarrow> u64 option \<Rightarrow> child_call" where
  "pooled_find_bytes pattern max_results timeout_secs =
     call_child ReadMatches ''find_bytes'' (find_bytes_child_args pattern max_results timeout_secs) timeout_secs"

definition search_one :: "string \<Rightarrow> string \<Rightarrow> usize \<Rightarrow> u64 option \<Rightarrow> child_call" where
  "search_one target kind max_results timeout_secs =
     call_child ReadMatches ''search'' (search_child_args target kind max_results timeout_secs) timeout_secs"

definition pooled_search_text :: "string \<Rightarrow> usize \<Rightarrow> u64 option \<Rightarrow> child_call" where
  "pooled_search_text txt max_results timeout_secs = search_one txt ''text'' max_results timeout_secs"

definition pooled_search_imm :: "u64 \<Rightarrow> usize \<Rightarrow> u64 option \<Rightarrow> child_call" where
  "pooled_search_imm imm max_results timeout_secs = search_one (fmt_hex (unat imm)) ''imm'' max_results timeout_secs"

definition pooled_read_int :: "u64 \<Rightarrow> usize \<Rightarrow> (child_call, tool_error) result" where
  "pooled_read_int addr sz =
     map_ok (\<lambda>tool. call_child ReadValue tool [(''address'', hex_addr addr)] None)
       (if sz = 1 then Ok ''get_u8''
        else if sz = 2 then Ok ''get_u16''
        else if sz = 4 then Ok ''get_u32''
        else if sz = 8 then Ok ''get_u64''
        else Err (InvalidParams (''unsupported integer size: '' @ fmt_dec (unat sz))))"

section \<open>The backend\<close>

text \<open>The time limit that a method of the backend was given.\<close>

fun wait_limit :: "wait \<Rightarrow> u64 option" where
  "wait_limit (Timed t) = t"
| "wait_limit Untimed = None"
| "wait_limit (Watched t) = t"

text \<open>The generation of a pooled analysis status is checked by the session.\<close>

fun database_backend :: "database_call \<Rightarrow> child_call" where
  "database_backend (QLoadDebugInfo path verbose) = pooled_load_debug_info path verbose"
| "database_backend (QAnalysisStatus expected_generation) = pooled_analysis_status"

fun function_backend :: "function_call \<Rightarrow> u64 option \<Rightarrow> child_call" where
  "function_backend (QListFunctions offset limit flt) t = pooled_list_functions offset limit flt t"
| "function_backend (QResolveFunction name) t = pooled_resolve_function name"
| "function_backend (QDisasmByName name cnt) t = pooled_disasm_by_name name cnt"
| "function_backend (QDisasm addr cnt) t = pooled_disasm addr cnt"
| "function_backend (QDecompile addr) t = pooled_decompile addr"
| "function_backend QSegments t = pooled_segments"
| "function_backend (QStrings offset limit flt) t = pooled_strings offset limit flt t"

fun type_backend :: "type_call \<Rightarrow> u64 option \<Rightarrow> child_call" where
  "type_backend (QLocalTypes offset limit flt) t = pooled_local_types offset limit flt t"
| "type_backend (QDeclareType decl relaxed repl multi) t = pooled_declare_type decl relaxed repl multi"
| "type_backend (QApplyTypes addr name offset stack_offset stack_name decl type_name relaxed delay strict) t =
     pooled_apply_types addr name offset stack_offset stack_name decl type_name relaxed delay strict"
| "type_backend (QInferTypes addr name offset) t = pooled_infer_types addr name offset"

fun place_backend :: "place_call \<Rightarrow> child_call" where
  "place_backend (QAddrInfo addr name offset) = pooled_addr_info addr name offset"
| "place_backend (QFunctionAt addr name offset) = pooled_function_at addr name offset"
| "place_backend (QDisasmFunctionAt addr name offset cnt) = pooled_disasm_function_at addr name offset cnt"

fun frame_backend :: "frame_call \<Rightarrow> child_call" where
  "frame_backend (QDeclareStack addr name offset var_name decl relaxed) =
     pooled_declare_stack addr name offset var_name decl relaxed"
| "frame_backend (QDeleteStack addr name offset var_name) = pooled_delete_stack addr name offset var_name"
| "frame_backend (QStackFrame addr) = pooled_stack_frame addr"

fun struct_backend :: "struct_call \<Rightarrow> u64 option \<Rightarrow> child_call" where
  "struct_backend (QStructs offset limit flt) t = pooled_structs offset limit flt t"
| "struct_backend (QStructInfo ordinal name) t = pooled_struct_info ordinal name"
| "struct_backend (QReadStruct addr ordinal name) t = pooled_read_struct addr ordinal name"

fun xref_backend :: "xref_call \<Rightarrow> u64 option \<Rightarrow> child_call" where
  "xref_backend (QXRefsTo addr offset limit) t = pooled_xrefs_to addr offset limit t"
| "xref_backend (QXRefsFrom addr offset limit) t = pooled_xrefs_from addr offset limit t"
| "xref_backend (QXRefsToField ordinal name member_index member_name limit) t =
     pooled_xrefs_to_field ordinal name member_index member_name limit"

fun symbol_backend :: "symbol_call \<Rightarrow> u64 option \<Rightarrow> child_call" where
  "symbol_backend (QImports offset limit) t = pooled_imports offset limit"
| "symbol_backend (QExports offset limit) t = pooled_exports offset limit"
| "symbol_backend QEntrypoints t = pooled_entrypoints"
| "symbol_backend (QLuminaLookup addr name offset) t = pooled_lumina_lookup addr name offset t"
| "symbol_backend (QLuminaApply addr name offset force) t = pooled_lumina_apply addr name offset force t"

fun edit_backend :: "edit_call \<Rightarrow> child_call" where
  "edit_backend (QGetBytes addr name offset sz) = pooled_get_bytes addr name offset sz"
| "edit_backend (QSetComments addr name offset comment repeatable) =
     pooled_set_comments addr name offset comment repeatable"
| "edit_backend (QRename addr current_name new_name flags) = pooled_rename addr current_name new_name flags"
| "edit_backend (QPatchBytes addr name offset bs) = pooled_patch_bytes addr name offset bs"
| "edit_backend (QPatchAsm addr name offset text_line) = pooled_patch_asm addr name offset text_line"

fun lookup_backend :: "lookup_call \<Rightarrow> u64 option \<Rightarrow> child_call" where
  "lookup_backend (QBasicBlocks addr) t = pooled_basic_blocks addr"
| "lookup_backend (QCallees addr) t = pooled_callees addr"
| "lookup_backend (QCallers addr) t = pooled_callers addr"
| "lookup_backend QIdbMeta t = pooled_idb_meta"
| "lookup_backend (QLookupFunctions queries) t = pooled_lookup_funcs queries"
| "lookup_backend (QListGlobals query offset limit) t = pooled_list_globals query offset limit t"
| "lookup_backend (QAnalyzeStrings query offset limit) t = pooled_analyze_strings query offset limit t"
| "lookup_backend (QFindString query ex case_insensitive offset limit) t =
     pooled_find_string query ex case_insensitive offset limit t"
| "lookup_backend (QXrefsToString query ex case_insensitive offset limit max_xrefs) t =
     pooled_xrefs_to_string query ex case_insensitive offset limit max_xrefs t"

fun search_backend :: "search_call \<Rightarrow> u64 option \<Rightarrow> (child_call, tool_error) result" where
  "search_backend (QFindBytes pattern max_results) t = Ok (pooled_find_bytes pattern max_results t)"
| "search_backend (QSearchText txt max_results) t = Ok (pooled_search_text txt max_results t)"
| "search_backend (QSearchImm imm max_results) t = Ok (pooled_search_imm imm max_results t)"
| "search_backend (QFindInsns patterns max_results case_insensitive) t =
     Ok (pooled_find_insns patterns max_results case_insensitive t)"
| "search_backend (QFindInsnOperands patterns max_results case_insensitive) t =
     Ok (pooled_find_insn_operands patterns max_results case_insensitive t)"
| "search_backend (QReadInt addr sz) t = pooled_read_int addr sz"
| "search_backend (QGetString addr max_len) t = Ok (pooled_get_string addr max_len)"
| "search_backend (QGetGlobalValue query) t = Ok (pooled_get_global_value query)"

fun graph_backend :: "graph_call \<Rightarrow> child_call" where
  "graph_backend (QFindPaths from_addr to_addr max_paths max_depth) =
     pooled_find_paths from_addr to_addr max_paths max_depth"
| "graph_backend (QCallGraph addr max_depth max_nodes) = pooled_callgraph addr max_depth max_nodes"
| "graph_backend (QXrefMatrix addrs) = pooled_xref_matrix addrs"
| "graph_backend (QExportFuncs offset limit) = pooled_export_funcs offset limit"
| "graph_backend (QPseudocodeAt addr end_addr) = pooled_pseudocode_at addr end_addr"

definition pooled_backend :: "worker_call \<Rightarrow> (child_call, tool_error) result" where
  "pooled_backend c =
     (let t = wait_limit (snd c)
      in case fst c of
           QDatabaseCall q \<Rightarrow> Ok (database_backend q)
         | QFunctionCall q \<Rightarrow> Ok (function_backend q t)
         | QTypeCall q \<Rightarrow> Ok (type_backend q t)
         | QPlaceCall q \<Rightarrow> Ok (place_backend q)
         | QFrameCall q \<Rightarrow> Ok (frame_backend q)
         | QStructCall q \<Rightarrow> Ok (struct_backend q t)
         | QXrefCall q \<Rightarrow> Ok (xref_backend q t)
         | QSymbolCall q \<Rightarrow> Ok (symbol_backend q t)
         | QEditCall q \<Rightarrow> Ok (edit_backend q)
         | QLookupCall q \<Rightarrow> Ok (lookup_backend q t)
         | QSearchCall q \<Rightarrow> search_backend q t
         | QGraphCall q \<Rightarrow> Ok (graph_backend q))"

section \<open>Answers\<close>

definition no_results :: "string \<Rightarrow> tool_error" where
  "no_results tool = RemoteProtocol (tool @ '' response did not include results'')"

definition extract_first_matches :: "json \<Rightarrow> string \<Rightarrow> (json, tool_error) result" where
  "extract_first_matches value tool =
     and_then (ok_or (Option.bind (json_get value ''results'') as_array) (no_results tool)) (\<lambda>results.
       case results of
         [] \<Rightarrow> Ok (JObject [(''matches'', JArray [])])
       | first # _ \<Rightarrow>
           (case Option.bind (json_get first ''error'') as_str of
              Some message \<Rightarrow> Err (IdaError message)
            | None \<Rightarrow>
                map_ok (\<lambda>matches. JObject [(''matches'', matches)])
                  (ok_or (json_get first ''matches'')
                     (RemoteProtocol (tool @ '' response did not include results[0].matches or results[0].error'')))))"

text \<open>\<open>typed\<close> is the library's reader of the type that a method expects, with the value printed again.\<close>

definition pooled_call ::
  "(string \<Rightarrow> (json, string) result) \<Rightarrow> (string \<Rightarrow> json \<Rightarrow> (json, string) result) \<Rightarrow> pool_config \<Rightarrow>
   (usize \<Rightarrow> spawn_outcome) \<Rightarrow> child_call \<Rightarrow> call_outcome \<Rightarrow> pooled_session \<Rightarrow> pool \<Rightarrow>
   (json, tool_error) result \<times> pooled_session \<times> pool" where
  "pooled_call of_text typed cfg spawns cc oc ss pl =
     (let tool = cc_tool cc; timeout_secs = map_option unat (cc_timeout cc)
      in case cc_reading cc of
           ReadText \<Rightarrow> apfst (map_ok JString) (call_text cfg spawns tool timeout_secs oc ss pl)
         | ReadValue \<Rightarrow> call_value_for_generation of_text cfg spawns tool timeout_secs oc None ss pl
         | ReadJson \<Rightarrow> call_json_for_generation of_text (typed tool) cfg spawns tool timeout_secs oc None ss pl
         | ReadMatches \<Rightarrow>
             apfst (\<lambda>r. and_then r (\<lambda>v. extract_first_matches v tool))
               (call_value_for_generation of_text cfg spawns tool timeout_secs oc None ss pl))"

text \<open>What the child's server answers to a call of one of its tools; \<open>refused\<close> is the library's answer
  to arguments it cannot read.\<close>

definition child_answer ::
  "readers \<Rightarrow> (json \<Rightarrow> string) \<Rightarrow> string \<Rightarrow> call_outcome \<Rightarrow> (worker_call \<Rightarrow> (json, tool_error) result) \<Rightarrow>
   child_call \<Rightarrow> call_outcome" where
  "child_answer rd pretty session_id refused w cc =
     (case read_tool_call (cc_tool cc) (cc_args cc) of
        Some req \<Rightarrow> CallReturned (run_tool pretty w (tool_plan_of rd Worker session_id req))
      | None \<Rightarrow> refused)"
lemmas pooled_methods =
  call_child_def pooled_load_debug_info_def pooled_analysis_status_def pooled_list_functions_def
  pooled_resolve_function_def pooled_disasm_by_name_def pooled_disasm_def pooled_decompile_def
  pooled_segments_def pooled_strings_def pooled_local_types_def pooled_declare_type_def
  pooled_apply_types_def pooled_infer_types_def pooled_addr_info_def pooled_function_at_def
  pooled_disasm_function_at_def pooled_declare_stack_def pooled_delete_stack_def
  pooled_stack_frame_def pooled_structs_def pooled_struct_info_def pooled_read_struct_def
  pooled_xrefs_to_def pooled_xrefs_from_def pooled_xrefs_to_field_def pooled_imports_def
  pooled_exports_def pooled_entrypoints_def pooled_lumina_lookup_def pooled_get_bytes_def
  pooled_set_comments_def pooled_rename_def pooled_patch_bytes_def pooled_patch_asm_def
  pooled_basic_blocks_def pooled_callees_def pooled_callers_def pooled_idb_meta_def
  pooled_lookup_funcs_def pooled_list_globals_def pooled_analyze_strings_def
  pooled_find_string_def pooled_xrefs_to_string_def pooled_find_insns_def
  pooled_find_insn_operands_def pooled_get_string_def pooled_get_global_value_def
  pooled_find_paths_def pooled_callgraph_def pooled_xref_matrix_def pooled_export_funcs_def
  pooled_pseudocode_at_def lumina_apply_child_args_def pooled_lumina_apply_def
  find_bytes_child_args_def search_child_args_def pooled_find_bytes_def search_one_def
  pooled_search_text_def pooled_search_imm_def pooled_read_int_def

end
