(* ===== verification/Child_Props.thy ===== *)
theory Child_Props
  imports Child_Calls Pool_Contract
begin

text \<open>
  A pooled session forwards a call faithfully: the child reads the arguments that the pool writes and
  makes the very call that a local worker would have made, and its answer comes back unchanged.
\<close>

section \<open>Which calls are forwarded\<close>

text \<open>Integers travel as JSON numbers that the child reads into \<open>i64\<close>.\<close>

definition small :: "'a::len word \<Rightarrow> bool" where
  "small w \<longleftrightarrow> unat w < 2 ^ 63"

definition small_opt :: "'a::len word option \<Rightarrow> bool" where
  "small_opt v \<longleftrightarrow> (case v of Some w \<Rightarrow> small w | None \<Rightarrow> True)"

fun timed :: "wait \<Rightarrow> bool" where
  "timed (Timed t) \<longleftrightarrow> small_opt t"
| "timed _ \<longleftrightarrow> False"

fun database_forwards :: "database_call \<Rightarrow> wait \<Rightarrow> bool" where
  "database_forwards (QLoadDebugInfo path verbose) w \<longleftrightarrow> w = Untimed"
| "database_forwards (QAnalysisStatus expected_generation) w \<longleftrightarrow> w = Untimed \<and> expected_generation = None"

fun function_forwards :: "function_call \<Rightarrow> wait \<Rightarrow> bool" where
  "function_forwards (QListFunctions offset limit flt) w \<longleftrightarrow> timed w \<and> small offset \<and> limit \<le> 10000"
| "function_forwards (QDisasmByName name cnt) w \<longleftrightarrow> w = Untimed \<and> cnt \<le> 1000"
| "function_forwards (QDisasm addr cnt) w \<longleftrightarrow> w = Untimed \<and> cnt \<le> 1000"
| "function_forwards (QStrings offset limit flt) w \<longleftrightarrow> timed w \<and> small offset \<and> limit \<le> 10000"
| "function_forwards _ w \<longleftrightarrow> w = Untimed"

fun type_forwards :: "type_call \<Rightarrow> wait \<Rightarrow> bool" where
  "type_forwards (QLocalTypes offset limit flt) w \<longleftrightarrow> timed w \<and> small offset \<and> small limit"
| "type_forwards _ w \<longleftrightarrow> w = Untimed"

fun place_forwards :: "place_call \<Rightarrow> wait \<Rightarrow> bool" where
  "place_forwards (QDisasmFunctionAt addr name offset cnt) w \<longleftrightarrow> w = Untimed \<and> cnt \<le> 5000"
| "place_forwards _ w \<longleftrightarrow> w = Untimed"

definition frame_forwards :: "frame_call \<Rightarrow> wait \<Rightarrow> bool" where
  "frame_forwards q w \<longleftrightarrow> w = Untimed"

text \<open>The tool \<open>structs\<close> of the child limits its pages, also for a \<open>search_structs\<close> of the parent.\<close>

fun struct_forwards :: "struct_call \<Rightarrow> wait \<Rightarrow> bool" where
  "struct_forwards (QStructs offset limit flt) w \<longleftrightarrow> timed w \<and> small offset \<and> limit \<le> 10000"
| "struct_forwards _ w \<longleftrightarrow> w = Untimed"

fun xref_forwards :: "xref_call \<Rightarrow> wait \<Rightarrow> bool" where
  "xref_forwards (QXRefsTo addr offset limit) w \<longleftrightarrow> timed w \<and> small offset \<and> 1 \<le> limit \<and> limit \<le> 10000"
| "xref_forwards (QXRefsFrom addr offset limit) w \<longleftrightarrow> timed w \<and> small offset \<and> 1 \<le> limit \<and> limit \<le> 10000"
| "xref_forwards (QXRefsToField ordinal name member_index member_name limit) w \<longleftrightarrow> w = Untimed \<and> limit \<le> 10000"

fun symbol_forwards :: "symbol_call \<Rightarrow> wait \<Rightarrow> bool" where
  "symbol_forwards (QImports offset limit) w \<longleftrightarrow> w = Untimed \<and> small offset \<and> limit \<le> 10000"
| "symbol_forwards (QExports offset limit) w \<longleftrightarrow> w = Untimed \<and> small offset \<and> limit \<le> 10000"
| "symbol_forwards QEntrypoints w \<longleftrightarrow> w = Untimed"
| "symbol_forwards (QLuminaLookup addr name offset) w \<longleftrightarrow> timed w"
| "symbol_forwards (QLuminaApply addr name offset force) w \<longleftrightarrow> (\<exists>t. w = Watched t)"

text \<open>The child reads bytes at an address or at an offset from a name.\<close>

fun edit_forwards :: "edit_call \<Rightarrow> wait \<Rightarrow> bool" where
  "edit_forwards (QGetBytes addr name offset sz) w \<longleftrightarrow>
     w = Untimed \<and> sz \<le> 0x10000 \<and> (addr \<noteq> None \<and> name = None \<and> offset = 0 \<or> addr = None \<and> name \<noteq> None)"
| "edit_forwards (QPatchBytes addr name offset bs) w \<longleftrightarrow> w = Untimed \<and> bs \<noteq> []"
| "edit_forwards _ w \<longleftrightarrow> w = Untimed"

fun lookup_forwards :: "lookup_call \<Rightarrow> wait \<Rightarrow> bool" where
  "lookup_forwards (QListGlobals query offset limit) w \<longleftrightarrow> timed w \<and> small offset \<and> limit \<le> 10000"
| "lookup_forwards (QAnalyzeStrings query offset limit) w \<longleftrightarrow> timed w \<and> small offset \<and> limit \<le> 10000"
| "lookup_forwards (QFindString query ex case_insensitive offset limit) w \<longleftrightarrow> timed w \<and> small offset \<and> limit \<le> 10000"
| "lookup_forwards (QXrefsToString query ex case_insensitive offset limit max_xrefs) w \<longleftrightarrow>
     timed w \<and> small offset \<and> limit \<le> 10000 \<and> small max_xrefs"
| "lookup_forwards _ w \<longleftrightarrow> w = Untimed"

text \<open>The query of a global goes as text, which the child takes apart: one with a comma, with white space
  at its ends, or that is itself an array does not arrive.\<close>

fun search_forwards :: "readers \<Rightarrow> search_call \<Rightarrow> wait \<Rightarrow> bool" where
  "search_forwards rd (QFindBytes pattern max_results) w \<longleftrightarrow> timed w \<and> max_results \<le> 20000"
| "search_forwards rd (QSearchText txt max_results) w \<longleftrightarrow> timed w \<and> max_results \<le> 20000"
| "search_forwards rd (QSearchImm imm max_results) w \<longleftrightarrow> timed w \<and> max_results \<le> 20000"
| "search_forwards rd (QFindInsns patterns max_results case_insensitive) w \<longleftrightarrow>
     timed w \<and> small max_results \<and> patterns \<noteq> []"
| "search_forwards rd (QFindInsnOperands patterns max_results case_insensitive) w \<longleftrightarrow>
     timed w \<and> small max_results \<and> patterns \<noteq> []"
| "search_forwards rd (QReadInt addr sz) w \<longleftrightarrow> w = Untimed \<and> sz \<in> {1, 2, 4, 8}"
| "search_forwards rd (QGetString addr max_len) w \<longleftrightarrow> w = Untimed \<and> max_len \<le> 0x10000"
| "search_forwards rd (QGetGlobalValue query) w \<longleftrightarrow> w = Untimed \<and> tool_strings rd (JString query) = Ok [query]"

fun graph_forwards :: "graph_call \<Rightarrow> wait \<Rightarrow> bool" where
  "graph_forwards (QFindPaths from_addr to_addr max_paths max_depth) w \<longleftrightarrow>
     w = Untimed \<and> max_paths \<le> 128 \<and> max_depth \<le> 2048"
| "graph_forwards (QCallGraph addr max_depth max_nodes) w \<longleftrightarrow> w = Untimed \<and> max_depth \<le> 16 \<and> max_nodes \<le> 10000"
| "graph_forwards (QXrefMatrix addrs) w \<longleftrightarrow> w = Untimed \<and> addrs \<noteq> []"
| "graph_forwards (QExportFuncs offset limit) w \<longleftrightarrow> w = Untimed \<and> small offset \<and> limit \<le> 10000"
| "graph_forwards (QPseudocodeAt addr end_addr) w \<longleftrightarrow> w = Untimed"

fun forwards :: "readers \<Rightarrow> worker_call \<Rightarrow> bool" where
  "forwards rd (QDatabaseCall q, w) \<longleftrightarrow> database_forwards q w"
| "forwards rd (QFunctionCall q, w) \<longleftrightarrow> function_forwards q w"
| "forwards rd (QTypeCall q, w) \<longleftrightarrow> type_forwards q w"
| "forwards rd (QPlaceCall q, w) \<longleftrightarrow> place_forwards q w"
| "forwards rd (QFrameCall q, w) \<longleftrightarrow> frame_forwards q w"
| "forwards rd (QStructCall q, w) \<longleftrightarrow> struct_forwards q w"
| "forwards rd (QXrefCall q, w) \<longleftrightarrow> xref_forwards q w"
| "forwards rd (QSymbolCall q, w) \<longleftrightarrow> symbol_forwards q w"
| "forwards rd (QEditCall q, w) \<longleftrightarrow> edit_forwards q w"
| "forwards rd (QLookupCall q, w) \<longleftrightarrow> lookup_forwards q w"
| "forwards rd (QSearchCall q, w) \<longleftrightarrow> search_forwards rd q w"
| "forwards rd (QGraphCall q, w) \<longleftrightarrow> graph_forwards q w"

text \<open>What the child's tool should plan for a call.\<close>

fun child_side :: "worker_call \<Rightarrow> worker_call" where
  "child_side (q, Watched t) = (q, Watched None)"
| "child_side (q, w) = (q, w)"

definition child_plan :: "worker_call \<Rightarrow> child_call \<Rightarrow> tool_plan" where
  "child_plan c cc =
     (case fst c of
        QSearchCall (QFindBytes p m) \<Rightarrow> PPages ''pattern'' 0 m [(p, Ok c)]
      | QSearchCall (QSearchText t m) \<Rightarrow> PPages ''target'' 0 m [(t, Ok c)]
      | QSearchCall (QSearchImm v m) \<Rightarrow> PPages ''target'' 0 m [(fmt_hex (unat v), Ok c)]
      | _ \<Rightarrow> PCall (cc_reading cc = ReadText) id (child_side c))"

definition forwarded :: "readers \<Rightarrow> string \<Rightarrow> worker_call \<Rightarrow> bool" where
  "forwarded rd session_id c \<longleftrightarrow>
     (case pooled_backend c of
        Ok cc \<Rightarrow>
          (case read_tool_call (cc_tool cc) (cc_args cc) of
             Some req \<Rightarrow> tool_plan_of rd Worker session_id req = Ok (child_plan c cc)
           | None \<Rightarrow> False)
      | Err _ \<Rightarrow> False)"

section \<open>Writing and reading arguments\<close>

lemma small_u32 [simp]: "small (w :: u32)"
  using unsigned_less [of w, where ?'a = nat] by (simp add: small_def)

lemma small_le: "w \<le> (m :: usize) \<Longrightarrow> small m \<Longrightarrow> small w"
  by (simp add: small_def word_le_nat_alt)

lemma small_bounds [simp]:
  "w \<le> 10000 \<Longrightarrow> small (w :: usize)" "w \<le> 1000 \<Longrightarrow> small (w :: usize)" "w \<le> 5000 \<Longrightarrow> small (w :: usize)"
  "w \<le> 0x10000 \<Longrightarrow> small (w :: usize)" "w \<le> 128 \<Longrightarrow> small (w :: usize)" "w \<le> 2048 \<Longrightarrow> small (w :: usize)"
  "w \<le> 16 \<Longrightarrow> small (w :: usize)" "w \<le> 20000 \<Longrightarrow> small (w :: usize)"
  by (erule small_le, simp add: small_def)+

lemma integer_args [simp]:
  "small w \<Longrightarrow> as_i64 (nat_arg w) = Some (uint w)" "as_i64 (json_of_int i) = Some i"
  by (simp_all add: small_def nat_arg_def json_of_nat_def json_of_int_def)

text \<open>Members as the pool writes them.\<close>

lemma opt_value_args [simp]:
  "small w \<Longrightarrow> opt_value as_i64 (nat_arg w) = Some (Some (uint w))"
  "small_opt n \<Longrightarrow> opt_value as_i64 (json_of_opt nat_arg n) = Some (map_option uint n)"
  "opt_value as_i64 (json_of_int i) = Some (Some i)"
  "opt_value as_i64 (json_of_opt json_of_int j) = Some j"
  "opt_value as_str (JString s) = Some (Some s)"
  "opt_value as_str (json_of_opt JString t) = Some t"
  "opt_value as_bool (JBool b) = Some (Some b)"
  "opt_value Some (hex_addr a) = Some (Some (hex_addr a))"
  "opt_value Some (opt_hex_addr c) = Some (map_option hex_addr c)"
  "opt_value as_str (opt_hex_addr c) = Some (map_option (\<lambda>a. fmt_hex (unat a)) c)"
  "opt_value conv JNull = Some None"
  "opt_value as_i64 (json_of_nat 0) = Some (Some 0)"
  by (auto simp: small_opt_def small_def opt_value_def nat_arg_def json_of_nat_def json_of_int_def json_of_opt_def hex_addr_def
      opt_hex_addr_def split: option.splits)

lemma opt_value_u32 [simp]: "opt_value as_i64 (json_of_opt nat_arg (v :: u32 option)) = Some (map_option uint v)"
  by (rule opt_value_args(2)) (simp add: small_opt_def split: option.split)

lemma arg_words [simp]:
  "arg_usize (Some (uint w)) name = Ok (Some w)" "arg_u64 (Some (uint w)) name = Ok (Some w)"
  "arg_u32 (Some (uint v)) name = Ok (Some v)" "arg_i32 (Some (sint f)) name = Ok (Some f)"
  "arg_usize (Some 0) name = Ok (Some 0)"
  using unsigned_less [of w, where ?'a = int] unsigned_less [of v, where ?'a = int]
    sint_greater_eq [of f] sint_less [of f]
  by (simp_all add: arg_usize_def arg_u64_def arg_u32_def arg_i32_def parse_optional_unsigned_def)

lemma arg_none [simp]: "arg_usize None name = Ok None" "arg_u64 None name = Ok None" "arg_u32 None name = Ok None"
  by (simp_all add: arg_usize_def arg_u64_def arg_u32_def parse_optional_unsigned_def)

lemma arg_options [simp]:
  "arg_u64 (map_option uint t) name = Ok t" "arg_u32 (map_option uint v) name = Ok v"
  by (cases t; simp) (cases v; simp)

lemma hex_addr_form: "address_form a (hex_addr a)"
  by (simp add: address_form_def address_text_def hex_addr_def)

lemma or_default_Some [simp]: "or_default d (Some x) = x" "or_default d None = d"
  by (simp_all add: or_default_def)

lemma or_default_min_Some: "x \<le> m \<Longrightarrow> or_default_min d m (Some x) = x"
  by (simp add: or_default_min_def)

lemma read_hex_addr [simp]:
  "tool_strings rd (hex_addr a) = Ok [fmt_hex (unat a)]" "tool_addresses rd (hex_addr a) = Ok [a]"
  "tool_address rd (hex_addr a) = Ok a"
proof -
  have "list_all2 address_text [a] [fmt_hex (unat a)]" by (simp add: address_text_def)
  from joined_strings [OF this, of "'',''"] value_to_addresses_strings [OF _ this]
  show "tool_strings rd (hex_addr a) = Ok [fmt_hex (unat a)]" "tool_addresses rd (hex_addr a) = Ok [a]"
    by (simp_all add: hex_addr_def)
  then show "tool_address rd (hex_addr a) = Ok a" by (simp add: value_to_single_address_def)
qed

lemma read_strings [simp]: "tool_strings rd (JArray (map JString ss)) = Ok ss"
  by (simp add: value_to_strings_def collect_results_Ok_iff scalar_string_def)

lemma read_addresses: "as \<noteq> [] \<Longrightarrow> tool_addresses rd (JArray (map hex_addr as)) = Ok as"
proof -
  assume "as \<noteq> []"
  moreover have "map hex_addr as = map JString (map (\<lambda>a. fmt_hex (unat a)) as)" by (simp add: hex_addr_def)
  moreover have "list_all2 address_text as (map (\<lambda>a. fmt_hex (unat a)) as)"
    by (simp add: list_all2_conv_all_nth address_text_def)
  ultimately show ?thesis using value_to_addresses_strings read_strings by metis
qed

lemma read_bytes: "bs \<noteq> [] \<Longrightarrow> value_to_bytes (JArray (map nat_arg bs)) = Ok bs"
proof -
  have "collect_results (map (byte_of_value \<circ> nat_arg) bs) = Ok bs"
    by (auto simp: collect_results_Ok_iff byte_of_value_def nat_arg_def json_of_nat_def byte_of_nat_unat)
  then show "bs \<noteq> [] \<Longrightarrow> value_to_bytes (JArray (map nat_arg bs)) = Ok bs"
    by (simp add: value_to_bytes_def)
qed

lemma read_opt_addr [simp]: "tool_opt_address rd (map_option hex_addr a) = Ok a"
  by (cases a) (simp_all add: tool_opt_address_def)

lemmas forwarding = forwarded_def pooled_backend_def child_plan_def pooled_methods read_tool_calls
  tool_defs worker_methods or_default_min_Some opt_arg_def req_arg_def arg_values_def de_defs for_each_address_def

lemma with_session_worker [simp]: "with_session Worker session_id = id"
  by (rule ext) (simp add: with_session_def split: json.split)

lemma page_limit_kept [simp]: "1 \<le> n \<Longrightarrow> n \<le> 10000 \<Longrightarrow> max 1 (min n MAX_XREFS_LIMIT) = (n :: usize)"
  by (simp add: MAX_XREFS_LIMIT_def max_def min_def)

lemma read_end_address [simp]:
  "(case e of None \<Rightarrow> Ok None | Some a \<Rightarrow> ((\<lambda>s. map_ok Some (parse_address s)) \<circ> (\<lambda>a. fmt_hex (unat a))) a) = Ok e"
  by (cases e) (simp_all add: parse_address_printed)

lemma read_one_string [simp]: "tool_strings rd (JArray [JString s]) = Ok [s]"
  using read_strings [of rd "[s]"] by simp

lemma database_forwarded: "database_forwards q w \<Longrightarrow> forwarded rd session_id (QDatabaseCall q, w)"
  by (cases q; cases w) (simp_all add: forwarding)

lemma function_forwarded: "function_forwards q w \<Longrightarrow> forwarded rd session_id (QFunctionCall q, w)"
  by (cases q; cases w) (simp_all add: forwarding)

lemma type_forwarded: "type_forwards q w \<Longrightarrow> forwarded rd session_id (QTypeCall q, w)"
  by (cases q; cases w) (simp_all add: forwarding)

lemma place_forwarded: "place_forwards q w \<Longrightarrow> forwarded rd session_id (QPlaceCall q, w)"
  by (cases q; cases w) (simp_all add: forwarding)

lemma frame_forwarded: "frame_forwards q w \<Longrightarrow> forwarded rd session_id (QFrameCall q, w)"
  by (cases q; cases w) (simp_all add: forwarding frame_forwards_def)

lemma struct_forwarded: "struct_forwards q w \<Longrightarrow> forwarded rd session_id (QStructCall q, w)"
  by (cases q; cases w) (simp_all add: forwarding)

lemma xref_forwarded: "xref_forwards q w \<Longrightarrow> forwarded rd session_id (QXrefCall q, w)"
  by (cases q; cases w) (simp_all add: forwarding xrefs_lookup_def parse_xrefs_paging_def)

lemma symbol_forwarded: "symbol_forwards q w \<Longrightarrow> forwarded rd session_id (QSymbolCall q, w)"
  by (cases q; cases w) (simp_all add: forwarding)

lemma edit_forwarded: "edit_forwards q w \<Longrightarrow> forwarded rd session_id (QEditCall q, w)"
  by (cases q; cases w) (auto simp add: forwarding read_bytes)

lemma lookup_forwarded: "lookup_forwards q w \<Longrightarrow> forwarded rd session_id (QLookupCall q, w)"
  by (cases q; cases w) (simp_all add: forwarding)

lemma search_forwarded: "search_forwards rd q w \<Longrightarrow> forwarded rd session_id (QSearchCall q, w)"
  by (cases q; cases w) (auto simp add: forwarding get_int_values_def worker_max_results_def search_target_def parse_address_printed to_ascii_lowercase_def ascii_lower_def)

lemma graph_forwarded: "graph_forwards q w \<Longrightarrow> forwarded rd session_id (QGraphCall q, w)"
  by (cases q; cases w) (simp_all add: forwarding read_addresses to_ascii_lowercase_def ascii_lower_def)

lemma call_forwarded: "forwards rd c \<Longrightarrow> forwarded rd session_id c"
  by (cases c; cases "fst c") (auto intro: database_forwarded function_forwarded type_forwarded place_forwarded
    frame_forwarded struct_forwarded xref_forwarded symbol_forwarded edit_forwarded lookup_forwarded
    search_forwarded graph_forwarded)

end
