(* ===== verification/Pooled_Tools.thy ===== *)
theory Pooled_Tools
  imports Child_Props "HOL-Library.Countable"
begin

text \<open>
  The tools of a server whose sessions have pooled workers: every call that a tool plans is one that the
  pool forwards, so that the child makes the calls a local server would have made.
\<close>

section \<open>Integers of a request\<close>

definition wf_args :: "tool_args \<Rightarrow> bool" where
  "wf_args m \<longleftrightarrow> wf_json (JObject m)"

definition i64_opt :: "int option \<Rightarrow> bool" where
  "i64_opt v \<longleftrightarrow> (case v of Some i \<Rightarrow> i < 2 ^ 63 | None \<Rightarrow> True)"

lemma arg_values_wf: "wf_args m \<Longrightarrow> v \<in> set (arg_values names m) \<Longrightarrow> wf_json v"
  by (auto simp: wf_args_def arg_values_def list_all_iff)

lemma opt_arg_i64: "opt_arg as_i64 names m = Some v \<Longrightarrow> wf_args m \<Longrightarrow> i64_opt v"
  using arg_values_wf [of m _ names]
  by (fastforce simp: opt_arg_def opt_value_def i64_opt_def wf_num_def
      split: list.splits if_splits option.splits elim!: as_i64.elims)

lemma word_of_i64_small: "0 \<le> i \<Longrightarrow> i < 2 ^ 63 \<Longrightarrow> small (word_of_int i :: 64 word)"
  by (simp add: small_def unsigned_of_int take_bit_int_eq_self)

lemma arg_i64_small:
  "arg_usize v name = Ok w \<Longrightarrow> i64_opt v \<Longrightarrow> small_opt w" "arg_u64 v name = Ok w \<Longrightarrow> i64_opt v \<Longrightarrow> small_opt w"
  by (auto simp: arg_usize_def arg_u64_def parse_optional_unsigned_def i64_opt_def small_opt_def word_of_i64_small
      map_ok_Ok_iff split: option.splits if_splits)

lemma or_default_small [simp]:
  "small_opt w \<Longrightarrow> small (or_default 0 w)" "small_opt w \<Longrightarrow> small (or_default 64 w)" "small_opt w \<Longrightarrow> small (or_default 100 w)"
  for w :: "usize option"
  by (simp_all add: small_opt_def or_default_def small_def split: option.splits)

section \<open>The calls of the tools\<close>

lemma addresses_nonempty: "tool_addresses rd v \<noteq> Ok []"
  by (auto simp: value_to_addresses_def and_then_Ok_iff collect_results_Ok_iff split: if_splits)

lemma byte_pairs_nonempty: "byte_pairs s = Ok [] \<Longrightarrow> even (length s) \<Longrightarrow> s = []"
  by (cases s rule: byte_pairs.cases) (auto simp: and_then_Ok_iff map_ok_Ok_iff)

lemma bytes_nonempty: "value_to_bytes v \<noteq> Ok []"
  by (auto simp: value_to_bytes_def hex_string_bytes_def and_then_Ok_iff map_ok_Ok_iff dest: byte_pairs_nonempty split: json.splits if_splits)

lemma search_target_forwards:
  "search_target kind m t target = Ok c \<Longrightarrow> m \<le> 20000 \<Longrightarrow> small_opt t \<Longrightarrow> forwards rd c"
  by (auto simp: search_target_def worker_methods map_ok_Ok_iff split: if_splits result.splits)

lemma xrefs_paging_small:
  "parse_xrefs_paging req = Ok (offset, limit, t) \<Longrightarrow> i64_opt (rq_xrefs_offset req) \<Longrightarrow> i64_opt (rq_xrefs_timeout_secs req) \<Longrightarrow>
     small offset \<and> small_opt t \<and> 1 \<le> limit \<and> limit \<le> 10000"
  using xrefs_limit [of req offset limit t]
  by (auto simp: parse_xrefs_paging_def and_then_Ok_iff dest!: arg_i64_small)

lemma xrefs_lookup_forwards:
  assumes "i64_opt (rq_xrefs_offset req)" "i64_opt (rq_xrefs_timeout_secs req)"
    "\<And>a offset limit t. small offset \<Longrightarrow> small_opt t \<Longrightarrow> 1 \<le> limit \<Longrightarrow> limit \<le> 10000 \<Longrightarrow> P (call a offset limit t)"
  shows "planned_all P (xrefs_lookup rd call req)"
  using assms by (auto simp: xrefs_lookup_def dest!: xrefs_paging_small)

lemmas calls_forward = de_defs bind_eq_Some_conv tool_defs worker_methods addresses_nonempty bytes_nonempty
  Let_def frame_forwards_def get_int_values_def searched_at_most

lemma function_calls_forward:
  assumes "wf_args m"
  shows
    "de_list_functions m = Some r0 \<Longrightarrow> planned_all (forwards rd) (tool_list_functions r0)"
    "de_list_functions m = Some r1 \<Longrightarrow> planned_all (forwards rd) (tool_list_funcs r1)"
    "de_resolve_function m = Some r2 \<Longrightarrow> planned_all (forwards rd) (tool_resolve_function r2)"
    "de_addr_info m = Some r3 \<Longrightarrow> planned_all (forwards rd) (tool_addr_info rd r3)"
    "de_function_at m = Some r4 \<Longrightarrow> planned_all (forwards rd) (tool_function_at rd r4)"
    "de_disasm m = Some r5 \<Longrightarrow> planned_all (forwards rd) (tool_disasm rd r5)"
    "de_disasm_by_name m = Some r6 \<Longrightarrow> planned_all (forwards rd) (tool_disasm_by_name r6)"
    "de_disasm_function_at m = Some r7 \<Longrightarrow> planned_all (forwards rd) (tool_disasm_function_at rd r7)"
    "de_decompile m = Some r8 \<Longrightarrow> planned_all (forwards rd) (tool_decompile rd r8)"
    "de_pseudocode_at m = Some r9 \<Longrightarrow> planned_all (forwards rd) (tool_pseudocode_at rd r9)"
    "planned_all (forwards rd) (tool_segments)"
  using assms
  by (auto simp: calls_forward dest!: opt_arg_i64 arg_i64_small)

lemma string_calls_forward:
  assumes "wf_args m"
  shows
    "de_strings m = Some r0 \<Longrightarrow> planned_all (forwards rd) (tool_strings_list r0)"
    "de_find_string m = Some r1 \<Longrightarrow> planned_all (forwards rd) (tool_find_string r1)"
    "de_xrefs_to_string m = Some r2 \<Longrightarrow> planned_all (forwards rd) (tool_xrefs_to_string r2)"
    "de_analyze_strings m = Some r3 \<Longrightarrow> planned_all (forwards rd) (tool_analyze_strings r3)"
    "de_get_string m = Some r4 \<Longrightarrow> planned_all (forwards rd) (tool_get_string rd r4)"
  using assms
  by (auto simp: calls_forward dest!: opt_arg_i64 arg_i64_small)

lemma symbol_calls_forward:
  assumes "wf_args m"
  shows
    "de_xrefs m = Some r0 \<Longrightarrow> planned_all (forwards rd) (tool_xrefs_to rd r0)"
    "de_xrefs m = Some r1 \<Longrightarrow> planned_all (forwards rd) (tool_xrefs_from rd r1)"
    "de_xrefs_to_field m = Some r2 \<Longrightarrow> planned_all (forwards rd) (tool_xrefs_to_field r2)"
    "de_xref_matrix m = Some r3 \<Longrightarrow> planned_all (forwards rd) (tool_xref_matrix rd r3)"
    "de_paginated m = Some r4 \<Longrightarrow> planned_all (forwards rd) (tool_imports r4)"
    "de_paginated m = Some r5 \<Longrightarrow> planned_all (forwards rd) (tool_exports r5)"
    "planned_all (forwards rd) (tool_entrypoints)"
    "de_lookup_funcs m = Some r7 \<Longrightarrow> planned_all (forwards rd) (tool_lookup_funcs rd r7)"
    "de_list_globals m = Some r8 \<Longrightarrow> planned_all (forwards rd) (tool_list_globals r8)"
    "de_export_funcs m = Some r9 \<Longrightarrow> planned_all (forwards rd) (tool_export_funcs rd r9)"
    "planned_all (forwards rd) (tool_idb_meta mode session_id)"
    "planned_all (forwards rd) (tool_analysis_status mode session_id)"
    "de_load_debug_info m = Some r12 \<Longrightarrow> planned_all (forwards rd) (tool_load_debug_info r12)"
  using assms
  by (auto simp: calls_forward dest!: opt_arg_i64 arg_i64_small
      intro!: xrefs_lookup_forwards split: option.split)

lemma memory_calls_forward:
  assumes "wf_args m"
  shows
    "de_get_bytes m = Some r0 \<Longrightarrow> planned_all (forwards rd) (tool_get_bytes rd r0)"
    "de_address m = Some r1 \<Longrightarrow> planned_all (forwards rd) (tool_get_u8 rd r1)"
    "de_address m = Some r2 \<Longrightarrow> planned_all (forwards rd) (tool_get_u16 rd r2)"
    "de_address m = Some r3 \<Longrightarrow> planned_all (forwards rd) (tool_get_u32 rd r3)"
    "de_address m = Some r4 \<Longrightarrow> planned_all (forwards rd) (tool_get_u64 rd r4)"
    "de_patch m = Some r5 \<Longrightarrow> planned_all (forwards rd) (tool_patch rd r5)"
    "de_patch_asm m = Some r6 \<Longrightarrow> planned_all (forwards rd) (tool_patch_asm rd r6)"
  using assms
  by (auto simp: calls_forward dest!: opt_arg_i64 arg_i64_small split: option.split)

lemma search_calls_forward:
  assumes "wf_args m"
  shows
    "de_find_bytes m = Some r0 \<Longrightarrow> planned_all (forwards rd) (tool_find_bytes rd mode r0)"
    "de_search m = Some r1 \<Longrightarrow> planned_all (forwards rd) (tool_search rd mode r1)"
    "de_find_insns m = Some r2 \<Longrightarrow> planned_all (forwards rd) (tool_find_insns rd r2)"
    "de_find_insn_operands m = Some r3 \<Longrightarrow> planned_all (forwards rd) (tool_find_insn_operands rd r3)"
  using assms
  by (auto simp: calls_forward dest!: opt_arg_i64 arg_i64_small
      elim!: search_target_forwards [OF _ searched_at_most] split: result.split)

lemma flow_calls_forward:
  assumes "wf_args m"
  shows
    "de_address m = Some r0 \<Longrightarrow> planned_all (forwards rd) (tool_basic_blocks rd r0)"
    "de_address m = Some r1 \<Longrightarrow> planned_all (forwards rd) (tool_callees rd r1)"
    "de_address m = Some r2 \<Longrightarrow> planned_all (forwards rd) (tool_callers rd r2)"
    "de_find_paths m = Some r3 \<Longrightarrow> planned_all (forwards rd) (tool_find_paths rd r3)"
    "de_call_graph m = Some r4 \<Longrightarrow> planned_all (forwards rd) (tool_callgraph rd r4)"
  using assms
  by (auto simp: calls_forward dest!: opt_arg_i64 arg_i64_small)

lemma type_calls_forward:
  assumes "wf_args m"
  shows
    "de_local_types m = Some r0 \<Longrightarrow> planned_all (forwards rd) (tool_local_types r0)"
    "de_declare_type m = Some r1 \<Longrightarrow> planned_all (forwards rd) (tool_declare_type r1)"
    "de_apply_types m = Some r2 \<Longrightarrow> planned_all (forwards rd) (tool_apply_types rd r2)"
    "de_infer_types m = Some r3 \<Longrightarrow> planned_all (forwards rd) (tool_infer_types rd r3)"
    "de_address m = Some r4 \<Longrightarrow> planned_all (forwards rd) (tool_stack_frame rd r4)"
    "de_declare_stack m = Some r5 \<Longrightarrow> planned_all (forwards rd) (tool_declare_stack rd r5)"
    "de_delete_stack m = Some r6 \<Longrightarrow> planned_all (forwards rd) (tool_delete_stack rd r6)"
    "de_structs m = Some r7 \<Longrightarrow> planned_all (forwards rd) (tool_structs r7)"
    "de_struct_info m = Some r8 \<Longrightarrow> planned_all (forwards rd) (tool_struct_info r8)"
    "de_read_struct m = Some r9 \<Longrightarrow> planned_all (forwards rd) (tool_read_struct rd r9)"
    "de_set_comments m = Some r10 \<Longrightarrow> planned_all (forwards rd) (tool_set_comments rd r10)"
    "de_rename m = Some r11 \<Longrightarrow> planned_all (forwards rd) (tool_rename rd r11)"
    "de_lumina_lookup m = Some r12 \<Longrightarrow> planned_all (forwards rd) (tool_lumina_lookup rd r12)"
    "de_lumina_apply m = Some r13 \<Longrightarrow> planned_all (forwards rd) (tool_lumina_apply rd r13)"
  using assms
  by (auto simp: calls_forward dest!: opt_arg_i64 arg_i64_small)

lemma convert_calls_forward:
  assumes "wf_args m"
  shows
    "de_int_convert m = Some r0 \<Longrightarrow> planned_all (forwards rd) (tool_int_convert rd r0)"
  using assms
  by (auto simp: calls_forward dest!: opt_arg_i64 arg_i64_small)

lemma read_calls_forward:
  assumes "read_tool_call name m = Some req" "wf_args m" "name \<noteq> ''search_structs''" "name \<noteq> ''get_global_value''"
  shows "planned_all (forwards rd) (tool_plan_of rd mode session_id req)"
proof -
  from assms(1) obtain f where f: "(name, f) \<in> set tool_readers" "f m = Some req"
    by (auto simp: read_tool_call_def bind_eq_Some_conv dest: map_of_SomeD)
  have "list_all (\<lambda>(n, f). n = ''search_structs'' \<or> n = ''get_global_value'' \<or>
      (\<forall>req. f m = Some req \<longrightarrow> planned_all (forwards rd) (tool_plan_of rd mode session_id req))) tool_readers"
    unfolding tool_readers_def
    by (auto simp: function_calls_forward [OF assms(2)] string_calls_forward [OF assms(2)]
        symbol_calls_forward [OF assms(2)] memory_calls_forward [OF assms(2)] search_calls_forward [OF assms(2)]
        flow_calls_forward [OF assms(2)] type_calls_forward [OF assms(2)] convert_calls_forward [OF assms(2)])
  with f assms(3,4) show ?thesis by (fastforce simp: list_all_iff)
qed

section \<open>Answers\<close>

text \<open>A session that holds a worker, and the answer of that worker's server to a call.\<close>

definition holds_worker :: "pooled_session \<Rightarrow> pool \<Rightarrow> bool" where
  "holds_worker ss pl \<longleftrightarrow>
     (case ps_lease ss of
        Some (h, g) \<Rightarrow> slot_state pl (wh_slot h) = Some (CLeased (wh_session h))
      | None \<Rightarrow> False)"

text \<open>The worker that the tools of a pooled server see: the pool, with the child's server behind it.\<close>

definition pooled_worker ::
  "(string \<Rightarrow> (json, string) result) \<Rightarrow> (string \<Rightarrow> json \<Rightarrow> (json, string) result) \<Rightarrow> pool_config \<Rightarrow>
   (usize \<Rightarrow> spawn_outcome) \<Rightarrow> pooled_session \<Rightarrow> pool \<Rightarrow> (child_call \<Rightarrow> call_outcome) \<Rightarrow> worker_call \<Rightarrow>
   (json, tool_error) result" where
  "pooled_worker of_text typed cfg spawns ss pl child c =
     and_then (pooled_backend c) (\<lambda>cc. fst (pooled_call of_text typed cfg spawns cc (child cc) ss pl))"

lemma returned_result:
  assumes "holds_worker ss pl"
  shows "fst (call_result_for_generation cfg spawns tool t (CallReturned r) None ss pl) =
    (case result_error r tool of Some e \<Rightarrow> Err e | None \<Rightarrow> Ok r)"
  using assms
  by (auto simp: holds_worker_def call_result_for_generation_def required_handle_for_generation_def
      require_lease_generation_def finish_call_def call_tool_def call_admission_def split: option.splits)

lemma success_text_results [simp]:
  "result_error (success_text t) tool = None" "result_text (success_text t) tool = Ok t"
  "ct_structured (success_text t) = None"
  by (simp_all add: success_text_def result_error_def result_text_def first_text_def)

lemma returned_text:
  assumes "holds_worker ss pl"
  shows "fst (call_text cfg spawns tool t (CallReturned (success_text s)) ss pl) = Ok s"
    "of_text s = Ok v \<Longrightarrow> fst (call_value_for_generation of_text cfg spawns tool t (CallReturned (success_text s)) None ss pl) =
       Ok (strip_worker_metadata v)"
    "of_text s = Ok v \<Longrightarrow> typed (strip_worker_metadata v) = Ok u \<Longrightarrow>
       fst (call_json_for_generation of_text typed cfg spawns tool t (CallReturned (success_text s)) None ss pl) = Ok u"
  using returned_result [OF assms, of cfg spawns tool t "success_text s"]
  by (simp_all add: call_text_def call_value_for_generation_def call_json_for_generation_def parse_value_def parse_json_def)

text \<open>Calls whose answers are lists of matches.\<close>

fun match_limit :: "ida_call \<Rightarrow> usize option" where
  "match_limit (QSearchCall (QFindBytes p m)) = Some m"
| "match_limit (QSearchCall (QSearchText t m)) = Some m"
| "match_limit (QSearchCall (QSearchImm v m)) = Some m"
| "match_limit _ = None"

lemma plain_readings [simp]:
  "cc_reading (database_backend q1) \<noteq> ReadMatches"
  "cc_reading (function_backend q2 t) \<noteq> ReadMatches"
  "cc_reading (type_backend q3 t) \<noteq> ReadMatches"
  "cc_reading (place_backend q4) \<noteq> ReadMatches"
  "cc_reading (frame_backend q5) \<noteq> ReadMatches"
  "cc_reading (struct_backend q6 t) \<noteq> ReadMatches"
  "cc_reading (xref_backend q7 t) \<noteq> ReadMatches"
  "cc_reading (symbol_backend q8 t) \<noteq> ReadMatches"
  "cc_reading (edit_backend q9) \<noteq> ReadMatches"
  "cc_reading (lookup_backend q10 t) \<noteq> ReadMatches"
  "cc_reading (graph_backend q11) \<noteq> ReadMatches"
  subgoal by (cases q1) (simp_all add: pooled_methods)
  subgoal by (cases q2) (simp_all add: pooled_methods)
  subgoal by (cases q3) (simp_all add: pooled_methods)
  subgoal by (cases q4) (simp_all add: pooled_methods)
  subgoal by (cases q5) (simp_all add: pooled_methods)
  subgoal by (cases q6) (simp_all add: pooled_methods)
  subgoal by (cases q7) (simp_all add: pooled_methods)
  subgoal by (cases q8) (simp_all add: pooled_methods)
  subgoal by (cases q9) (simp_all add: pooled_methods)
  subgoal by (cases q10) (simp_all add: pooled_methods)
  subgoal by (cases q11) (simp_all add: pooled_methods)
  done

lemma match_limit_reading:
  "pooled_backend c = Ok cc \<Longrightarrow> cc_reading cc = ReadMatches \<longleftrightarrow> match_limit (fst c) \<noteq> None"
  by (cases c; cases "fst c" rule: match_limit.cases)
    (auto simp: pooled_backend_def pooled_methods Let_def map_ok_Ok_iff split: if_splits)

lemma child_plan_call: "match_limit (fst c) = None \<Longrightarrow> child_plan c cc = PCall (cc_reading cc = ReadText) id (child_side c)"
  by (cases "fst c" rule: match_limit.cases) (simp_all add: child_plan_def)

lemma child_plan_pages:
  "match_limit (fst c) = Some m \<Longrightarrow>
     \<exists>key label. key \<in> {''pattern'', ''target''} \<and> child_plan c cc = PPages key 0 m [(label, Ok c)]"
  by (cases "fst c" rule: match_limit.cases) (auto simp: child_plan_def)

text \<open>A good answer to a call: one that its method can carry. Texts are texts, other values have none of
  the members that belong to a session and are of the method's type, and matches are at most as many as
  were asked for.\<close>

definition good_answer ::
  "(string \<Rightarrow> json \<Rightarrow> (json, string) result) \<Rightarrow> worker_call \<Rightarrow> (json, tool_error) result \<Rightarrow> bool" where
  "good_answer typed c a \<longleftrightarrow>
     (case (a, pooled_backend c) of
        (Ok r, Ok cc) \<Rightarrow>
          (case cc_reading cc of
             ReadText \<Rightarrow> (\<exists>t. r = JString t)
           | ReadValue \<Rightarrow> strip_worker_metadata r = r
           | ReadJson \<Rightarrow> strip_worker_metadata r = r \<and> typed (cc_tool cc) r = Ok r
           | ReadMatches \<Rightarrow>
               (\<exists>ms m. json_get r ''matches'' = Some (JArray ms) \<and> match_limit (fst c) = Some m \<and> length ms \<le> unat m))
      | _ \<Rightarrow> False)"

lemma pooled_worker_child:
  assumes "forwards rd c" "pooled_backend c = Ok cc"
  shows "pooled_worker of_text typed cfg spawns ss pl (child_answer rd pretty session_id refused w) c =
    fst (pooled_call of_text typed cfg spawns cc (CallReturned (run_plan pretty w (child_plan c cc))) ss pl)"
  using call_forwarded [OF assms(1), of session_id] assms(2)
  by (auto simp: pooled_worker_def child_answer_def forwarded_def run_tool_def split: option.splits)

lemma pooled_plain_answer:
  assumes "forwards rd c" "match_limit (fst c) = None" "holds_worker ss pl" "good_answer typed c (w c)"
    "w (child_side c) = w c" "\<forall>v. of_text (pretty v) = Ok v"
  shows "pooled_worker of_text typed cfg spawns ss pl (child_answer rd pretty session_id refused w) c = w c"
proof -
  from assms(4) obtain r cc where r: "w c = Ok r" "pooled_backend c = Ok cc"
    by (auto simp: good_answer_def split: result.splits)
  then have "cc_reading cc \<noteq> ReadMatches" using match_limit_reading assms(2) by simp
  with r assms returned_text [OF assms(3)] show ?thesis
    by (auto simp: pooled_worker_child [OF assms(1) r(2)] child_plan_call good_answer_def pooled_call_def Let_def
        intro!: returned_text(3) [where v = r] split: child_reading.splits)
qed

lemma pooled_matches_answer:
  assumes "forwards rd c" "match_limit (fst c) = Some m" "holds_worker ss pl" "good_answer typed c (w c)"
    "\<forall>v. of_text (pretty v) = Ok v"
  shows "\<exists>r ms. w c = Ok r \<and> json_get r ''matches'' = Some (JArray ms) \<and>
    pooled_worker of_text typed cfg spawns ss pl (child_answer rd pretty session_id refused w) c =
      Ok (JObject [(''matches'', JArray ms)])"
proof -
  from assms(4) obtain r cc where r: "w c = Ok r" "pooled_backend c = Ok cc"
    by (auto simp: good_answer_def split: result.splits)
  then have reading: "cc_reading cc = ReadMatches" using match_limit_reading assms(2) by simp
  with r assms(2,4) obtain ms where ms: "json_get r ''matches'' = Some (JArray ms)" "length ms \<le> unat m"
    by (auto simp: good_answer_def)
  from child_plan_pages [OF assms(2), of cc] obtain key label where
    plan: "key \<in> {''pattern'', ''target''}" "child_plan c cc = PPages key 0 m [(label, Ok c)]" by blast
  let ?v = "results_object [page_entry key label 0 m r]"
  have "strip_worker_metadata ?v = ?v"
    by (simp add: results_object_def strip_worker_metadata_def worker_metadata_keys_def)
  moreover have "extract_first_matches ?v tool = Ok (JObject [(''matches'', JArray ms)])" for tool
    using plan(1) ms by (auto simp: extract_first_matches_def results_object_def page_entry_def Let_def)
  ultimately show ?thesis
    using r ms assms(5) returned_text(2) [OF assms(3)] reading
    by (auto simp: pooled_worker_child [OF assms(1) r(2)] plan(2) pooled_call_def Let_def)
qed

section \<open>Pooled and local servers\<close>

text \<open>Only pages of matches come from searches.\<close>

fun plan_shape :: "tool_plan \<Rightarrow> bool" where
  "plan_shape (PCall raw post c) \<longleftrightarrow> match_limit (fst c) = None"
| "plan_shape (PEach key entry cs) \<longleftrightarrow> (\<forall>(_, c) \<in> set cs. match_limit (fst c) = None)"
| "plan_shape _ \<longleftrightarrow> True"

definition planned_shape :: "planned \<Rightarrow> bool" where
  "planned_shape r \<longleftrightarrow> (case r of Ok p \<Rightarrow> plan_shape p | Err _ \<Rightarrow> True)"

lemma planned_shape_simps [simp]:
  "planned_shape (Err e)" "planned_shape (Ok p) \<longleftrightarrow> plan_shape p"
  "planned_shape (and_then r f) \<longleftrightarrow> (\<forall>x. r = Ok x \<longrightarrow> planned_shape (f x))"
  by (simp_all add: planned_shape_def) (cases r; simp)

lemma each_shape [simp]:
  "(\<And>a. match_limit (fst (c a)) = None) \<Longrightarrow> planned_shape (for_each_address key value_key raw c addrs)"
  by (auto simp: for_each_address_def)

lemmas shapes = tool_defs worker_methods get_int_values_def xrefs_lookup_def Let_def

lemma function_shape: "planned_shape (function_plan rd mode session_id t)"
  by (cases t) (auto simp: shapes)

lemma string_shape: "planned_shape (string_plan rd mode session_id t)"
  by (cases t) (auto simp: shapes)

lemma symbol_shape: "planned_shape (symbol_plan rd mode session_id t)"
  by (cases t) (auto simp: shapes split: option.split)

lemma memory_shape: "planned_shape (memory_plan rd mode session_id t)"
  by (cases t) (auto simp: shapes split: option.split)

lemma search_shape: "planned_shape (search_plan rd mode session_id t)"
  by (cases t) (auto simp: shapes)

lemma flow_shape: "planned_shape (flow_plan rd mode session_id t)"
  by (cases t) (auto simp: shapes)

lemma type_shape: "planned_shape (type_plan rd mode session_id t)"
  by (cases t) (auto simp: shapes)

lemma convert_shape: "planned_shape (convert_plan rd mode session_id t)"
  by (cases t) (auto simp: shapes)

lemma tool_plan_shape: "planned_shape (tool_plan_of rd mode session_id req)"
  by (cases req) (simp_all add: function_shape string_shape symbol_shape memory_shape search_shape flow_shape
      type_shape convert_shape)

lemma page_entry_matches:
  "json_get r ''matches'' = json_get r' ''matches'' \<Longrightarrow> page_entry key label offset limit r = page_entry key label offset limit r'"
  by (simp add: page_entry_def)

text \<open>Two workers that answer the calls of a plan alike give the same answer of the tool; of a search
  only the matches count.\<close>

lemma run_plan_cong:
  assumes "plan_shape p"
    "\<And>c. c \<in> set (plan_calls p) \<Longrightarrow> match_limit (fst c) = None \<Longrightarrow> w c = w' c"
    "\<And>c. c \<in> set (plan_calls p) \<Longrightarrow> match_limit (fst c) \<noteq> None \<Longrightarrow>
       \<exists>r r'. w c = Ok r \<and> w' c = Ok r' \<and> json_get r ''matches'' = json_get r' ''matches''"
  shows "run_plan pretty w p = run_plan pretty w' p"
proof (cases p)
  case (PPages key offset limit cs)
  have "(case and_then c w of Ok r \<Rightarrow> page_entry key label offset limit r | Err e \<Rightarrow> error_entry key label e) =
      (case and_then c w' of Ok r \<Rightarrow> page_entry key label offset limit r | Err e \<Rightarrow> error_entry key label e)"
    if "(label, c) \<in> set cs" for label c
  proof (cases c)
    case (Ok q)
    with that PPages have q: "q \<in> set (plan_calls p)" by (force simp: List.map_filter_def)
    show ?thesis
    proof (cases "match_limit (fst q)")
      case None
      with assms(2) [OF q] Ok show ?thesis by simp
    next
      case (Some m)
      with assms(3) [OF q] obtain r r' where "w q = Ok r" "w' q = Ok r'" "json_get r ''matches'' = json_get r' ''matches''"
        by auto
      with Ok page_entry_matches [of r r' key label offset limit] show ?thesis by simp
    qed
  qed simp
  with PPages show ?thesis by (auto intro!: arg_cong [of _ _ success_text] arg_cong [of _ _ pretty] arg_cong [of _ _ results_object])
next
  case (PEach key entry cs)
  have "w c = w' c" if "(label, c) \<in> set cs" for label c
  proof (rule assms(2))
    show "c \<in> set (plan_calls p)" using that PEach by force
    show "match_limit (fst c) = None" using that PEach assms(1) by auto
  qed
  with PEach show ?thesis
    by (auto intro!: arg_cong [of _ _ success_text] arg_cong [of _ _ pretty] arg_cong [of _ _ results_object])
qed (use assms in auto)

text \<open>C13: a tool of a server with pooled workers answers as a server with the database in its own process
  does: the pool writes the arguments of each call, the child reads them back and makes the same call,
  and its answer returns unchanged through the child's text. It holds for every tool but
  \<open>search_structs\<close>, whose pages the child limits, and \<open>get_global_value\<close>, whose query the child takes
  apart; for calls that succeed, with a printer whose texts the reader reads back.\<close>

theorem pooled_tool_answers_like_local:
  assumes "read_tool_call name args = Some req" "wf_args args" "name \<noteq> ''search_structs''" "name \<noteq> ''get_global_value''"
    and "tool_plan_of rd mode session_id req = Ok p" "holds_worker ss pl"
    and "\<forall>c \<in> set (plan_calls p). good_answer typed c (w c) \<and> w (child_side c) = w c"
    and "\<forall>v. of_text (pretty v) = Ok v"
  shows "run_plan pretty (pooled_worker of_text typed cfg spawns ss pl (child_answer rd pretty child_session refused w)) p =
    run_plan pretty w p"
proof (rule run_plan_cong)
  show "plan_shape p" using tool_plan_shape [of rd mode session_id req] assms(5) by simp
next
  fix c
  assume c: "c \<in> set (plan_calls p)"
  then have fw: "forwards rd c"
    using read_calls_forward [OF assms(1-4), of rd mode session_id] assms(5) by (simp add: planned_all_def list_all_iff)
  from assms(7) c have good: "good_answer typed c (w c)" "w (child_side c) = w c" by auto
  let ?pw = "pooled_worker of_text typed cfg spawns ss pl (child_answer rd pretty child_session refused w)"
  show "?pw c = w c" if "match_limit (fst c) = None"
    by (rule pooled_plain_answer [OF fw that assms(6) good assms(8)])
  show "\<exists>r r'. ?pw c = Ok r \<and> w c = Ok r' \<and> json_get r ''matches'' = json_get r' ''matches''"
    if many: "match_limit (fst c) \<noteq> None"
  proof -
    from many obtain m where "match_limit (fst c) = Some m" by blast
    from pooled_matches_answer [where w = w and of_text = of_text and pretty = pretty, OF fw this assms(6) good(1) assms(8)] obtain r ms where
      "w c = Ok r" "json_get r ''matches'' = Some (JArray ms)" "?pw c = Ok (JObject [(''matches'', JArray ms)])"
      by blast
    then show ?thesis by simp
  qed
qed

text \<open>A printer of JSON in unary numbers, and its reader.\<close>

instance jnum :: countable
  by countable_datatype

instance json :: countable
  by countable_datatype

definition unary_print :: "json \<Rightarrow> string" where
  "unary_print v = replicate (to_nat v) CHR ''1''"

definition unary_read :: "string \<Rightarrow> (json, string) result" where
  "unary_read s = Ok (from_nat (length s))"

lemma unary_roundtrip: "unary_read (unary_print v) = Ok v"
  by (simp add: unary_read_def unary_print_def)

definition leased_session :: pooled_session where
  "leased_session = \<lparr>ps_id = ''a'', ps_lease = Some (\<lparr>wh_slot = 0, wh_session = ''a''\<rparr>, 1), ps_next_generation = 1\<rparr>"

definition leased_pool :: pool where
  "leased_pool = pool_new\<lparr>pl_slots := [0 \<mapsto> new_child (CLeased ''a'')], pl_children := [0], pl_next_id := 1\<rparr>"

text \<open>A worker that finds one match of every pattern.\<close>

definition one_match :: "worker_call \<Rightarrow> (json, tool_error) result" where
  "one_match c = Ok (JObject [(''matches'', JArray [JString ''0x1000'']), (''count'', json_of_nat 1)])"

theorem pooled_tool_answers_like_local_witness:
  "let p = PPages ''pattern'' 0 100 [(''90'', Ok (worker_find_bytes ''90'' 100 None))]
   in read_tool_call ''find_bytes'' [(''patterns'', JString ''90'')] =
        Some (RSearchTool (TFindBytes \<lparr>rq_find_bytes_patterns = JString ''90'', rq_find_bytes_limit = None,
          rq_find_bytes_offset = None, rq_find_bytes_timeout_secs = None, rq_find_bytes_worker_max_results = None\<rparr>)) \<and>
      run_plan unary_print
        (pooled_worker unary_read (\<lambda>_. Ok) small_pool (\<lambda>_. ((Err [], Err []), 0)) leased_session leased_pool
           (child_answer plain_readers unary_print ''child'' CallTimedOut one_match)) p =
      run_plan unary_print one_match p"
proof -
  let ?req = "RSearchTool (TFindBytes \<lparr>rq_find_bytes_patterns = JString ''90'', rq_find_bytes_limit = None,
      rq_find_bytes_offset = None, rq_find_bytes_timeout_secs = None, rq_find_bytes_worker_max_results = None\<rparr>)"
  let ?p = "PPages ''pattern'' 0 100 [(''90'', Ok (worker_find_bytes ''90'' 100 None))]"
  have req: "read_tool_call ''find_bytes'' [(''patterns'', JString ''90'')] = Some ?req"
    by (simp add: read_tool_calls de_find_bytes_def opt_arg_def req_arg_def arg_values_def)
  have args: "wf_args [(''patterns'', JString ''90'')]" by (simp add: wf_args_def)
  have plan: "tool_plan_of plain_readers Http ''s'' ?req = Ok ?p"
    by (simp add: tool_find_bytes_def value_to_strings_def trim_def trim_start_def trim_end_def ws_seqs_def prefix_def
        worker_max_results_def or_default_min_def Let_def plain_readers_def)
  have lease: "holds_worker leased_session leased_pool"
    by (simp add: holds_worker_def leased_session_def leased_pool_def slot_state_def new_child_def)
  have good: "\<forall>c \<in> set (plan_calls ?p). good_answer (\<lambda>_. Ok) c (one_match c) \<and> one_match (child_side c) = one_match c"
    by (simp add: List.map_filter_def good_answer_def one_match_def worker_find_bytes_def pooled_backend_def pooled_methods)
  from req pooled_tool_answers_like_local [OF req args _ _ plan lease good] unary_roundtrip
  show ?thesis by simp
qed

section \<open>Errors of a child\<close>

text \<open>An error of the child comes back as the text it was reported with, inside another error; a
  connection of the child that closed is the one that is recognized as itself.\<close>

lemma pooled_error:
  assumes "forwards rd c" "match_limit (fst c) = None" "holds_worker ss pl" "w (child_side c) = Err e"
  shows "pooled_worker of_text typed cfg spawns ss pl (child_answer rd pretty session_id refused w) c =
    Err (classify_child_error (tool_error_message e))"
proof -
  from call_forwarded [OF assms(1), of "[]"] obtain cc where cc: "pooled_backend c = Ok cc"
    by (auto simp: forwarded_def split: result.splits)
  then have "cc_reading cc \<noteq> ReadMatches" using match_limit_reading assms(2) by simp
  with assms(2,4) show ?thesis
    using returned_result [OF assms(3), of cfg spawns _ _ "to_tool_result e"]
    by (cases "cc_reading cc")
      (simp_all add: pooled_worker_child [OF assms(1) cc] child_plan_call pooled_call_def Let_def call_text_def
        call_value_for_generation_def call_json_for_generation_def result_error_def to_tool_result_def
        result_error_message_def first_text_def)
qed

section \<open>Queries with commas\<close>

text \<open>C38: a global whose name has a comma, as the names of C++ templates do, can be asked for in an array of
  a server with its own database. A pooled server sends the name to the child as plain text, and the child
  takes it for two names: the answer holds a result for each half.\<close>

theorem pooled_global_names_are_split:
  assumes "list_all plain_char a" "list_all plain_char b" "a \<noteq> []" "b \<noteq> []" "hd a \<noteq> CHR ''[''"
    and "CHR '','' \<notin> set a" "CHR '','' \<notin> set b"
  shows "tool_plan_of rd mode session_id (RMemoryTool (TGetGlobalValue
      \<lparr>rq_get_global_value_query = JArray [JString (a @ '','' @ b)]\<rparr>)) = plain (worker_get_global_value (a @ '','' @ b)) \<and>
    (case pooled_backend (worker_get_global_value (a @ '','' @ b)) of
       Ok cc \<Rightarrow>
         map_option (tool_plan_of rd Worker child_session) (read_tool_call (cc_tool cc) (cc_args cc)) =
           Some (Ok (PEach ''query'' (result_entry ''query'' ''value'')
             [(a, worker_get_global_value a), (b, worker_get_global_value b)]))
     | Err _ \<Rightarrow> False)"
proof -
  let ?q = "a @ '','' @ b"
  have "trim a = a" "trim b = b" using assms trim_plain by (auto simp: list_all_iff)
  moreover have "trim ?q = ?q" using assms by (intro trim_plain) (auto simp: list_all_iff hd_append)
  moreover have "\<not> prefix ''['' ?q" using assms(3,5) by (cases a) auto
  moreover have "split_char (CHR '','') ?q = [a, b]"
    using assms by (simp add: split_char_append split_char_none)
  ultimately have "tool_strings rd (JString ?q) = Ok [a, b]"
    using assms(3,4) by (simp add: value_to_strings_def Let_def)
  then show ?thesis
    by (simp add: tool_get_global_value_def pooled_backend_def worker_get_global_value_def pooled_methods read_tool_calls
        de_get_global_value_def req_arg_def arg_values_def)
qed

theorem pooled_global_names_are_split_witness:
  "list_all plain_char ''a<b'' \<and> list_all plain_char ''c>::x'' \<and>
   (case pooled_backend (worker_get_global_value ''a<b,c>::x'') of
      Ok cc \<Rightarrow>
        map_option (tool_plan_of plain_readers Worker []) (read_tool_call (cc_tool cc) (cc_args cc)) =
          Some (Ok (PEach ''query'' (result_entry ''query'' ''value'')
            [(''a<b'', worker_get_global_value ''a<b''), (''c>::x'', worker_get_global_value ''c>::x'')]))
    | Err _ \<Rightarrow> False)"
proof -
  have p: "list_all plain_char ''a<b''" "list_all plain_char ''c>::x''" by (simp_all add: plain_char_def)
  with pooled_global_names_are_split [OF p, where rd = plain_readers and child_session = "[]"]
  show ?thesis by simp
qed

end
