(* ===== verification/Tool_Filter.thy ===== *)
theory Tool_Filter
  imports Errors
begin

text \<open>
  The tools of the MCP server and which of them are offered: the registry
  (\<open>src/src/tool_registry.rs\<close>), the filter built from the command line
  (\<open>src/src/server/tool_filter.rs\<close>) and the annotations clients see
  (\<open>tool_annotations_for\<close> in \<open>src/src/server/mod.rs\<close>). Of a registry entry the long description
  and the example, which are only printed, are left out. Category names are compared after
  \<open>to_lowercase\<close>; they are ASCII, and no other letter has a lower case that occurs in one of them,
  so that the ASCII lower case decides the same.
\<close>

section \<open>The registry\<close>

datatype tool_category =
    CatCore | CatFunctions | CatDisassembly | CatDecompile | CatXrefs | CatControlFlow | CatMemory
  | CatSearch | CatMetadata | CatTypes | CatEditing | CatDebug | CatUi | CatScripting

definition category_names :: "(string \<times> tool_category) list" where
  "category_names =
     [(''core'', CatCore), (''functions'', CatFunctions), (''function'', CatFunctions),
      (''disassembly'', CatDisassembly), (''disasm'', CatDisassembly), (''decompile'', CatDecompile),
      (''decompiler'', CatDecompile), (''xrefs'', CatXrefs), (''xref'', CatXrefs), (''references'', CatXrefs),
      (''control_flow'', CatControlFlow), (''controlflow'', CatControlFlow), (''cfg'', CatControlFlow),
      (''memory'', CatMemory), (''data'', CatMemory), (''search'', CatSearch), (''metadata'', CatMetadata),
      (''meta'', CatMetadata), (''info'', CatMetadata), (''types'', CatTypes), (''type'', CatTypes),
      (''structs'', CatTypes), (''editing'', CatEditing), (''edit'', CatEditing), (''debug'', CatDebug),
      (''debugger'', CatDebug), (''ui'', CatUi), (''scripting'', CatScripting), (''script'', CatScripting),
      (''eval'', CatScripting)]"

definition category_from_str :: "string \<Rightarrow> tool_category option" where
  "category_from_str input =
     map_of category_names
       (map (\<lambda>c. if c = CHR ''-'' \<or> c = CHR '' '' then CHR ''_'' else c) (to_ascii_lowercase (trim input)))"

record tool_info =
  to_name :: string
  to_category :: tool_category
  to_short_desc :: string
  to_default :: bool
  to_keywords :: "string list"

definition tool :: "string \<Rightarrow> tool_category \<Rightarrow> string \<Rightarrow> bool \<Rightarrow> string list \<Rightarrow> tool_info" where
  "tool name cat desc dflt kws =
     \<lparr>to_name = name, to_category = cat, to_short_desc = desc, to_default = dflt, to_keywords = kws\<rparr>"

definition TOOL_REGISTRY :: "tool_info list" where
  "TOOL_REGISTRY = [
   tool ''open_idb'' CatCore ''Open an IDA database or raw binary'' True
     [''open'', ''load'', ''database'', ''binary'', ''idb'', ''i64'', ''macho'', ''elf'', ''pe''],
   tool ''open_dsc'' CatCore ''Open a dyld_shared_cache and load one module; use dsc_add_dylib/dsc_add_region for more'' False
     [''open'', ''dsc'', ''dyld'', ''shared'', ''cache'', ''dylib'', ''module'', ''region'', ''apple'', ''macos'', ''ios''],
   tool ''dsc_add_dylib'' CatCore ''Load an additional dylib into an open DSC database'' False
     [''dsc'', ''dyld'', ''dylib'', ''module'', ''load'', ''add'', ''framework'', ''cache''],
   tool ''dsc_add_region'' CatCore ''Load a DSC memory region by address (data/GOT/stubs)'' False
     [''dsc'', ''dyld'', ''region'', ''memory'', ''address'', ''got'', ''stubs'', ''data'', ''load''],
   tool ''load_debug_info'' CatCore ''Load external debug info (e.g., dSYM/DWARF)'' False
     [''debug'', ''dwarf'', ''dsym'', ''symbols'', ''load''],
   tool ''analysis_status'' CatCore ''Report auto-analysis status'' True
     [''analysis'', ''autoanalysis'', ''status'', ''xrefs'', ''decompile''],
   tool ''close_idb'' CatCore ''Close the current database (release locks)'' True
     [''close'', ''unload'', ''database''],
   tool ''tool_catalog'' CatCore ''Discover available tools by query or category'' True
     [''discover'', ''find'', ''search'', ''tools'', ''help'', ''catalog''],
   tool ''tool_help'' CatCore ''Get full documentation for a tool'' True
     [''help'', ''docs'', ''documentation'', ''schema'', ''usage''],
   tool ''recent_operations'' CatCore ''Inspect recent foreground operation history'' False
     [''recent'', ''operations'', ''history'', ''progress'', ''timeout'', ''cancel'', ''observability''],
   tool ''task_status'' CatCore ''Check status of a background task (e.g. DSC loading)'' True
     [''task'', ''status'', ''poll'', ''background'', ''dsc'', ''progress''],
   tool ''idb_meta'' CatCore ''Get database metadata and summary'' True
     [''info'', ''metadata'', ''summary'', ''database'', ''binary''],
   tool ''list_functions'' CatFunctions ''List functions with pagination and filtering'' False
     [''functions'', ''list'', ''enumerate'', ''find'', ''filter'', ''subroutines''],
   tool ''list_funcs'' CatFunctions ''Alias of list_functions'' False
     [''functions'', ''list'', ''alias''],
   tool ''resolve_function'' CatFunctions ''Find function address by name'' False
     [''resolve'', ''find'', ''lookup'', ''function'', ''name'', ''address''],
   tool ''function_at'' CatFunctions ''Find the function containing an address'' False
     [''function'', ''address'', ''pc'', ''lr'', ''containing''],
   tool ''lookup_funcs'' CatFunctions ''Batch lookup multiple functions by name'' False
     [''lookup'', ''batch'', ''multiple'', ''functions'', ''names''],
   tool ''analyze_funcs'' CatFunctions ''Run auto-analysis (foreground or background task)'' False
     [''analyze'', ''functions'', ''analysis'', ''auto'', ''background'', ''task''],
   tool ''disasm'' CatDisassembly ''Disassemble instructions at an address'' False
     [''disassemble'', ''disasm'', ''assembly'', ''instructions'', ''code''],
   tool ''disasm_by_name'' CatDisassembly ''Disassemble a function by name'' False
     [''disassemble'', ''function'', ''name'', ''assembly''],
   tool ''disasm_function_at'' CatDisassembly ''Disassemble the function containing an address'' False
     [''disassemble'', ''function'', ''address'', ''pc'', ''lr''],
   tool ''decompile'' CatDecompile ''Decompile function to C pseudocode'' False
     [''decompile'', ''pseudocode'', ''c'', ''source'', ''hex-rays''],
   tool ''pseudocode_at'' CatDecompile ''Get pseudocode for specific address/range'' False
     [''pseudocode'', ''decompile'', ''block'', ''range'', ''statement''],
   tool ''xrefs_to'' CatXrefs ''Find all references TO an address'' False
     [''xrefs'', ''references'', ''to'', ''callers'', ''usage''],
   tool ''xrefs_from'' CatXrefs ''Find all references FROM an address'' False
     [''xrefs'', ''references'', ''from'', ''callees'', ''targets''],
   tool ''xrefs_to_string'' CatXrefs ''Find xrefs to strings matching a query'' False
     [''xrefs'', ''strings'', ''cstring'', ''references'', ''usage''],
   tool ''xref_matrix'' CatXrefs ''Build xref matrix between addresses'' False
     [''xrefs'', ''matrix'', ''relationships'', ''graph''],
   tool ''basic_blocks'' CatControlFlow ''Get basic blocks of a function'' False
     [''basic'', ''blocks'', ''cfg'', ''control'', ''flow'', ''graph''],
   tool ''callers'' CatControlFlow ''Find all callers of a function'' False
     [''callers'', ''called'', ''by'', ''references'', ''xrefs''],
   tool ''callees'' CatControlFlow ''Find all functions called by a function'' False
     [''callees'', ''calls'', ''targets'', ''functions''],
   tool ''callgraph'' CatControlFlow ''Build call graph from a function'' False
     [''callgraph'', ''call'', ''graph'', ''depth'', ''tree''],
   tool ''find_paths'' CatControlFlow ''Find control-flow paths between two addresses'' False
     [''paths'', ''route'', ''flow'', ''between'', ''reach''],
   tool ''get_bytes'' CatMemory ''Read raw bytes from an address'' False
     [''bytes'', ''read'', ''memory'', ''data'', ''raw'', ''hex''],
   tool ''get_string'' CatMemory ''Read string at an address'' False
     [''string'', ''read'', ''text'', ''ascii'', ''data''],
   tool ''get_u8'' CatMemory ''Read 8-bit value'' False
     [''byte'', ''u8'', ''read'', ''value''],
   tool ''get_u16'' CatMemory ''Read 16-bit value'' False
     [''word'', ''u16'', ''read'', ''value''],
   tool ''get_u32'' CatMemory ''Read 32-bit value'' False
     [''dword'', ''u32'', ''read'', ''value''],
   tool ''get_u64'' CatMemory ''Read 64-bit value'' False
     [''qword'', ''u64'', ''read'', ''value''],
   tool ''get_global_value'' CatMemory ''Read global value by name or address'' False
     [''global'', ''value'', ''read'', ''symbol'', ''data''],
   tool ''int_convert'' CatMemory ''Convert integers between bases'' False
     [''int'', ''convert'', ''hex'', ''decimal'', ''ascii''],
   tool ''find_bytes'' CatSearch ''Search for byte pattern'' False
     [''find'', ''search'', ''bytes'', ''pattern'', ''hex''],
   tool ''search'' CatSearch ''Search for text or immediate values'' False
     [''search'', ''find'', ''text'', ''string'', ''immediate''],
   tool ''strings'' CatSearch ''List all strings in the database'' False
     [''strings'', ''list'', ''text'', ''data''],
   tool ''find_string'' CatSearch ''Find strings matching a query'' False
     [''strings'', ''find'', ''search'', ''text''],
   tool ''analyze_strings'' CatSearch ''Analyze strings with filtering'' False
     [''strings'', ''analyze'', ''filter'', ''pattern''],
   tool ''find_insns'' CatSearch ''Find instruction sequences by mnemonic'' False
     [''find'', ''instructions'', ''sequence'', ''pattern''],
   tool ''find_insn_operands'' CatSearch ''Find instructions by operand substring'' False
     [''find'', ''operands'', ''instructions'', ''pattern''],
   tool ''segments'' CatMetadata ''List all segments'' False
     [''segments'', ''sections'', ''memory'', ''layout''],
   tool ''addr_info'' CatMetadata ''Resolve address to segment/function/symbol'' False
     [''address'', ''segment'', ''function'', ''symbol'', ''context''],
   tool ''imports'' CatMetadata ''List imported functions'' False
     [''imports'', ''external'', ''libraries'', ''api''],
   tool ''exports'' CatMetadata ''List exported functions'' False
     [''exports'', ''symbols'', ''public'', ''api''],
   tool ''export_funcs'' CatMetadata ''Export functions (JSON)'' False
     [''export'', ''functions'', ''json'', ''dump''],
   tool ''entrypoints'' CatMetadata ''List entry points'' False
     [''entry'', ''start'', ''main'', ''entrypoint''],
   tool ''lumina_lookup'' CatMetadata ''Look up Lumina metadata for a function'' False
     [''lumina'', ''signature'', ''metadata'', ''lookup'', ''match''],
   tool ''lumina_apply'' CatEditing ''Apply Lumina metadata to a function'' False
     [''lumina'', ''signature'', ''metadata'', ''apply'', ''rename'', ''type''],
   tool ''list_globals'' CatMetadata ''List global variables'' False
     [''globals'', ''variables'', ''data'', ''symbols''],
   tool ''local_types'' CatTypes ''List local types'' False
     [''types'', ''local'', ''typedef''],
   tool ''xrefs_to_field'' CatXrefs ''Xrefs to a struct field'' False
     [''xrefs'', ''struct'', ''field'', ''member''],
   tool ''declare_type'' CatTypes ''Declare a type in the local type library'' False
     [''type'', ''declare'', ''typedef''],
   tool ''apply_types'' CatTypes ''Apply a type to an address or stack variable'' False
     [''types'', ''apply'', ''annotations''],
   tool ''infer_types'' CatTypes ''Infer/guess type at an address'' False
     [''types'', ''infer'', ''analysis''],
   tool ''stack_frame'' CatTypes ''Get stack frame info'' False
     [''stack'', ''frame'', ''locals''],
   tool ''declare_stack'' CatTypes ''Declare a stack variable'' False
     [''stack'', ''declare'', ''variable''],
   tool ''delete_stack'' CatTypes ''Delete a stack variable'' False
     [''stack'', ''delete'', ''variable''],
   tool ''structs'' CatTypes ''List structs with pagination'' False
     [''structs'', ''types'', ''list''],
   tool ''struct_info'' CatTypes ''Get struct info by name or ordinal'' False
     [''struct'', ''info'', ''types''],
   tool ''read_struct'' CatTypes ''Read a struct instance at an address'' False
     [''struct'', ''read'', ''values''],
   tool ''search_structs'' CatTypes ''Search structs by name'' False
     [''struct'', ''search'', ''types''],
   tool ''set_comments'' CatEditing ''Set comments at an address'' False
     [''comments'', ''set'', ''annotate''],
   tool ''patch_asm'' CatEditing ''Patch instructions with assembly text'' False
     [''patch'', ''asm'', ''edit'', ''modify''],
   tool ''patch'' CatEditing ''Patch bytes at an address'' False
     [''patch'', ''bytes'', ''edit'', ''modify''],
   tool ''rename'' CatEditing ''Rename symbols'' False
     [''rename'', ''symbol'', ''edit''],
   tool ''run_script'' CatScripting ''Execute Python code via IDAPython'' False
     [''script'', ''python'', ''execute'', ''eval'', ''idapython'', ''run'', ''code'', ''file'']]"

definition default_tools :: "tool_info list" where
  "default_tools = filter to_default TOOL_REGISTRY"

definition get_tool :: "string \<Rightarrow> tool_info option" where
  "get_tool name = find (\<lambda>t. to_name t = name) TOOL_REGISTRY"

definition tools_by_category :: "tool_category \<Rightarrow> tool_info list" where
  "tools_by_category cat = filter (\<lambda>t. to_category t = cat) TOOL_REGISTRY"

section \<open>The filter\<close>

definition READ_ONLY_DENY_LIST :: "string list" where
  "READ_ONLY_DENY_LIST =
     [''run_script'', ''patch'', ''patch_asm'', ''rename'', ''set_comments'', ''lumina_apply'', ''declare_type'',
      ''apply_types'', ''infer_types'', ''declare_stack'', ''delete_stack'', ''dsc_add_dylib'', ''dsc_add_region'',
      ''analyze_funcs'']"

datatype tool_filter_error = UnknownToolset string | UnknownTool string | EmptyFinalSet

record tool_filter =
  tf_enabled :: "string set"
  tf_active :: bool

fun split_commas :: "string \<Rightarrow> string list" where
  "split_commas [] = [[]]"
| "split_commas (c # cs) =
     (if c = CHR '','' then [] # split_commas cs
      else case split_commas cs of [] \<Rightarrow> [[c]] | p # ps \<Rightarrow> (c # p) # ps)"

definition clean :: "string list \<Rightarrow> string list" where
  "clean input = filter (\<lambda>s. s \<noteq> []) (map trim (concat (map split_commas input)))"

fun include_toolsets :: "string list \<Rightarrow> string set \<Rightarrow> (string set, tool_filter_error) result" where
  "include_toolsets [] enabled = Ok enabled"
| "include_toolsets (raw # raws) enabled =
     (case category_from_str raw of
        None \<Rightarrow> Err (UnknownToolset raw)
      | Some cat \<Rightarrow> include_toolsets raws (enabled \<union> to_name ` set (tools_by_category cat)))"

fun include_tools :: "string list \<Rightarrow> string set \<Rightarrow> (string set, tool_filter_error) result" where
  "include_tools [] enabled = Ok enabled"
| "include_tools (raw # raws) enabled =
     (case get_tool raw of
        None \<Rightarrow> Err (UnknownTool raw)
      | Some t \<Rightarrow> include_tools raws (insert (to_name t) enabled))"

fun exclude_tools :: "string list \<Rightarrow> string set \<Rightarrow> (string set, tool_filter_error) result" where
  "exclude_tools [] enabled = Ok enabled"
| "exclude_tools (raw # raws) enabled =
     (case get_tool raw of
        None \<Rightarrow> Err (UnknownTool raw)
      | Some t \<Rightarrow> exclude_tools raws (enabled - {to_name t}))"

definition filter_from_inputs ::
  "string list \<Rightarrow> string list \<Rightarrow> string list \<Rightarrow> bool \<Rightarrow> (tool_filter, tool_filter_error) result" where
  "filter_from_inputs toolsets tools excludes read_only =
     (let toolsets = clean toolsets; tools = clean tools; excludes = clean excludes;
          any_input = (toolsets \<noteq> [] \<or> tools \<noteq> [] \<or> excludes \<noteq> [] \<or> read_only);
          base = (if toolsets = [] \<and> tools = [] then to_name ` set TOOL_REGISTRY else {})
      in and_then (include_toolsets toolsets base) (\<lambda>enabled.
         and_then (include_tools tools enabled) (\<lambda>enabled.
         and_then (exclude_tools excludes enabled) (\<lambda>enabled.
           let enabled = (if read_only then enabled - set READ_ONLY_DENY_LIST else enabled)
           in if enabled = {} then Err EmptyFinalSet
              else Ok \<lparr>tf_enabled = enabled, tf_active = any_input\<rparr>))))"

definition unrestricted :: tool_filter where
  "unrestricted = \<lparr>tf_enabled = to_name ` set TOOL_REGISTRY, tf_active = False\<rparr>"

definition is_enabled :: "tool_filter \<Rightarrow> string \<Rightarrow> bool" where
  "is_enabled f name \<longleftrightarrow> name \<in> tf_enabled f"

section \<open>Annotations\<close>

record tool_annotations =
  an_read_only :: "bool option"
  an_destructive :: "bool option"
  an_idempotent :: "bool option"
  an_open_world :: "bool option"

definition annotate :: "bool \<Rightarrow> bool \<Rightarrow> bool option \<Rightarrow> bool option \<Rightarrow> tool_annotations" where
  "annotate ro destr idem ow =
     \<lparr>an_read_only = Some ro, an_destructive = Some destr, an_idempotent = idem, an_open_world = ow\<rparr>"

definition tool_annotations_for :: "string \<Rightarrow> tool_annotations" where
  "tool_annotations_for name =
     (if name = ''lumina_lookup'' then annotate True False (Some True) (Some True)
      else if name = ''lumina_apply'' then annotate False True None (Some True)
      else if name = ''run_script'' then annotate False True None (Some True)
      else if name \<in> {''patch'', ''patch_asm''} then annotate False True None None
      else if name \<in> {''open_idb'', ''open_dsc'', ''dsc_add_dylib'', ''dsc_add_region'', ''close_idb'',
                      ''load_debug_info'', ''declare_type'', ''apply_types'', ''declare_stack'', ''delete_stack'',
                      ''rename'', ''set_comments''}
      then annotate False (name = ''close_idb'') None (Some False)
      else annotate True False (Some True) (Some False))"

section \<open>The filtering server\<close>

text \<open>\<open>SanitizedIdaServer\<close> in front of a server: the tools it lists and describes, and what its calls
  answer, are the record's. A description is its name with the rest, which \<open>normalize\<close> rewrites.\<close>

record 'd tool_desc =
  td_name :: string
  td_schema :: 'd
  td_annotations :: "tool_annotations option"

record ('d, 'p, 'r) inner_server =
  is_list :: "('d tool_desc list, string) result"
  is_get :: "string \<Rightarrow> 'd tool_desc option"
  is_call :: "string \<Rightarrow> 'p \<Rightarrow> ('r, string) result"

definition disabled_tool_message :: "string \<Rightarrow> string" where
  "disabled_tool_message name =
     ''tool '' @ [CHR 0x27] @ name @ [CHR 0x27] @ '' is disabled by current filter '' @
     ''(--toolsets/--tools/--exclude-tools/--read-only); call tool_catalog to see enabled tools''"

definition normalize_tool :: "('d \<Rightarrow> 'd) \<Rightarrow> 'd tool_desc \<Rightarrow> 'd tool_desc" where
  "normalize_tool norm t =
     t\<lparr>td_schema := norm (td_schema t), td_annotations := Some (tool_annotations_for (td_name t))\<rparr>"

definition server_list_tools ::
  "('d \<Rightarrow> 'd) \<Rightarrow> tool_filter \<Rightarrow> ('d, 'p, 'r) inner_server \<Rightarrow> ('d tool_desc list, string) result" where
  "server_list_tools norm f inner =
     and_then (is_list inner) (\<lambda>tools.
       Ok (map (normalize_tool norm)
             (if tf_active f then filter (\<lambda>t. is_enabled f (td_name t)) tools else tools)))"

definition server_call_tool ::
  "tool_filter \<Rightarrow> ('d, 'p, 'r) inner_server \<Rightarrow> string \<Rightarrow> 'p \<Rightarrow> ('r, string) result" where
  "server_call_tool f inner name params =
     (if tf_active f \<and> \<not> is_enabled f name then Err (disabled_tool_message name) else is_call inner name params)"

definition server_get_tool ::
  "('d \<Rightarrow> 'd) \<Rightarrow> tool_filter \<Rightarrow> ('d, 'p, 'r) inner_server \<Rightarrow> string \<Rightarrow> 'd tool_desc option" where
  "server_get_tool norm f inner name =
     (if tf_active f \<and> \<not> is_enabled f name then None else map_option (normalize_tool norm) (is_get inner name))"

section \<open>What a filter lets through\<close>

lemma get_tool_name: "get_tool n = Some t \<Longrightarrow> to_name t = n"
  by (auto simp: get_tool_def find_Some_iff)

lemma get_tool_registered: "get_tool n \<noteq> None \<longleftrightarrow> n \<in> to_name ` set TOOL_REGISTRY"
  by (auto simp: get_tool_def find_None_iff image_iff)

lemma include_toolsets_ok:
  "include_toolsets raws e = Ok e' \<longleftrightarrow>
     (\<forall>raw \<in> set raws. category_from_str raw \<noteq> None) \<and>
     e' = e \<union> {to_name t |t raw. raw \<in> set raws \<and> t \<in> set TOOL_REGISTRY \<and> category_from_str raw = Some (to_category t)}"
  by (induction raws arbitrary: e) (auto simp: tools_by_category_def split: option.splits)

lemma include_tools_ok:
  "include_tools raws e = Ok e' \<longleftrightarrow> set raws \<subseteq> to_name ` set TOOL_REGISTRY \<and> e' = e \<union> set raws"
proof (induction raws arbitrary: e)
  case (Cons r raws)
  then show ?case using get_tool_registered [of r] by (auto split: option.splits dest: get_tool_name)
qed auto

lemma exclude_tools_ok:
  "exclude_tools raws e = Ok e' \<longleftrightarrow> set raws \<subseteq> to_name ` set TOOL_REGISTRY \<and> e' = e - set raws"
proof (induction raws arbitrary: e)
  case (Cons r raws)
  then show ?case using get_tool_registered [of r] by (auto split: option.splits dest: get_tool_name)
qed auto

text \<open>The tools the command line asks for, before anything is taken away.\<close>

definition asked_for :: "string list \<Rightarrow> string list \<Rightarrow> string set" where
  "asked_for toolsets tools =
     (if toolsets = [] \<and> tools = [] then to_name ` set TOOL_REGISTRY
      else set tools \<union>
        {to_name t |t raw. raw \<in> set toolsets \<and> t \<in> set TOOL_REGISTRY \<and> category_from_str raw = Some (to_category t)})"

text \<open>A filter is built exactly when every category and tool on the command line is known and some tool
  remains; it enables the tools asked for, all of them when none was, less the excluded ones and, in
  read-only mode, less the deny list.\<close>

lemma filter_selects:
  "filter_from_inputs toolsets tools excludes ro = Ok f \<longleftrightarrow>
     (\<forall>raw \<in> set (clean toolsets). category_from_str raw \<noteq> None) \<and>
     set (clean tools) \<union> set (clean excludes) \<subseteq> to_name ` set TOOL_REGISTRY \<and>
     tf_enabled f = asked_for (clean toolsets) (clean tools) - set (clean excludes)
                      - (if ro then set READ_ONLY_DENY_LIST else {}) \<and>
     tf_enabled f \<noteq> {} \<and>
     (tf_active f \<longleftrightarrow> clean toolsets \<noteq> [] \<or> clean tools \<noteq> [] \<or> clean excludes \<noteq> [] \<or> ro)"
proof -
  define base where "base = (if clean toolsets = [] \<and> clean tools = [] then to_name ` set TOOL_REGISTRY else {})"
  define picked where "picked = base \<union> {to_name t |t raw. raw \<in> set (clean toolsets) \<and> t \<in> set TOOL_REGISTRY
      \<and> category_from_str raw = Some (to_category t)}"
  have asked: "picked \<union> set (clean tools) = asked_for (clean toolsets) (clean tools)"
    by (auto simp: picked_def base_def asked_for_def)
  define known where "known \<longleftrightarrow> (\<forall>raw \<in> set (clean toolsets). category_from_str raw \<noteq> None)"
  have sets: "include_toolsets (clean toolsets) base = Ok e \<longleftrightarrow> known \<and> e = picked" for e
    unfolding include_toolsets_ok picked_def known_def by blast
  show ?thesis
    unfolding filter_from_inputs_def Let_def base_def [symmetric] and_then_Ok_iff sets include_tools_ok exclude_tools_ok
      known_def [symmetric]
    by (cases f) (auto simp: asked [symmetric])
qed

lemma registry_checked:
  "list_all (\<lambda>t. to_name t \<in> {''open_idb'', ''open_dsc'', ''close_idb'', ''load_debug_info''} \<or>
     to_name t \<in> set READ_ONLY_DENY_LIST \<or> an_read_only (tool_annotations_for (to_name t)) = Some True) TOOL_REGISTRY"
  by code_simp

lemma denied_but_read_only:
  "filter (\<lambda>d. an_read_only (tool_annotations_for d) = Some True) READ_ONLY_DENY_LIST = [''infer_types'', ''analyze_funcs'']"
  by code_simp

lemma registered_kinds:
  "n \<in> to_name ` set TOOL_REGISTRY \<Longrightarrow>
     n \<in> {''open_idb'', ''open_dsc'', ''close_idb'', ''load_debug_info''} \<or> n \<in> set READ_ONLY_DENY_LIST \<or>
     an_read_only (tool_annotations_for n) = Some True"
  using registry_checked unfolding list_all_iff by blast

text \<open>An example: \<open>--toolsets search --tools open_idb,rename --read-only\<close>.\<close>

definition search_filter :: tool_filter where
  "search_filter = \<lparr>tf_enabled = asked_for [''search''] [''open_idb'', ''rename''] - set READ_ONLY_DENY_LIST, tf_active = True\<rparr>"

lemma clean_example:
  "clean [''search''] = [''search'']" "clean [''open_idb,rename''] = [''open_idb'', ''rename'']" "clean [] = []"
  by code_simp+

lemma search_filter_enables: "''open_idb'' \<in> tf_enabled search_filter" "''rename'' \<notin> tf_enabled search_filter"
  by (simp_all add: search_filter_def asked_for_def READ_ONLY_DENY_LIST_def)

lemma search_filter_built: "filter_from_inputs [''search''] [''open_idb,rename''] [] True = Ok search_filter"
proof -
  have "category_from_str ''search'' \<noteq> None" "get_tool ''open_idb'' \<noteq> None" "get_tool ''rename'' \<noteq> None"
    by code_simp+
  then show ?thesis
    unfolding filter_selects clean_example get_tool_registered
    using search_filter_enables by (auto simp: search_filter_def)
qed

text \<open>C28: in read-only mode no tool is enabled that clients are told may modify something, except
  the four that open and close databases and load debug information. The deny list is wider than the
  annotations: \<open>infer_types\<close> and \<open>analyze_funcs\<close> are denied although they are announced as read-only.\<close>

theorem read_only_mode_keeps_lifecycle_only:
  assumes "filter_from_inputs toolsets tools excludes True = Ok f" "is_enabled f n"
  shows "(an_read_only (tool_annotations_for n) = Some True \<or>
      n \<in> {''open_idb'', ''open_dsc'', ''close_idb'', ''load_debug_info''}) \<and> n \<notin> set READ_ONLY_DENY_LIST \<and>
    {d \<in> set READ_ONLY_DENY_LIST. an_read_only (tool_annotations_for d) = Some True} = {''infer_types'', ''analyze_funcs''}"
proof -
  have "n \<in> asked_for (clean toolsets) (clean tools)" "n \<notin> set READ_ONLY_DENY_LIST"
    "set (clean tools) \<subseteq> to_name ` set TOOL_REGISTRY"
    using assms unfolding filter_selects is_enabled_def by auto
  moreover have "n \<in> to_name ` set TOOL_REGISTRY"
    using calculation by (auto simp: asked_for_def split: if_splits)
  moreover have "{d \<in> set READ_ONLY_DENY_LIST. an_read_only (tool_annotations_for d) = Some True} = {''infer_types'', ''analyze_funcs''}"
    using arg_cong [OF denied_but_read_only, of set] by simp
  ultimately show ?thesis using registered_kinds [of n] by blast
qed

lemma read_only_mode_keeps_lifecycle_only_witness:
  "filter_from_inputs [''search''] [''open_idb,rename''] [] True = Ok search_filter \<and> is_enabled search_filter ''open_idb'' \<and>
     ''open_idb'' \<notin> set READ_ONLY_DENY_LIST"
  using read_only_mode_keeps_lifecycle_only [OF search_filter_built, of "''open_idb''"] search_filter_built search_filter_enables
  by (simp add: is_enabled_def)

text \<open>C27: a tool that the filter on the command line leaves out cannot be reached: it is not listed,
  not described, and a call of it is refused with the same answer whatever the server behind would do;
  a tool it keeps is listed whenever the server behind lists it and its calls are passed on.\<close>

theorem disabled_tool_is_unreachable:
  assumes "filter_from_inputs toolsets tools excludes ro = Ok f"
  shows "if n \<in> asked_for (clean toolsets) (clean tools) - set (clean excludes) - (if ro then set READ_ONLY_DENY_LIST else {})
    then server_call_tool f inner n p = is_call inner n p \<and>
      (\<forall>listed. is_list inner = Ok listed \<longrightarrow>
         (\<exists>shown. server_list_tools norm f inner = Ok shown \<and> (n \<in> td_name ` set shown \<longleftrightarrow> n \<in> td_name ` set listed)))
    else n \<in> to_name ` set TOOL_REGISTRY \<longrightarrow>
      server_call_tool f inner n p = Err (disabled_tool_message n) \<and> server_get_tool norm f inner n = None \<and>
      (\<forall>shown. server_list_tools norm f inner = Ok shown \<longrightarrow> n \<notin> td_name ` set shown)"
proof (cases "tf_active f")
  case True
  then show ?thesis
    using assms unfolding filter_selects
    by (auto simp: server_call_tool_def server_get_tool_def server_list_tools_def is_enabled_def normalize_tool_def
        and_then_Ok_iff image_iff)
next
  case False
  then have "clean toolsets = []" "clean tools = []" "clean excludes = []" "\<not> ro"
    using assms unfolding filter_selects by blast+
  then have "asked_for (clean toolsets) (clean tools) - set (clean excludes) - (if ro then set READ_ONLY_DENY_LIST else {})
      = to_name ` set TOOL_REGISTRY"
    by (simp add: asked_for_def)
  then show ?thesis using False
    by (auto simp: server_call_tool_def server_list_tools_def normalize_tool_def image_iff)
qed

lemma disabled_tool_is_unreachable_witness:
  "filter_from_inputs [''search''] [''open_idb,rename''] [] True = Ok search_filter \<and>
   server_call_tool search_filter (\<lparr>is_list = Ok [], is_get = (\<lambda>_. None), is_call = (\<lambda>_ _. Ok 0)\<rparr> :: (unit, unit, nat) inner_server) ''rename'' () =
     Err (disabled_tool_message ''rename'')"
proof -
  have "''rename'' \<in> set READ_ONLY_DENY_LIST" "get_tool ''rename'' \<noteq> None" by code_simp+
  then show ?thesis
    using disabled_tool_is_unreachable [OF search_filter_built, of "''rename''"
        "(\<lparr>is_list = Ok [], is_get = (\<lambda>_. None), is_call = (\<lambda>_ _. Ok 0)\<rparr> :: (unit, unit, nat) inner_server)" "()" id] search_filter_built
    unfolding get_tool_registered by simp
qed

end
