(* ===== verification/Schema.thy ===== *)
theory Schema
  imports Json "HOL-Library.AList"
begin

text \<open>
  The clean-up of the JSON schemas of tool arguments before they are shown to clients,
  \<open>normalize_schema_value\<close> in \<open>src/src/server/mod.rs\<close>: the schema of an optional value, which
  admits \<open>null\<close>, becomes that of the value, and \<open>$schema\<close> is dropped. Clients leave optional
  arguments out instead.
\<close>

section \<open>The clean-up\<close>

definition is_null_schema :: "json \<Rightarrow> bool" where
  "is_null_schema v \<longleftrightarrow> get_str v ''type'' = Some ''null''"

text \<open>The loop over the branches: the one that is not \<open>null\<close>, and how many are.\<close>

fun split_nullable :: "json list \<Rightarrow> json option \<Rightarrow> nat \<Rightarrow> (json option \<times> nat) option" where
  "split_nullable [] non_null null_count = Some (non_null, null_count)"
| "split_nullable (branch # branches) non_null null_count =
     (if is_null_schema branch then split_nullable branches non_null (null_count + 1)
      else case non_null of
             None \<Rightarrow> split_nullable branches (Some branch) null_count
           | Some _ \<Rightarrow> None)"

fun branch_object :: "json \<Rightarrow> (string \<times> json) list option" where
  "branch_object (JObject m) = Some m"
| "branch_object (JBool True) = Some []"
| "branch_object _ = None"

definition merge_outer :: "(string \<times> json) list \<Rightarrow> (string \<times> json) list \<Rightarrow> (string \<times> json) list" where
  "merge_outer schema branch = fold (\<lambda>(k, v) r. if k \<noteq> ''anyOf'' then map_insert k v r else r) schema branch"

definition drop_null_default :: "(string \<times> json) list \<Rightarrow> (string \<times> json) list" where
  "drop_null_default m = (if map_of m ''default'' = Some JNull then AList.delete ''default'' m else m)"

definition nullable_any_of_replacement :: "(string \<times> json) list \<Rightarrow> (string \<times> json) list option" where
  "nullable_any_of_replacement schema =
     Option.bind (Option.bind (map_of schema ''anyOf'') as_array) (\<lambda>any_of.
     Option.bind (split_nullable any_of None 0) (\<lambda>(non_null, null_count).
       if null_count \<noteq> 1 then None
       else Option.bind (Option.bind non_null branch_object) (\<lambda>branch.
         Some (drop_null_default (merge_outer schema branch)))))"

definition is_null_name :: "json \<Rightarrow> bool" where
  "is_null_name v \<longleftrightarrow> as_str v = Some ''null''"

text \<open>\<open>Some None\<close> removes the type.\<close>

definition nullable_type_array_replacement :: "(string \<times> json) list \<Rightarrow> json option option" where
  "nullable_type_array_replacement schema =
     Option.bind (Option.bind (map_of schema ''type'') as_array) (\<lambda>types.
       let non_null_types = filter (\<lambda>t. \<not> is_null_name t) types
       in if list_ex is_null_name types
          then Some (case non_null_types of [] \<Rightarrow> None | [t] \<Rightarrow> Some t | _ \<Rightarrow> Some (JArray non_null_types))
          else None)"

definition replace_any_of :: "(string \<times> json) list \<Rightarrow> (string \<times> json) list" where
  "replace_any_of schema = (case nullable_any_of_replacement schema of Some r \<Rightarrow> r | None \<Rightarrow> schema)"

definition replace_type :: "(string \<times> json) list \<Rightarrow> (string \<times> json) list" where
  "replace_type schema =
     (case nullable_type_array_replacement schema of
        None \<Rightarrow> schema
      | Some (Some t) \<Rightarrow> map_insert ''type'' t schema
      | Some None \<Rightarrow> AList.delete ''type'' schema)"

definition clean_schema :: "(string \<times> json) list \<Rightarrow> (string \<times> json) list" where
  "clean_schema schema = replace_type (AList.delete ''$schema'' (replace_any_of schema))"

section \<open>Termination\<close>

abbreviation members_size :: "(string \<times> json) list \<Rightarrow> nat" where
  "members_size \<equiv> size_list (size_prod (\<lambda>_. 0) size)"

lemma size_array_less: "x \<in> set xs \<Longrightarrow> size x < size (JArray xs)"
  using size_list_estimation' [of x xs "size x" size] by simp

lemma member_size: "(k, v) \<in> set m \<Longrightarrow> size v < size (JObject m)"
  using size_list_estimation' [of "(k, v)" m "size v" "size_prod (\<lambda>_. 0) size"] by simp

lemma map_insert_values: "(k', v') \<in> set (map_insert k v m) \<Longrightarrow> v' = v \<or> (\<exists>k. (k, v') \<in> set m)"
  by (auto simp: map_insert_def split: if_splits)

lemma merge_outer_values: "(k, v) \<in> set (merge_outer schema branch) \<Longrightarrow> \<exists>k. (k, v) \<in> set schema \<or> (k, v) \<in> set branch"
  unfolding merge_outer_def
proof (induction schema arbitrary: branch)
  case (Cons p schema)
  then show ?case by (fastforce split: prod.splits if_splits dest: map_insert_values)
qed auto

lemma split_nullable_member:
  "split_nullable bs nn c = Some (Some b, d) \<Longrightarrow> nn = Some b \<or> b \<in> set bs"
  by (induction bs nn c rule: split_nullable.induct) (auto split: if_splits option.splits)

lemma nullable_any_of_cases:
  assumes "nullable_any_of_replacement m = Some r"
  obtains any_of b branch where "map_of m ''anyOf'' = Some (JArray any_of)" "b \<in> set any_of"
    "\<not> is_null_schema b" "branch_object b = Some branch" "r = drop_null_default (merge_outer m branch)"
proof -
  have not_null: "split_nullable bs nn c = Some (Some b, d) \<Longrightarrow> (case nn of Some x \<Rightarrow> \<not> is_null_schema x | None \<Rightarrow> True) \<Longrightarrow>
      \<not> is_null_schema b" for bs nn c b d
    by (induction bs nn c rule: split_nullable.induct) (auto split: if_splits option.splits)
  from assms obtain v any_of b branch d where "map_of m ''anyOf'' = Some v" "as_array v = Some any_of"
    "split_nullable any_of None 0 = Some (Some b, d)" "branch_object b = Some branch"
    "r = drop_null_default (merge_outer m branch)"
    by (auto simp: nullable_any_of_replacement_def Option.bind_eq_Some_conv split: if_splits)
  with that not_null [of any_of None 0 b d] split_nullable_member [of any_of None 0 b d]
  show thesis by (cases v) auto
qed

lemma replace_any_of_values:
  assumes "(k, v) \<in> set (replace_any_of m)"
  shows "(\<exists>k. (k, v) \<in> set m) \<or>
    (\<exists>any_of b k. map_of m ''anyOf'' = Some (JArray any_of) \<and> JObject b \<in> set any_of \<and> (k, v) \<in> set b)"
proof (cases "nullable_any_of_replacement m")
  case None
  with assms show ?thesis by (auto simp: replace_any_of_def)
next
  case (Some r)
  then obtain any_of b branch where r: "map_of m ''anyOf'' = Some (JArray any_of)" "b \<in> set any_of"
    "branch_object b = Some branch" "r = drop_null_default (merge_outer m branch)"
    by (rule nullable_any_of_cases) blast
  have "(k, v) \<in> set (merge_outer m branch)"
    using assms Some r(4) by (auto simp: replace_any_of_def drop_null_default_def AList.delete_eq split: if_splits)
  with merge_outer_values consider k where "(k, v) \<in> set m" | k where "(k, v) \<in> set branch" by blast
  then show ?thesis
    using r(1-3) by cases (auto elim!: branch_object.elims)
qed

lemma size_filter_array: "size (JArray (filter P xs)) \<le> size (JArray xs)"
  by (induction xs) auto

lemma replace_type_values:
  assumes "(k, v) \<in> set (replace_type m)"
  shows "(\<exists>k. (k, v) \<in> set m) \<or> (\<exists>types. (''type'', JArray types) \<in> set m \<and> size v \<le> size (JArray types))"
proof (cases "nullable_type_array_replacement m")
  case None
  with assms show ?thesis by (auto simp: replace_type_def)
next
  case (Some o')
  then obtain types where t: "map_of m ''type'' = Some (JArray types)"
    "o' = (case filter (\<lambda>t. \<not> is_null_name t) types of [] \<Rightarrow> None | [t] \<Rightarrow> Some t
       | _ \<Rightarrow> Some (JArray (filter (\<lambda>t. \<not> is_null_name t) types)))"
    by (auto simp: nullable_type_array_replacement_def Option.bind_eq_Some_conv Let_def elim!: as_array.elims split: if_splits)
  have small: "size w \<le> size (JArray types)" if "o' = Some w" for w
  proof (cases "\<exists>t. filter (\<lambda>t. \<not> is_null_name t) types = [t]")
    case True
    then obtain t where f: "filter (\<lambda>t. \<not> is_null_name t) types = [t]" by blast
    with that t(2) have "w \<in> set types" using filter_eq_single_in [OF f] by simp
    from size_array_less [OF this] show ?thesis by simp
  next
    case False
    with that t(2) have "w = JArray (filter (\<lambda>t. \<not> is_null_name t) types)" by (auto split: list.splits)
    then show ?thesis by (simp only: size_filter_array)
  qed
  show ?thesis
  proof (cases o')
    case None
    with assms Some show ?thesis by (auto simp: replace_type_def AList.delete_eq)
  next
    case (Some w)
    with assms \<open>nullable_type_array_replacement m = Some o'\<close> have "(k, v) \<in> set (map_insert ''type'' w m)"
      by (simp add: replace_type_def)
    from map_insert_values [OF this] small [OF Some] map_of_SomeD [OF t(1)] show ?thesis by blast
  qed
qed

lemma clean_schema_smaller:
  assumes "(k, v) \<in> set (clean_schema m)"
  shows "size v < size (JObject m)"
proof -
  have deleted: "p \<in> set (replace_any_of m)" if "p \<in> set (AList.delete ''$schema'' (replace_any_of m))" for p
    using that by (auto simp: AList.delete_eq)
  have inner: "size w < size (JObject m)" if "(k, w) \<in> set (replace_any_of m)" for k w
    using replace_any_of_values [OF that]
  proof (elim disjE exE conjE)
    fix any_of b j
    assume b: "map_of m ''anyOf'' = Some (JArray any_of)" "JObject b \<in> set any_of" "(j, w) \<in> set b"
    then show ?thesis
      using member_size [OF b(3)] size_array_less [OF b(2)] member_size [OF map_of_SomeD [OF b(1)]] by linarith
  qed (rule member_size)
  from replace_type_values [of k v "AList.delete ''$schema'' (replace_any_of m)"] assms
  consider j where "(j, v) \<in> set (replace_any_of m)"
    | types where "(''type'', JArray types) \<in> set (replace_any_of m)" "size v \<le> size (JArray types)"
    using deleted unfolding clean_schema_def by blast
  then show ?thesis
    by cases (use inner in \<open>auto dest: inner\<close>)
qed

function normalize_schema_value :: "json \<Rightarrow> json" where
  "normalize_schema_value (JObject m) = JObject (map (\<lambda>(k, v). (k, normalize_schema_value v)) (clean_schema m))"
| "normalize_schema_value (JArray items) = JArray (map normalize_schema_value items)"
| "normalize_schema_value JNull = JNull"
| "normalize_schema_value (JBool b) = JBool b"
| "normalize_schema_value (JNumber n) = JNumber n"
| "normalize_schema_value (JString s) = JString s"
  by pat_completeness auto
termination
proof (relation "measure size")
  fix m p k v
  assume "p \<in> set (clean_schema m)" "(k, v) = p"
  then show "(v, JObject m) \<in> measure size" using clean_schema_smaller [of k v m] by simp
next
  fix items :: "json list" and x
  assume "x \<in> set items"
  then show "(x, JArray items) \<in> measure size" using size_array_less [of x items] by simp
qed simp

section \<open>What the clean-up keeps\<close>

lemma map_of_map_insert: "map_of (map_insert k v m) = (map_of m)(k \<mapsto> v)"
proof (rule ext)
  fix x
  have "map_of (map (\<lambda>(k', v'). (k', if k' = k then v else v')) m) x =
      (if x = k then (if k \<in> fst ` set m then Some v else None) else map_of m x)"
    by (induction m) force+
  then show "map_of (map_insert k v m) x = ((map_of m)(k \<mapsto> v)) x"
  proof (cases "k \<in> fst ` set m")
    case False
    then have "map_of m k = None" by (simp add: map_of_eq_None_iff)
    with False show ?thesis by (simp add: map_insert_def map_add_def split: option.split)
  qed (simp add: map_insert_def)
qed

lemma map_of_merge_outer:
  "distinct (map fst schema) \<Longrightarrow>
     map_of (merge_outer schema branch) k =
       (if k = ''anyOf'' then map_of branch k else case map_of schema k of Some v \<Rightarrow> Some v | None \<Rightarrow> map_of branch k)"
  unfolding merge_outer_def
proof (induction schema arbitrary: branch)
  case (Cons p schema)
  obtain j v where p: "p = (j, v)" by fastforce
  have "map_of schema j = None" using Cons.prems p by (simp add: map_of_eq_None_iff)
  with Cons p show ?case by (auto simp: map_of_map_insert split: option.split)
qed simp

lemma map_of_replace_type:
  "k \<noteq> ''type'' \<Longrightarrow> map_of (replace_type m) k = map_of m k"
  by (auto simp: replace_type_def map_of_map_insert AList.delete_conv' split: option.split)

lemma map_of_clean:
  "k \<noteq> ''type'' \<Longrightarrow> map_of (clean_schema m) k = (if k = ''$schema'' then None else map_of (replace_any_of m) k)"
  by (simp add: clean_schema_def map_of_replace_type AList.delete_conv')

lemma map_of_drop_null_default: "k \<noteq> ''default'' \<Longrightarrow> map_of (drop_null_default m) k = map_of m k"
  by (simp add: drop_null_default_def AList.delete_conv')

text \<open>Objects whose keys are distinct, whose branches are not nested choices and whose type lists are
  lists of names: what the schema generator emits.\<close>

fun simple_schema :: "json \<Rightarrow> bool" where
  "simple_schema (JObject m) \<longleftrightarrow>
     distinct (map fst m) \<and>
     (case map_of m ''anyOf'' of Some (JArray bs) \<Rightarrow> list_all (\<lambda>b. json_get b ''anyOf'' = None) bs | _ \<Rightarrow> True) \<and>
     (case map_of m ''type'' of Some (JArray ts) \<Rightarrow> list_all (\<lambda>t. as_str t \<noteq> None) ts | _ \<Rightarrow> True) \<and>
     list_all (\<lambda>(k, v). simple_schema v) m"
| "simple_schema (JArray xs) \<longleftrightarrow> list_all simple_schema xs"
| "simple_schema _ \<longleftrightarrow> True"

text \<open>What clients should see, stated without the code's loops: the members of \<open>T\<close> when the object is a
  choice between \<open>T\<close> and \<open>null\<close>, in either order; a type without its \<open>null\<close>; and the value of each keyword of
  the cleaned object before that value is cleaned in its turn.\<close>

definition optional_branch :: "(string \<times> json) list \<Rightarrow> (string \<times> json) list option" where
  "optional_branch m =
     (case map_of m ''anyOf'' of
        Some (JArray bs) \<Rightarrow>
          (case (filter is_null_schema bs, filter (\<lambda>b. \<not> is_null_schema b) bs) of
             ([_], [b]) \<Rightarrow> branch_object b
           | _ \<Rightarrow> None)
      | _ \<Rightarrow> None)"

fun without_null :: "json \<Rightarrow> json option" where
  "without_null (JArray ts) =
     (if JString ''null'' \<notin> set ts then Some (JArray ts)
      else case removeAll (JString ''null'') ts of [] \<Rightarrow> None | [t] \<Rightarrow> Some t | us \<Rightarrow> Some (JArray us))"
| "without_null t = Some t"

definition optional_keyword :: "(string \<times> json) list \<Rightarrow> string \<Rightarrow> json option" where
  "optional_keyword m k =
     (case optional_branch m of
        None \<Rightarrow> map_of m k
      | Some b \<Rightarrow>
          if k = ''anyOf'' \<or> k = ''default'' \<and> (map_of b ++ map_of m) k = Some JNull then None
          else (map_of b ++ map_of m) k)"

definition portable_keyword :: "(string \<times> json) list \<Rightarrow> string \<Rightarrow> json option" where
  "portable_keyword m k =
     (if k = ''$schema'' then None
      else if k = ''type'' then Option.bind (optional_keyword m k) without_null
      else optional_keyword m k)"

fun portable :: "json \<Rightarrow> bool" where
  "portable (JObject m) \<longleftrightarrow>
     map_of m ''$schema'' = None \<and> optional_branch m = None \<and>
     (case map_of m ''type'' of Some (JArray ts) \<Rightarrow> JString ''null'' \<notin> set ts | _ \<Rightarrow> True) \<and>
     list_all (\<lambda>(k, v). portable v) m"
| "portable (JArray xs) \<longleftrightarrow> list_all portable xs"
| "portable _ \<longleftrightarrow> True"

lemma split_nullable_filter:
  "split_nullable bs nn c =
     (case (nn, filter (\<lambda>b. \<not> is_null_schema b) bs) of
        (x, []) \<Rightarrow> Some (x, c + length (filter is_null_schema bs))
      | (None, [b]) \<Rightarrow> Some (Some b, c + length (filter is_null_schema bs))
      | _ \<Rightarrow> None)"
  by (induction bs nn c rule: split_nullable.induct) (auto split: option.splits list.splits)

lemma any_of_replacement:
  "nullable_any_of_replacement m = map_option (\<lambda>b. drop_null_default (merge_outer m b)) (optional_branch m)"
proof (cases "Option.bind (map_of m ''anyOf'') as_array")
  case None
  then show ?thesis
    by (auto simp: nullable_any_of_replacement_def optional_branch_def split: option.splits json.splits)
next
  case (Some bs)
  then have "map_of m ''anyOf'' = Some (JArray bs)" by (auto simp: Option.bind_eq_Some_conv elim!: as_array.elims)
  then show ?thesis
    by (auto simp: nullable_any_of_replacement_def optional_branch_def split_nullable_filter option.map_comp comp_def
        map_conv_bind_option length_Suc_conv split: list.splits)
qed

lemma no_any_of_replacement: "optional_branch m = None \<longleftrightarrow> nullable_any_of_replacement m = None"
  by (simp add: any_of_replacement)

lemma is_null_name_eq: "is_null_name t \<longleftrightarrow> t = JString ''null''"
  by (cases t) (auto simp: is_null_name_def)

lemma type_array_replacement:
  "nullable_type_array_replacement m =
     (case map_of m ''type'' of
        Some (JArray ts) \<Rightarrow> if JString ''null'' \<in> set ts then Some (without_null (JArray ts)) else None
      | _ \<Rightarrow> None)"
  by (auto simp: nullable_type_array_replacement_def is_null_name_eq list_ex_iff removeAll_filter_not_eq Let_def
      eq_commute [of "JString ''null''"] split: option.splits json.splits list.splits)

lemma no_type_array_replacement:
  "(case map_of m ''type'' of Some (JArray ts) \<Rightarrow> JString ''null'' \<notin> set ts | _ \<Rightarrow> True) \<longleftrightarrow>
     nullable_type_array_replacement m = None"
  by (auto simp: type_array_replacement split: option.splits json.splits)

lemma replace_any_of_type:
  assumes "distinct (map fst m)" "map_of (replace_any_of m) ''type'' = Some v"
  obtains "map_of m ''type'' = Some v"
  | any_of b where "map_of m ''anyOf'' = Some (JArray any_of)" "JObject b \<in> set any_of" "\<not> is_null_schema (JObject b)"
      "map_of b ''type'' = Some v"
proof (cases "nullable_any_of_replacement m")
  case None
  with assms that(1) show thesis by (simp add: replace_any_of_def)
next
  case (Some r)
  then obtain any_of b branch where r: "map_of m ''anyOf'' = Some (JArray any_of)" "b \<in> set any_of" "\<not> is_null_schema b"
    "branch_object b = Some branch" "r = drop_null_default (merge_outer m branch)"
    by (rule nullable_any_of_cases)
  with assms Some have "map_of m ''type'' = Some v \<or> map_of m ''type'' = None \<and> map_of branch ''type'' = Some v"
    by (auto simp: replace_any_of_def map_of_drop_null_default map_of_merge_outer split: option.splits)
  with r that show thesis by (auto elim!: branch_object.elims)
qed

lemma normalize_string [simp]: "normalize_schema_value v = JString s \<longleftrightarrow> v = JString s"
  by (cases v) auto

lemma as_array_normalize [simp]:
  "as_array (normalize_schema_value v) = map_option (map normalize_schema_value) (as_array v)"
  by (cases v) auto

lemma as_str_normalize [simp]: "as_str (normalize_schema_value v) = as_str v"
  by (cases v) auto

lemma branch_object_normalize: "branch_object (normalize_schema_value b) = None \<longleftrightarrow> branch_object b = None"
proof (cases b)
  case (JBool c)
  then show ?thesis by (cases c) auto
qed auto

lemma map_of_normalize:
  "map_of (map (\<lambda>(k, v). (k, normalize_schema_value v)) m) k = map_option normalize_schema_value (map_of m k)"
  by (simp add: map_of_map)

lemma clean_type_null:
  assumes "distinct (map fst m)"
  shows "map_of (clean_schema m) ''type'' = Some (JString ''null'') \<longleftrightarrow> map_of m ''type'' = Some (JString ''null'')"
proof
  let ?m = "AList.delete ''$schema'' (replace_any_of m)"
  have same: "map_of ?m ''type'' = map_of (replace_any_of m) ''type''" by (simp add: AList.delete_conv')
  {
    assume null: "map_of (clean_schema m) ''type'' = Some (JString ''null'')"
    have "nullable_type_array_replacement ?m = None"
    proof (rule ccontr)
      assume "\<not> ?thesis"
      then obtain types where t: "nullable_type_array_replacement ?m =
          Some (case filter (\<lambda>t. \<not> is_null_name t) types of [] \<Rightarrow> None | [t] \<Rightarrow> Some t
            | _ \<Rightarrow> Some (JArray (filter (\<lambda>t. \<not> is_null_name t) types)))"
        by (auto simp: nullable_type_array_replacement_def Option.bind_eq_Some_conv Let_def split: if_splits)
      then show False
        using null filter_eq_single_in [of "\<lambda>t. \<not> is_null_name t" types "JString ''null''"]
        by (auto simp: clean_schema_def replace_type_def map_of_map_insert AList.delete_conv' is_null_name_def split: list.splits)
    qed
    with null have "map_of (replace_any_of m) ''type'' = Some (JString ''null'')"
      by (simp add: clean_schema_def replace_type_def same)
    from assms this show "map_of m ''type'' = Some (JString ''null'')"
      by (rule replace_any_of_type) (auto simp: is_null_schema_def get_str_def)
  next
    assume null: "map_of m ''type'' = Some (JString ''null'')"
    have "map_of (replace_any_of m) ''type'' = Some (JString ''null'')"
    proof (cases "nullable_any_of_replacement m")
      case (Some r)
      then obtain branch where "r = drop_null_default (merge_outer m branch)" by (rule nullable_any_of_cases)
      with Some null assms show ?thesis
        by (simp add: replace_any_of_def map_of_drop_null_default map_of_merge_outer)
    qed (simp add: replace_any_of_def null)
    then show "map_of (clean_schema m) ''type'' = Some (JString ''null'')"
      by (simp add: clean_schema_def replace_type_def nullable_type_array_replacement_def same)
  }
qed

lemma as_str_eq: "as_str v = Some s \<longleftrightarrow> v = JString s"
  by (cases v) auto

lemma is_null_object: "is_null_schema (JObject m) \<longleftrightarrow> map_of m ''type'' = Some (JString ''null'')"
  by (cases "map_of m ''type''") (simp_all add: is_null_schema_def get_str_def as_str_eq)

lemma is_null_normalize:
  assumes "simple_schema b"
  shows "is_null_schema (normalize_schema_value b) \<longleftrightarrow> is_null_schema b"
proof (cases b)
  case (JObject m)
  with assms have "distinct (map fst m)" by simp
  then show ?thesis
    using clean_type_null [of m] JObject
    by (cases "map_of (clean_schema m) ''type''") (simp_all add: is_null_object map_of_normalize)
qed (simp_all add: is_null_schema_def get_str_def)

lemma split_nullable_normalize:
  "list_all simple_schema bs \<Longrightarrow>
     split_nullable (map normalize_schema_value bs) (map_option normalize_schema_value nn) c =
       map_option (map_prod (map_option normalize_schema_value) id) (split_nullable bs nn c)"
proof (induction bs nn c rule: split_nullable.induct)
  case (2 b bs nn c)
  then show ?case by (cases nn) (simp_all add: is_null_normalize)
qed simp

lemma any_of_None_iff:
  "nullable_any_of_replacement m = None \<longleftrightarrow>
     (\<forall>bs b. map_of m ''anyOf'' = Some (JArray bs) \<longrightarrow> split_nullable bs None 0 = Some (Some b, 1) \<longrightarrow> branch_object b = None)"
proof
  assume "nullable_any_of_replacement m = None"
  then show "\<forall>bs b. map_of m ''anyOf'' = Some (JArray bs) \<longrightarrow> split_nullable bs None 0 = Some (Some b, 1) \<longrightarrow> branch_object b = None"
    by (auto simp: nullable_any_of_replacement_def Option.bind_eq_None_conv)
next
  assume *: "\<forall>bs b. map_of m ''anyOf'' = Some (JArray bs) \<longrightarrow> split_nullable bs None 0 = Some (Some b, 1) \<longrightarrow> branch_object b = None"
  show "nullable_any_of_replacement m = None"
  proof (rule ccontr)
    assume "nullable_any_of_replacement m \<noteq> None"
    then obtain v bs b branch where "map_of m ''anyOf'' = Some v" "as_array v = Some bs"
      "split_nullable bs None 0 = Some (Some b, 1)" "branch_object b = Some branch"
      by (auto simp: nullable_any_of_replacement_def Option.bind_eq_Some_conv split: if_splits)
    with * show False by (cases v) auto
  qed
qed

lemma any_of_stable:
  assumes "nullable_any_of_replacement m = None" "list_all (\<lambda>(k, v). simple_schema v) m"
  shows "nullable_any_of_replacement (map (\<lambda>(k, v). (k, normalize_schema_value v)) m) = None"
proof (cases "Option.bind (map_of m ''anyOf'') as_array")
  case None
  then show ?thesis by (cases "map_of m ''anyOf''") (simp_all add: nullable_any_of_replacement_def map_of_normalize)
next
  case (Some bs)
  then have a: "map_of m ''anyOf'' = Some (JArray bs)" by (auto simp: Option.bind_eq_Some_conv elim!: as_array.elims)
  with assms(2) map_of_SomeD [OF a] have "list_all simple_schema bs" by (auto simp: list_all_iff)
  from assms(1) a split_nullable_normalize [OF this, of None 0] show ?thesis
    using branch_object_normalize by (auto simp: any_of_None_iff map_of_normalize)
qed

lemma type_stable:
  assumes "nullable_type_array_replacement m = None"
  shows "nullable_type_array_replacement (map (\<lambda>(k, v). (k, normalize_schema_value v)) m) = None"
proof -
  have "is_null_name (normalize_schema_value t) \<longleftrightarrow> is_null_name t" for t by (simp add: is_null_name_def)
  then show ?thesis
    using assms by (cases "Option.bind (map_of m ''type'') as_array"; cases "map_of m ''type''")
      (auto simp: nullable_type_array_replacement_def map_of_normalize Let_def list_ex_iff split: if_splits)
qed

lemma simple_type_strings:
  "simple_schema (JObject m) \<Longrightarrow> map_of m ''type'' = Some (JArray ts) \<Longrightarrow> list_all (\<lambda>t. as_str t \<noteq> None) ts"
  by simp

lemma simple_member: "simple_schema (JObject m) \<Longrightarrow> (k, v) \<in> set m \<Longrightarrow> simple_schema v"
  by (auto simp: list_all_iff)

lemma simple_branch:
  assumes "simple_schema (JObject m)" "map_of m ''anyOf'' = Some (JArray bs)" "b \<in> set bs"
  shows "simple_schema b" "json_get b ''anyOf'' = None"
  using assms simple_member [OF assms(1) map_of_SomeD [OF assms(2)]] by (auto simp: list_all_iff)

lemma cleaned_any_of_gone:
  assumes "simple_schema (JObject m)" "nullable_any_of_replacement m = Some r"
  shows "map_of r ''anyOf'' = None"
proof -
  from assms(2) obtain any_of b branch where r: "map_of m ''anyOf'' = Some (JArray any_of)" "b \<in> set any_of"
    "branch_object b = Some branch" "r = drop_null_default (merge_outer m branch)"
    by (rule nullable_any_of_cases) blast
  have "map_of branch ''anyOf'' = None"
    using simple_branch(2) [OF assms(1) r(1,2)] r(3) by (auto elim!: branch_object.elims)
  with assms(1) r(4) show ?thesis by (simp add: map_of_drop_null_default map_of_merge_outer)
qed

lemma cleaned_any_of:
  assumes "simple_schema (JObject m)"
  shows "nullable_any_of_replacement (clean_schema m) = None"
proof (cases "nullable_any_of_replacement m")
  case None
  have "map_of (clean_schema m) ''anyOf'' = map_of m ''anyOf''" by (simp add: map_of_clean replace_any_of_def None)
  with None show ?thesis by (simp add: any_of_None_iff)
next
  case (Some r)
  with cleaned_any_of_gone [OF assms Some] have "map_of (clean_schema m) ''anyOf'' = None"
    by (simp add: map_of_clean replace_any_of_def)
  then show ?thesis by (simp add: nullable_any_of_replacement_def)
qed

lemma replaced_type_strings:
  assumes "simple_schema (JObject m)" "map_of (replace_any_of m) ''type'' = Some (JArray ts)"
  shows "list_all (\<lambda>t. as_str t \<noteq> None) ts"
proof -
  from assms(1) have "distinct (map fst m)" by simp
  from this assms(2) show ?thesis
  proof (rule replace_any_of_type)
    fix any_of b
    assume "map_of m ''anyOf'' = Some (JArray any_of)" "JObject b \<in> set any_of" "map_of b ''type'' = Some (JArray ts)"
    then show ?thesis using simple_branch(1) [OF assms(1)] simple_type_strings by blast
  qed (rule simple_type_strings [OF assms(1)])
qed

lemma cleaned_type:
  assumes "simple_schema (JObject m)"
  shows "nullable_type_array_replacement (clean_schema m) = None"
proof -
  let ?m = "AList.delete ''$schema'' (replace_any_of m)"
  have same: "map_of ?m ''type'' = map_of (replace_any_of m) ''type''" by (simp add: AList.delete_conv')
  show ?thesis
  proof (cases "nullable_type_array_replacement ?m")
    case None
    then show ?thesis by (simp add: clean_schema_def replace_type_def)
  next
    case (Some r)
    then obtain ts where ts: "map_of ?m ''type'' = Some (JArray ts)"
      "r = (case filter (\<lambda>t. \<not> is_null_name t) ts of [] \<Rightarrow> None | [t] \<Rightarrow> Some t
         | _ \<Rightarrow> Some (JArray (filter (\<lambda>t. \<not> is_null_name t) ts)))"
      by (auto simp: nullable_type_array_replacement_def Option.bind_eq_Some_conv Let_def elim!: as_array.elims split: if_splits)
    have strings: "as_str t \<noteq> None" if "t \<in> set ts" for t
      using replaced_type_strings [OF assms] ts(1) same that by (auto simp: list_all_iff)
    have "nullable_type_array_replacement (map_insert ''type'' w ?m) = None" if "r = Some w" for w
    proof (cases "\<exists>t. filter (\<lambda>t. \<not> is_null_name t) ts = [t]")
      case True
      then obtain t where f: "filter (\<lambda>t. \<not> is_null_name t) ts = [t]" by blast
      with that ts(2) strings have "as_str w \<noteq> None" using filter_eq_single_in [OF f] by simp
      then show ?thesis by (cases w) (simp_all add: nullable_type_array_replacement_def map_of_map_insert)
    next
      case False
      with that ts(2) have "w = JArray (filter (\<lambda>t. \<not> is_null_name t) ts)" by (auto split: list.splits)
      then show ?thesis by (simp add: nullable_type_array_replacement_def map_of_map_insert Let_def list_ex_iff)
    qed
    moreover have "nullable_type_array_replacement (AList.delete ''type'' ?m) = None"
      by (simp add: nullable_type_array_replacement_def AList.delete_conv')
    ultimately show ?thesis
      using Some by (cases r) (simp_all add: clean_schema_def replace_type_def)
  qed
qed

lemma string_simple: "as_str t \<noteq> None \<Longrightarrow> simple_schema t"
  by (cases t) auto

lemma replace_type_simple:
  assumes "\<And>k v. (k, v) \<in> set m \<Longrightarrow> simple_schema v"
    "\<And>ts. map_of m ''type'' = Some (JArray ts) \<Longrightarrow> list_all (\<lambda>t. as_str t \<noteq> None) ts" "(k, v) \<in> set (replace_type m)"
  shows "simple_schema v"
proof -
  have "simple_schema w" if w: "nullable_type_array_replacement m = Some (Some w)" for w
  proof -
    from w obtain ts where ts: "map_of m ''type'' = Some (JArray ts)"
      "(case filter (\<lambda>t. \<not> is_null_name t) ts of [] \<Rightarrow> None | [t] \<Rightarrow> Some t
         | _ \<Rightarrow> Some (JArray (filter (\<lambda>t. \<not> is_null_name t) ts))) = Some w"
      by (auto simp: nullable_type_array_replacement_def Option.bind_eq_Some_conv Let_def elim!: as_array.elims split: if_splits)
    have strings: "simple_schema t" if "t \<in> set ts" for t
      using assms(2) [OF ts(1)] that string_simple by (simp add: list_all_iff)
    have "w = JArray (filter (\<lambda>t. \<not> is_null_name t) ts) \<or> (\<exists>t. filter (\<lambda>t. \<not> is_null_name t) ts = [t] \<and> w = t)"
      using ts(2) by (auto split: list.splits)
    then show ?thesis
      using strings by (auto simp: list_all_iff dest!: filter_eq_single_in)
  qed
  then show ?thesis
    using assms(1,3) by (auto simp: replace_type_def AList.delete_eq split: option.splits dest!: map_insert_values)
qed

lemma clean_schema_simple:
  assumes "simple_schema (JObject m)" "(k, v) \<in> set (clean_schema m)"
  shows "simple_schema v"
proof -
  have inner: "simple_schema w" if "(j, w) \<in> set (replace_any_of m)" for j w
    using replace_any_of_values [OF that] simple_member simple_branch(1) [OF assms(1)] assms(1) by blast
  show ?thesis
  proof (rule replace_type_simple [OF _ _ assms(2) [unfolded clean_schema_def]])
    fix ts
    assume "map_of (AList.delete ''$schema'' (replace_any_of m)) ''type'' = Some (JArray ts)"
    then show "list_all (\<lambda>t. as_str t \<noteq> None) ts"
      using replaced_type_strings [OF assms(1)] by (simp add: AList.delete_conv')
  qed (use inner in \<open>auto simp: AList.delete_eq\<close>)
qed

lemma portable_object:
  "portable (JObject m) \<longleftrightarrow>
     map_of m ''$schema'' = None \<and> nullable_any_of_replacement m = None \<and>
     nullable_type_array_replacement m = None \<and> list_all (\<lambda>(k, v). portable v) m"
  by (simp add: no_any_of_replacement no_type_array_replacement)

lemma normalized_portable: "simple_schema s \<Longrightarrow> portable (normalize_schema_value s)"
proof (induction s rule: normalize_schema_value.induct)
  case (1 m)
  have members: "simple_schema v" if "(k, v) \<in> set (clean_schema m)" for k v
    using clean_schema_simple [OF "1.prems" that] .
  with 1 have "list_all (\<lambda>(k, v). portable v) (map (\<lambda>(k, v). (k, normalize_schema_value v)) (clean_schema m))"
    by (fastforce simp: list_all_iff)
  moreover have "list_all (\<lambda>(k, v). simple_schema v) (clean_schema m)" using members by (auto simp: list_all_iff)
  ultimately show ?case
    using any_of_stable [OF cleaned_any_of] type_stable [OF cleaned_type] "1.prems"
    by (simp add: portable_object map_of_normalize map_of_clean del: portable.simps(1))
qed (auto simp: list_all_iff)

lemma map_of_replace_any_of:
  assumes "simple_schema (JObject m)"
  shows "map_of (replace_any_of m) k = optional_keyword m k"
proof (cases "optional_branch m")
  case None
  then show ?thesis by (simp add: replace_any_of_def any_of_replacement optional_keyword_def)
next
  case (Some b)
  have "distinct (map fst m)" using assms by simp
  note merged = map_of_merge_outer [OF this]
  from Some have "nullable_any_of_replacement m = Some (drop_null_default (merge_outer m b))"
    by (simp add: any_of_replacement)
  then have "map_of (drop_null_default (merge_outer m b)) ''anyOf'' = None"
    using cleaned_any_of_gone [OF assms] by simp
  with Some show ?thesis
    by (auto simp: replace_any_of_def any_of_replacement optional_keyword_def drop_null_default_def merged
        AList.delete_conv' map_add_def split: option.splits if_splits)
qed

lemma map_of_replaced_type:
  "map_of (replace_type m) ''type'' = Option.bind (map_of m ''type'') without_null"
  by (auto simp: replace_type_def type_array_replacement map_of_map_insert AList.delete_conv'
      simp del: without_null.simps(1) split: option.splits json.splits if_splits)
    (auto split: list.splits)

lemma cleaned_keywords:
  assumes "simple_schema (JObject m)"
  shows "json_get (normalize_schema_value (JObject m)) k = map_option normalize_schema_value (portable_keyword m k)"
proof (cases "k = ''type''")
  case True
  then show ?thesis
    using map_of_replace_any_of [OF assms, of k]
    by (simp add: map_of_normalize clean_schema_def map_of_replaced_type AList.delete_conv' portable_keyword_def)
next
  case False
  then show ?thesis
    using map_of_replace_any_of [OF assms, of k] by (simp add: map_of_normalize map_of_clean portable_keyword_def)
qed

section \<open>The schemas that clients see\<close>

text \<open>C26: the schemas of tool arguments reach clients in a portable form. For a schema whose objects have
  distinct keys, whose choices have no choice directly in a branch and whose type lists are lists of names:
  nowhere in the cleaned schema is there a \<open>$schema\<close>, a choice between one schema and \<open>null\<close>, or a list of types
  with \<open>null\<close>; and each keyword of the cleaned object has exactly the cleaned value that it should have. A choice
  between \<open>T\<close> and \<open>null\<close>, in either order, is replaced by the keywords of \<open>T\<close>, the keywords beside the choice
  going first; a \<open>default\<close> that is \<open>null\<close> goes with the choice and any other stays; a type loses its \<open>null\<close>, a
  list of one remaining name becomes that name, and a type that was only \<open>null\<close> goes; everything else is kept.\<close>

theorem schemas_become_portable:
  assumes "simple_schema (JObject m)"
  shows "portable (normalize_schema_value (JObject m)) \<and>
    (\<forall>k. json_get (normalize_schema_value (JObject m)) k = map_option normalize_schema_value (portable_keyword m k))"
  using normalized_portable [OF assms] cleaned_keywords [OF assms] by blast

definition timeout_schema :: "(string \<times> json) list" where
  "timeout_schema =
     [(''$schema'', JString ''https''),
      (''anyOf'', JArray [JObject [(''type'', JString ''integer''), (''format'', JString ''int64'')],
         JObject [(''type'', JString ''null'')]]),
      (''default'', JNull), (''description'', JString ''Timeout in seconds'')]"

theorem schemas_become_portable_witness:
  "portable (normalize_schema_value (JObject timeout_schema)) \<and>
   json_get (normalize_schema_value (JObject timeout_schema)) ''type'' = Some (JString ''integer'') \<and>
   json_get (normalize_schema_value (JObject timeout_schema)) ''format'' = Some (JString ''int64'') \<and>
   json_get (normalize_schema_value (JObject timeout_schema)) ''description'' = Some (JString ''Timeout in seconds'') \<and>
   json_get (normalize_schema_value (JObject timeout_schema)) ''anyOf'' = None \<and>
   json_get (normalize_schema_value (JObject timeout_schema)) ''default'' = None"
proof -
  have "simple_schema (JObject timeout_schema)" by (simp add: timeout_schema_def)
  note p = schemas_become_portable [OF this]
  have b: "optional_branch timeout_schema = Some [(''type'', JString ''integer''), (''format'', JString ''int64'')]"
    by (simp add: timeout_schema_def optional_branch_def is_null_schema_def get_str_def)
  show ?thesis
    using p by (simp add: portable_keyword_def optional_keyword_def b) (simp add: timeout_schema_def map_add_def)
qed

text \<open>A choice nested in a branch survives: only the outer one is resolved.\<close>

lemma nested_choice_survives:
  "normalize_schema_value (JObject [(''anyOf'', JArray [JObject [(''anyOf'', JArray [JObject [(''type'', JString ''string'')],
       JObject [(''type'', JString ''null'')]])], JObject [(''type'', JString ''null'')]])]) =
   JObject [(''anyOf'', JArray [JObject [(''type'', JString ''string'')], JObject [(''type'', JString ''null'')]])]"
  by (simp add: clean_schema_def replace_any_of_def nullable_any_of_replacement_def is_null_schema_def get_str_def
      merge_outer_def drop_null_default_def replace_type_def nullable_type_array_replacement_def)

end
