(* ===== verification/Http_Access.thy ===== *)
theory Http_Access
  imports Rust_Str
begin

text \<open>
  The checks in front of the HTTP transport, \<open>src/src/server/http_access.rs\<close>: which \<open>Origin\<close> and
  \<open>Host\<close> headers a request may carry. The endpoint has no other authentication, so that these checks
  are what keeps web pages, also with a DNS name that was bound to a local address, away from it.
  \<open>Authority::try_from\<close> of the \<open>http\<close> crate is the parameter \<open>auth\<close>; a header is absent, or its first
  value, which is not always a string. The address parser of the standard library is modelled.
\<close>

section \<open>Addresses\<close>

datatype ip_addr = V4 "nat list" | V6 "nat list"

definition read_number :: "nat \<Rightarrow> nat \<Rightarrow> bool \<Rightarrow> nat \<Rightarrow> string \<Rightarrow> (nat \<times> string) option" where
  "read_number radix max_digits zero_prefix mx s =
     (let ds = takeWhile (\<lambda>c. to_digit radix c \<noteq> None) s in
      if ds = [] \<or> max_digits < length ds \<or> \<not> zero_prefix \<and> hd ds = CHR ''0'' \<and> 1 < length ds then None
      else let v = foldl (\<lambda>n c. n * radix + the (to_digit radix c)) 0 ds
           in if v \<le> mx then Some (v, drop (length ds) s) else None)"

definition read_separator :: "char \<Rightarrow> bool \<Rightarrow> (string \<Rightarrow> ('a \<times> string) option) \<Rightarrow> string \<Rightarrow> ('a \<times> string) option" where
  "read_separator sep later inner s =
     (if later then Option.bind (strip_prefix_str [sep] s) inner else inner s)"

fun read_octets :: "nat \<Rightarrow> bool \<Rightarrow> string \<Rightarrow> (nat list \<times> string) option" where
  "read_octets 0 later s = Some ([], s)"
| "read_octets (Suc n) later s =
     (case read_separator (CHR ''.'') later (read_number 10 3 False 255) s of
        None \<Rightarrow> None
      | Some (v, s) \<Rightarrow> map_option (\<lambda>(vs, s). (v # vs, s)) (read_octets n True s))"

definition read_ipv4_addr :: "string \<Rightarrow> (nat list \<times> string) option" where
  "read_ipv4_addr s = read_octets 4 False s"

text \<open>Up to \<open>n\<close> groups; an IPv4 address counts for two and ends them.\<close>

fun read_groups :: "nat \<Rightarrow> bool \<Rightarrow> string \<Rightarrow> nat list \<times> bool \<times> string" where
  "read_groups 0 later s = ([], False, s)"
| "read_groups (Suc n) later s =
     (case (if 0 < n then read_separator (CHR '':'') later read_ipv4_addr s else None) of
        Some (os, s) \<Rightarrow> ([256 * os ! 0 + os ! 1, 256 * os ! 2 + os ! 3], True, s)
      | None \<Rightarrow>
          (case read_separator (CHR '':'') later (read_number 16 4 True 65535) s of
             Some (g, s) \<Rightarrow> (case read_groups n True s of (gs, v4, s) \<Rightarrow> (g # gs, v4, s))
           | None \<Rightarrow> ([], False, s)))"

definition read_ipv6_addr :: "string \<Rightarrow> (nat list \<times> string) option" where
  "read_ipv6_addr s =
     (case read_groups 8 False s of
        (head, v4, s) \<Rightarrow>
          if length head = 8 then Some (head, s)
          else if v4 then None
          else Option.bind (strip_prefix_str ''::'' s) (\<lambda>s.
            case read_groups (8 - (length head + 1)) False s of
              (tail, _, s) \<Rightarrow> Some (head @ replicate (8 - length head - length tail) 0 @ tail, s)))"

definition parse_ip :: "string \<Rightarrow> ip_addr option" where
  "parse_ip s =
     (case (case read_ipv4_addr s of
              Some (os, r) \<Rightarrow> Some (V4 os, r)
            | None \<Rightarrow> map_option (apfst V6) (read_ipv6_addr s)) of
        Some (a, []) \<Rightarrow> Some a
      | _ \<Rightarrow> None)"

fun is_loopback :: "ip_addr \<Rightarrow> bool" where
  "is_loopback (V4 os) \<longleftrightarrow> hd os = 127"
| "is_loopback (V6 gs) \<longleftrightarrow> gs = [0, 0, 0, 0, 0, 0, 0, 1]"

fun is_unspecified :: "ip_addr \<Rightarrow> bool" where
  "is_unspecified (V4 os) \<longleftrightarrow> os = [0, 0, 0, 0]"
| "is_unspecified (V6 gs) \<longleftrightarrow> gs = [0, 0, 0, 0, 0, 0, 0, 0]"

section \<open>Policies\<close>

record normalized_authority =
  na_host :: string
  na_port :: "nat option"

definition na_display :: "normalized_authority \<Rightarrow> string" where
  "na_display a = (case na_port a of Some p \<Rightarrow> na_host a @ '':'' @ fmt_dec p | None \<Rightarrow> na_host a)"

definition trim_char :: "char \<Rightarrow> string \<Rightarrow> string" where
  "trim_char c s = rev (dropWhile ((=) c) (rev (dropWhile ((=) c) s)))"

definition normalize_host :: "string \<Rightarrow> string" where
  "normalize_host host = to_ascii_lowercase (trim_char (CHR '']'') (trim_char (CHR ''['') host))"

definition normalize_authority :: "string \<Rightarrow> nat option \<Rightarrow> normalized_authority" where
  "normalize_authority host port = \<lparr>na_host = normalize_host host, na_port = port\<rparr>"

type_synonym authority_parser = "string \<Rightarrow> (string \<times> nat option) option"

definition parse_allowed_authority :: "authority_parser \<Rightarrow> string \<Rightarrow> normalized_authority option" where
  "parse_allowed_authority auth allowed =
     (let allowed = trim allowed in
      if allowed = [] then None
      else case auth allowed of
             Some (host, port) \<Rightarrow> Some (normalize_authority host port)
           | None \<Rightarrow> Some (normalize_authority allowed None))"

datatype host_allow_list = AnyHost | RestrictedHosts "normalized_authority list"

fun allow_loop :: "authority_parser \<Rightarrow> string list \<Rightarrow> normalized_authority list \<Rightarrow> host_allow_list" where
  "allow_loop auth [] hosts = (if hosts = [] then AnyHost else RestrictedHosts hosts)"
| "allow_loop auth (v # vs) hosts =
     (if v = ''*'' then AnyHost
      else if v = [] then allow_loop auth vs hosts
      else case parse_allowed_authority auth v of
             Some a \<Rightarrow> allow_loop auth vs (hosts @ [a])
           | None \<Rightarrow> allow_loop auth vs hosts)"

definition host_allow_from_cli :: "authority_parser \<Rightarrow> string list option \<Rightarrow> host_allow_list" where
  "host_allow_from_cli auth allow_host =
     (case allow_host of
        None \<Rightarrow> RestrictedHosts []
      | Some values \<Rightarrow> allow_loop auth (map trim values) [])"

fun hosts_contain :: "host_allow_list \<Rightarrow> normalized_authority \<Rightarrow> bool" where
  "hosts_contain AnyHost host = True"
| "hosts_contain (RestrictedHosts allowed) host =
     list_ex (\<lambda>a. na_host a = na_host host \<and>
       (case na_port a of Some p \<Rightarrow> na_port host = Some p | None \<Rightarrow> True)) allowed"

record http_access_policy =
  hp_bind_ip :: ip_addr
  hp_bind_port :: nat
  hp_allowed_origins :: "string set"
  hp_allowed_hosts :: host_allow_list

definition clean_allowlist :: "string list \<Rightarrow> string list" where
  "clean_allowlist values = filter (\<lambda>s. s \<noteq> []) (map trim values)"

definition policy_from_cli ::
  "authority_parser \<Rightarrow> ip_addr \<Rightarrow> nat \<Rightarrow> string list \<Rightarrow> string list option \<Rightarrow> http_access_policy" where
  "policy_from_cli auth bind_ip bind_port allow_origin allow_host =
     \<lparr>hp_bind_ip = bind_ip, hp_bind_port = bind_port,
      hp_allowed_origins = set (clean_allowlist allow_origin),
      hp_allowed_hosts = host_allow_from_cli auth allow_host\<rparr>"

definition host_check_disabled :: "http_access_policy \<Rightarrow> bool" where
  "host_check_disabled pol \<longleftrightarrow> hp_allowed_hosts pol = AnyHost"

text \<open>\<open>show_addr\<close> prints the socket address.\<close>

definition host_policy_summary :: "(http_access_policy \<Rightarrow> string) \<Rightarrow> http_access_policy \<Rightarrow> string" where
  "host_policy_summary show_addr pol =
     (case hp_allowed_hosts pol of
        AnyHost \<Rightarrow> ''disabled; all Host values are allowed''
      | RestrictedHosts [] \<Rightarrow> ''bind-derived IP hosts for '' @ show_addr pol
      | RestrictedHosts extra \<Rightarrow>
          ''bind-derived IP hosts for '' @ show_addr pol @ ''; extra allowlist: '' @
          join '','' (map na_display extra))"

section \<open>Requests\<close>

record http_headers =
  hh_origin :: "(string, unit) result option"
  hh_host :: "(string, unit) result option"

record http_refusal =
  hr_status :: nat
  hr_text :: string

definition access_error :: "nat \<Rightarrow> string \<Rightarrow> http_refusal" where
  "access_error status text = \<lparr>hr_status = status, hr_text = text\<rparr>"

definition validate_origin :: "http_access_policy \<Rightarrow> http_headers \<Rightarrow> (unit, http_refusal) result" where
  "validate_origin pol h =
     (case hh_origin h of
        None \<Rightarrow> Ok ()
      | Some (Err _) \<Rightarrow> Err (access_error 400 ''Bad Request: invalid Origin'')
      | Some (Ok origin) \<Rightarrow>
          if origin \<in> hp_allowed_origins pol then Ok ()
          else Err (access_error 403 ''Forbidden: Origin is not allowed''))"

definition parse_host_header :: "authority_parser \<Rightarrow> http_headers \<Rightarrow> (normalized_authority, http_refusal) result" where
  "parse_host_header auth h =
     (case hh_host h of
        None \<Rightarrow> Err (access_error 400 ''Bad Request: missing Host header'')
      | Some (Err _) \<Rightarrow> Err (access_error 400 ''Bad Request: invalid Host header'')
      | Some (Ok host) \<Rightarrow>
          (case auth host of
             Some (name, port) \<Rightarrow> Ok (normalize_authority name port)
           | None \<Rightarrow> Err (access_error 400 ''Bad Request: invalid Host header'')))"

definition port_matches :: "nat option \<Rightarrow> nat \<Rightarrow> bool" where
  "port_matches host_port bind_port \<longleftrightarrow> (case host_port of Some p \<Rightarrow> p = bind_port | None \<Rightarrow> True)"

definition host_allowed_by_bind :: "http_access_policy \<Rightarrow> normalized_authority \<Rightarrow> bool" where
  "host_allowed_by_bind pol host \<longleftrightarrow>
     port_matches (na_port host) (hp_bind_port pol) \<and>
     (let bind_ip = hp_bind_ip pol in
      if na_host host = ''localhost'' then is_loopback bind_ip \<or> is_unspecified bind_ip
      else case parse_ip (na_host host) of
             None \<Rightarrow> False
           | Some ip \<Rightarrow>
               if is_unspecified bind_ip then True
               else if is_loopback bind_ip then is_loopback ip
               else ip = bind_ip)"

definition validate_host ::
  "authority_parser \<Rightarrow> (http_access_policy \<Rightarrow> string) \<Rightarrow> http_access_policy \<Rightarrow> http_headers \<Rightarrow> (unit, http_refusal) result" where
  "validate_host auth show_addr pol h =
     and_then (parse_host_header auth h) (\<lambda>host.
       if host_check_disabled pol then Ok ()
       else if host_allowed_by_bind pol host \<or> hosts_contain (hp_allowed_hosts pol) host then Ok ()
       else Err (access_error 403 (''Forbidden: Host header '' @ [CHR 0x27] @ na_display host @ [CHR 0x27] @
                   '' is not allowed; '' @ host_policy_summary show_addr pol)))"

definition access_validate ::
  "authority_parser \<Rightarrow> (http_access_policy \<Rightarrow> string) \<Rightarrow> http_access_policy \<Rightarrow> http_headers \<Rightarrow> (unit, http_refusal) result" where
  "access_validate auth show_addr pol h =
     and_then (validate_origin pol h) (\<lambda>_. validate_host auth show_addr pol h)"

definition access_call ::
  "authority_parser \<Rightarrow> (http_access_policy \<Rightarrow> string) \<Rightarrow> http_access_policy \<Rightarrow> (http_headers \<Rightarrow> 'r) \<Rightarrow> http_headers \<Rightarrow>
   http_refusal + 'r" where
  "access_call auth show_addr pol inner h =
     (case access_validate auth show_addr pol h of Err e \<Rightarrow> Inl e | Ok _ \<Rightarrow> Inr (inner h))"

section \<open>What a server accepts\<close>

text \<open>The characters of an address.\<close>

definition addr_char :: "char \<Rightarrow> bool" where
  "addr_char c \<longleftrightarrow> to_digit 16 c \<noteq> None \<or> c = CHR ''.'' \<or> c = CHR '':''"

definition consumed :: "string \<Rightarrow> string \<Rightarrow> bool" where
  "consumed s t \<longleftrightarrow> (\<exists>u. s = u @ t \<and> list_all addr_char u)"

lemma consumed_refl [simp]: "consumed s s"
  by (auto simp: consumed_def)

lemma consumed_trans [trans]: "consumed s t \<Longrightarrow> consumed t r \<Longrightarrow> consumed s r"
  unfolding consumed_def by (metis append.assoc list_all_append)

lemma addr_char_digit: "r \<le> 16 \<Longrightarrow> to_digit r c \<noteq> None \<Longrightarrow> addr_char c"
  by (auto simp: addr_char_def to_digit_def Let_def split: if_splits)

lemma consumed_digits: "r \<le> 16 \<Longrightarrow> consumed s (drop (length (takeWhile (\<lambda>c. to_digit r c \<noteq> None) s)) s)"
  unfolding consumed_def dropWhile_eq_drop [symmetric]
  by (metis (mono_tags, lifting) addr_char_digit list_all_iff set_takeWhileD takeWhile_dropWhile_id)

lemma read_number_consumed: "r \<le> 16 \<Longrightarrow> read_number r m z mx s = Some (v, t) \<Longrightarrow> consumed s t"
  using consumed_digits [of r s] by (auto simp: read_number_def Let_def split: if_splits)

lemma read_separator_consumed:
  assumes "read_separator sep later inner s = Some (v, t)" "addr_char sep"
    "\<And>s v t. inner s = Some (v, t) \<Longrightarrow> consumed s t"
  shows "consumed s t"
proof (cases later)
  case True
  then obtain r where "s = sep # r" "inner r = Some (v, t)"
    using assms(1) by (auto simp: read_separator_def bind_eq_Some_conv strip_prefix_str_Some)
  moreover have "consumed (sep # r) r" using assms(2) by (auto simp: consumed_def intro: exI [of _ "[sep]"])
  ultimately show ?thesis using assms(3) consumed_trans by blast
qed (use assms in \<open>auto simp: read_separator_def\<close>)

lemma sep_addr_char [simp]: "addr_char (CHR ''.'')" "addr_char (CHR '':'')"
  by (simp_all add: addr_char_def)

lemma read_octets_consumed: "read_octets n later s = Some (vs, t) \<Longrightarrow> consumed s t"
proof (induction n later s arbitrary: vs t rule: read_octets.induct)
  case (2 n later s)
  then obtain v r ws where r: "read_separator (CHR ''.'') later (read_number 10 3 False 255) s = Some (v, r)"
    and ws: "read_octets n True r = Some (ws, t)" by (auto split: option.splits)
  have "consumed s r" by (rule read_separator_consumed [OF r]) (simp_all add: read_number_consumed [of 10])
  also have "consumed r t" using "2.IH" [OF r refl ws] .
  finally show ?case .
qed simp

lemma read_groups_consumed: "read_groups n later s = (gs, v4, t) \<Longrightarrow> consumed s t"
proof (induction n later s arbitrary: gs v4 t rule: read_groups.induct)
  case (2 n later s)
  have v4: "read_separator (CHR '':'') later read_ipv4_addr s = Some (os, r) \<Longrightarrow> consumed s r" for os r
    by (erule read_separator_consumed) (auto simp: read_ipv4_addr_def intro: read_octets_consumed)
  have num: "read_separator (CHR '':'') later (read_number 16 4 True 65535) s = Some (g, r) \<Longrightarrow> consumed s r" for g r
    by (erule read_separator_consumed) (auto intro: read_number_consumed)
  consider os r where "read_separator (CHR '':'') later read_ipv4_addr s = Some (os, r)" "t = r"
    | g r gs' where "(if 0 < n then read_separator (CHR '':'') later read_ipv4_addr s else None) = None"
        "read_separator (CHR '':'') later (read_number 16 4 True 65535) s = Some (g, r)" "read_groups n True r = (gs', v4, t)"
    | "t = s"
    using "2.prems" by (auto split: option.splits prod.splits if_splits)
  then show ?case
  proof cases
    case 2
    have "consumed r t" by (rule "2.IH" [OF 2(1,2) refl 2(3)])
    with num [OF 2(2)] show ?thesis by (rule consumed_trans)
  qed (use v4 in auto)
qed simp

lemma consumed_all: "consumed s [] \<longleftrightarrow> list_all addr_char s"
  by (auto simp: consumed_def)

lemma read_ipv6_consumed: "read_ipv6_addr s = Some (gs, t) \<Longrightarrow> consumed s t"
proof -
  assume a: "read_ipv6_addr s = Some (gs, t)"
  obtain hd v4 r where h: "read_groups 8 False s = (hd, v4, r)" by (metis prod_cases3)
  note sr = read_groups_consumed [OF h]
  show ?thesis
  proof (cases "length hd = 8")
    case False
    with a h obtain q tl b where q: "r = ''::'' @ q" "read_groups (8 - (length hd + 1)) False q = (tl, b, t)"
      by (cases "read_groups (8 - (length hd + 1)) False (drop 2 r)")
        (auto simp: read_ipv6_addr_def bind_eq_Some_conv strip_prefix_str_Some split: if_splits)
    have "consumed r q" using q(1) by (auto simp: consumed_def intro!: exI [of _ "''::''"])
    with sr read_groups_consumed [OF q(2)] show ?thesis by (blast intro: consumed_trans)
  qed (use a h sr in \<open>auto simp: read_ipv6_addr_def\<close>)
qed

lemma parse_ip_chars: "parse_ip s = Some a \<Longrightarrow> list_all addr_char s"
  unfolding parse_ip_def read_ipv4_addr_def consumed_all [symmetric]
  by (auto split: option.splits prod.splits list.splits dest: read_octets_consumed read_ipv6_consumed)

text \<open>Every dotted quad is an address.\<close>

lemma octet_text:
  assumes "n \<le> 255"
  shows "\<forall>c \<in> set (fmt_dec n). to_digit 10 c \<noteq> None" "fmt_dec n \<noteq> []" "length (fmt_dec n) \<le> 3"
    "hd (fmt_dec n) = CHR ''0'' \<Longrightarrow> length (fmt_dec n) = 1"
    "foldl (\<lambda>m c. m * 10 + the (to_digit 10 c)) 0 (fmt_dec n) = n"
proof -
  have ds: "fmt_dec n = (if n < 10 then [digit_char n]
      else if n < 100 then [digit_char (n div 10), digit_char (n mod 10)]
      else [digit_char (n div 100), digit_char (n div 10 mod 10), digit_char (n mod 10)])"
    using assms by (auto simp: fmt_dec_def radix_digits.simps [of 10] div_mult2_eq [of n 10 10, simplified])
  have nz: "0 < d \<Longrightarrow> d < 10 \<Longrightarrow> digit_char d \<noteq> CHR ''0''" for d
    using to_digit_digit_char [of d 10] by (auto simp: to_digit_def)
  show "\<forall>c \<in> set (fmt_dec n). to_digit 10 c \<noteq> None" "fmt_dec n \<noteq> []" "length (fmt_dec n) \<le> 3"
    unfolding ds using assms by auto
  show "hd (fmt_dec n) = CHR ''0'' \<Longrightarrow> length (fmt_dec n) = 1"
    unfolding ds using assms nz [of "n div 10"] nz [of "n div 100"] by (auto split: if_splits)
  have "100 * (n div 100) + n div 10 mod 10 * 10 + n mod 10 = n"
  proof -
    have "n div 100 = n div 10 div 10" using div_mult2_eq [of n 10 10] by simp
    with div_mult_mod_eq [of "n div 10" 10] div_mult_mod_eq [of n 10] show ?thesis by linarith
  qed
  then show "foldl (\<lambda>m c. m * 10 + the (to_digit 10 c)) 0 (fmt_dec n) = n"
    unfolding ds using assms by auto
qed

lemma read_octet:
  assumes "n \<le> 255" "s = [] \<or> to_digit 10 (hd s) = None"
  shows "read_number 10 3 False 255 (fmt_dec n @ s) = Some (n, s)"
proof -
  note n = octet_text [OF assms(1)]
  have "takeWhile (\<lambda>c. to_digit 10 c \<noteq> None) s = []" using assms(2) by (cases s) auto
  then have "takeWhile (\<lambda>c. to_digit 10 c \<noteq> None) (fmt_dec n @ s) = fmt_dec n"
    using n(1) takeWhile_append2 [of "fmt_dec n" "\<lambda>c. to_digit 10 c \<noteq> None" s] by simp
  then show ?thesis using n assms(1) by (auto simp: read_number_def Let_def)
qed

lemma dot_ends_octet [simp]: "to_digit 10 (CHR ''.'') = None"
  by code_simp

lemma strip_dot [simp]: "strip_prefix_str [c] (c # s) = Some s"
  by (simp add: strip_prefix_str_Some)

lemma parse_ip_dotted:
  assumes "a \<le> 255" "b \<le> 255" "c \<le> 255" "d \<le> 255"
  shows "parse_ip (join ''.'' (map fmt_dec [a, b, c, d])) = Some (V4 [a, b, c, d])"
proof -
  have four: "read_octets 4 = read_octets (Suc (Suc (Suc (Suc 0))))" by (simp add: numeral_eq_Suc)
  show ?thesis
    unfolding parse_ip_def read_ipv4_addr_def four
    using assms read_octet [of d "[]"] by (simp add: read_separator_def read_octet)
qed

text \<open>Without \<open>--allow-host\<close> a request is let through exactly when it has no origin or a listed one, and
  names the address the server listens on.\<close>

lemma origin_accepted:
  "is_ok (validate_origin (policy_from_cli auth ip port origins hosts) h) \<longleftrightarrow>
     hh_origin h = None \<or> (\<exists>s. hh_origin h = Some (Ok s) \<and> s \<in> trim ` set origins \<and> s \<noteq> [])"
  by (auto simp: validate_origin_def policy_from_cli_def clean_allowlist_def split: option.splits result.splits)

lemma host_accepted:
  "is_ok (validate_host auth show_addr (policy_from_cli auth ip port origins None) h) \<longleftrightarrow>
     (\<exists>s name p. hh_host h = Some (Ok s) \<and> auth s = Some (name, p) \<and>
        host_allowed_by_bind (policy_from_cli auth ip port origins None) (normalize_authority name p))"
  by (auto simp: validate_host_def parse_host_header_def host_check_disabled_def policy_from_cli_def host_allow_from_cli_def
      split: option.splits result.splits)

lemma is_ok_and_then: "is_ok (and_then r f) \<longleftrightarrow> (\<exists>x. r = Ok x \<and> is_ok (f x))"
  by (cases r) auto

lemma is_ok_unit: "is_ok r \<longleftrightarrow> r = Ok ()"
  by (cases r) auto

lemma default_policy_accepts:
  "is_ok (access_validate auth show_addr (policy_from_cli auth ip port origins None) h) \<longleftrightarrow>
     (hh_origin h = None \<or> (\<exists>s. hh_origin h = Some (Ok s) \<and> s \<in> trim ` set origins \<and> s \<noteq> [])) \<and>
     (\<exists>s name p. hh_host h = Some (Ok s) \<and> auth s = Some (name, p) \<and> (p = None \<or> p = Some port) \<and>
        (if normalize_host name = ''localhost'' then is_loopback ip \<or> is_unspecified ip
         else \<exists>a. parse_ip (normalize_host name) = Some a \<and>
                (is_unspecified ip \<or> (if is_loopback ip then is_loopback a else a = ip))))"
proof -
  have bind: "host_allowed_by_bind (policy_from_cli auth ip port origins None) (normalize_authority name p) \<longleftrightarrow>
     (p = None \<or> p = Some port) \<and>
        (if normalize_host name = ''localhost'' then is_loopback ip \<or> is_unspecified ip
         else \<exists>a. parse_ip (normalize_host name) = Some a \<and>
                (is_unspecified ip \<or> (if is_loopback ip then is_loopback a else a = ip)))" for name p
    by (cases p; cases "parse_ip (normalize_host name)")
      (auto simp: host_allowed_by_bind_def policy_from_cli_def normalize_authority_def port_matches_def)
  show ?thesis
    unfolding access_validate_def is_ok_and_then host_accepted bind using origin_accepted [of auth ip port origins None h]
    by (simp add: is_ok_unit)
qed

lemma bind_needs_address:
  assumes "parse_ip (na_host a) = None" "na_host a \<noteq> ''localhost''"
  shows "\<not> host_allowed_by_bind pol a"
  using assms by (auto simp: host_allowed_by_bind_def Let_def)

text \<open>A name with a character that no address has is no address; names of hexadecimal letters and dots
  have to be parsed to know.\<close>

lemma names_are_no_addresses: "\<not> list_all addr_char s \<Longrightarrow> parse_ip s = None"
  using parse_ip_chars by (cases "parse_ip s") auto

text \<open>C32: a web page cannot reach the server under a name of its own, however that name
  resolves: a request whose \<open>Host\<close> is no address to the parser of the standard library, is not
  \<open>localhost\<close> and is not on the list given with \<open>--allow-host\<close>, is refused, whatever address
  and port the server listens on. In the same way a request from an \<open>Origin\<close> that is not listed is refused.\<close>

theorem foreign_names_are_refused:
  assumes "(\<exists>s name p. hh_host h = Some (Ok s) \<and> auth s = Some (name, p) \<and> normalize_host name \<noteq> ''localhost'' \<and>
              parse_ip (normalize_host name) = None \<and>
              \<not> hosts_contain (host_allow_from_cli auth allow_host) (normalize_authority name p)) \<or>
           (\<exists>s. hh_origin h = Some (Ok s) \<and> s \<notin> trim ` set origins)"
  shows "\<exists>e. access_call auth show_addr (policy_from_cli auth ip port origins allow_host) inner h = Inl e \<and> hr_status e \<in> {400, 403}"
proof -
  let ?pol = "policy_from_cli auth ip port origins allow_host"
  have "\<exists>e. access_validate auth show_addr ?pol h = Err e \<and> hr_status e \<in> {400, 403}"
    using assms
  proof
    assume "\<exists>s name p. hh_host h = Some (Ok s) \<and> auth s = Some (name, p) \<and> normalize_host name \<noteq> ''localhost'' \<and>
              parse_ip (normalize_host name) = None \<and>
              \<not> hosts_contain (host_allow_from_cli auth allow_host) (normalize_authority name p)"
    then obtain s name p where h: "hh_host h = Some (Ok s)" "auth s = Some (name, p)"
      "normalize_host name \<noteq> ''localhost''" "parse_ip (normalize_host name) = None"
      "\<not> hosts_contain (host_allow_from_cli auth allow_host) (normalize_authority name p)" by blast
    then have "\<not> host_allowed_by_bind ?pol (normalize_authority name p)"
      by (intro bind_needs_address) (simp_all add: normalize_authority_def)
    moreover have "\<not> host_check_disabled ?pol"
      using h(5) by (auto simp: host_check_disabled_def policy_from_cli_def)
    ultimately have "\<exists>e. validate_host auth show_addr ?pol h = Err e \<and> hr_status e \<in> {400, 403}"
      using h by (simp add: validate_host_def parse_host_header_def access_error_def policy_from_cli_def)
    then show ?thesis
      by (auto simp: access_validate_def validate_origin_def access_error_def split: option.splits result.splits)
  next
    assume "\<exists>s. hh_origin h = Some (Ok s) \<and> s \<notin> trim ` set origins"
    then show ?thesis
      by (auto simp: access_validate_def validate_origin_def access_error_def policy_from_cli_def clean_allowlist_def image_iff)
  qed
  then show ?thesis by (auto simp: access_call_def)
qed

text \<open>A name of hexadecimal letters and dots: its first four letters are read as a group of an IPv6 address,
  and nothing follows that could continue one.\<close>

lemma hex_name_is_no_address: "parse_ip ''cafe.de'' = None"
proof -
  have v4: "read_ipv4_addr ''cafe.de'' = None" by code_simp
  have group: "read_number 16 4 True 65535 ''cafe.de'' = Some (51966, ''.de'')"
    by (simp add: read_number_def to_digit_def of_char_def)
  have "read_groups (Suc (Suc n)) False ''cafe.de'' = ([51966], False, ''.de'')" for n
    by (simp add: group read_separator_def v4 strip_prefix_str_def)
  from this [of 6] have "read_groups 8 False ''cafe.de'' = ([51966], False, ''.de'')" by simp
  then have "read_ipv6_addr ''cafe.de'' = None" by (simp add: read_ipv6_addr_def strip_prefix_str_def)
  with v4 show ?thesis by (simp add: parse_ip_def)
qed

lemma foreign_names_are_refused_witness:
  "\<exists>e. access_call (\<lambda>s. Some (s, None)) (\<lambda>_. []) (policy_from_cli (\<lambda>s. Some (s, None)) (V4 [127, 0, 0, 1]) 8765 [] None) id
     \<lparr>hh_origin = None, hh_host = Some (Ok ''cafe.de'')\<rparr> = Inl e \<and> hr_status e \<in> {400, 403}"
proof (rule foreign_names_are_refused, rule disjI1, intro exI conjI)
  have name: "normalize_host ''cafe.de'' = ''cafe.de''" by code_simp
  then show "normalize_host ''cafe.de'' \<noteq> ''localhost''" "parse_ip (normalize_host ''cafe.de'') = None"
    by (simp_all add: hex_name_is_no_address)
qed (simp_all add: host_allow_from_cli_def)

end
