(* ===== verification/Session_Streams.thy ===== *)
theory Session_Streams
  imports Lifecycle Rust_Str
begin

text \<open>
  Abandoned HTTP sessions, \<open>src/src/server/http_config.rs\<close>: in pooled mode a session whose client
  drops its event stream is closed after a grace period, unless a stream is open again by then. The
  registry counts the open streams of each session. The session manager behind it belongs to a library;
  of it only which sessions exist is kept. Closing a session is awaited, and the registry drops its state
  afterwards, in a step of its own. A poisoned mutex, which needs a panic under the lock, is left out.
\<close>

section \<open>The registry\<close>

record disconnect_state =
  ds_generation :: u64
  ds_active_streams :: usize
  ds_abandoned :: "u64 option"

type_synonym disconnects = "string \<rightharpoonup> disconnect_state"

definition saturating_add1 :: "usize \<Rightarrow> usize" where
  "saturating_add1 n = (if n = - 1 then n else n + 1)"

definition saturating_sub1 :: "usize \<Rightarrow> usize" where
  "saturating_sub1 n = (if n = 0 then 0 else n - 1)"

definition disconnect_default :: disconnect_state where
  "disconnect_default = \<lparr>ds_generation = 0, ds_active_streams = 0, ds_abandoned = None\<rparr>"

definition stream_opened :: "string \<Rightarrow> disconnects \<Rightarrow> u64 \<times> disconnects" where
  "stream_opened sid m =
     (let d = (case m sid of Some d \<Rightarrow> d | None \<Rightarrow> disconnect_default);
          d = d\<lparr>ds_generation := ds_generation d + 1, ds_active_streams := saturating_add1 (ds_active_streams d),
                ds_abandoned := None\<rparr>
      in (ds_generation d, m(sid \<mapsto> d)))"

definition session_closed :: "string \<Rightarrow> disconnects \<Rightarrow> disconnects" where
  "session_closed sid m = m(sid := None)"

text \<open>The generation for which a clean-up is to be started, if any.\<close>

definition stream_closed :: "string \<Rightarrow> u64 \<Rightarrow> bool \<Rightarrow> disconnects \<Rightarrow> u64 option \<times> disconnects" where
  "stream_closed sid generation abandoned m =
     (case m sid of
        None \<Rightarrow> (None, m)
      | Some d \<Rightarrow>
          (let d = d\<lparr>ds_active_streams := saturating_sub1 (ds_active_streams d)\<rparr>;
               d = (if abandoned then d\<lparr>ds_abandoned := Some generation\<rparr> else d)
           in (if ds_active_streams d = 0 then ds_abandoned d else None, m(sid \<mapsto> d))))"

definition should_close :: "string \<Rightarrow> u64 \<Rightarrow> disconnects \<Rightarrow> bool" where
  "should_close sid generation m \<longleftrightarrow>
     (case m sid of
        Some d \<Rightarrow> ds_abandoned d = Some generation \<and> ds_active_streams d = 0
      | None \<Rightarrow> False)"

text \<open>Dropping the stream of one request says nothing about the session; dropping its standalone stream,
  or one resumed after an event of the standalone stream, does.\<close>

datatype stream_kind = RequestStream | StandaloneStream | ResumedStream string

fun close_on_drop :: "stream_kind \<Rightarrow> bool" where
  "close_on_drop RequestStream = False"
| "close_on_drop StandaloneStream = True"
| "close_on_drop (ResumedStream last_event_id) = (CHR ''/'' \<notin> set last_event_id)"

section \<open>Sessions and streams\<close>

text \<open>A stream that is served is the session, its generation and whether dropping it abandons the
  session. \<open>created\<close> are streams the manager has opened and the registry does not count yet; \<open>timers\<close>
  are the clean-ups that wait for the grace period, \<open>closing\<close> those that have passed their check and
  await the close, \<open>forgetting\<close> the closed sessions whose state is to be dropped next. \<open>lost\<close> records the
  sessions whose state was dropped. \<open>SvFinished\<close> tells whether the stream ended on its own and whether it
  was dropped inside the asynchronous runtime; outside it no clean-up can be started, and the state is
  dropped at once. \<open>SvReap\<close> and \<open>SvClose\<close> tell whether the session is gone when the awaited close returns,
  \<open>SvClose\<close> also whether the close reported success.\<close>

record stream_sys =
  ss_states :: disconnects
  ss_known :: "string set"
  ss_open :: "string set"
  ss_created :: "(string \<times> stream_kind) list"
  ss_live :: "(string \<times> u64 \<times> bool) list"
  ss_timers :: "(string \<times> u64) list"
  ss_closing :: "string list"
  ss_forgetting :: "string list"
  ss_lost :: "string set"
  ss_opened :: nat

datatype stream_event =
    SvSession string
  | SvCreated string stream_kind
  | SvOpened string stream_kind
  | SvFinished string u64 bool bool bool
  | SvCheck string u64
  | SvReap string bool
  | SvClose string bool bool
  | SvForget string

fun stream_step :: "stream_event \<Rightarrow> stream_sys \<Rightarrow> stream_sys" where
  "stream_step (SvSession sid) s =
     (if sid \<in> ss_known s then s
      else s\<lparr>ss_known := insert sid (ss_known s), ss_open := insert sid (ss_open s)\<rparr>)"
| "stream_step (SvCreated sid kind) s =
     (if sid \<in> ss_open s then s\<lparr>ss_created := (sid, kind) # ss_created s\<rparr> else s)"
| "stream_step (SvOpened sid kind) s =
     (if (sid, kind) \<in> set (ss_created s)
      then (case stream_opened sid (ss_states s) of
              (g, m) \<Rightarrow> s\<lparr>ss_states := m, ss_created := remove1 (sid, kind) (ss_created s),
                          ss_live := (sid, g, close_on_drop kind) # ss_live s, ss_opened := Suc (ss_opened s)\<rparr>)
      else s)"
| "stream_step (SvFinished sid g cod ended runtime) s =
     (if (sid, g, cod) \<in> set (ss_live s)
      then (case stream_closed sid g (\<not> ended \<and> cod) (ss_states s) of
              (cg, m) \<Rightarrow>
                (let s = s\<lparr>ss_states := m, ss_live := remove1 (sid, g, cod) (ss_live s)\<rparr> in
                 case cg of
                   None \<Rightarrow> s
                 | Some c \<Rightarrow>
                     if runtime then s\<lparr>ss_timers := (sid, c) # ss_timers s\<rparr>
                     else s\<lparr>ss_states := session_closed sid m, ss_lost := insert sid (ss_lost s)\<rparr>))
      else s)"
| "stream_step (SvCheck sid g) s =
     (if (sid, g) \<in> set (ss_timers s)
      then s\<lparr>ss_timers := remove1 (sid, g) (ss_timers s),
             ss_closing := (if should_close sid g (ss_states s) then sid # ss_closing s else ss_closing s)\<rparr>
      else s)"
| "stream_step (SvReap sid gone) s =
     (if sid \<in> set (ss_closing s)
      then s\<lparr>ss_closing := remove1 sid (ss_closing s), ss_open := (if gone then ss_open s - {sid} else ss_open s),
             ss_forgetting := sid # ss_forgetting s\<rparr>
      else s)"
| "stream_step (SvClose sid ok gone) s =
     (if sid \<in> ss_open s
      then s\<lparr>ss_open := (if gone then ss_open s - {sid} else ss_open s),
             ss_forgetting := (if ok then sid # ss_forgetting s else ss_forgetting s)\<rparr>
      else s)"
| "stream_step (SvForget sid) s =
     (if sid \<in> set (ss_forgetting s)
      then s\<lparr>ss_forgetting := remove1 sid (ss_forgetting s), ss_states := session_closed sid (ss_states s),
             ss_lost := insert sid (ss_lost s)\<rparr>
      else s)"

text \<open>The sessions that exist and whose state was kept.\<close>

abbreviation ss_tracked :: "stream_sys \<Rightarrow> string set" where
  "ss_tracked s \<equiv> ss_open s - ss_lost s"

section \<open>The count of open streams\<close>

definition gens :: "stream_sys \<Rightarrow> string \<Rightarrow> u64 list" where
  "gens s sid = map (fst \<circ> snd) (filter (\<lambda>x. fst x = sid) (ss_live s))"

definition state_ok :: "nat \<Rightarrow> u64 list \<Rightarrow> u64 set \<Rightarrow> disconnect_state option \<Rightarrow> bool" where
  "state_ok opened live timers st \<longleftrightarrow>
     (case st of
        None \<Rightarrow> live = [] \<and> timers = {}
      | Some d \<Rightarrow>
          unat (ds_active_streams d) = length live \<and> length live \<le> opened \<and> unat (ds_generation d) \<le> opened \<and>
          distinct live \<and> timers \<union> set_option (ds_abandoned d) \<subseteq> {.. ds_generation d} - set live \<and>
          set live \<subseteq> {.. ds_generation d})"

abbreviation timer_gens :: "stream_sys \<Rightarrow> string \<Rightarrow> u64 set" where
  "timer_gens s sid \<equiv> {g. (sid, g) \<in> set (ss_timers s)}"

definition stream_inv :: "stream_sys \<Rightarrow> bool" where
  "stream_inv s \<longleftrightarrow>
     ss_open s \<union> fst ` set (ss_created s) \<union> fst ` set (ss_live s) \<union> fst ` set (ss_timers s) \<union> set (ss_closing s) \<union>
       dom (ss_states s) \<subseteq> ss_known s \<and>
     (ss_opened s \<le> u64_max \<longrightarrow>
        (\<forall>sid \<in> ss_tracked s. state_ok (ss_opened s) (gens s sid) (timer_gens s sid) (ss_states s sid)))"

lemma state_ok_mono: "state_ok n live timers st \<Longrightarrow> n \<le> n' \<Longrightarrow> timers' \<subseteq> timers \<Longrightarrow> state_ok n' live timers' st"
  by (auto simp: state_ok_def split: option.splits)

lemma saturating_add1_unat: "unat n < u64_max \<Longrightarrow> unat (saturating_add1 n) = Suc (unat n)"
  by (auto simp: saturating_add1_def unat_Suc_u64 unsigned_minus_1_eq_mask mask_eq_exp_minus_1)

lemma saturating_sub1_unat: "unat (saturating_sub1 n) = unat n - 1"
  using unat_minus_one [of n] by (auto simp: saturating_sub1_def)

lemma stream_opened_ok:
  assumes "state_ok n live timers (m sid)" "n < u64_max" "stream_opened sid m = (g, m')"
  shows "state_ok (Suc n) (g # live) timers (m' sid)" "g \<notin> set live \<union> timers" "sid' \<noteq> sid \<Longrightarrow> m' sid' = m sid'"
    "\<exists>d. m' sid = Some d \<and> ds_abandoned d = None \<and> ds_generation d = g"
proof -
  let ?d = "case m sid of Some d \<Rightarrow> d | None \<Rightarrow> disconnect_default"
  have d: "unat (ds_active_streams ?d) = length live" "length live \<le> n" "unat (ds_generation ?d) \<le> n" "distinct live"
    "timers \<subseteq> {.. ds_generation ?d} - set live" "set live \<subseteq> {.. ds_generation ?d}"
    using assms(1) by (auto simp: state_ok_def disconnect_default_def split: option.splits)
  have g: "g = ds_generation ?d + 1" and m': "m' = m(sid \<mapsto> ?d\<lparr>ds_generation := g,
      ds_active_streams := saturating_add1 (ds_active_streams ?d), ds_abandoned := None\<rparr>)"
    using assms(3) by (auto simp: stream_opened_def Let_def)
  have gn: "unat g = Suc (unat (ds_generation ?d))" unfolding g using d(3) assms(2) by (simp add: unat_Suc_u64)
  have above: "x < g" if "x \<le> ds_generation ?d" for x
    using that gn by (simp add: word_le_nat_alt word_less_nat_alt)
  show fresh: "g \<notin> set live \<union> timers" using d(5,6) above by (auto dest!: subsetD)
  have "{.. ds_generation ?d} \<subseteq> {.. g}" using above by (auto simp: less_imp_le)
  with d fresh gn assms(2) show "state_ok (Suc n) (g # live) timers (m' sid)"
    unfolding m' state_ok_def by (auto simp: saturating_add1_unat)
  show "sid' \<noteq> sid \<Longrightarrow> m' sid' = m sid'" "\<exists>d. m' sid = Some d \<and> ds_abandoned d = None \<and> ds_generation d = g"
    unfolding m' by auto
qed

lemma stream_closed_ok:
  assumes "state_ok n (xs @ g # ys) timers (m sid)" "stream_closed sid g ab m = (cg, m')"
  shows "state_ok n (xs @ ys) (timers \<union> set_option cg) (m' sid)" "sid' \<noteq> sid \<Longrightarrow> m' sid' = m sid'"
    "cg \<noteq> None \<Longrightarrow> xs @ ys = []"
proof -
  from assms obtain d where d: "m sid = Some d" by (auto simp: state_ok_def split: option.splits)
  let ?e = "d\<lparr>ds_active_streams := saturating_sub1 (ds_active_streams d), ds_abandoned := (if ab then Some g else ds_abandoned d)\<rparr>"
  have m': "m' = m(sid \<mapsto> ?e)" and cg: "cg = (if ds_active_streams ?e = 0 then ds_abandoned ?e else None)"
    using assms(2) d by (auto simp: stream_closed_def Let_def)
  have ok: "unat (ds_active_streams d) = Suc (length (xs @ ys))" "Suc (length (xs @ ys)) \<le> n" "unat (ds_generation d) \<le> n"
    "distinct (xs @ ys)" "g \<notin> set (xs @ ys)" "timers \<union> set_option (ds_abandoned d) \<subseteq> {.. ds_generation d} - set (xs @ ys)"
    "set (xs @ ys) \<subseteq> {.. ds_generation d}" "g \<le> ds_generation d"
    using assms(1) d by (auto simp: state_ok_def)
  then have active: "unat (ds_active_streams ?e) = length (xs @ ys)" by (simp add: saturating_sub1_unat)
  have "set_option (ds_abandoned ?e) \<subseteq> {.. ds_generation d} - set (xs @ ys)" using ok(5,6,8) by auto
  moreover have "set_option cg \<subseteq> set_option (ds_abandoned ?e)" unfolding cg by auto
  ultimately show "state_ok n (xs @ ys) (timers \<union> set_option cg) (m' sid)"
    unfolding m' state_ok_def using ok active by auto
  show "sid' \<noteq> sid \<Longrightarrow> m' sid' = m sid'" unfolding m' by auto
  show "cg \<noteq> None \<Longrightarrow> xs @ ys = []" using active unfolding cg by (auto split: if_splits)
qed

lemma gens_remove1:
  "sid' \<noteq> sid \<Longrightarrow> map (fst \<circ> snd) (filter (\<lambda>x. fst x = sid') (remove1 (sid, g, c) live)) =
     map (fst \<circ> snd) (filter (\<lambda>x. fst x = sid') live)"
  by (simp add: filter_remove1)

lemma gens_split:
  assumes "(sid, g, c) \<in> set (ss_live s)"
  obtains A B where "gens s sid = A @ g # B"
    "map (fst \<circ> snd) (filter (\<lambda>x. fst x = sid) (remove1 (sid, g, c) (ss_live s))) = A @ B"
proof -
  obtain xs ys where "ss_live s = xs @ (sid, g, c) # ys" "(sid, g, c) \<notin> set xs"
    using split_list_first [OF assms] by blast
  then show ?thesis
    by (intro that [of "map (fst \<circ> snd) (filter (\<lambda>x. fst x = sid) xs)" "map (fst \<circ> snd) (filter (\<lambda>x. fst x = sid) ys)"])
      (simp_all add: gens_def remove1_append)
qed

lemma stream_inv_known: "stream_inv s \<Longrightarrow> sid \<notin> ss_known s \<Longrightarrow>
    gens s sid = [] \<and> timer_gens s sid = {} \<and> ss_states s sid = None"
  unfolding stream_inv_def gens_def by (auto simp: filter_empty_conv image_iff)

lemma stream_invD:
  assumes "stream_inv s"
  shows "i \<in> ss_open s \<Longrightarrow> i \<in> ss_known s" "(i, k) \<in> set (ss_created s) \<Longrightarrow> i \<in> ss_known s"
    "(i, g, c) \<in> set (ss_live s) \<Longrightarrow> i \<in> ss_known s" "(i, g) \<in> set (ss_timers s) \<Longrightarrow> i \<in> ss_known s"
    "i \<in> set (ss_closing s) \<Longrightarrow> i \<in> ss_known s" "ss_states s i = Some d \<Longrightarrow> i \<in> ss_known s"
    "ss_opened s \<le> u64_max \<Longrightarrow> i \<in> ss_tracked s \<Longrightarrow> state_ok (ss_opened s) (gens s i) (timer_gens s i) (ss_states s i)"
proof -
  show "i \<in> ss_open s \<Longrightarrow> i \<in> ss_known s" "i \<in> set (ss_closing s) \<Longrightarrow> i \<in> ss_known s"
    "ss_states s i = Some d \<Longrightarrow> i \<in> ss_known s"
    "ss_opened s \<le> u64_max \<Longrightarrow> i \<in> ss_tracked s \<Longrightarrow> state_ok (ss_opened s) (gens s i) (timer_gens s i) (ss_states s i)"
    using assms unfolding stream_inv_def by auto
  show "(i, k) \<in> set (ss_created s) \<Longrightarrow> i \<in> ss_known s" "(i, g, c) \<in> set (ss_live s) \<Longrightarrow> i \<in> ss_known s"
    "(i, g) \<in> set (ss_timers s) \<Longrightarrow> i \<in> ss_known s"
    using assms imageI [of "(i, k)" "set (ss_created s)" fst] imageI [of "(i, g, c)" "set (ss_live s)" fst]
      imageI [of "(i, g)" "set (ss_timers s)" fst]
    unfolding stream_inv_def by (simp_all add: subset_iff)
qed

lemma stream_invI:
  assumes "\<And>i. i \<in> ss_open s \<Longrightarrow> i \<in> ss_known s" "\<And>i k. (i, k) \<in> set (ss_created s) \<Longrightarrow> i \<in> ss_known s"
    "\<And>i g c. (i, g, c) \<in> set (ss_live s) \<Longrightarrow> i \<in> ss_known s" "\<And>i g. (i, g) \<in> set (ss_timers s) \<Longrightarrow> i \<in> ss_known s"
    "\<And>i. i \<in> set (ss_closing s) \<Longrightarrow> i \<in> ss_known s" "\<And>i d. ss_states s i = Some d \<Longrightarrow> i \<in> ss_known s"
    "\<And>i. ss_opened s \<le> u64_max \<Longrightarrow> i \<in> ss_tracked s \<Longrightarrow> state_ok (ss_opened s) (gens s i) (timer_gens s i) (ss_states s i)"
  shows "stream_inv s"
  using assms unfolding stream_inv_def by auto

lemma session_inv: "stream_inv s \<Longrightarrow> stream_inv (stream_step (SvSession sid) s)"
proof (cases "sid \<in> ss_known s")
  case False
  assume inv: "stream_inv s"
  have "state_ok (ss_opened s) (gens s i) (timer_gens s i) (ss_states s i)"
    if "ss_opened s \<le> u64_max" "i \<in> insert sid (ss_open s) - ss_lost s" for i
    using stream_invD(7) [OF inv that(1)] stream_inv_known [OF inv False] that(2) by (auto simp: state_ok_def)
  with False stream_invD(1-6) [OF inv] show ?thesis
    by (intro stream_invI) (auto simp: gens_def)
qed simp

lemma opened_inv:
  assumes inv: "stream_inv s"
  shows "stream_inv (stream_step (SvOpened sid kind) s)"
proof (cases "(sid, kind) \<in> set (ss_created s)")
  case True
  obtain g m where gm: "stream_opened sid (ss_states s) = (g, m)" by fastforce
  have m: "m i = ss_states s i" if "i \<noteq> sid" for i
    using gm that by (auto simp: stream_opened_def Let_def)
  have known: "sid \<in> ss_known s" using True stream_invD(2) [OF inv] by blast
  define t where "t = stream_step (SvOpened sid kind) s"
  have t: "t = s\<lparr>ss_states := m, ss_created := remove1 (sid, kind) (ss_created s),
      ss_live := (sid, g, close_on_drop kind) # ss_live s, ss_opened := Suc (ss_opened s)\<rparr>"
    using True gm by (simp add: t_def)
  show ?thesis
    unfolding t_def [symmetric]
  proof (rule stream_invI)
    fix i assume i: "ss_opened t \<le> u64_max" "i \<in> ss_tracked t"
    then have n: "ss_opened s < u64_max" and open_i: "i \<in> ss_tracked s" by (auto simp: t)
    have ok: "state_ok (ss_opened s) (gens s i) (timer_gens s i) (ss_states s i)"
      using stream_invD(7) [OF inv _ open_i] n by simp
    show "state_ok (ss_opened t) (gens t i) (timer_gens t i) (ss_states t i)"
    proof (cases "i = sid")
      case True
      with stream_opened_ok(1) [OF _ n gm, of "gens s sid" "timer_gens s sid"] ok show ?thesis by (simp add: t gens_def)
    next
      case False
      with state_ok_mono [OF ok, of "Suc (ss_opened s)" "timer_gens s i"] m show ?thesis by (simp add: t gens_def)
    qed
  next
    fix i d assume "ss_states t i = Some d"
    with m known stream_invD(6) [OF inv] show "i \<in> ss_known t" by (cases "i = sid") (auto simp: t)
  qed (use known stream_invD(1-5) [OF inv] in \<open>auto simp: t dest: notin_set_remove1\<close>)
qed (use inv in simp)

lemma drop_state_inv:
  assumes inv: "stream_inv s"
  shows "stream_inv (s\<lparr>ss_states := session_closed sid (ss_states s), ss_lost := insert sid (ss_lost s)\<rparr>)"
proof (rule stream_invI)
  let ?t = "s\<lparr>ss_states := session_closed sid (ss_states s), ss_lost := insert sid (ss_lost s)\<rparr>"
  fix i assume "ss_opened ?t \<le> u64_max" "i \<in> ss_tracked ?t"
  with stream_invD(7) [OF inv, of i] show "state_ok (ss_opened ?t) (gens ?t i) (timer_gens ?t i) (ss_states ?t i)"
    by (simp add: gens_def session_closed_def)
qed (use stream_invD(1-6) [OF inv] in \<open>auto simp: session_closed_def split: if_splits\<close>)

lemma ended_inv:
  assumes inv: "stream_inv s" and live: "(sid, g, c) \<in> set (ss_live s)"
    and cm: "stream_closed sid g ab (ss_states s) = (cg, m)"
  shows "stream_inv (s\<lparr>ss_states := m, ss_live := remove1 (sid, g, c) (ss_live s),
      ss_timers := (case cg of Some c \<Rightarrow> (sid, c) # ss_timers s | None \<Rightarrow> ss_timers s)\<rparr>)" (is "stream_inv ?t")
proof -
  obtain A B where AB: "gens s sid = A @ g # B"
    "map (fst \<circ> snd) (filter (\<lambda>x. fst x = sid) (remove1 (sid, g, c) (ss_live s))) = A @ B"
    using gens_split [OF live] .
  have m: "m i = ss_states s i" if "i \<noteq> sid" for i
    using cm that by (auto simp: stream_closed_def Let_def split: option.splits)
  have known: "sid \<in> ss_known s" using live stream_invD(3) [OF inv] by blast
  define t where "t = ?t"
  show ?thesis
    unfolding t_def [symmetric]
  proof (rule stream_invI)
    fix i assume "ss_opened t \<le> u64_max" "i \<in> ss_tracked t"
    then have ok: "state_ok (ss_opened s) (gens s i) (timer_gens s i) (ss_states s i)"
      using stream_invD(7) [OF inv] by (simp add: t_def)
    show "state_ok (ss_opened t) (gens t i) (timer_gens t i) (ss_states t i)"
    proof (cases "i = sid")
      case True
      have "timer_gens t sid = timer_gens s sid \<union> set_option cg" "gens t sid = A @ B"
        using AB by (auto simp: t_def gens_def split: option.splits)
      then show ?thesis using True stream_closed_ok(1) [OF _ cm] ok AB(1) by (simp add: t_def)
    next
      case False
      have "timer_gens t i = timer_gens s i" "gens t i = gens s i"
        using False by (auto simp: t_def gens_def gens_remove1 split: option.splits)
      with ok m [OF False] show ?thesis by (simp add: t_def)
    qed
  next
    fix i d assume "ss_states t i = Some d"
    with m known stream_invD(6) [OF inv] show "i \<in> ss_known t" by (cases "i = sid") (auto simp: t_def)
  next
    fix i g' c' assume "(i, g', c') \<in> set (ss_live t)"
    with stream_invD(3) [OF inv] show "i \<in> ss_known t" by (auto simp: t_def dest: notin_set_remove1)
  qed (use known stream_invD(1,2,4,5) [OF inv] in \<open>auto simp: t_def split: option.splits\<close>)
qed

lemma shrink_inv:
  assumes inv: "stream_inv s" and "ss_open t \<subseteq> ss_open s" "ss_lost t = ss_lost s" "ss_known t = ss_known s"
    "ss_live t = ss_live s" "set (ss_timers t) \<subseteq> set (ss_timers s)" "\<And>i k. (i, k) \<in> set (ss_created t) \<Longrightarrow> i \<in> ss_known s"
    "set (ss_closing t) \<subseteq> ss_known s" "ss_states t = ss_states s" "ss_opened t = ss_opened s"
  shows "stream_inv t"
proof (rule stream_invI)
  fix i assume i: "ss_opened t \<le> u64_max" "i \<in> ss_tracked t"
  have "timer_gens t i \<subseteq> timer_gens s i" "gens t i = gens s i" using assms(5,6) by (auto simp: gens_def)
  moreover have "state_ok (ss_opened s) (gens s i) (timer_gens s i) (ss_states s i)"
    using stream_invD(7) [OF inv, of i] i assms(2,3,10) by auto
  ultimately show "state_ok (ss_opened t) (gens t i) (timer_gens t i) (ss_states t i)"
    using state_ok_mono [of "ss_opened s" _ "timer_gens s i" _ "ss_opened s" "timer_gens t i"] assms(9,10) by simp
next
  fix i g assume "(i, g) \<in> set (ss_timers t)"
  then have "(i, g) \<in> set (ss_timers s)" using assms(6) by blast
  then show "i \<in> ss_known t" using assms(4) stream_invD(4) [OF inv] by simp
qed (use assms(2-9) stream_invD(1,3,6) [OF inv] in \<open>auto simp: subset_iff\<close>)

text \<open>The end of a stream counts it down; then its clean-up is started or, outside the runtime, the
  state is dropped.\<close>

lemma finished_inv:
  assumes inv: "stream_inv s"
  shows "stream_inv (stream_step (SvFinished sid g c ended runtime) s)"
proof (cases "(sid, g, c) \<in> set (ss_live s)")
  case True
  obtain cg m where cm: "stream_closed sid g (\<not> ended \<and> c) (ss_states s) = (cg, m)" by fastforce
  let ?t = "s\<lparr>ss_states := m, ss_live := remove1 (sid, g, c) (ss_live s)\<rparr>"
  note ended = ended_inv [OF inv True cm]
  have t: "stream_inv ?t"
    using ended by (rule shrink_inv) (use stream_invD(2,5) [OF ended] in \<open>auto split: option.splits\<close>)
  show ?thesis
  proof (cases cg)
    case None
    with t True cm show ?thesis by simp
  next
    case (Some c')
    with ended drop_state_inv [OF t, of sid] True cm show ?thesis by (cases runtime) simp_all
  qed
qed (use inv in simp)

lemma stream_step_inv:
  assumes inv: "stream_inv s"
  shows "stream_inv (stream_step ev s)"
proof (cases ev)
  case (SvCheck sid g)
  have "set (remove1 (sid, g) (ss_timers s)) \<subseteq> set (ss_timers s)" by (rule set_remove1_subset)
  with SvCheck stream_invD(2,4,5) [OF inv] show ?thesis by (intro shrink_inv [OF inv]) (auto split: if_splits)
next
  case (SvCreated sid kind)
  from SvCreated stream_invD(1-5) [OF inv] show ?thesis by (intro shrink_inv [OF inv]) (auto split: if_splits)
next
  case (SvReap sid gone)
  from SvReap stream_invD(2,5) [OF inv] show ?thesis
    by (intro shrink_inv [OF inv]) (auto split: if_splits dest: set_mp [OF set_remove1_subset])
next
  case (SvClose sid ok gone)
  from SvClose stream_invD(2,5) [OF inv] show ?thesis by (intro shrink_inv [OF inv]) (auto split: if_splits)
next
  case (SvForget sid)
  have "stream_inv (s\<lparr>ss_forgetting := remove1 sid (ss_forgetting s)\<rparr>)"
    using stream_invD(2,5) [OF inv] by (intro shrink_inv [OF inv]) auto
  with drop_state_inv [of "s\<lparr>ss_forgetting := remove1 sid (ss_forgetting s)\<rparr>" sid] inv SvForget show ?thesis by simp
qed (simp_all only: session_inv [OF inv] opened_inv [OF inv] finished_inv [OF inv])

interpretation streams: lifecycle stream_step stream_inv
  by unfold_locales (rule stream_step_inv)

definition stream_start :: stream_sys where
  "stream_start = \<lparr>ss_states = Map.empty, ss_known = {}, ss_open = {}, ss_created = [], ss_live = [], ss_timers = [],
     ss_closing = [], ss_forgetting = [], ss_lost = {}, ss_opened = 0\<rparr>"

lemma stream_start_inv: "stream_inv stream_start"
  by (auto simp: stream_inv_def stream_start_def)

lemmas streams_run_inv = streams.run_inv [OF stream_start_inv]

text \<open>The clean-up of a generation that was superseded.\<close>

definition superseded :: "stream_sys \<Rightarrow> string \<Rightarrow> u64 \<Rightarrow> bool" where
  "superseded s sid g \<longleftrightarrow> sid \<in> ss_known s \<and> (sid \<in> ss_tracked s \<longrightarrow> g \<notin> set (gens s sid) \<and>
     (\<exists>d. ss_states s sid = Some d \<and> g \<le> ds_generation d \<and> ds_abandoned d \<noteq> Some g))"

lemma opened_mono: "ss_opened s \<le> ss_opened (stream_step ev s)"
  by (cases ev) (auto simp: Let_def split: prod.splits option.splits)

lemma opened_run_mono: "ss_opened s \<le> ss_opened (fold stream_step evs s)"
  by (induction evs arbitrary: s) (auto intro: order_trans [OF opened_mono])

lemma superseded_opened:
  assumes inv: "stream_inv s" and sup: "superseded s i g" and n: "ss_opened (stream_step (SvOpened sid kind) s) \<le> u64_max"
  shows "superseded (stream_step (SvOpened sid kind) s) i g"
proof (cases "(sid, kind) \<in> set (ss_created s) \<and> i \<in> ss_tracked s")
  case True
  obtain g' m where gm: "stream_opened sid (ss_states s) = (g', m)" by fastforce
  have n': "ss_opened s < u64_max" using n True gm by simp
  from sup True obtain d where d: "g \<notin> set (gens s i)" "ss_states s i = Some d" "g \<le> ds_generation d"
    unfolding superseded_def by blast
  show ?thesis
  proof (cases "i = sid")
    case False
    have "m i = ss_states s i" using gm False by (auto simp: stream_opened_def Let_def)
    with sup True gm False show ?thesis by (auto simp: superseded_def gens_def)
  next
    case sid: True
    have ok: "state_ok (ss_opened s) (gens s sid) (timer_gens s sid) (ss_states s sid)"
      using stream_invD(7) [OF inv] n' True sid by simp
    obtain d' where d': "m sid = Some d'" "ds_abandoned d' = None" "ds_generation d' = g'"
      using stream_opened_ok(4) [OF ok n' gm] by blast
    have g': "g' = ds_generation d + 1" using gm d(2) sid by (auto simp: stream_opened_def Let_def)
    have "unat (ds_generation d) < u64_max" using ok d(2) sid n' by (simp add: state_ok_def)
    then have "unat g' = Suc (unat (ds_generation d))" unfolding g' by (simp add: unat_Suc_u64)
    then have "g < g'" using d(3) by (simp add: word_le_nat_alt word_less_nat_alt)
    with d d' sid True gm sup show ?thesis by (auto simp: superseded_def gens_def less_imp_le)
  qed
qed (use sup in \<open>auto simp: superseded_def gens_def split: prod.splits\<close>)

lemma superseded_ended:
  assumes sup: "superseded s i g" and live: "(sid, g', c) \<in> set (ss_live s)"
    and cm: "stream_closed sid g' ab (ss_states s) = (cg, m)"
  shows "superseded (s\<lparr>ss_states := m, ss_live := remove1 (sid, g', c) (ss_live s)\<rparr>) i g"
proof (cases "i = sid \<and> i \<in> ss_tracked s")
  case False
  have "m i = ss_states s i" "gens (s\<lparr>ss_live := remove1 (sid, g', c) (ss_live s)\<rparr>) i = gens s i" if "i \<noteq> sid"
    using cm that by (auto simp: gens_def gens_remove1 stream_closed_def Let_def split: option.splits)
  with sup live cm False show ?thesis by (cases "i = sid") (auto simp: superseded_def gens_def)
next
  case sid: True
  obtain A B where AB: "gens s sid = A @ g' # B"
    "map (fst \<circ> snd) (filter (\<lambda>x. fst x = sid) (remove1 (sid, g', c) (ss_live s))) = A @ B"
    using gens_split [OF live] .
  with sup sid obtain d where d: "ss_states s sid = Some d" "g \<le> ds_generation d" "ds_abandoned d \<noteq> Some g"
    "g \<notin> set (A @ g' # B)"
    unfolding superseded_def by auto
  then have "\<exists>d'. m sid = Some d' \<and> g \<le> ds_generation d' \<and> ds_abandoned d' \<noteq> Some g"
    using cm by (auto simp: stream_closed_def Let_def)
  with sup sid d cm AB show ?thesis by (auto simp: superseded_def gens_def)
qed

lemma superseded_finished:
  assumes sup: "superseded s i g"
  shows "superseded (stream_step (SvFinished sid g' c ended runtime) s) i g"
proof (cases "(sid, g', c) \<in> set (ss_live s)")
  case True
  obtain cg m where cm: "stream_closed sid g' (\<not> ended \<and> c) (ss_states s) = (cg, m)" by fastforce
  from superseded_ended [OF sup True cm] True cm show ?thesis
    by (cases cg; cases runtime) (auto simp: superseded_def gens_def session_closed_def)
qed (use sup in simp)

lemma superseded_step:
  assumes "stream_inv s" "superseded s i g" "ss_opened (stream_step ev s) \<le> u64_max"
  shows "superseded (stream_step ev s) i g"
proof (cases ev)
  case (SvOpened sid kind)
  with superseded_opened assms show ?thesis by simp
next
  case (SvFinished sid g' c ended runtime)
  with superseded_finished assms show ?thesis by simp
qed (use assms in \<open>auto simp: superseded_def gens_def session_closed_def\<close>)

lemma superseded_run:
  "stream_inv s \<Longrightarrow> superseded s i g \<Longrightarrow> ss_opened (fold stream_step evs s) \<le> u64_max \<Longrightarrow>
     superseded (fold stream_step evs s) i g"
proof (induction evs arbitrary: s)
  case (Cons ev evs)
  have "ss_opened (stream_step ev s) \<le> u64_max"
    using opened_run_mono [of "stream_step ev s" evs] Cons.prems(3) by simp
  with Cons superseded_step stream_step_inv show ?case by simp
qed simp

text \<open>C33: the clean-up of an abandoned session, cut at its awaits and in whatever order streams are opened
  and end, sessions are closed and timers fire, for a session that exists and whose state the registry has
  not dropped: when a clean-up passes its check, no stream of that session is counted as open; and a stream
  that is counted while the clean-up still waits makes the check of that clean-up fail for good, also when
  the session is abandoned again, which schedules a clean-up of its own. A stream that is counted between
  the check and the close is too late: the session is closed under it. This is for fewer than \<open>2 ^ 64\<close>
  streams.\<close>

theorem cleanup_spares_connected_sessions:
  assumes "s = fold stream_step evs stream_start" "ss_opened s \<le> u64_max" "sid \<in> ss_open s" "sid \<notin> ss_lost s"
  shows "(should_close sid g (ss_states s) \<longrightarrow> sid \<notin> fst ` set (ss_live s)) \<and>
    (\<forall>evs1 evs2 kind r. evs = evs1 @ SvOpened sid kind # evs2 \<longrightarrow> r = fold stream_step evs1 stream_start \<longrightarrow>
       (sid, kind) \<in> set (ss_created r) \<longrightarrow> (sid, g) \<in> set (ss_timers r) \<longrightarrow> \<not> should_close sid g (ss_states s)) \<and>
    (\<forall>kind s'. sid \<in> set (ss_closing s) \<longrightarrow> (sid, kind) \<in> set (ss_created s) \<longrightarrow>
       s' = fold stream_step [SvOpened sid kind, SvReap sid True] s \<longrightarrow>
       sid \<in> fst ` set (ss_live s') \<and> sid \<notin> ss_open s')"
proof (intro conjI impI allI)
  have ok: "state_ok (ss_opened s) (gens s sid) (timer_gens s sid) (ss_states s sid)"
    using stream_invD(7) [OF streams_run_inv [of evs]] assms by simp
  assume "should_close sid g (ss_states s)"
  with ok have "gens s sid = []" by (auto simp: should_close_def state_ok_def split: option.splits)
  then show "sid \<notin> fst ` set (ss_live s)" by (auto simp: gens_def filter_empty_conv image_iff)
next
  fix evs1 evs2 kind r
  assume evs: "evs = evs1 @ SvOpened sid kind # evs2" and r: "r = fold stream_step evs1 stream_start"
    and created: "(sid, kind) \<in> set (ss_created r)" and timer: "(sid, g) \<in> set (ss_timers r)"
  let ?t = "stream_step (SvOpened sid kind) r"
  have inv: "stream_inv r" unfolding r by (rule streams_run_inv)
  have st: "s = fold stream_step evs2 ?t" using assms(1) evs r by simp
  have n: "ss_opened ?t \<le> u64_max" using opened_run_mono [of ?t evs2] assms(2) st by simp
  obtain g' m where gm: "stream_opened sid (ss_states r) = (g', m)" by fastforce
  have "superseded ?t sid g"
  proof (cases "sid \<in> ss_tracked r")
    case True
    have n': "ss_opened r < u64_max" using n created gm by simp
    have ok: "state_ok (ss_opened r) (gens r sid) (timer_gens r sid) (ss_states r sid)"
      using stream_invD(7) [OF inv] n' True by simp
    obtain d' where d': "m sid = Some d'" "ds_abandoned d' = None" "ds_generation d' = g'"
      using stream_opened_ok(4) [OF ok n' gm] by blast
    have "g' \<noteq> g" "g \<notin> set (gens r sid)" "g \<le> g'"
      using stream_opened_ok(1,2) [OF ok n' gm] d' timer by (auto simp: state_ok_def)
    with d' created gm stream_invD(1) [OF inv, of sid] True show ?thesis by (auto simp: superseded_def gens_def)
  qed (use created gm stream_invD(2) [OF inv] in \<open>auto simp: superseded_def\<close>)
  then have "superseded s sid g"
    using superseded_run [OF stream_step_inv [OF inv], of "SvOpened sid kind" sid g evs2] assms(2) unfolding st by blast
  with assms(3,4) show "\<not> should_close sid g (ss_states s)"
    by (auto simp: superseded_def should_close_def)
next
  fix kind s'
  assume "sid \<in> set (ss_closing s)" "(sid, kind) \<in> set (ss_created s)"
    "s' = fold stream_step [SvOpened sid kind, SvReap sid True] s"
  then show "sid \<in> fst ` set (ss_live s')" "sid \<notin> ss_open s'" by (simp_all split: prod.splits)
qed

lemma cleanup_spares_connected_sessions_witness:
  "\<not> should_close ''a'' 1 (ss_states (fold stream_step
      ([SvSession ''a'', SvCreated ''a'' StandaloneStream, SvOpened ''a'' StandaloneStream, SvFinished ''a'' 1 True False True,
        SvCreated ''a'' RequestStream] @ SvOpened ''a'' RequestStream # [SvFinished ''a'' 2 False True True]) stream_start))"
  by (rule cleanup_spares_connected_sessions [OF refl, THEN conjunct2, THEN conjunct1, rule_format, OF _ _ _ refl refl])
    (simp_all add: stream_start_def stream_opened_def disconnect_default_def saturating_add1_def stream_closed_def
      saturating_sub1_def)

end
