(* ===== verification/Spec2Isabelle.thy ===== *)
theory Spec2Isabelle
  imports Civil Task_Contract Router_Props Dispatch_Props Pool_Contract Operations Insn_Search Callgraph Spill
    Cli_Props Pooled_Tools Tool_Filter Schema Http_Access Session_Streams
begin

text \<open>
  A verification library of ida-rs-cli, a command-line client, a daemon and an MCP server around the
  IDA disassembler's database library. All source paths are below \<open>src/src\<close>.

  \<^bold>\<open>The program.\<close> A command of the client (\<open>cli.rs\<close>) becomes one line of JSON on a Unix socket. The
  router (\<open>daemon/router.rs\<close>) answers the requests about targets and sends every other one to the
  worker process of the selected target; a worker (\<open>daemon/worker.rs\<close>) has one database, queues the
  requests of its connections for its main thread, reads their parameters and calls a handler
  (\<open>ida/handlers\<close>). The client prints the answer, or saves it to a file when it is large
  (\<open>spill.rs\<close>). The MCP server (\<open>server\<close>) offers the same handlers as tools. It filters them
  (\<open>server/tool_filter.rs\<close>), keeps a registry of background tasks (\<open>server/task.rs\<close>) and a history of
  operations (\<open>server/operation.rs\<close>), and runs the handlers either on the loop that owns the database
  (\<open>ida/loop_impl.rs\<close>), which opens databases under a lock file (\<open>ida/handlers/database.rs\<close>,
  \<open>ida/lock.rs\<close>), or through a pool of child processes leased to sessions (\<open>ida/pool.rs\<close>). Over
  HTTP it checks the names and origins of requests (\<open>server/http_access.rs\<close>), guards the shared
  database with a close token (\<open>ida/worker.rs\<close>) and cleans up abandoned sessions
  (\<open>server/http_config.rs\<close>).

  \<^bold>\<open>The theories.\<close>
  \<^item> \<open>Prelude\<close>, \<open>Rust_Str\<close>, \<open>Json\<close>, \<open>Hash_Map\<close>: results, integers at their width, strings as their
    UTF-8 bytes with the operations of \<open>str\<close> that are used, JSON values, \<open>HashMap\<close> as a list of
    entries in any iteration order. \<open>Lifecycle\<close> is the locale of a component whose operations keep
    an invariant; the task registry, the router, the pool, the lock files, the database
    loop, the shared server and the session streams interpret it. \<open>Civil\<close>: the two calendar computations, inverse to each other and the Gregorian
    calendar.
  \<^item> \<open>Params\<close>, \<open>Dispatch\<close>, \<open>Dispatch_Props\<close>: the readers of request parameters, what each operation of
    a worker reads and calls, the bounded queue and the main loop. Handlers are a record of functions
    there, each of which may panic. When they return, every request is answered or is one of the malformed
    byte strings that panic; the last section of this theory puts a handler of \<open>Listing\<close> in place and
    shows a request that stops the worker through it.
  \<^item> \<open>Protocol\<close>: messages, the capped line reader over arbitrary reads, the connection loops of router
    and worker. \<open>Paths\<close>, \<open>Selectors\<close>, \<open>Targets\<close>: paths as \<open>std::path\<close> reads them, the naming of
    targets as a locale that target manager and router interpret, the target manager.
  \<^item> \<open>Router\<close>, \<open>Router_Props\<close>: the router's whole requests, and the events they consist of, which interleave: no
    two targets share a file or a database, and every worker process has one owner, a target, the load in
    progress or a stop that is not finished; a failed load leaves nothing behind; a database can be loaded
    again while its old worker is still being stopped.
  \<^item> \<open>Cli_Args\<close>, \<open>Cli\<close>, \<open>Cli_Props\<close>: the commands with their arguments, their requests, the exchange
    with the daemon, start, stop and status. \<open>command_effect\<close> states what a command means without JSON;
    the request the client builds and the dispatch of the worker together do exactly that, and the client
    reads the response that the router made for its request.
  \<^item> \<open>Spill\<close>: saved results and the clean-up of old ones.
  \<^item> \<open>Tasks\<close>, \<open>Task_Props\<close>, \<open>Task_Contract\<close>: the task registry, its invariant, admission, privacy,
    cancellation and retention. \<open>Operations\<close>: the operation history.
  \<^item> \<open>Errors\<close>, \<open>Pool\<close>, \<open>Pool_Session\<close>, \<open>Pool_Props\<close>, \<open>Pool_Contract\<close>: tool errors, the pool and the sessions
    that lease from it. Every operation is a run of events. The limits hold after each, and a worker that was
    taken out of its slot waits to be closed, was closed once, or its retirement was dropped. A call that
    ends badly retires its worker; a shutdown closes the workers that run.
  \<^item> \<open>Ida_Db\<close>, \<open>Listing\<close>, \<open>Search\<close>, \<open>Insn_Search\<close>, \<open>Controlflow\<close>, \<open>Callgraph\<close>: the handlers over the
    record \<open>ida_db\<close> of what the library returns. Paging lists everything once, for functions when
    the buffer of a page can be allocated; the chunked byte search,
    the path search and the call graph agree with reference definitions.
  \<^item> \<open>Mcp_Lock\<close>, \<open>Lock_Props\<close>, \<open>Database\<close>, \<open>Ida_Loop\<close>, \<open>Loop_Props\<close>: lock files over a model of names,
    files and record locks; opening a database; the loop. The loop's effect on the lock files is a
    run of the lock events of its process, so that an open database is locked against all others
    when lock operations do not overlap; a run in which they do has two holders.
  \<^item> \<open>Tool_Filter\<close>: the registry of tools, the filter and the server that applies it. \<open>Schema\<close>: the
    clean-up of the schemas of tool arguments, with the value of every keyword afterwards.
  \<^item> \<open>Tool_Args\<close>, \<open>Tool_Requests\<close>, \<open>Mcp_Tools\<close>, \<open>Mcp_Tool_Props\<close>: the readers of tool arguments, the
    argument structures of \<open>server/requests.rs\<close> and the tools of \<open>server/mod.rs\<close>. A tool is a plan: it
    refuses its arguments or names worker calls and makes its answer from theirs. Addresses are read
    in every form, and the calls stay within bounds for every request of all tools but four, which pass the
    client's limit on.
  \<^item> \<open>Ida_Calls\<close>: the requests of \<open>ida/request.rs\<close>, the method of \<open>ida/worker.rs\<close> that sends each and
    how long it waits, and the handler that the arm of the loop calls for it.
  \<^item> \<open>Tool_Decode\<close>, \<open>Child_Calls\<close>, \<open>Child_Props\<close>, \<open>Pooled_Tools\<close>: how a tool call's arguments become its
    argument structure, with the other names of \<open>server/requests.rs\<close>; the methods of \<open>ida/pool.rs\<close> that
    call a child's tool for a worker call, with the backend of \<open>ida/worker.rs\<close> that chooses them; and the
    composition: parent, pool, child and back give the answer of a local server, for calls that succeed and
    every tool but two.
  \<^item> \<open>Close_Token\<close>: the token that lets a session close the shared database, with the open and close
    tools over the database loop, cut at their awaits: called one after the other they protect the opener,
    overlapping they can leave a database without an owner. \<open>Http_Access\<close>: the checks of \<open>Host\<close> and \<open>Origin\<close>, with the parser of
    addresses of the standard library. \<open>Session_Streams\<close>: the registry of a session's streams and the
    clean-up of abandoned sessions, as events.

  \<^bold>\<open>State and interleaving.\<close> State is a record that operations take and return. Where operations of
  several threads or processes interleave (router, pool, lock files, session streams), an operation is cut
  into events where it releases a lock and where it awaits something: a load into check, allocation, start,
  boot, handshake and commit; a close and a shutdown into the removal of the targets and the end of each
  stop; the retirement of a worker into taking it out of its slot and closing it, or losing the future in
  between; the clean-up of a session into its check, the close and the dropping of its state. A run is a
  \<open>fold\<close> over a list of events, and what is claimed of runs holds for every interleaving of them. The scans
  of the pool are one event each: they hold the lock of its list throughout, and a slot that is released or
  retired meanwhile under its own lock is seen late. Where a property is about operations
  that follow each other without overlapping (the lock operations under an open database, the tools over
  the shared database), it says so. Clocks, random identifiers, file-system answers and what other
  processes send are arguments.

  \<^bold>\<open>Fuel and termination.\<close> Loops are structural or have a termination proof. Fuel occurs in string
  functions that drop at least one byte per round, with one more than the length of the string; in
  the address loops of \<open>Listing\<close>, \<open>Search\<close>, \<open>Insn_Search\<close> and \<open>Controlflow\<close>, where addresses increase
  below an end that fits 64 bits; and in the call graph, where the number of nodes is bounded. Each
  is shown to be enough where a property depends on it. A loop that waits for the outside world is
  given the list of what it sees. Arithmetic wraps as in release builds.

  \<^bold>\<open>Not modelled.\<close> The database library, JSON text, SHA-256, sockets and processes are parameters.
  The tools that report progress, run as background tasks, open a shared cache, run a script or
  describe the tools (\<open>server/mod.rs\<close>), the calls of \<open>ida/pool.rs\<close> for those tools,
  the start-up of the processes, the settings of the HTTP library, the preparation of a
  private IDA profile in \<open>ida/loop_impl.rs\<close> and \<open>ida/registry_isolation.rs\<close>, the signal handler behind
  \<open>crash_guard.rs\<close>, the dyld cache code of \<open>dsc.rs\<close> and the handlers that only pass a call to the
  library are left out.
\<close>

section \<open>Dispatch and handlers together\<close>

text \<open>The limit of a function listing reaches \<open>Vec::with_capacity\<close> as the client wrote it, so one
  request with a huge limit stops the worker that serves it: the request is not answered, and neither
  are the ones queued behind it.\<close>

theorem oversized_page_stops_worker:
  assumes "\<forall>off lim flt idb. h_call h (H_list_functions off lim flt) idb =
      map_option (\<lambda>r. (map_err tool_error_message (map_ok print r), idb))
        (handle_list_functions alloc lower idb (unat off) (unat lim) flt)"
    and "wk_running wk" "wk_queue wk = WRequest req ticket # q"
    and "rq_op req = ''functions''" "ISIZE_MAX < FUNCTION_INFO_BYTES * unat (param_usize (rq_params req) ''limit'' 100)"
    and "tm_resolve (wk_mgr wk) (rq_target req) = Ok tid" "get_idb (wk_mgr wk) tid = Ok (Some db)"
  shows "\<not> wk_running (main_loop_step env info_json h ida wk)
    \<and> wk_replied (main_loop_step env info_json h ida wk) = wk_replied wk"
proof -
  have pos: "unat (param_usize (rq_params req) ''limit'' 100) \<noteq> 0" using assms(5) by (metis mult_0_right not_less0)
  have "analysis_call ''functions'' p = Plan (Ok (H_list_functions (param_usize p ''offset'' 0)
      (param_usize p ''limit'' 100) (get_str p ''filter'')))" for p
    by (simp add: analysis_call_def call_functions_def)
  moreover have "handle_list_functions alloc lower (Some db) off (unat (param_usize (rq_params req) ''limit'' 100)) flt = None"
    for off flt
    using assms(5) pos by (simp add: handle_list_functions_def list_functions_def with_capacity_def)
  ultimately have "dispatch_inner env info_json h ida req (wk_mgr wk) = (None, wk_mgr wk)"
    using assms(1,4,6,7) by (simp add: dispatch_inner_def dispatch_analysis_def run_op_def known_op_def)
  then show ?thesis using assms(2,3) by (simp add: main_loop_step_def dispatch_request_def)
qed

definition listing_handlers :: "ida_db handlers" where
  "listing_handlers =
     \<lparr>h_call = (\<lambda>c idb. case c of
          Call name [AUsize off, AUsize lim, flt] \<Rightarrow>
            map_option (\<lambda>r. (map_err tool_error_message (map_ok (\<lambda>_. JNull) r), idb))
              (handle_list_functions (\<lambda>_. True) id idb (unat off) (unat lim) (case flt of ASome (AStr s) \<Rightarrow> Some s | _ \<Rightarrow> None))
        | _ \<Rightarrow> Some (Ok JNull, idb)),
      h_text = (\<lambda>_ idb. Some (Ok [], idb)), h_resolve_address = (\<lambda>_ _. Some (Err [])), h_analysis_status = (\<lambda>_. JNull)\<rparr>"

definition busy_worker :: "ida_db worker_sys" where
  "busy_worker =
     \<lparr>wk_mgr = \<lparr>tm_targets = [(''t1'', \<lparr>tr_idb = Some empty_db, tr_info = info0\<rparr>)], tm_active_id = Some ''t1'', tm_next_id = 2\<rparr>,
      wk_queue = [WRequest \<lparr>rq_id = [], rq_op = ''functions'', rq_params = JObject [(''limit'', json_of_nat (2 ^ 60))],
        rq_target = None\<rparr> 0],
      wk_running = True, wk_accepted = [0], wk_replied = []\<rparr>"

definition listing_ida :: "ida_db idalib" where
  "listing_ida = \<lparr>il_open = (\<lambda>_ _. Ok empty_db), il_filetype = (\<lambda>_. ''ELF''), il_processor = (\<lambda>_. ''ARM''),
     il_is_64bit = (\<lambda>_. True), il_is_32bit_exactly = (\<lambda>_. False), il_function_count = (\<lambda>_. 0)\<rparr>"

theorem oversized_page_stops_worker_witness:
  "\<not> wk_running (main_loop_step env0 (\<lambda>_. JNull) listing_handlers listing_ida busy_worker)"
proof -
  have handlers: "\<forall>off lim flt idb. h_call listing_handlers (H_list_functions off lim flt) idb =
      map_option (\<lambda>r. (map_err tool_error_message (map_ok (\<lambda>_. JNull) r), idb))
        (handle_list_functions (\<lambda>_. True) id idb (unat off) (unat lim) flt)"
  proof (intro allI)
    fix off lim and flt :: "string option" and idb
    show "h_call listing_handlers (H_list_functions off lim flt) idb =
      map_option (\<lambda>r. (map_err tool_error_message (map_ok (\<lambda>_. JNull) r), idb))
        (handle_list_functions (\<lambda>_. True) id idb (unat off) (unat lim) flt)"
      by (cases flt) (simp_all add: listing_handlers_def)
  qed
  have "tm_resolve (wk_mgr busy_worker) None = Ok ''t1''" "get_idb (wk_mgr busy_worker) ''t1'' = Ok (Some empty_db)"
    by (simp_all add: busy_worker_def tm_resolve_def selects_active_def get_idb_def hm_get_def)
  moreover have "unat (param_usize (JObject [(''limit'', json_of_nat (2 ^ 60))]) ''limit'' 100) = 2 ^ 60"
    by (simp add: param_usize_def get_u64_def json_of_nat_def)
  ultimately show ?thesis
    using oversized_page_stops_worker [OF handlers, of busy_worker
        "\<lparr>rq_id = [], rq_op = ''functions'', rq_params = JObject [(''limit'', json_of_nat (2 ^ 60))], rq_target = None\<rparr>"
        0 "[]" "''t1''" empty_db]
    by (simp add: busy_worker_def ISIZE_MAX_def FUNCTION_INFO_BYTES_def)
qed

end
